(* ===== verification/Prelude.thy ===== *)
theory Prelude
  imports Main "HOL-Library.Word"
begin

text \<open>
  Shared vocabulary of the development: the machine types of the C++ code, exceptions as values,
  the two loop shapes of the source (a loop that an exception aborts, and a loop that catches
  per entry), decimal printing of integers, and generic lemmas on lists and words that several
  components use.
\<close>

section \<open>Machine types\<close>

type_synonym u8 = "8 word"
type_synonym u32 = "32 word"
type_synonym u64 = "64 word"
type_synonym bytes = "8 word list"

section \<open>Exceptions as values\<close>

text \<open>
  A C++ function that may throw returns \<open>cpp_error + 'a\<close>. The constructors are the exception
  classes the source throws or lets escape: \<open>std::invalid_argument\<close>, \<open>std::runtime_error\<close> and
  \<open>std::out_of_range\<close> (with the message), a \<open>simdjson::simdjson_error\<close>, a \<open>nlohmann\<close>
  exception, and the two transport exceptions of \<open>RestApi.h\<close>.
\<close>

datatype cpp_error =
    Invalid_Argument string
  | Runtime_Error string
  | Out_Of_Range string
  | Simdjson_Error
  | Nlohmann_Error
  | Transport_Error string
  | Rate_Limit_Error string

type_synonym 'a outcome = "cpp_error + 'a"

fun bindE :: "'e + 'a \<Rightarrow> ('a \<Rightarrow> 'e + 'b) \<Rightarrow> 'e + 'b" where
  "bindE (Inl e) f = Inl e"
| "bindE (Inr x) f = f x"

definition of_option :: "'e \<Rightarrow> 'a option \<Rightarrow> 'e + 'a" where
  "of_option e x = (case x of None \<Rightarrow> Inl e | Some y \<Rightarrow> Inr y)"

lemma bindE_Inr_iff [simp]:
  "bindE m f = Inr y \<longleftrightarrow> (\<exists>x. m = Inr x \<and> f x = Inr y)"
  by (cases m) auto

lemma bindE_Inl_iff:
  "bindE m f = Inl e \<longleftrightarrow> m = Inl e \<or> (\<exists>x. m = Inr x \<and> f x = Inl e)"
  by (cases m) auto

lemma bindE_assoc: "bindE (bindE m f) g = bindE m (\<lambda>x. bindE (f x) g)"
  by (cases m) auto

lemma bindE_cong [fundef_cong]:
  "m = m' \<Longrightarrow> (\<And>x. m' = Inr x \<Longrightarrow> f x = g x) \<Longrightarrow> bindE m f = bindE m' g"
  by (cases m') auto

lemma of_option_Inr_iff [simp]: "of_option e x = Inr y \<longleftrightarrow> x = Some y"
  by (cases x) (auto simp: of_option_def)

lemma of_option_Inl_iff [simp]: "of_option e x = Inl e' \<longleftrightarrow> x = None \<and> e' = e"
  by (cases x) (auto simp: of_option_def)

section \<open>The two loop shapes of the source\<close>

text \<open>
  \<open>for (x : xs) out.push_back(f(x))\<close>, where an exception in \<open>f\<close> leaves the loop.
\<close>

fun mapE :: "('a \<Rightarrow> 'e + 'b) \<Rightarrow> 'a list \<Rightarrow> 'e + 'b list" where
  "mapE f [] = Inr []"
| "mapE f (x # xs) = bindE (f x) (\<lambda>y. bindE (mapE f xs) (\<lambda>ys. Inr (y # ys)))"

text \<open>
  \<open>for (x : xs) try { emit(f(x)); } catch (e) { log(e); }\<close>: a failing entry is skipped and the
  loop goes on.
\<close>

fun catchMap :: "('a \<Rightarrow> 'e + 'b) \<Rightarrow> 'a list \<Rightarrow> 'b list" where
  "catchMap f [] = []"
| "catchMap f (x # xs) =
     (case f x of Inl e \<Rightarrow> catchMap f xs | Inr y \<Rightarrow> y # catchMap f xs)"

text \<open>A loop over \<open>xs\<close> that updates a state and may throw.\<close>

fun foldE :: "('a \<Rightarrow> 's \<Rightarrow> 'e + 's) \<Rightarrow> 'a list \<Rightarrow> 's \<Rightarrow> 'e + 's" where
  "foldE f [] s = Inr s"
| "foldE f (x # xs) s = bindE (f x s) (foldE f xs)"

lemma foldE_invariant:
  assumes "foldE f xs s = Inr s'" and "P s"
    and "\<And>x t t'. x \<in> set xs \<Longrightarrow> P t \<Longrightarrow> f x t = Inr t' \<Longrightarrow> P t'"
  shows "P s'"
  using assms
proof (induction xs arbitrary: s)
  case (Cons x xs)
  then obtain t where t: "f x s = Inr t" "foldE f xs t = Inr s'" by auto
  have "P t" by (rule Cons.prems(3) [OF _ Cons.prems(2) t(1)]) simp
  then show ?case using Cons.IH [OF t(2)] Cons.prems(3) by auto
qed simp

lemma mapE_Inr_iff:
  "mapE f xs = Inr ys \<longleftrightarrow> list_all2 (\<lambda>x y. f x = Inr y) xs ys"
  by (induction xs arbitrary: ys) (auto simp: list_all2_Cons1)

lemma mapE_length: "mapE f xs = Inr ys \<Longrightarrow> length ys = length xs"
  by (auto simp: mapE_Inr_iff dest: list_all2_lengthD)

lemma mapE_nth: "mapE f xs = Inr ys \<Longrightarrow> i < length xs \<Longrightarrow> f (xs ! i) = Inr (ys ! i)"
  by (auto simp: mapE_Inr_iff dest: list_all2_nthD)

lemma mapE_Inl_iff: "(\<exists>e. mapE f xs = Inl e) \<longleftrightarrow> (\<exists>x\<in>set xs. \<exists>e. f x = Inl e)"
proof (induction xs)
  case Nil
  then show ?case by simp
next
  case (Cons x xs)
  then show ?case by (cases "f x"; cases "mapE f xs") auto
qed

lemma mapE_append:
  "mapE f (xs @ ys) = bindE (mapE f xs) (\<lambda>as. bindE (mapE f ys) (\<lambda>bs. Inr (as @ bs)))"
  by (induction xs) (auto simp: bindE_assoc intro!: bindE_cong, (cases "mapE f ys"; simp))

lemma catchMap_append: "catchMap f (xs @ ys) = catchMap f xs @ catchMap f ys"
  by (induction xs) (auto split: sum.splits)

lemma catchMap_Nil_iff: "catchMap f xs = [] \<longleftrightarrow> (\<forall>x\<in>set xs. \<exists>e. f x = Inl e)"
  by (induction xs) (auto split: sum.splits)

lemma set_catchMap: "set (catchMap f xs) = {y. \<exists>x\<in>set xs. f x = Inr y}"
  by (induction xs) (auto split: sum.splits)

lemma length_catchMap_le: "length (catchMap f xs) \<le> length xs"
  by (induction xs) (auto split: sum.splits)

lemma catchMap_all_Inr:
  "(\<And>x. x \<in> set xs \<Longrightarrow> f x = Inr (g x)) \<Longrightarrow> catchMap f xs = map g xs"
  by (induction xs) auto

section \<open>Decimal printing of integers\<close>

text \<open>\<open>std::to_string\<close> on an integer: decimal digits, with a minus sign when negative.\<close>

definition digit_char :: "nat \<Rightarrow> char" where
  "digit_char d = char_of (48 + d)"

fun dec_of_nat :: "nat \<Rightarrow> string" where
  "dec_of_nat n = (if n < 10 then [digit_char n] else dec_of_nat (n div 10) @ [digit_char (n mod 10)])"

declare dec_of_nat.simps [simp del]

definition dec_of_int :: "int \<Rightarrow> string" where
  "dec_of_int i = (if i < 0 then CHR ''-'' # dec_of_nat (nat (- i)) else dec_of_nat (nat i))"

definition nat_of_dec :: "string \<Rightarrow> nat" where
  "nat_of_dec s = foldl (\<lambda>n c. 10 * n + (of_char c - 48)) 0 s"

lemma of_char_digit_char: "d < 10 \<Longrightarrow> (of_char (digit_char d) :: nat) = 48 + d"
  by (simp add: digit_char_def)

lemma nat_of_dec_snoc: "nat_of_dec (s @ [c]) = 10 * nat_of_dec s + (of_char c - 48)"
  by (simp add: nat_of_dec_def)

lemma nat_of_dec_of_nat [simp]: "nat_of_dec (dec_of_nat n) = n"
proof (induction n rule: dec_of_nat.induct)
  case (1 n)
  show ?case
  proof (cases "n < 10")
    case True
    then show ?thesis
      by (subst dec_of_nat.simps) (simp add: nat_of_dec_def of_char_digit_char)
  next
    case False
    with 1 have "nat_of_dec (dec_of_nat (n div 10)) = n div 10" by simp
    with False show ?thesis
      by (subst dec_of_nat.simps) (simp add: nat_of_dec_snoc of_char_digit_char)
  qed
qed

lemma dec_of_nat_inject [simp]: "dec_of_nat m = dec_of_nat n \<longleftrightarrow> m = n"
  by (metis nat_of_dec_of_nat)

lemma dec_of_nat_digits: "c \<in> set (dec_of_nat n) \<Longrightarrow> \<exists>d<10. c = digit_char d"
proof (induction n rule: dec_of_nat.induct)
  case (1 n)
  show ?case
  proof (cases "n < 10")
    case True
    with 1(2) have "c = digit_char n" by (simp add: dec_of_nat.simps)
    with True show ?thesis by blast
  next
    case False
    with 1(2) have "c \<in> set (dec_of_nat (n div 10)) \<or> c = digit_char (n mod 10)"
      by (subst (asm) dec_of_nat.simps) auto
    moreover have "n mod 10 < 10" by simp
    ultimately show ?thesis using False 1(1) by blast
  qed
qed

lemma digit_char_not_minus: "d < 10 \<Longrightarrow> digit_char d \<noteq> CHR ''-''"
proof
  assume d: "d < 10" and "digit_char d = CHR ''-''"
  then have "(of_char (digit_char d) :: nat) = of_char (CHR ''-'')" by simp
  with d show False by (simp add: of_char_digit_char)
qed

lemma dec_of_nat_Nil [simp]: "dec_of_nat n \<noteq> []"
  by (subst dec_of_nat.simps) simp

lemma dec_of_nat_no_minus: "dec_of_nat n \<noteq> CHR ''-'' # s"
proof
  assume "dec_of_nat n = CHR ''-'' # s"
  then have "CHR ''-'' \<in> set (dec_of_nat n)" by simp
  then show False using dec_of_nat_digits digit_char_not_minus by metis
qed

lemma dec_of_int_inject [simp]: "dec_of_int i = dec_of_int j \<longleftrightarrow> i = j"
  using dec_of_nat_no_minus [of "nat i"] dec_of_nat_no_minus [of "nat j"]
  by (auto simp: dec_of_int_def split: if_splits) (metis)+

section \<open>Lists and chunks\<close>

lemma append_eq_length_conv:
  "length xs = length ys \<Longrightarrow> xs @ us = ys @ vs \<longleftrightarrow> xs = ys \<and> us = vs"
  by simp

end
