(* ===== verification/Doubles.thy ===== *)
theory Doubles
  imports Prelude "HOL-Library.Log_Nat"
begin

text \<open>
  The part of IEEE-754 \<open>double\<close> arithmetic and of the C++ library that the source uses: the
  values, rounding to nearest with ties to even, \<open>std::from_chars\<close>, \<open>std::stod\<close>,
  \<open>snprintf("%.8f")\<close>, \<open>std::to_string\<close>, subtraction, multiplication, comparison and \<open>std::llround\<close>. All of it is
  integer arithmetic on significands and exponents, so it evaluates.
\<close>

section \<open>Values\<close>

text \<open>
  \<open>Finite s m e\<close> is \<open>(-1)^s * m * 2^e\<close> (the zero significand keeps its sign); the other values
  are the infinities and the quiet NaNs.
\<close>

datatype double = Finite bool nat int | Infinite bool | Not_A_Number bool

definition is_binary64 :: "nat \<Rightarrow> int \<Rightarrow> bool" where
  "is_binary64 m e \<longleftrightarrow> m < 2 ^ 53 \<and> - 1074 \<le> e \<and> e \<le> 971"

text \<open>The literal \<open>0.0\<close>.\<close>

definition d_zero :: double where
  "d_zero = Finite False 0 0"

text \<open>Magnitudes as ratios of naturals: \<open>m * 2^e = num / den\<close>.\<close>

definition mag_num :: "nat \<Rightarrow> int \<Rightarrow> nat" where
  "mag_num m e = m * 2 ^ nat e"

definition mag_den :: "int \<Rightarrow> nat" where
  "mag_den e = 2 ^ nat (- e)"

lemma mag_den_pos [simp]: "0 < mag_den e"
  by (simp add: mag_den_def)

section \<open>Rounding\<close>

text \<open>\<open>rne a b\<close> is the integer nearest to \<open>a / b\<close>, ties to even.\<close>

definition rne :: "nat \<Rightarrow> nat \<Rightarrow> nat" where
  "rne a b =
     (let q = a div b; r = a mod b
      in if 2 * r < b then q else if b < 2 * r then Suc q else if even q then q else Suc q)"

lemma rne_bounds:
  assumes "0 < b"
  shows "2 * (rne a b * b) \<le> 2 * a + b" and "2 * a \<le> 2 * (rne a b * b) + b"
proof -
  have a: "a = a div b * b + a mod b" by simp
  have m: "a mod b < b" using assms by simp
  define q r where "q = a div b" and "r = a mod b"
  have eq: "a = q * b + r" and r: "r < b" using a m by (simp_all add: q_def r_def)
  have "rne a b = q \<and> 2 * r \<le> b \<or> rne a b = Suc q \<and> b \<le> 2 * r"
    by (auto simp: rne_def Let_def q_def r_def)
  then have "2 * (rne a b * b) \<le> 2 * a + b \<and> 2 * a \<le> 2 * (rne a b * b) + b"
    using eq r by auto
  then show "2 * (rne a b * b) \<le> 2 * a + b" and "2 * a \<le> 2 * (rne a b * b) + b" by auto
qed

lemma rne_unique:
  assumes "0 < b" and "2 * a < 2 * (n * b) + b" and "2 * (n * b) < 2 * a + b"
  shows "rne a b = n"
proof (rule ccontr)
  assume ne: "rne a b \<noteq> n"
  note B = rne_bounds [OF assms(1), of a]
  consider "Suc (rne a b) \<le> n" | "Suc n \<le> rne a b" using ne by linarith
  then show False
  proof cases
    case 1
    then have "(rne a b) * b + b \<le> n * b"
      by (metis mult_Suc add.commute mult_le_mono1)
    with B assms show False by linarith
  next
    case 2
    then have "n * b + b \<le> rne a b * b"
      by (metis mult_Suc add.commute mult_le_mono1)
    with B assms show False by linarith
  qed
qed

lemma rne_exact [simp]: "0 < b \<Longrightarrow> rne (n * b) b = n"
  by (rule rne_unique) auto

lemma rne_le: "0 < b \<Longrightarrow> a \<le> n * b \<Longrightarrow> rne a b \<le> n"
proof (rule ccontr)
  assume b: "0 < b" and a: "a \<le> n * b" and "\<not> rne a b \<le> n"
  then have "Suc n \<le> rne a b" by simp
  then have "n * b + b \<le> rne a b * b"
    by (metis mult_Suc add.commute mult_le_mono1)
  with rne_bounds(1) [OF b, of a] a b show False by linarith
qed

text \<open>
  \<open>round_exp a b\<close> is the exponent of the binade of \<open>a / b\<close>, at least the subnormal one;
  \<open>round_ratio a b\<close> the significand and exponent of the nearest double (exponent unbounded above:
  the callers check for overflow).
\<close>

definition round_exp :: "nat \<Rightarrow> nat \<Rightarrow> int" where
  "round_exp a b =
     (let k = int (floorlog 2 a) - int (floorlog 2 b);
          e = (if b * 2 ^ nat k \<le> a * 2 ^ nat (- k) then k - 52 else k - 53)
      in max (- 1074) e)"

definition round_ratio :: "nat \<Rightarrow> nat \<Rightarrow> nat \<times> int" where
  "round_ratio a b =
     (if a = 0 then (0, 0)
      else let e = round_exp a b;
               m = rne (a * 2 ^ nat (- e)) (b * 2 ^ nat e)
           in if m = 2 ^ 53 then (2 ^ 52, e + 1) else (m, e))"

text \<open>A signed ratio to a double; \<open>None\<close> is overflow.\<close>

definition to_double :: "bool \<Rightarrow> nat \<Rightarrow> nat \<Rightarrow> double option" where
  "to_double s a b =
     (case round_ratio a b of (m, e) \<Rightarrow> if 971 < e then None else Some (Finite s m e))"

definition to_double_or_inf :: "bool \<Rightarrow> nat \<Rightarrow> nat \<Rightarrow> double" where
  "to_double_or_inf s a b =
     (case to_double s a b of None \<Rightarrow> Infinite s | Some d \<Rightarrow> d)"

section \<open>Decimal strings\<close>

fun is_digit :: "char \<Rightarrow> bool" where
  "is_digit c = ((48::nat) \<le> of_char c \<and> of_char c \<le> (57::nat))"

text \<open>
  The decimal grammar shared by \<open>strtod\<close> and \<open>from_chars\<close>: digits, an optional fraction, an
  optional exponent. The result is the digits read as one natural, the power of ten it is scaled
  by; \<open>None\<close> when there is no digit. Characters after the longest match are ignored.
\<close>

definition scan_exponent :: "string \<Rightarrow> int" where
  "scan_exponent s =
     (case s of
        [] \<Rightarrow> 0
      | c # t \<Rightarrow>
          if c = CHR ''e'' \<or> c = CHR ''E'' then
            (let (neg, u) = (case t of [] \<Rightarrow> (False, [])
                             | d # v \<Rightarrow> if d = CHR ''-'' then (True, v)
                                        else if d = CHR ''+'' then (False, v) else (False, t));
                 ds = takeWhile is_digit u
             in if neg then - int (nat_of_dec ds) else int (nat_of_dec ds))
          else 0)"

definition scan_decimal :: "string \<Rightarrow> (nat \<times> int) option" where
  "scan_decimal s =
     (let ip = takeWhile is_digit s; rest = dropWhile is_digit s;
          (fp, rest') = (case rest of [] \<Rightarrow> ([], [])
                         | c # t \<Rightarrow> if c = CHR ''.'' then (takeWhile is_digit t, dropWhile is_digit t)
                                    else ([], rest))
      in if ip @ fp = [] then None
         else Some (nat_of_dec (ip @ fp), scan_exponent rest' - int (length fp)))"

text \<open>\<open>d * 10^k\<close> as a ratio, then as a double. Underflow to zero of a non-zero decimal counts as
  out of range, as \<open>ERANGE\<close> and \<open>errc::result_out_of_range\<close> do.\<close>

definition decimal_to_double :: "bool \<Rightarrow> nat \<Rightarrow> int \<Rightarrow> double option" where
  "decimal_to_double s d k =
     (case round_ratio (d * 10 ^ nat k) (10 ^ nat (- k)) of (m, e) \<Rightarrow>
        if 971 < e \<or> (m = 0 \<and> d \<noteq> 0) then None else Some (Finite s m e))"

definition lower_char :: "char \<Rightarrow> char" where
  "lower_char c =
     (if (65::nat) \<le> of_char c \<and> of_char c \<le> (90::nat) then char_of ((of_char c :: nat) + 32) else c)"

definition starts_with_ci :: "string \<Rightarrow> string \<Rightarrow> bool" where
  "starts_with_ci p s \<longleftrightarrow> map lower_char (take (length p) s) = p"

text \<open>
  \<open>std::from_chars\<close> on a \<open>double\<close>: an optional minus sign (no plus, no leading space), then
  \<open>inf\<close>, \<open>nan\<close> or a decimal. \<open>None\<close>: the target is left unmodified.
\<close>

definition from_chars :: "string \<Rightarrow> double option" where
  "from_chars str =
     (let (neg, s) = (case str of [] \<Rightarrow> (False, [])
                      | c # t \<Rightarrow> if c = CHR ''-'' then (True, t) else (False, str))
      in if starts_with_ci ''inf'' s then Some (Infinite neg)
         else if starts_with_ci ''nan'' s then Some (Not_A_Number neg)
         else case scan_decimal s of
                None \<Rightarrow> None
              | Some (d, k) \<Rightarrow> decimal_to_double neg d k)"

text \<open>
  The hexadecimal grammar of \<open>strtod\<close> after \<open>0x\<close>: hexadecimal digits, an optional fraction, an
  optional binary exponent. The result is the digits read as one natural and the power of two it is
  scaled by; \<open>None\<close> when there is no digit.
\<close>

definition hex_digit :: "char \<Rightarrow> nat option" where
  "hex_digit c =
     (let n = of_char (lower_char c) :: nat
      in if 48 \<le> n \<and> n \<le> 57 then Some (n - 48)
         else if 97 \<le> n \<and> n \<le> 102 then Some (n - 87) else None)"

definition is_hex_digit :: "char \<Rightarrow> bool" where
  "is_hex_digit c \<longleftrightarrow> hex_digit c \<noteq> None"

definition nat_of_hex :: "string \<Rightarrow> nat" where
  "nat_of_hex s = foldl (\<lambda>n c. 16 * n + (case hex_digit c of None \<Rightarrow> 0 | Some d \<Rightarrow> d)) 0 s"

definition scan_hex :: "string \<Rightarrow> (nat \<times> int) option" where
  "scan_hex s =
     (let ip = takeWhile is_hex_digit s; rest = dropWhile is_hex_digit s;
          (fp, rest') = (case rest of [] \<Rightarrow> ([], [])
                         | c # t \<Rightarrow> if c = CHR ''.'' then (takeWhile is_hex_digit t, dropWhile is_hex_digit t)
                                    else ([], rest));
          ex = (case rest' of [] \<Rightarrow> 0
                | c # t \<Rightarrow> if lower_char c = CHR ''p'' then scan_exponent (CHR ''e'' # t) else 0)
      in if ip @ fp = [] then None else Some (nat_of_hex (ip @ fp), ex - 4 * int (length fp)))"

definition binary_to_double :: "bool \<Rightarrow> nat \<Rightarrow> int \<Rightarrow> double option" where
  "binary_to_double s d k =
     (case round_ratio (d * 2 ^ nat k) (2 ^ nat (- k)) of (m, e) \<Rightarrow>
        if 971 < e \<or> (m = 0 \<and> d \<noteq> 0) then None else Some (Finite s m e))"

text \<open>
  \<open>std::stod\<close>: leading white space and a sign, then \<open>inf\<close>, \<open>nan\<close>, a hexadecimal or a decimal number, anything
  after it ignored. No conversion throws \<open>invalid_argument\<close>, a range error \<open>out_of_range\<close>.
\<close>

definition is_space :: "char \<Rightarrow> bool" where
  "is_space c \<longleftrightarrow> c = CHR '' '' \<or> (9 \<le> (of_char c :: nat) \<and> (of_char c :: nat) \<le> 13)"

definition strtod_magnitude :: "bool \<Rightarrow> string \<Rightarrow> double outcome" where
  "strtod_magnitude neg s =
     (let hex = (if starts_with_ci ''0x'' s then scan_hex (drop 2 s) else None);
          range = of_option (Out_Of_Range ''stod'')
      in case hex of
           Some (d, k) \<Rightarrow> range (binary_to_double neg d k)
         | None \<Rightarrow>
             (case scan_decimal s of
                None \<Rightarrow> Inl (Invalid_Argument ''stod'')
              | Some (d, k) \<Rightarrow> range (decimal_to_double neg d k)))"

definition stod :: "string \<Rightarrow> double outcome" where
  "stod str =
     (let (neg, s) = (case dropWhile is_space str of [] \<Rightarrow> (False, [])
                      | c # t \<Rightarrow> if c = CHR ''-'' then (True, t)
                                 else if c = CHR ''+'' then (False, t) else (False, c # t))
      in if starts_with_ci ''inf'' s then Inr (Infinite neg)
         else if starts_with_ci ''nan'' s then Inr (Not_A_Number neg)
         else strtod_magnitude neg s)"

text \<open>\<open>"%.pf"\<close>: the exact value to p decimals, ties to even; \<open>std::to_string\<close> is \<open>"%f"\<close>, 6 decimals.\<close>

definition pad_left :: "nat \<Rightarrow> char \<Rightarrow> string \<Rightarrow> string" where
  "pad_left n c s = replicate (n - length s) c @ s"

definition fixed_units :: "nat \<Rightarrow> nat \<Rightarrow> int \<Rightarrow> nat" where
  "fixed_units p m e = rne (mag_num m e * 10 ^ p) (mag_den e)"

definition fixed_string :: "nat \<Rightarrow> nat \<Rightarrow> string" where
  "fixed_string p n = dec_of_nat (n div 10 ^ p) @ ''.'' @ pad_left p (CHR ''0'') (dec_of_nat (n mod 10 ^ p))"

definition sign_string :: "bool \<Rightarrow> string" where
  "sign_string s = (if s then ''-'' else [])"

fun print_fixed :: "nat \<Rightarrow> double \<Rightarrow> string" where
  "print_fixed p (Finite s m e) = sign_string s @ fixed_string p (fixed_units p m e)"
| "print_fixed p (Infinite s) = sign_string s @ ''inf''"
| "print_fixed p (Not_A_Number s) = sign_string s @ ''nan''"

definition double_to_string :: "double \<Rightarrow> string" where
  "double_to_string x = print_fixed 6 x"

section \<open>Arithmetic\<close>

text \<open>
  \<open>abs_diff_ratio\<close> is \<open>|x - y|\<close> of two finite values, exactly, over the common denominator of
  both; \<open>fabs(x - y) \<ge> c\<close> rounds that difference first.
\<close>

definition signed_num :: "bool \<Rightarrow> nat \<Rightarrow> int" where
  "signed_num s n = (if s then - int n else int n)"

definition abs_diff_num :: "bool \<Rightarrow> nat \<Rightarrow> int \<Rightarrow> bool \<Rightarrow> nat \<Rightarrow> int \<Rightarrow> nat" where
  "abs_diff_num s m e s' m' e' =
     nat \<bar>signed_num s (mag_num m e * mag_den e') - signed_num s' (mag_num m' e' * mag_den e)\<bar>"

definition abs_diff_den :: "int \<Rightarrow> int \<Rightarrow> nat" where
  "abs_diff_den e e' = mag_den e * mag_den e'"

definition mag_ge :: "nat \<times> int \<Rightarrow> nat \<times> int \<Rightarrow> bool" where
  "mag_ge x y \<longleftrightarrow>
     mag_num (fst y) (snd y) * mag_den (snd x) \<le> mag_num (fst x) (snd x) * mag_den (snd y)"

text \<open>The condition \<open>std::abs(x - y) >= 1e-12\<close>, where \<open>1e-12\<close> is the double nearest to it.\<close>

fun abs_diff_ge_1em12 :: "double \<Rightarrow> double \<Rightarrow> bool" where
  "abs_diff_ge_1em12 (Finite s m e) (Finite s' m' e') =
     mag_ge (round_ratio (abs_diff_num s m e s' m' e') (abs_diff_den e e')) (round_ratio 1 (10 ^ 12))"
| "abs_diff_ge_1em12 (Not_A_Number _) _ = False"
| "abs_diff_ge_1em12 _ (Not_A_Number _) = False"
| "abs_diff_ge_1em12 (Infinite s) (Infinite s') = (s \<noteq> s')"
| "abs_diff_ge_1em12 (Infinite _) (Finite _ _ _) = True"
| "abs_diff_ge_1em12 (Finite _ _ _) (Infinite _) = True"

text \<open>\<open>x * 1e6\<close> (\<open>1e6\<close> is exact) and \<open>std::llround\<close>: half away from zero. \<open>None\<close> is a value
  outside \<open>long long\<close>, where \<open>llround\<close> has an unspecified result.\<close>

fun mul_1e6 :: "double \<Rightarrow> double" where
  "mul_1e6 (Finite s m e) = to_double_or_inf s (mag_num m e * 10 ^ 6) (mag_den e)"
| "mul_1e6 (Infinite s) = Infinite s"
| "mul_1e6 (Not_A_Number s) = Not_A_Number s"

fun llround :: "double \<Rightarrow> int option" where
  "llround (Finite s m e) =
     (let n = (2 * mag_num m e + mag_den e) div (2 * mag_den e); i = signed_num s n
      in if - (2 ^ 63) \<le> i \<and> i < 2 ^ 63 then Some i else None)"
| "llround (Infinite _) = None"
| "llround (Not_A_Number _) = None"

end
