(* ===== verification/Request_Types.thy ===== *)
theory Request_Types
  imports Doubles
begin

text \<open>
  \<open>include/hyperliquid/types/RequestTypes.h\<close> and \<open>include/hyperliquid/config/Config.h\<close>: the
  enumerations with their wire names, the endpoints of each environment, the request structures
  of every exchange action, the outcome asset encodings and the client order id format.
  Constructors carry the enumeration's initials (\<open>Ep_\<close> for \<open>RestEndpointType\<close>, \<open>Sub_\<close> for
  \<open>SubscriptionType\<close>), record fields the structure's. A \<open>switch\<close> over a full enumeration has an
  unreachable \<open>default: throw\<close>; only \<open>SubscriptionType::Unknown\<close> reaches one.
\<close>

section \<open>Environments and endpoints\<close>

datatype Environment =
    Env_Mainnet | Env_Testnet

record Endpoint =
  host :: string
  port :: string
  path :: string

fun toWsEndpoint :: "Environment \<Rightarrow> Endpoint" where
  "toWsEndpoint Env_Mainnet =
     \<lparr>host = ''api.hyperliquid.xyz'', port = ''443'', path = ''/ws''\<rparr>"
| "toWsEndpoint Env_Testnet =
     \<lparr>host = ''api.hyperliquid-testnet.xyz'', port = ''443'', path = ''/ws''\<rparr>"

fun toInfoEndpoint :: "Environment \<Rightarrow> Endpoint" where
  "toInfoEndpoint Env_Mainnet =
     \<lparr>host = ''api.hyperliquid.xyz'', port = ''443'', path = ''/info''\<rparr>"
| "toInfoEndpoint Env_Testnet =
     \<lparr>host = ''api.hyperliquid-testnet.xyz'', port = ''443'', path = ''/info''\<rparr>"

section \<open>Configuration\<close>

record Wallet =
  accountAddress :: string
  privateKey :: string

record ApiConfig =
  env :: Environment
  wallet :: "Wallet option"
  dexes :: "string list"
  skipBuildingSymbolMap :: bool
  cfg_vaultAddress :: "string option"
  validateJson :: bool

definition default_config :: ApiConfig where
  "default_config =
     \<lparr>env = Env_Testnet, wallet = None, dexes = [], skipBuildingSymbolMap = False,
      cfg_vaultAddress = None, validateJson = True\<rparr>"

section \<open>Subscription types\<close>

datatype SubscriptionType =
    Sub_L2Book | Sub_Bbo | Sub_Trades | Sub_Candle | Sub_AllMids | Sub_Notification
  | Sub_WebData3 | Sub_TwapStates | Sub_ClearingHouseState | Sub_OpenOrders | Sub_OrderUpdates
  | Sub_UserEvents | Sub_UserFills | Sub_UserFundings | Sub_UserNonFundingLedgerUpdates
  | Sub_ActiveAssetCtx | Sub_ActiveAssetData | Sub_UserTwapSliceFills | Sub_UserTwapHistory
  | Sub_SpotState | Sub_AllDexsClearinghouseState | Sub_AllDexsAssetCtxs | Sub_FastAssetCtxs
  | Sub_OutcomeMetaUpdates | Sub_Unknown

fun toString_Subscription :: "SubscriptionType \<Rightarrow> string outcome" where
  "toString_Subscription Sub_L2Book = Inr ''l2Book''"
| "toString_Subscription Sub_Bbo = Inr ''bbo''"
| "toString_Subscription Sub_Trades = Inr ''trades''"
| "toString_Subscription Sub_Candle = Inr ''candle''"
| "toString_Subscription Sub_AllMids = Inr ''allMids''"
| "toString_Subscription Sub_Notification = Inr ''notification''"
| "toString_Subscription Sub_WebData3 = Inr ''webData3''"
| "toString_Subscription Sub_TwapStates = Inr ''twapStates''"
| "toString_Subscription Sub_ClearingHouseState = Inr ''clearinghouseState''"
| "toString_Subscription Sub_OpenOrders = Inr ''openOrders''"
| "toString_Subscription Sub_OrderUpdates = Inr ''orderUpdates''"
| "toString_Subscription Sub_UserEvents = Inr ''userEvents''"
| "toString_Subscription Sub_UserFills = Inr ''userFills''"
| "toString_Subscription Sub_UserFundings = Inr ''userFundings''"
| "toString_Subscription Sub_UserNonFundingLedgerUpdates = Inr ''userNonFundingLedgerUpdates''"
| "toString_Subscription Sub_ActiveAssetCtx = Inr ''activeAssetCtx''"
| "toString_Subscription Sub_ActiveAssetData = Inr ''activeAssetData''"
| "toString_Subscription Sub_UserTwapSliceFills = Inr ''userTwapSliceFills''"
| "toString_Subscription Sub_UserTwapHistory = Inr ''userTwapHistory''"
| "toString_Subscription Sub_SpotState = Inr ''spotState''"
| "toString_Subscription Sub_AllDexsClearinghouseState = Inr ''allDexsClearinghouseState''"
| "toString_Subscription Sub_AllDexsAssetCtxs = Inr ''allDexsAssetCtxs''"
| "toString_Subscription Sub_FastAssetCtxs = Inr ''fastAssetCtxs''"
| "toString_Subscription Sub_OutcomeMetaUpdates = Inr ''outcomeMetaUpdates''"
| "toString_Subscription Sub_Unknown = Inl (Invalid_Argument ''Unknown SubscriptionType'')"

definition stringToSubscriptionType :: "string \<Rightarrow> SubscriptionType" where
  "stringToSubscriptionType type = (
     if type = ''l2Book'' then Sub_L2Book else
     if type = ''bbo'' then Sub_Bbo else
     if type = ''trades'' then Sub_Trades else
     if type = ''candle'' then Sub_Candle else
     if type = ''allMids'' then Sub_AllMids else
     if type = ''notification'' then Sub_Notification else
     if type = ''webData3'' then Sub_WebData3 else
     if type = ''twapStates'' then Sub_TwapStates else
     if type = ''clearinghouseState'' then Sub_ClearingHouseState else
     if type = ''openOrders'' then Sub_OpenOrders else
     if type = ''orderUpdates'' then Sub_OrderUpdates else
     if type = ''userEvents'' then Sub_UserEvents else
     if type = ''userFills'' then Sub_UserFills else
     if type = ''userFundings'' then Sub_UserFundings else
     if type = ''userNonFundingLedgerUpdates'' then Sub_UserNonFundingLedgerUpdates else
     if type = ''activeAssetCtx'' then Sub_ActiveAssetCtx else
     if type = ''activeAssetData'' then Sub_ActiveAssetData else
     if type = ''userTwapSliceFills'' then Sub_UserTwapSliceFills else
     if type = ''userTwapHistory'' then Sub_UserTwapHistory else
     if type = ''spotState'' then Sub_SpotState else
     if type = ''allDexsClearinghouseState'' then Sub_AllDexsClearinghouseState else
     if type = ''allDexsAssetCtxs'' then Sub_AllDexsAssetCtxs else
     if type = ''fastAssetCtxs'' then Sub_FastAssetCtxs else
     if type = ''outcomeMetaUpdates'' then Sub_OutcomeMetaUpdates else
     Sub_Unknown)"

section \<open>REST endpoint types\<close>

datatype TradingInfo =
    TI_Meta | TI_MetaAndAssetCtxs | TI_AllMids | TI_L2Book | TI_CandleSnapshot | TI_RecentTrades
  | TI_OpenOrders | TI_UserFills | TI_UserFillsByTime | TI_OrderStatus | TI_ClearinghouseState
  | TI_UserRateLimit | TI_PerpDexs | TI_FrontendOpenOrders | TI_HistoricalOrders
  | TI_UserTwapSliceFills | TI_UserTwapSliceFillsByTime | TI_TwapHistory | TI_ActiveAssetData

datatype AccountInfo =
    AI_SubAccounts | AI_UserFees | AI_MaxBuilderFee | AI_ApprovedBuilders | AI_ExchangeStatus
  | AI_VaultDetails | AI_UserVaultEquities | AI_Portfolio | AI_Referral | AI_UserRole
  | AI_PerpsAtOpenInterestCap | AI_PredictedFundings | AI_PerpAnnotation | AI_PerpCategories
  | AI_PerpConciseAnnotations | AI_AllPerpMetas | AI_PerpDexLimits | AI_PerpDexStatus
  | AI_PerpDeployAuctionStatus | AI_UserFunding | AI_UserNonFundingLedgerUpdates
  | AI_FundingHistory

datatype SpotInfo =
    SI_OutcomeMeta | SI_SettledOutcome | SI_SpotMeta | SI_SpotMetaAndAssetCtxs
  | SI_SpotClearinghouseState | SI_SpotDeployState | SI_SpotPairDeployAuctionStatus
  | SI_TokenDetails | SI_Delegations | SI_DelegatorSummary | SI_DelegatorHistory
  | SI_DelegatorRewards | SI_BorrowLendUserState | SI_BorrowLendReserveState
  | SI_AllBorrowLendReserveStates | SI_UserBorrowLendInterest | SI_Liquidatable
  | SI_UserDexAbstractionState | SI_UserAbstraction

datatype OrderAction =
    OA_PlaceOrder | OA_CancelOrder | OA_CancelOrderByCloid | OA_ScheduleCancel | OA_ModifyOrder
  | OA_BatchModifyOrder | OA_UpdateLeverage | OA_UpdateIsolatedMargin | OA_ApproveAgent
  | OA_AgentSetAbstraction | OA_TwapOrder | OA_TwapCancel | OA_VaultTransfer
  | OA_Hip3LiquidatorTransfer | OA_CreateSubAccount | OA_SubAccountTransfer | OA_CreateVault

datatype FundsAction =
    FA_BorrowLend | FA_SpotDeployRegisterToken2 | FA_SpotDeployUserGenesis
  | FA_SpotDeployGenesis | FA_SpotDeployRegisterSpot | FA_SpotDeployRegisterHyperliquidity
  | FA_PerpDeployRegisterAsset2 | FA_UsdClassTransfer | FA_SendAsset | FA_UsdSend
  | FA_SpotSend | FA_Withdraw3 | FA_ApproveBuilderFee | FA_UserSetAbstraction | FA_SetReferrer
  | FA_CDeposit | FA_CWithdraw | FA_TokenDelegate | FA_SendToEvmWithData
  | FA_UserDexAbstraction | FA_UserPortfolioMargin | FA_AgentSendAsset
  | FA_ReserveRequestWeight | FA_Noop

datatype RestEndpointType =
    EpTrading TradingInfo | EpAccount AccountInfo | EpSpot SpotInfo | EpOrder OrderAction | EpFunds FundsAction

abbreviation "Ep_Meta \<equiv> EpTrading TI_Meta"
abbreviation "Ep_MetaAndAssetCtxs \<equiv> EpTrading TI_MetaAndAssetCtxs"
abbreviation "Ep_AllMids \<equiv> EpTrading TI_AllMids"
abbreviation "Ep_L2Book \<equiv> EpTrading TI_L2Book"
abbreviation "Ep_CandleSnapshot \<equiv> EpTrading TI_CandleSnapshot"
abbreviation "Ep_RecentTrades \<equiv> EpTrading TI_RecentTrades"
abbreviation "Ep_OpenOrders \<equiv> EpTrading TI_OpenOrders"
abbreviation "Ep_UserFills \<equiv> EpTrading TI_UserFills"
abbreviation "Ep_UserFillsByTime \<equiv> EpTrading TI_UserFillsByTime"
abbreviation "Ep_OrderStatus \<equiv> EpTrading TI_OrderStatus"
abbreviation "Ep_ClearinghouseState \<equiv> EpTrading TI_ClearinghouseState"
abbreviation "Ep_UserRateLimit \<equiv> EpTrading TI_UserRateLimit"
abbreviation "Ep_PerpDexs \<equiv> EpTrading TI_PerpDexs"
abbreviation "Ep_FrontendOpenOrders \<equiv> EpTrading TI_FrontendOpenOrders"
abbreviation "Ep_HistoricalOrders \<equiv> EpTrading TI_HistoricalOrders"
abbreviation "Ep_UserTwapSliceFills \<equiv> EpTrading TI_UserTwapSliceFills"
abbreviation "Ep_UserTwapSliceFillsByTime \<equiv> EpTrading TI_UserTwapSliceFillsByTime"
abbreviation "Ep_TwapHistory \<equiv> EpTrading TI_TwapHistory"
abbreviation "Ep_ActiveAssetData \<equiv> EpTrading TI_ActiveAssetData"

abbreviation "Ep_SubAccounts \<equiv> EpAccount AI_SubAccounts"
abbreviation "Ep_UserFees \<equiv> EpAccount AI_UserFees"
abbreviation "Ep_MaxBuilderFee \<equiv> EpAccount AI_MaxBuilderFee"
abbreviation "Ep_ApprovedBuilders \<equiv> EpAccount AI_ApprovedBuilders"
abbreviation "Ep_ExchangeStatus \<equiv> EpAccount AI_ExchangeStatus"
abbreviation "Ep_VaultDetails \<equiv> EpAccount AI_VaultDetails"
abbreviation "Ep_UserVaultEquities \<equiv> EpAccount AI_UserVaultEquities"
abbreviation "Ep_Portfolio \<equiv> EpAccount AI_Portfolio"
abbreviation "Ep_Referral \<equiv> EpAccount AI_Referral"
abbreviation "Ep_UserRole \<equiv> EpAccount AI_UserRole"
abbreviation "Ep_PerpsAtOpenInterestCap \<equiv> EpAccount AI_PerpsAtOpenInterestCap"
abbreviation "Ep_PredictedFundings \<equiv> EpAccount AI_PredictedFundings"
abbreviation "Ep_PerpAnnotation \<equiv> EpAccount AI_PerpAnnotation"
abbreviation "Ep_PerpCategories \<equiv> EpAccount AI_PerpCategories"
abbreviation "Ep_PerpConciseAnnotations \<equiv> EpAccount AI_PerpConciseAnnotations"
abbreviation "Ep_AllPerpMetas \<equiv> EpAccount AI_AllPerpMetas"
abbreviation "Ep_PerpDexLimits \<equiv> EpAccount AI_PerpDexLimits"
abbreviation "Ep_PerpDexStatus \<equiv> EpAccount AI_PerpDexStatus"
abbreviation "Ep_PerpDeployAuctionStatus \<equiv> EpAccount AI_PerpDeployAuctionStatus"
abbreviation "Ep_UserFunding \<equiv> EpAccount AI_UserFunding"
abbreviation "Ep_UserNonFundingLedgerUpdates \<equiv> EpAccount AI_UserNonFundingLedgerUpdates"
abbreviation "Ep_FundingHistory \<equiv> EpAccount AI_FundingHistory"

abbreviation "Ep_OutcomeMeta \<equiv> EpSpot SI_OutcomeMeta"
abbreviation "Ep_SettledOutcome \<equiv> EpSpot SI_SettledOutcome"
abbreviation "Ep_SpotMeta \<equiv> EpSpot SI_SpotMeta"
abbreviation "Ep_SpotMetaAndAssetCtxs \<equiv> EpSpot SI_SpotMetaAndAssetCtxs"
abbreviation "Ep_SpotClearinghouseState \<equiv> EpSpot SI_SpotClearinghouseState"
abbreviation "Ep_SpotDeployState \<equiv> EpSpot SI_SpotDeployState"
abbreviation "Ep_SpotPairDeployAuctionStatus \<equiv> EpSpot SI_SpotPairDeployAuctionStatus"
abbreviation "Ep_TokenDetails \<equiv> EpSpot SI_TokenDetails"
abbreviation "Ep_Delegations \<equiv> EpSpot SI_Delegations"
abbreviation "Ep_DelegatorSummary \<equiv> EpSpot SI_DelegatorSummary"
abbreviation "Ep_DelegatorHistory \<equiv> EpSpot SI_DelegatorHistory"
abbreviation "Ep_DelegatorRewards \<equiv> EpSpot SI_DelegatorRewards"
abbreviation "Ep_BorrowLendUserState \<equiv> EpSpot SI_BorrowLendUserState"
abbreviation "Ep_BorrowLendReserveState \<equiv> EpSpot SI_BorrowLendReserveState"
abbreviation "Ep_AllBorrowLendReserveStates \<equiv> EpSpot SI_AllBorrowLendReserveStates"
abbreviation "Ep_UserBorrowLendInterest \<equiv> EpSpot SI_UserBorrowLendInterest"
abbreviation "Ep_Liquidatable \<equiv> EpSpot SI_Liquidatable"
abbreviation "Ep_UserDexAbstractionState \<equiv> EpSpot SI_UserDexAbstractionState"
abbreviation "Ep_UserAbstraction \<equiv> EpSpot SI_UserAbstraction"

abbreviation "Ep_PlaceOrder \<equiv> EpOrder OA_PlaceOrder"
abbreviation "Ep_CancelOrder \<equiv> EpOrder OA_CancelOrder"
abbreviation "Ep_CancelOrderByCloid \<equiv> EpOrder OA_CancelOrderByCloid"
abbreviation "Ep_ScheduleCancel \<equiv> EpOrder OA_ScheduleCancel"
abbreviation "Ep_ModifyOrder \<equiv> EpOrder OA_ModifyOrder"
abbreviation "Ep_BatchModifyOrder \<equiv> EpOrder OA_BatchModifyOrder"
abbreviation "Ep_UpdateLeverage \<equiv> EpOrder OA_UpdateLeverage"
abbreviation "Ep_UpdateIsolatedMargin \<equiv> EpOrder OA_UpdateIsolatedMargin"
abbreviation "Ep_ApproveAgent \<equiv> EpOrder OA_ApproveAgent"
abbreviation "Ep_AgentSetAbstraction \<equiv> EpOrder OA_AgentSetAbstraction"
abbreviation "Ep_TwapOrder \<equiv> EpOrder OA_TwapOrder"
abbreviation "Ep_TwapCancel \<equiv> EpOrder OA_TwapCancel"
abbreviation "Ep_VaultTransfer \<equiv> EpOrder OA_VaultTransfer"
abbreviation "Ep_Hip3LiquidatorTransfer \<equiv> EpOrder OA_Hip3LiquidatorTransfer"
abbreviation "Ep_CreateSubAccount \<equiv> EpOrder OA_CreateSubAccount"
abbreviation "Ep_SubAccountTransfer \<equiv> EpOrder OA_SubAccountTransfer"
abbreviation "Ep_CreateVault \<equiv> EpOrder OA_CreateVault"

abbreviation "Ep_BorrowLend \<equiv> EpFunds FA_BorrowLend"
abbreviation "Ep_SpotDeployRegisterToken2 \<equiv> EpFunds FA_SpotDeployRegisterToken2"
abbreviation "Ep_SpotDeployUserGenesis \<equiv> EpFunds FA_SpotDeployUserGenesis"
abbreviation "Ep_SpotDeployGenesis \<equiv> EpFunds FA_SpotDeployGenesis"
abbreviation "Ep_SpotDeployRegisterSpot \<equiv> EpFunds FA_SpotDeployRegisterSpot"
abbreviation "Ep_SpotDeployRegisterHyperliquidity \<equiv> EpFunds FA_SpotDeployRegisterHyperliquidity"
abbreviation "Ep_PerpDeployRegisterAsset2 \<equiv> EpFunds FA_PerpDeployRegisterAsset2"
abbreviation "Ep_UsdClassTransfer \<equiv> EpFunds FA_UsdClassTransfer"
abbreviation "Ep_SendAsset \<equiv> EpFunds FA_SendAsset"
abbreviation "Ep_UsdSend \<equiv> EpFunds FA_UsdSend"
abbreviation "Ep_SpotSend \<equiv> EpFunds FA_SpotSend"
abbreviation "Ep_Withdraw3 \<equiv> EpFunds FA_Withdraw3"
abbreviation "Ep_ApproveBuilderFee \<equiv> EpFunds FA_ApproveBuilderFee"
abbreviation "Ep_UserSetAbstraction \<equiv> EpFunds FA_UserSetAbstraction"
abbreviation "Ep_SetReferrer \<equiv> EpFunds FA_SetReferrer"
abbreviation "Ep_CDeposit \<equiv> EpFunds FA_CDeposit"
abbreviation "Ep_CWithdraw \<equiv> EpFunds FA_CWithdraw"
abbreviation "Ep_TokenDelegate \<equiv> EpFunds FA_TokenDelegate"
abbreviation "Ep_SendToEvmWithData \<equiv> EpFunds FA_SendToEvmWithData"
abbreviation "Ep_UserDexAbstraction \<equiv> EpFunds FA_UserDexAbstraction"
abbreviation "Ep_UserPortfolioMargin \<equiv> EpFunds FA_UserPortfolioMargin"
abbreviation "Ep_AgentSendAsset \<equiv> EpFunds FA_AgentSendAsset"
abbreviation "Ep_ReserveRequestWeight \<equiv> EpFunds FA_ReserveRequestWeight"
abbreviation "Ep_Noop \<equiv> EpFunds FA_Noop"


primrec toString_Endpoint_Trading :: "TradingInfo \<Rightarrow> string" where
  "toString_Endpoint_Trading TI_Meta = ''meta''"
| "toString_Endpoint_Trading TI_MetaAndAssetCtxs = ''metaAndAssetCtxs''"
| "toString_Endpoint_Trading TI_AllMids = ''allMids''"
| "toString_Endpoint_Trading TI_L2Book = ''l2Book''"
| "toString_Endpoint_Trading TI_CandleSnapshot = ''candleSnapshot''"
| "toString_Endpoint_Trading TI_RecentTrades = ''recentTrades''"
| "toString_Endpoint_Trading TI_OpenOrders = ''openOrders''"
| "toString_Endpoint_Trading TI_UserFills = ''userFills''"
| "toString_Endpoint_Trading TI_UserFillsByTime = ''userFillsByTime''"
| "toString_Endpoint_Trading TI_OrderStatus = ''orderStatus''"
| "toString_Endpoint_Trading TI_ClearinghouseState = ''clearinghouseState''"
| "toString_Endpoint_Trading TI_UserRateLimit = ''userRateLimit''"
| "toString_Endpoint_Trading TI_PerpDexs = ''perpDexs''"
| "toString_Endpoint_Trading TI_FrontendOpenOrders = ''frontendOpenOrders''"
| "toString_Endpoint_Trading TI_HistoricalOrders = ''historicalOrders''"
| "toString_Endpoint_Trading TI_UserTwapSliceFills = ''userTwapSliceFills''"
| "toString_Endpoint_Trading TI_UserTwapSliceFillsByTime = ''userTwapSliceFillsByTime''"
| "toString_Endpoint_Trading TI_TwapHistory = ''twapHistory''"
| "toString_Endpoint_Trading TI_ActiveAssetData = ''activeAssetData''"

primrec toString_Endpoint_Account :: "AccountInfo \<Rightarrow> string" where
  "toString_Endpoint_Account AI_SubAccounts = ''subAccounts''"
| "toString_Endpoint_Account AI_UserFees = ''userFees''"
| "toString_Endpoint_Account AI_MaxBuilderFee = ''maxBuilderFee''"
| "toString_Endpoint_Account AI_ApprovedBuilders = ''approvedBuilders''"
| "toString_Endpoint_Account AI_ExchangeStatus = ''exchangeStatus''"
| "toString_Endpoint_Account AI_VaultDetails = ''vaultDetails''"
| "toString_Endpoint_Account AI_UserVaultEquities = ''userVaultEquities''"
| "toString_Endpoint_Account AI_Portfolio = ''portfolio''"
| "toString_Endpoint_Account AI_Referral = ''referral''"
| "toString_Endpoint_Account AI_UserRole = ''userRole''"
| "toString_Endpoint_Account AI_PerpsAtOpenInterestCap = ''perpsAtOpenInterestCap''"
| "toString_Endpoint_Account AI_PredictedFundings = ''predictedFundings''"
| "toString_Endpoint_Account AI_PerpAnnotation = ''perpAnnotation''"
| "toString_Endpoint_Account AI_PerpCategories = ''perpCategories''"
| "toString_Endpoint_Account AI_PerpConciseAnnotations = ''perpConciseAnnotations''"
| "toString_Endpoint_Account AI_AllPerpMetas = ''allPerpMetas''"
| "toString_Endpoint_Account AI_PerpDexLimits = ''perpDexLimits''"
| "toString_Endpoint_Account AI_PerpDexStatus = ''perpDexStatus''"
| "toString_Endpoint_Account AI_PerpDeployAuctionStatus = ''perpDeployAuctionStatus''"
| "toString_Endpoint_Account AI_UserFunding = ''userFunding''"
| "toString_Endpoint_Account AI_UserNonFundingLedgerUpdates = ''userNonFundingLedgerUpdates''"
| "toString_Endpoint_Account AI_FundingHistory = ''fundingHistory''"

primrec toString_Endpoint_Spot :: "SpotInfo \<Rightarrow> string" where
  "toString_Endpoint_Spot SI_OutcomeMeta = ''outcomeMeta''"
| "toString_Endpoint_Spot SI_SettledOutcome = ''settledOutcome''"
| "toString_Endpoint_Spot SI_SpotMeta = ''spotMeta''"
| "toString_Endpoint_Spot SI_SpotMetaAndAssetCtxs = ''spotMetaAndAssetCtxs''"
| "toString_Endpoint_Spot SI_SpotClearinghouseState = ''spotClearinghouseState''"
| "toString_Endpoint_Spot SI_SpotDeployState = ''spotDeployState''"
| "toString_Endpoint_Spot SI_SpotPairDeployAuctionStatus = ''spotPairDeployAuctionStatus''"
| "toString_Endpoint_Spot SI_TokenDetails = ''tokenDetails''"
| "toString_Endpoint_Spot SI_Delegations = ''delegations''"
| "toString_Endpoint_Spot SI_DelegatorSummary = ''delegatorSummary''"
| "toString_Endpoint_Spot SI_DelegatorHistory = ''delegatorHistory''"
| "toString_Endpoint_Spot SI_DelegatorRewards = ''delegatorRewards''"
| "toString_Endpoint_Spot SI_BorrowLendUserState = ''borrowLendUserState''"
| "toString_Endpoint_Spot SI_BorrowLendReserveState = ''borrowLendReserveState''"
| "toString_Endpoint_Spot SI_AllBorrowLendReserveStates = ''allBorrowLendReserveStates''"
| "toString_Endpoint_Spot SI_UserBorrowLendInterest = ''userBorrowLendInterest''"
| "toString_Endpoint_Spot SI_Liquidatable = ''liquidatable''"
| "toString_Endpoint_Spot SI_UserDexAbstractionState = ''userDexAbstraction''"
| "toString_Endpoint_Spot SI_UserAbstraction = ''userAbstraction''"

primrec toString_Endpoint_Order :: "OrderAction \<Rightarrow> string" where
  "toString_Endpoint_Order OA_PlaceOrder = ''order''"
| "toString_Endpoint_Order OA_CancelOrder = ''cancel''"
| "toString_Endpoint_Order OA_CancelOrderByCloid = ''cancelByCloid''"
| "toString_Endpoint_Order OA_ScheduleCancel = ''scheduleCancel''"
| "toString_Endpoint_Order OA_ModifyOrder = ''modify''"
| "toString_Endpoint_Order OA_BatchModifyOrder = ''batchModify''"
| "toString_Endpoint_Order OA_UpdateLeverage = ''updateLeverage''"
| "toString_Endpoint_Order OA_UpdateIsolatedMargin = ''updateIsolatedMargin''"
| "toString_Endpoint_Order OA_ApproveAgent = ''approveAgent''"
| "toString_Endpoint_Order OA_AgentSetAbstraction = ''agentSetAbstraction''"
| "toString_Endpoint_Order OA_TwapOrder = ''twapOrder''"
| "toString_Endpoint_Order OA_TwapCancel = ''twapCancel''"
| "toString_Endpoint_Order OA_VaultTransfer = ''vaultTransfer''"
| "toString_Endpoint_Order OA_Hip3LiquidatorTransfer = ''hip3LiquidatorTransfer''"
| "toString_Endpoint_Order OA_CreateSubAccount = ''createSubAccount''"
| "toString_Endpoint_Order OA_SubAccountTransfer = ''subAccountTransfer''"
| "toString_Endpoint_Order OA_CreateVault = ''createVault''"

primrec toString_Endpoint_Funds :: "FundsAction \<Rightarrow> string" where
  "toString_Endpoint_Funds FA_BorrowLend = ''borrowLend''"
| "toString_Endpoint_Funds FA_SpotDeployRegisterToken2 = ''spotDeploy''"
| "toString_Endpoint_Funds FA_SpotDeployUserGenesis = ''spotDeploy''"
| "toString_Endpoint_Funds FA_SpotDeployGenesis = ''spotDeploy''"
| "toString_Endpoint_Funds FA_SpotDeployRegisterSpot = ''spotDeploy''"
| "toString_Endpoint_Funds FA_SpotDeployRegisterHyperliquidity = ''spotDeploy''"
| "toString_Endpoint_Funds FA_PerpDeployRegisterAsset2 = ''perpDeploy''"
| "toString_Endpoint_Funds FA_UsdClassTransfer = ''usdClassTransfer''"
| "toString_Endpoint_Funds FA_SendAsset = ''sendAsset''"
| "toString_Endpoint_Funds FA_UsdSend = ''usdSend''"
| "toString_Endpoint_Funds FA_SpotSend = ''spotSend''"
| "toString_Endpoint_Funds FA_Withdraw3 = ''withdraw3''"
| "toString_Endpoint_Funds FA_ApproveBuilderFee = ''approveBuilderFee''"
| "toString_Endpoint_Funds FA_UserSetAbstraction = ''userSetAbstraction''"
| "toString_Endpoint_Funds FA_SetReferrer = ''setReferrer''"
| "toString_Endpoint_Funds FA_CDeposit = ''cDeposit''"
| "toString_Endpoint_Funds FA_CWithdraw = ''cWithdraw''"
| "toString_Endpoint_Funds FA_TokenDelegate = ''tokenDelegate''"
| "toString_Endpoint_Funds FA_SendToEvmWithData = ''sendToEvmWithData''"
| "toString_Endpoint_Funds FA_UserDexAbstraction = ''userDexAbstraction''"
| "toString_Endpoint_Funds FA_UserPortfolioMargin = ''userPortfolioMargin''"
| "toString_Endpoint_Funds FA_AgentSendAsset = ''agentSendAsset''"
| "toString_Endpoint_Funds FA_ReserveRequestWeight = ''reserveRequestWeight''"
| "toString_Endpoint_Funds FA_Noop = ''noop''"

primrec toString_Endpoint :: "RestEndpointType \<Rightarrow> string" where
  "toString_Endpoint (EpTrading x) = toString_Endpoint_Trading x"
| "toString_Endpoint (EpAccount x) = toString_Endpoint_Account x"
| "toString_Endpoint (EpSpot x) = toString_Endpoint_Spot x"
| "toString_Endpoint (EpOrder x) = toString_Endpoint_Order x"
| "toString_Endpoint (EpFunds x) = toString_Endpoint_Funds x"


primrec isAuthenticated_Trading :: "TradingInfo \<Rightarrow> bool" where
  "isAuthenticated_Trading TI_Meta = False"
| "isAuthenticated_Trading TI_MetaAndAssetCtxs = False"
| "isAuthenticated_Trading TI_AllMids = False"
| "isAuthenticated_Trading TI_L2Book = False"
| "isAuthenticated_Trading TI_CandleSnapshot = False"
| "isAuthenticated_Trading TI_RecentTrades = False"
| "isAuthenticated_Trading TI_OpenOrders = False"
| "isAuthenticated_Trading TI_UserFills = False"
| "isAuthenticated_Trading TI_UserFillsByTime = False"
| "isAuthenticated_Trading TI_OrderStatus = False"
| "isAuthenticated_Trading TI_ClearinghouseState = False"
| "isAuthenticated_Trading TI_UserRateLimit = False"
| "isAuthenticated_Trading TI_PerpDexs = False"
| "isAuthenticated_Trading TI_FrontendOpenOrders = False"
| "isAuthenticated_Trading TI_HistoricalOrders = False"
| "isAuthenticated_Trading TI_UserTwapSliceFills = False"
| "isAuthenticated_Trading TI_UserTwapSliceFillsByTime = False"
| "isAuthenticated_Trading TI_TwapHistory = False"
| "isAuthenticated_Trading TI_ActiveAssetData = False"

primrec isAuthenticated_Account :: "AccountInfo \<Rightarrow> bool" where
  "isAuthenticated_Account AI_SubAccounts = False"
| "isAuthenticated_Account AI_UserFees = False"
| "isAuthenticated_Account AI_MaxBuilderFee = False"
| "isAuthenticated_Account AI_ApprovedBuilders = False"
| "isAuthenticated_Account AI_ExchangeStatus = False"
| "isAuthenticated_Account AI_VaultDetails = False"
| "isAuthenticated_Account AI_UserVaultEquities = False"
| "isAuthenticated_Account AI_Portfolio = False"
| "isAuthenticated_Account AI_Referral = False"
| "isAuthenticated_Account AI_UserRole = False"
| "isAuthenticated_Account AI_PerpsAtOpenInterestCap = False"
| "isAuthenticated_Account AI_PredictedFundings = False"
| "isAuthenticated_Account AI_PerpAnnotation = False"
| "isAuthenticated_Account AI_PerpCategories = False"
| "isAuthenticated_Account AI_PerpConciseAnnotations = False"
| "isAuthenticated_Account AI_AllPerpMetas = False"
| "isAuthenticated_Account AI_PerpDexLimits = False"
| "isAuthenticated_Account AI_PerpDexStatus = False"
| "isAuthenticated_Account AI_PerpDeployAuctionStatus = False"
| "isAuthenticated_Account AI_UserFunding = False"
| "isAuthenticated_Account AI_UserNonFundingLedgerUpdates = False"
| "isAuthenticated_Account AI_FundingHistory = False"

primrec isAuthenticated_Spot :: "SpotInfo \<Rightarrow> bool" where
  "isAuthenticated_Spot SI_OutcomeMeta = False"
| "isAuthenticated_Spot SI_SettledOutcome = False"
| "isAuthenticated_Spot SI_SpotMeta = False"
| "isAuthenticated_Spot SI_SpotMetaAndAssetCtxs = False"
| "isAuthenticated_Spot SI_SpotClearinghouseState = False"
| "isAuthenticated_Spot SI_SpotDeployState = False"
| "isAuthenticated_Spot SI_SpotPairDeployAuctionStatus = False"
| "isAuthenticated_Spot SI_TokenDetails = False"
| "isAuthenticated_Spot SI_Delegations = False"
| "isAuthenticated_Spot SI_DelegatorSummary = False"
| "isAuthenticated_Spot SI_DelegatorHistory = False"
| "isAuthenticated_Spot SI_DelegatorRewards = False"
| "isAuthenticated_Spot SI_BorrowLendUserState = False"
| "isAuthenticated_Spot SI_BorrowLendReserveState = False"
| "isAuthenticated_Spot SI_AllBorrowLendReserveStates = False"
| "isAuthenticated_Spot SI_UserBorrowLendInterest = False"
| "isAuthenticated_Spot SI_Liquidatable = False"
| "isAuthenticated_Spot SI_UserDexAbstractionState = False"
| "isAuthenticated_Spot SI_UserAbstraction = False"

primrec isAuthenticated_Order :: "OrderAction \<Rightarrow> bool" where
  "isAuthenticated_Order OA_PlaceOrder = True"
| "isAuthenticated_Order OA_CancelOrder = True"
| "isAuthenticated_Order OA_CancelOrderByCloid = True"
| "isAuthenticated_Order OA_ScheduleCancel = True"
| "isAuthenticated_Order OA_ModifyOrder = True"
| "isAuthenticated_Order OA_BatchModifyOrder = True"
| "isAuthenticated_Order OA_UpdateLeverage = True"
| "isAuthenticated_Order OA_UpdateIsolatedMargin = True"
| "isAuthenticated_Order OA_ApproveAgent = True"
| "isAuthenticated_Order OA_AgentSetAbstraction = True"
| "isAuthenticated_Order OA_TwapOrder = True"
| "isAuthenticated_Order OA_TwapCancel = True"
| "isAuthenticated_Order OA_VaultTransfer = True"
| "isAuthenticated_Order OA_Hip3LiquidatorTransfer = True"
| "isAuthenticated_Order OA_CreateSubAccount = True"
| "isAuthenticated_Order OA_SubAccountTransfer = True"
| "isAuthenticated_Order OA_CreateVault = True"

primrec isAuthenticated_Funds :: "FundsAction \<Rightarrow> bool" where
  "isAuthenticated_Funds FA_BorrowLend = True"
| "isAuthenticated_Funds FA_SpotDeployRegisterToken2 = True"
| "isAuthenticated_Funds FA_SpotDeployUserGenesis = True"
| "isAuthenticated_Funds FA_SpotDeployGenesis = True"
| "isAuthenticated_Funds FA_SpotDeployRegisterSpot = True"
| "isAuthenticated_Funds FA_SpotDeployRegisterHyperliquidity = True"
| "isAuthenticated_Funds FA_PerpDeployRegisterAsset2 = True"
| "isAuthenticated_Funds FA_UsdClassTransfer = True"
| "isAuthenticated_Funds FA_SendAsset = True"
| "isAuthenticated_Funds FA_UsdSend = True"
| "isAuthenticated_Funds FA_SpotSend = True"
| "isAuthenticated_Funds FA_Withdraw3 = True"
| "isAuthenticated_Funds FA_ApproveBuilderFee = True"
| "isAuthenticated_Funds FA_UserSetAbstraction = True"
| "isAuthenticated_Funds FA_SetReferrer = True"
| "isAuthenticated_Funds FA_CDeposit = True"
| "isAuthenticated_Funds FA_CWithdraw = True"
| "isAuthenticated_Funds FA_TokenDelegate = True"
| "isAuthenticated_Funds FA_SendToEvmWithData = True"
| "isAuthenticated_Funds FA_UserDexAbstraction = True"
| "isAuthenticated_Funds FA_UserPortfolioMargin = True"
| "isAuthenticated_Funds FA_AgentSendAsset = True"
| "isAuthenticated_Funds FA_ReserveRequestWeight = True"
| "isAuthenticated_Funds FA_Noop = True"

primrec isAuthenticated :: "RestEndpointType \<Rightarrow> bool" where
  "isAuthenticated (EpTrading x) = isAuthenticated_Trading x"
| "isAuthenticated (EpAccount x) = isAuthenticated_Account x"
| "isAuthenticated (EpSpot x) = isAuthenticated_Spot x"
| "isAuthenticated (EpOrder x) = isAuthenticated_Order x"
| "isAuthenticated (EpFunds x) = isAuthenticated_Funds x"


definition toPath :: "RestEndpointType \<Rightarrow> string" where
  "toPath type = (if isAuthenticated type then ''/exchange'' else ''/info'')"

definition isUserSignedAction :: "RestEndpointType \<Rightarrow> bool" where
  "isUserSignedAction type \<longleftrightarrow> type \<in> {Ep_UsdClassTransfer,
     Ep_SendAsset,
     Ep_UsdSend,
     Ep_SpotSend,
     Ep_Withdraw3,
     Ep_ApproveBuilderFee,
     Ep_UserSetAbstraction,
     Ep_CDeposit,
     Ep_CWithdraw,
     Ep_TokenDelegate,
     Ep_SendToEvmWithData,
     Ep_UserDexAbstraction,
     Ep_UserPortfolioMargin}"

section \<open>Small enumerations\<close>

datatype Tif =
    Tif_Alo | Tif_Ioc | Tif_Gtc

fun toString_Tif :: "Tif \<Rightarrow> string" where
  "toString_Tif Tif_Alo = ''Alo''"
| "toString_Tif Tif_Ioc = ''Ioc''"
| "toString_Tif Tif_Gtc = ''Gtc''"

datatype TpSl =
    TpSl_Tp | TpSl_Sl

fun toString_TpSl :: "TpSl \<Rightarrow> string" where
  "toString_TpSl TpSl_Tp = ''tp''"
| "toString_TpSl TpSl_Sl = ''sl''"

datatype Grouping =
    Grouping_Na | Grouping_NormalTpsl | Grouping_PositionTpsl

fun toString_Grouping :: "Grouping \<Rightarrow> string" where
  "toString_Grouping Grouping_Na = ''na''"
| "toString_Grouping Grouping_NormalTpsl = ''normalTpsl''"
| "toString_Grouping Grouping_PositionTpsl = ''positionTpsl''"

datatype UserAbstractionMode =
    UAM_Disabled | UAM_UnifiedAccount | UAM_PortfolioMargin

fun toString_UserAbstractionMode :: "UserAbstractionMode \<Rightarrow> string" where
  "toString_UserAbstractionMode UAM_Disabled = ''i''"
| "toString_UserAbstractionMode UAM_UnifiedAccount = ''u''"
| "toString_UserAbstractionMode UAM_PortfolioMargin = ''p''"

definition stringToUserAbstractionMode :: "string \<Rightarrow> UserAbstractionMode outcome" where
  "stringToUserAbstractionMode mode = (
     if mode = ''i'' then Inr UAM_Disabled else
     if mode = ''u'' then Inr UAM_UnifiedAccount else
     if mode = ''p'' then Inr UAM_PortfolioMargin else
     Inl (Invalid_Argument (''Unknown UserAbstractionMode: '' @ mode)))"

datatype BorrowLendOperation =
    BLO_Supply | BLO_Withdraw | BLO_Repay | BLO_Borrow

fun toString_BorrowLendOperation :: "BorrowLendOperation \<Rightarrow> string" where
  "toString_BorrowLendOperation BLO_Supply = ''supply''"
| "toString_BorrowLendOperation BLO_Withdraw = ''withdraw''"
| "toString_BorrowLendOperation BLO_Repay = ''repay''"
| "toString_BorrowLendOperation BLO_Borrow = ''borrow''"

datatype PerpMarginMode =
    PMM_StrictIsolated | PMM_NoCross | PMM_Normal

fun toString_PerpMarginMode :: "PerpMarginMode \<Rightarrow> string" where
  "toString_PerpMarginMode PMM_StrictIsolated = ''strictIsolated''"
| "toString_PerpMarginMode PMM_NoCross = ''noCross''"
| "toString_PerpMarginMode PMM_Normal = ''normal''"

datatype AbstractionMode =
    AM_Disabled | AM_UnifiedAccount | AM_PortfolioMargin

fun toString_AbstractionMode :: "AbstractionMode \<Rightarrow> string" where
  "toString_AbstractionMode AM_Disabled = ''disabled''"
| "toString_AbstractionMode AM_UnifiedAccount = ''unifiedAccount''"
| "toString_AbstractionMode AM_PortfolioMargin = ''portfolioMargin''"

datatype AddressEncoding =
    AE_Hex | AE_Base58

fun toString_AddressEncoding :: "AddressEncoding \<Rightarrow> string" where
  "toString_AddressEncoding AE_Hex = ''hex''"
| "toString_AddressEncoding AE_Base58 = ''base58''"

definition stringToAddressEncoding :: "string \<Rightarrow> AddressEncoding outcome" where
  "stringToAddressEncoding encoding = (
     if encoding = ''hex'' then Inr AE_Hex else
     if encoding = ''base58'' then Inr AE_Base58 else
     Inl (Invalid_Argument (''Unknown AddressEncoding: '' @ encoding)))"

section \<open>Order requests\<close>

text \<open>C++ \<open>int\<close> and \<open>int64_t\<close> fields are \<open>int\<close>, \<open>uint32_t\<close>/\<open>uint64_t\<close> fields words.\<close>

record LimitOrderType =
  lo_tif :: Tif

record TriggerOrderType =
  tr_isMarket :: bool
  tr_triggerPx :: double
  tr_tpsl :: TpSl

record OrderRequest =
  or_asset :: string
  or_isBuy :: bool
  or_price :: double
  or_size :: double
  or_reduceOnly :: bool
  or_limit :: "LimitOrderType option"
  or_trigger :: "TriggerOrderType option"
  or_cloid :: "string option"
  or_assetId :: "int option"

record CancelRequest =
  ca_asset :: string
  ca_oid :: u64
  ca_assetId :: "int option"

record CancelByCloidRequest =
  cc_asset :: string
  cc_cloid :: string
  cc_assetId :: "int option"

record ModifyRequest =
  mo_oid :: "u64 option"
  mo_cloid :: "string option"
  mo_order :: OrderRequest

record Builder =
  bu_address :: string
  bu_fee :: int

text \<open>\<open>std::variant<uint64_t, std::string>\<close>.\<close>

datatype OrderId = Oid u64 | Cloid string

record UpdateLeverageRequest =
  ul_asset :: string
  ul_isCross :: bool
  ul_leverage :: int
  ul_assetId :: "int option"

record UpdateIsolatedMarginRequest =
  ui_asset :: string
  ui_isBuy :: bool
  ui_ntli :: int
  ui_assetId :: "int option"

record TwapOrderRequest =
  tw_asset :: string
  tw_isBuy :: bool
  tw_size :: double
  tw_reduceOnly :: bool
  tw_minutes :: int
  tw_randomize :: bool
  tw_assetId :: "int option"

record TwapCancelRequest =
  tc_asset :: string
  tc_twapId :: u64
  tc_assetId :: "int option"

section \<open>Account, transfer and vault requests\<close>

record ApproveAgentRequest =
  aa_agentAddress :: string
  aa_agentName :: "string option"

record VaultTransferRequest =
  vt_vaultAddress :: string
  vt_isDeposit :: bool
  vt_usd :: double

record Hip3LiquidatorTransferRequest =
  hl_dex :: string
  hl_ntl :: u64
  hl_isDeposit :: bool

record CreateSubAccountRequest =
  cs_name :: string

record SubAccountTransferRequest =
  st_subAccountUser :: string
  st_isDeposit :: bool
  st_usd :: double

record BorrowLendRequest =
  bl_operation :: BorrowLendOperation
  bl_token :: u32
  bl_amount :: "double option"

record CreateVaultRequest =
  cv_name :: string
  cv_description :: string
  cv_initialUsd :: double

record SetReferrerRequest =
  sr_code :: string

record UsdClassTransferRequest =
  uc_amount :: double
  uc_toPerp :: bool

record SendAssetRequest =
  sa_destination :: string
  sa_sourceDex :: string
  sa_destinationDex :: string
  sa_token :: string
  sa_amount :: double
  sa_fromSubAccount :: string

record UsdSendRequest =
  us_destination :: string
  us_amount :: double

record SpotSendRequest =
  ss_destination :: string
  ss_token :: string
  ss_amount :: double

record Withdraw3Request =
  wd_destination :: string
  wd_amount :: double

record ApproveBuilderFeeRequest =
  ab_maxFeeRate :: string
  ab_builder :: string

record UserSetAbstractionRequest =
  ua_user :: string
  ua_abstraction :: AbstractionMode

record TokenDelegateRequest =
  td_validator :: string
  td_wei :: u64
  td_isUndelegate :: bool

record SendToEvmWithDataRequest =
  ev_token :: string
  ev_amount :: string
  ev_sourceDex :: string
  ev_destinationRecipient :: string
  ev_addressEncoding :: AddressEncoding
  ev_destinationChainId :: u32
  ev_gasLimit :: u64
  ev_data :: string

record UserDexAbstractionRequest =
  ud_user :: string
  ud_enabled :: bool

record UserPortfolioMarginRequest =
  up_user :: string
  up_enabled :: bool

record AgentSendAssetRequest =
  as_destination :: string
  as_sourceDex :: string
  as_destinationDex :: string
  as_token :: string
  as_amount :: string
  as_fromSubAccount :: "string option"

record ReserveRequestWeightRequest =
  rw_weight :: int
  rw_destination :: "string option"

section \<open>Deployment requests\<close>

record SpotDeployTokenSpec =
  sp_name :: string
  sp_szDecimals :: int
  sp_weiDecimals :: int

record SpotDeployRegisterToken2Request =
  rt_spec :: SpotDeployTokenSpec
  rt_maxGas :: u64
  rt_fullName :: "string option"

record SpotDeployUserGenesisRequest =
  ug_token :: int
  ug_userAndWei :: "(string \<times> double) list"
  ug_existingTokenAndWei :: "(int \<times> double) list"
  ug_blacklistUsers :: "(string \<times> bool) list option"

record SpotDeployGenesisRequest =
  ge_token :: int
  ge_maxSupply :: double
  ge_noHyperliquidity :: "bool option"

record SpotDeployRegisterSpotRequest =
  rs_baseToken :: int
  rs_quoteToken :: int

record SpotDeployRegisterHyperliquidityRequest =
  rh_spot :: int
  rh_startPx :: double
  rh_orderSz :: double
  rh_nOrders :: int
  rh_nSeededLevels :: "int option"

record PerpDeployAssetRequest =
  pa_coin :: string
  pa_szDecimals :: u32
  pa_oraclePx :: double
  pa_marginTableId :: u32
  pa_marginMode :: PerpMarginMode

record PerpDeploySchema =
  ps_fullName :: string
  ps_collateralToken :: u64
  ps_oracleUpdater :: "string option"

record PerpDeployRegisterAsset2Request =
  pd_maxGas :: "u64 option"
  pd_assetRequest :: PerpDeployAssetRequest
  pd_dex :: string
  pd_schema :: "PerpDeploySchema option"

section \<open>Outcome encodings\<close>

definition outcomeEncoding :: "int \<Rightarrow> int \<Rightarrow> int" where
  "outcomeEncoding outcomeIndex side = 10 * outcomeIndex + side"

definition outcomeAssetId :: "int \<Rightarrow> int \<Rightarrow> int" where
  "outcomeAssetId outcomeIndex side = 100000000 + outcomeEncoding outcomeIndex side"

definition outcomeCoin :: "int \<Rightarrow> int \<Rightarrow> string" where
  "outcomeCoin outcomeIndex side = ''#'' @ dec_of_int (outcomeEncoding outcomeIndex side)"

definition outcomeToken :: "int \<Rightarrow> int \<Rightarrow> string" where
  "outcomeToken outcomeIndex side = ''+'' @ dec_of_int (outcomeEncoding outcomeIndex side)"

section \<open>Client order ids\<close>

text \<open>
  \<open>std::setw(16) << std::hex << std::setfill('0')\<close> on a \<open>uint64_t\<close>: 16 lower-case hexadecimal
  digits. \<open>generateCloid\<close> draws two random words; they are the arguments here.
\<close>

definition hex_char :: "nat \<Rightarrow> char" where
  "hex_char d = (if d < 10 then char_of (48 + d) else char_of (87 + d))"

fun hex_fixed :: "nat \<Rightarrow> nat \<Rightarrow> string" where
  "hex_fixed 0 n = []"
| "hex_fixed (Suc w) n = hex_fixed w (n div 16) @ [hex_char (n mod 16)]"

definition generateCloid :: "u64 \<Rightarrow> u64 \<Rightarrow> string" where
  "generateCloid hi lo = ''0x'' @ hex_fixed 16 (unat hi) @ hex_fixed 16 (unat lo)"

section \<open>Lemmas\<close>

lemma stringToSubscriptionType_cases:
  "case toString_Subscription t of Inl e \<Rightarrow> t = Sub_Unknown | Inr s \<Rightarrow> stringToSubscriptionType s = t"
  by (cases t) (simp_all add: stringToSubscriptionType_def)

lemma stringToSubscriptionType_toString:
  "toString_Subscription t = Inr s \<Longrightarrow> stringToSubscriptionType s = t"
  using stringToSubscriptionType_cases [of t] by simp

lemma toString_Subscription_inj:
  "toString_Subscription t = Inr s \<Longrightarrow> toString_Subscription u = Inr s \<Longrightarrow> t = u"
  by (metis stringToSubscriptionType_toString)

lemmas endpoint_exhaust =
  RestEndpointType.exhaust TradingInfo.exhaust AccountInfo.exhaust SpotInfo.exhaust
  OrderAction.exhaust FundsAction.exhaust

lemma userSigned_authenticated: "isUserSignedAction t \<Longrightarrow> isAuthenticated t"
  by (auto simp: isUserSignedAction_def)

lemma length_hex_fixed [simp]: "length (hex_fixed w n) = w"
  by (induction w arbitrary: n) auto

lemma of_char_hex_char: "d < 16 \<Longrightarrow> (of_char (hex_char d) :: nat) = (if d < 10 then 48 + d else 87 + d)"
  by (simp add: hex_char_def)

lemma hex_char_inj:
  assumes "d < 16" and "e < 16"
  shows "hex_char d = hex_char e \<longleftrightarrow> d = e"
proof
  note d = assms
  assume eq: "hex_char d = hex_char e"
  have "(if d < 10 then 48 + d else 87 + d) = (if e < 10 then 48 + e else 87 + e)"
    using of_char_hex_char [OF d(1)] of_char_hex_char [OF d(2)] eq by simp
  with d show "d = e" by (auto split: if_splits)
qed simp

lemma hex_fixed_inj:
  "m < 16 ^ w \<Longrightarrow> n < 16 ^ w \<Longrightarrow> hex_fixed w m = hex_fixed w n \<longleftrightarrow> m = n"
proof (induction w arbitrary: m n)
  case 0
  then show ?case by simp
next
  case (Suc w)
  have "m div 16 < 16 ^ w" "n div 16 < 16 ^ w"
    using Suc.prems by (simp_all add: less_mult_imp_div_less mult.commute)
  then have "hex_fixed w (m div 16) = hex_fixed w (n div 16) \<longleftrightarrow> m div 16 = n div 16"
    by (rule Suc.IH)
  moreover have "m = n \<longleftrightarrow> m div 16 = n div 16 \<and> m mod 16 = n mod 16"
    by (metis div_mult_mod_eq)
  ultimately show ?case by (simp add: hex_char_inj)
qed

end
