(* ===== verification/Ws_Runner.thy ===== *)
theory Ws_Runner
  imports Request_Types
begin

text \<open>
  \<open>src/websocket/WebsocketRunner.{h,cpp}\<close>: the websocket connection state machine. One thread
  runs an \<open>io_context\<close>, so handlers run one at a time. The record holds the members of the class
  and, for Boost.Asio, the asynchronous operations in flight and the FIFO of handlers ready to
  run: an operation that completes moves to the tail of that FIFO with its result, a cancelled one
  with \<open>operation_aborted\<close>, a \<open>net::post\<close>ed lambda goes to the tail directly, and \<open>run\<close>
  takes the head. Which operation completes next, and with which result, is the environment's
  choice. The trace records what the class does to the outside.
\<close>

section \<open>State\<close>

text \<open>The completion handlers, one per asynchronous operation the class starts.\<close>

datatype handler =
    H_Resolve | H_Connect | H_Ssl | H_Ws | H_Read | H_Write | H_Close
  | H_ReconnectTimer | H_PingTimer

text \<open>
  How an operation completes. \<open>R_Ok\<close> carries the payload of a read. \<open>R_Sni_Error\<close> is a successful
  connect after which \<open>SSL_set_tlsext_host_name\<close> fails; \<open>R_Closed\<close> is
  \<open>websocket::error::closed\<close>, \<open>R_Error\<close> any other error, each with its message.
  \<open>operation_aborted\<close> is the error of a cancelled operation.
\<close>

datatype result = R_Ok string | R_Sni_Error | R_Closed string | R_Error string

definition operation_aborted :: result where
  "operation_aborted = R_Error ''operation_aborted''"

datatype task = Done handler result | P_Send string | P_DoClose | P_Ping

datatype obs =
    L_Connected | L_Disconnected bool string | L_Message string
  | Enqueued string | Write_Started string | Write_Done string | Queue_Cleared
  | Reconnect_In int | Stop_Called

record runner =
  connected :: bool
  stopping :: bool
  writing :: bool
  writeQueue :: "string list"
  reconnectAttempts :: int
  pendingPong :: bool
  lastPongTime :: nat
  now :: nat
  inflight :: "handler list"
  ready :: "task list"
  trace :: "obs list"

definition MAX_BACKOFF_SECS :: int where "MAX_BACKOFF_SECS = 60"
definition PONG_TIMEOUT_NS :: nat where "PONG_TIMEOUT_NS = 10 * 10 ^ 9"
definition ping_message :: string where
  "ping_message = ''{'' @ [CHR 0x22] @ ''method'' @ [CHR 0x22] @ '':'' @ [CHR 0x22] @ ''ping'' @ [CHR 0x22] @ ''}''"

fun errMsg :: "result \<Rightarrow> string" where
  "errMsg (R_Error m) = m"
| "errMsg (R_Closed m) = m"
| "errMsg _ = []"

fun is_error :: "result \<Rightarrow> bool" where
  "is_error (R_Ok _) = False"
| "is_error R_Sni_Error = False"
| "is_error (R_Closed _) = True"
| "is_error (R_Error _) = True"

fun payload :: "result \<Rightarrow> string" where
  "payload (R_Ok m) = m"
| "payload _ = []"

section \<open>What the class asks of Asio\<close>

definition observe :: "obs \<Rightarrow> runner \<Rightarrow> runner" where
  "observe e s = s\<lparr>trace := trace s @ [e]\<rparr>"

definition start_op :: "handler \<Rightarrow> runner \<Rightarrow> runner" where
  "start_op h s = s\<lparr>inflight := h # inflight s\<rparr>"

definition post_task :: "task \<Rightarrow> runner \<Rightarrow> runner" where
  "post_task t s = s\<lparr>ready := ready s @ [t]\<rparr>"

definition cancel_ops :: "(handler \<Rightarrow> bool) \<Rightarrow> runner \<Rightarrow> runner" where
  "cancel_ops P s =
     s\<lparr>inflight := filter (\<lambda>h. \<not> P h) (inflight s),
       ready := ready s @ map (\<lambda>h. Done h operation_aborted) (filter P (inflight s))\<rparr>"

fun stream_op :: "handler \<Rightarrow> bool" where
  "stream_op h = (h \<in> {H_Connect, H_Ssl, H_Ws, H_Read, H_Write, H_Close})"

section \<open>The methods of the class\<close>

definition doResolve :: "runner \<Rightarrow> runner" where
  "doResolve = start_op H_Resolve"

definition doRead :: "runner \<Rightarrow> runner" where
  "doRead = start_op H_Read"

definition doWrite :: "runner \<Rightarrow> runner" where
  "doWrite s =
     (case writeQueue s of
        [] \<Rightarrow> s\<lparr>writing := False\<rparr>
      | m # _ \<Rightarrow> start_op H_Write (observe (Write_Started m) (s\<lparr>writing := True\<rparr>)))"

definition backoff_secs :: "int \<Rightarrow> int" where
  "backoff_secs attempts = min (2 ^ nat (min attempts 16)) MAX_BACKOFF_SECS"

definition scheduleReconnect :: "runner \<Rightarrow> runner" where
  "scheduleReconnect s =
     (if stopping s then s
      else let s1 = cancel_ops (\<lambda>h. h = H_PingTimer) s;
               s2 = cancel_ops (\<lambda>h. h = H_ReconnectTimer) s1;
               s3 = s2\<lparr>reconnectAttempts := reconnectAttempts s2 + 1\<rparr>
           in start_op H_ReconnectTimer (observe (Reconnect_In (backoff_secs (reconnectAttempts s3))) s3))"

definition doReconnect :: "runner \<Rightarrow> runner" where
  "doReconnect s =
     (if connected s then s
      else let s1 = cancel_ops (\<lambda>h. h = H_ReconnectTimer) s;
               s2 = cancel_ops stream_op s1;
               s3 = s2\<lparr>pendingPong := False, writing := False, writeQueue := []\<rparr>
           in doResolve (observe Queue_Cleared s3))"

definition startPingTimer :: "runner \<Rightarrow> runner" where
  "startPingTimer s =
     (if stopping s \<or> \<not> connected s then s
      else start_op H_PingTimer (cancel_ops (\<lambda>h. h = H_PingTimer) s))"

definition doPing :: "runner \<Rightarrow> runner" where
  "doPing s =
     (if stopping s \<or> \<not> connected s then s
      else if pendingPong s \<and> PONG_TIMEOUT_NS < now s - lastPongTime s then
        scheduleReconnect (observe (L_Disconnected True ''Pong timeout'') (s\<lparr>connected := False\<rparr>))
      else post_task P_Ping (s\<lparr>pendingPong := True\<rparr>))"

definition enqueue :: "string \<Rightarrow> runner \<Rightarrow> runner" where
  "enqueue m s = observe (Enqueued m) (s\<lparr>writeQueue := writeQueue s @ [m]\<rparr>)"

definition onSendTask :: "string \<Rightarrow> runner \<Rightarrow> runner" where
  "onSendTask m s =
     (let s1 = enqueue m s in if connected s1 \<and> \<not> writing s1 then doWrite s1 else s1)"

definition onPingTask :: "runner \<Rightarrow> runner" where
  "onPingTask s =
     (let s1 = enqueue ping_message s;
          s2 = (if connected s1 \<and> \<not> writing s1 then doWrite s1 else s1)
      in startPingTimer s2)"

definition doClose :: "runner \<Rightarrow> runner" where
  "doClose s =
     (if \<not> connected s \<or> stopping s then s
      else cancel_ops stream_op ((cancel_ops (\<lambda>h. h = H_PingTimer) s)\<lparr>stopping := True\<rparr>))"

definition onResolve :: "result \<Rightarrow> runner \<Rightarrow> runner" where
  "onResolve r s = (if is_error r then scheduleReconnect s else start_op H_Connect s)"

definition onConnect :: "result \<Rightarrow> runner \<Rightarrow> runner" where
  "onConnect r s =
     (if is_error r then scheduleReconnect s
      else if r = R_Sni_Error then scheduleReconnect s
      else start_op H_Ssl s)"

definition onSslHandshake :: "result \<Rightarrow> runner \<Rightarrow> runner" where
  "onSslHandshake r s = (if is_error r then scheduleReconnect s else start_op H_Ws s)"

definition onWsHandshake :: "result \<Rightarrow> runner \<Rightarrow> runner" where
  "onWsHandshake r s =
     (if is_error r then scheduleReconnect s
      else let s1 = cancel_ops (\<lambda>h. h = H_ReconnectTimer) s;
               s2 = s1\<lparr>lastPongTime := now s1, pendingPong := False,
                       connected := True, reconnectAttempts := 0\<rparr>;
               s3 = observe L_Connected s2;
               s4 = (if writeQueue s3 \<noteq> [] then doWrite s3 else s3)
           in doRead (startPingTimer s4))"

definition onRead :: "result \<Rightarrow> runner \<Rightarrow> runner" where
  "onRead r s =
     (if \<not> connected s \<and> \<not> stopping s then s
      else if is_error r then
        (if stopping s then start_op H_Close s
         else scheduleReconnect ((observe (L_Disconnected True (errMsg r)) s)\<lparr>connected := False\<rparr>))
      else doRead (observe (L_Message (payload r)) s))"

text \<open>The lambda of \<open>async_close\<close> in \<open>onRead\<close>.\<close>

definition onClosed :: "runner \<Rightarrow> runner" where
  "onClosed s = (observe (L_Disconnected False []) s)\<lparr>connected := False, stopping := False\<rparr>"

definition onWrite :: "result \<Rightarrow> runner \<Rightarrow> runner" where
  "onWrite r s =
     (if \<not> connected s then s
      else if is_error r then s\<lparr>writing := False\<rparr>
      else case writeQueue s of
             [] \<Rightarrow> doWrite s
           | m # q \<Rightarrow> doWrite (observe (Write_Done m) (s\<lparr>writeQueue := q\<rparr>)))"

definition onReconnectTimer :: "result \<Rightarrow> runner \<Rightarrow> runner" where
  "onReconnectTimer r s = (if \<not> is_error r \<and> \<not> stopping s then doReconnect s else s)"

definition onPingTimer :: "result \<Rightarrow> runner \<Rightarrow> runner" where
  "onPingTimer r s = (if \<not> is_error r \<and> \<not> stopping s \<and> connected s then doPing s else s)"

fun run_task :: "task \<Rightarrow> runner \<Rightarrow> runner" where
  "run_task (Done H_Resolve r) s = onResolve r s"
| "run_task (Done H_Connect r) s = onConnect r s"
| "run_task (Done H_Ssl r) s = onSslHandshake r s"
| "run_task (Done H_Ws r) s = onWsHandshake r s"
| "run_task (Done H_Read r) s = onRead r s"
| "run_task (Done H_Write r) s = onWrite r s"
| "run_task (Done H_Close r) s = onClosed s"
| "run_task (Done H_ReconnectTimer r) s = onReconnectTimer r s"
| "run_task (Done H_PingTimer r) s = onPingTimer r s"
| "run_task (P_Send m) s = onSendTask m s"
| "run_task P_DoClose s = doClose s"
| "run_task P_Ping s = onPingTask s"

text \<open>The public interface, called from other threads, and the pong sources.\<close>

definition start_runner :: "nat \<Rightarrow> runner" where
  "start_runner t =
     doResolve \<lparr>connected = False, stopping = False, writing = False, writeQueue = [],
       reconnectAttempts = 0, pendingPong = False, lastPongTime = 0, now = t,
       inflight = [], ready = [], trace = []\<rparr>"

definition send_message :: "string \<Rightarrow> runner \<Rightarrow> runner" where
  "send_message m = post_task (P_Send m)"

definition onPongReceived :: "runner \<Rightarrow> runner" where
  "onPongReceived s = s\<lparr>lastPongTime := now s, pendingPong := False\<rparr>"

definition ioc_stopped :: "runner \<Rightarrow> bool" where
  "ioc_stopped s \<longleftrightarrow> inflight s = [] \<and> ready s = []"

definition stop_runner :: "runner \<Rightarrow> runner" where
  "stop_runner s =
     (let s1 = observe Stop_Called s;
          s2 = cancel_ops (\<lambda>h. h = H_ReconnectTimer) s1;
          s3 = cancel_ops (\<lambda>h. h = H_PingTimer) s2
      in if \<not> ioc_stopped s3 \<and> \<not> stopping s3 then post_task P_DoClose s3 else s3)"

section \<open>Executions\<close>

datatype event =
    Ev_Run                    \<comment> \<open>the context runs the handler at the head of the FIFO\<close>
  | Ev_Complete handler result \<comment> \<open>an operation in flight completes\<close>
  | Ev_Send string | Ev_Stop | Ev_Pong
  | Ev_Tick nat               \<comment> \<open>the steady clock advances\<close>

text \<open>
  A timer that is not cancelled completes without error; the SNI failure belongs to the connect.
\<close>

fun may_complete :: "handler \<Rightarrow> result \<Rightarrow> bool" where
  "may_complete h r =
     ((h \<in> {H_ReconnectTimer, H_PingTimer} \<longrightarrow> \<not> is_error r) \<and> (r = R_Sni_Error \<longrightarrow> h = H_Connect))"

fun enabled :: "event \<Rightarrow> runner \<Rightarrow> bool" where
  "enabled Ev_Run s = (ready s \<noteq> [])"
| "enabled (Ev_Complete h r) s = (h \<in> set (inflight s) \<and> may_complete h r)"
| "enabled _ s = True"

fun exec_event :: "event \<Rightarrow> runner \<Rightarrow> runner" where
  "exec_event Ev_Run s =
     (case ready s of [] \<Rightarrow> s | t # ts \<Rightarrow> run_task t (s\<lparr>ready := ts\<rparr>))"
| "exec_event (Ev_Complete h r) s =
     post_task (Done h r) (s\<lparr>inflight := remove1 h (inflight s)\<rparr>)"
| "exec_event (Ev_Send m) s = send_message m s"
| "exec_event Ev_Stop s = stop_runner s"
| "exec_event Ev_Pong s = onPongReceived s"
| "exec_event (Ev_Tick d) s = s\<lparr>now := now s + d\<rparr>"

inductive runner_step :: "runner \<Rightarrow> runner \<Rightarrow> bool" where
  step: "enabled e s \<Longrightarrow> runner_step s (exec_event e s)"

inductive runner_reachable :: "runner \<Rightarrow> bool" where
  init: "runner_reachable (start_runner t)"
| next_step: "runner_reachable s \<Longrightarrow> runner_step s s' \<Longrightarrow> runner_reachable s'"

inductive_cases runner_stepE: "runner_step s s'"

fun run_events :: "event list \<Rightarrow> runner \<Rightarrow> runner option" where
  "run_events [] s = Some s"
| "run_events (e # es) s = (if enabled e s then run_events es (exec_event e s) else None)"

lemma run_events_reachable:
  "runner_reachable s \<Longrightarrow> run_events es s = Some s' \<Longrightarrow> runner_reachable s'"
proof (induction es arbitrary: s)
  case Nil
  then show ?case by simp
next
  case (Cons e es)
  from Cons.prems have en: "enabled e s" and r: "run_events es (exec_event e s) = Some s'"
    by (auto split: if_splits)
  from Cons.prems(1) en have "runner_reachable (exec_event e s)"
    by (blast intro: runner_reachable.next_step runner_step.step)
  then show ?case using r by (rule Cons.IH)
qed

end
