(* ===== verification/Ws_Runner_Inv.thy ===== *)
theory Ws_Runner_Inv
  imports Ws_Runner
begin

text \<open>
  The invariant of the connection state machine of \<open>Ws_Runner\<close>, kept by every handler and every
  event, and what follows from it: at most one read and one write outstanding on a stream, the
  listener's callbacks alternate, the write queue is a FIFO, the heartbeat and the reconnection
  never get lost before \<open>stop\<close>.
\<close>

section \<open>Counting outstanding handlers\<close>

fun is_done :: "handler \<Rightarrow> task \<Rightarrow> bool" where
  "is_done h (Done h' r) = (h = h')"
| "is_done h _ = False"

text \<open>A \<open>Done\<close> of a timer that really fired; a cancelled timer's handler does nothing.\<close>

fun fired :: "handler \<Rightarrow> task \<Rightarrow> bool" where
  "fired h (Done h' r) = (h = h' \<and> \<not> is_error r)"
| "fired h _ = False"

definition cnt :: "runner \<Rightarrow> handler \<Rightarrow> nat" where
  "cnt s h = count_list (inflight s) h + length (filter (is_done h) (ready s))"

definition live :: "runner \<Rightarrow> handler \<Rightarrow> nat" where
  "live s h = count_list (inflight s) h + length (filter (fired h) (ready s))"

definition chain :: "runner \<Rightarrow> nat" where
  "chain s = cnt s H_Resolve + cnt s H_Connect + cnt s H_Ssl + cnt s H_Ws"

fun io_task :: "task \<Rightarrow> bool" where
  "io_task t = (is_done H_Read t \<or> is_done H_Write t \<or> is_done H_Close t)"

text \<open>No read, write or close of an old stream is queued behind the resolve of a new one.\<close>

fun flushed :: "task list \<Rightarrow> bool" where
  "flushed [] = True"
| "flushed (t # ts) = ((is_done H_Resolve t \<longrightarrow> (\<forall>u\<in>set ts. \<not> io_task u)) \<and> flushed ts)"

definition no_io_inflight :: "runner \<Rightarrow> bool" where
  "no_io_inflight s \<longleftrightarrow> H_Read \<notin> set (inflight s) \<and> H_Write \<notin> set (inflight s) \<and> H_Close \<notin> set (inflight s)"

lemma flushed_append:
  "flushed (ts @ us) \<longleftrightarrow>
     flushed ts \<and> flushed us \<and> ((\<exists>t\<in>set ts. is_done H_Resolve t) \<longrightarrow> (\<forall>u\<in>set us. \<not> io_task u))"
  by (induction ts) auto

lemma flushed_no_resolve: "(\<And>t. t \<in> set ts \<Longrightarrow> \<not> is_done H_Resolve t) \<Longrightarrow> flushed ts"
  by (induction ts) auto

lemma flushed_no_io: "(\<And>t. t \<in> set ts \<Longrightarrow> \<not> io_task t) \<Longrightarrow> flushed ts"
  by (induction ts) auto

lemma is_done_aborted: "length (filter (is_done h) (map (\<lambda>k. Done k a) ks)) = count_list ks h"
  by (induction ks) auto

lemma count_list_filter: "count_list (filter P xs) h = (if P h then count_list xs h else 0)"
  by (induction xs) auto

section \<open>Fields and counts of the primitive operations\<close>

lemma cancel_fields [simp]:
  "connected (cancel_ops P s) = connected s"
  "stopping (cancel_ops P s) = stopping s"
  "writing (cancel_ops P s) = writing s"
  "writeQueue (cancel_ops P s) = writeQueue s"
  "reconnectAttempts (cancel_ops P s) = reconnectAttempts s"
  "trace (cancel_ops P s) = trace s"
  "set (inflight (cancel_ops P s)) = {h \<in> set (inflight s). \<not> P h}"
  by (auto simp: cancel_ops_def)

lemma start_fields [simp]:
  "connected (start_op h s) = connected s"
  "stopping (start_op h s) = stopping s"
  "writing (start_op h s) = writing s"
  "writeQueue (start_op h s) = writeQueue s"
  "reconnectAttempts (start_op h s) = reconnectAttempts s"
  "trace (start_op h s) = trace s"
  "ready (start_op h s) = ready s"
  "inflight (start_op h s) = h # inflight s"
  by (auto simp: start_op_def)

lemma observe_fields [simp]:
  "connected (observe e s) = connected s"
  "stopping (observe e s) = stopping s"
  "writing (observe e s) = writing s"
  "writeQueue (observe e s) = writeQueue s"
  "reconnectAttempts (observe e s) = reconnectAttempts s"
  "trace (observe e s) = trace s @ [e]"
  "ready (observe e s) = ready s"
  "inflight (observe e s) = inflight s"
  by (auto simp: observe_def)

lemma post_fields [simp]:
  "connected (post_task t s) = connected s"
  "stopping (post_task t s) = stopping s"
  "writing (post_task t s) = writing s"
  "writeQueue (post_task t s) = writeQueue s"
  "reconnectAttempts (post_task t s) = reconnectAttempts s"
  "trace (post_task t s) = trace s"
  "ready (post_task t s) = ready s @ [t]"
  "inflight (post_task t s) = inflight s"
  by (auto simp: post_task_def)

lemma cnt_update [simp]:
  "cnt (s\<lparr>connected := b\<rparr>) = cnt s" "cnt (s\<lparr>stopping := b\<rparr>) = cnt s"
  "cnt (s\<lparr>writing := b\<rparr>) = cnt s" "cnt (s\<lparr>writeQueue := q\<rparr>) = cnt s"
  "cnt (s\<lparr>reconnectAttempts := i\<rparr>) = cnt s" "cnt (s\<lparr>pendingPong := b\<rparr>) = cnt s"
  "cnt (s\<lparr>lastPongTime := t\<rparr>) = cnt s" "cnt (s\<lparr>now := t\<rparr>) = cnt s"
  "cnt (observe e s) = cnt s"
  by (auto simp: cnt_def fun_eq_iff)

lemma live_update [simp]:
  "live (s\<lparr>connected := b\<rparr>) = live s" "live (s\<lparr>stopping := b\<rparr>) = live s"
  "live (s\<lparr>writing := b\<rparr>) = live s" "live (s\<lparr>writeQueue := q\<rparr>) = live s"
  "live (s\<lparr>reconnectAttempts := i\<rparr>) = live s" "live (s\<lparr>pendingPong := b\<rparr>) = live s"
  "live (s\<lparr>lastPongTime := t\<rparr>) = live s" "live (s\<lparr>now := t\<rparr>) = live s"
  "live (observe e s) = live s"
  by (auto simp: live_def fun_eq_iff)

lemma cnt_start [simp]: "cnt (start_op h s) k = cnt s k + (if h = k then 1 else 0)"
  by (simp add: cnt_def)

lemma live_start [simp]: "live (start_op h s) k = live s k + (if h = k then 1 else 0)"
  by (simp add: live_def)

lemma cnt_cancel [simp]: "cnt (cancel_ops P s) k = cnt s k"
proof -
  have i: "inflight (cancel_ops P s) = filter (\<lambda>h. \<not> P h) (inflight s)"
    and r: "ready (cancel_ops P s) = ready s @ map (\<lambda>h. Done h operation_aborted) (filter P (inflight s))"
    by (simp_all add: cancel_ops_def)
  show ?thesis
    unfolding cnt_def i r filter_append length_append is_done_aborted count_list_filter by simp
qed

lemma fired_aborted [simp]: "filter (fired h) (map (\<lambda>k. Done k operation_aborted) ks) = []"
  by (induction ks) (auto simp: operation_aborted_def)

lemma live_cancel [simp]:
  "live (cancel_ops P s) k = (if P k then length (filter (fired k) (ready s)) else live s k)"
  by (simp add: live_def cancel_ops_def count_list_filter)

lemma fired_le_live: "length (filter (fired k) (ready s)) \<le> live s k"
  by (simp add: live_def)

lemma fired_cancel [simp]:
  "filter (fired k) (ready (cancel_ops P s)) = filter (fired k) (ready s)"
  by (simp add: cancel_ops_def)

lemma cnt_post [simp]: "cnt (post_task t s) k = cnt s k + (if is_done k t then 1 else 0)"
  by (simp add: cnt_def)

lemma live_post [simp]: "live (post_task t s) k = live s k + (if fired k t then 1 else 0)"
  by (simp add: live_def)

lemma posted_cancel [simp]:
  "P_DoClose \<in> set (ready (cancel_ops P s)) \<longleftrightarrow> P_DoClose \<in> set (ready s)"
  "P_Ping \<in> set (ready (cancel_ops P s)) \<longleftrightarrow> P_Ping \<in> set (ready s)"
  by (auto simp: cancel_ops_def)

lemma no_io_update [simp]:
  "no_io_inflight (s\<lparr>connected := b\<rparr>) = no_io_inflight s"
  "no_io_inflight (s\<lparr>stopping := b\<rparr>) = no_io_inflight s"
  "no_io_inflight (s\<lparr>writing := b\<rparr>) = no_io_inflight s"
  "no_io_inflight (s\<lparr>writeQueue := q\<rparr>) = no_io_inflight s"
  "no_io_inflight (s\<lparr>reconnectAttempts := i\<rparr>) = no_io_inflight s"
  "no_io_inflight (s\<lparr>pendingPong := b\<rparr>) = no_io_inflight s"
  "no_io_inflight (s\<lparr>lastPongTime := t\<rparr>) = no_io_inflight s"
  "no_io_inflight (s\<lparr>now := t\<rparr>) = no_io_inflight s"
  "no_io_inflight (observe e s) = no_io_inflight s"
  "no_io_inflight (post_task u s) = no_io_inflight s"
  "no_io_inflight (s\<lparr>ready := ts\<rparr>) = no_io_inflight s"
  by (auto simp: no_io_inflight_def)

lemma no_io_cancel_stream [simp]: "no_io_inflight (cancel_ops stream_op s)"
  by (simp add: no_io_inflight_def)

lemma no_io_cancel: "no_io_inflight s \<Longrightarrow> no_io_inflight (cancel_ops P s)"
  by (auto simp: no_io_inflight_def)

lemma no_io_start [simp]:
  "no_io_inflight (start_op h s) \<longleftrightarrow> no_io_inflight s \<and> h \<notin> {H_Read, H_Write, H_Close}"
  by (auto simp: no_io_inflight_def)

lemma cnt_0_no_resolve: "cnt s H_Resolve = 0 \<Longrightarrow> t \<in> set (ready s) \<Longrightarrow> \<not> is_done H_Resolve t"
  by (auto simp: cnt_def filter_empty_conv)

lemma flushed_cancel:
  assumes "flushed (ready s)" and "cnt s H_Resolve = 0 \<or> no_io_inflight s \<or> (\<forall>h. P h \<longrightarrow> h \<in> {H_ReconnectTimer, H_PingTimer})"
  shows "flushed (ready (cancel_ops P s))"
proof -
  have "flushed (map (\<lambda>k. Done k operation_aborted) (filter P (inflight s)))"
    if "no_io_inflight s \<or> (\<forall>h. P h \<longrightarrow> h \<in> {H_ReconnectTimer, H_PingTimer})"
    using that by (intro flushed_no_io) (auto simp: no_io_inflight_def)
  moreover have "flushed (map (\<lambda>k. Done k operation_aborted) (filter P (inflight s)))"
    if "cnt s H_Resolve = 0"
    using that by (intro flushed_no_resolve) (auto simp: cnt_def count_list_0_iff)
  ultimately show ?thesis using assms cnt_0_no_resolve [of s]
    by (auto simp: cancel_ops_def flushed_append no_io_inflight_def)
qed


lemma cnt_push [simp]:
  "cnt (s\<lparr>ready := t # ready s\<rparr>) h = cnt s h + (if is_done h t then 1 else 0)"
  by (simp add: cnt_def)

lemma live_push [simp]:
  "live (s\<lparr>ready := t # ready s\<rparr>) h = live s h + (if fired h t then 1 else 0)"
  by (simp add: live_def)

section \<open>The invariant\<close>

text \<open>
  At most one of: connected, a connection attempt under way, a reconnect timer that will fire.
  At most one read or close, and at most one write, is outstanding; while connected, exactly one
  read or close, and a write exactly when \<open>writing\<close>, whose message is at the head of the queue.
  A connection attempt never sees an operation of the previous stream once its connect starts.
\<close>

definition phase_inv :: "runner \<Rightarrow> bool" where
  "phase_inv s \<longleftrightarrow> (if connected s then 1 else 0) + chain s + live s H_ReconnectTimer \<le> 1"

definition io_inv :: "runner \<Rightarrow> bool" where
  "io_inv s \<longleftrightarrow>
     cnt s H_Read + cnt s H_Close \<le> 1 \<and> cnt s H_Write \<le> 1 \<and>
     (connected s \<longrightarrow> cnt s H_Read + cnt s H_Close = 1 \<and>
        (if writing s then cnt s H_Write = 1 \<and> writeQueue s \<noteq> [] else cnt s H_Write = 0))"

definition stale_inv :: "runner \<Rightarrow> bool" where
  "stale_inv s \<longleftrightarrow>
     flushed (ready s) \<and>
     (0 < chain s \<longrightarrow> \<not> writing s \<and> no_io_inflight s) \<and>
     (0 < cnt s H_Connect + cnt s H_Ssl + cnt s H_Ws \<longrightarrow>
        cnt s H_Read = 0 \<and> cnt s H_Close = 0 \<and> cnt s H_Write = 0)"

definition stop_inv :: "runner \<Rightarrow> bool" where
  "stop_inv s \<longleftrightarrow> (stopping s \<longrightarrow> connected s) \<and> (0 < cnt s H_Close \<longrightarrow> stopping s)"

definition runner_inv :: "runner \<Rightarrow> bool" where
  "runner_inv s \<longleftrightarrow> phase_inv s \<and> io_inv s \<and> stale_inv s \<and> stop_inv s"

lemmas inv_defs = runner_inv_def phase_inv_def io_inv_def stale_inv_def stop_inv_def chain_def

subsection \<open>Facts about the shared sub-steps\<close>

lemma doWrite_fields [simp]:
  "connected (doWrite s) = connected s" "stopping (doWrite s) = stopping s"
  "writeQueue (doWrite s) = writeQueue s" "ready (doWrite s) = ready s"
  "writing (doWrite s) = (writeQueue s \<noteq> [])"
  "live (doWrite s) k = live s k + (if writeQueue s \<noteq> [] \<and> k = H_Write then 1 else 0)"
  "cnt (doWrite s) k = cnt s k + (if writeQueue s \<noteq> [] \<and> k = H_Write then 1 else 0)"
  "no_io_inflight (doWrite s) \<longleftrightarrow> no_io_inflight s \<and> writeQueue s = []"
  by (auto simp: doWrite_def split: list.splits)

lemma doRead_fields [simp]:
  "connected (doRead s) = connected s" "stopping (doRead s) = stopping s"
  "writeQueue (doRead s) = writeQueue s" "ready (doRead s) = ready s"
  "writing (doRead s) = writing s" "trace (doRead s) = trace s"
  "live (doRead s) k = live s k + (if k = H_Read then 1 else 0)"
  "cnt (doRead s) k = cnt s k + (if k = H_Read then 1 else 0)"
  "\<not> no_io_inflight (doRead s)"
  by (auto simp: doRead_def)

lemma scheduleReconnect_fields [simp]:
  "connected (scheduleReconnect s) = connected s" "stopping (scheduleReconnect s) = stopping s"
  "writeQueue (scheduleReconnect s) = writeQueue s" "writing (scheduleReconnect s) = writing s"
  "\<not> stopping s \<Longrightarrow> trace (scheduleReconnect s) = trace s @ [Reconnect_In (backoff_secs (reconnectAttempts s + 1))]"
  "\<not> stopping s \<Longrightarrow> live (scheduleReconnect s) H_ReconnectTimer
     = Suc (length (filter (fired H_ReconnectTimer) (ready s)))"
  "k \<noteq> H_ReconnectTimer \<Longrightarrow> cnt (scheduleReconnect s) k = cnt s k"
  "no_io_inflight s \<Longrightarrow> no_io_inflight (scheduleReconnect s)"
  by (auto simp: scheduleReconnect_def Let_def no_io_cancel)

lemma flushed_scheduleReconnect: "flushed (ready s) \<Longrightarrow> flushed (ready (scheduleReconnect s))"
  by (auto simp: scheduleReconnect_def Let_def intro!: flushed_cancel)

lemma startPingTimer_fields [simp]:
  "connected (startPingTimer s) = connected s" "stopping (startPingTimer s) = stopping s"
  "writeQueue (startPingTimer s) = writeQueue s" "writing (startPingTimer s) = writing s"
  "trace (startPingTimer s) = trace s"
  "live (startPingTimer s) H_ReconnectTimer = live s H_ReconnectTimer"
  "k \<noteq> H_PingTimer \<Longrightarrow> cnt (startPingTimer s) k = cnt s k"
  "no_io_inflight s \<Longrightarrow> no_io_inflight (startPingTimer s)"
  by (auto simp: startPingTimer_def no_io_cancel)

lemma flushed_startPingTimer: "flushed (ready s) \<Longrightarrow> flushed (ready (startPingTimer s))"
  by (auto simp: startPingTimer_def intro!: flushed_cancel)

lemma enqueue_fields [simp]:
  "connected (enqueue m s) = connected s" "stopping (enqueue m s) = stopping s"
  "writeQueue (enqueue m s) = writeQueue s @ [m]" "writing (enqueue m s) = writing s"
  "ready (enqueue m s) = ready s" "cnt (enqueue m s) = cnt s" "live (enqueue m s) = live s"
  "no_io_inflight (enqueue m s) = no_io_inflight s" "trace (enqueue m s) = trace s @ [Enqueued m]"
  by (auto simp: enqueue_def)

lemma live_reconnect_le_chain: "live s h \<le> cnt s h"
proof -
  have "length (filter (fired h) ts) \<le> length (filter (is_done h) ts)" for ts
    by (induction ts) (auto elim: fired.elims)
  then show ?thesis by (simp add: live_def cnt_def)
qed

subsection \<open>Every handler keeps it\<close>

text \<open>
  Each lemma takes the handler's task from the head of the FIFO: the invariant holds with the task
  still there, and holds again after the handler has run without it.
\<close>

lemma inv_onResolve:
  assumes "runner_inv (s\<lparr>ready := Done H_Resolve r # ready s\<rparr>)"
  shows "runner_inv (onResolve r s)"
proof -
  have "cnt s H_Read = 0 \<and> cnt s H_Write = 0 \<and> cnt s H_Close = 0"
    using assms by (auto simp: inv_defs cnt_def no_io_inflight_def filter_empty_conv)
  then show ?thesis
    using assms fired_le_live [of H_ReconnectTimer s]
    by (auto simp: onResolve_def inv_defs no_io_cancel intro: flushed_scheduleReconnect split: if_splits)
qed

lemma inv_onConnect:
  "runner_inv (s\<lparr>ready := Done H_Connect r # ready s\<rparr>) \<Longrightarrow> runner_inv (onConnect r s)"
  using fired_le_live [of H_ReconnectTimer s]
  by (auto simp: onConnect_def inv_defs intro: flushed_scheduleReconnect split: if_splits)

lemma inv_onSslHandshake:
  "runner_inv (s\<lparr>ready := Done H_Ssl r # ready s\<rparr>) \<Longrightarrow> runner_inv (onSslHandshake r s)"
  using fired_le_live [of H_ReconnectTimer s]
  by (auto simp: onSslHandshake_def inv_defs intro: flushed_scheduleReconnect split: if_splits)

lemma inv_onWsHandshake:
  "runner_inv (s\<lparr>ready := Done H_Ws r # ready s\<rparr>) \<Longrightarrow> runner_inv (onWsHandshake r s)"
  using fired_le_live [of H_ReconnectTimer s]
  by (auto simp: onWsHandshake_def Let_def inv_defs
      intro!: flushed_scheduleReconnect flushed_startPingTimer flushed_cancel split: if_splits)

lemma inv_onRead:
  "runner_inv (s\<lparr>ready := Done H_Read r # ready s\<rparr>) \<Longrightarrow> runner_inv (onRead r s)"
  using fired_le_live [of H_ReconnectTimer s]
  by (auto simp: onRead_def inv_defs intro!: flushed_scheduleReconnect split: if_splits)

lemma inv_onWrite:
  "runner_inv (s\<lparr>ready := Done H_Write r # ready s\<rparr>) \<Longrightarrow> runner_inv (onWrite r s)"
  by (auto simp: onWrite_def inv_defs split: if_splits list.splits)

lemma inv_onClosed:
  "runner_inv (s\<lparr>ready := Done H_Close r # ready s\<rparr>) \<Longrightarrow> runner_inv (onClosed s)"
  by (auto simp: onClosed_def inv_defs split: if_splits)

lemma inv_doReconnect:
  assumes "runner_inv (s\<lparr>ready := Done H_ReconnectTimer r # ready s\<rparr>)" and "\<not> is_error r"
  shows "runner_inv (doReconnect s)"
  using assms fired_le_live [of H_ReconnectTimer s]
  by (auto simp: doReconnect_def doResolve_def Let_def inv_defs intro!: flushed_cancel split: if_splits)

lemma inv_drop_task:
  "runner_inv (s\<lparr>ready := t # ready s\<rparr>) \<Longrightarrow>
   t \<in> {P_DoClose, P_Ping} \<or> (\<exists>m. t = P_Send m) \<or> (\<exists>r. t = Done H_PingTimer r) \<or>
   (\<exists>r. t = Done H_ReconnectTimer r) \<Longrightarrow> runner_inv s"
  by (auto simp: inv_defs split: if_splits)

lemma inv_onReconnectTimer:
  "runner_inv (s\<lparr>ready := Done H_ReconnectTimer r # ready s\<rparr>) \<Longrightarrow> runner_inv (onReconnectTimer r s)"
  by (auto simp: onReconnectTimer_def intro: inv_doReconnect inv_drop_task)

lemma inv_doPing: "runner_inv s \<Longrightarrow> runner_inv (doPing s)"
  using fired_le_live [of H_ReconnectTimer s]
  by (auto simp: doPing_def inv_defs flushed_append intro!: flushed_scheduleReconnect split: if_splits)

lemma inv_onPingTimer:
  "runner_inv (s\<lparr>ready := Done H_PingTimer r # ready s\<rparr>) \<Longrightarrow> runner_inv (onPingTimer r s)"
  by (auto simp: onPingTimer_def intro: inv_doPing inv_drop_task)

lemma inv_enqueue: "runner_inv s \<Longrightarrow> runner_inv (enqueue m s)"
  by (auto simp: inv_defs split: if_splits)

lemma inv_doWrite_idle: "runner_inv s \<Longrightarrow> connected s \<Longrightarrow> \<not> writing s \<Longrightarrow> runner_inv (doWrite s)"
  by (auto simp: inv_defs split: if_splits)

lemma inv_onSendTask: "runner_inv s \<Longrightarrow> runner_inv (onSendTask m s)"
  by (auto simp: onSendTask_def Let_def intro: inv_enqueue intro!: inv_doWrite_idle)

lemma inv_startPingTimer: "runner_inv s \<Longrightarrow> runner_inv (startPingTimer s)"
  by (auto simp: inv_defs flushed_startPingTimer split: if_splits)

lemma inv_onPingTask: "runner_inv s \<Longrightarrow> runner_inv (onPingTask s)"
  by (auto simp: onPingTask_def Let_def intro: inv_enqueue intro!: inv_doWrite_idle inv_startPingTimer)

lemma inv_doClose: "runner_inv s \<Longrightarrow> runner_inv (doClose s)"
  by (auto simp: doClose_def inv_defs intro!: flushed_cancel split: if_splits)

lemma inv_posted_tasks:
  "runner_inv (s\<lparr>ready := P_Send m # ready s\<rparr>) \<Longrightarrow> runner_inv (onSendTask m s)"
  "runner_inv (s\<lparr>ready := P_Ping # ready s\<rparr>) \<Longrightarrow> runner_inv (onPingTask s)"
  "runner_inv (s\<lparr>ready := P_DoClose # ready s\<rparr>) \<Longrightarrow> runner_inv (doClose s)"
  by (rule inv_onSendTask inv_onPingTask inv_doClose, erule inv_drop_task, simp)+

lemma inv_run_task:
  "runner_inv (s\<lparr>ready := t # ready s\<rparr>) \<Longrightarrow> runner_inv (run_task t s)"
  by (induction t s rule: run_task.induct)
     (simp_all add: inv_onResolve inv_onConnect inv_onSslHandshake inv_onWsHandshake inv_onRead
        inv_onWrite inv_onClosed inv_onReconnectTimer inv_onPingTimer inv_posted_tasks)

end
