(* ===== verification/Ws_Runner_Spec.thy ===== *)
theory Ws_Runner_Spec
  imports Ws_Runner_Inv
begin

text \<open>
  What the connection state machine promises: every event keeps the invariant, and the trace it
  produces is a run of an abstract link (up or down, a FIFO of messages, a count of failed
  attempts). Before \<open>stop\<close> the machine is never stuck and its heartbeat is never lost; \<open>stop\<close> ends it on a quiet
  connection, and does not while it is connecting or when a message overtakes it.
\<close>

section \<open>Events keep the invariant\<close>

lemma cnt_complete:
  "h \<in> set (inflight s) \<Longrightarrow>
   cnt (post_task (Done h r) (s\<lparr>inflight := remove1 h (inflight s)\<rparr>)) k = cnt s k"
  by (auto simp: cnt_def count_list_0_iff remove1_append dest!: split_list)

lemma live_complete:
  "h \<in> set (inflight s) \<Longrightarrow>
   live (post_task (Done h r) (s\<lparr>inflight := remove1 h (inflight s)\<rparr>)) k =
     (if h = k \<and> is_error r then live s k - 1 else live s k)"
  by (auto simp: live_def count_list_0_iff remove1_append dest!: split_list)

lemma no_io_complete:
  "no_io_inflight s \<Longrightarrow> no_io_inflight (s\<lparr>inflight := remove1 h (inflight s)\<rparr>)"
  by (auto simp: no_io_inflight_def dest: notin_set_remove1)

lemma inv_complete:
  assumes i: "runner_inv s" and h: "h \<in> set (inflight s)" "may_complete h r"
  shows "runner_inv (post_task (Done h r) (s\<lparr>inflight := remove1 h (inflight s)\<rparr>))"
    (is "runner_inv ?s'")
proof -
  have c: "cnt ?s' = cnt s" and ch: "chain ?s' = chain s"
    using cnt_complete [OF h(1)] by (simp_all add: fun_eq_iff chain_def)
  have l: "live ?s' H_ReconnectTimer = live s H_ReconnectTimer"
    using h by (auto simp: live_complete simp del: live_post)
  have io: "no_io_inflight s \<Longrightarrow> no_io_inflight ?s'"
    using no_io_complete by simp
  have "\<not> io_task (Done h r)" if "\<exists>t\<in>set (ready s). is_done H_Resolve t"
  proof -
    have "0 < chain s" using that by (auto simp: chain_def cnt_def filter_empty_conv)
    then have "no_io_inflight s" using i by (simp add: runner_inv_def stale_inv_def)
    then show ?thesis using h(1) by (auto simp: no_io_inflight_def)
  qed
  then have f: "flushed (ready ?s')"
    using i by (auto simp: runner_inv_def stale_inv_def flushed_append)
  have e: "connected ?s' = connected s" "stopping ?s' = stopping s" "writing ?s' = writing s"
    "writeQueue ?s' = writeQueue s" by simp_all
  show ?thesis
    using i f io unfolding runner_inv_def phase_inv_def io_inv_def stale_inv_def stop_inv_def c ch l e
    by simp
qed

lemma inv_post_plain:
  assumes i: "runner_inv s" and t: "\<And>h. \<not> is_done h t" "\<And>h. \<not> fired h t"
  shows "runner_inv (post_task t s)"
proof -
  have c: "cnt (post_task t s) = cnt s" "chain (post_task t s) = chain s"
    "live (post_task t s) = live s"
    using t by (simp_all add: fun_eq_iff chain_def)
  have f: "flushed (ready (post_task t s)) = flushed (ready s)"
    using t by (simp add: flushed_append)
  show ?thesis
    using i f unfolding runner_inv_def phase_inv_def io_inv_def stale_inv_def stop_inv_def c by simp
qed

lemma inv_cancel_timer:
  "runner_inv s \<Longrightarrow> (\<And>h. P h \<Longrightarrow> h \<in> {H_ReconnectTimer, H_PingTimer}) \<Longrightarrow> runner_inv (cancel_ops P s)"
  using fired_le_live [of H_ReconnectTimer s]
  by (auto simp: inv_defs no_io_cancel intro!: flushed_cancel split: if_splits)

lemma inv_observe: "runner_inv s \<Longrightarrow> runner_inv (observe e s)"
  by (simp add: inv_defs)

lemma inv_stop: "runner_inv s \<Longrightarrow> runner_inv (stop_runner s)"
  by (auto simp: stop_runner_def Let_def intro!: inv_post_plain inv_cancel_timer inv_observe)

lemma inv_clock:
  "runner_inv (s\<lparr>now := t\<rparr>) = runner_inv s"
  "runner_inv (s\<lparr>lastPongTime := t, pendingPong := b\<rparr>) = runner_inv s"
  by (simp_all add: inv_defs)

lemma inv_exec_event: "runner_inv s \<Longrightarrow> enabled e s \<Longrightarrow> runner_inv (exec_event e s)"
proof (induction e s rule: exec_event.induct)
  case (1 s)
  then show ?case
  proof (cases "ready s")
    case (Cons t ts)
    from Cons have "s = s\<lparr>ready := t # ts\<rparr>" by (cases s) simp
    then have "runner_inv (s\<lparr>ready := t # ts\<rparr>)" using 1 by simp
    then show ?thesis using Cons inv_run_task [where s = "s\<lparr>ready := ts\<rparr>" and t = t] by simp
  qed simp
qed (auto simp: inv_complete inv_stop send_message_def onPongReceived_def inv_clock intro!: inv_post_plain)

lemma inv_start: "runner_inv (start_runner t)"
  by (simp add: start_runner_def doResolve_def inv_defs cnt_def live_def no_io_inflight_def)

lemma reachable_inv: "runner_reachable s \<Longrightarrow> runner_inv s"
  by (induction rule: runner_reachable.induct)
     (auto intro: inv_start inv_exec_event elim!: runner_stepE)

section \<open>The abstract link\<close>

text \<open>
  What a client of the class sees: the link is up or down; sent messages wait in a FIFO whose head
  is the one on the wire; a reconnection is announced only while the link is down, after
  \<open>min (2 ^ k) 60\<close> seconds for the k-th failure in a row, and clears the FIFO when it starts.
\<close>

type_synonym link = "bool \<times> string list \<times> int"

fun link_step :: "link \<Rightarrow> obs \<Rightarrow> link option" where
  "link_step (up, q, n) L_Connected = (if up then None else Some (True, q, 0))"
| "link_step (up, q, n) (L_Disconnected e m) = (if up then Some (False, q, n) else None)"
| "link_step (up, q, n) (L_Message m) = (if up then Some (up, q, n) else None)"
| "link_step (up, q, n) (Enqueued m) = Some (up, q @ [m], n)"
| "link_step (up, q, n) (Write_Started m) =
     (if up \<and> q \<noteq> [] \<and> hd q = m then Some (up, q, n) else None)"
| "link_step (up, q, n) (Write_Done m) =
     (if up \<and> q \<noteq> [] \<and> hd q = m then Some (up, tl q, n) else None)"
| "link_step (up, q, n) Queue_Cleared = (if up then None else Some (up, [], n))"
| "link_step (up, q, n) (Reconnect_In d) =
     (if \<not> up \<and> d = backoff_secs (n + 1) then Some (up, q, n + 1) else None)"
| "link_step l Stop_Called = Some l"

definition link_run :: "obs list \<Rightarrow> link option" where
  "link_run tr = foldl (\<lambda>l e. Option.bind l (\<lambda>x. link_step x e)) (Some (False, [], 0)) tr"

definition abs_link :: "runner \<Rightarrow> link" where
  "abs_link s = (connected s, writeQueue s, reconnectAttempts s)"

definition refines :: "runner \<Rightarrow> bool" where
  "refines s \<longleftrightarrow> link_run (trace s) = Some (abs_link s)"

lemma link_run_append [simp]:
  "link_run (tr @ es) = foldl (\<lambda>l e. Option.bind l (\<lambda>x. link_step x e)) (link_run tr) es"
  by (simp add: link_run_def)

lemma refines_simps [simp]:
  "refines (start_op h s) = refines s" "refines (cancel_ops P s) = refines s"
  "refines (post_task u s) = refines s" "refines (s\<lparr>ready := ts\<rparr>) = refines s"
  "refines (s\<lparr>inflight := hs\<rparr>) = refines s" "refines (s\<lparr>writing := b\<rparr>) = refines s"
  "refines (s\<lparr>stopping := b\<rparr>) = refines s" "refines (s\<lparr>pendingPong := b\<rparr>) = refines s"
  "refines (s\<lparr>lastPongTime := t\<rparr>) = refines s" "refines (s\<lparr>now := t\<rparr>) = refines s"
  "refines (startPingTimer s) = refines s" "refines (doRead s) = refines s"
  "refines (doResolve s) = refines s"
  by (simp_all add: refines_def abs_link_def startPingTimer_def doRead_def doResolve_def)

lemma refines_doWrite: "refines s \<Longrightarrow> connected s \<Longrightarrow> refines (doWrite s)"
  by (auto simp: refines_def abs_link_def doWrite_def split: list.splits)

lemma refines_enqueue: "refines s \<Longrightarrow> refines (enqueue m s)"
  by (simp add: refines_def abs_link_def enqueue_def)

lemma refines_reconnect: "refines s \<Longrightarrow> \<not> connected s \<Longrightarrow> refines (scheduleReconnect s)"
  by (auto simp: refines_def abs_link_def scheduleReconnect_def Let_def)

lemma refines_down:
  "refines s \<Longrightarrow> connected s \<Longrightarrow> refines ((observe (L_Disconnected e m) s)\<lparr>connected := False\<rparr>)"
  "refines s \<Longrightarrow> connected s \<Longrightarrow> refines (observe (L_Disconnected e m) (s\<lparr>connected := False\<rparr>))"
  by (simp_all add: refines_def abs_link_def)

lemma refines_message: "refines s \<Longrightarrow> connected s \<Longrightarrow> refines (observe (L_Message m) s)"
  by (simp add: refines_def abs_link_def)

lemma refines_doReconnect: "refines s \<Longrightarrow> refines (doReconnect s)"
  by (auto simp: doReconnect_def doResolve_def Let_def refines_def abs_link_def)

lemma refines_doPing: "refines s \<Longrightarrow> refines (doPing s)"
  by (auto simp: doPing_def refines_down intro!: refines_reconnect)

lemma refines_onWsHandshake:
  "refines s \<Longrightarrow> \<not> connected s \<Longrightarrow> refines (onWsHandshake r s)"
proof -
  assume a: "refines s" "\<not> connected s"
  let ?s1 = "cancel_ops (\<lambda>h. h = H_ReconnectTimer) s"
  let ?s3 = "observe L_Connected (?s1\<lparr>lastPongTime := now ?s1, pendingPong := False,
               connected := True, reconnectAttempts := 0\<rparr>)"
  have "refines ?s3" using a by (simp add: refines_def abs_link_def)
  then have "refines (doWrite ?s3)" and "refines ?s3" by (auto intro: refines_doWrite)
  then show ?thesis using a by (auto simp: onWsHandshake_def Let_def intro: refines_reconnect)
qed

lemma refines_onRead:
  "refines s \<Longrightarrow> (stopping s \<Longrightarrow> connected s) \<Longrightarrow> refines (onRead r s)"
  by (auto simp: onRead_def intro!: refines_reconnect refines_down refines_message)

lemma refines_onWrite: "refines s \<Longrightarrow> refines (onWrite r s)"
  by (auto simp: onWrite_def refines_def abs_link_def doWrite_def split: list.splits)

lemma refines_onClosed: "refines s \<Longrightarrow> connected s \<Longrightarrow> refines (onClosed s)"
  using refines_down(1) [of s False "[]"] by (simp add: onClosed_def refines_def abs_link_def)

lemma refines_onSendTask: "refines s \<Longrightarrow> refines (onSendTask m s)"
  using refines_enqueue [of s m] by (auto simp: onSendTask_def Let_def intro: refines_doWrite)

lemma refines_onPingTask: "refines s \<Longrightarrow> refines (onPingTask s)"
  using refines_enqueue [of s ping_message] by (auto simp: onPingTask_def Let_def intro: refines_doWrite)

lemma refines_doClose: "refines s \<Longrightarrow> refines (doClose s)"
  by (simp add: doClose_def)

text \<open>What the invariant says of the state in which a connection handler runs.\<close>

lemma inv_at_task:
  assumes "runner_inv (s\<lparr>ready := Done h r # ready s\<rparr>)"
  shows "h \<in> {H_Resolve, H_Connect, H_Ssl, H_Ws} \<Longrightarrow> \<not> connected s"
    and "h = H_Close \<Longrightarrow> connected s" and "stopping s \<Longrightarrow> connected s"
  using assms by (auto simp: inv_defs split: if_splits)

lemma refines_run_task:
  "runner_inv (s\<lparr>ready := t # ready s\<rparr>) \<Longrightarrow> refines s \<Longrightarrow> refines (run_task t s)"
proof (induction t s rule: run_task.induct)
  case (1 r s) then show ?case using inv_at_task(1) [OF 1(1)]
    by (auto simp: onResolve_def intro: refines_reconnect)
next
  case (2 r s) then show ?case using inv_at_task(1) [OF 2(1)]
    by (auto simp: onConnect_def intro: refines_reconnect)
next
  case (3 r s) then show ?case using inv_at_task(1) [OF 3(1)]
    by (auto simp: onSslHandshake_def intro: refines_reconnect)
next
  case (4 r s) then show ?case using inv_at_task(1) [OF 4(1)]
    by (auto intro: refines_onWsHandshake)
next
  case (5 r s) then show ?case using inv_at_task(3) [OF 5(1)]
    by (auto intro: refines_onRead)
next
  case (7 r s) then show ?case using inv_at_task(2) [OF 7(1)]
    by (auto intro: refines_onClosed)
qed (auto simp: onReconnectTimer_def onPingTimer_def
      intro: refines_onWrite refines_doReconnect refines_doPing refines_onSendTask refines_onPingTask
        refines_doClose)

lemma refines_exec: "runner_inv s \<Longrightarrow> enabled e s \<Longrightarrow> refines s \<Longrightarrow> refines (exec_event e s)"
proof (induction e s rule: exec_event.induct)
  case (1 s)
  then show ?case
  proof (cases "ready s")
    case (Cons t ts)
    from Cons have "s = s\<lparr>ready := t # ts\<rparr>" by (cases s) simp
    then have "runner_inv (s\<lparr>ready := t # ts\<rparr>)" using 1 by simp
    then show ?thesis using Cons 1(3) refines_run_task [where s = "s\<lparr>ready := ts\<rparr>" and t = t] by simp
  qed simp
qed (auto simp: send_message_def onPongReceived_def stop_runner_def Let_def refines_def abs_link_def)

lemma refines_start: "refines (start_runner t)"
  by (simp add: start_runner_def doResolve_def refines_def link_run_def abs_link_def)

lemma reachable_refines: "runner_reachable s \<Longrightarrow> refines s"
  by (induction rule: runner_reachable.induct)
     (auto intro: refines_start refines_exec reachable_inv elim!: runner_stepE)

section \<open>Never stuck before stop\<close>

text \<open>
  As long as nobody has called \<open>stop\<close>, or its call has been forgotten: something that leads on is always outstanding
  (the connection is up, or an attempt is under way, or a reconnect timer will fire), and while the
  connection is up the next heartbeat is (its timer will fire, or the ping is queued).
\<close>

definition unstopped :: "runner \<Rightarrow> bool" where
  "unstopped s \<longleftrightarrow> Stop_Called \<notin> set (trace s)"

definition moves_on :: "runner \<Rightarrow> bool" where
  "moves_on s \<longleftrightarrow> connected s \<or> 0 < chain s \<or> 0 < live s H_ReconnectTimer"

definition beats :: "runner \<Rightarrow> bool" where
  "beats s \<longleftrightarrow> connected s \<longrightarrow> 0 < live s H_PingTimer \<or> P_Ping \<in> set (ready s)"

definition alive :: "runner \<Rightarrow> bool" where
  "alive s \<longleftrightarrow> \<not> stopping s \<and> P_DoClose \<notin> set (ready s) \<and> moves_on s \<and> beats s"

lemmas alive_defs = alive_def moves_on_def beats_def chain_def

lemma scheduleReconnect_posted [simp]:
  "P_DoClose \<in> set (ready (scheduleReconnect s)) \<longleftrightarrow> P_DoClose \<in> set (ready s)"
  by (auto simp: scheduleReconnect_def Let_def)

lemma scheduleReconnect_alive:
  "\<not> connected s \<Longrightarrow> \<not> stopping s \<Longrightarrow> P_DoClose \<notin> set (ready s) \<Longrightarrow> alive (scheduleReconnect s)"
  by (auto simp: alive_def moves_on_def beats_def)

lemma alive_reconnect_at:
  "alive (s\<lparr>ready := Done h r # ready s\<rparr>) \<Longrightarrow> \<not> connected s \<Longrightarrow> alive (scheduleReconnect s)"
  by (rule scheduleReconnect_alive) (auto simp: alive_def)

lemma startPingTimer_live:
  "connected s \<Longrightarrow> \<not> stopping s \<Longrightarrow> 0 < live (startPingTimer s) H_PingTimer"
  by (simp add: startPingTimer_def)

lemma startPingTimer_posted [simp]:
  "P_DoClose \<in> set (ready (startPingTimer s)) \<longleftrightarrow> P_DoClose \<in> set (ready s)"
  by (auto simp: startPingTimer_def)

lemma alive_onResolve:
  "alive (s\<lparr>ready := Done H_Resolve r # ready s\<rparr>) \<Longrightarrow> \<not> connected s \<Longrightarrow> alive (onResolve r s)"
  by (auto simp: onResolve_def intro: alive_reconnect_at) (auto simp: alive_defs)

lemma alive_onConnect:
  "alive (s\<lparr>ready := Done H_Connect r # ready s\<rparr>) \<Longrightarrow> \<not> connected s \<Longrightarrow> alive (onConnect r s)"
  by (auto simp: onConnect_def intro: alive_reconnect_at) (auto simp: alive_defs)

lemma alive_onSslHandshake:
  "alive (s\<lparr>ready := Done H_Ssl r # ready s\<rparr>) \<Longrightarrow> \<not> connected s \<Longrightarrow> alive (onSslHandshake r s)"
  by (auto simp: onSslHandshake_def intro: alive_reconnect_at) (auto simp: alive_defs)

lemma alive_connected:
  "connected s \<Longrightarrow> \<not> stopping s \<Longrightarrow> P_DoClose \<notin> set (ready s) \<Longrightarrow> alive (startPingTimer s)"
  using startPingTimer_live [of s] by (auto simp: alive_def moves_on_def beats_def)

lemma alive_doRead [simp]: "alive (doRead s) = alive s"
  by (simp add: alive_defs)

lemma alive_onWsHandshake:
  "alive (s\<lparr>ready := Done H_Ws r # ready s\<rparr>) \<Longrightarrow> \<not> connected s \<Longrightarrow> alive (onWsHandshake r s)"
  by (auto simp: onWsHandshake_def Let_def intro: alive_reconnect_at intro!: alive_connected)
     (auto simp: alive_def)

lemma alive_onRead:
  "alive (s\<lparr>ready := Done H_Read r # ready s\<rparr>) \<Longrightarrow> alive (onRead r s)"
  by (auto simp: onRead_def alive_def intro!: scheduleReconnect_alive) (auto simp: alive_defs)

lemma alive_onWrite:
  "alive (s\<lparr>ready := Done H_Write r # ready s\<rparr>) \<Longrightarrow> alive (onWrite r s)"
  by (auto simp: onWrite_def alive_defs doWrite_def split: list.splits)

lemma alive_doReconnect:
  "alive (s\<lparr>ready := Done H_ReconnectTimer r # ready s\<rparr>) \<Longrightarrow> \<not> connected s \<Longrightarrow> alive (doReconnect s)"
  by (auto simp: doReconnect_def doResolve_def Let_def alive_defs)

lemma alive_onReconnectTimer:
  assumes a: "alive (s\<lparr>ready := Done H_ReconnectTimer r # ready s\<rparr>)"
  shows "alive (onReconnectTimer r s)"
proof (cases "\<not> is_error r \<and> \<not> stopping s \<and> \<not> connected s")
  case True
  then show ?thesis using alive_doReconnect [OF a] by (simp add: onReconnectTimer_def)
next
  case False
  then show ?thesis using a
    by (auto simp: onReconnectTimer_def doReconnect_def alive_defs)
qed

lemma alive_onPingTimer:
  "alive (s\<lparr>ready := Done H_PingTimer r # ready s\<rparr>) \<Longrightarrow> alive (onPingTimer r s)"
  by (auto simp: onPingTimer_def doPing_def alive_def intro!: scheduleReconnect_alive) (auto simp: alive_defs)

lemma alive_onSendTask:
  "alive (s\<lparr>ready := P_Send m # ready s\<rparr>) \<Longrightarrow> alive (onSendTask m s)"
  by (auto simp: onSendTask_def Let_def alive_defs doWrite_def split: list.splits)

lemma alive_onPingTask:
  assumes a: "alive (s\<lparr>ready := P_Ping # ready s\<rparr>)"
  shows "alive (onPingTask s)"
proof (cases "connected s")
  case True
  then show ?thesis using a
    by (auto simp: onPingTask_def Let_def intro!: alive_connected) (auto simp: alive_def)
next
  case False
  then show ?thesis using a by (auto simp: onPingTask_def Let_def startPingTimer_def alive_defs)
qed

lemma alive_run_task:
  "runner_inv (s\<lparr>ready := t # ready s\<rparr>) \<Longrightarrow> alive (s\<lparr>ready := t # ready s\<rparr>) \<Longrightarrow> alive (run_task t s)"
proof (induction t s rule: run_task.induct)
  case (1 r s) then show ?case using inv_at_task(1) [OF 1(1)] by (auto intro: alive_onResolve)
next
  case (2 r s) then show ?case using inv_at_task(1) [OF 2(1)] by (auto intro: alive_onConnect)
next
  case (3 r s) then show ?case using inv_at_task(1) [OF 3(1)] by (auto intro: alive_onSslHandshake)
next
  case (4 r s) then show ?case using inv_at_task(1) [OF 4(1)] by (auto intro: alive_onWsHandshake)
next
  case (7 r s)
  have "stopping s" using 7(1) by (auto simp: runner_inv_def stop_inv_def)
  then show ?case using 7(2) by (simp add: alive_def)
next
  case (11 s) then show ?case by (simp add: alive_def)
qed (auto intro: alive_onRead alive_onWrite alive_onReconnectTimer alive_onPingTimer alive_onSendTask
      alive_onPingTask)

lemma alive_exec: "runner_inv s \<Longrightarrow> enabled e s \<Longrightarrow> e \<noteq> Ev_Stop \<Longrightarrow> alive s \<Longrightarrow> alive (exec_event e s)"
proof (induction e s rule: exec_event.induct)
  case (1 s)
  then show ?case
  proof (cases "ready s")
    case (Cons t ts)
    from Cons have e: "s = s\<lparr>ready := t # ts\<rparr>" by (cases s) simp
    then have "runner_inv (s\<lparr>ready := t # ts\<rparr>)" "alive (s\<lparr>ready := t # ts\<rparr>)" using 1 by simp_all
    then show ?thesis
      using Cons alive_run_task [where s = "s\<lparr>ready := ts\<rparr>" and t = t] by simp
  qed simp
next
  case (2 h r s)
  then have h: "h \<in> set (inflight s)" "may_complete h r" by auto
  have "live (post_task (Done h r) (s\<lparr>inflight := remove1 h (inflight s)\<rparr>)) k = live s k"
    if "k \<in> {H_ReconnectTimer, H_PingTimer}" for k
    using h that by (auto simp: live_complete simp del: live_post)
  then show ?case
    using 2(4) cnt_complete [OF h(1)]
    by (simp add: alive_defs del: cnt_post live_post)
qed (auto simp: send_message_def onPongReceived_def alive_defs)

lemma alive_run_events:
  "run_events es s = Some s' \<Longrightarrow> runner_inv s \<Longrightarrow> alive s \<Longrightarrow> Ev_Stop \<notin> set es \<Longrightarrow> runner_inv s' \<and> alive s'"
  by (induction es arbitrary: s) (auto intro: alive_exec inv_exec_event split: if_splits)

text \<open>Only a call of \<open>stop\<close> puts it into the trace, and nothing removes it.\<close>

lemma unstopped_steps [simp]:
  "unstopped (scheduleReconnect s) = unstopped s" "unstopped (doWrite s) = unstopped s"
  "unstopped (observe e s) = (unstopped s \<and> e \<noteq> Stop_Called)" "unstopped (enqueue m s) = unstopped s"
  "unstopped (startPingTimer s) = unstopped s" "unstopped (start_op h s) = unstopped s"
  "unstopped (post_task u s) = unstopped s" "unstopped (cancel_ops P s) = unstopped s"
  "unstopped (s\<lparr>connected := b\<rparr>) = unstopped s" "unstopped (s\<lparr>stopping := b\<rparr>) = unstopped s"
  "unstopped (s\<lparr>writing := b\<rparr>) = unstopped s" "unstopped (s\<lparr>writeQueue := q\<rparr>) = unstopped s"
  "unstopped (s\<lparr>reconnectAttempts := n\<rparr>) = unstopped s" "unstopped (s\<lparr>pendingPong := b\<rparr>) = unstopped s"
  "unstopped (s\<lparr>lastPongTime := i\<rparr>) = unstopped s" "unstopped (s\<lparr>now := i\<rparr>) = unstopped s"
  "unstopped (s\<lparr>ready := ts\<rparr>) = unstopped s" "unstopped (s\<lparr>inflight := hs\<rparr>) = unstopped s"
  by (auto simp: unstopped_def scheduleReconnect_def Let_def doWrite_def enqueue_def startPingTimer_def
      split: list.splits)

lemma unstopped_run_task: "unstopped (run_task t s) = unstopped s"
  by (induction t s rule: run_task.induct)
     (auto simp: onResolve_def onConnect_def onSslHandshake_def onWsHandshake_def onRead_def onClosed_def
        onWrite_def onReconnectTimer_def doReconnect_def doResolve_def onPingTimer_def doPing_def
        onSendTask_def onPingTask_def doClose_def doRead_def Let_def split: list.splits)

lemma unstopped_exec: "unstopped (exec_event e s) \<longleftrightarrow> unstopped s \<and> e \<noteq> Ev_Stop"
  by (induction e s rule: exec_event.induct)
     (auto simp: unstopped_run_task send_message_def onPongReceived_def stop_runner_def Let_def split: list.splits)

lemma alive_start: "alive (start_runner t)"
  by (simp add: start_runner_def doResolve_def alive_defs cnt_def live_def)

lemma reachable_alive: "runner_reachable s \<Longrightarrow> unstopped s \<Longrightarrow> alive s"
proof (induction rule: runner_reachable.induct)
  case (next_step s s')
  then obtain e where "s' = exec_event e s" "enabled e s" by (auto elim: runner_stepE)
  then show ?case
    using next_step by (auto simp: unstopped_exec intro: alive_exec reachable_inv)
qed (rule alive_start)

section \<open>Properties\<close>


definition link_example :: "event list" where
  "link_example =
     [Ev_Send ''a'', Ev_Complete H_Resolve (R_Ok []), Ev_Run, Ev_Run, Ev_Complete H_Connect (R_Ok []), Ev_Run,
      Ev_Complete H_Ssl (R_Ok []), Ev_Run, Ev_Complete H_Ws (R_Ok []), Ev_Run,
      Ev_Complete H_Write (R_Ok []), Ev_Run, Ev_Send ''b'', Ev_Run]"

definition link_example_end :: runner where
  "link_example_end = the (run_events link_example (start_runner 0))"

lemmas runner_eval =
  start_runner_def doResolve_def start_op_def send_message_def post_task_def onResolve_def
  onConnect_def onSslHandshake_def onWsHandshake_def doWrite_def doRead_def startPingTimer_def
  cancel_ops_def observe_def onSendTask_def enqueue_def onWrite_def Let_def

lemma link_example_run:
  "run_events link_example (start_runner 0) = Some link_example_end"
  "connected link_example_end" "writing link_example_end"
  "trace link_example_end =
     [Enqueued ''a'', L_Connected, Write_Started ''a'', Write_Done ''a'', Enqueued ''b'', Write_Started ''b'']"
  by (simp_all add: link_example_end_def link_example_def runner_eval)

lemma link_example_reachable: "runner_reachable link_example_end"
  by (rule run_events_reachable [OF runner_reachable.init link_example_run(1)])


text \<open>
  C5: the state machine refines the abstract link: in every reachable state the trace is a run of
  the link that ends in \<open>(connected_, writeQueue_, reconnectAttempts_)\<close>. So \<open>onWsConnected\<close> and
  \<open>onWsDisconnected\<close> alternate, messages are delivered and written only while connected, a write
  always sends the oldest message of the queue, and reconnections are announced only while down,
  with the backoff of the number of failures since the last connection.
\<close>

theorem runner_refines_link:
  "runner_reachable s \<Longrightarrow> link_run (trace s) = Some (connected s, writeQueue s, reconnectAttempts s)"
  using reachable_refines [of s] by (simp add: refines_def abs_link_def)

lemma runner_refines_link_witness:
  "link_run (trace link_example_end) = Some (True, [''b''], 0)"
  unfolding runner_refines_link [OF link_example_reachable]
  by (simp add: link_example_end_def link_example_def runner_eval)

text \<open>
  C6: until \<open>stop\<close> is called the machine never gets stuck: it is not stopping, it is connected, or a
  connection attempt is under way, or a reconnect timer will fire (exactly one of them), and while
  connected its heartbeat goes on: the ping timer will fire or the ping is queued.
\<close>

theorem runner_never_stuck:
  assumes "runner_reachable s" and "Stop_Called \<notin> set (trace s)"
  shows "\<not> stopping s \<and> (if connected s then 1 else 0) + chain s + live s H_ReconnectTimer = 1 \<and>
     (connected s \<longrightarrow> 0 < live s H_PingTimer \<or> P_Ping \<in> set (ready s))"
  using reachable_alive [OF assms(1)] reachable_inv [OF assms(1)] assms(2)
  by (auto simp: alive_def unstopped_def moves_on_def beats_def runner_inv_def phase_inv_def split: if_splits)

lemma runner_never_stuck_witness:
  "0 < live link_example_end H_PingTimer \<or> P_Ping \<in> set (ready link_example_end)"
  using runner_never_stuck [OF link_example_reachable] link_example_run by simp

subsection \<open>Order of the messages\<close>

fun sent :: "obs list \<Rightarrow> string list" where
  "sent [] = []"
| "sent (Enqueued m # tr) = m # sent tr"
| "sent (_ # tr) = sent tr"

fun written :: "obs list \<Rightarrow> string list" where
  "written [] = []"
| "written (Write_Done m # tr) = m # written tr"
| "written (_ # tr) = written tr"

definition link_from :: "link option \<Rightarrow> obs list \<Rightarrow> link option" where
  "link_from l tr = foldl (\<lambda>l e. Option.bind l (\<lambda>x. link_step x e)) l tr"

lemma link_from_None [simp]: "link_from None tr = None"
  by (induction tr) (auto simp: link_from_def)

lemma link_from_simps [simp]:
  "link_from l [] = l" "link_from (Some x) (e # tr) = link_from (link_step x e) tr"
  by (simp_all add: link_from_def)

lemma link_run_from: "link_run (tr @ es) = link_from (link_run tr) es"
  by (simp add: link_from_def)

lemma link_from_fifo:
  "link_from (Some (up, q, n)) tr = Some (up', q', n') \<Longrightarrow> Queue_Cleared \<notin> set tr \<Longrightarrow>
   q @ sent tr = written tr @ q'"
proof (induction tr arbitrary: up q n)
  case (Cons e tr)
  have IH: "q @ sent tr = written tr @ q'" if "link_from (Some (up, q, n)) tr = Some (up', q', n')" for up q n
    using Cons.IH [OF that] Cons.prems(2) by simp
  show ?case
    using Cons.prems by (cases e) (auto split: if_splits simp: neq_Nil_conv dest!: IH)
qed simp

lemma link_from_clear:
  "link_from (Some x) (Queue_Cleared # tr) = Some y \<Longrightarrow>
   \<exists>up n. link_from (Some (up, [], n)) tr = Some y"
  by (cases x) (auto split: if_splits)

text \<open>
  C7: messages go out in the order they were sent, none skipped or repeated: since the start, or
  since the last reconnection cleared the queue, the messages enqueued are those completely
  written followed by those still queued.
\<close>

theorem runner_writes_fifo:
  assumes "runner_reachable s" and "trace s = old @ tr" and "Queue_Cleared \<notin> set tr"
    and "old = [] \<or> last old = Queue_Cleared"
  shows "sent tr = written tr @ writeQueue s"
proof -
  have run: "link_run (old @ tr) = Some (connected s, writeQueue s, reconnectAttempts s)"
    using reachable_refines [OF assms(1)] assms(2) by (simp add: refines_def abs_link_def)
  obtain up n where "link_from (Some (up, [], n)) tr = Some (connected s, writeQueue s, reconnectAttempts s)"
  proof (cases "old = []")
    case True
    then have "link_run (old @ tr) = link_from (Some (False, [], 0)) tr"
      by (simp add: link_run_def link_from_def)
    then show ?thesis using run that by simp
  next
    case False
    then have "link_run (old @ tr) = link_from (link_run (butlast old)) (Queue_Cleared # tr)"
      using assms(4) link_run_from [of "butlast old" "Queue_Cleared # tr"]
      by (metis append_Cons append_Nil append_assoc append_butlast_last_id)
    then obtain x where "link_from (Some x) (Queue_Cleared # tr) = Some (connected s, writeQueue s, reconnectAttempts s)"
      using run by (cases "link_run (butlast old)") auto
    then show ?thesis using that link_from_clear by blast
  qed
  then show ?thesis using link_from_fifo assms(3) by fastforce
qed

lemma runner_writes_fifo_witness:
  "sent (trace link_example_end) = written (trace link_example_end) @ [''b'']"
proof -
  have "writeQueue link_example_end = [''b'']"
    by (simp add: link_example_end_def link_example_def runner_eval)
  then show ?thesis
    using runner_writes_fifo [OF link_example_reachable, of "[]"] link_example_run by simp
qed

subsection \<open>Backoff\<close>

lemma backoff_bounds:
  assumes "1 \<le> n" shows "2 \<le> backoff_secs n" and "backoff_secs n \<le> 60"
proof -
  have "(2::int) ^ 1 \<le> 2 ^ nat (min n 16)"
    using assms by (intro power_increasing) auto
  then show "2 \<le> backoff_secs n" by (simp add: backoff_secs_def MAX_BACKOFF_SECS_def)
  show "backoff_secs n \<le> 60" by (simp add: backoff_secs_def MAX_BACKOFF_SECS_def)
qed

lemma link_from_backoff:
  "link_from (Some (up, q, n)) tr = Some l \<Longrightarrow> 0 \<le> n \<Longrightarrow> Reconnect_In d \<in> set tr \<Longrightarrow>
   2 \<le> d \<and> d \<le> 60"
proof (induction tr arbitrary: up q n)
  case (Cons e tr)
  then show ?case
    by (cases e) (auto split: if_splits simp: backoff_bounds)
qed simp

text \<open>
  C10: every reconnection is announced with a delay of 2 to 60 seconds.
\<close>

theorem runner_backoff_bounds:
  assumes "runner_reachable s" and "Reconnect_In d \<in> set (trace s)"
  shows "2 \<le> d \<and> d \<le> 60"
proof -
  have "link_from (Some (False, [], 0)) (trace s) = Some (abs_link s)"
    using reachable_refines [OF assms(1)] by (simp add: refines_def link_run_def link_from_def)
  then show ?thesis using assms(2) by (intro link_from_backoff) auto
qed

definition down_example :: runner where
  "down_example = the (run_events [Ev_Complete H_Resolve (R_Error ''down''), Ev_Run] (start_runner 0))"

lemma down_example_reachable: "runner_reachable down_example"
proof (rule run_events_reachable [OF runner_reachable.init])
  show "run_events [Ev_Complete H_Resolve (R_Error ''down''), Ev_Run] (start_runner 0) = Some down_example"
    by (simp add: down_example_def runner_eval scheduleReconnect_def)
qed

lemma runner_backoff_bounds_witness:
  "Reconnect_In 2 \<in> set (trace down_example) \<and> 2 \<le> (2::int) \<and> (2::int) \<le> 60"
proof -
  have "Reconnect_In 2 \<in> set (trace down_example)"
    by (simp add: down_example_def runner_eval scheduleReconnect_def backoff_secs_def MAX_BACKOFF_SECS_def)
  then show ?thesis
    using runner_backoff_bounds [OF down_example_reachable] by blast
qed

subsection \<open>Stopping\<close>

lemma alive_not_stopped: "alive s \<Longrightarrow> \<not> ioc_stopped s"
  by (auto simp: alive_def moves_on_def beats_def ioc_stopped_def chain_def cnt_def live_def)

text \<open>
  C35: a call of \<open>stop\<close> that is served while the connection is being set up is lost. Whenever \<open>doClose\<close> is at the head
  of the FIFO, and not queued a second time, with a connection attempt under way, it changes nothing: whatever happens afterwards short of another
  call of \<open>stop\<close>, the machine never starts to stop, \<open>run\<close> does not return, it is connected, or connecting, or waiting
  to reconnect, and its heartbeat goes on.
\<close>

theorem stop_while_connecting_is_lost:
  assumes "runner_reachable s" and "0 < chain s" and "ready s = P_DoClose # ts" and "P_DoClose \<notin> set ts"
    and "run_events (Ev_Run # es) s = Some s'" and "Ev_Stop \<notin> set es"
  shows "\<not> stopping s' \<and> \<not> ioc_stopped s' \<and>
    (if connected s' then 1 else 0) + chain s' + live s' H_ReconnectTimer = 1 \<and>
    (connected s' \<longrightarrow> 0 < live s' H_PingTimer \<or> P_Ping \<in> set (ready s'))"
proof -
  have i: "runner_inv s" by (rule reachable_inv [OF assms(1)])
  then have down: "\<not> connected s" "\<not> stopping s"
    using assms(2) by (auto simp: runner_inv_def phase_inv_def stop_inv_def split: if_splits)
  then have run: "exec_event Ev_Run s = s\<lparr>ready := ts\<rparr>" using assms(3) by (simp add: doClose_def)
  have "chain (s\<lparr>ready := ts\<rparr>) = chain s" using assms(3) by (simp add: chain_def cnt_def)
  then have "alive (s\<lparr>ready := ts\<rparr>)" using down assms(2,4) by (simp add: alive_def moves_on_def beats_def)
  moreover have "runner_inv (s\<lparr>ready := ts\<rparr>)" using inv_exec_event [OF i, of Ev_Run] assms(3) run by simp
  moreover have "run_events es (s\<lparr>ready := ts\<rparr>) = Some s'" using assms(3,5) run by simp
  ultimately have "runner_inv s' \<and> alive s'" using alive_run_events assms(6) by blast
  then show ?thesis using alive_not_stopped
    by (auto simp: alive_def moves_on_def beats_def runner_inv_def phase_inv_def split: if_splits)
qed

definition stop_during_setup :: runner where
  "stop_during_setup = the (run_events [Ev_Complete H_Resolve (R_Ok []), Ev_Run, Ev_Stop] (start_runner 0))"

definition setup_goes_on :: "event list" where
  "setup_goes_on =
     [Ev_Complete H_Connect (R_Ok []), Ev_Run, Ev_Complete H_Ssl (R_Ok []), Ev_Run, Ev_Complete H_Ws (R_Ok []), Ev_Run]"

lemma stop_while_connecting_is_lost_witness:
  "\<exists>s'. run_events (Ev_Run # setup_goes_on) stop_during_setup = Some s' \<and> connected s' \<and> \<not> stopping s' \<and> \<not> ioc_stopped s'"
proof -
  note eval = stop_during_setup_def runner_eval stop_runner_def ioc_stopped_def doClose_def
  have run: "run_events [Ev_Complete H_Resolve (R_Ok []), Ev_Run, Ev_Stop] (start_runner 0) = Some stop_during_setup"
    by (simp add: eval)
  have "0 < chain stop_during_setup" "ready stop_during_setup = P_DoClose # []"
    by (simp_all add: eval chain_def cnt_def)
  moreover obtain s' where s': "run_events (Ev_Run # setup_goes_on) stop_during_setup = Some s'" "connected s'"
    by (simp add: eval setup_goes_on_def)
  moreover have "Ev_Stop \<notin> set setup_goes_on" by (simp add: setup_goes_on_def)
  ultimately show ?thesis
    using stop_while_connecting_is_lost [OF run_events_reachable [OF runner_reachable.init run]] by fastforce
qed

subsubsection \<open>Shutting down\<close>

text \<open>
  After a \<open>stop\<close> on a quiet connection: \<open>doClose\<close> is queued behind aborted heartbeats; once it has run the read is
  cancelled or has failed, and its handler starts the close, whose handler ends the connection. \<open>d\<close> are the
  disconnections announced before.
\<close>

fun goes_down :: "obs \<Rightarrow> bool" where
  "goes_down (L_Disconnected hasError reason) = True"
| "goes_down _ = False"

definition downs :: "runner \<Rightarrow> obs list" where
  "downs s = filter goes_down (trace s)"

fun closing_task :: "task \<Rightarrow> bool" where
  "closing_task (Done h r) = (h \<in> {H_Write, H_Close} \<or> h \<in> {H_Read, H_PingTimer} \<and> is_error r)"
| "closing_task P_Ping = False"
| "closing_task _ = True"

fun close_is_next :: "task list \<Rightarrow> bool" where
  "close_is_next (P_DoClose # ts) = True"
| "close_is_next (Done H_PingTimer r # ts) = close_is_next ts"
| "close_is_next _ = False"

definition close_queued :: "obs list \<Rightarrow> runner \<Rightarrow> bool" where
  "close_queued d s \<longleftrightarrow> connected s \<and> \<not> stopping s \<and> close_is_next (ready s) \<and> downs s = d"

definition close_started :: "obs list \<Rightarrow> runner \<Rightarrow> bool" where
  "close_started d s \<longleftrightarrow> connected s \<and> stopping s \<and> H_Read \<notin> set (inflight s) \<and> downs s = d"

definition close_finished :: "obs list \<Rightarrow> runner \<Rightarrow> bool" where
  "close_finished d s \<longleftrightarrow>
     \<not> connected s \<and> \<not> stopping s \<and> cnt s H_Read = 0 \<and> downs s = d @ [L_Disconnected False []]"

definition closing :: "obs list \<Rightarrow> runner \<Rightarrow> bool" where
  "closing d s \<longleftrightarrow>
     set (inflight s) \<subseteq> {H_Read, H_Write, H_Close} \<and> (\<forall>t\<in>set (ready s). closing_task t) \<and>
     (close_queued d s \<or> close_started d s \<or> close_finished d s)"

text \<open>The handlers and completions still to come.\<close>

fun op_weight :: "handler \<Rightarrow> nat" where
  "op_weight H_Read = 5"
| "op_weight _ = 2"

fun task_weight :: "task \<Rightarrow> nat" where
  "task_weight (Done h r) = (if h = H_Read then 4 else 1)"
| "task_weight (P_Send m) = 5"
| "task_weight _ = 1"

definition close_work :: "runner \<Rightarrow> nat" where
  "close_work s =
     sum_list (map op_weight (inflight s)) + sum_list (map task_weight (ready s)) + 2 * length (writeQueue s)"

lemmas close_defs = closing_def close_queued_def close_started_def close_finished_def close_work_def downs_def

lemma close_is_next_append: "close_is_next ts \<Longrightarrow> close_is_next (ts @ us)"
  by (induction ts rule: close_is_next.induct) simp_all

lemma cancel_all:
  "set (inflight s) \<subseteq> {H_Read, H_Write, H_Close} \<Longrightarrow>
   cancel_ops stream_op s = s\<lparr>inflight := [], ready := ready s @ map (\<lambda>h. Done h operation_aborted) (inflight s)\<rparr>"
proof -
  assume i: "set (inflight s) \<subseteq> {H_Read, H_Write, H_Close}"
  then have "filter (\<lambda>h. \<not> stream_op h) (inflight s) = []" by (auto simp: filter_empty_conv)
  moreover have "filter stream_op (inflight s) = inflight s" using i by (auto simp: filter_id_conv)
  ultimately show ?thesis by (simp only: cancel_ops_def)
qed

lemma cancel_none:
  "(\<And>h. h \<in> set (inflight s) \<Longrightarrow> \<not> P h) \<Longrightarrow> cancel_ops P s = s"
proof -
  assume "\<And>h. h \<in> set (inflight s) \<Longrightarrow> \<not> P h"
  then have "filter (\<lambda>h. \<not> P h) (inflight s) = inflight s" "filter P (inflight s) = []"
    by (auto simp: filter_empty_conv filter_id_conv)
  then show ?thesis by (simp add: cancel_ops_def)
qed

lemma cancelled_weight:
  "sum_list (map task_weight (map (\<lambda>h. Done h r) hs)) \<le> sum_list (map op_weight hs)"
proof (induction hs)
  case (Cons h hs)
  then show ?case by (cases h) simp_all
qed simp

lemma remove1_weight:
  "h \<in> set hs \<Longrightarrow> sum_list (map op_weight (remove1 h hs)) + op_weight h = sum_list (map op_weight hs)"
  by (induction hs) auto

lemma closing_doClose:
  assumes "closing d s" and "ready s = P_DoClose # ts"
  shows "closing d (doClose (s\<lparr>ready := ts\<rparr>)) \<and> close_work (doClose (s\<lparr>ready := ts\<rparr>)) < close_work s"
proof (cases "close_queued d s")
  case True
  have i: "set (inflight s) \<subseteq> {H_Read, H_Write, H_Close}" using assms(1) by (simp add: closing_def)
  then have "cancel_ops (\<lambda>h. h = H_PingTimer) (s\<lparr>ready := ts\<rparr>) = s\<lparr>ready := ts\<rparr>"
    by (intro cancel_none) auto
  then have "doClose (s\<lparr>ready := ts\<rparr>) = s\<lparr>stopping := True, inflight := [],
      ready := ts @ map (\<lambda>h. Done h operation_aborted) (inflight s)\<rparr>"
    using True i by (subst doClose_def, subst cancel_all) (auto simp: close_queued_def)
  moreover have "\<forall>h\<in>set (inflight s). closing_task (Done h operation_aborted)"
    using i by (auto simp: operation_aborted_def)
  ultimately show ?thesis
    using assms True cancelled_weight [of operation_aborted "inflight s"]
    by (auto simp: close_defs)
next
  case False
  then have "doClose (s\<lparr>ready := ts\<rparr>) = s\<lparr>ready := ts\<rparr>"
    using assms(1) by (auto simp: closing_def doClose_def close_started_def close_finished_def)
  then show ?thesis using assms False by (auto simp: closing_def close_started_def close_finished_def
     close_work_def downs_def cnt_def)
qed

lemma cnt_rest: "ready s = t # ts \<Longrightarrow> cnt (s\<lparr>ready := ts\<rparr>) h = cnt s h - (if is_done h t then 1 else 0)"
  by (simp add: cnt_def)

lemma closing_onWrite:
  assumes c: "closing d s" and r: "ready s = Done H_Write r # ts"
  shows "closing d (onWrite r (s\<lparr>ready := ts\<rparr>)) \<and> close_work (onWrite r (s\<lparr>ready := ts\<rparr>)) < close_work s"
proof -
  have q: "\<not> close_queued d s" using r by (simp add: close_queued_def)
  have rest: "cnt (s\<lparr>ready := ts\<rparr>) H_Read = cnt s H_Read" using cnt_rest [OF r] by simp
  consider "connected s" "\<not> is_error r" | "\<not> connected s \<or> is_error r" by blast
  then show ?thesis
  proof cases
    case 1
    then show ?thesis using c r q
      by (cases "writeQueue s"; cases "tl (writeQueue s)")
        (simp_all add: close_defs onWrite_def doWrite_def start_op_def observe_def)
  next
    case 2
    then show ?thesis using c r q rest by (auto simp: close_defs onWrite_def)
  qed
qed

lemma closing_onRead:
  assumes c: "closing d s" and r: "ready s = Done H_Read r # ts"
  shows "closing d (onRead r (s\<lparr>ready := ts\<rparr>)) \<and> close_work (onRead r (s\<lparr>ready := ts\<rparr>)) < close_work s"
proof -
  have e: "is_error r" and q: "\<not> close_queued d s" using c r by (auto simp: closing_def close_queued_def)
  have rest: "cnt (s\<lparr>ready := ts\<rparr>) H_Read = cnt s H_Read - 1" using cnt_rest [OF r] by simp
  show ?thesis
  proof (cases "stopping s")
    case True
    then show ?thesis using c r q e by (simp add: close_defs onRead_def start_op_def)
  next
    case False
    then show ?thesis using c r q e rest by (auto simp: close_defs onRead_def)
  qed
qed

lemma closing_onClosed:
  assumes i: "runner_inv s" and c: "closing d s" and r: "ready s = Done H_Close r # ts"
  shows "closing d (onClosed (s\<lparr>ready := ts\<rparr>)) \<and> close_work (onClosed (s\<lparr>ready := ts\<rparr>)) < close_work s"
proof -
  have "0 < cnt s H_Close" using r by (simp add: cnt_def)
  then have s: "stopping s" "cnt s H_Read = 0" using i by (auto simp: runner_inv_def stop_inv_def io_inv_def)
  moreover have "cnt (s\<lparr>ready := ts\<rparr>) H_Read = cnt s H_Read" using cnt_rest [OF r] by simp
  ultimately show ?thesis using c r by (simp add: close_defs onClosed_def)
qed

lemma closing_handler:
  assumes i: "runner_inv s" and c: "closing d s" and r: "ready s = Done h r # ts"
  shows "closing d (run_task (Done h r) (s\<lparr>ready := ts\<rparr>)) \<and>
    close_work (run_task (Done h r) (s\<lparr>ready := ts\<rparr>)) < close_work s"
proof -
  consider "h = H_Write" | "h = H_Close" | "h = H_Read" | "h = H_PingTimer" "is_error r"
    using c r by (auto simp: closing_def)
  then show ?thesis
  proof cases
    case 4
    then have "cnt (s\<lparr>ready := ts\<rparr>) H_Read = cnt s H_Read" using cnt_rest [OF r] by simp
    then show ?thesis using c r 4 by (auto simp: close_defs onPingTimer_def)
  qed (use closing_onWrite closing_onRead closing_onClosed assms in auto)
qed

lemma closing_run:
  assumes "runner_inv s" and "closing d s" and "ready s = t # ts"
  shows "closing d (run_task t (s\<lparr>ready := ts\<rparr>)) \<and> close_work (run_task t (s\<lparr>ready := ts\<rparr>)) < close_work s"
proof (cases t)
  case (Done h r)
  then show ?thesis using closing_handler [OF assms(1,2)] assms(3) by simp
next
  case (P_Send m)
  then have "\<not> close_queued d s" using assms(3) by (simp add: close_queued_def)
  with P_Send assms(2,3) show ?thesis
    by (auto simp: close_defs onSendTask_def enqueue_def doWrite_def start_op_def observe_def Let_def cnt_def
        split: list.split dest!: arg_cong [of "_ @ _" _ length])
next
  case P_DoClose
  then show ?thesis using closing_doClose [OF assms(2)] assms(3) by simp
next
  case P_Ping
  then show ?thesis using assms(2,3) by (auto simp: closing_def)
qed

text \<open>What an event from outside adds to the work, and the events of the loop itself.\<close>

fun posts_work :: "event \<Rightarrow> nat" where
  "posts_work (Ev_Send m) = 5"
| "posts_work Ev_Stop = 1"
| "posts_work _ = 0"

fun loop_event :: "event \<Rightarrow> bool" where
  "loop_event Ev_Run = True"
| "loop_event (Ev_Complete h r) = True"
| "loop_event _ = False"

lemma closing_stop:
  assumes "closing d s"
  shows "closing d (stop_runner s) \<and> close_work (stop_runner s) \<le> close_work s + 1"
proof -
  have "set (inflight s) \<subseteq> {H_Read, H_Write, H_Close}" using assms by (simp add: closing_def)
  then have "cancel_ops (\<lambda>h. h = H_ReconnectTimer) (observe Stop_Called s) = observe Stop_Called s"
    "cancel_ops (\<lambda>h. h = H_PingTimer) (observe Stop_Called s) = observe Stop_Called s"
    by (auto intro!: cancel_none)
  then have "stop_runner s = (let s1 = observe Stop_Called s
      in if \<not> ioc_stopped s1 \<and> \<not> stopping s1 then post_task P_DoClose s1 else s1)"
    by (simp add: stop_runner_def Let_def)
  then show ?thesis
    using assms close_is_next_append [of "ready s" "[P_DoClose]"]
    by (auto simp: close_defs Let_def observe_def post_task_def cnt_def)
qed

lemma closing_event:
  assumes i: "runner_inv s" and c: "closing d s" and e: "enabled e s" "\<And>m. e \<noteq> Ev_Complete H_Read (R_Ok m)"
  shows "closing d (exec_event e s) \<and>
    close_work (exec_event e s) + (if loop_event e then 1 else 0) \<le> close_work s + posts_work e"
proof (cases e)
  case Ev_Run
  then obtain t ts where "ready s = t # ts" using e(1) by (cases "ready s") auto
  then show ?thesis using Ev_Run closing_run [OF i c] by fastforce
next
  case (Ev_Complete h r)
  then have h: "h \<in> set (inflight s)" "may_complete h r" using e(1) by auto
  then have k: "h \<in> {H_Read, H_Write, H_Close}" using c by (auto simp: closing_def)
  then have "closing_task (Done h r)" using e(2) h(2) Ev_Complete by (cases r) auto
  moreover have "task_weight (Done h r) + 1 = op_weight h" using k by auto
  moreover have "cnt (exec_event e s) H_Read = cnt s H_Read"
    unfolding Ev_Complete exec_event.simps by (rule cnt_complete [OF h(1)])
  ultimately show ?thesis
    using c h(1) remove1_weight [OF h(1)] close_is_next_append [of "ready s" "[Done h r]"] set_remove1_subset [of h "inflight s"]
    by (auto simp: Ev_Complete close_defs post_task_def simp del: cnt_post)
next
  case (Ev_Send m)
  then show ?thesis using c close_is_next_append [of "ready s" "[P_Send m]"]
    by (auto simp: close_defs send_message_def post_task_def cnt_def)
next
  case Ev_Stop
  then show ?thesis using closing_stop [OF c] by simp
qed (use c in \<open>auto simp: close_defs onPongReceived_def cnt_def\<close>)

lemma closing_run_events:
  "run_events es s = Some s' \<Longrightarrow> runner_inv s \<Longrightarrow> closing d s \<Longrightarrow> \<forall>m. Ev_Complete H_Read (R_Ok m) \<notin> set es \<Longrightarrow>
   runner_inv s' \<and> closing d s' \<and>
   close_work s' + length (filter loop_event es) \<le> close_work s + sum_list (map posts_work es)"
proof (induction es arbitrary: s)
  case (Cons e es)
  have en: "enabled e s" and r: "run_events es (exec_event e s) = Some s'"
    using Cons.prems(1) by (auto split: if_splits)
  have "closing d (exec_event e s) \<and>
    close_work (exec_event e s) + (if loop_event e then 1 else 0) \<le> close_work s + posts_work e"
    using Cons.prems(4) by (intro closing_event Cons.prems(2,3) en) auto
  then show ?case
    using Cons.IH [OF r] inv_exec_event [OF Cons.prems(2) en] Cons.prems(4) by auto
qed simp

subsubsection \<open>On a quiet connection\<close>

lemma read_write_lists:
  assumes "set xs \<subseteq> {H_Read, H_Write}" and "count_list xs H_Read = 1" and "count_list xs H_Write \<le> 1"
  shows "xs \<in> {[H_Read], [H_Read, H_Write], [H_Write, H_Read]}"
proof -
  have "length xs = count_list xs H_Read + count_list xs H_Write" using assms(1)
    by (induction xs) auto
  then have "length xs = 1 \<or> length xs = 2" using assms(2,3) by linarith
  then show ?thesis using assms by (auto simp: numeral_2_eq_2 length_Suc_conv)
qed

lemma quiet_connection_ops:
  assumes "runner_inv s" and "connected s" and "\<not> stopping s" and "ready s = []"
  shows "filter (\<lambda>h. h \<noteq> H_PingTimer) (inflight s) \<in> {[H_Read], [H_Read, H_Write], [H_Write, H_Read]}"
proof (rule read_write_lists)
  have z: "count_list (inflight s) h = 0" if "h \<notin> {H_Read, H_Write, H_PingTimer}" for h
    using assms that
    by (cases h) (auto simp: inv_defs cnt_def live_def split: if_splits)
  show "set (filter (\<lambda>h. h \<noteq> H_PingTimer) (inflight s)) \<subseteq> {H_Read, H_Write}"
    using z by (auto simp: count_list_0_iff)
  show "count_list (filter (\<lambda>h. h \<noteq> H_PingTimer) (inflight s)) H_Read = 1"
    and "count_list (filter (\<lambda>h. h \<noteq> H_PingTimer) (inflight s)) H_Write \<le> 1"
    using assms by (auto simp: count_list_filter inv_defs cnt_def split: if_splits)
qed

lemma stop_on_quiet:
  assumes "connected s" and "\<not> stopping s" and "ready s = []"
    and xs: "filter (\<lambda>h. h \<noteq> H_PingTimer) (inflight s) = xs"
    and "xs \<in> {[H_Read], [H_Read, H_Write], [H_Write, H_Read]}"
  shows "stop_runner s = s\<lparr>trace := trace s @ [Stop_Called], inflight := xs,
    ready := map (\<lambda>h. Done h operation_aborted) (filter (\<lambda>h. h = H_PingTimer) (inflight s)) @ [P_DoClose]\<rparr>"
proof -
  have "h \<noteq> H_ReconnectTimer" if "h \<in> set (inflight s)" for h
    using that xs assms(5) by (auto dest!: arg_cong [of _ _ set])
  then have "cancel_ops (\<lambda>h. h = H_ReconnectTimer) (observe Stop_Called s) = observe Stop_Called s"
    by (intro cancel_none) auto
  then show ?thesis
    using assms by (auto simp: stop_runner_def Let_def cancel_ops_def [of "\<lambda>h. h = H_PingTimer"] observe_def
        post_task_def ioc_stopped_def)
qed

lemma quiet_closing:
  assumes "runner_inv s" and "connected s" and "\<not> stopping s" and "ready s = []"
  shows "closing (downs s) (stop_runner s) \<and>
    close_work (stop_runner s) \<le> 2 * length (inflight s) + 2 * length (writeQueue s) + 4"
proof -
  define xs where "xs = filter (\<lambda>h. h \<noteq> H_PingTimer) (inflight s)"
  define ps where "ps = filter (\<lambda>h. h = H_PingTimer) (inflight s)"
  have xs: "xs \<in> {[H_Read], [H_Read, H_Write], [H_Write, H_Read]}"
    using quiet_connection_ops [OF assms] by (simp add: xs_def)
  have s: "stop_runner s = s\<lparr>trace := trace s @ [Stop_Called], inflight := xs,
      ready := map (\<lambda>h. Done h operation_aborted) ps @ [P_DoClose]\<rparr>"
    using stop_on_quiet [OF assms(2-4) refl] xs by (simp add: xs_def ps_def)
  have "set ps \<subseteq> {H_PingTimer}" by (auto simp: ps_def)
  then have ps: "close_is_next (map (\<lambda>h. Done h operation_aborted) ps @ [P_DoClose])"
    "\<forall>t\<in>set (map (\<lambda>h. Done h operation_aborted) ps). closing_task t"
    "sum_list (map task_weight (map (\<lambda>h. Done h operation_aborted) ps)) = length ps"
    by (induction ps) (auto simp: operation_aborted_def)
  have "length xs + length ps = length (inflight s)"
    using sum_length_filter_compl [of "\<lambda>h. h = H_PingTimer" "inflight s"] by (simp add: xs_def ps_def)
  moreover have "sum_list (map op_weight xs) = 2 * length xs + 3" using xs by auto
  ultimately have "close_work (stop_runner s) \<le> 2 * length (inflight s) + 2 * length (writeQueue s) + 4"
    using ps(3) by (simp add: s close_work_def)
  moreover have "closing (downs s) (stop_runner s)"
    using xs ps(1,2) assms(2,3) by (auto simp: s close_defs)
  ultimately show ?thesis by blast
qed

text \<open>
  C9: called on a quiet connection (connected, no handler queued), \<open>stop\<close> shuts the machine down, in every order in
  which the outstanding operations complete, whatever is still sent and however often \<open>stop\<close> is called again, as long
  as no message is received meanwhile. The loop runs a bounded number of handlers and completions, and can go on
  until nothing is outstanding; it never waits for the read, but for the close and a write only; and when nothing is
  outstanding, so that \<open>run\<close> returns, the machine is neither connected nor stopping and the listener has been told of
  one disconnection without error.
\<close>

theorem stop_when_quiet_completes:
  assumes "runner_reachable s" and "Stop_Called \<notin> set (trace s)" and "connected s" and "ready s = []"
    and "run_events (Ev_Stop # es) s = Some s'" and "\<forall>m. Ev_Complete H_Read (R_Ok m) \<notin> set es"
  shows "length (filter loop_event es) \<le>
      2 * length (inflight s) + 2 * length (writeQueue s) + 4 + sum_list (map posts_work es) \<and>
    (\<not> ioc_stopped s' \<longrightarrow> (\<exists>e. loop_event e \<and> enabled e s' \<and> (\<forall>m. e \<noteq> Ev_Complete H_Read (R_Ok m)))) \<and>
    (ready s' = [] \<longrightarrow> set (inflight s') \<subseteq> {H_Close, H_Write}) \<and>
    (ioc_stopped s' \<longrightarrow> \<not> connected s' \<and> \<not> stopping s' \<and>
       filter goes_down (trace s') = filter goes_down (trace s) @ [L_Disconnected False []])"
proof -
  have i: "runner_inv s" by (rule reachable_inv [OF assms(1)])
  have "\<not> stopping s" using reachable_alive [OF assms(1)] assms(2) by (simp add: alive_def unstopped_def)
  note q = quiet_closing [OF i assms(3) this assms(4)]
  have r: "run_events es (stop_runner s) = Some s'" using assms(5) by simp
  from closing_run_events [OF r inv_stop [OF i] conjunct1 [OF q] assms(6)]
  have i': "runner_inv s'" and c: "closing (downs s) s'"
    and w: "length (filter loop_event es) \<le> close_work (stop_runner s) + sum_list (map posts_work es)" by auto
  have "ready s' = [] \<Longrightarrow> \<not> close_queued (downs s) s'" by (auto simp: close_queued_def)
  then have ops: "set (inflight s') \<subseteq> {H_Close, H_Write}" if "ready s' = []"
    using c that by (auto simp: closing_def close_started_def close_finished_def cnt_def count_list_0_iff)
  have go: "\<exists>e. loop_event e \<and> enabled e s' \<and> (\<forall>m. e \<noteq> Ev_Complete H_Read (R_Ok m))" if "\<not> ioc_stopped s'"
  proof (cases "ready s' = []")
    case True
    with that obtain h where "h \<in> set (inflight s')" by (cases "inflight s'") (auto simp: ioc_stopped_def)
    with ops [OF True] show ?thesis by (intro exI [of _ "Ev_Complete h (R_Error [])"]) auto
  next
    case False
    then show ?thesis by (intro exI [of _ Ev_Run]) simp
  qed
  have "close_finished (downs s) s'" if "ioc_stopped s'"
    using c i' that by (auto simp: closing_def close_queued_def close_started_def ioc_stopped_def inv_defs cnt_def)
  then show ?thesis using w q ops go by (auto simp: close_finished_def downs_def)
qed

lemma stop_when_quiet_completes_witness:
  "\<exists>s'. run_events (Ev_Stop # replicate 4 Ev_Run @ [Ev_Complete H_Close (R_Error ''x''), Ev_Run]) link_example_end = Some s' \<and>
     ioc_stopped s' \<and> \<not> connected s' \<and> filter goes_down (trace s') = [L_Disconnected False []]"
proof -
  let ?es = "replicate 4 Ev_Run @ [Ev_Complete H_Close (R_Error ''x''), Ev_Run]"
  obtain s' where s': "run_events (Ev_Stop # ?es) link_example_end = Some s'" "ioc_stopped s'"
    by (simp add: link_example_end_def link_example_def runner_eval stop_runner_def ioc_stopped_def doClose_def
        onPingTimer_def operation_aborted_def onRead_def onClosed_def numeral_eq_Suc)
  moreover have "Stop_Called \<notin> set (trace link_example_end)" "connected link_example_end" "ready link_example_end = []"
    using link_example_run by (simp_all add: link_example_end_def link_example_def runner_eval)
  ultimately show ?thesis
    using stop_when_quiet_completes [OF link_example_reachable, of ?es s'] link_example_run(4) by auto
qed

subsubsection \<open>Overtaken by a message\<close>

text \<open>
  A message that is received before \<open>doClose\<close> has run starts the read again after it, and nothing cancels that read:
  the machine is connected and stopping until a read fails by itself, and further calls of \<open>stop\<close> do nothing.
\<close>

definition overtaken :: "runner \<Rightarrow> bool" where
  "overtaken s \<longleftrightarrow> connected s \<and> stopping s \<and> cnt s H_Close = 0 \<and>
     (\<forall>r. Done H_Read r \<in> set (ready s) \<longrightarrow> \<not> is_error r)"

lemma overtaken_run:
  assumes i: "runner_inv s" and o: "overtaken s" and r: "ready s = t # ts"
  shows "overtaken (run_task t (s\<lparr>ready := ts\<rparr>))"
proof -
  have z: "cnt (s\<lparr>ready := ts\<rparr>) H_Close = 0" "\<not> is_done H_Close t" "chain s = 0"
    using i o r by (auto simp: overtaken_def cnt_def runner_inv_def phase_inv_def split: if_splits)
  then have "\<not> is_done h t" if "h \<in> {H_Resolve, H_Connect, H_Ssl, H_Ws, H_Close}" for h
    using r that by (auto simp: chain_def cnt_def)
  then show ?thesis
    using o z(1) r
    by (induction t "s\<lparr>ready := ts\<rparr>" rule: run_task.induct)
       (auto simp: overtaken_def onRead_def onWrite_def onReconnectTimer_def onPingTimer_def onSendTask_def
          onPingTask_def doClose_def startPingTimer_def Let_def doReconnect_def split: list.splits)
qed

lemma done_cancelled:
  "Done h r \<in> set (ready (cancel_ops P s)) \<longleftrightarrow>
     Done h r \<in> set (ready s) \<or> r = operation_aborted \<and> P h \<and> h \<in> set (inflight s)"
  by (auto simp: cancel_ops_def)

lemma overtaken_event:
  assumes "runner_inv s" and "overtaken s" and "enabled e s" and "\<And>r. is_error r \<Longrightarrow> e \<noteq> Ev_Complete H_Read r"
  shows "overtaken (exec_event e s)"
proof (cases e)
  case Ev_Run
  then obtain t ts where "ready s = t # ts" using assms(3) by (cases "ready s") auto
  then show ?thesis using Ev_Run overtaken_run [OF assms(1,2)] by simp
next
  case (Ev_Complete h r)
  then have "h \<in> set (inflight s)" using assms(3) by simp
  from cnt_complete [OF this] show ?thesis
    using assms(2,4) Ev_Complete by (auto simp: overtaken_def simp del: cnt_post)
qed (use assms(2) in \<open>auto simp: overtaken_def send_message_def stop_runner_def onPongReceived_def Let_def done_cancelled\<close>)

lemma overtaken_run_events:
  "run_events es s = Some s' \<Longrightarrow> runner_inv s \<Longrightarrow> overtaken s \<Longrightarrow>
   (\<And>r. is_error r \<Longrightarrow> Ev_Complete H_Read r \<notin> set es) \<Longrightarrow> runner_inv s' \<and> overtaken s'"
proof (induction es arbitrary: s)
  case (Cons e es)
  have en: "enabled e s" and r: "run_events es (exec_event e s) = Some s'"
    using Cons.prems(1) by (auto split: if_splits)
  have "overtaken (exec_event e s)"
    using Cons.prems(4) by (intro overtaken_event Cons.prems(2,3) en) auto
  then show ?case
    using Cons.IH [OF r] inv_exec_event [OF Cons.prems(2) en] Cons.prems(4) by auto
qed simp

text \<open>
  C16: a \<open>stop\<close> that a message overtakes does not end. Whenever \<open>doClose\<close> is at the head of the FIFO of a connected
  machine and the handler of a received message is queued behind it, then whatever happens afterwards short of a
  failing read, further calls of \<open>stop\<close> included, the machine stays connected and stopping and \<open>run\<close> does not return.
\<close>

theorem stop_overtaken_by_message:
  assumes "runner_reachable s" and "connected s" and "\<not> stopping s"
    and "ready s = P_DoClose # ts" and "Done H_Read (R_Ok m) \<in> set ts"
    and "run_events (Ev_Run # es) s = Some s'" and "\<forall>r. is_error r \<longrightarrow> Ev_Complete H_Read r \<notin> set es"
  shows "connected s' \<and> stopping s' \<and> \<not> ioc_stopped s'"
proof -
  have i: "runner_inv s" by (rule reachable_inv [OF assms(1)])
  have e: "exec_event Ev_Run s = doClose (s\<lparr>ready := ts\<rparr>)" using assms(4) by simp
  obtain us vs where ts: "ts = us @ Done H_Read (R_Ok m) # vs" using split_list [OF assms(5)] by blast
  have "cnt s H_Read + cnt s H_Close \<le> 1" using i by (simp add: runner_inv_def io_inv_def)
  moreover have "cnt s H_Read = Suc (count_list (inflight s) H_Read + length (filter (is_done H_Read) us) +
      length (filter (is_done H_Read) vs))"
    using assms(4) by (simp add: cnt_def ts)
  ultimately have z: "cnt s H_Close = 0" "count_list (inflight s) H_Read = 0"
    "filter (is_done H_Read) us = []" "filter (is_done H_Read) vs = []" by auto
  have ok: "\<not> is_error r'" if "Done H_Read r' \<in> set ts" for r'
  proof -
    have "\<not> is_done H_Read t" if "t \<in> set us \<union> set vs" for t
      using z(3,4) that by (auto simp: filter_empty_conv)
    from this [of "Done H_Read r'"] that show ?thesis by (auto simp: ts)
  qed
  have close: "doClose (s\<lparr>ready := ts\<rparr>) =
      cancel_ops stream_op ((cancel_ops (\<lambda>h. h = H_PingTimer) (s\<lparr>ready := ts\<rparr>))\<lparr>stopping := True\<rparr>)"
    using assms(2,3) by (simp add: doClose_def)
  have "cnt (exec_event Ev_Run s) H_Close = 0"
    using z(1) assms(4) unfolding e close by (simp add: cnt_rest)
  then have "overtaken (exec_event Ev_Run s)"
    using assms(2) z(2) ok unfolding e close
    by (auto simp: overtaken_def done_cancelled count_list_0_iff)
  moreover have "runner_inv (exec_event Ev_Run s)" using i assms(4) by (intro inv_exec_event) simp_all
  moreover have "run_events es (exec_event Ev_Run s) = Some s'" using assms(4,6) by simp
  ultimately have "runner_inv s'" "overtaken s'" using overtaken_run_events assms(7) by blast+
  then show ?thesis by (auto simp: overtaken_def ioc_stopped_def inv_defs cnt_def)
qed

lemma link_example_ops:
  "ready link_example_end = []" "\<not> stopping link_example_end"
  "inflight link_example_end = [H_Write, H_Read, H_PingTimer]"
  by (simp_all add: link_example_end_def link_example_def runner_eval)

lemma stop_overtaken_by_message_witness:
  "\<exists>s s'. runner_reachable s \<and> run_events [Ev_Run, Ev_Run, Ev_Stop] s = Some s' \<and>
     connected s' \<and> stopping s' \<and> \<not> ioc_stopped s'"
proof -
  have "cancel_ops (\<lambda>h. h = H_ReconnectTimer) (observe Stop_Called link_example_end) = observe Stop_Called link_example_end"
    using link_example_ops by (intro cancel_none) auto
  then have stop: "stop_runner link_example_end =
      post_task P_DoClose (cancel_ops (\<lambda>h. h = H_PingTimer) (observe Stop_Called link_example_end))"
    using link_example_ops by (simp add: stop_runner_def ioc_stopped_def Let_def cancel_ops_def)
  obtain s where s: "run_events [Ev_Stop, Ev_Run, Ev_Complete H_Read (R_Ok ''m'')] link_example_end = Some s"
    "connected s" "\<not> stopping s" "ready s = P_DoClose # [Done H_Read (R_Ok ''m'')]" "inflight s = [H_Write]"
    using link_example_ops link_example_run(2)
    by (simp add: stop cancel_ops_def onPingTimer_def operation_aborted_def)
  then have "run_events [Ev_Run, Ev_Run, Ev_Stop] s \<noteq> None"
    by (simp add: doClose_def cancel_ops_def onRead_def)
  then obtain s' where r: "run_events [Ev_Run, Ev_Run, Ev_Stop] s = Some s'" by blast
  have reach: "runner_reachable s" by (rule run_events_reachable [OF link_example_reachable s(1)])
  from stop_overtaken_by_message [OF this s(2-4) _ r]
  have "connected s' \<and> stopping s' \<and> \<not> ioc_stopped s'" by simp
  with reach r show ?thesis by blast
qed

end
