(* ===== verification/Byte_Codec.thy ===== *)
theory Byte_Codec
  imports Prelude Request_Types
begin

unbundle bit_operations_syntax

text \<open>
  The byte and hexadecimal codecs of \<open>src/signing/SigningHelpers.cpp\<close>: \<open>hexToBytes\<close>, \<open>toHex\<close>,
  \<open>toHexPadded\<close>, the big-endian 64-bit loop, \<open>encodeUint256\<close> and \<open>encodeAddress\<close>. The lemmas give
  the round trips and the injectivity the signing proofs use.
\<close>

section \<open>Hexadecimal\<close>

definition hexCharToNibble :: "char \<Rightarrow> u8 outcome" where
  "hexCharToNibble ch =
     (let n = (of_char ch :: nat)
      in if 48 \<le> n \<and> n \<le> 57 then Inr (word_of_nat (n - 48))
         else if 97 \<le> n \<and> n \<le> 102 then Inr (word_of_nat (n - 97 + 10))
         else if 65 \<le> n \<and> n \<le> 70 then Inr (word_of_nat (n - 65 + 10))
         else Inl (Invalid_Argument (''Invalid hex character: '' @ [ch])))"

fun hex_pairs :: "string \<Rightarrow> bytes outcome" where
  "hex_pairs (a # b # rest) =
     bindE (hexCharToNibble a) (\<lambda>h.
     bindE (hexCharToNibble b) (\<lambda>l.
     bindE (hex_pairs rest) (\<lambda>bs. Inr ((push_bit 4 h OR l) # bs))))"
| "hex_pairs _ = Inr []"

definition strip_0x :: "string \<Rightarrow> string" where
  "strip_0x hex =
     (case hex of
        a # b # rest \<Rightarrow> if a = CHR ''0'' \<and> (b = CHR ''x'' \<or> b = CHR ''X'') then rest else hex
      | _ \<Rightarrow> hex)"

definition hexToBytes :: "string \<Rightarrow> bytes outcome" where
  "hexToBytes hex =
     (let clean = strip_0x hex
      in hex_pairs (if length clean mod 2 \<noteq> 0 then CHR ''0'' # clean else clean))"

text \<open>\<open>stream << std::hex << std::setfill('0') << std::setw(2)\<close> per byte.\<close>

definition hex_bytes :: "bytes \<Rightarrow> string" where
  "hex_bytes data = concat (map (\<lambda>b. hex_fixed 2 (unat b)) data)"

definition toHexPadded :: "bytes \<Rightarrow> string" where
  "toHexPadded data = ''0x'' @ hex_bytes data"

definition toHex :: "bytes \<Rightarrow> string" where
  "toHex data =
     (case dropWhile (\<lambda>c. c = CHR ''0'') (hex_bytes data) of
        [] \<Rightarrow> ''0x0'' | s \<Rightarrow> ''0x'' @ s)"

section \<open>Fixed-width encodings\<close>

text \<open>\<open>for (idx = 7; idx >= 0; idx--) push_back((value >> (idx * 8)) & 0xFF)\<close>.\<close>

definition be64 :: "u64 \<Rightarrow> bytes" where
  "be64 value = map (\<lambda>idx. ucast (drop_bit (idx * 8) value AND 0xFF)) [7, 6, 5, 4, 3, 2, 1, 0]"

definition encodeUint256 :: "u64 \<Rightarrow> bytes" where
  "encodeUint256 value =
     fold (\<lambda>idx result. result[31 - idx := ucast (drop_bit (idx * 8) value AND 0xFF)])
       [0, 1, 2, 3, 4, 5, 6, 7] (replicate 32 0)"

definition encodeAddress :: "bytes \<Rightarrow> bytes" where
  "encodeAddress addressBytes =
     (if length addressBytes = 20 then replicate 12 0 @ addressBytes else replicate 32 0)"

section \<open>Lemmas on hexadecimal\<close>

lemma of_char_hex: "d < 16 \<Longrightarrow> hexCharToNibble (hex_char d) = Inr (word_of_nat d)"
  by (auto simp: hexCharToNibble_def Let_def of_char_hex_char)

lemma nibbles_byte: "push_bit 4 (word_of_nat (unat b div 16)) OR word_of_nat (unat b mod 16) = b" for b :: u8
proof -
  have d: "unat b div 16 = unat (drop_bit 4 b)"
    by (simp only: unat_drop_bit_eq) (simp add: drop_bit_eq_div)
  have m: "unat b mod 16 = unat (take_bit 4 b)"
    by (simp only: unsigned_take_bit_eq) (simp add: take_bit_eq_mod)
  have w: "word_of_nat (unat c) = c" for c :: u8 by simp
  show ?thesis unfolding d m w
    by (rule bit_eqI) (auto simp: bit_or_iff bit_push_bit_iff bit_drop_bit_eq bit_take_bit_iff)
qed

lemma hex_fixed_2: "n < 256 \<Longrightarrow> hex_fixed 2 n = [hex_char (n div 16), hex_char (n mod 16)]"
  by (simp add: numeral_2_eq_2)

lemma unat_u8: "unat (b :: u8) < 256"
  using unsigned_less [of b, where 'a = nat] by simp

lemma hex_pairs_hex_bytes: "hex_pairs (hex_bytes data) = Inr data"
proof (induction data)
  case (Cons b data)
  have "unat b div 16 < 16" using unat_u8 [of b] by (simp add: less_mult_imp_div_less)
  then show ?case
    using Cons.IH unat_u8 [of b] nibbles_byte [of b]
    by (simp add: hex_bytes_def hex_fixed_2 of_char_hex)
qed (simp add: hex_bytes_def)

lemma length_hex_bytes: "length (hex_bytes data) = 2 * length data"
  by (induction data) (auto simp: hex_bytes_def)

lemma strip_0x_prefix [simp]: "strip_0x (''0x'' @ s) = s"
  by (simp add: strip_0x_def)

lemma hexToBytes_toHexPadded: "hexToBytes (toHexPadded data) = Inr data"
  by (simp add: hexToBytes_def toHexPadded_def length_hex_bytes hex_pairs_hex_bytes del: append_Cons)

lemma hex_pairs_length: "hex_pairs s = Inr bs \<Longrightarrow> length bs = length s div 2"
  by (induction s arbitrary: bs rule: hex_pairs.induct) auto

subsection \<open>Values of hexadecimal strings\<close>

definition be_value :: "bytes \<Rightarrow> nat" where
  "be_value bs = foldl (\<lambda>n b. 256 * n + unat b) 0 bs"

lemma foldl_be: "foldl (\<lambda>n b. 256 * n + unat b) m bs = m * 256 ^ length bs + be_value bs" for bs :: bytes
proof (induction bs rule: rev_induct)
  case (snoc b bs)
  have "foldl (\<lambda>n b. 256 * n + unat b) m (bs @ [b]) = 256 * (m * 256 ^ length bs + be_value bs) + unat b"
    using snoc by simp
  moreover have "be_value (bs @ [b]) = 256 * be_value bs + unat b" by (simp add: be_value_def)
  ultimately show ?case by (simp add: distrib_left)
qed (simp add: be_value_def)

lemma be_value_Cons: "be_value (b # bs) = unat b * 256 ^ length bs + be_value bs"
  using foldl_be [of "unat b" bs] by (simp add: be_value_def)

lemma be_value_Nil [simp]: "be_value [] = 0"
  by (simp add: be_value_def)

lemma be_value_zeros [simp]: "be_value (replicate n 0 @ bs) = be_value bs"
  by (induction n) (auto simp: be_value_Cons)

lemma be_value_dropWhile [simp]: "be_value (dropWhile (\<lambda>b. b = 0) bs) = be_value bs"
  by (induction bs) (auto simp: be_value_Cons)

definition pad_even :: "string \<Rightarrow> string" where
  "pad_even s = (if length s mod 2 \<noteq> 0 then CHR ''0'' # s else s)"

lemma hex_char_0: "hex_char 0 = CHR ''0''"
  by code_simp

lemma hex_char_zero: "d < 16 \<Longrightarrow> hex_char d = CHR ''0'' \<longleftrightarrow> d = 0"
  using hex_char_inj [of d 0] by (simp add: hex_char_0)

lemma hex_bytes_Cons:
  "hex_bytes (b # data) = hex_char (unat b div 16) # hex_char (unat b mod 16) # hex_bytes data"
  using unat_u8 [of b] by (simp add: hex_bytes_def hex_fixed_2)

lemma unat_zero_nibbles: "unat b div 16 = 0 \<Longrightarrow> unat b mod 16 = 0 \<Longrightarrow> b = 0" for b :: u8
  by (metis div_mult_mod_eq mult_zero_left add_0 unat_eq_zero)

lemma trim_hex_bytes:
  "hex_pairs (pad_even (dropWhile (\<lambda>c. c = CHR ''0'') (hex_bytes data))) = Inr (dropWhile (\<lambda>b. b = 0) data)"
proof (induction data)
  case (Cons b data)
  have d: "unat b div 16 < 16" using unat_u8 [of b] by (simp add: less_mult_imp_div_less)
  have even: "length (hex_bytes data) mod 2 = 0" by (simp add: length_hex_bytes)
  have full: "hex_pairs (hex_bytes (b # data)) = Inr (b # data)" by (rule hex_pairs_hex_bytes)
  consider "b = 0" | "b \<noteq> 0" "unat b div 16 = 0" | "b \<noteq> 0" "unat b div 16 \<noteq> 0" by blast
  then show ?case
  proof cases
    case 1
    then show ?thesis using Cons.IH by (simp add: hex_bytes_Cons hex_char_0)
  next
    case 2
    then have m: "hex_char (unat b mod 16) \<noteq> CHR ''0''" and z: "hex_char (unat b div 16) = CHR ''0''"
      using unat_zero_nibbles [of b] by (auto simp: hex_char_zero)
    then show ?thesis
      using full 2(1) even by (simp add: hex_bytes_Cons pad_even_def even_iff_mod_2_eq_zero mod_Suc)
  next
    case 3
    then have "hex_char (unat b div 16) \<noteq> CHR ''0''" using d by (simp add: hex_char_zero)
    then show ?thesis using full 3(1) even by (simp add: hex_bytes_Cons pad_even_def mod_Suc)
  qed
qed (simp add: hex_bytes_def pad_even_def)

lemma hexToBytes_toHex:
  "hexToBytes (toHex data) =
    Inr (if dropWhile (\<lambda>b. b = 0) data = [] then [0] else dropWhile (\<lambda>b. b = 0) data)"
proof (cases "dropWhile (\<lambda>c. c = CHR ''0'') (hex_bytes data)")
  case Nil
  then have "dropWhile (\<lambda>b. b = 0) data = []"
    using trim_hex_bytes [of data] unfolding Nil by (simp add: pad_even_def del: dropWhile_eq_Nil_conv)
  moreover have "hexToBytes ''0x0'' = Inr [0]"
    by (simp add: hexToBytes_def strip_0x_def hexCharToNibble_def)
  ultimately show ?thesis unfolding toHex_def Nil by simp
next
  case (Cons c s)
  have "dropWhile (\<lambda>b. b = 0) data \<noteq> []"
  proof
    assume "dropWhile (\<lambda>b. b = 0) data = []"
    then have "length (pad_even (c # s)) div 2 = 0"
      using trim_hex_bytes [of data] hex_pairs_length [of "pad_even (c # s)" "[]"] Cons by simp
    then show False by (simp add: pad_even_def split: if_splits) presburger+
  qed
  then show ?thesis
    using Cons trim_hex_bytes [of data]
    by (simp add: toHex_def hexToBytes_def pad_even_def del: append_Cons dropWhile_eq_Nil_conv)
qed

section \<open>Lemmas on fixed-width encodings\<close>

lemma be64_nth: "idx < 8 \<Longrightarrow> be64 value ! (7 - idx) = ucast (drop_bit (idx * 8) value AND 0xFF)"
  by (auto simp: be64_def less_Suc_eq numeral_eq_Suc)

lemma length_be64 [simp]: "length (be64 value) = 8"
  by (simp add: be64_def)

lemma byte_and_mask: "(ucast (w AND 0xFF) :: u8) = ucast w" for w :: u64
proof (rule bit_eqI)
  fix n assume "possible_bit TYPE(u8) n"
  then have n: "n < 8" by simp
  have "bit (0xFF :: u64) n" using n by (auto simp: less_Suc_eq numeral_eq_Suc)
  then show "bit (ucast (w AND 0xFF) :: u8) n = bit (ucast w :: u8) n"
    using n by (simp add: bit_ucast_iff bit_and_iff)
qed

lemma be64_inj: "be64 v = be64 w \<longleftrightarrow> v = w"
proof
  assume eq: "be64 v = be64 w"
  show "v = w"
  proof (rule bit_eqI)
    fix n assume "possible_bit TYPE(u64) n"
    then have n: "n < 64" by simp
    then have k: "n div 8 < 8" by (simp add: less_mult_imp_div_less)
    have "(ucast (drop_bit (n div 8 * 8) v) :: u8) = ucast (drop_bit (n div 8 * 8) w)"
      using be64_nth [OF k, of v] be64_nth [OF k, of w] eq by (simp add: byte_and_mask)
    then have "bit (ucast (drop_bit (n div 8 * 8) v) :: u8) (n mod 8) = bit (ucast (drop_bit (n div 8 * 8) w) :: u8) (n mod 8)"
      by simp
    then show "bit v n = bit w n" by (simp add: bit_ucast_iff bit_drop_bit_eq)
  qed
qed simp

lemma encodeUint256_be64: "encodeUint256 value = replicate 24 0 @ be64 value"
proof (rule nth_equalityI)
  show "length (encodeUint256 value) = length (replicate 24 0 @ be64 value)" by (simp add: encodeUint256_def)
  fix i assume "i < length (encodeUint256 value)"
  then have "i < 32" by (simp add: encodeUint256_def)
  moreover have "\<not> i < 24 \<Longrightarrow> i < 32 \<Longrightarrow> i \<in> {24, 25, 26, 27, 28, 29, 30, 31}" by auto
  ultimately show "encodeUint256 value ! i = (replicate 24 0 @ be64 value) ! i"
    by (cases "i < 24") (auto simp: encodeUint256_def be64_def nth_append)
qed

lemma encodeUint256_inj: "encodeUint256 v = encodeUint256 w \<longleftrightarrow> v = w"
  by (simp add: encodeUint256_be64 be64_inj)

lemma length_encodeUint256 [simp]: "length (encodeUint256 v) = 32"
  by (simp add: encodeUint256_be64)

lemma length_encodeAddress [simp]: "length (encodeAddress a) = 32"
  by (simp add: encodeAddress_def)

lemma encodeAddress_inj:
  "length a = 20 \<Longrightarrow> length b = 20 \<Longrightarrow> encodeAddress a = encodeAddress b \<longleftrightarrow> a = b"
  by (simp add: encodeAddress_def)

end
