(* ===== verification/Keccak.thy ===== *)
theory Keccak
  imports Prelude
begin

unbundle bit_operations_syntax

text \<open>
  \<open>src/signing/sha3.{h,c}\<close>: the Keccak permutation and the Init/Update/Finalize interface, with
  the in-place loops of the C code as list updates in the same order. \<open>size_t\<close> and \<open>unsigned\<close>
  counters that stay small are \<open>nat\<close>; \<open>capacityWords\<close> keeps its width because its top bit is the
  Keccak flag.
\<close>

section \<open>The permutation\<close>

definition keccakf_rndc :: "u64 list" where
  "keccakf_rndc =
    [0x0000000000000001, 0x0000000000008082, 0x800000000000808a, 0x8000000080008000,
     0x000000000000808b, 0x0000000080000001, 0x8000000080008081, 0x8000000000008009,
     0x000000000000008a, 0x0000000000000088, 0x0000000080008009, 0x000000008000000a,
     0x000000008000808b, 0x800000000000008b, 0x8000000000008089, 0x8000000000008003,
     0x8000000000008002, 0x8000000000000080, 0x000000000000800a, 0x800000008000000a,
     0x8000000080008081, 0x8000000000008080, 0x0000000080000001, 0x8000000080008008]"

definition keccakf_rotc :: "nat list" where
  "keccakf_rotc =
    [1, 3, 6, 10, 15, 21, 28, 36, 45, 55, 2, 14, 27, 41, 56, 8, 25, 43, 62, 18, 39, 61, 20, 44]"

definition keccakf_piln :: "nat list" where
  "keccakf_piln =
    [10, 7, 11, 17, 18, 3, 5, 16, 8, 21, 24, 4, 15, 23, 19, 13, 12, 2, 20, 14, 22, 9, 6, 1]"

definition SHA3_ROTL64 :: "u64 \<Rightarrow> nat \<Rightarrow> u64" where
  "SHA3_ROTL64 x y = (push_bit y x OR drop_bit (64 - y) x)"

definition theta_step :: "u64 list \<Rightarrow> u64 list" where
  "theta_step s =
     (let bc = map (\<lambda>i. s ! i XOR s ! (i + 5) XOR s ! (i + 10) XOR s ! (i + 15) XOR s ! (i + 20)) [0..<5]
      in fold (\<lambda>i s.
           (let t = bc ! ((i + 4) mod 5) XOR SHA3_ROTL64 (bc ! ((i + 1) mod 5)) 1
            in fold (\<lambda>j s. s[j + i := s ! (j + i) XOR t]) [0, 5, 10, 15, 20] s)) [0..<5] s)"

definition rho_pi_step :: "u64 list \<Rightarrow> u64 list" where
  "rho_pi_step s =
     fst (fold (\<lambda>i (s, t).
       (let j = keccakf_piln ! i; bc0 = s ! j
        in (s[j := SHA3_ROTL64 t (keccakf_rotc ! i)], bc0))) [0..<24] (s, s ! 1))"

definition chi_step :: "u64 list \<Rightarrow> u64 list" where
  "chi_step s =
     fold (\<lambda>j s.
       (let bc = map (\<lambda>i. s ! (j + i)) [0..<5]
        in fold (\<lambda>i s. s[j + i := s ! (j + i) XOR (NOT (bc ! ((i + 1) mod 5)) AND bc ! ((i + 2) mod 5))])
             [0..<5] s)) [0, 5, 10, 15, 20] s"

definition iota_step :: "nat \<Rightarrow> u64 list \<Rightarrow> u64 list" where
  "iota_step round s = s[0 := s ! 0 XOR keccakf_rndc ! round]"

definition keccakf :: "u64 list \<Rightarrow> u64 list" where
  "keccakf s = fold (\<lambda>round s. iota_step round (chi_step (rho_pi_step (theta_step s)))) [0..<24] s"

section \<open>The context\<close>

record sha3_context =
  saved :: u64
  st :: "u64 list"
  byteIndex :: nat
  wordIndex :: nat
  capacityWords :: u32

definition SHA3_KECCAK_SPONGE_WORDS :: nat where "SHA3_KECCAK_SPONGE_WORDS = 25"
definition SHA3_USE_KECCAK_FLAG :: u32 where "SHA3_USE_KECCAK_FLAG = 0x80000000"

definition SHA3_CW :: "u32 \<Rightarrow> nat" where
  "SHA3_CW x = unat (x AND NOT SHA3_USE_KECCAK_FLAG)"

datatype sha3_flags = SHA3_FLAGS_NONE | SHA3_FLAGS_KECCAK

definition sha3_Init :: "nat \<Rightarrow> sha3_context option" where
  "sha3_Init bitSize =
     (if bitSize \<noteq> 256 \<and> bitSize \<noteq> 384 \<and> bitSize \<noteq> 512 then None
      else Some \<lparr>saved = 0, st = replicate 25 0, byteIndex = 0, wordIndex = 0,
                 capacityWords = word_of_nat (2 * bitSize div (8 * 8))\<rparr>)"

definition sha3_SetFlags :: "sha3_flags \<Rightarrow> sha3_context \<Rightarrow> sha3_context" where
  "sha3_SetFlags flags c =
     c\<lparr>capacityWords := capacityWords c OR (if flags = SHA3_FLAGS_KECCAK then SHA3_USE_KECCAK_FLAG else 0)\<rparr>"

definition rate_words :: "sha3_context \<Rightarrow> nat" where
  "rate_words c = SHA3_KECCAK_SPONGE_WORDS - SHA3_CW (capacityWords c)"

definition absorb_word :: "u64 \<Rightarrow> sha3_context \<Rightarrow> sha3_context" where
  "absorb_word w c =
     (let s = (st c)[wordIndex c := st c ! wordIndex c XOR w]
      in if wordIndex c + 1 = rate_words c
         then c\<lparr>st := keccakf s, wordIndex := 0\<rparr>
         else c\<lparr>st := s, wordIndex := wordIndex c + 1\<rparr>)"

definition store_byte :: "u8 \<Rightarrow> sha3_context \<Rightarrow> sha3_context" where
  "store_byte b c =
     c\<lparr>saved := saved c OR push_bit (byteIndex c * 8) (ucast b), byteIndex := byteIndex c + 1\<rparr>"

definition word_of_bytes8 :: "bytes \<Rightarrow> u64" where
  "word_of_bytes8 buf =
     (ucast (buf ! 0) OR push_bit (8 * 1) (ucast (buf ! 1)) OR
      push_bit (8 * 2) (ucast (buf ! 2)) OR push_bit (8 * 3) (ucast (buf ! 3)) OR
      push_bit (8 * 4) (ucast (buf ! 4)) OR push_bit (8 * 5) (ucast (buf ! 5)) OR
      push_bit (8 * 6) (ucast (buf ! 6)) OR push_bit (8 * 7) (ucast (buf ! 7)))"

fun absorb_words :: "nat \<Rightarrow> bytes \<Rightarrow> sha3_context \<Rightarrow> sha3_context" where
  "absorb_words 0 buf c = c"
| "absorb_words (Suc n) buf c = absorb_words n (drop 8 buf) (absorb_word (word_of_bytes8 buf) c)"

definition sha3_Update :: "bytes \<Rightarrow> sha3_context \<Rightarrow> sha3_context" where
  "sha3_Update buf c =
     (let old_tail = (8 - byteIndex c) mod 8
      in if length buf < old_tail then fold store_byte buf c
         else
           let c1 = (if old_tail = 0 then c
                     else let d = fold store_byte (take old_tail buf) c
                          in absorb_word (saved d) (d\<lparr>byteIndex := 0, saved := 0\<rparr>));
               rest = drop old_tail buf;
               words = length rest div 8
           in fold store_byte (drop (8 * words) rest) (absorb_words words rest c1))"

definition word_bytes :: "u64 \<Rightarrow> bytes" where
  "word_bytes w =
     (let t1 = (ucast w :: u32); t2 = (ucast (drop_bit 16 (drop_bit 16 w)) :: u32)
      in [ucast t1, ucast (drop_bit 8 t1), ucast (drop_bit 16 t1), ucast (drop_bit 24 t1),
          ucast t2, ucast (drop_bit 8 t2), ucast (drop_bit 16 t2), ucast (drop_bit 24 t2)])"

definition sha3_Finalize :: "sha3_context \<Rightarrow> bytes" where
  "sha3_Finalize c =
     (let t = (if capacityWords c AND SHA3_USE_KECCAK_FLAG \<noteq> 0
               then push_bit (byteIndex c * 8) 1
               else push_bit (byteIndex c * 8) (0x02 OR push_bit 2 1));
          s1 = (st c)[wordIndex c := st c ! wordIndex c XOR (saved c XOR t)];
          last = rate_words c - 1;
          s2 = s1[last := s1 ! last XOR 0x8000000000000000]
      in concat (map word_bytes (keccakf s2)))"

definition sha3_HashBuffer :: "nat \<Rightarrow> sha3_flags \<Rightarrow> bytes \<Rightarrow> nat \<Rightarrow> bytes option" where
  "sha3_HashBuffer bitSize flags inp outBytes =
     (case sha3_Init bitSize of
        None \<Rightarrow> None
      | Some c \<Rightarrow> Some (take (min outBytes (bitSize div 8))
                          (sha3_Finalize (sha3_Update inp (sha3_SetFlags flags c)))))"

text \<open>\<open>SigningHelpers::keccak256\<close>: the length passes through \<open>unsigned\<close>.\<close>

definition keccak256 :: "bytes \<Rightarrow> bytes" where
  "keccak256 data =
     (case sha3_HashBuffer 256 SHA3_FLAGS_KECCAK (take (length data mod 2 ^ 32) data) 32 of
        None \<Rightarrow> replicate 32 0 | Some h \<Rightarrow> h)"

end
