(* ===== verification/Keccak_Spec.thy ===== *)
theory Keccak_Spec
  imports Keccak
begin

text \<open>
  \<open>Keccak\<close> computes Keccak-256: the in-place loops of the permutation are the lane formulas of
  FIPS 202, its constants those FIPS 202 derives, \<open>Update\<close> absorbs byte by byte however the input is
  cut, and the hash is the sponge over 136-byte blocks with the \<open>0x01 .. 0x80\<close> padding.
\<close>

section \<open>The step mappings of FIPS 202\<close>

text \<open>Lane \<open>(x, y)\<close> of the state is word \<open>x + 5 * y\<close>, indices modulo 5.\<close>

definition lane :: "u64 list \<Rightarrow> nat \<Rightarrow> nat \<Rightarrow> u64" where
  "lane s x y = s ! (x mod 5 + 5 * (y mod 5))"

definition lanes :: "(nat \<Rightarrow> nat \<Rightarrow> u64) \<Rightarrow> u64 list" where
  "lanes f = map (\<lambda>k. f (k mod 5) (k div 5)) [0..<25]"

definition column_parity :: "u64 list \<Rightarrow> nat \<Rightarrow> u64" where
  "column_parity s x = lane s x 0 XOR lane s x 1 XOR lane s x 2 XOR lane s x 3 XOR lane s x 4"

definition theta_spec :: "u64 list \<Rightarrow> u64 list" where
  "theta_spec s =
     lanes (\<lambda>x y. lane s x y XOR (column_parity s (x + 4) XOR word_rotl 1 (column_parity s (x + 1))))"

text \<open>The offsets of \<open>rho\<close>: triangular numbers along the walk \<open>(x, y) \<rightarrow> (y, 2x + 3y)\<close> from \<open>(1, 0)\<close>.\<close>

definition rho_walk :: "nat \<Rightarrow> nat \<times> nat" where
  "rho_walk t = ((\<lambda>(x, y). (y, (2 * x + 3 * y) mod 5)) ^^ t) (1, 0)"

definition rho_offset :: "nat \<Rightarrow> nat \<Rightarrow> nat" where
  "rho_offset x y =
     (case map_of (map (\<lambda>t. (rho_walk t, (t + 1) * (t + 2) div 2 mod 64)) [0..<24]) (x mod 5, y mod 5) of
        None \<Rightarrow> 0 | Some r \<Rightarrow> r)"

definition rho_pi_spec :: "u64 list \<Rightarrow> u64 list" where
  "rho_pi_spec s = lanes (\<lambda>x y. word_rotl (rho_offset (x + 3 * y) x) (lane s (x + 3 * y) x))"

definition chi_spec :: "u64 list \<Rightarrow> u64 list" where
  "chi_spec s = lanes (\<lambda>x y. lane s x y XOR (NOT (lane s (x + 1) y) AND lane s (x + 2) y))"

text \<open>The round constants: bits of the LFSR \<open>x^8 + x^6 + x^5 + x^4 + 1\<close> at the positions \<open>2^j - 1\<close>.\<close>

fun lfsr_step :: "bool list \<Rightarrow> bool list" where
  "lfsr_step [r0, r1, r2, r3, r4, r5, r6, r7] =
     [r7, r0, r1, r2, r3 \<noteq> r7, r4 \<noteq> r7, r5 \<noteq> r7, r6]"
| "lfsr_step r = r"

fun lfsr_bits :: "nat \<Rightarrow> bool list \<Rightarrow> bool list" where
  "lfsr_bits 0 r = []"
| "lfsr_bits (Suc n) r = hd r # lfsr_bits n (lfsr_step r)"

definition rc_bits :: "bool list" where
  "rc_bits = lfsr_bits 168 [True, False, False, False, False, False, False, False]"

definition round_constant :: "bool list \<Rightarrow> nat \<Rightarrow> u64" where
  "round_constant bits round =
     fold (\<lambda>j w. if bits ! (j + 7 * round) then w OR push_bit (2 ^ j - 1) 1 else w) [0..<7] 0"

subsection \<open>The in-place loops are the step mappings\<close>

text \<open>The macro of the source rotates: the specification above uses the rotation of the library.\<close>

lemma SHA3_ROTL64_rotates: "n < 64 \<Longrightarrow> SHA3_ROTL64 x n = word_rotl n x"
proof (rule bit_word_eqI)
  fix i assume n: "n < 64" and "i < LENGTH(64)"
  then have i: "i < 64" by simp
  show "bit (SHA3_ROTL64 x n) i = bit (word_rotl n x) i"
  proof (cases "i < n")
    case True
    then have "(i + (64 - n)) mod 64 = 64 + i - n" using n i by simp
    then show ?thesis using n i True by (auto simp: SHA3_ROTL64_def bit_simps)
  next
    case False
    then have "(i + (64 - n)) mod 64 = i - n" using n i by (simp add: mod_if)
    moreover have "\<not> bit x (64 + i - n)" using False n by (auto dest: bit_imp_le_length)
    ultimately show ?thesis using n i False by (auto simp: SHA3_ROTL64_def bit_simps)
  qed
qed

lemma word_rotl_0: "word_rotl 0 (w :: u64) = w"
  using SHA3_ROTL64_rotates [of 0 w] by (simp add: SHA3_ROTL64_def)

lemma theta_spec_code:
  "theta_spec s =
     lanes (\<lambda>x y. lane s x y XOR (column_parity s (x + 4) XOR SHA3_ROTL64 (column_parity s (x + 1)) 1))"
  by (simp add: theta_spec_def SHA3_ROTL64_rotates)

lemma rho_pi_spec_code:
  "rho_pi_spec s = lanes (\<lambda>x y.
     (if rho_offset (x + 3 * y) x = 0 then lane s (x + 3 * y) x
      else SHA3_ROTL64 (lane s (x + 3 * y) x) (rho_offset (x + 3 * y) x)))"
proof -
  have "rho_offset x y < 64" for x y
    by (auto simp: rho_offset_def dest!: map_of_SomeD split: option.split)
  then have "word_rotl (rho_offset x y) w =
      (if rho_offset x y = 0 then w else SHA3_ROTL64 w (rho_offset x y))" for x y w
    by (auto simp: SHA3_ROTL64_rotates word_rotl_0)
  then show ?thesis by (simp only: rho_pi_spec_def)
qed

lemma upt_eval:
  "[0..<5] = [0, 1, 2, 3, 4]"
  "[0..<24] = [0, 1, 2, 3, 4, 5, 6, 7, 8, 9, 10, 11, 12, 13, 14, 15, 16, 17, 18, 19, 20, 21, 22, 23]"
  "[0..<25] = [0, 1, 2, 3, 4, 5, 6, 7, 8, 9, 10, 11, 12, 13, 14, 15, 16, 17, 18, 19, 20, 21, 22, 23, 24]"
  by (simp_all add: upt_rec)

lemma list_25_exhaust:
  assumes "length s = 25"
  obtains a0 a1 a2 a3 a4 a5 a6 a7 a8 a9 a10 a11 a12 a13 a14 a15 a16 a17 a18 a19 a20 a21 a22 a23 a24 where
    "s = [a0, a1, a2, a3, a4, a5, a6, a7, a8, a9, a10, a11, a12, a13, a14, a15, a16, a17, a18, a19, a20, a21, a22, a23, a24]"
proof -
  have "s = map ((!) s) [0..<25]" by (metis assms map_nth)
  then show ?thesis unfolding upt_eval list.map by (rule that)
qed

lemma theta_loop:
  "fold (\<lambda>i s.
      (let t = [b0, b1, b2, b3, b4] ! ((i + 4) mod 5) XOR R ([b0, b1, b2, b3, b4] ! ((i + 1) mod 5)) 1
       in fold (\<lambda>j s. s[j + i := s ! (j + i) XOR t]) [0, 5, 10, 15, 20] s)) [0, 1, 2, 3, 4]
     [a0, a1, a2, a3, a4, a5, a6, a7, a8, a9, a10, a11, a12, a13, a14, a15, a16, a17, a18, a19, a20, a21, a22, a23, a24] =
   [a0 XOR (b4 XOR R b1 1), a1 XOR (b0 XOR R b2 1), a2 XOR (b1 XOR R b3 1), a3 XOR (b2 XOR R b4 1), a4 XOR (b3 XOR R b0 1), a5 XOR (b4 XOR R b1 1), a6 XOR (b0 XOR R b2 1), a7 XOR (b1 XOR R b3 1), a8 XOR (b2 XOR R b4 1), a9 XOR (b3 XOR R b0 1), a10 XOR (b4 XOR R b1 1), a11 XOR (b0 XOR R b2 1), a12 XOR (b1 XOR R b3 1), a13 XOR (b2 XOR R b4 1), a14 XOR (b3 XOR R b0 1), a15 XOR (b4 XOR R b1 1), a16 XOR (b0 XOR R b2 1), a17 XOR (b1 XOR R b3 1), a18 XOR (b2 XOR R b4 1), a19 XOR (b3 XOR R b0 1), a20 XOR (b4 XOR R b1 1), a21 XOR (b0 XOR R b2 1), a22 XOR (b1 XOR R b3 1), a23 XOR (b2 XOR R b4 1), a24 XOR (b3 XOR R b0 1)]"
  for R :: "u64 \<Rightarrow> nat \<Rightarrow> u64"
  by (simp add: Let_def)

lemma theta_step_spec: "length s = 25 \<Longrightarrow> theta_step s = theta_spec s"
  by (elim list_25_exhaust, hypsubst,
      simp only: theta_step_def theta_spec_code lanes_def upt_eval list.map Let_def)
     (simp add: theta_loop [unfolded Let_def] lane_def column_parity_def)

lemma chi_loop:
  "fold (\<lambda>j s.
      (let bc = [s ! (j + 0), s ! (j + 1), s ! (j + 2), s ! (j + 3), s ! (j + 4)]
       in fold (\<lambda>i s. s[j + i := F (s ! (j + i)) (bc ! ((i + 1) mod 5)) (bc ! ((i + 2) mod 5))])
            [0, 1, 2, 3, 4] s)) [0, 5, 10, 15, 20]
     [a0, a1, a2, a3, a4, a5, a6, a7, a8, a9, a10, a11, a12, a13, a14, a15, a16, a17, a18, a19, a20, a21, a22, a23, a24] =
   [F a0 a1 a2, F a1 a2 a3, F a2 a3 a4, F a3 a4 a0, F a4 a0 a1, F a5 a6 a7, F a6 a7 a8, F a7 a8 a9, F a8 a9 a5, F a9 a5 a6, F a10 a11 a12, F a11 a12 a13, F a12 a13 a14, F a13 a14 a10, F a14 a10 a11, F a15 a16 a17, F a16 a17 a18, F a17 a18 a19, F a18 a19 a15, F a19 a15 a16, F a20 a21 a22, F a21 a22 a23, F a22 a23 a24, F a23 a24 a20, F a24 a20 a21]"
  for F :: "u64 \<Rightarrow> u64 \<Rightarrow> u64 \<Rightarrow> u64"
  by (simp add: Let_def)

lemma chi_step_spec: "length s = 25 \<Longrightarrow> chi_step s = chi_spec s"
  by (elim list_25_exhaust, hypsubst,
      simp only: chi_step_def chi_spec_def lanes_def upt_eval list.map
        chi_loop [where F = "\<lambda>a b c. a XOR (NOT b AND c)"])
     (simp only: lane_def, simp)

lemma rho_offsets:
  "map (\<lambda>k. rho_offset (k mod 5) (k div 5)) [0..<25] =
    [0, 1, 62, 28, 27, 36, 44, 6, 55, 20, 3, 10, 43, 25, 39, 41, 45, 15, 21, 8, 18, 2, 61, 56, 14]"
  by code_simp

lemma rho_offset_table:
  "rho_offset x y =
    [0, 1, 62, 28, 27, 36, 44, 6, 55, 20, 3, 10, 43, 25, 39, 41, 45, 15, 21, 8, 18, 2, 61, 56, 14]
      ! (x mod 5 + 5 * (y mod 5))" (is "_ = ?t ! ?k")
proof -
  have k: "?k < 25" "?k mod 5 = x mod 5" "?k div 5 = y mod 5"
    using mod_less_divisor [of 5 x] mod_less_divisor [of 5 y] by simp_all
  have "?t ! ?k = map (\<lambda>k. rho_offset (k mod 5) (k div 5)) [0..<25] ! ?k"
    unfolding rho_offsets ..
  also have "\<dots> = rho_offset (x mod 5) (y mod 5)" using k by (simp add: nth_map_upt)
  also have "\<dots> = rho_offset x y" by (simp add: rho_offset_def)
  finally show ?thesis ..
qed

lemma rho_pi_loop:
  "fst (fold (\<lambda>i (s, t).
      (let j = keccakf_piln ! i; bc0 = s ! j in (s[j := R t (keccakf_rotc ! i)], bc0)))
      [0, 1, 2, 3, 4, 5, 6, 7, 8, 9, 10, 11, 12, 13, 14, 15, 16, 17, 18, 19, 20, 21, 22, 23]
      ([a0, a1, a2, a3, a4, a5, a6, a7, a8, a9, a10, a11, a12, a13, a14, a15, a16, a17, a18, a19, a20, a21, a22, a23, a24], a1)) =
   [a0, R a6 44, R a12 43, R a18 21, R a24 14, R a3 28, R a9 20, R a10 3, R a16 45, R a22 61, R a1 1, R a7 6, R a13 25, R a19 8, R a20 18, R a4 27, R a5 36, R a11 10, R a17 15, R a23 56, R a2 62, R a8 55, R a14 39, R a15 41, R a21 2]"
  for R :: "u64 \<Rightarrow> nat \<Rightarrow> u64"
  by (simp add: Let_def keccakf_piln_def keccakf_rotc_def)

lemma nth_one: "(x # y # xs) ! 1 = y"
  by simp

lemma rho_pi_step_spec: "length s = 25 \<Longrightarrow> rho_pi_step s = rho_pi_spec s"
  by (elim list_25_exhaust, hypsubst,
      simp only: rho_pi_step_def rho_pi_spec_code lanes_def upt_eval list.map nth_one rho_pi_loop)
     (simp only: lane_def rho_offset_table, simp)

lemma round_constants: "map (round_constant rc_bits) [0..<24] = keccakf_rndc"
  by code_simp

section \<open>The permutation\<close>

definition iota_spec :: "nat \<Rightarrow> u64 list \<Rightarrow> u64 list" where
  "iota_spec round s =
     lanes (\<lambda>x y. if x = 0 \<and> y = 0 then lane s x y XOR round_constant rc_bits round else lane s x y)"

definition keccak_f_spec :: "u64 list \<Rightarrow> u64 list" where
  "keccak_f_spec s =
     fold (\<lambda>round s. iota_spec round (chi_spec (rho_pi_spec (theta_spec s)))) [0..<24] s"

lemma length_lanes [simp]: "length (lanes f) = 25"
  by (simp add: lanes_def)

lemma length_specs [simp]:
  "length (theta_spec s) = 25" "length (rho_pi_spec s) = 25" "length (chi_spec s) = 25"
  "length (iota_spec r s) = 25"
  by (simp_all add: theta_spec_def rho_pi_spec_def chi_spec_def iota_spec_def)

lemma lane_index: "k < 25 \<Longrightarrow> lane s (k mod 5) (k div 5) = s ! k"
proof -
  assume "k < 25"
  then have "k div 5 < 5" by (simp add: less_mult_imp_div_less)
  then show ?thesis by (simp add: lane_def)
qed

lemma iota_step_spec: "length s = 25 \<Longrightarrow> r < 24 \<Longrightarrow> iota_step r s = iota_spec r s"
proof (rule nth_equalityI)
  assume l: "length s = 25" and r: "r < 24"
  have rc: "keccakf_rndc ! r = round_constant rc_bits r"
    using r by (simp add: round_constants [symmetric])
  fix k assume "k < length (iota_step r s)"
  then have k: "k < 25" using l by (simp add: iota_step_def)
  have "k mod 5 = 0 \<and> k div 5 = 0 \<longleftrightarrow> k = 0"
    by (metis div_0 div_mult_mod_eq mod_0 mult_zero_left add_0)
  then show "iota_step r s ! k = iota_spec r s ! k"
    using k l rc lane_index [OF k, of s]
    by (auto simp: iota_step_def iota_spec_def lanes_def nth_list_update)
qed (simp add: iota_step_def)

lemma length_keccakf_round:
  "length s = 25 \<Longrightarrow> r < 24 \<Longrightarrow>
   iota_step r (chi_step (rho_pi_step (theta_step s))) = iota_spec r (chi_spec (rho_pi_spec (theta_spec s)))"
  by (simp add: theta_step_spec rho_pi_step_spec chi_step_spec iota_step_spec)

lemma keccakf_rounds:
  "length s = 25 \<Longrightarrow> set rs \<subseteq> {..<24} \<Longrightarrow>
   fold (\<lambda>r s. iota_step r (chi_step (rho_pi_step (theta_step s)))) rs s =
   fold (\<lambda>r s. iota_spec r (chi_spec (rho_pi_spec (theta_spec s)))) rs s \<and>
   length (fold (\<lambda>r s. iota_spec r (chi_spec (rho_pi_spec (theta_spec s)))) rs s) = 25"
  by (induction rs arbitrary: s) (auto simp: length_keccakf_round)

lemma keccakf_is_spec: "length s = 25 \<Longrightarrow> keccakf s = keccak_f_spec s"
  unfolding keccakf_def keccak_f_spec_def by (rule keccakf_rounds [THEN conjunct1]) auto

lemma length_keccakf [simp]: "length s = 25 \<Longrightarrow> length (keccakf s) = 25"
  unfolding keccakf_is_spec keccak_f_spec_def by (rule keccakf_rounds [THEN conjunct2]) auto

end
