(* ===== verification/Keccak_Sponge.thy ===== *)
theory Keccak_Sponge
  imports Keccak_Spec
begin

text \<open>
  The context of \<open>sha3.c\<close> as a sponge: \<open>Update\<close> absorbs byte by byte, and hashing a buffer is
  absorbing its 136-byte blocks, the last one padded.
\<close>

section \<open>Byte by byte\<close>

definition absorb_byte :: "u8 \<Rightarrow> sha3_context \<Rightarrow> sha3_context" where
  "absorb_byte b c =
     (let d = store_byte b c
      in if byteIndex d = 8 then absorb_word (saved d) (d\<lparr>byteIndex := 0, saved := 0\<rparr>) else d)"

lemma store_fields [simp]:
  "byteIndex (store_byte b c) = Suc (byteIndex c)"
  "st (store_byte b c) = st c" "wordIndex (store_byte b c) = wordIndex c"
  "capacityWords (store_byte b c) = capacityWords c"
  by (simp_all add: store_byte_def)

lemma absorb_word_fields [simp]:
  "byteIndex (absorb_word w c) = byteIndex c" "saved (absorb_word w c) = saved c"
  "capacityWords (absorb_word w c) = capacityWords c"
  by (simp_all add: absorb_word_def Let_def)

lemma fold_store_byteIndex: "byteIndex (fold store_byte bs c) = byteIndex c + length bs"
  by (induction bs arbitrary: c) auto

lemma absorb_bytes_short:
  "byteIndex c + length bs < 8 \<Longrightarrow> fold absorb_byte bs c = fold store_byte bs c"
  by (induction bs arbitrary: c) (auto simp: absorb_byte_def Let_def)

lemma absorb_bytes_full:
  assumes "byteIndex c + length bs = 8" and "bs \<noteq> []"
  shows "fold absorb_byte bs c =
    (let d = fold store_byte bs c in absorb_word (saved d) (d\<lparr>byteIndex := 0, saved := 0\<rparr>))"
proof -
  obtain cs b where bs: "bs = cs @ [b]" using assms(2) by (metis rev_exhaust)
  then have "fold absorb_byte cs c = fold store_byte cs c" using assms(1) by (intro absorb_bytes_short) simp
  then show ?thesis
    using assms(1) bs fold_store_byteIndex [of cs c]
    by (simp add: absorb_byte_def Let_def)
qed

lemma list_8_exhaust:
  assumes "8 \<le> length xs"
  obtains a b c d e f g h ys where "xs = [a, b, c, d, e, f, g, h] @ ys" "ys = drop 8 xs"
proof -
  have "xs = take 8 xs @ drop 8 xs" by simp
  moreover obtain a b c d e f g h where "take 8 xs = [a, b, c, d, e, f, g, h]"
    using assms by (auto simp: numeral_eq_Suc Suc_le_length_iff)
  ultimately show ?thesis using that by metis
qed

lemma absorb_bytes_word:
  assumes "byteIndex c = 0" and "saved c = 0" and "8 \<le> length bs"
  shows "fold absorb_byte (take 8 bs) c = absorb_word (word_of_bytes8 bs) c"
proof -
  obtain b0 b1 b2 b3 b4 b5 b6 b7 ys where bs: "bs = [b0, b1, b2, b3, b4, b5, b6, b7] @ ys"
    using assms(3) by (rule list_8_exhaust)
  let ?d = "fold store_byte (take 8 bs) c"
  have "saved ?d = word_of_bytes8 bs"
    using assms(1,2) by (simp add: bs store_byte_def word_of_bytes8_def or.assoc numeral_eq_Suc)
  moreover have "?d\<lparr>byteIndex := 0, saved := 0\<rparr> = c"
    using assms(1,2) by (cases c) (simp add: bs store_byte_def)
  moreover have "byteIndex c + length (take 8 bs) = 8" "take 8 bs \<noteq> []" using assms by auto
  ultimately show ?thesis using absorb_bytes_full [of c "take 8 bs"] unfolding Let_def by simp
qed

lemma absorb_words_bytes:
  "byteIndex c = 0 \<Longrightarrow> saved c = 0 \<Longrightarrow> 8 * n \<le> length bs \<Longrightarrow>
   absorb_words n bs c = fold absorb_byte (take (8 * n) bs) c"
proof (induction n arbitrary: bs c)
  case (Suc n)
  have "take (8 * Suc n) bs = take 8 bs @ take (8 * n) (drop 8 bs)"
    by (simp add: take_add [symmetric] add.commute)
  moreover have "absorb_words n (drop 8 bs) (absorb_word (word_of_bytes8 bs) c) =
    fold absorb_byte (take (8 * n) (drop 8 bs)) (absorb_word (word_of_bytes8 bs) c)"
    using Suc.prems by (intro Suc.IH) auto
  ultimately show ?case using Suc.prems by (simp add: absorb_bytes_word)
qed simp

text \<open>A context between calls: fewer than 8 bytes buffered, none of them when the index is 0.\<close>

definition ready_context :: "sha3_context \<Rightarrow> bool" where
  "ready_context c \<longleftrightarrow> byteIndex c < 8 \<and> (byteIndex c = 0 \<longrightarrow> saved c = 0)"

lemma old_tail: "b < 8 \<Longrightarrow> (8 - b) mod 8 = (if b = 0 then 0 else 8 - b)" for b :: nat
  by auto

lemma absorb_words_byteIndex: "byteIndex c = 0 \<Longrightarrow> byteIndex (absorb_words n bs c) = 0"
  by (induction n arbitrary: bs c) auto

lemma absorb_aligned:
  assumes "byteIndex c = 0" and "saved c = 0"
  shows "fold store_byte (drop (8 * (length bs div 8)) bs) (absorb_words (length bs div 8) bs c) = fold absorb_byte bs c"
proof -
  let ?w = "length bs div 8"
  have "fold absorb_byte bs c = fold absorb_byte (take (8 * ?w) bs @ drop (8 * ?w) bs) c" by simp
  also have "\<dots> = fold absorb_byte (drop (8 * ?w) bs) (absorb_words ?w bs c)"
    using assms by (simp only: fold_append comp_apply absorb_words_bytes times_div_less_eq_dividend)
  also have "\<dots> = fold store_byte (drop (8 * ?w) bs) (absorb_words ?w bs c)"
  proof (rule absorb_bytes_short)
    have "length (drop (8 * ?w) bs) < 8" by (simp add: minus_mult_div_eq_mod)
    then show "byteIndex (absorb_words ?w bs c) + length (drop (8 * ?w) bs) < 8"
      using absorb_words_byteIndex [OF assms(1)] by simp
  qed
  finally show ?thesis ..
qed

lemma sha3_Update_bytes:
  assumes "ready_context c"
  shows "sha3_Update bs c = fold absorb_byte bs c"
proof -
  have b: "byteIndex c < 8" and z: "byteIndex c = 0 \<Longrightarrow> saved c = 0"
    using assms by (auto simp: ready_context_def)
  consider (aligned) "byteIndex c = 0" | (short) "byteIndex c \<noteq> 0" "byteIndex c + length bs < 8"
    | (long) "byteIndex c \<noteq> 0" "8 \<le> byteIndex c + length bs" by linarith
  then show ?thesis
  proof cases
    case aligned
    then show ?thesis using z absorb_aligned [of c bs] by (simp add: sha3_Update_def)
  next
    case short
    then have "length bs < 8 - byteIndex c" by linarith
    then show ?thesis
      using b short absorb_bytes_short [of c bs] unfolding sha3_Update_def old_tail [OF b] by simp
  next
    case long
    define t where "t = 8 - byteIndex c"
    let ?d = "fold store_byte (take t bs) c"
    let ?c1 = "absorb_word (saved ?d) (?d\<lparr>byteIndex := 0, saved := 0\<rparr>)"
    have t: "t \<noteq> 0" "t \<le> length bs" "byteIndex c + length (take t bs) = 8" "take t bs \<noteq> []"
      using long b by (auto simp: t_def)
    have ot: "(8 - byteIndex c) mod 8 = t"
      using old_tail [OF b] long(1) by (simp add: t_def)
    have c1: "fold absorb_byte (take t bs) c = ?c1"
      using absorb_bytes_full [OF t(3,4)] by (simp add: Let_def)
    have "sha3_Update bs c =
      fold store_byte (drop (8 * (length (drop t bs) div 8)) (drop t bs))
        (absorb_words (length (drop t bs) div 8) (drop t bs) ?c1)"
      using t(1,2) unfolding sha3_Update_def ot Let_def
      by (simp del: length_drop drop_drop)
    also have "\<dots> = fold absorb_byte (drop t bs) ?c1"
      by (rule absorb_aligned) simp_all
    also have "\<dots> = fold absorb_byte (take t bs @ drop t bs) c"
      by (simp only: fold_append comp_apply c1)
    finally show ?thesis by simp
  qed
qed

section \<open>The sponge\<close>

text \<open>
  The specification: 17 little-endian words of a 136-byte block are added to the state, which is
  then permuted; the last block is padded with \<open>0x01 0x00 .. 0x00 0x80\<close> (\<open>0x81\<close> when one byte is
  left); the hash is the first 32 bytes of the state.
\<close>

fun le_word :: "bytes \<Rightarrow> u64" where
  "le_word [] = 0"
| "le_word (b # bs) = ucast b OR push_bit 8 (le_word bs)"

definition word_at :: "bytes \<Rightarrow> nat \<Rightarrow> u64" where
  "word_at bs i = le_word (take 8 (drop (8 * i) bs))"

definition le_bytes :: "u64 \<Rightarrow> bytes" where
  "le_bytes w = map (\<lambda>k. ucast (drop_bit (8 * k) w)) [0..<8]"

definition pad_last :: "bytes \<Rightarrow> bytes" where
  "pad_last bs =
     (if length bs = 135 then bs @ [0x81] else bs @ 0x01 # replicate (134 - length bs) 0 @ [0x80])"

definition absorb_block :: "u64 list \<Rightarrow> bytes \<Rightarrow> u64 list" where
  "absorb_block S blk = keccak_f_spec (map (\<lambda>i. S ! i XOR (if i < 17 then word_at blk i else 0)) [0..<25])"

function keccak_absorb :: "u64 list \<Rightarrow> bytes \<Rightarrow> u64 list" where
  "keccak_absorb S bs =
     (if length bs < 136 then absorb_block S (pad_last bs)
      else keccak_absorb (absorb_block S (take 136 bs)) (drop 136 bs))"
  by pat_completeness auto
termination by (relation "measure (\<lambda>(S, bs). length bs)") auto

declare keccak_absorb.simps [simp del]

definition keccak_256_spec :: "bytes \<Rightarrow> bytes" where
  "keccak_256_spec bs = take 32 (concat (map le_bytes (keccak_absorb (replicate 25 0) bs)))"

subsection \<open>Little-endian words\<close>

lemma bit_le_word: "bit (le_word bs) n \<Longrightarrow> n < 8 * length bs"
proof (induction bs arbitrary: n)
  case (Cons b bs)
  then show ?case
    by (cases "n < 8") (auto simp: bit_or_iff bit_push_bit_iff bit_ucast_iff dest: bit_imp_le_length dest!: Cons.IH)
qed simp

lemma le_word_append: "le_word (bs @ cs) = le_word bs OR push_bit (8 * length bs) (le_word cs)"
proof (induction bs)
  case (Cons b bs)
  have "le_word ((b # bs) @ cs) = ucast b OR push_bit 8 (le_word bs OR push_bit (8 * length bs) (le_word cs))"
    using Cons.IH by simp
  then show ?case by (simp add: push_bit_or or.assoc add.commute)
qed simp

lemma or_push_xor: "le_word bs OR push_bit (8 * length bs) x = le_word bs XOR push_bit (8 * length bs) x"
  by (rule bit_eqI) (auto simp: bit_or_iff bit_xor_iff bit_push_bit_iff dest: bit_le_word)

lemma le_word_zeros [simp]: "le_word (replicate n 0) = 0"
  by (induction n) auto

lemma le_word_pad: "le_word (1 # replicate k 0 @ [0x80]) = 1 XOR push_bit (8 * (k + 1)) 0x80"
proof -
  have "le_word ((1 # replicate k 0) @ [0x80]) = le_word (1 # replicate k 0) XOR push_bit (8 * (k + 1)) 0x80"
    using le_word_append [of "1 # replicate k 0" "[0x80]"] or_push_xor [where bs = "1 # replicate k 0" and x = "0x80"] by simp
  then show ?thesis by simp
qed

lemma word_bytes_le: "word_bytes w = le_bytes w"
proof -
  have a: "(ucast (drop_bit k (ucast w :: u32)) :: u8) = ucast (drop_bit k w)" if "k \<le> 24" for k
    using that by (intro bit_eqI) (auto simp: bit_ucast_iff bit_drop_bit_eq)
  have b: "(ucast (drop_bit k (ucast (drop_bit 32 w) :: u32)) :: u8) = ucast (drop_bit (k + 32) w)"
    if "k \<le> 24" for k
    using that by (intro bit_eqI) (auto simp: bit_ucast_iff bit_drop_bit_eq add.assoc add.left_commute)
  show ?thesis
    using a [of 0] a [of 8] a [of 16] a [of 24] b [of 0] b [of 8] b [of 16] b [of 24]
    by (simp add: word_bytes_def le_bytes_def upt_rec)
qed

lemma word_at_prefix: "8 * i + 8 \<le> length bs \<Longrightarrow> word_at (bs @ cs) i = word_at bs i"
  by (simp add: word_at_def)

lemma word_at_last:
  "length bs div 8 = q \<Longrightarrow> word_at (bs @ cs) q = le_word (take 8 (drop (8 * q) bs @ cs))"
  by (simp add: word_at_def)

subsection \<open>The context represents a sponge state and the bytes of the current block\<close>

definition sponge_rep :: "sha3_context \<Rightarrow> u64 list \<Rightarrow> bytes \<Rightarrow> bool" where
  "sponge_rep c S r \<longleftrightarrow>
     length S = 25 \<and> length r < 136 \<and> length (st c) = 25 \<and>
     wordIndex c = length r div 8 \<and> byteIndex c = length r mod 8 \<and>
     saved c = word_at r (length r div 8) \<and> capacityWords c = 0x80000008 \<and>
     (\<forall>i<25. st c ! i = S ! i XOR (if i < length r div 8 then word_at r i else 0))"

lemma rate_17: "capacityWords c = 0x80000008 \<Longrightarrow> rate_words c = 17"
  by (simp add: rate_words_def SHA3_KECCAK_SPONGE_WORDS_def SHA3_CW_def SHA3_USE_KECCAK_FLAG_def)

lemma length_absorb_block [simp]: "length (absorb_block S blk) = 25"
  using length_keccakf [of "map (\<lambda>i. S ! i XOR (if i < 17 then word_at blk i else 0)) [0..<25]"]
  by (simp add: absorb_block_def keccakf_is_spec)

lemma saved_store:
  assumes "sponge_rep c S r"
  shows "saved (store_byte b c) = word_at (r @ [b]) (length r div 8)"
proof -
  have l: "length (drop (8 * (length r div 8)) r) = length r mod 8" by (simp add: minus_mult_div_eq_mod)
  then have "length (drop (8 * (length r div 8)) r @ [b]) \<le> 8"
    using mod_less_divisor [of 8 "length r"] by (simp del: length_drop)
  then have "word_at (r @ [b]) (length r div 8) = le_word (drop (8 * (length r div 8)) r @ [b])"
    by (simp add: word_at_last del: length_append)
  moreover have "word_at r (length r div 8) = le_word (drop (8 * (length r div 8)) r)"
    using l mod_less_divisor [of 8 "length r"] by (simp add: word_at_def)
  ultimately show ?thesis
    using assms l by (simp add: sponge_rep_def store_byte_def le_word_append mult.commute)
qed

lemma div_mod_Suc:
  "Suc n mod 8 = (if n mod 8 = 7 then 0 else Suc (n mod 8))"
  "Suc n div 8 = (if n mod 8 = 7 then Suc (n div 8) else n div 8)" for n :: nat
  by (simp_all add: mod_Suc div_Suc)

lemma word_at_short: "length bs \<le> 8 * i \<Longrightarrow> word_at bs i = 0"
  by (simp add: word_at_def)

lemma sponge_rep_words:
  assumes "sponge_rep c S r"
  shows "i < length r div 8 \<Longrightarrow> word_at (r @ cs) i = word_at r i"
  by (rule word_at_prefix) linarith

lemma rep_absorb_partial:
  assumes "sponge_rep c S r" and "length r mod 8 \<noteq> 7"
  shows "sponge_rep (absorb_byte b c) S (r @ [b])"
proof -
  have "absorb_byte b c = store_byte b c"
    using assms mod_less_divisor [of 8 "length r"] by (simp add: absorb_byte_def sponge_rep_def)
  moreover have "length r \<noteq> 135" using assms(2) by auto
  ultimately show ?thesis
    using assms saved_store [OF assms(1), of b]
    by (auto simp: sponge_rep_def div_mod_Suc sponge_rep_words [OF assms(1)])
qed

definition with_word :: "sha3_context \<Rightarrow> bytes \<Rightarrow> u64 list" where
  "with_word c r =
     (st c)[(length r - 1) div 8 := st c ! ((length r - 1) div 8) XOR word_at r ((length r - 1) div 8)]"

lemma rep_absorb_word:
  assumes r: "sponge_rep c S r" and m: "length r mod 8 = 7"
  shows "absorb_byte b c =
    (if length r = 135 then c\<lparr>byteIndex := 0, saved := 0, st := keccakf (with_word c (r @ [b])), wordIndex := 0\<rparr>
     else c\<lparr>byteIndex := 0, saved := 0, st := with_word c (r @ [b]), wordIndex := Suc (length r div 8)\<rparr>)"
proof -
  have rate: "rate_words (store_byte b c\<lparr>byteIndex := 0, saved := 0\<rparr>) = 17"
    using r by (intro rate_17) (simp add: sponge_rep_def)
  have "Suc (length r div 8) = 17 \<longleftrightarrow> length r = 135"
    using m by presburger
  then show ?thesis
    using r m rate saved_store [OF r, of b]
    by (auto simp: absorb_byte_def Let_def absorb_word_def sponge_rep_def with_word_def store_byte_def)
qed

lemma rep_words_updated:
  assumes r: "sponge_rep c S r" and m: "length r mod 8 = 7" and i: "i < 25"
  shows "with_word c (r @ [b]) ! i =
    S ! i XOR (if i < Suc (length r div 8) then word_at (r @ [b]) i else 0)"
  using r i sponge_rep_words [OF r, of _ "[b]"]
  by (auto simp: sponge_rep_def nth_list_update less_Suc_eq with_word_def)

lemma rep_absorb_step:
  assumes r: "sponge_rep c S r"
  shows "sponge_rep (absorb_byte b c)
    (if length r = 135 then absorb_block S (r @ [b]) else S) (if length r = 135 then [] else r @ [b])"
proof (cases "length r mod 8 = 7")
  case False
  then have "length r \<noteq> 135" by auto
  then show ?thesis using rep_absorb_partial [OF r False] by simp
next
  case m: True
  let ?s = "with_word c (r @ [b])"
  have l: "length ?s = 25" using r by (simp add: sponge_rep_def with_word_def)
  have d: "Suc (length r) div 8 = Suc (length r div 8)" "Suc (length r) mod 8 = 0"
    using m by (simp_all add: div_mod_Suc)
  show ?thesis
  proof (cases "length r = 135")
    case True
    have "?s = map (\<lambda>i. S ! i XOR (if i < 17 then word_at (r @ [b]) i else 0)) [0..<25]"
      using r rep_words_updated [OF r m, of _ b] True
      by (intro nth_equalityI) (auto simp: l)
    then have "keccakf ?s = absorb_block S (r @ [b])"
      by (simp add: absorb_block_def keccakf_is_spec)
    then show ?thesis
      using rep_absorb_word [OF r m, of b] r True by (auto simp: sponge_rep_def word_at_def)
  next
    case False
    have "word_at (r @ [b]) (Suc (length r div 8)) = 0"
      using m by (intro word_at_short) (simp; presburger)
    then show ?thesis
      using rep_absorb_word [OF r m, of b] rep_words_updated [OF r m, of _ b] r False d l
      by (auto simp: sponge_rep_def)
  qed
qed

subsection \<open>Padding\<close>

lemma pad_word_partial:
  assumes "length r < 128"
  shows "word_at (pad_last r) (length r div 8) =
    word_at r (length r div 8) XOR push_bit (8 * (length r mod 8)) 1"
proof -
  let ?q = "length r div 8" and ?m = "length r mod 8"
  let ?part = "drop (8 * ?q) r"
  have l: "length ?part = ?m" by (simp add: minus_mult_div_eq_mod)
  have m: "?m < 8" by simp
  have "take 8 (drop (8 * ?q) (pad_last r)) = ?part @ 1 # replicate (7 - ?m) 0"
    using l m assms by (simp add: pad_last_def take_Cons' del: length_drop)
  then have "word_at (pad_last r) ?q = le_word (?part @ 1 # replicate (7 - ?m) 0)"
    by (simp add: word_at_def)
  also have "\<dots> = le_word ?part XOR push_bit (8 * ?m) 1"
    using l le_word_append [of ?part "1 # replicate (7 - ?m) 0"] or_push_xor [of ?part 1] by simp
  also have "le_word ?part = word_at r ?q" using l m by (simp add: word_at_def)
  finally show ?thesis .
qed

lemma pad_word_last_block:
  assumes "128 \<le> length r" and "length r < 136"
  shows "word_at (pad_last r) 16 =
    word_at r 16 XOR push_bit (8 * (length r mod 8)) 1 XOR 0x8000000000000000"
proof -
  let ?m = "length r mod 8" and ?part = "drop 128 r"
  have q: "length r = 128 + ?m" using assms by presburger
  then have l: "length ?part = ?m" by simp
  have m: "?m < 8" by simp
  define P :: bytes where "P = (if ?m = 7 then [0x81] else 1 # replicate (6 - ?m) 0 @ [0x80])"
  have lP: "length ?part + length P = 8" using l m by (auto simp: P_def)
  have "pad_last r = r @ P"
    using q by (auto simp: pad_last_def P_def)
  then have "word_at (pad_last r) 16 = le_word (?part @ P)"
    using lP q by (simp add: word_at_def)
  also have "\<dots> = le_word ?part XOR push_bit (8 * ?m) (le_word P)"
    using l le_word_append [of ?part P] or_push_xor [of ?part "le_word P"] by simp
  also have "push_bit (8 * ?m) (le_word P) = push_bit (8 * ?m) 1 XOR 0x8000000000000000"
  proof (cases "?m = 7")
    case True
    then show ?thesis by (simp add: P_def push_bit_eq_mult)
  next
    case False
    then have "8 * ?m + 8 * (6 - ?m + 1) = 56" using m by auto
    then have "push_bit (8 * ?m) (push_bit (8 * (6 - ?m + 1)) (0x80 :: u64)) = push_bit 56 0x80"
      by (simp only: push_bit_push_bit)
    moreover have "le_word P = 1 XOR push_bit (8 * (6 - ?m + 1)) 0x80"
      using False le_word_pad by (simp add: P_def)
    ultimately show ?thesis by (simp add: push_bit_xor push_bit_eq_mult [of 56])
  qed
  also have "le_word ?part = word_at r 16" using l m by (simp add: word_at_def)
  finally show ?thesis by (simp add: xor.assoc)
qed

lemma pad_word_between:
  assumes "length r div 8 < i" and "i < 16"
  shows "word_at (pad_last r) i = 0"
proof -
  have a: "length r < 8 * i" "8 * i + 8 \<le> 128" using assms by presburger+
  then have "take 8 (drop (8 * i) (pad_last r)) = replicate 8 0"
    by (simp add: pad_last_def drop_Cons')
  then show ?thesis unfolding word_at_def by (simp only: le_word_zeros)
qed

lemma pad_word_top:
  assumes "length r < 128"
  shows "word_at (pad_last r) 16 = 0x8000000000000000"
proof -
  have "take 8 (drop (8 * 16) (pad_last r)) = replicate 7 0 @ [0x80]"
    using assms by (simp add: pad_last_def drop_Cons')
  moreover have "le_word (replicate 7 0 @ [0x80]) = push_bit 56 0x80"
    using le_word_append [of "replicate 7 0" "[0x80]"] by simp
  ultimately show ?thesis unfolding word_at_def by (simp add: push_bit_eq_mult)
qed

lemma pad_word_before:
  "i < length r div 8 \<Longrightarrow> word_at (pad_last r) i = word_at r i"
  by (simp add: pad_last_def) (intro conjI impI word_at_prefix; linarith)

section \<open>The hash\<close>

lemma finalize_words:
  assumes r: "sponge_rep c S r"
  defines "s1 \<equiv> (st c)[wordIndex c := st c ! wordIndex c XOR (saved c XOR push_bit (byteIndex c * 8) 1)]"
  shows "s1[16 := s1 ! 16 XOR 0x8000000000000000] =
    map (\<lambda>i. S ! i XOR (if i < 17 then word_at (pad_last r) i else 0)) [0..<25]"
proof (rule nth_equalityI)
  let ?q = "length r div 8"
  have len: "length r < 136" "length (st c) = 25" and w: "wordIndex c = ?q" "byteIndex c = length r mod 8"
    and sv: "saved c = word_at r ?q"
    and st: "\<And>i. i < 25 \<Longrightarrow> st c ! i = S ! i XOR (if i < ?q then word_at r i else 0)"
    using r by (auto simp: sponge_rep_def)
  show "length (s1[16 := s1 ! 16 XOR 0x8000000000000000]) =
    length (map (\<lambda>i. S ! i XOR (if i < 17 then word_at (pad_last r) i else 0)) [0..<25])"
    by (simp add: s1_def len)
  fix i assume "i < length (s1[16 := s1 ! 16 XOR 0x8000000000000000])"
  then have i: "i < 25" by (simp add: s1_def len)
  have s1: "s1 ! k = (if k = ?q then S ! k XOR (word_at r ?q XOR push_bit (8 * (length r mod 8)) 1)
      else S ! k XOR (if k < ?q then word_at r k else 0))" if "k < 25" for k
    using that len st by (simp add: s1_def w sv nth_list_update mult.commute)
  have q: "?q \<le> 16" using len(1) by linarith
  consider "i < ?q" | "i = ?q" "?q < 16" | "?q < i" "i < 16" | "i = 16" "?q < 16" | "i = 16" "?q = 16" | "16 < i"
    using q by linarith
  then show "s1[16 := s1 ! 16 XOR 0x8000000000000000] ! i =
    map (\<lambda>i. S ! i XOR (if i < 17 then word_at (pad_last r) i else 0)) [0..<25] ! i"
  proof cases
    case 1
    then show ?thesis using i q s1 [OF i] pad_word_before [OF 1] by (simp add: s1_def)
  next
    case 2
    then have "length r < 128" by linarith
    then show ?thesis using i 2 s1 [OF i] pad_word_partial [of r] by simp
  next
    case 3
    then show ?thesis using i s1 [OF i] pad_word_between [OF 3] by simp
  next
    case 4
    then have "length r < 128" by linarith
    then show ?thesis using 4 i s1 [OF i] pad_word_top [of r] len by (simp add: s1_def)
  next
    case 5
    then have "128 \<le> length r" by linarith
    then show ?thesis
      using 5 i s1 [OF i] pad_word_last_block [of r] len by (simp add: s1_def xor.assoc)
  next
    case 6
    then show ?thesis using i q s1 [OF i] by simp
  qed
qed

lemma sha3_Finalize_rep:
  assumes r: "sponge_rep c S r"
  shows "sha3_Finalize c = concat (map le_bytes (keccak_absorb S r))"
proof -
  have "capacityWords c AND SHA3_USE_KECCAK_FLAG \<noteq> 0" and "rate_words c - 1 = 16" and "length r < 136"
    using r rate_17 [of c] by (auto simp: sponge_rep_def SHA3_USE_KECCAK_FLAG_def)
  then show ?thesis
    using finalize_words [OF r]
    by (simp add: sha3_Finalize_def Let_def keccak_absorb.simps [of S r] absorb_block_def
        keccakf_is_spec word_bytes_le cong: map_cong)
qed

lemma sponge_absorbs:
  "sponge_rep c S r \<Longrightarrow>
   sha3_Finalize (fold absorb_byte bs c) = concat (map le_bytes (keccak_absorb S (r @ bs)))"
proof (induction bs arbitrary: c S r)
  case Nil
  then show ?case by (simp add: sha3_Finalize_rep)
next
  case (Cons b bs)
  note step = rep_absorb_step [OF Cons.prems, of b]
  show ?case
  proof (cases "length r = 135")
    case True
    then have "keccak_absorb S (r @ b # bs) = keccak_absorb (absorb_block S (r @ [b])) bs"
      by (subst keccak_absorb.simps) simp
    then show ?thesis using Cons.IH [OF step] True by simp
  next
    case False
    then show ?thesis using Cons.IH [OF step] by simp
  qed
qed

lemma keccak_init_rep:
  "sha3_Init 256 = Some c \<Longrightarrow> sponge_rep (sha3_SetFlags SHA3_FLAGS_KECCAK c) (replicate 25 0) []"
  by (auto simp: sha3_Init_def sha3_SetFlags_def SHA3_USE_KECCAK_FLAG_def sponge_rep_def word_at_def)

lemma keccak256_sponge:
  assumes "length data < 2 ^ 32"
  shows "keccak256 data = keccak_256_spec data"
proof -
  obtain c where c: "sha3_Init 256 = Some c" by (simp add: sha3_Init_def)
  let ?c = "sha3_SetFlags SHA3_FLAGS_KECCAK c"
  have rep: "sponge_rep ?c (replicate 25 0) []" by (rule keccak_init_rep [OF c])
  then have "ready_context ?c" by (simp add: sponge_rep_def ready_context_def word_at_def)
  then show ?thesis
    using assms sponge_absorbs [OF rep, of data] c
    by (simp add: keccak256_def sha3_HashBuffer_def sha3_Update_bytes keccak_256_spec_def)
qed

lemma ready_absorb_byte: "ready_context c \<Longrightarrow> ready_context (absorb_byte b c)"
  by (auto simp: ready_context_def absorb_byte_def Let_def absorb_word_def)

lemma ready_absorb_bytes: "ready_context c \<Longrightarrow> ready_context (fold absorb_byte bs c)"
  by (induction bs arbitrary: c) (auto intro: ready_absorb_byte)

section \<open>Properties\<close>

text \<open>
  Feeding the hash in pieces is feeding it at once: updating with a buffer and then with another
  leaves the context of one update with both, wherever the cut falls, also inside a word or a block.
\<close>

theorem sha3_Update_append:
  assumes "ready_context c"
  shows "sha3_Update (bs @ cs) c = sha3_Update cs (sha3_Update bs c)"
  using assms ready_absorb_bytes [OF assms, of bs] by (simp add: sha3_Update_bytes)

definition example_context :: sha3_context where
  "example_context =
     \<lparr>saved = 0x61, st = replicate 25 0, byteIndex = 1, wordIndex = 0, capacityWords = 0x80000008\<rparr>"

lemma sha3_Update_append_witness:
  "sha3_Update ([1, 2, 3] @ [4, 5, 6, 7, 8, 9]) example_context =
   sha3_Update [4, 5, 6, 7, 8, 9] (sha3_Update [1, 2, 3] example_context)"
  by (rule sha3_Update_append) (simp add: ready_context_def example_context_def)

text \<open>
  C3: the C code computes Keccak-256: for every input shorter than \<open>2^32\<close> bytes (the length passes
  through \<open>unsigned\<close>), the hash is the sponge over 136-byte blocks with the padding \<open>0x01 .. 0x80\<close> and
  the permutation of FIPS 202.
\<close>

theorem keccak256_correct:
  assumes "length data < 2 ^ 32"
  shows "keccak256 data = keccak_256_spec data"
  using assms by (rule keccak256_sponge)

lemma keccak256_correct_witness:
  "keccak256 [0x61, 0x62, 0x63] = keccak_256_spec [0x61, 0x62, 0x63]"
  by (rule keccak256_correct) simp

text \<open>
  C39: the permutation's in-place loops and tables are the five step mappings of FIPS 202 on the lanes
  of the state, with the rotation offsets and round constants FIPS 202 derives.
\<close>

theorem keccakf_correct:
  assumes "length s = 25"
  shows "keccakf s = keccak_f_spec s"
  using assms by (rule keccakf_is_spec)

lemma keccakf_correct_witness:
  "keccakf (replicate 25 1) = keccak_f_spec (replicate 25 1)"
  by (rule keccakf_correct) simp

end
