(* ===== verification/Json_Lib.thy ===== *)
theory Json_Lib
  imports Prelude
begin

text \<open>
  The interface of \<open>nlohmann::ordered_json\<close> that the source uses. The library is not part of the
  repository: its operations are a record every definition takes as an argument, and the locale
  \<open>ordered_json\<close> states the documented behaviour the proofs rely on. The last section gives an
  instance, ordered association lists, on which the witnesses evaluate.
\<close>

section \<open>The operations\<close>

text \<open>
  \<open>jset o k v\<close> is \<open>o[k] = v\<close> where \<open>jassignable o\<close> (null or object; \<open>operator[]\<close> throws a
  \<open>type_error\<close> otherwise); \<open>jlookup\<close> is \<open>find\<close>, read by \<open>contains\<close>, \<open>at\<close> and \<open>operator[]\<close>;
  \<open>jstring\<close>, \<open>juint\<close> and \<open>jboolean\<close> are \<open>get<std::string>\<close>, \<open>get<uint64_t>\<close> and \<open>get<bool>\<close>,
  \<open>None\<close> where they throw.
\<close>

record 'j json_ops =
  jnull :: 'j
  jstr :: "string \<Rightarrow> 'j"
  jbool :: "bool \<Rightarrow> 'j"
  jint :: "int \<Rightarrow> 'j"
  jarr :: "'j list \<Rightarrow> 'j"
  jassignable :: "'j \<Rightarrow> bool"
  jset :: "'j \<Rightarrow> string \<Rightarrow> 'j \<Rightarrow> 'j"
  jlookup :: "'j \<Rightarrow> string \<Rightarrow> 'j option"
  jkeys :: "'j \<Rightarrow> string list"
  jerase :: "'j \<Rightarrow> string \<Rightarrow> 'j"
  jstring :: "'j \<Rightarrow> string option"
  juint :: "'j \<Rightarrow> u64 option"
  jboolean :: "'j \<Rightarrow> bool option"
  to_msgpack :: "'j \<Rightarrow> bytes"
  jdump :: "'j \<Rightarrow> string"

text \<open>Unsigned integers are numbers like the others: \<open>uint32_t\<close> and \<open>uint64_t\<close> by value.\<close>

definition jword :: "'j json_ops \<Rightarrow> 'a::len word \<Rightarrow> 'j" where
  "jword J w = jint J (uint w)"

text \<open>A run of assignments \<open>o[k1] = v1; o[k2] = v2; ...\<close>, and an optional one.\<close>

definition jassign :: "'j json_ops \<Rightarrow> 'j \<Rightarrow> (string \<times> 'j) list \<Rightarrow> 'j" where
  "jassign J j kvs = foldl (\<lambda>x kv. jset J x (fst kv) (snd kv)) j kvs"

definition jobject :: "'j json_ops \<Rightarrow> (string \<times> 'j) list \<Rightarrow> 'j" where
  "jobject J kvs = jassign J (jnull J) kvs"

definition opt_field :: "string \<Rightarrow> ('a \<Rightarrow> 'j) \<Rightarrow> 'a option \<Rightarrow> (string \<times> 'j) list" where
  "opt_field k f x = (case x of None \<Rightarrow> [] | Some y \<Rightarrow> [(k, f y)])"

text \<open>\<open>o[k] = v\<close> and \<open>o.at(k)\<close> on a value that may not be an object.\<close>

definition jset_checked :: "'j json_ops \<Rightarrow> 'j \<Rightarrow> string \<Rightarrow> 'j \<Rightarrow> 'j outcome" where
  "jset_checked J j k v = (if jassignable J j then Inr (jset J j k v) else Inl Nlohmann_Error)"

definition jat :: "'j json_ops \<Rightarrow> 'j \<Rightarrow> string \<Rightarrow> 'j outcome" where
  "jat J j k = of_option Nlohmann_Error (jlookup J j k)"

text \<open>\<open>o[k]\<close> as a value on a mutable object: an absent key is inserted with null.\<close>

definition jindex :: "'j json_ops \<Rightarrow> 'j \<Rightarrow> string \<Rightarrow> 'j outcome" where
  "jindex J j k =
     (if jassignable J j then Inr (case jlookup J j k of None \<Rightarrow> jnull J | Some v \<Rightarrow> v)
      else Inl Nlohmann_Error)"

section \<open>The documented behaviour\<close>

locale ordered_json =
  fixes J :: "'j json_ops"
  assumes assignable_null: "jassignable J (jnull J)"
    and assignable_set: "jassignable J j \<Longrightarrow> jassignable J (jset J j k v)"
    and lookup_null: "jlookup J (jnull J) k = None"
    and lookup_set: "jassignable J j \<Longrightarrow>
      jlookup J (jset J j k v) k' = (if k' = k then Some v else jlookup J j k')"
    and lookup_assignable: "jlookup J j k = Some v \<Longrightarrow> jassignable J j"
    and keys_null: "jkeys J (jnull J) = []"
    and keys_set: "jassignable J j \<Longrightarrow>
      jkeys J (jset J j k v) = (if k \<in> set (jkeys J j) then jkeys J j else jkeys J j @ [k])"
    and assignable_erase: "jassignable J j \<Longrightarrow> jassignable J (jerase J j k)"
    and lookup_erase: "jassignable J j \<Longrightarrow>
      jlookup J (jerase J j k) k' = (if k' = k then None else jlookup J j k')"
    and get_string: "jstring J (jstr J s) = Some s"
    and get_uint: "0 \<le> i \<Longrightarrow> i < 2 ^ 64 \<Longrightarrow> juint J (jint J i) = Some (word_of_int i)"
    and get_bool: "jboolean J (jbool J b) = Some b"
    and str_inj: "jstr J s = jstr J s' \<Longrightarrow> s = s'"
begin

lemma get_word: "LENGTH('a::len) \<le> 64 \<Longrightarrow> juint J (jword J (w::'a word)) = Some (ucast w)"
proof -
  assume l: "LENGTH('a) \<le> 64"
  have "uint w < 2 ^ LENGTH('a)" by (rule uint_lt2p)
  also have "(2::int) ^ LENGTH('a) \<le> 2 ^ 64" using l by (intro power_increasing) auto
  finally show ?thesis
    by (simp add: jword_def get_uint unsigned_ucast_eq)
qed

lemma assign_assignable:
  "jassignable J j \<Longrightarrow> jassignable J (jassign J j kvs)"
  by (induction kvs arbitrary: j) (auto simp: jassign_def assignable_set)

lemma object_assignable: "jassignable J (jobject J kvs)"
  by (simp add: jobject_def assign_assignable assignable_null)

lemma lookup_assign:
  "jassignable J j \<Longrightarrow>
   jlookup J (jassign J j kvs) k = (case map_of (rev kvs) k of None \<Rightarrow> jlookup J j k | Some v \<Rightarrow> Some v)"
proof (induction kvs rule: rev_induct)
  case (snoc kv kvs)
  have "jassign J j (kvs @ [kv]) = jset J (jassign J j kvs) (fst kv) (snd kv)"
    by (simp add: jassign_def)
  then show ?case using snoc by (cases kv) (simp add: lookup_set assign_assignable)
qed (simp add: jassign_def)

lemma lookup_object: "jlookup J (jobject J kvs) k = map_of (rev kvs) k"
  by (simp add: jobject_def lookup_assign assignable_null lookup_null split: option.splits)

lemma keys_assign:
  "jassignable J j \<Longrightarrow> distinct (jkeys J j @ map fst kvs) \<Longrightarrow>
   jkeys J (jassign J j kvs) = jkeys J j @ map fst kvs"
proof (induction kvs rule: rev_induct)
  case (snoc kv kvs)
  have "jassign J j (kvs @ [kv]) = jset J (jassign J j kvs) (fst kv) (snd kv)"
    by (simp add: jassign_def)
  then show ?case using snoc by (auto simp: keys_set assign_assignable)
qed (simp add: jassign_def)

lemma keys_object: "distinct (map fst kvs) \<Longrightarrow> jkeys J (jobject J kvs) = map fst kvs"
  by (simp add: jobject_def keys_assign assignable_null keys_null)

lemma at_object: "jat J (jobject J kvs) k = of_option Nlohmann_Error (map_of (rev kvs) k)"
  by (simp add: jat_def lookup_object)

end

section \<open>An instance\<close>

datatype json =
    J_Null | J_Str string | J_Bool bool | J_Num int | J_Arr "json list" | J_Obj "(string \<times> json) list"

fun al_set :: "(string \<times> 'v) list \<Rightarrow> string \<Rightarrow> 'v \<Rightarrow> (string \<times> 'v) list" where
  "al_set [] k v = [(k, v)]"
| "al_set ((k', v') # kvs) k v = (if k' = k then (k, v) # kvs else (k', v') # al_set kvs k v)"

fun json_fields :: "json \<Rightarrow> (string \<times> json) list" where
  "json_fields (J_Obj kvs) = kvs"
| "json_fields _ = []"

fun json_assignable :: "json \<Rightarrow> bool" where
  "json_assignable (J_Obj kvs) = True"
| "json_assignable J_Null = True"
| "json_assignable _ = False"

fun json_string :: "json \<Rightarrow> string option" where
  "json_string (J_Str s) = Some s"
| "json_string _ = None"

fun json_uint :: "json \<Rightarrow> u64 option" where
  "json_uint (J_Num i) = Some (word_of_int i)"
| "json_uint _ = None"

fun json_boolean :: "json \<Rightarrow> bool option" where
  "json_boolean (J_Bool b) = Some b"
| "json_boolean _ = None"

definition char_bytes :: "string \<Rightarrow> bytes" where
  "char_bytes s = map (\<lambda>c. word_of_nat (of_char c)) s"

text \<open>A self-delimiting byte form of the instance: a tag, then the length, then the content.\<close>

definition byte_frame :: "u8 \<Rightarrow> nat \<Rightarrow> bytes \<Rightarrow> bytes" where
  "byte_frame tag n bs = tag # replicate n 1 @ [0] @ bs"

fun json_bytes :: "json \<Rightarrow> bytes" where
  "json_bytes J_Null = [0]"
| "json_bytes (J_Bool b) = [if b then 2 else 1]"
| "json_bytes (J_Num i) = byte_frame (if i < 0 then 3 else 4) (nat \<bar>i\<bar>) []"
| "json_bytes (J_Str s) = byte_frame 5 (length s) (char_bytes s)"
| "json_bytes (J_Arr js) = byte_frame 6 (length js) (concat (map json_bytes js))"
| "json_bytes (J_Obj kvs) =
     byte_frame 7 (length kvs)
       (concat (map (\<lambda>kv. byte_frame 5 (length (fst kv)) (char_bytes (fst kv)) @ json_bytes (snd kv)) kvs))"

definition json_model :: "json json_ops" where
  "json_model =
     \<lparr>jnull = J_Null, jstr = J_Str, jbool = J_Bool, jint = J_Num, jarr = J_Arr,
      jassignable = json_assignable,
      jset = (\<lambda>j k v. J_Obj (al_set (json_fields j) k v)),
      jlookup = (\<lambda>j k. map_of (json_fields j) k),
      jkeys = (\<lambda>j. map fst (json_fields j)),
      jerase = (\<lambda>j k. J_Obj (filter (\<lambda>kv. fst kv \<noteq> k) (json_fields j))),
      jstring = json_string, juint = json_uint, jboolean = json_boolean,
      to_msgpack = json_bytes, jdump = (\<lambda>j. map (\<lambda>b. char_of (unat b)) (json_bytes j))\<rparr>"

lemma map_of_al_set: "map_of (al_set kvs k v) k' = (if k' = k then Some v else map_of kvs k')"
  by (induction kvs k v rule: al_set.induct) auto

lemma keys_al_set:
  "map fst (al_set kvs k v) = (if k \<in> set (map fst kvs) then map fst kvs else map fst kvs @ [k])"
  by (induction kvs k v rule: al_set.induct) auto

lemma map_of_filter_key:
  "map_of (filter (\<lambda>kv. fst kv \<noteq> k) kvs) k' = (if k' = k then None else map_of kvs k')"
  by (induction kvs) auto

interpretation jm: ordered_json json_model
proof
  show "jlookup json_model j k = Some v \<Longrightarrow> jassignable json_model j" for j k v
    by (cases j) (auto simp: json_model_def)
qed (auto simp: json_model_def map_of_al_set keys_al_set map_of_filter_key)

lemmas json_model_eval =
  json_model_def jobject_def jassign_def opt_field_def jword_def jat_def jindex_def jset_checked_def

end
