(* ===== verification/Signing_Helpers.thy ===== *)
theory Signing_Helpers
  imports Byte_Codec Keccak_Sponge Json_Lib
begin

text \<open>
  The hashing and signing primitives of \<open>src/signing/SigningHelpers.{h,cpp}\<close>. The elliptic curve
  library \<open>secp256k1\<close> is not part of the repository: the calls the source makes of it are the record \<open>secp256k1\<close>.
\<close>

record secp256k1 =
  context_create :: bool
  sign_recoverable :: "bytes \<Rightarrow> bytes \<Rightarrow> (bytes \<times> int) option"
    \<comment> \<open>message hash, secret key; the compact serialization (64 bytes) and the recovery id\<close>
  seckey_verify :: "bytes \<Rightarrow> bool"
  pubkey_create :: "bytes \<Rightarrow> bytes option"  \<comment> \<open>uncompressed, 65 bytes\<close>

record Signature =
  sig_r :: string
  sig_s :: string
  sig_v :: int

record EIP712Field =
  ef_name :: string
  ef_type :: string

definition keccak_string :: "string \<Rightarrow> bytes" where
  "keccak_string s = keccak256 (char_bytes s)"

section \<open>Hashes of structured data\<close>

text \<open>The bytes \<open>actionHash\<close> hashes; \<open>hexToBytes\<close> of the vault address may throw.\<close>

definition action_preimage ::
  "'j json_ops \<Rightarrow> 'j \<Rightarrow> string option \<Rightarrow> u64 \<Rightarrow> u64 option \<Rightarrow> bytes outcome" where
  "action_preimage J action vaultAddress nonce expiresAfter =
     bindE (case vaultAddress of
              None \<Rightarrow> Inr [0x00]
            | Some v \<Rightarrow> bindE (hexToBytes v) (\<lambda>addrBytes. Inr (0x01 # addrBytes))) (\<lambda>vaultPart.
       Inr (to_msgpack J action @ be64 nonce @ vaultPart @
            (case expiresAfter of None \<Rightarrow> [] | Some expires \<Rightarrow> 0x00 # be64 expires)))"

definition actionHash ::
  "'j json_ops \<Rightarrow> 'j \<Rightarrow> string option \<Rightarrow> u64 \<Rightarrow> u64 option \<Rightarrow> bytes outcome" where
  "actionHash J action vaultAddress nonce expiresAfter =
     bindE (action_preimage J action vaultAddress nonce expiresAfter) (\<lambda>data. Inr (keccak256 data))"

definition eip712Hash :: "bytes \<Rightarrow> bytes \<Rightarrow> bytes" where
  "eip712Hash domainSeparator structHash = keccak256 ([0x19, 0x01] @ domainSeparator @ structHash)"

definition eip712_domain_type :: string where
  "eip712_domain_type =
     ''EIP712Domain(string name,string version,uint256 chainId,address verifyingContract)''"

definition domainSeparatorHash :: bytes where
  "domainSeparatorHash =
     keccak256 (keccak_string eip712_domain_type @ keccak_string ''Exchange'' @ keccak_string ''1''
       @ encodeUint256 1337 @ encodeAddress (replicate 20 0))"

definition domainSeparatorHash_of :: "string \<Rightarrow> string \<Rightarrow> u64 \<Rightarrow> bytes" where
  "domainSeparatorHash_of name version chainId =
     keccak256 (keccak_string eip712_domain_type @ keccak_string name @ keccak_string version
       @ encodeUint256 chainId @ encodeAddress (replicate 20 0))"

definition agent_preimage :: "string \<Rightarrow> bytes \<Rightarrow> bytes" where
  "agent_preimage source connectionId =
     keccak_string ''Agent(string source,bytes32 connectionId)'' @ keccak_string source @ connectionId"

definition agentStructHash :: "string \<Rightarrow> bytes \<Rightarrow> bytes" where
  "agentStructHash source connectionId = keccak256 (agent_preimage source connectionId)"

text \<open>The type string of a user-signed action: \<open>Primary(type name,type name,...)\<close>.\<close>

definition type_string :: "string \<Rightarrow> EIP712Field list \<Rightarrow> string" where
  "type_string primaryType payloadTypes =
     primaryType @ ''('' @
     concat (map (\<lambda>idx. (if 0 < idx then '','' else []) @
                  ef_type (payloadTypes ! idx) @ '' '' @ ef_name (payloadTypes ! idx))
              [0..<length payloadTypes]) @ '')''"

text \<open>
  \<open>action[field.name].get<T>()\<close> on a const object: a wrong type throws; an absent key, which the
  library leaves undefined, is an error of the model, so a proof of success rules it out.
\<close>

definition field_as :: "'j json_ops \<Rightarrow> ('j \<Rightarrow> 'a option) \<Rightarrow> 'j \<Rightarrow> string \<Rightarrow> 'a outcome" where
  "field_as J get action name = of_option Nlohmann_Error (Option.bind (jlookup J action name) get)"

definition encode_field :: "'j json_ops \<Rightarrow> 'j \<Rightarrow> EIP712Field \<Rightarrow> bytes outcome" where
  "encode_field J action field =
     (if ef_type field = ''string'' then
        bindE (field_as J (jstring J) action (ef_name field)) (\<lambda>val. Inr (keccak_string val))
      else if ef_type field = ''uint64'' \<or> ef_type field = ''uint32'' then
        bindE (field_as J (juint J) action (ef_name field)) (\<lambda>val. Inr (encodeUint256 val))
      else if ef_type field = ''address'' then
        bindE (field_as J (jstring J) action (ef_name field)) (\<lambda>val.
        bindE (hexToBytes val) (\<lambda>addrBytes. Inr (encodeAddress addrBytes)))
      else if ef_type field = ''bool'' then
        bindE (field_as J (jboolean J) action (ef_name field)) (\<lambda>val. Inr (encodeUint256 (if val then 1 else 0)))
      else if ef_type field = ''bytes'' then
        bindE (field_as J (jstring J) action (ef_name field)) (\<lambda>val.
        bindE (hexToBytes val) (\<lambda>valBytes. Inr (keccak256 valBytes)))
      else Inr [])"

definition userSignedStructHash ::
  "'j json_ops \<Rightarrow> string \<Rightarrow> EIP712Field list \<Rightarrow> 'j \<Rightarrow> bytes outcome" where
  "userSignedStructHash J primaryType payloadTypes action =
     bindE (mapE (encode_field J action) payloadTypes) (\<lambda>encoded.
       Inr (keccak256 (keccak_string (type_string primaryType payloadTypes) @ concat encoded)))"

section \<open>Keys and signatures\<close>

definition ecdsaSign :: "secp256k1 \<Rightarrow> Wallet \<Rightarrow> bytes \<Rightarrow> Signature outcome" where
  "ecdsaSign E w messageHash =
     bindE (hexToBytes (privateKey w)) (\<lambda>privateKeyBytes.
       if length privateKeyBytes \<noteq> 32 then Inl (Invalid_Argument ''Private key must be 32 bytes'')
       else if \<not> context_create E then Inl (Runtime_Error ''Failed to create secp256k1 context'')
       else case sign_recoverable E messageHash privateKeyBytes of
              None \<Rightarrow> Inl (Runtime_Error ''secp256k1 signing failed'')
            | Some (serialized, recid) \<Rightarrow>
                if recid \<noteq> 0 \<and> recid \<noteq> 1
                then Inl (Runtime_Error (''Unexpected recovery id: '' @ dec_of_int recid))
                else Inr \<lparr>sig_r = toHex (take 32 serialized), sig_s = toHex (drop 32 serialized),
                          sig_v = recid + 27\<rparr>)"

text \<open>
  \<open>generatePrivateKeyHex\<close> draws four random words until they are a valid key. The draws are the
  argument; \<open>None\<close> when they run out before that.
\<close>

fun draw_key :: "secp256k1 \<Rightarrow> u64 list \<Rightarrow> string option" where
  "draw_key E (a # b # c # d # draws) =
     (let key = be64 a @ be64 b @ be64 c @ be64 d
      in if seckey_verify E key then Some (toHexPadded key) else draw_key E draws)"
| "draw_key E _ = None"

definition generatePrivateKeyHex :: "secp256k1 \<Rightarrow> u64 list \<Rightarrow> string option outcome" where
  "generatePrivateKeyHex E draws =
     (if \<not> context_create E then Inl (Runtime_Error ''Failed to create secp256k1 context'')
      else Inr (draw_key E draws))"

definition privateKeyToAddress :: "secp256k1 \<Rightarrow> string \<Rightarrow> string outcome" where
  "privateKeyToAddress E privateKeyHex =
     bindE (hexToBytes privateKeyHex) (\<lambda>privateKeyBytes.
       if length privateKeyBytes \<noteq> 32 then Inl (Invalid_Argument ''Private key must be 32 bytes'')
       else if \<not> context_create E then Inl (Runtime_Error ''Failed to create secp256k1 context'')
       else case pubkey_create E privateKeyBytes of
              None \<Rightarrow> Inl (Runtime_Error ''Failed to derive public key from private key'')
            | Some serialized \<Rightarrow>
                Inr (toHexPadded (take 20 (drop 12 (keccak256 (take 64 (drop 1 serialized)))))))"

section \<open>Lemmas\<close>

lemma length_le_bytes [simp]: "length (le_bytes w) = 8"
  by (simp add: le_bytes_def)

lemma keccak_absorb_length: "length (keccak_absorb S bs) = 25"
  by (induction S bs rule: keccak_absorb.induct) (subst keccak_absorb.simps, simp)

lemma length_concat_le_bytes: "length (concat (map le_bytes ws)) = 8 * length ws"
  by (induction ws) auto

lemma length_keccak256: "length data < 2 ^ 32 \<Longrightarrow> length (keccak256 data) = 32"
  by (simp add: keccak256_sponge keccak_256_spec_def length_concat_le_bytes keccak_absorb_length)

lemma length_keccak_string: "length s < 2 ^ 32 \<Longrightarrow> length (keccak_string s) = 32"
  by (simp add: keccak_string_def length_keccak256 char_bytes_def)

text \<open>A key that was generated is one the library accepts, and its hexadecimal form reads back.\<close>

lemma draw_key_valid:
  "draw_key E draws = Some s \<Longrightarrow> \<exists>key. hexToBytes s = Inr key \<and> length key = 32 \<and> seckey_verify E key"
  by (induction E draws rule: draw_key.induct)
     (auto simp: Let_def hexToBytes_toHexPadded split: if_splits)

end
