(* ===== verification/Nonce.thy ===== *)
theory Nonce
  imports Prelude
begin

text \<open>
  \<open>nextNonce\<close> of \<open>src/signing/Signing.cpp\<close>: a static atomic holds the last nonce; any number of
  threads read the clock, load the atomic and repeat a weak compare-exchange. Every load and
  compare-exchange is one step; a weak one may fail without a reason.
\<close>

section \<open>One call\<close>

definition next_nonce_from :: "u64 \<Rightarrow> u64 \<Rightarrow> u64" where
  "next_nonce_from now prev = (if now > prev then now else prev + 1)"

text \<open>A call that no other thread disturbs, from the clock reading and the last nonce.\<close>

definition nextNonce :: "u64 \<Rightarrow> u64 \<Rightarrow> u64" where
  "nextNonce now prev = next_nonce_from now prev"

section \<open>Concurrent calls\<close>

datatype nonce_pc =
    Not_Calling
  | Clock_Read u64        \<comment> \<open>\<open>now\<close> is known, \<open>lastNonce\<close> not loaded yet\<close>
  | In_Loop u64 u64       \<comment> \<open>\<open>now\<close> and \<open>prev\<close>, before the compare-exchange\<close>

record nonce_state =
  lastNonce :: u64
  pc :: "nat \<Rightarrow> nonce_pc"
  issued :: "(u64 \<times> u64) list"   \<comment> \<open>clock reading and nonce returned, in the order of the exchanges\<close>

definition nonce_init :: nonce_state where
  "nonce_init = \<lparr>lastNonce = 0, pc = (\<lambda>_. Not_Calling), issued = []\<rparr>"

datatype nonce_event = Read_Clock nat u64 | Load nat | Exchange nat | Exchange_Fails nat

fun nonce_exec :: "nonce_event \<Rightarrow> nonce_state \<Rightarrow> nonce_state option" where
  "nonce_exec (Read_Clock t now) s =
     (case pc s t of Not_Calling \<Rightarrow> Some (s\<lparr>pc := (pc s)(t := Clock_Read now)\<rparr>) | _ \<Rightarrow> None)"
| "nonce_exec (Load t) s =
     (case pc s t of Clock_Read now \<Rightarrow> Some (s\<lparr>pc := (pc s)(t := In_Loop now (lastNonce s))\<rparr>) | _ \<Rightarrow> None)"
| "nonce_exec (Exchange t) s =
     (case pc s t of
        In_Loop now prev \<Rightarrow>
          if lastNonce s = prev
          then Some (s\<lparr>lastNonce := next_nonce_from now prev, pc := (pc s)(t := Not_Calling),
                       issued := issued s @ [(now, next_nonce_from now prev)]\<rparr>)
          else None
      | _ \<Rightarrow> None)"
| "nonce_exec (Exchange_Fails t) s =
     (case pc s t of
        In_Loop now prev \<Rightarrow> Some (s\<lparr>pc := (pc s)(t := In_Loop now (lastNonce s))\<rparr>)
      | _ \<Rightarrow> None)"

text \<open>Executions in which no clock reads more than \<open>T\<close>.\<close>

fun clock_bounded :: "u64 \<Rightarrow> nonce_event \<Rightarrow> bool" where
  "clock_bounded T (Read_Clock t now) = (now \<le> T)"
| "clock_bounded T _ = True"

inductive nonce_reachable :: "u64 \<Rightarrow> nonce_state \<Rightarrow> bool" for T where
  init: "nonce_reachable T nonce_init"
| step: "nonce_reachable T s \<Longrightarrow> clock_bounded T e \<Longrightarrow> nonce_exec e s = Some s' \<Longrightarrow> nonce_reachable T s'"

section \<open>Invariant\<close>

fun pc_clock :: "nonce_pc \<Rightarrow> u64" where
  "pc_clock Not_Calling = 0"
| "pc_clock (Clock_Read now) = now"
| "pc_clock (In_Loop now prev) = now"

text \<open>
  The nonces issued increase strictly up to \<open>lastNonce\<close>, each is at least its caller's clock, and
  \<open>lastNonce\<close> is at most one past the clock bound per call: while that fits a word, nothing wraps.
\<close>

definition nonce_inv :: "u64 \<Rightarrow> nonce_state \<Rightarrow> bool" where
  "nonce_inv T s \<longleftrightarrow>
     (\<forall>t. pc_clock (pc s t) \<le> T) \<and>
     (unat T + length (issued s) < 2 ^ 64 \<longrightarrow>
        unat (lastNonce s) \<le> unat T + length (issued s) \<and>
        sorted_wrt (<) (map snd (issued s)) \<and>
        (\<forall>(now, n) \<in> set (issued s). now \<le> n \<and> n \<le> lastNonce s))"

lemma next_nonce_greater:
  assumes "unat prev + 1 < 2 ^ 64"
  shows "prev < next_nonce_from now prev" and "now \<le> next_nonce_from now prev"
    and "unat (next_nonce_from now prev) \<le> max (unat now) (unat prev + 1)"
proof -
  have "unat (prev + 1) = unat prev + 1"
    using assms by (simp add: unat_word_ariths)
  then show "prev < next_nonce_from now prev" and "now \<le> next_nonce_from now prev"
    and "unat (next_nonce_from now prev) \<le> max (unat now) (unat prev + 1)"
    by (auto simp: next_nonce_from_def word_less_nat_alt word_le_nat_alt)
qed

lemma nonce_inv_exchange:
  assumes inv: "nonce_inv T s" and pc: "pc s t = In_Loop now (lastNonce s)"
  shows "nonce_inv T (s\<lparr>lastNonce := next_nonce_from now (lastNonce s), pc := (pc s)(t := Not_Calling),
    issued := issued s @ [(now, next_nonce_from now (lastNonce s))]\<rparr>)"
proof -
  have now: "now \<le> T" using inv pc unfolding nonce_inv_def by (metis pc_clock.simps(3))
  have "unat (lastNonce s) + 1 < 2 ^ 64 \<and> unat now \<le> unat T" if "unat T + length (issued s) + 1 < 2 ^ 64"
    using that inv now by (auto simp: nonce_inv_def word_le_nat_alt)
  then show ?thesis
    using inv next_nonce_greater [of "lastNonce s" now]
    by (fastforce simp: nonce_inv_def sorted_wrt_append)
qed

lemma nonce_inv_step:
  "nonce_inv T s \<Longrightarrow> clock_bounded T e \<Longrightarrow> nonce_exec e s = Some s' \<Longrightarrow> nonce_inv T s'"
proof (cases e)
  case (Exchange t)
  assume "nonce_inv T s" and "nonce_exec e s = Some s'"
  then show ?thesis
    using Exchange nonce_inv_exchange [of T s t]
    by (auto split: nonce_pc.splits if_splits)
qed (auto simp: nonce_inv_def split: nonce_pc.splits; metis pc_clock.simps)+

lemma nonce_reachable_inv: "nonce_reachable T s \<Longrightarrow> nonce_inv T s"
proof (induction rule: nonce_reachable.induct)
  case init
  then show ?case by (simp add: nonce_inv_def nonce_init_def)
qed (auto intro: nonce_inv_step)

section \<open>Properties\<close>

text \<open>
  C4: however the calls of any number of threads interleave and however often the weak exchange fails
  for no reason, the nonces handed out increase strictly in the order of the exchanges, so no two
  are equal, and each is at least the clock its caller read; this as long as the largest clock
  reading plus the number of calls fits 64 bits.
\<close>

theorem nonces_strictly_increase:
  assumes "nonce_reachable T s" and "unat T + length (issued s) < 2 ^ 64"
  shows "sorted_wrt (<) (map snd (issued s)) \<and> distinct (map snd (issued s)) \<and>
    (\<forall>(now, n) \<in> set (issued s). now \<le> n)"
proof -
  have "sorted_wrt (<) (map snd (issued s))" and "\<forall>(now, n) \<in> set (issued s). now \<le> n"
    using nonce_reachable_inv [OF assms(1)] assms(2) by (auto simp: nonce_inv_def)
  then show ?thesis using strict_sorted_iff by blast
qed

fun nonce_run :: "nonce_event list \<Rightarrow> nonce_state \<Rightarrow> nonce_state option" where
  "nonce_run [] s = Some s"
| "nonce_run (e # es) s = Option.bind (nonce_exec e s) (nonce_run es)"

lemma nonce_run_reachable:
  "nonce_reachable T s \<Longrightarrow> list_all (clock_bounded T) es \<Longrightarrow> nonce_run es s = Some s' \<Longrightarrow> nonce_reachable T s'"
  by (induction es arbitrary: s) (auto simp: bind_eq_Some_conv intro: nonce_reachable.step)

text \<open>Two threads read the same millisecond; the second exchange fails once and takes the next value.\<close>

definition race :: "nonce_event list" where
  "race = [Read_Clock 0 7, Read_Clock 1 7, Load 0, Load 1, Exchange 0, Exchange_Fails 1, Exchange 1]"

definition race_end :: nonce_state where
  "race_end = the (nonce_run race nonce_init)"

lemma race_run: "nonce_run race nonce_init = Some race_end" "issued race_end = [(7, 7), (7, 8)]"
  by (simp_all add: race_end_def race_def nonce_init_def next_nonce_from_def)

lemma nonces_strictly_increase_witness: "distinct [7, 8 :: u64]"
proof -
  have "nonce_reachable 7 race_end"
    by (rule nonce_run_reachable [OF nonce_reachable.init _ race_run(1)]) (simp add: race_def)
  from nonces_strictly_increase [OF this] show ?thesis by (simp add: race_run(2))
qed

end
