(* ===== verification/Signing.thy ===== *)
theory Signing
  imports Signing_Helpers Nonce
begin

text \<open>
  \<open>src/signing/Signing.{h,cpp}\<close>: how a request body becomes a signed one. The clock reading and
  the last nonce issued are arguments, the new last nonce is the first component of the result,
  also when signing fails.
\<close>

section \<open>The two signatures\<close>

definition source_of :: "bool \<Rightarrow> string" where
  "source_of isMainnet = (if isMainnet then ''a'' else ''b'')"

definition signL1Action ::
  "'j json_ops \<Rightarrow> secp256k1 \<Rightarrow> Wallet \<Rightarrow> 'j \<Rightarrow> string option \<Rightarrow> u64 \<Rightarrow> u64 option \<Rightarrow> bool \<Rightarrow> Signature outcome" where
  "signL1Action J E w action vaultAddress nonce expiresAfter isMainnet =
     bindE (actionHash J action vaultAddress nonce expiresAfter) (\<lambda>hash.
       ecdsaSign E w
         (eip712Hash domainSeparatorHash (agentStructHash (source_of isMainnet) hash)))"

definition signUserSignedAction ::
  "'j json_ops \<Rightarrow> secp256k1 \<Rightarrow> Wallet \<Rightarrow> 'j \<Rightarrow> EIP712Field list \<Rightarrow> string \<Rightarrow> Signature outcome" where
  "signUserSignedAction J E w action payloadTypes primaryType =
     bindE (userSignedStructHash J primaryType payloadTypes action) (\<lambda>structHash.
       ecdsaSign E w
         (eip712Hash (domainSeparatorHash_of ''HyperliquidSignTransaction'' ''1'' 0x66eee) structHash))"

section \<open>Field lists\<close>

definition eip_field :: "string \<Rightarrow> string \<Rightarrow> EIP712Field" where
  "eip_field name type = \<lparr>ef_name = name, ef_type = type\<rparr>"

definition sendToEvmWithDataFields :: "EIP712Field list" where
  "sendToEvmWithDataFields =
    [eip_field ''hyperliquidChain'' ''string'', eip_field ''token'' ''string'',
     eip_field ''amount'' ''string'', eip_field ''sourceDex'' ''string'',
     eip_field ''destinationRecipient'' ''string'', eip_field ''addressEncoding'' ''string'',
     eip_field ''destinationChainId'' ''uint32'', eip_field ''gasLimit'' ''uint64'',
     eip_field ''data'' ''bytes'', eip_field ''nonce'' ''uint64'']"

definition userSignedActionFields :: "RestEndpointType \<Rightarrow> EIP712Field list outcome" where
  "userSignedActionFields type =
     (if type = Ep_SendToEvmWithData then Inr sendToEvmWithDataFields
      else Inl (Invalid_Argument (''No EIP-712 field list for RestEndpointType: '' @ toString_Endpoint type)))"

definition userSignedActionPrimaryType :: "RestEndpointType \<Rightarrow> string outcome" where
  "userSignedActionPrimaryType type =
     (if type = Ep_SendToEvmWithData then Inr ''HyperliquidTransaction:SendToEvmWithData''
      else Inl (Invalid_Argument (''No EIP-712 primary type for RestEndpointType: '' @ toString_Endpoint type)))"

text \<open>
  The \<open>switch\<close> of \<open>prepareUserSignedActionBody\<close>: primary type, field list and the name of the field
  that carries the nonce.
\<close>

definition user_signed_spec :: "RestEndpointType \<Rightarrow> (string \<times> EIP712Field list \<times> string) outcome" where
  "user_signed_spec type = (
     if type = Ep_UsdSend then
       Inr (''HyperliquidTransaction:UsdSend'',
            [eip_field ''hyperliquidChain'' ''string'', eip_field ''destination'' ''string'',
             eip_field ''amount'' ''string'', eip_field ''time'' ''uint64''], ''time'')
     else if type = Ep_Withdraw3 then
       Inr (''HyperliquidTransaction:Withdraw'',
            [eip_field ''hyperliquidChain'' ''string'', eip_field ''destination'' ''string'',
             eip_field ''amount'' ''string'', eip_field ''time'' ''uint64''], ''time'')
     else if type = Ep_SpotSend then
       Inr (''HyperliquidTransaction:SpotSend'',
            [eip_field ''hyperliquidChain'' ''string'', eip_field ''destination'' ''string'',
             eip_field ''token'' ''string'', eip_field ''amount'' ''string'',
             eip_field ''time'' ''uint64''], ''time'')
     else if type = Ep_UsdClassTransfer then
       Inr (''HyperliquidTransaction:UsdClassTransfer'',
            [eip_field ''hyperliquidChain'' ''string'', eip_field ''amount'' ''string'',
             eip_field ''toPerp'' ''bool'', eip_field ''nonce'' ''uint64''], ''nonce'')
     else if type = Ep_SendAsset then
       Inr (''HyperliquidTransaction:SendAsset'',
            [eip_field ''hyperliquidChain'' ''string'', eip_field ''destination'' ''string'',
             eip_field ''sourceDex'' ''string'', eip_field ''destinationDex'' ''string'',
             eip_field ''token'' ''string'', eip_field ''amount'' ''string'',
             eip_field ''fromSubAccount'' ''string'', eip_field ''nonce'' ''uint64''], ''nonce'')
     else if type = Ep_ApproveBuilderFee then
       Inr (''HyperliquidTransaction:ApproveBuilderFee'',
            [eip_field ''hyperliquidChain'' ''string'', eip_field ''maxFeeRate'' ''string'',
             eip_field ''builder'' ''address'', eip_field ''nonce'' ''uint64''], ''nonce'')
     else if type = Ep_UserSetAbstraction then
       Inr (''HyperliquidTransaction:UserSetAbstraction'',
            [eip_field ''hyperliquidChain'' ''string'', eip_field ''user'' ''address'',
             eip_field ''abstraction'' ''string'', eip_field ''nonce'' ''uint64''], ''nonce'')
     else if type = Ep_CDeposit \<or> type = Ep_CWithdraw then
       Inr (if type = Ep_CDeposit then ''HyperliquidTransaction:CDeposit''
            else ''HyperliquidTransaction:CWithdraw'',
            [eip_field ''hyperliquidChain'' ''string'', eip_field ''wei'' ''uint64'',
             eip_field ''nonce'' ''uint64''], ''nonce'')
     else if type = Ep_TokenDelegate then
       Inr (''HyperliquidTransaction:TokenDelegate'',
            [eip_field ''hyperliquidChain'' ''string'', eip_field ''validator'' ''address'',
             eip_field ''wei'' ''uint64'', eip_field ''isUndelegate'' ''bool'',
             eip_field ''nonce'' ''uint64''], ''nonce'')
     else if type = Ep_SendToEvmWithData then
       Inr (''HyperliquidTransaction:SendToEvmWithData'', sendToEvmWithDataFields, ''nonce'')
     else if type = Ep_UserDexAbstraction then
       Inr (''HyperliquidTransaction:UserDexAbstraction'',
            [eip_field ''hyperliquidChain'' ''string'', eip_field ''user'' ''address'',
             eip_field ''enabled'' ''bool'', eip_field ''nonce'' ''uint64''], ''nonce'')
     else if type = Ep_UserPortfolioMargin then
       Inr (''HyperliquidTransaction:UserPortfolioMargin'',
            [eip_field ''hyperliquidChain'' ''string'', eip_field ''user'' ''address'',
             eip_field ''enabled'' ''bool'', eip_field ''nonce'' ''uint64''], ''nonce'')
     else Inl (Invalid_Argument (''Not a user-signed action: '' @ toString_Endpoint type)))"

section \<open>Signed bodies\<close>

definition signature_json :: "'j json_ops \<Rightarrow> Signature \<Rightarrow> 'j" where
  "signature_json J signature =
     jobject J [(''r'', jstr J (sig_r signature)), (''s'', jstr J (sig_s signature)),
                (''v'', jint J (sig_v signature))]"

definition chain_name :: "ApiConfig \<Rightarrow> string" where
  "chain_name config = (if env config = Env_Mainnet then ''Mainnet'' else ''Testnet'')"

definition no_wallet :: "RestEndpointType \<Rightarrow> cpp_error" where
  "no_wallet type =
     Invalid_Argument (''Wallet not configured, can't send authenticated request: '' @ toString_Endpoint type)"

text \<open>The three fields every user-signed action gets: nonce or time, chain id, chain name.\<close>

definition chain_fields :: "'j json_ops \<Rightarrow> ApiConfig \<Rightarrow> string \<Rightarrow> u64 \<Rightarrow> (string \<times> 'j) list" where
  "chain_fields J config timeField nonce =
     [(timeField, jword J nonce), (''signatureChainId'', jstr J ''0x66eee''),
      (''hyperliquidChain'', jstr J (chain_name config))]"

definition jassign_checked :: "'j json_ops \<Rightarrow> 'j \<Rightarrow> (string \<times> 'j) list \<Rightarrow> 'j outcome" where
  "jassign_checked J j kvs =
     (if kvs = [] \<or> jassignable J j then Inr (jassign J j kvs) else Inl Nlohmann_Error)"

definition prepareUserSignedActionBody ::
  "'j json_ops \<Rightarrow> secp256k1 \<Rightarrow> ApiConfig \<Rightarrow> RestEndpointType \<Rightarrow> 'j \<Rightarrow> u64 \<Rightarrow> u64 \<Rightarrow> u64 \<times> 'j outcome" where
  "prepareUserSignedActionBody J E config type action now prev =
     (case wallet config of
        None \<Rightarrow> (prev, Inl (no_wallet type))
      | Some w \<Rightarrow>
          (case user_signed_spec type of
             Inl e \<Rightarrow> (prev, Inl e)
           | Inr (primaryType, payloadTypes, timeField) \<Rightarrow>
               let nonce = nextNonce now prev
               in (nonce,
                   bindE (jassign_checked J action (chain_fields J config timeField nonce)) (\<lambda>a.
                   bindE (signUserSignedAction J E w a payloadTypes primaryType) (\<lambda>signature.
                     Inr (jobject J
                       [(''action'', a), (''nonce'', jword J nonce),
                        (''signature'', signature_json J signature)]))))))"

definition approveAgentFields :: "EIP712Field list" where
  "approveAgentFields =
     [eip_field ''hyperliquidChain'' ''string'', eip_field ''agentAddress'' ''address'',
      eip_field ''agentName'' ''string'', eip_field ''nonce'' ''uint64'']"

definition prepareApproveAgentBody ::
  "'j json_ops \<Rightarrow> secp256k1 \<Rightarrow> ApiConfig \<Rightarrow> string \<Rightarrow> string option \<Rightarrow> u64 \<Rightarrow> u64 \<Rightarrow> u64 \<times> 'j outcome" where
  "prepareApproveAgentBody J E config agentAddress agentName now prev =
     (case wallet config of
        None \<Rightarrow> (prev, Inl (no_wallet Ep_ApproveAgent))
      | Some w \<Rightarrow>
          let nonce = nextNonce now prev;
              action = jobject J
                ([(''type'', jstr J ''approveAgent''), (''agentAddress'', jstr J agentAddress),
                  (''agentName'', jstr J (case agentName of None \<Rightarrow> [] | Some n \<Rightarrow> n))]
                 @ chain_fields J config ''nonce'' nonce)
          in (nonce,
              bindE (signUserSignedAction J E w action approveAgentFields
                       ''HyperliquidTransaction:ApproveAgent'') (\<lambda>signature.
                Inr (jobject J
                  [(''action'', if agentName = None then jerase J action ''agentName'' else action),
                   (''nonce'', jword J nonce),
                   (''signature'', signature_json J signature)]))))"

text \<open>The action an L1 request signs: two types embed the nonce of the envelope.\<close>

definition l1_action_fields :: "'j json_ops \<Rightarrow> RestEndpointType \<Rightarrow> u64 \<Rightarrow> (string \<times> 'j) list" where
  "l1_action_fields J type nonce =
     (if type = Ep_AgentSendAsset \<or> type = Ep_CreateVault then [(''nonce'', jword J nonce)] else [])"

definition sign_in_body ::
  "'j json_ops \<Rightarrow> secp256k1 \<Rightarrow> ApiConfig \<Rightarrow> Wallet \<Rightarrow> RestEndpointType \<Rightarrow> 'j \<Rightarrow> string option \<Rightarrow> u64 option \<Rightarrow> u64
    \<Rightarrow> ('j \<times> Signature) outcome" where
  "sign_in_body J E config w type action vaultAddress expiresAfter nonce =
     (if isUserSignedAction type then
        bindE (jassign_checked J action (chain_fields J config ''nonce'' nonce)) (\<lambda>a.
        bindE (userSignedActionFields type) (\<lambda>payloadTypes.
        bindE (userSignedActionPrimaryType type) (\<lambda>primaryType.
        bindE (signUserSignedAction J E w a payloadTypes primaryType) (\<lambda>signature.
          Inr (a, signature)))))
      else
        bindE (jassign_checked J action (l1_action_fields J type nonce)) (\<lambda>a.
        bindE (signL1Action J E w a vaultAddress nonce expiresAfter (env config = Env_Mainnet)) (\<lambda>signature.
          Inr (a, signature))))"

definition prepareBody ::
  "'j json_ops \<Rightarrow> secp256k1 \<Rightarrow> ApiConfig \<Rightarrow> RestEndpointType \<Rightarrow> 'j \<Rightarrow> string option \<Rightarrow> u64 option \<Rightarrow> u64 \<Rightarrow> u64
    \<Rightarrow> u64 \<times> 'j outcome" where
  "prepareBody J E config type body vaultAddress expiresAfter now prev =
     (case jassign_checked J body (opt_field ''vaultAddress'' (jstr J) vaultAddress
             @ opt_field ''expiresAfter'' (jword J) expiresAfter) of
        Inl e \<Rightarrow> (prev, Inl e)
      | Inr body1 \<Rightarrow>
          if \<not> isAuthenticated type then (prev, Inr body1)
          else (case wallet config of
             None \<Rightarrow> (prev, Inl (no_wallet type))
           | Some w \<Rightarrow>
               let nonce = nextNonce now prev
               in (nonce,
                   bindE (jset_checked J body1 ''nonce'' (jword J nonce)) (\<lambda>body2.
                   bindE (jindex J body2 ''action'') (\<lambda>action.
                   bindE (sign_in_body J E config w type action vaultAddress expiresAfter nonce) (\<lambda>(a, signature).
                     Inr (jassign J body2
                       [(''action'', a), (''signature'', signature_json J signature)])))))))"

definition effective_vault :: "ApiConfig \<Rightarrow> RestEndpointType \<Rightarrow> string option \<Rightarrow> string option" where
  "effective_vault config type vaultAddress =
     (if vaultAddress \<noteq> None then vaultAddress
      else if type \<noteq> Ep_VaultTransfer \<and> type \<noteq> Ep_Hip3LiquidatorTransfer \<and>
              type \<noteq> Ep_CreateSubAccount \<and> type \<noteq> Ep_SubAccountTransfer
      then cfg_vaultAddress config
      else None)"

text \<open>\<open>body["action"].at("agentAddress").get<std::string>()\<close> and the optional \<open>agentName\<close>.\<close>

definition agent_arguments :: "'j json_ops \<Rightarrow> 'j \<Rightarrow> (string \<times> string option) outcome" where
  "agent_arguments J body =
     bindE (jindex J body ''action'') (\<lambda>action.
     bindE (field_as J (jstring J) action ''agentAddress'') (\<lambda>agentAddress.
       if jlookup J action ''agentName'' = None then Inr (agentAddress, None)
       else bindE (field_as J (jstring J) action ''agentName'') (\<lambda>n. Inr (agentAddress, Some n))))"

definition prepareBodyForType ::
  "'j json_ops \<Rightarrow> secp256k1 \<Rightarrow> ApiConfig \<Rightarrow> RestEndpointType \<Rightarrow> 'j \<Rightarrow> string option \<Rightarrow> u64 option \<Rightarrow> u64 \<Rightarrow> u64
    \<Rightarrow> u64 \<times> 'j outcome" where
  "prepareBodyForType J E config type body vaultAddress expiresAfter now prev =
     (if type = Ep_ApproveAgent then
        (case agent_arguments J body of
           Inl e \<Rightarrow> (prev, Inl e)
         | Inr (agentAddress, agentName) \<Rightarrow>
             prepareApproveAgentBody J E config agentAddress agentName now prev)
      else if isUserSignedAction type then
        (case jat J body ''action'' of
           Inl e \<Rightarrow> (prev, Inl e)
         | Inr action \<Rightarrow> prepareUserSignedActionBody J E config type action now prev)
      else prepareBody J E config type body (effective_vault config type vaultAddress)
             expiresAfter now prev)"

end
