(* ===== verification/Symbol_Map.thy ===== *)
theory Symbol_Map
  imports Prelude
begin

text \<open>
  \<open>src/rest/SymbolMap.{h,cpp}\<close>: the map from a symbol to its asset id. The C++
  \<open>std::unordered_map<std::string, int>\<close> is a partial map; iteration order is never observed.
  \<open>add\<close> is \<open>insert\<close> (an existing entry wins), \<open>set\<close> is \<open>operator[]=\<close> (overwrite), \<open>resolve\<close>
  throws on an unknown symbol.
\<close>

section \<open>State and operations\<close>

type_synonym symbol_map = "string \<rightharpoonup> int"

definition SymbolMap_empty :: symbol_map where
  "SymbolMap_empty = Map.empty"

definition SymbolMap_add :: "string \<Rightarrow> int \<Rightarrow> symbol_map \<Rightarrow> symbol_map" where
  "SymbolMap_add symbol securityId m =
     (if symbol \<in> dom m then m else m(symbol \<mapsto> securityId))"

definition SymbolMap_set :: "string \<Rightarrow> int \<Rightarrow> symbol_map \<Rightarrow> symbol_map" where
  "SymbolMap_set symbol securityId m = m(symbol \<mapsto> securityId)"

definition SymbolMap_resolve :: "symbol_map \<Rightarrow> string \<Rightarrow> int outcome" where
  "SymbolMap_resolve m symbol =
     (case m symbol of
        None \<Rightarrow> Inl (Invalid_Argument (''Unknown symbol: '' @ symbol))
      | Some i \<Rightarrow> Inr i)"

section \<open>Laws of the interface\<close>

text \<open>
  The contract the order builder relies on, over an abstract map type: what \<open>resolve\<close> returns
  after \<open>add\<close> and \<open>set\<close>.
\<close>

locale symbol_table =
  fixes empty :: "'m"
    and add :: "'k \<Rightarrow> 'i \<Rightarrow> 'm \<Rightarrow> 'm"
    and put :: "'k \<Rightarrow> 'i \<Rightarrow> 'm \<Rightarrow> 'm"
    and lookup :: "'m \<Rightarrow> 'k \<Rightarrow> 'i option"
  assumes lookup_empty: "lookup empty k = None"
    and lookup_set: "lookup (put k i m) k' = (if k' = k then Some i else lookup m k')"
    and lookup_add:
      "lookup (add k i m) k' = (if k' = k \<and> lookup m k = None then Some i else lookup m k')"
begin

definition set_all :: "('k \<times> 'i) list \<Rightarrow> 'm \<Rightarrow> 'm" where
  "set_all kis m = fold (\<lambda>(k, i). put k i) kis m"

lemma lookup_set_all:
  "lookup (set_all kis m) k =
     (case map_of (rev kis) k of None \<Rightarrow> lookup m k | Some i \<Rightarrow> Some i)"
  by (induction kis arbitrary: m)
     (auto simp: set_all_def lookup_set map_add_def split: option.splits)

lemma lookup_set_all_distinct:
  "distinct (map fst kis) \<Longrightarrow> (k, i) \<in> set kis \<Longrightarrow> lookup (set_all kis m) k = Some i"
  by (subst lookup_set_all) (simp add: map_of_eq_Some_iff rev_map [symmetric] split: option.splits)

lemma add_present: "lookup m k = Some j \<Longrightarrow> lookup (add k i m) k' = lookup m k'"
  by (auto simp: lookup_add)

end

text \<open>The concrete map satisfies the contract, with \<open>resolve\<close> read as a partial lookup.\<close>

interpretation sm: symbol_table SymbolMap_empty SymbolMap_add SymbolMap_set "\<lambda>m k. m k"
  by unfold_locales (auto simp: SymbolMap_empty_def SymbolMap_add_def SymbolMap_set_def)

lemma resolve_Inr_iff [simp]: "SymbolMap_resolve m s = Inr i \<longleftrightarrow> m s = Some i"
  by (auto simp: SymbolMap_resolve_def split: option.splits)

lemma resolve_Inl_iff: "SymbolMap_resolve m s = Inl e \<longleftrightarrow>
    m s = None \<and> e = Invalid_Argument (''Unknown symbol: '' @ s)"
  by (auto simp: SymbolMap_resolve_def split: option.splits)

end
