(* ===== verification/Exchange_Builder.thy ===== *)
theory Exchange_Builder
  imports Request_Types Symbol_Map Json_Lib
begin

text \<open>
  \<open>src/messages/ExchangeRequestBuilder.{h,cpp}\<close>: the symbol map built from the metadata
  responses, the decimal wire format of a \<open>double\<close>, and one builder per exchange action. A
  builder's run of assignments \<open>action["k"] = v\<close> is the list of its fields in the same order.
\<close>

section \<open>The symbol map\<close>

text \<open>
  The responses of \<open>RestApi\<close> that \<open>initializeMapping\<close> reads, with the fields it uses:
  \<open>meta(dex)\<close> gives the asset names of a perp universe, \<open>spotMetaAndAssetCtxs\<close> the tokens and
  the pairs, \<open>perpDexs\<close> the dex names. A request may throw.
\<close>

record spot_token =
  tok_name :: string
  tok_index :: int

record spot_pair =
  pair_name :: string
  pair_index :: int
  pair_tokens :: "int list"

record rest_metadata =
  api_meta :: "string option \<Rightarrow> string list outcome"
  api_spotMeta :: "(spot_token list \<times> spot_pair list) outcome"
  api_perpDexs :: "string list outcome"

fun set_assets :: "int \<Rightarrow> string list \<Rightarrow> symbol_map \<Rightarrow> symbol_map" where
  "set_assets index [] m = m"
| "set_assets index (asset # assets) m = set_assets (index + 1) assets (SymbolMap_set asset index m)"

definition tokenByIndex :: "spot_token list \<Rightarrow> int \<Rightarrow> spot_token option" where
  "tokenByIndex tokens = fold (\<lambda>token m. m(tok_index token \<mapsto> token)) tokens Map.empty"

definition add_pair :: "(int \<Rightarrow> spot_token option) \<Rightarrow> spot_pair \<Rightarrow> symbol_map \<Rightarrow> symbol_map outcome" where
  "add_pair byIndex pair m =
     (let assetId = pair_index pair + 10000;
          m1 = SymbolMap_set (pair_name pair) assetId m
      in case pair_tokens pair of
           [base, quote] \<Rightarrow>
             bindE (of_option (Out_Of_Range ''unordered_map::at'') (byIndex base)) (\<lambda>baseToken.
             bindE (of_option (Out_Of_Range ''unordered_map::at'') (byIndex quote)) (\<lambda>quoteToken.
               Inr (SymbolMap_add (tok_name baseToken @ ''/'' @ tok_name quoteToken) assetId m1)))
         | _ \<Rightarrow> Inr m1)"

fun add_dexes :: "rest_metadata \<Rightarrow> string list \<Rightarrow> int \<Rightarrow> string list \<Rightarrow> symbol_map \<Rightarrow> symbol_map outcome" where
  "add_dexes api wanted perpIdx [] m = Inr m"
| "add_dexes api wanted perpIdx (dex # rest) m =
     (if dex \<notin> set wanted then add_dexes api wanted (perpIdx + 1) rest m
      else bindE (api_meta api (Some dex)) (\<lambda>universe.
             add_dexes api wanted (perpIdx + 1) rest
               (set_assets (100000 + perpIdx * 10000) universe m)))"

definition initializeMapping :: "ApiConfig \<Rightarrow> rest_metadata \<Rightarrow> symbol_map \<Rightarrow> symbol_map outcome" where
  "initializeMapping config api m =
     (if wallet config = None then Inr m
      else
        bindE (api_meta api None) (\<lambda>universe.
        bindE (api_spotMeta api) (\<lambda>(tokens, pairs).
        bindE (foldE (add_pair (tokenByIndex tokens)) pairs (set_assets 0 universe m)) (\<lambda>m1.
          if dexes config = [] then Inr m1
          else bindE (api_perpDexs api) (\<lambda>dexNames.
                 add_dexes api (dexes config) 1 dexNames m1)))))"

text \<open>\<open>r.assetId ? *r.assetId : symbolMap_.resolve(r.asset)\<close>.\<close>

definition asset_id :: "symbol_map \<Rightarrow> int option \<Rightarrow> string \<Rightarrow> int outcome" where
  "asset_id syms assetId asset =
     (case assetId of Some i \<Rightarrow> Inr i | None \<Rightarrow> SymbolMap_resolve syms asset)"

section \<open>Numbers on the wire\<close>

text \<open>
  \<open>snprintf\<close> into a buffer of 64 keeps 63 characters. The trailing zeros go, then a trailing dot.
\<close>

definition strip_zeros :: "string \<Rightarrow> string" where
  "strip_zeros s =
     (if CHR ''.'' \<notin> set s then s
      else let dot = length (takeWhile (\<lambda>c. c \<noteq> CHR ''.'') s);
               kept = rev (dropWhile (\<lambda>c. c = CHR ''0'') (rev s))
           in if length kept = dot + 1 then take dot s else kept)"

definition floatToWire :: "double \<Rightarrow> string outcome" where
  "floatToWire x =
     (let s = take 63 (print_fixed 8 x)
      in bindE (stod s) (\<lambda>v.
           if abs_diff_ge_1em12 v x
           then Inl (Invalid_Argument (''floatToWire causes rounding: '' @ double_to_string x))
           else Inr (strip_zeros s)))"

text \<open>
  \<open>static_cast<uint64_t>(std::llround(usd * 1e6))\<close>: a negative amount wraps. Where \<open>llround\<close> is
  out of range the model takes the x86-64 result, \<open>LLONG_MIN\<close>.
\<close>

definition usd_units :: "double \<Rightarrow> u64" where
  "usd_units usd =
     (case llround (mul_1e6 usd) of None \<Rightarrow> word_of_int (- (2 ^ 63)) | Some i \<Rightarrow> word_of_int i)"

section \<open>Orders\<close>

definition action_body :: "'j json_ops \<Rightarrow> (string \<times> 'j) list \<Rightarrow> 'j" where
  "action_body J kvs = jobject J [(''action'', jobject J kvs)]"

definition trigger_json :: "'j json_ops \<Rightarrow> TriggerOrderType \<Rightarrow> 'j outcome" where
  "trigger_json J trigger =
     bindE (floatToWire (tr_triggerPx trigger)) (\<lambda>px.
       Inr (jobject J
         [(''trigger'', jobject J
            [(''isMarket'', jbool J (tr_isMarket trigger)),
             (''triggerPx'', jstr J px),
             (''tpsl'', jstr J (toString_TpSl (tr_tpsl trigger)))])]))"

definition order_type_field :: "'j json_ops \<Rightarrow> OrderRequest \<Rightarrow> (string \<times> 'j) list outcome" where
  "order_type_field J order =
     (case or_limit order of
        Some limit \<Rightarrow>
          Inr [(''t'', jobject J [(''limit'', jobject J [(''tif'', jstr J (toString_Tif (lo_tif limit)))])])]
      | None \<Rightarrow>
          (case or_trigger order of
             Some trigger \<Rightarrow> bindE (trigger_json J trigger) (\<lambda>t. Inr [(''t'', t)])
           | None \<Rightarrow> Inr []))"

definition buildOrderWire :: "'j json_ops \<Rightarrow> symbol_map \<Rightarrow> OrderRequest \<Rightarrow> 'j outcome" where
  "buildOrderWire J syms order =
     bindE (asset_id syms (or_assetId order) (or_asset order)) (\<lambda>a.
     bindE (floatToWire (or_price order)) (\<lambda>p.
     bindE (floatToWire (or_size order)) (\<lambda>s.
     bindE (order_type_field J order) (\<lambda>t.
       Inr (jobject J
         ([(''a'', jint J a),
           (''b'', jbool J (or_isBuy order)),
           (''p'', jstr J p),
           (''s'', jstr J s),
           (''r'', jbool J (or_reduceOnly order))]
          @ t @ opt_field ''c'' (jstr J) (or_cloid order)))))))"

definition builder_json :: "'j json_ops \<Rightarrow> Builder \<Rightarrow> 'j" where
  "builder_json J builder =
     jobject J [(''b'', jstr J (bu_address builder)), (''f'', jint J (bu_fee builder))]"

definition placeOrder ::
  "'j json_ops \<Rightarrow> symbol_map \<Rightarrow> OrderRequest list \<Rightarrow> Grouping \<Rightarrow> Builder option \<Rightarrow> 'j outcome" where
  "placeOrder J syms orders grouping builder =
     bindE (mapE (buildOrderWire J syms) orders) (\<lambda>wires.
       Inr (action_body J
         ([(''type'', jstr J ''order''),
           (''orders'', jarr J wires),
           (''grouping'', jstr J (toString_Grouping grouping))]
          @ opt_field ''builder'' (builder_json J) builder)))"

definition cancel_json :: "'j json_ops \<Rightarrow> symbol_map \<Rightarrow> CancelRequest \<Rightarrow> 'j outcome" where
  "cancel_json J syms cancel =
     bindE (asset_id syms (ca_assetId cancel) (ca_asset cancel)) (\<lambda>a.
       Inr (jobject J [(''a'', jint J a), (''o'', jword J (ca_oid cancel))]))"

definition cancelOrder :: "'j json_ops \<Rightarrow> symbol_map \<Rightarrow> CancelRequest list \<Rightarrow> 'j outcome" where
  "cancelOrder J syms cancels =
     bindE (mapE (cancel_json J syms) cancels) (\<lambda>cs.
       Inr (action_body J [(''type'', jstr J ''cancel''), (''cancels'', jarr J cs)]))"

definition cancel_by_cloid_json :: "'j json_ops \<Rightarrow> symbol_map \<Rightarrow> CancelByCloidRequest \<Rightarrow> 'j outcome" where
  "cancel_by_cloid_json J syms cancel =
     bindE (asset_id syms (cc_assetId cancel) (cc_asset cancel)) (\<lambda>a.
       Inr (jobject J [(''asset'', jint J a), (''cloid'', jstr J (cc_cloid cancel))]))"

definition cancelOrderByCloid :: "'j json_ops \<Rightarrow> symbol_map \<Rightarrow> CancelByCloidRequest list \<Rightarrow> 'j outcome" where
  "cancelOrderByCloid J syms cancels =
     bindE (mapE (cancel_by_cloid_json J syms) cancels) (\<lambda>cs.
       Inr (action_body J [(''type'', jstr J ''cancelByCloid''), (''cancels'', jarr J cs)]))"

definition scheduleCancel :: "'j json_ops \<Rightarrow> u64 option \<Rightarrow> 'j" where
  "scheduleCancel J time =
     action_body J ((''type'', jstr J ''scheduleCancel'') # opt_field ''time'' (jword J) time)"

definition setModifyOid :: "'j json_ops \<Rightarrow> ModifyRequest \<Rightarrow> (string \<times> 'j) outcome" where
  "setModifyOid J modify =
     (case mo_oid modify of
        Some oid \<Rightarrow> Inr (''oid'', jword J oid)
      | None \<Rightarrow>
          (case mo_cloid modify of
             Some cloid \<Rightarrow> Inr (''oid'', jstr J cloid)
           | None \<Rightarrow> Inl (Invalid_Argument ''ModifyRequest requires either oid or cloid'')))"

definition modifyOrder :: "'j json_ops \<Rightarrow> symbol_map \<Rightarrow> ModifyRequest \<Rightarrow> 'j outcome" where
  "modifyOrder J syms modify =
     bindE (setModifyOid J modify) (\<lambda>oid.
     bindE (buildOrderWire J syms (mo_order modify)) (\<lambda>order.
       Inr (action_body J [(''type'', jstr J ''modify''), oid, (''order'', order)])))"

definition modify_json :: "'j json_ops \<Rightarrow> symbol_map \<Rightarrow> ModifyRequest \<Rightarrow> 'j outcome" where
  "modify_json J syms modify =
     bindE (setModifyOid J modify) (\<lambda>oid.
     bindE (buildOrderWire J syms (mo_order modify)) (\<lambda>order.
       Inr (jobject J [oid, (''order'', order)])))"

definition batchModifyOrder :: "'j json_ops \<Rightarrow> symbol_map \<Rightarrow> ModifyRequest list \<Rightarrow> 'j outcome" where
  "batchModifyOrder J syms modifies =
     bindE (mapE (modify_json J syms) modifies) (\<lambda>ms.
       Inr (action_body J [(''type'', jstr J ''batchModify''), (''modifies'', jarr J ms)]))"

definition updateLeverage :: "'j json_ops \<Rightarrow> symbol_map \<Rightarrow> UpdateLeverageRequest \<Rightarrow> 'j outcome" where
  "updateLeverage J syms request =
     bindE (asset_id syms (ul_assetId request) (ul_asset request)) (\<lambda>a.
       Inr (action_body J
         [(''type'', jstr J ''updateLeverage''),
          (''asset'', jint J a),
          (''isCross'', jbool J (ul_isCross request)),
          (''leverage'', jint J (ul_leverage request))]))"

definition updateIsolatedMargin ::
  "'j json_ops \<Rightarrow> symbol_map \<Rightarrow> UpdateIsolatedMarginRequest \<Rightarrow> 'j outcome" where
  "updateIsolatedMargin J syms request =
     bindE (asset_id syms (ui_assetId request) (ui_asset request)) (\<lambda>a.
       Inr (action_body J
         [(''type'', jstr J ''updateIsolatedMargin''),
          (''asset'', jint J a),
          (''isBuy'', jbool J (ui_isBuy request)),
          (''ntli'', jint J (ui_ntli request))]))"

definition approveAgent :: "'j json_ops \<Rightarrow> ApproveAgentRequest \<Rightarrow> 'j" where
  "approveAgent J request =
     action_body J
       ([(''type'', jstr J ''approveAgent''),
         (''agentAddress'', jstr J (aa_agentAddress request))]
        @ opt_field ''agentName'' (jstr J) (aa_agentName request))"

definition agentSetAbstraction :: "'j json_ops \<Rightarrow> UserAbstractionMode \<Rightarrow> 'j" where
  "agentSetAbstraction J abstraction =
     action_body J
       [(''type'', jstr J ''agentSetAbstraction''),
        (''abstraction'', jstr J (toString_UserAbstractionMode abstraction))]"

definition twapOrder :: "'j json_ops \<Rightarrow> symbol_map \<Rightarrow> TwapOrderRequest \<Rightarrow> 'j outcome" where
  "twapOrder J syms request =
     bindE (asset_id syms (tw_assetId request) (tw_asset request)) (\<lambda>a.
     bindE (floatToWire (tw_size request)) (\<lambda>s.
       Inr (action_body J
         [(''type'', jstr J ''twapOrder''),
          (''twap'', jobject J
             [(''a'', jint J a),
              (''b'', jbool J (tw_isBuy request)),
              (''s'', jstr J s),
              (''r'', jbool J (tw_reduceOnly request)),
              (''m'', jint J (tw_minutes request)),
              (''t'', jbool J (tw_randomize request))])])))"

definition twapCancel :: "'j json_ops \<Rightarrow> symbol_map \<Rightarrow> TwapCancelRequest \<Rightarrow> 'j outcome" where
  "twapCancel J syms request =
     bindE (asset_id syms (tc_assetId request) (tc_asset request)) (\<lambda>a.
       Inr (action_body J
         [(''type'', jstr J ''twapCancel''),
          (''a'', jint J a),
          (''t'', jword J (tc_twapId request))]))"

section \<open>Transfers, vaults and accounts\<close>

definition cDeposit :: "'j json_ops \<Rightarrow> u64 \<Rightarrow> 'j" where
  "cDeposit J wei = action_body J [(''type'', jstr J ''cDeposit''), (''wei'', jword J wei)]"

definition cWithdraw :: "'j json_ops \<Rightarrow> u64 \<Rightarrow> 'j" where
  "cWithdraw J wei = action_body J [(''type'', jstr J ''cWithdraw''), (''wei'', jword J wei)]"

definition vaultTransfer :: "'j json_ops \<Rightarrow> VaultTransferRequest \<Rightarrow> 'j" where
  "vaultTransfer J request =
     action_body J
       [(''type'', jstr J ''vaultTransfer''),
        (''vaultAddress'', jstr J (vt_vaultAddress request)),
        (''isDeposit'', jbool J (vt_isDeposit request)),
        (''usd'', jword J (usd_units (vt_usd request)))]"

definition hip3LiquidatorTransfer :: "'j json_ops \<Rightarrow> Hip3LiquidatorTransferRequest \<Rightarrow> 'j" where
  "hip3LiquidatorTransfer J request =
     action_body J
       [(''type'', jstr J ''hip3LiquidatorTransfer''),
        (''dex'', jstr J (hl_dex request)),
        (''ntl'', jword J (hl_ntl request)),
        (''isDeposit'', jbool J (hl_isDeposit request))]"

definition createSubAccount :: "'j json_ops \<Rightarrow> CreateSubAccountRequest \<Rightarrow> 'j" where
  "createSubAccount J request =
     action_body J [(''type'', jstr J ''createSubAccount''), (''name'', jstr J (cs_name request))]"

definition subAccountTransfer :: "'j json_ops \<Rightarrow> SubAccountTransferRequest \<Rightarrow> 'j" where
  "subAccountTransfer J request =
     action_body J
       [(''type'', jstr J ''subAccountTransfer''),
        (''subAccountUser'', jstr J (st_subAccountUser request)),
        (''isDeposit'', jbool J (st_isDeposit request)),
        (''usd'', jword J (usd_units (st_usd request)))]"

definition createVault :: "'j json_ops \<Rightarrow> CreateVaultRequest \<Rightarrow> 'j" where
  "createVault J request =
     action_body J
       [(''type'', jstr J ''createVault''),
        (''name'', jstr J (cv_name request)),
        (''description'', jstr J (cv_description request)),
        (''initialUsd'', jword J (usd_units (cv_initialUsd request)))]"

text \<open>A nullable field that is sent as an explicit null.\<close>

definition null_or :: "'j json_ops \<Rightarrow> ('a \<Rightarrow> 'j) \<Rightarrow> 'a option \<Rightarrow> 'j" where
  "null_or J f x = (case x of None \<Rightarrow> jnull J | Some y \<Rightarrow> f y)"

definition opt_wire :: "double option \<Rightarrow> string option outcome" where
  "opt_wire x = (case x of None \<Rightarrow> Inr None | Some d \<Rightarrow> bindE (floatToWire d) (\<lambda>s. Inr (Some s)))"

definition borrowLend :: "'j json_ops \<Rightarrow> BorrowLendRequest \<Rightarrow> 'j outcome" where
  "borrowLend J request =
     bindE (opt_wire (bl_amount request)) (\<lambda>amount.
       Inr (action_body J
         [(''type'', jstr J ''borrowLend''),
          (''operation'', jstr J (toString_BorrowLendOperation (bl_operation request))),
          (''token'', jword J (bl_token request)),
          (''amount'', null_or J (jstr J) amount)]))"

definition usdClassTransfer :: "'j json_ops \<Rightarrow> UsdClassTransferRequest \<Rightarrow> 'j outcome" where
  "usdClassTransfer J request =
     bindE (floatToWire (uc_amount request)) (\<lambda>amount.
       Inr (action_body J
         [(''type'', jstr J ''usdClassTransfer''),
          (''amount'', jstr J amount),
          (''toPerp'', jbool J (uc_toPerp request))]))"

definition sendAsset :: "'j json_ops \<Rightarrow> SendAssetRequest \<Rightarrow> 'j outcome" where
  "sendAsset J request =
     bindE (floatToWire (sa_amount request)) (\<lambda>amount.
       Inr (action_body J
         [(''type'', jstr J ''sendAsset''),
          (''destination'', jstr J (sa_destination request)),
          (''sourceDex'', jstr J (sa_sourceDex request)),
          (''destinationDex'', jstr J (sa_destinationDex request)),
          (''token'', jstr J (sa_token request)),
          (''amount'', jstr J amount),
          (''fromSubAccount'', jstr J (sa_fromSubAccount request))]))"

definition usdSend :: "'j json_ops \<Rightarrow> UsdSendRequest \<Rightarrow> 'j outcome" where
  "usdSend J request =
     bindE (floatToWire (us_amount request)) (\<lambda>amount.
       Inr (action_body J
         [(''type'', jstr J ''usdSend''),
          (''destination'', jstr J (us_destination request)),
          (''amount'', jstr J amount)]))"

definition spotSend :: "'j json_ops \<Rightarrow> SpotSendRequest \<Rightarrow> 'j outcome" where
  "spotSend J request =
     bindE (floatToWire (ss_amount request)) (\<lambda>amount.
       Inr (action_body J
         [(''type'', jstr J ''spotSend''),
          (''destination'', jstr J (ss_destination request)),
          (''token'', jstr J (ss_token request)),
          (''amount'', jstr J amount)]))"

definition withdraw3 :: "'j json_ops \<Rightarrow> Withdraw3Request \<Rightarrow> 'j outcome" where
  "withdraw3 J request =
     bindE (floatToWire (wd_amount request)) (\<lambda>amount.
       Inr (action_body J
         [(''type'', jstr J ''withdraw3''),
          (''destination'', jstr J (wd_destination request)),
          (''amount'', jstr J amount)]))"

definition approveBuilderFee :: "'j json_ops \<Rightarrow> ApproveBuilderFeeRequest \<Rightarrow> 'j" where
  "approveBuilderFee J request =
     action_body J
       [(''type'', jstr J ''approveBuilderFee''),
        (''maxFeeRate'', jstr J (ab_maxFeeRate request)),
        (''builder'', jstr J (ab_builder request))]"

definition userSetAbstraction :: "'j json_ops \<Rightarrow> UserSetAbstractionRequest \<Rightarrow> 'j" where
  "userSetAbstraction J request =
     action_body J
       [(''type'', jstr J ''userSetAbstraction''),
        (''user'', jstr J (ua_user request)),
        (''abstraction'', jstr J (toString_AbstractionMode (ua_abstraction request)))]"

definition setReferrer :: "'j json_ops \<Rightarrow> SetReferrerRequest \<Rightarrow> 'j" where
  "setReferrer J request =
     action_body J [(''type'', jstr J ''setReferrer''), (''code'', jstr J (sr_code request))]"

definition tokenDelegate :: "'j json_ops \<Rightarrow> TokenDelegateRequest \<Rightarrow> 'j" where
  "tokenDelegate J request =
     action_body J
       [(''type'', jstr J ''tokenDelegate''),
        (''validator'', jstr J (td_validator request)),
        (''isUndelegate'', jbool J (td_isUndelegate request)),
        (''wei'', jword J (td_wei request))]"

definition sendToEvmWithData :: "'j json_ops \<Rightarrow> SendToEvmWithDataRequest \<Rightarrow> 'j" where
  "sendToEvmWithData J request =
     action_body J
       [(''type'', jstr J ''sendToEvmWithData''),
        (''token'', jstr J (ev_token request)),
        (''amount'', jstr J (ev_amount request)),
        (''sourceDex'', jstr J (ev_sourceDex request)),
        (''destinationRecipient'', jstr J (ev_destinationRecipient request)),
        (''addressEncoding'', jstr J (toString_AddressEncoding (ev_addressEncoding request))),
        (''destinationChainId'', jword J (ev_destinationChainId request)),
        (''gasLimit'', jword J (ev_gasLimit request)),
        (''data'', jstr J (ev_data request))]"

definition userDexAbstraction :: "'j json_ops \<Rightarrow> UserDexAbstractionRequest \<Rightarrow> 'j" where
  "userDexAbstraction J request =
     action_body J
       [(''type'', jstr J ''userDexAbstraction''),
        (''user'', jstr J (ud_user request)),
        (''enabled'', jbool J (ud_enabled request))]"

definition userPortfolioMargin :: "'j json_ops \<Rightarrow> UserPortfolioMarginRequest \<Rightarrow> 'j" where
  "userPortfolioMargin J request =
     action_body J
       [(''type'', jstr J ''userPortfolioMargin''),
        (''user'', jstr J (up_user request)),
        (''enabled'', jbool J (up_enabled request))]"

definition agentSendAsset :: "'j json_ops \<Rightarrow> AgentSendAssetRequest \<Rightarrow> 'j" where
  "agentSendAsset J request =
     action_body J
       [(''type'', jstr J ''agentSendAsset''),
        (''destination'', jstr J (as_destination request)),
        (''sourceDex'', jstr J (as_sourceDex request)),
        (''destinationDex'', jstr J (as_destinationDex request)),
        (''token'', jstr J (as_token request)),
        (''amount'', jstr J (as_amount request)),
        (''fromSubAccount'', jstr J (case as_fromSubAccount request of None \<Rightarrow> [] | Some s \<Rightarrow> s))]"

definition reserveRequestWeight :: "'j json_ops \<Rightarrow> ReserveRequestWeightRequest \<Rightarrow> 'j" where
  "reserveRequestWeight J request =
     action_body J
       ([(''type'', jstr J ''reserveRequestWeight''),
         (''weight'', jint J (rw_weight request))]
        @ opt_field ''destination'' (jstr J) (rw_destination request))"

definition noop :: "'j json_ops \<Rightarrow> 'j" where
  "noop J = action_body J [(''type'', jstr J ''noop'')]"

section \<open>Deployments\<close>

definition spotDeployRegisterToken2 :: "'j json_ops \<Rightarrow> SpotDeployRegisterToken2Request \<Rightarrow> 'j" where
  "spotDeployRegisterToken2 J request =
     (let spec = jobject J
            [(''name'', jstr J (sp_name (rt_spec request))),
             (''szDecimals'', jint J (sp_szDecimals (rt_spec request))),
             (''weiDecimals'', jint J (sp_weiDecimals (rt_spec request)))]
      in action_body J
           [(''type'', jstr J ''spotDeploy''),
            (''registerToken2'', jobject J
               ([(''spec'', spec), (''maxGas'', jword J (rt_maxGas request))]
                @ opt_field ''fullName'' (jstr J) (rt_fullName request)))])"

definition wei_entry :: "'j json_ops \<Rightarrow> ('a \<Rightarrow> 'j) \<Rightarrow> 'a \<times> double \<Rightarrow> 'j outcome" where
  "wei_entry J f entry = bindE (floatToWire (snd entry)) (\<lambda>wei. Inr (jarr J [f (fst entry), jstr J wei]))"

definition spotDeployUserGenesis :: "'j json_ops \<Rightarrow> SpotDeployUserGenesisRequest \<Rightarrow> 'j outcome" where
  "spotDeployUserGenesis J request =
     bindE (mapE (wei_entry J (jstr J)) (ug_userAndWei request)) (\<lambda>userAndWei.
     bindE (mapE (wei_entry J (jint J)) (ug_existingTokenAndWei request)) (\<lambda>existingTokenAndWei.
       Inr (action_body J
         [(''type'', jstr J ''spotDeploy''),
          (''userGenesis'', jobject J
             ([(''token'', jint J (ug_token request)),
               (''userAndWei'', jarr J userAndWei),
               (''existingTokenAndWei'', jarr J existingTokenAndWei)]
              @ opt_field ''blacklistUsers''
                  (\<lambda>users. jarr J (map (\<lambda>(address, blocked). jarr J [jstr J address, jbool J blocked]) users))
                  (ug_blacklistUsers request)))])))"

definition spotDeployGenesis :: "'j json_ops \<Rightarrow> SpotDeployGenesisRequest \<Rightarrow> 'j outcome" where
  "spotDeployGenesis J request =
     bindE (floatToWire (ge_maxSupply request)) (\<lambda>maxSupply.
       Inr (action_body J
         [(''type'', jstr J ''spotDeploy''),
          (''genesis'', jobject J
             ([(''token'', jint J (ge_token request)),
               (''maxSupply'', jstr J maxSupply)]
              @ opt_field ''noHyperliquidity'' (jbool J) (ge_noHyperliquidity request)))]))"

definition spotDeployRegisterSpot :: "'j json_ops \<Rightarrow> SpotDeployRegisterSpotRequest \<Rightarrow> 'j" where
  "spotDeployRegisterSpot J request =
     action_body J
       [(''type'', jstr J ''spotDeploy''),
        (''registerSpot'', jobject J
           [(''tokens'', jarr J [jint J (rs_baseToken request), jint J (rs_quoteToken request)])])]"

definition spotDeployRegisterHyperliquidity ::
  "'j json_ops \<Rightarrow> SpotDeployRegisterHyperliquidityRequest \<Rightarrow> 'j outcome" where
  "spotDeployRegisterHyperliquidity J request =
     bindE (floatToWire (rh_startPx request)) (\<lambda>startPx.
     bindE (floatToWire (rh_orderSz request)) (\<lambda>orderSz.
       Inr (action_body J
         [(''type'', jstr J ''spotDeploy''),
          (''registerHyperliquidity'', jobject J
             ([(''spot'', jint J (rh_spot request)),
               (''startPx'', jstr J startPx),
               (''orderSz'', jstr J orderSz),
               (''nOrders'', jint J (rh_nOrders request))]
              @ opt_field ''nSeededLevels'' (jint J) (rh_nSeededLevels request)))])))"

definition schema_json :: "'j json_ops \<Rightarrow> PerpDeploySchema \<Rightarrow> 'j" where
  "schema_json J schema =
     jobject J
       [(''fullName'', jstr J (ps_fullName schema)),
        (''collateralToken'', jword J (ps_collateralToken schema)),
        (''oracleUpdater'', null_or J (jstr J) (ps_oracleUpdater schema))]"

definition perpDeployRegisterAsset2 :: "'j json_ops \<Rightarrow> PerpDeployRegisterAsset2Request \<Rightarrow> 'j outcome" where
  "perpDeployRegisterAsset2 J request =
     (let asset = pd_assetRequest request
      in bindE (floatToWire (pa_oraclePx asset)) (\<lambda>oraclePx.
           Inr (action_body J
             [(''type'', jstr J ''perpDeploy''),
              (''registerAsset2'', jobject J
                 [(''maxGas'', null_or J (jword J) (pd_maxGas request)),
                  (''assetRequest'', jobject J
                     [(''coin'', jstr J (pa_coin asset)),
                      (''szDecimals'', jword J (pa_szDecimals asset)),
                      (''oraclePx'', jstr J oraclePx),
                      (''marginTableId'', jword J (pa_marginTableId asset)),
                      (''marginMode'', jstr J (toString_PerpMarginMode (pa_marginMode asset)))]),
                  (''dex'', jstr J (pd_dex request)),
                  (''schema'', null_or J (schema_json J) (pd_schema request))])])))"

end
