(* ===== verification/Info_Builder.thy ===== *)
theory Info_Builder
  imports Request_Types Json_Lib
begin

text \<open>
  \<open>src/messages/InfoRequestBuilder.{h,cpp}\<close>: the bodies of the information requests. A builder's
  run of assignments \<open>body["k"] = v\<close> is the list of its fields in the same order; an optional
  argument adds its field only when present.
\<close>

text \<open>\<open>std::visit\<close> on an \<open>OrderId\<close>: a number or a string.\<close>

fun order_id_json :: "'j json_ops \<Rightarrow> OrderId \<Rightarrow> 'j" where
  "order_id_json J (Oid n) = jword J n"
| "order_id_json J (Cloid s) = jstr J s"

definition spotMeta :: "'j json_ops \<Rightarrow> 'j" where
  "spotMeta J = jobject J
     [(''type'', jstr J (toString_Endpoint Ep_SpotMeta))]"

definition meta :: "'j json_ops \<Rightarrow> string option \<Rightarrow> 'j" where
  "meta J dex = jobject J
     ([(''type'', jstr J (toString_Endpoint Ep_Meta))]
      @ opt_field ''dex'' (jstr J) dex)"

definition outcomeMeta :: "'j json_ops \<Rightarrow> 'j" where
  "outcomeMeta J = jobject J
     [(''type'', jstr J (toString_Endpoint Ep_OutcomeMeta))]"

definition settledOutcome :: "'j json_ops \<Rightarrow> int \<Rightarrow> 'j" where
  "settledOutcome J outcome = jobject J
     [(''type'', jstr J (toString_Endpoint Ep_SettledOutcome)),
      (''outcome'', jint J outcome)]"

definition perpDexs :: "'j json_ops \<Rightarrow> 'j" where
  "perpDexs J = jobject J
     [(''type'', jstr J (toString_Endpoint Ep_PerpDexs))]"

definition perpsAtOpenInterestCap :: "'j json_ops \<Rightarrow> string option \<Rightarrow> 'j" where
  "perpsAtOpenInterestCap J dex = jobject J
     ([(''type'', jstr J (toString_Endpoint Ep_PerpsAtOpenInterestCap))]
      @ opt_field ''dex'' (jstr J) dex)"

definition predictedFundings :: "'j json_ops \<Rightarrow> 'j" where
  "predictedFundings J = jobject J
     [(''type'', jstr J (toString_Endpoint Ep_PredictedFundings))]"

definition perpAnnotation :: "'j json_ops \<Rightarrow> string \<Rightarrow> 'j" where
  "perpAnnotation J coin = jobject J
     [(''type'', jstr J (toString_Endpoint Ep_PerpAnnotation)),
      (''coin'', jstr J coin)]"

definition perpCategories :: "'j json_ops \<Rightarrow> 'j" where
  "perpCategories J = jobject J
     [(''type'', jstr J (toString_Endpoint Ep_PerpCategories))]"

definition perpConciseAnnotations :: "'j json_ops \<Rightarrow> 'j" where
  "perpConciseAnnotations J = jobject J
     [(''type'', jstr J (toString_Endpoint Ep_PerpConciseAnnotations))]"

definition allPerpMetas :: "'j json_ops \<Rightarrow> 'j" where
  "allPerpMetas J = jobject J
     [(''type'', jstr J (toString_Endpoint Ep_AllPerpMetas))]"

definition perpDexLimits :: "'j json_ops \<Rightarrow> string \<Rightarrow> 'j" where
  "perpDexLimits J dex = jobject J
     [(''type'', jstr J (toString_Endpoint Ep_PerpDexLimits)),
      (''dex'', jstr J dex)]"

definition perpDexStatus :: "'j json_ops \<Rightarrow> string \<Rightarrow> 'j" where
  "perpDexStatus J dex = jobject J
     [(''type'', jstr J (toString_Endpoint Ep_PerpDexStatus)),
      (''dex'', jstr J dex)]"

definition perpDeployAuctionStatus :: "'j json_ops \<Rightarrow> 'j" where
  "perpDeployAuctionStatus J = jobject J
     [(''type'', jstr J (toString_Endpoint Ep_PerpDeployAuctionStatus))]"

definition userFunding :: "'j json_ops \<Rightarrow> string \<Rightarrow> u64 \<Rightarrow> u64 option \<Rightarrow> 'j" where
  "userFunding J user startTime endTime = jobject J
     ([(''type'', jstr J (toString_Endpoint Ep_UserFunding)),
      (''user'', jstr J user),
      (''startTime'', jword J startTime)]
      @ opt_field ''endTime'' (jword J) endTime)"

definition userNonFundingLedgerUpdates :: "'j json_ops \<Rightarrow> string \<Rightarrow> u64 \<Rightarrow> u64 option \<Rightarrow> 'j" where
  "userNonFundingLedgerUpdates J user startTime endTime = jobject J
     ([(''type'', jstr J (toString_Endpoint Ep_UserNonFundingLedgerUpdates)),
      (''user'', jstr J user),
      (''startTime'', jword J startTime)]
      @ opt_field ''endTime'' (jword J) endTime)"

definition fundingHistory :: "'j json_ops \<Rightarrow> string \<Rightarrow> u64 \<Rightarrow> u64 option \<Rightarrow> 'j" where
  "fundingHistory J coin startTime endTime = jobject J
     ([(''type'', jstr J (toString_Endpoint Ep_FundingHistory)),
      (''coin'', jstr J coin),
      (''startTime'', jword J startTime)]
      @ opt_field ''endTime'' (jword J) endTime)"

definition l2Book :: "'j json_ops \<Rightarrow> string \<Rightarrow> int option \<Rightarrow> int option \<Rightarrow> 'j" where
  "l2Book J coin nSigFigs mantissa = jobject J
     ([(''type'', jstr J (toString_Endpoint Ep_L2Book)),
      (''coin'', jstr J coin)]
      @ opt_field ''nSigFigs'' (jint J) nSigFigs
      @ opt_field ''mantissa'' (jint J) mantissa)"

definition candleSnapshot :: "'j json_ops \<Rightarrow> string \<Rightarrow> string \<Rightarrow> u64 \<Rightarrow> u64 \<Rightarrow> 'j" where
  "candleSnapshot J coin interval startTime endTime = jobject J
     [(''type'', jstr J (toString_Endpoint Ep_CandleSnapshot)),
      (''req'', jobject J
        [(''coin'', jstr J coin),
         (''interval'', jstr J interval),
         (''startTime'', jword J startTime),
         (''endTime'', jword J endTime)])]"

definition recentTrades :: "'j json_ops \<Rightarrow> string \<Rightarrow> 'j" where
  "recentTrades J coin = jobject J
     [(''type'', jstr J (toString_Endpoint Ep_RecentTrades)),
      (''coin'', jstr J coin)]"

definition allMids :: "'j json_ops \<Rightarrow> string option \<Rightarrow> 'j" where
  "allMids J dex = jobject J
     ([(''type'', jstr J (toString_Endpoint Ep_AllMids))]
      @ opt_field ''dex'' (jstr J) dex)"

definition openOrders :: "'j json_ops \<Rightarrow> string \<Rightarrow> string option \<Rightarrow> 'j" where
  "openOrders J user dex = jobject J
     ([(''type'', jstr J (toString_Endpoint Ep_OpenOrders)),
      (''user'', jstr J user)]
      @ opt_field ''dex'' (jstr J) dex)"

definition orderStatus :: "'j json_ops \<Rightarrow> string \<Rightarrow> OrderId \<Rightarrow> 'j" where
  "orderStatus J user oid = jobject J
     [(''type'', jstr J (toString_Endpoint Ep_OrderStatus)),
      (''user'', jstr J user),
      (''oid'', order_id_json J oid)]"

definition userFills :: "'j json_ops \<Rightarrow> string \<Rightarrow> bool option \<Rightarrow> string option \<Rightarrow> 'j" where
  "userFills J user aggregateByTime dex = jobject J
     ([(''type'', jstr J (toString_Endpoint Ep_UserFills)),
      (''user'', jstr J user)]
      @ opt_field ''aggregateByTime'' (jbool J) aggregateByTime
      @ opt_field ''dex'' (jstr J) dex)"

definition userFillsByTime :: "'j json_ops \<Rightarrow> string \<Rightarrow> u64 \<Rightarrow> u64 option \<Rightarrow> bool option \<Rightarrow> string option \<Rightarrow> 'j" where
  "userFillsByTime J user startTime endTime aggregateByTime dex = jobject J
     ([(''type'', jstr J (toString_Endpoint Ep_UserFillsByTime)),
      (''user'', jstr J user),
      (''startTime'', jword J startTime)]
      @ opt_field ''endTime'' (jword J) endTime
      @ opt_field ''aggregateByTime'' (jbool J) aggregateByTime
      @ opt_field ''dex'' (jstr J) dex)"

definition clearinghouseState :: "'j json_ops \<Rightarrow> string \<Rightarrow> string option \<Rightarrow> 'j" where
  "clearinghouseState J user dex = jobject J
     ([(''type'', jstr J (toString_Endpoint Ep_ClearinghouseState)),
      (''user'', jstr J user)]
      @ opt_field ''dex'' (jstr J) dex)"

definition userRateLimit :: "'j json_ops \<Rightarrow> string \<Rightarrow> 'j" where
  "userRateLimit J user = jobject J
     [(''type'', jstr J (toString_Endpoint Ep_UserRateLimit)),
      (''user'', jstr J user)]"

definition borrowLendUserState :: "'j json_ops \<Rightarrow> string \<Rightarrow> 'j" where
  "borrowLendUserState J user = jobject J
     [(''type'', jstr J (toString_Endpoint Ep_BorrowLendUserState)),
      (''user'', jstr J user)]"

definition metaAndAssetCtxs :: "'j json_ops \<Rightarrow> string option \<Rightarrow> 'j" where
  "metaAndAssetCtxs J dex = jobject J
     ([(''type'', jstr J (toString_Endpoint Ep_MetaAndAssetCtxs))]
      @ opt_field ''dex'' (jstr J) dex)"

definition spotMetaAndAssetCtxs :: "'j json_ops \<Rightarrow> 'j" where
  "spotMetaAndAssetCtxs J = jobject J
     [(''type'', jstr J (toString_Endpoint Ep_SpotMetaAndAssetCtxs))]"

definition spotClearinghouseState :: "'j json_ops \<Rightarrow> string \<Rightarrow> string option \<Rightarrow> 'j" where
  "spotClearinghouseState J user dex = jobject J
     ([(''type'', jstr J (toString_Endpoint Ep_SpotClearinghouseState)),
      (''user'', jstr J user)]
      @ opt_field ''dex'' (jstr J) dex)"

definition spotDeployState :: "'j json_ops \<Rightarrow> string \<Rightarrow> 'j" where
  "spotDeployState J user = jobject J
     [(''type'', jstr J (toString_Endpoint Ep_SpotDeployState)),
      (''user'', jstr J user)]"

definition spotPairDeployAuctionStatus :: "'j json_ops \<Rightarrow> 'j" where
  "spotPairDeployAuctionStatus J = jobject J
     [(''type'', jstr J (toString_Endpoint Ep_SpotPairDeployAuctionStatus))]"

definition frontendOpenOrders :: "'j json_ops \<Rightarrow> string \<Rightarrow> string option \<Rightarrow> 'j" where
  "frontendOpenOrders J user dex = jobject J
     ([(''type'', jstr J (toString_Endpoint Ep_FrontendOpenOrders)),
      (''user'', jstr J user)]
      @ opt_field ''dex'' (jstr J) dex)"

definition historicalOrders :: "'j json_ops \<Rightarrow> string \<Rightarrow> 'j" where
  "historicalOrders J user = jobject J
     [(''type'', jstr J (toString_Endpoint Ep_HistoricalOrders)),
      (''user'', jstr J user)]"

definition userTwapSliceFills :: "'j json_ops \<Rightarrow> string \<Rightarrow> 'j" where
  "userTwapSliceFills J user = jobject J
     [(''type'', jstr J (toString_Endpoint Ep_UserTwapSliceFills)),
      (''user'', jstr J user)]"

definition userTwapSliceFillsByTime :: "'j json_ops \<Rightarrow> string \<Rightarrow> u64 \<Rightarrow> u64 option \<Rightarrow> bool option \<Rightarrow> 'j" where
  "userTwapSliceFillsByTime J user startTime endTime aggregateByTime = jobject J
     ([(''type'', jstr J (toString_Endpoint Ep_UserTwapSliceFillsByTime)),
      (''user'', jstr J user),
      (''startTime'', jword J startTime)]
      @ opt_field ''endTime'' (jword J) endTime
      @ opt_field ''aggregateByTime'' (jbool J) aggregateByTime)"

definition twapHistory :: "'j json_ops \<Rightarrow> string \<Rightarrow> 'j" where
  "twapHistory J user = jobject J
     [(''type'', jstr J (toString_Endpoint Ep_TwapHistory)),
      (''user'', jstr J user)]"

definition activeAssetData :: "'j json_ops \<Rightarrow> string \<Rightarrow> string \<Rightarrow> 'j" where
  "activeAssetData J user coin = jobject J
     [(''type'', jstr J (toString_Endpoint Ep_ActiveAssetData)),
      (''user'', jstr J user),
      (''coin'', jstr J coin)]"

definition subAccounts :: "'j json_ops \<Rightarrow> string \<Rightarrow> 'j" where
  "subAccounts J user = jobject J
     [(''type'', jstr J (toString_Endpoint Ep_SubAccounts)),
      (''user'', jstr J user)]"

definition userFees :: "'j json_ops \<Rightarrow> string \<Rightarrow> 'j" where
  "userFees J user = jobject J
     [(''type'', jstr J (toString_Endpoint Ep_UserFees)),
      (''user'', jstr J user)]"

definition maxBuilderFee :: "'j json_ops \<Rightarrow> string \<Rightarrow> string \<Rightarrow> 'j" where
  "maxBuilderFee J user builder = jobject J
     [(''type'', jstr J (toString_Endpoint Ep_MaxBuilderFee)),
      (''user'', jstr J user),
      (''builder'', jstr J builder)]"

definition approvedBuilders :: "'j json_ops \<Rightarrow> string \<Rightarrow> 'j" where
  "approvedBuilders J user = jobject J
     [(''type'', jstr J (toString_Endpoint Ep_ApprovedBuilders)),
      (''user'', jstr J user)]"

definition delegations :: "'j json_ops \<Rightarrow> string \<Rightarrow> 'j" where
  "delegations J user = jobject J
     [(''type'', jstr J (toString_Endpoint Ep_Delegations)),
      (''user'', jstr J user)]"

definition delegatorSummary :: "'j json_ops \<Rightarrow> string \<Rightarrow> 'j" where
  "delegatorSummary J user = jobject J
     [(''type'', jstr J (toString_Endpoint Ep_DelegatorSummary)),
      (''user'', jstr J user)]"

definition delegatorHistory :: "'j json_ops \<Rightarrow> string \<Rightarrow> 'j" where
  "delegatorHistory J user = jobject J
     [(''type'', jstr J (toString_Endpoint Ep_DelegatorHistory)),
      (''user'', jstr J user)]"

definition delegatorRewards :: "'j json_ops \<Rightarrow> string \<Rightarrow> 'j" where
  "delegatorRewards J user = jobject J
     [(''type'', jstr J (toString_Endpoint Ep_DelegatorRewards)),
      (''user'', jstr J user)]"

definition vaultDetails :: "'j json_ops \<Rightarrow> string \<Rightarrow> string option \<Rightarrow> 'j" where
  "vaultDetails J vaultAddress user = jobject J
     ([(''type'', jstr J (toString_Endpoint Ep_VaultDetails)),
      (''vaultAddress'', jstr J vaultAddress)]
      @ opt_field ''user'' (jstr J) user)"

definition userVaultEquities :: "'j json_ops \<Rightarrow> string \<Rightarrow> 'j" where
  "userVaultEquities J user = jobject J
     [(''type'', jstr J (toString_Endpoint Ep_UserVaultEquities)),
      (''user'', jstr J user)]"

definition portfolio :: "'j json_ops \<Rightarrow> string \<Rightarrow> 'j" where
  "portfolio J user = jobject J
     [(''type'', jstr J (toString_Endpoint Ep_Portfolio)),
      (''user'', jstr J user)]"

definition referral :: "'j json_ops \<Rightarrow> string \<Rightarrow> 'j" where
  "referral J user = jobject J
     [(''type'', jstr J (toString_Endpoint Ep_Referral)),
      (''user'', jstr J user)]"

definition userRole :: "'j json_ops \<Rightarrow> string \<Rightarrow> 'j" where
  "userRole J user = jobject J
     [(''type'', jstr J (toString_Endpoint Ep_UserRole)),
      (''user'', jstr J user)]"

definition borrowLendReserveState :: "'j json_ops \<Rightarrow> int \<Rightarrow> 'j" where
  "borrowLendReserveState J token = jobject J
     [(''type'', jstr J (toString_Endpoint Ep_BorrowLendReserveState)),
      (''token'', jint J token)]"

definition allBorrowLendReserveStates :: "'j json_ops \<Rightarrow> 'j" where
  "allBorrowLendReserveStates J = jobject J
     [(''type'', jstr J (toString_Endpoint Ep_AllBorrowLendReserveStates))]"

definition userBorrowLendInterest :: "'j json_ops \<Rightarrow> string \<Rightarrow> u64 \<Rightarrow> u64 option \<Rightarrow> 'j" where
  "userBorrowLendInterest J user startTime endTime = jobject J
     ([(''type'', jstr J (toString_Endpoint Ep_UserBorrowLendInterest)),
      (''user'', jstr J user),
      (''startTime'', jword J startTime)]
      @ opt_field ''endTime'' (jword J) endTime)"

definition liquidatable :: "'j json_ops \<Rightarrow> 'j" where
  "liquidatable J = jobject J
     [(''type'', jstr J (toString_Endpoint Ep_Liquidatable))]"

definition userDexAbstractionState :: "'j json_ops \<Rightarrow> string \<Rightarrow> 'j" where
  "userDexAbstractionState J user = jobject J
     [(''type'', jstr J (toString_Endpoint Ep_UserDexAbstractionState)),
      (''user'', jstr J user)]"

definition userAbstraction :: "'j json_ops \<Rightarrow> string \<Rightarrow> 'j" where
  "userAbstraction J user = jobject J
     [(''type'', jstr J (toString_Endpoint Ep_UserAbstraction)),
      (''user'', jstr J user)]"

definition exchangeStatus :: "'j json_ops \<Rightarrow> 'j" where
  "exchangeStatus J = jobject J
     [(''type'', jstr J (toString_Endpoint Ep_ExchangeStatus))]"

end
