(* ===== verification/Json_Reader.thy ===== *)
theory Json_Reader
  imports Doubles Json_Lib
begin

text \<open>
  What the two message parsers share: the control flow of a C++ function body with a \<open>try\<close> block,
  the interface of \<open>simdjson\<close> as far as the source uses it, and the conversions of numeric text.
  The library is not part of the repository: its operations are a record every parser takes as an
  argument; the locale \<open>simdjson\<close> states that its failures are \<open>simdjson_error\<close>, and the last section
  gives an instance on JSON trees.
\<close>

section \<open>Leaving a block\<close>

text \<open>
  A block inside a \<open>try\<close> ends normally with its state (\<open>Inr\<close>) or leaves: by \<open>return\<close>, by a
  \<open>simdjson_error\<close> that the enclosing handler catches, or by another exception that passes it. The
  state goes along, because the handlers of the source return what was built so far.
\<close>

datatype 's exit = Return 's | Caught 's | Escape cpp_error

text \<open>An expression that may throw, evaluated while the state is \<open>s\<close>.\<close>

definition tryE :: "'s \<Rightarrow> 'a outcome \<Rightarrow> ('a \<Rightarrow> 's exit + 'r) \<Rightarrow> 's exit + 'r" where
  "tryE s m k =
     (case m of
        Inr x \<Rightarrow> k x
      | Inl e \<Rightarrow> Inl (if e = Simdjson_Error then Caught s else Escape e))"

text \<open>\<open>try { m } catch (const simdjson_error&) { h } \<close>, with nothing but a \<open>return\<close> of the state after it.\<close>

definition finish_with :: "('s \<Rightarrow> 's) \<Rightarrow> 's exit + 's \<Rightarrow> 's outcome" where
  "finish_with h m =
     (case m of
        Inr s \<Rightarrow> Inr s
      | Inl (Return s) \<Rightarrow> Inr s
      | Inl (Caught s) \<Rightarrow> Inr (h s)
      | Inl (Escape e) \<Rightarrow> Inl e)"

definition finish :: "'s exit + 's \<Rightarrow> 's outcome" where
  "finish m = finish_with (\<lambda>s. s) m"

text \<open>A call that updates a variable by reference: \<open>upd\<close> gives the caller's state for its value.\<close>

definition callE :: "('t \<Rightarrow> 's) \<Rightarrow> 't exit + 't \<Rightarrow> ('t \<Rightarrow> 's exit + 'r) \<Rightarrow> 's exit + 'r" where
  "callE upd m k =
     (case m of
        Inr t \<Rightarrow> k t
      | Inl (Return t) \<Rightarrow> k t
      | Inl (Caught t) \<Rightarrow> Inl (Caught (upd t))
      | Inl (Escape e) \<Rightarrow> Inl (Escape e))"

text \<open>A loop with \<open>break\<close>: the body says whether to go on.\<close>

fun foldB :: "('a \<Rightarrow> 's \<Rightarrow> 'e + bool \<times> 's) \<Rightarrow> 'a list \<Rightarrow> 's \<Rightarrow> 'e + 's" where
  "foldB f [] s = Inr s"
| "foldB f (x # xs) s = bindE (f x s) (\<lambda>(go, t). if go then foldB f xs t else Inr t)"

lemma tryE_Inr [simp]: "tryE s (Inr x) k = k x"
  by (simp add: tryE_def)

lemma tryE_Inl [simp]: "tryE s (Inl e) k = Inl (if e = Simdjson_Error then Caught s else Escape e)"
  by (simp add: tryE_def)

lemma finish_simps [simp]:
  "finish (Inr s) = Inr s" "finish (Inl (Return s)) = Inr s"
  "finish (Inl (Caught s)) = Inr s" "finish (Inl (Escape e)) = Inl e"
  by (simp_all add: finish_def finish_with_def)

lemma finish_with_simps [simp]:
  "finish_with h (Inr s) = Inr s" "finish_with h (Inl (Return s)) = Inr s"
  "finish_with h (Inl (Caught s)) = Inr (h s)" "finish_with h (Inl (Escape e)) = Inl e"
  by (simp_all add: finish_with_def)

lemma callE_simps [simp]:
  "callE u (Inr t) k = k t" "callE u (Inl (Return t)) k = k t"
  "callE u (Inl (Caught t)) k = Inl (Caught (u t))" "callE u (Inl (Escape e)) k = Inl (Escape e)"
  by (simp_all add: callE_def)

text \<open>Evaluation of a block that fails early must not open what comes after.\<close>

lemma tryE_weak_cong: "m = m' \<Longrightarrow> tryE s m k = tryE s m' k"
  by simp

section \<open>The reader\<close>

datatype json_type = SJ_Array | SJ_Object | SJ_Number | SJ_String | SJ_Boolean | SJ_Null

text \<open>
  \<open>sj_validate\<close> is the DOM parse whose result is only checked for success, \<open>sj_iterate\<close> the root of
  the on-demand document. \<open>sj_field\<close> is \<open>obj["k"]\<close>; the readers are the \<open>get_\<dots>\<close> calls, \<open>sj_members\<close>
  the fields an object is iterated over, \<open>sj_raw\<close> is \<open>to_json_string\<close>.
\<close>

record 'v sj_reader =
  sj_validate :: "string \<Rightarrow> unit outcome"
  sj_iterate :: "string \<Rightarrow> 'v outcome"
  sj_field :: "'v \<Rightarrow> string \<Rightarrow> 'v outcome"
  sj_string :: "'v \<Rightarrow> string outcome"
  sj_uint64 :: "'v \<Rightarrow> u64 outcome"
  sj_int64 :: "'v \<Rightarrow> int outcome"
  sj_double :: "'v \<Rightarrow> double outcome"
  sj_bool :: "'v \<Rightarrow> bool outcome"
  sj_array :: "'v \<Rightarrow> 'v list outcome"
  sj_object :: "'v \<Rightarrow> 'v outcome"
  sj_members :: "'v \<Rightarrow> (string \<times> 'v) list"
  sj_type :: "'v \<Rightarrow> json_type outcome"
  sj_raw :: "'v \<Rightarrow> string outcome"

text \<open>A chained lookup on a \<open>simdjson_result\<close> hands an error on.\<close>

definition sj_at :: "'v sj_reader \<Rightarrow> 'v outcome \<Rightarrow> string \<Rightarrow> 'v outcome" where
  "sj_at S r k = bindE r (\<lambda>v. sj_field S v k)"

definition field_string :: "'v sj_reader \<Rightarrow> 'v \<Rightarrow> string \<Rightarrow> string outcome" where
  "field_string S v k = bindE (sj_field S v k) (sj_string S)"

definition field_uint64 :: "'v sj_reader \<Rightarrow> 'v \<Rightarrow> string \<Rightarrow> u64 outcome" where
  "field_uint64 S v k = bindE (sj_field S v k) (sj_uint64 S)"

definition field_int64 :: "'v sj_reader \<Rightarrow> 'v \<Rightarrow> string \<Rightarrow> int outcome" where
  "field_int64 S v k = bindE (sj_field S v k) (sj_int64 S)"

definition field_double :: "'v sj_reader \<Rightarrow> 'v \<Rightarrow> string \<Rightarrow> double outcome" where
  "field_double S v k = bindE (sj_field S v k) (sj_double S)"

definition field_bool :: "'v sj_reader \<Rightarrow> 'v \<Rightarrow> string \<Rightarrow> bool outcome" where
  "field_bool S v k = bindE (sj_field S v k) (sj_bool S)"

definition field_array :: "'v sj_reader \<Rightarrow> 'v \<Rightarrow> string \<Rightarrow> 'v list outcome" where
  "field_array S v k = bindE (sj_field S v k) (sj_array S)"

definition field_object :: "'v sj_reader \<Rightarrow> 'v \<Rightarrow> string \<Rightarrow> 'v outcome" where
  "field_object S v k = bindE (sj_field S v k) (sj_object S)"

definition is_null :: "'v sj_reader \<Rightarrow> 'v \<Rightarrow> bool" where
  "is_null S v \<longleftrightarrow> sj_type S v = Inr SJ_Null"

lemmas field_defs =
  field_string_def field_uint64_def field_int64_def field_double_def field_bool_def field_array_def
  field_object_def sj_at_def

text \<open>\<open>static_cast<int>\<close> of a 64-bit integer.\<close>

definition to_int32 :: "int \<Rightarrow> int" where
  "to_int32 i = sint (word_of_int i :: 32 word)"

section \<open>Numeric text\<close>

text \<open>
  The REST parser converts with \<open>std::stod\<close>, which throws; the WebSocket parser with \<open>std::from_chars\<close>
  into a variable that holds a NaN.
\<close>

definition toDouble :: "string \<Rightarrow> double outcome" where
  "toDouble sv = (if sv = '''' then Inr d_zero else stod sv)"

definition from_chars_double :: "string \<Rightarrow> double" where
  "from_chars_double sv = (case from_chars sv of None \<Rightarrow> Not_A_Number False | Some d \<Rightarrow> d)"

lemma stod_not_simdjson: "stod s \<noteq> Inl Simdjson_Error"
  by (auto simp: stod_def strtod_magnitude_def Let_def of_option_def split: option.splits prod.splits)

lemma toDouble_not_simdjson: "toDouble s \<noteq> Inl Simdjson_Error"
  by (simp add: toDouble_def stod_not_simdjson)

section \<open>What the parsers rely on\<close>

text \<open>Every failing operation reports a \<open>simdjson_error\<close>.\<close>

locale simdjson =
  fixes S :: "'v sj_reader"
  assumes validate_error: "sj_validate S m = Inl e \<Longrightarrow> e = Simdjson_Error"
    and iterate_error: "sj_iterate S m = Inl e \<Longrightarrow> e = Simdjson_Error"
    and lookup_error: "sj_field S v k = Inl e \<Longrightarrow> e = Simdjson_Error"
    and string_error: "sj_string S v = Inl e \<Longrightarrow> e = Simdjson_Error"
    and uint64_error: "sj_uint64 S v = Inl e \<Longrightarrow> e = Simdjson_Error"
    and int64_error: "sj_int64 S v = Inl e \<Longrightarrow> e = Simdjson_Error"
    and double_error: "sj_double S v = Inl e \<Longrightarrow> e = Simdjson_Error"
    and bool_error: "sj_bool S v = Inl e \<Longrightarrow> e = Simdjson_Error"
    and array_error: "sj_array S v = Inl e \<Longrightarrow> e = Simdjson_Error"
    and object_error: "sj_object S v = Inl e \<Longrightarrow> e = Simdjson_Error"
    and type_error: "sj_type S v = Inl e \<Longrightarrow> e = Simdjson_Error"
    and raw_error: "sj_raw S v = Inl e \<Longrightarrow> e = Simdjson_Error"

text \<open>An expression whose only exception is the one the handlers catch.\<close>

definition sj_only :: "'a outcome \<Rightarrow> bool" where
  "sj_only m \<longleftrightarrow> (\<forall>e. m = Inl e \<longrightarrow> e = Simdjson_Error)"

lemma sj_only_Inr [simp]: "sj_only (Inr x)"
  by (simp add: sj_only_def)

lemma sj_only_bindE: "sj_only m \<Longrightarrow> (\<And>x. sj_only (k x)) \<Longrightarrow> sj_only (bindE m k)"
  by (cases m) (auto simp: sj_only_def)

context simdjson
begin

lemma only_prims:
  "sj_only (sj_validate S m)" "sj_only (sj_iterate S m)" "sj_only (sj_field S v k)"
  "sj_only (sj_string S v)" "sj_only (sj_uint64 S v)" "sj_only (sj_int64 S v)" "sj_only (sj_double S v)"
  "sj_only (sj_bool S v)" "sj_only (sj_array S v)" "sj_only (sj_object S v)" "sj_only (sj_type S v)"
  "sj_only (sj_raw S v)"
  by (auto simp: sj_only_def intro: validate_error iterate_error lookup_error string_error
      uint64_error int64_error double_error bool_error array_error object_error type_error raw_error)

lemma only_fields:
  "sj_only (field_string S v k)" "sj_only (field_uint64 S v k)" "sj_only (field_int64 S v k)"
  "sj_only (field_double S v k)" "sj_only (field_bool S v k)" "sj_only (field_array S v k)"
  "sj_only (field_object S v k)"
  by (simp_all add: field_defs sj_only_bindE only_prims)

lemma only_at: "sj_only r \<Longrightarrow> sj_only (sj_at S r k)"
  by (simp add: sj_at_def sj_only_bindE only_prims)

lemmas only_reads = only_prims only_fields only_at

end

section \<open>Blocks that no simdjson error leaves\<close>

text \<open>
  \<open>tame P m\<close>: the block \<open>m\<close> lets only exceptions of the set \<open>P\<close> pass its handler; \<open>throws_in P m\<close> says the
  same of an outcome. With \<open>P\<close> all exceptions but \<open>Simdjson_Error\<close> every block built from the
  combinators is tame; with \<open>P\<close> empty, a block whose expressions are \<open>sj_only\<close> is.
\<close>

definition tame :: "cpp_error set \<Rightarrow> 's exit + 'r \<Rightarrow> bool" where
  "tame P m \<longleftrightarrow> (\<forall>e. m = Inl (Escape e) \<longrightarrow> e \<in> P)"

definition throws_in :: "cpp_error set \<Rightarrow> 'a outcome \<Rightarrow> bool" where
  "throws_in P m \<longleftrightarrow> (\<forall>e. m = Inl e \<longrightarrow> e \<in> P)"

named_theorems tame_intros

lemma tame_Inr [tame_intros]: "tame P (Inr x)"
  by (simp add: tame_def)

lemma tame_Return [tame_intros]: "tame P (Inl (Return x))"
  by (simp add: tame_def)

lemma tame_tryE [tame_intros]:
  "throws_in (insert Simdjson_Error P) m \<Longrightarrow> (\<And>x. tame P (k x)) \<Longrightarrow> tame P (tryE s m k)"
  by (cases m) (auto simp: tame_def throws_in_def)

lemma tame_bindE [tame_intros]: "tame P m \<Longrightarrow> (\<And>x. tame P (k x)) \<Longrightarrow> tame P (bindE m k)"
  by (cases m) (auto simp: tame_def)

lemma tame_foldE [tame_intros]: "(\<And>x s. tame P (f x s)) \<Longrightarrow> tame P (foldE f xs s)"
  by (induction xs arbitrary: s) (auto intro: tame_intros)

lemma tame_foldB [tame_intros]: "(\<And>x s. tame P (f x s)) \<Longrightarrow> tame P (foldB f xs s)"
proof (induction xs arbitrary: s)
  case (Cons x xs)
  show ?case
    by (simp, intro tame_bindE Cons.prems) (auto intro: tame_intros Cons.IH [OF Cons.prems])
qed (simp add: tame_Inr)

lemma tame_callE [tame_intros]: "tame P m \<Longrightarrow> (\<And>x. tame P (k x)) \<Longrightarrow> tame P (callE u m k)"
  by (auto simp: tame_def callE_def split: sum.splits exit.splits)

lemma tame_if [tame_intros]: "tame P a \<Longrightarrow> tame P b \<Longrightarrow> tame P (if c then a else b)"
  by simp

lemma tame_case_sum [tame_intros]:
  "(\<And>x. tame P (f x)) \<Longrightarrow> (\<And>x. tame P (g x)) \<Longrightarrow> tame P (case m of Inl x \<Rightarrow> f x | Inr x \<Rightarrow> g x)"
  by (simp split: sum.splits)

lemma tame_case_prod [tame_intros]:
  "(\<And>x y. tame P (f x y)) \<Longrightarrow> tame P (case p of (x, y) \<Rightarrow> f x y)"
  by (simp split: prod.splits)

lemma tame_Let [tame_intros]: "(\<And>x. tame P (f x)) \<Longrightarrow> tame P (let x = t in f x)"
  by (simp add: Let_def)

lemma throws_in_finish [tame_intros]: "tame P m \<Longrightarrow> throws_in P (finish m)"
  by (auto simp: tame_def throws_in_def finish_def finish_with_def split: sum.splits exit.splits)

lemma throws_in_finish_with [tame_intros]: "tame P m \<Longrightarrow> throws_in P (finish_with h m)"
  by (auto simp: tame_def throws_in_def finish_with_def split: sum.splits exit.splits)

lemma throws_in_mono: "throws_in P m \<Longrightarrow> P \<subseteq> Q \<Longrightarrow> throws_in Q m"
  by (auto simp: throws_in_def)

lemma throws_in_insert: "throws_in P m \<Longrightarrow> throws_in (insert e P) m"
  by (auto simp: throws_in_def)

lemma throws_in_UNIV [simp]: "throws_in UNIV m"
  by (simp add: throws_in_def)

lemma throws_in_sj_only: "sj_only m \<longleftrightarrow> throws_in {Simdjson_Error} m"
  by (auto simp: throws_in_def sj_only_def)

section \<open>An instance: JSON trees\<close>

text \<open>
  The reader of trees for a given text-to-tree function. A signed 64-bit read accepts the integers
  of that type, an unsigned one those of \<open>uint64_t\<close>; numbers of the instance are integers.
\<close>

definition num_double :: "int \<Rightarrow> double" where
  "num_double i = (case round_ratio (nat \<bar>i\<bar>) 1 of (m, e) \<Rightarrow> Finite (i < 0) m e)"

fun tree_type :: "json \<Rightarrow> json_type" where
  "tree_type J_Null = SJ_Null"
| "tree_type (J_Str _) = SJ_String"
| "tree_type (J_Bool _) = SJ_Boolean"
| "tree_type (J_Num _) = SJ_Number"
| "tree_type (J_Arr _) = SJ_Array"
| "tree_type (J_Obj _) = SJ_Object"

definition tree_reader :: "(string \<Rightarrow> json option) \<Rightarrow> json sj_reader" where
  "tree_reader parse =
     \<lparr>sj_validate = (\<lambda>m. case parse m of None \<Rightarrow> Inl Simdjson_Error | Some _ \<Rightarrow> Inr ()),
      sj_iterate = (\<lambda>m. of_option Simdjson_Error (parse m)),
      sj_field = (\<lambda>v k. of_option Simdjson_Error (map_of (json_fields v) k)),
      sj_string = (\<lambda>v. of_option Simdjson_Error (json_string v)),
      sj_uint64 = (\<lambda>v. case v of J_Num i \<Rightarrow> if 0 \<le> i \<and> i < 2 ^ 64 then Inr (word_of_int i) else Inl Simdjson_Error
                       | _ \<Rightarrow> Inl Simdjson_Error),
      sj_int64 = (\<lambda>v. case v of J_Num i \<Rightarrow> if - (2 ^ 63) \<le> i \<and> i < 2 ^ 63 then Inr i else Inl Simdjson_Error
                      | _ \<Rightarrow> Inl Simdjson_Error),
      sj_double = (\<lambda>v. case v of J_Num i \<Rightarrow> Inr (num_double i) | _ \<Rightarrow> Inl Simdjson_Error),
      sj_bool = (\<lambda>v. of_option Simdjson_Error (json_boolean v)),
      sj_array = (\<lambda>v. case v of J_Arr js \<Rightarrow> Inr js | _ \<Rightarrow> Inl Simdjson_Error),
      sj_object = (\<lambda>v. case v of J_Obj _ \<Rightarrow> Inr v | _ \<Rightarrow> Inl Simdjson_Error),
      sj_members = json_fields,
      sj_type = (\<lambda>v. Inr (tree_type v)),
      sj_raw = (\<lambda>v. Inr (jdump json_model v))\<rparr>"

interpretation tree: simdjson "tree_reader parse" for parse
  by unfold_locales (auto simp: tree_reader_def split: option.splits json.splits if_splits)

text \<open>The readings of a tree, so that evaluation never opens the record.\<close>

lemma of_option_simps [simp]: "of_option e None = Inl e" "of_option e (Some x) = Inr x"
  by (simp_all add: of_option_def)

lemma tree_reads:
  "sj_validate (tree_reader parse) m = (case parse m of None \<Rightarrow> Inl Simdjson_Error | Some _ \<Rightarrow> Inr ())"
  "sj_iterate (tree_reader parse) m = of_option Simdjson_Error (parse m)"
  "sj_field (tree_reader parse) v k = of_option Simdjson_Error (map_of (json_fields v) k)"
  "sj_string (tree_reader parse) v = of_option Simdjson_Error (json_string v)"
  "sj_uint64 (tree_reader parse) (J_Num i) = (if 0 \<le> i \<and> i < 2 ^ 64 then Inr (word_of_int i) else Inl Simdjson_Error)"
  "sj_int64 (tree_reader parse) (J_Num i) = (if - (2 ^ 63) \<le> i \<and> i < 2 ^ 63 then Inr i else Inl Simdjson_Error)"
  "sj_double (tree_reader parse) (J_Num i) = Inr (num_double i)"
  "sj_bool (tree_reader parse) v = of_option Simdjson_Error (json_boolean v)"
  "sj_array (tree_reader parse) (J_Arr js) = Inr js"
  "sj_object (tree_reader parse) (J_Obj kvs) = Inr (J_Obj kvs)"
  "sj_object (tree_reader parse) (J_Str s) = Inl Simdjson_Error"
  "sj_members (tree_reader parse) v = json_fields v"
  "sj_type (tree_reader parse) v = Inr (tree_type v)"
  "sj_raw (tree_reader parse) v = Inr (jdump json_model v)"
  by (simp_all add: tree_reader_def)

lemmas tree_eval = tree_reads field_defs is_null_def to_int32_def Let_def

end
