(* ===== verification/Reply_Types.thy ===== *)
theory Reply_Types
  imports Doubles Request_Types
begin

text \<open>
  The structures of \<open>ResponseTypes.h\<close> that the exchange endpoint answers with, and those of staking, lending
  and deployment, with the conventions of \<open>Market_Types\<close>.
\<close>

record OrderStatusResting =
  osre_oid :: u64
  osre_cloid :: "string option"

definition OrderStatusResting_init :: OrderStatusResting where
  "OrderStatusResting_init = \<lparr>osre_oid = undefined, osre_cloid = None\<rparr>"

record OrderStatusFilled =
  osf_totalSz :: string
  osf_avgPx :: string
  osf_oid :: u64
  osf_cloid :: "string option"

definition OrderStatusFilled_init :: OrderStatusFilled where
  "OrderStatusFilled_init = \<lparr>osf_totalSz = '''', osf_avgPx = '''', osf_oid = undefined, osf_cloid = None\<rparr>"

record OrderStatusResult =
  osres_resting :: "OrderStatusResting option"
  osres_filled :: "OrderStatusFilled option"
  osres_error :: "string option"

definition OrderStatusResult_init :: OrderStatusResult where
  "OrderStatusResult_init = \<lparr>osres_resting = None, osres_filled = None, osres_error = None\<rparr>"

record PlaceOrderResponse =
  por_status :: string
  por_type :: string
  por_statuses :: "OrderStatusResult list"

definition PlaceOrderResponse_init :: PlaceOrderResponse where
  "PlaceOrderResponse_init = \<lparr>por_status = '''', por_type = '''', por_statuses = []\<rparr>"

record CancelStatusResult =
  csre_success :: "string option"
  csre_error :: "string option"

definition CancelStatusResult_init :: CancelStatusResult where
  "CancelStatusResult_init = \<lparr>csre_success = None, csre_error = None\<rparr>"

record CancelOrderResponse =
  cor_status :: string
  cor_type :: string
  cor_statuses :: "CancelStatusResult list"

definition CancelOrderResponse_init :: CancelOrderResponse where
  "CancelOrderResponse_init = \<lparr>cor_status = '''', cor_type = '''', cor_statuses = []\<rparr>"

record ModifyOrderResponse =
  mor_status :: string
  mor_type :: string
  mor_statuses :: "OrderStatusResult list"

definition ModifyOrderResponse_init :: ModifyOrderResponse where
  "ModifyOrderResponse_init = \<lparr>mor_status = '''', mor_type = '''', mor_statuses = []\<rparr>"

record SimpleResponse =
  sre_status :: string
  sre_type :: string
  sre_error :: "string option"

definition SimpleResponse_init :: SimpleResponse where
  "SimpleResponse_init = \<lparr>sre_status = '''', sre_type = '''', sre_error = None\<rparr>"

record TwapOrderResponse =
  tor_status :: string
  tor_type :: string
  tor_twapId :: "u64 option"
  tor_error :: "string option"

definition TwapOrderResponse_init :: TwapOrderResponse where
  "TwapOrderResponse_init = \<lparr>tor_status = '''', tor_type = '''', tor_twapId = None, tor_error = None\<rparr>"

record CreateVaultResponse =
  cvr_status :: string
  cvr_type :: string
  cvr_vaultAddress :: "string option"
  cvr_error :: "string option"

definition CreateVaultResponse_init :: CreateVaultResponse where
  "CreateVaultResponse_init = \<lparr>cvr_status = '''', cvr_type = '''', cvr_vaultAddress = None, cvr_error = None\<rparr>"

record TwapCancelResponse =
  tcr_status :: string
  tcr_type :: string
  tcr_success :: "string option"
  tcr_error :: "string option"

definition TwapCancelResponse_init :: TwapCancelResponse where
  "TwapCancelResponse_init = \<lparr>tcr_status = '''', tcr_type = '''', tcr_success = None, tcr_error = None\<rparr>"

record CreateSubAccountResponse =
  csar_status :: string
  csar_type :: string
  csar_subAccountUser :: "string option"
  csar_error :: "string option"

definition CreateSubAccountResponse_init :: CreateSubAccountResponse where
  "CreateSubAccountResponse_init = \<lparr>csar_status = '''', csar_type = '''', csar_subAccountUser = None, csar_error = None\<rparr>"

record Delegation =
  de_validator :: string
  de_amount :: double
  de_lockedUntilTimestamp :: u64

definition Delegation_init :: Delegation where
  "Delegation_init = \<lparr>de_validator = '''', de_amount = undefined, de_lockedUntilTimestamp = undefined\<rparr>"

record DelegationsResponse =
  dr_delegations :: "Delegation list"

definition DelegationsResponse_init :: DelegationsResponse where
  "DelegationsResponse_init = \<lparr>dr_delegations = []\<rparr>"

record DelegatorSummaryResponse =
  dsr_delegated :: double
  dsr_undelegated :: double
  dsr_totalPendingWithdrawal :: double
  dsr_nPendingWithdrawals :: int

definition DelegatorSummaryResponse_init :: DelegatorSummaryResponse where
  "DelegatorSummaryResponse_init = \<lparr>dsr_delegated = undefined, dsr_undelegated = undefined,
     dsr_totalPendingWithdrawal = undefined, dsr_nPendingWithdrawals = undefined\<rparr>"

definition DelegatorSummaryResponse_zero :: DelegatorSummaryResponse where
  "DelegatorSummaryResponse_zero = \<lparr>dsr_delegated = d_zero, dsr_undelegated = d_zero, dsr_totalPendingWithdrawal = d_zero,
     dsr_nPendingWithdrawals = 0\<rparr>"

datatype DelegatorHistoryDeltaType =
    DelegatorHistoryDeltaType_Delegate | DelegatorHistoryDeltaType_CDeposit
    | DelegatorHistoryDeltaType_Withdrawal | DelegatorHistoryDeltaType_Unknown

definition stringToDelegatorHistoryDeltaType :: "string \<Rightarrow> DelegatorHistoryDeltaType" where
  "stringToDelegatorHistoryDeltaType s =
     (if s = ''delegate'' then DelegatorHistoryDeltaType_Delegate
      else if s = ''cDeposit'' then DelegatorHistoryDeltaType_CDeposit
      else if s = ''withdrawal'' then DelegatorHistoryDeltaType_Withdrawal
      else DelegatorHistoryDeltaType_Unknown)"

primrec toString_DelegatorHistoryDeltaType :: "DelegatorHistoryDeltaType \<Rightarrow> string" where
  "toString_DelegatorHistoryDeltaType DelegatorHistoryDeltaType_Delegate = ''delegate''"
| "toString_DelegatorHistoryDeltaType DelegatorHistoryDeltaType_CDeposit = ''cDeposit''"
| "toString_DelegatorHistoryDeltaType DelegatorHistoryDeltaType_Withdrawal = ''withdrawal''"
| "toString_DelegatorHistoryDeltaType DelegatorHistoryDeltaType_Unknown = ''unknown''"

datatype WithdrawalPhase =
    WithdrawalPhase_Initiated | WithdrawalPhase_Finalized | WithdrawalPhase_Unknown

definition stringToWithdrawalPhase :: "string \<Rightarrow> WithdrawalPhase" where
  "stringToWithdrawalPhase s =
     (if s = ''initiated'' then WithdrawalPhase_Initiated
      else if s = ''finalized'' then WithdrawalPhase_Finalized
      else WithdrawalPhase_Unknown)"

primrec toString_WithdrawalPhase :: "WithdrawalPhase \<Rightarrow> string" where
  "toString_WithdrawalPhase WithdrawalPhase_Initiated = ''initiated''"
| "toString_WithdrawalPhase WithdrawalPhase_Finalized = ''finalized''"
| "toString_WithdrawalPhase WithdrawalPhase_Unknown = ''unknown''"

record DelegatorHistoryDelta =
  dhd_type :: DelegatorHistoryDeltaType
  dhd_validator :: string
  dhd_amount :: double
  dhd_isUndelegate :: bool
  dhd_phase :: WithdrawalPhase

definition DelegatorHistoryDelta_init :: DelegatorHistoryDelta where
  "DelegatorHistoryDelta_init = \<lparr>dhd_type = undefined, dhd_validator = '''', dhd_amount = undefined,
     dhd_isUndelegate = undefined, dhd_phase = undefined\<rparr>"

definition DelegatorHistoryDelta_zero :: DelegatorHistoryDelta where
  "DelegatorHistoryDelta_zero = \<lparr>dhd_type = DelegatorHistoryDeltaType_Delegate, dhd_validator = '''', dhd_amount = d_zero,
     dhd_isUndelegate = False, dhd_phase = WithdrawalPhase_Initiated\<rparr>"

record DelegatorHistoryEntry =
  dhe_time :: u64
  dhe_hash :: string
  dhe_delta :: DelegatorHistoryDelta

definition DelegatorHistoryEntry_init :: DelegatorHistoryEntry where
  "DelegatorHistoryEntry_init = \<lparr>dhe_time = undefined, dhe_hash = '''', dhe_delta = DelegatorHistoryDelta_init\<rparr>"

definition DelegatorHistoryEntry_zero :: DelegatorHistoryEntry where
  "DelegatorHistoryEntry_zero = \<lparr>dhe_time = 0, dhe_hash = '''', dhe_delta = DelegatorHistoryDelta_zero\<rparr>"

record DelegatorHistoryResponse =
  dhr_history :: "DelegatorHistoryEntry list"

definition DelegatorHistoryResponse_init :: DelegatorHistoryResponse where
  "DelegatorHistoryResponse_init = \<lparr>dhr_history = []\<rparr>"

datatype DelegatorRewardSource =
    DelegatorRewardSource_Delegation | DelegatorRewardSource_Commission
    | DelegatorRewardSource_Unknown

definition stringToDelegatorRewardSource :: "string \<Rightarrow> DelegatorRewardSource" where
  "stringToDelegatorRewardSource s =
     (if s = ''delegation'' then DelegatorRewardSource_Delegation
      else if s = ''commission'' then DelegatorRewardSource_Commission
      else DelegatorRewardSource_Unknown)"

primrec toString_DelegatorRewardSource :: "DelegatorRewardSource \<Rightarrow> string" where
  "toString_DelegatorRewardSource DelegatorRewardSource_Delegation = ''delegation''"
| "toString_DelegatorRewardSource DelegatorRewardSource_Commission = ''commission''"
| "toString_DelegatorRewardSource DelegatorRewardSource_Unknown = ''unknown''"

record DelegatorReward =
  dre_time :: u64
  dre_source :: DelegatorRewardSource
  dre_totalAmount :: double

definition DelegatorReward_init :: DelegatorReward where
  "DelegatorReward_init = \<lparr>dre_time = undefined, dre_source = undefined, dre_totalAmount = undefined\<rparr>"

definition DelegatorReward_zero :: DelegatorReward where
  "DelegatorReward_zero = \<lparr>dre_time = 0, dre_source = DelegatorRewardSource_Delegation, dre_totalAmount = d_zero\<rparr>"

record DelegatorRewardsResponse =
  drr_rewards :: "DelegatorReward list"

definition DelegatorRewardsResponse_init :: DelegatorRewardsResponse where
  "DelegatorRewardsResponse_init = \<lparr>drr_rewards = []\<rparr>"

record BorrowLendReserveState =
  blrs_borrowYearlyRate :: double
  blrs_supplyYearlyRate :: double
  blrs_balance :: double
  blrs_utilization :: double
  blrs_oraclePx :: double
  blrs_ltv :: double
  blrs_totalSupplied :: double
  blrs_totalBorrowed :: double

definition BorrowLendReserveState_init :: BorrowLendReserveState where
  "BorrowLendReserveState_init = \<lparr>blrs_borrowYearlyRate = undefined, blrs_supplyYearlyRate = undefined,
     blrs_balance = undefined, blrs_utilization = undefined, blrs_oraclePx = undefined,
     blrs_ltv = undefined, blrs_totalSupplied = undefined, blrs_totalBorrowed = undefined\<rparr>"

definition BorrowLendReserveState_zero :: BorrowLendReserveState where
  "BorrowLendReserveState_zero = \<lparr>blrs_borrowYearlyRate = d_zero, blrs_supplyYearlyRate = d_zero, blrs_balance = d_zero,
     blrs_utilization = d_zero, blrs_oraclePx = d_zero, blrs_ltv = d_zero,
     blrs_totalSupplied = d_zero, blrs_totalBorrowed = d_zero\<rparr>"

record BorrowLendReserveEntry =
  blre_token :: int
  blre_state :: BorrowLendReserveState

definition BorrowLendReserveEntry_init :: BorrowLendReserveEntry where
  "BorrowLendReserveEntry_init = \<lparr>blre_token = undefined, blre_state = BorrowLendReserveState_init\<rparr>"

record AllBorrowLendReserveStatesResponse =
  ablrsr_reserves :: "BorrowLendReserveEntry list"

definition AllBorrowLendReserveStatesResponse_init :: AllBorrowLendReserveStatesResponse where
  "AllBorrowLendReserveStatesResponse_init = \<lparr>ablrsr_reserves = []\<rparr>"

record BorrowLendPositionSide =
  blps_basis :: double
  blps_value :: double

definition BorrowLendPositionSide_init :: BorrowLendPositionSide where
  "BorrowLendPositionSide_init = \<lparr>blps_basis = undefined, blps_value = undefined\<rparr>"

definition BorrowLendPositionSide_zero :: BorrowLendPositionSide where
  "BorrowLendPositionSide_zero = \<lparr>blps_basis = d_zero, blps_value = d_zero\<rparr>"

record BorrowLendUserPosition =
  blup_token :: int
  blup_borrow :: BorrowLendPositionSide
  blup_supply :: BorrowLendPositionSide

definition BorrowLendUserPosition_init :: BorrowLendUserPosition where
  "BorrowLendUserPosition_init = \<lparr>blup_token = undefined, blup_borrow = BorrowLendPositionSide_init,
     blup_supply = BorrowLendPositionSide_init\<rparr>"

definition BorrowLendUserPosition_zero :: BorrowLendUserPosition where
  "BorrowLendUserPosition_zero = \<lparr>blup_token = 0, blup_borrow = BorrowLendPositionSide_zero,
     blup_supply = BorrowLendPositionSide_zero\<rparr>"

record BorrowLendUserStateResponse =
  blusr_tokenToState :: "BorrowLendUserPosition list"
  blusr_health :: string
  blusr_healthFactor :: "double option"

definition BorrowLendUserStateResponse_init :: BorrowLendUserStateResponse where
  "BorrowLendUserStateResponse_init = \<lparr>blusr_tokenToState = [], blusr_health = '''', blusr_healthFactor = None\<rparr>"

record UserBorrowLendInterestEntry =
  ublie_time :: u64
  ublie_token :: string
  ublie_borrow :: double
  ublie_supply :: double

definition UserBorrowLendInterestEntry_init :: UserBorrowLendInterestEntry where
  "UserBorrowLendInterestEntry_init = \<lparr>ublie_time = 0, ublie_token = '''', ublie_borrow = d_zero, ublie_supply = d_zero\<rparr>"

definition UserBorrowLendInterestEntry_zero :: UserBorrowLendInterestEntry where
  "UserBorrowLendInterestEntry_zero = \<lparr>ublie_time = 0, ublie_token = '''', ublie_borrow = d_zero, ublie_supply = d_zero\<rparr>"

record UserBorrowLendInterestResponse =
  ublir_interest :: "UserBorrowLendInterestEntry list"

definition UserBorrowLendInterestResponse_init :: UserBorrowLendInterestResponse where
  "UserBorrowLendInterestResponse_init = \<lparr>ublir_interest = []\<rparr>"

record LiquidatableEntry =
  le_user :: string
  le_isolatedAsset :: int
  le_marginAvailable :: "double list"

definition LiquidatableEntry_init :: LiquidatableEntry where
  "LiquidatableEntry_init = \<lparr>le_user = '''', le_isolatedAsset = 0, le_marginAvailable = replicate 2 d_zero\<rparr>"

definition LiquidatableEntry_zero :: LiquidatableEntry where
  "LiquidatableEntry_zero = \<lparr>le_user = '''', le_isolatedAsset = 0, le_marginAvailable = replicate 2 d_zero\<rparr>"

record LiquidatableResponse =
  lr_positions :: "LiquidatableEntry list"

definition LiquidatableResponse_init :: LiquidatableResponse where
  "LiquidatableResponse_init = \<lparr>lr_positions = []\<rparr>"

record PerpDexLimitsCoinCap =
  pdlcc_coin :: string
  pdlcc_oiCap :: double

definition PerpDexLimitsCoinCap_init :: PerpDexLimitsCoinCap where
  "PerpDexLimitsCoinCap_init = \<lparr>pdlcc_coin = '''', pdlcc_oiCap = d_zero\<rparr>"

record PerpDexLimitsResponse =
  pdlr_exists :: bool
  pdlr_totalOiCap :: double
  pdlr_oiSzCapPerPerp :: double
  pdlr_maxTransferNtl :: double
  pdlr_coinToOiCap :: "PerpDexLimitsCoinCap list"

definition PerpDexLimitsResponse_init :: PerpDexLimitsResponse where
  "PerpDexLimitsResponse_init = \<lparr>pdlr_exists = False, pdlr_totalOiCap = d_zero, pdlr_oiSzCapPerPerp = d_zero,
     pdlr_maxTransferNtl = d_zero, pdlr_coinToOiCap = []\<rparr>"

record PerpDexStatusResponse =
  pdsr_exists :: bool
  pdsr_totalNetDeposit :: double

definition PerpDexStatusResponse_init :: PerpDexStatusResponse where
  "PerpDexStatusResponse_init = \<lparr>pdsr_exists = False, pdsr_totalNetDeposit = d_zero\<rparr>"

record PerpDeployAuctionStatusResponse =
  pdasr_startTimeSeconds :: u64
  pdasr_durationSeconds :: u64
  pdasr_startGas :: double
  pdasr_currentGas :: "double option"
  pdasr_endGas :: "double option"

definition PerpDeployAuctionStatusResponse_init :: PerpDeployAuctionStatusResponse where
  "PerpDeployAuctionStatusResponse_init = \<lparr>pdasr_startTimeSeconds = 0, pdasr_durationSeconds = 0, pdasr_startGas = d_zero,
     pdasr_currentGas = None, pdasr_endGas = None\<rparr>"

record SpotPairDeployAuctionStatusResponse =
  spdasr_startTimeSeconds :: u64
  spdasr_durationSeconds :: u64
  spdasr_startGas :: double
  spdasr_currentGas :: "double option"
  spdasr_endGas :: "double option"

definition SpotPairDeployAuctionStatusResponse_init :: SpotPairDeployAuctionStatusResponse where
  "SpotPairDeployAuctionStatusResponse_init = \<lparr>spdasr_startTimeSeconds = 0, spdasr_durationSeconds = 0, spdasr_startGas = d_zero,
     spdasr_currentGas = None, spdasr_endGas = None\<rparr>"

record SpotDeployStateTokenSpec =
  sdsts_name :: string
  sdsts_szDecimals :: int
  sdsts_weiDecimals :: int

definition SpotDeployStateTokenSpec_init :: SpotDeployStateTokenSpec where
  "SpotDeployStateTokenSpec_init = \<lparr>sdsts_name = '''', sdsts_szDecimals = 0, sdsts_weiDecimals = 0\<rparr>"

record SpotDeployStateGenesisBalance =
  sdsgb_address :: string
  sdsgb_balance :: double

definition SpotDeployStateGenesisBalance_init :: SpotDeployStateGenesisBalance where
  "SpotDeployStateGenesisBalance_init = \<lparr>sdsgb_address = '''', sdsgb_balance = d_zero\<rparr>"

record SpotDeployStateExistingTokenBalance =
  sdsetb_token :: int
  sdsetb_balance :: double

definition SpotDeployStateExistingTokenBalance_init :: SpotDeployStateExistingTokenBalance where
  "SpotDeployStateExistingTokenBalance_init = \<lparr>sdsetb_token = 0, sdsetb_balance = d_zero\<rparr>"

record SpotDeployStateEntry =
  sdse_token :: int
  sdse_spec :: SpotDeployStateTokenSpec
  sdse_fullName :: "string option"
  sdse_deployerTradingFeeShare :: double
  sdse_spots :: "int list"
  sdse_maxSupply :: "double option"
  sdse_hyperliquidityGenesisBalance :: double
  sdse_totalGenesisBalanceWei :: double
  sdse_userGenesisBalances :: "SpotDeployStateGenesisBalance list"
  sdse_existingTokenGenesisBalances :: "SpotDeployStateExistingTokenBalance list"
  sdse_blacklistUsers :: "string list"

definition SpotDeployStateEntry_init :: SpotDeployStateEntry where
  "SpotDeployStateEntry_init = \<lparr>sdse_token = 0, sdse_spec = SpotDeployStateTokenSpec_init, sdse_fullName = None,
     sdse_deployerTradingFeeShare = d_zero, sdse_spots = [], sdse_maxSupply = None,
     sdse_hyperliquidityGenesisBalance = d_zero, sdse_totalGenesisBalanceWei = d_zero,
     sdse_userGenesisBalances = [], sdse_existingTokenGenesisBalances = [],
     sdse_blacklistUsers = []\<rparr>"

record SpotDeployStateResponse =
  sdsr_states :: "SpotDeployStateEntry list"
  sdsr_gasAuction :: SpotPairDeployAuctionStatusResponse

definition SpotDeployStateResponse_init :: SpotDeployStateResponse where
  "SpotDeployStateResponse_init = \<lparr>sdsr_states = [], sdsr_gasAuction = SpotPairDeployAuctionStatusResponse_init\<rparr>"

end
