(* ===== verification/Rest_Exchange_Parser.thy ===== *)
theory Rest_Exchange_Parser
  imports Json_Reader Reply_Types
begin

text \<open>
  \<open>RestApiMessageParser\<close>: the answers of the exchange endpoint.
  Each function is its C++ body statement by statement, in continuation style: a local that is
  assigned is bound again, \<open>tryE s m (\<lambda>v. \<dots>)\<close> evaluates \<open>m\<close> while \<open>s\<close> is what the handler would
  return, \<open>Inl (Return s)\<close> is a \<open>return\<close> inside the \<open>try\<close> block.
\<close>

definition parsePlaceOrder :: "'v sj_reader \<Rightarrow> string \<Rightarrow> PlaceOrderResponse outcome" where
  "parsePlaceOrder S message =
     (let response = PlaceOrderResponse_init in
     let doc = sj_iterate S message in
     finish (
      tryE response (sj_validate S message) (\<lambda>_.
      tryE response (bindE (sj_at S doc ''status'') (sj_string S)) (\<lambda>v.
      let response = response\<lparr>por_status := v\<rparr> in
      (if (por_status response) \<noteq> ''ok'' then
        Inl (Return response)
       else
        tryE response (bindE (sj_at S doc ''response'') (sj_object S)) (\<lambda>resp.
        tryE response (field_string S resp ''type'') (\<lambda>v.
        let response = response\<lparr>por_type := v\<rparr> in
        (if (por_type response) = ''default'' then
          Inl (Return response)
         else
          tryE response (bindE (sj_at S (sj_field S resp ''data'') ''statuses'') (sj_array S)) (\<lambda>statuses.
          foldE (\<lambda>entry response.
            tryE response (sj_object S entry) (\<lambda>obj.
            let result = OrderStatusResult_init in
            bindE (case sj_field S obj ''resting'' of
             Inr resting \<Rightarrow>
               tryE response (sj_object S resting) (\<lambda>restingObj.
               let rest = OrderStatusResting_init in
               tryE response (field_uint64 S restingObj ''oid'') (\<lambda>v.
               let rest = rest\<lparr>osre_oid := v\<rparr> in
               bindE (case sj_field S restingObj ''cloid'' of
                Inr restingCloid \<Rightarrow>
                  (if \<not> (is_null S restingCloid) then
                    tryE response (sj_string S restingCloid) (\<lambda>v.
                    let rest = rest\<lparr>osre_cloid := Some v\<rparr> in
                    Inr rest)
                   else Inr rest)
                | Inl _ \<Rightarrow>
                  Inr rest) (\<lambda>rest.
               let result = result\<lparr>osres_resting := Some rest\<rparr> in
               Inr result)))
             | Inl _ \<Rightarrow>
               Inr result) (\<lambda>result.
            bindE (case sj_field S obj ''filled'' of
             Inr filled \<Rightarrow>
               tryE response (sj_object S filled) (\<lambda>filledObj.
               let fill = OrderStatusFilled_init in
               tryE response (field_string S filledObj ''totalSz'') (\<lambda>v.
               let fill = fill\<lparr>osf_totalSz := v\<rparr> in
               tryE response (field_string S filledObj ''avgPx'') (\<lambda>v.
               let fill = fill\<lparr>osf_avgPx := v\<rparr> in
               tryE response (field_uint64 S filledObj ''oid'') (\<lambda>v.
               let fill = fill\<lparr>osf_oid := v\<rparr> in
               bindE (case sj_field S filledObj ''cloid'' of
                Inr filledCloid \<Rightarrow>
                  (if \<not> (is_null S filledCloid) then
                    tryE response (sj_string S filledCloid) (\<lambda>v.
                    let fill = fill\<lparr>osf_cloid := Some v\<rparr> in
                    Inr fill)
                   else Inr fill)
                | Inl _ \<Rightarrow>
                  Inr fill) (\<lambda>fill.
               let result = result\<lparr>osres_filled := Some fill\<rparr> in
               Inr result)))))
             | Inl _ \<Rightarrow>
               Inr result) (\<lambda>result.
            bindE (case sj_field S obj ''error'' of
             Inr error \<Rightarrow>
               tryE response (sj_string S error) (\<lambda>v.
               let result = result\<lparr>osres_error := Some v\<rparr> in
               Inr result)
             | Inl _ \<Rightarrow>
               Inr result) (\<lambda>result.
            let response = response\<lparr>por_statuses := (por_statuses response) @ [result]\<rparr> in
            Inr response))))) statuses response)))))))))"

definition parseCancelOrder :: "'v sj_reader \<Rightarrow> string \<Rightarrow> CancelOrderResponse outcome" where
  "parseCancelOrder S message =
     (let response = CancelOrderResponse_init in
     let doc = sj_iterate S message in
     finish (
      tryE response (sj_validate S message) (\<lambda>_.
      tryE response (bindE (sj_at S doc ''status'') (sj_string S)) (\<lambda>v.
      let response = response\<lparr>cor_status := v\<rparr> in
      (if (cor_status response) \<noteq> ''ok'' then
        Inl (Return response)
       else
        tryE response (bindE (sj_at S doc ''response'') (sj_object S)) (\<lambda>resp.
        tryE response (field_string S resp ''type'') (\<lambda>v.
        let response = response\<lparr>cor_type := v\<rparr> in
        (if (cor_type response) = ''default'' then
          Inl (Return response)
         else
          tryE response (bindE (sj_at S (sj_field S resp ''data'') ''statuses'') (sj_array S)) (\<lambda>statuses.
          foldE (\<lambda>entry response.
            let result = CancelStatusResult_init in
            tryE response (sj_type S entry) (\<lambda>entryType.
            bindE (if entryType = SJ_String then
              tryE response (sj_string S entry) (\<lambda>v.
              let result = result\<lparr>csre_success := Some v\<rparr> in
              Inr result)
             else (if entryType = SJ_Object then
               tryE response (sj_object S entry) (\<lambda>obj.
               (case sj_field S obj ''error'' of
                Inr error \<Rightarrow>
                  tryE response (sj_string S error) (\<lambda>v.
                  let result = result\<lparr>csre_error := Some v\<rparr> in
                  Inr result)
                | Inl _ \<Rightarrow>
                  Inr result))
              else Inr result)) (\<lambda>result.
            let response = response\<lparr>cor_statuses := (cor_statuses response) @ [result]\<rparr> in
            Inr response))) statuses response)))))))))"

definition parseModifyOrder :: "'v sj_reader \<Rightarrow> string \<Rightarrow> ModifyOrderResponse outcome" where
  "parseModifyOrder S message =
     (let response = ModifyOrderResponse_init in
     let doc = sj_iterate S message in
     finish (
      tryE response (sj_validate S message) (\<lambda>_.
      tryE response (bindE (sj_at S doc ''status'') (sj_string S)) (\<lambda>v.
      let response = response\<lparr>mor_status := v\<rparr> in
      (if (mor_status response) \<noteq> ''ok'' then
        Inl (Return response)
       else
        tryE response (bindE (sj_at S doc ''response'') (sj_object S)) (\<lambda>resp.
        tryE response (field_string S resp ''type'') (\<lambda>v.
        let response = response\<lparr>mor_type := v\<rparr> in
        (if (mor_type response) = ''default'' then
          Inl (Return response)
         else
          tryE response (bindE (sj_at S (sj_field S resp ''data'') ''statuses'') (sj_array S)) (\<lambda>statuses.
          foldE (\<lambda>entry response.
            tryE response (sj_object S entry) (\<lambda>obj.
            let result = OrderStatusResult_init in
            bindE (case sj_field S obj ''resting'' of
             Inr resting \<Rightarrow>
               tryE response (sj_object S resting) (\<lambda>restingObj.
               let rest = OrderStatusResting_init in
               tryE response (field_uint64 S restingObj ''oid'') (\<lambda>v.
               let rest = rest\<lparr>osre_oid := v\<rparr> in
               bindE (case sj_field S restingObj ''cloid'' of
                Inr restingCloid \<Rightarrow>
                  (if \<not> (is_null S restingCloid) then
                    tryE response (sj_string S restingCloid) (\<lambda>v.
                    let rest = rest\<lparr>osre_cloid := Some v\<rparr> in
                    Inr rest)
                   else Inr rest)
                | Inl _ \<Rightarrow>
                  Inr rest) (\<lambda>rest.
               let result = result\<lparr>osres_resting := Some rest\<rparr> in
               Inr result)))
             | Inl _ \<Rightarrow>
               Inr result) (\<lambda>result.
            bindE (case sj_field S obj ''filled'' of
             Inr filled \<Rightarrow>
               tryE response (sj_object S filled) (\<lambda>filledObj.
               let fill = OrderStatusFilled_init in
               tryE response (field_string S filledObj ''totalSz'') (\<lambda>v.
               let fill = fill\<lparr>osf_totalSz := v\<rparr> in
               tryE response (field_string S filledObj ''avgPx'') (\<lambda>v.
               let fill = fill\<lparr>osf_avgPx := v\<rparr> in
               tryE response (field_uint64 S filledObj ''oid'') (\<lambda>v.
               let fill = fill\<lparr>osf_oid := v\<rparr> in
               bindE (case sj_field S filledObj ''cloid'' of
                Inr filledCloid \<Rightarrow>
                  (if \<not> (is_null S filledCloid) then
                    tryE response (sj_string S filledCloid) (\<lambda>v.
                    let fill = fill\<lparr>osf_cloid := Some v\<rparr> in
                    Inr fill)
                   else Inr fill)
                | Inl _ \<Rightarrow>
                  Inr fill) (\<lambda>fill.
               let result = result\<lparr>osres_filled := Some fill\<rparr> in
               Inr result)))))
             | Inl _ \<Rightarrow>
               Inr result) (\<lambda>result.
            bindE (case sj_field S obj ''error'' of
             Inr error \<Rightarrow>
               tryE response (sj_string S error) (\<lambda>v.
               let result = result\<lparr>osres_error := Some v\<rparr> in
               Inr result)
             | Inl _ \<Rightarrow>
               Inr result) (\<lambda>result.
            let response = response\<lparr>mor_statuses := (mor_statuses response) @ [result]\<rparr> in
            Inr response))))) statuses response)))))))))"

definition parseSimpleResponse :: "'v sj_reader \<Rightarrow> string \<Rightarrow> SimpleResponse outcome" where
  "parseSimpleResponse S message =
     (let response = SimpleResponse_init in
     let doc = sj_iterate S message in
     finish_with (\<lambda>response.
       (if (sre_status response) = [] then
         let response = response\<lparr>sre_status := ''err''\<rparr> in
         let response = response\<lparr>sre_error := Some message\<rparr> in
         response
        else response))
      (tryE response (sj_validate S message) (\<lambda>_.
      tryE response (bindE (sj_at S doc ''status'') (sj_string S)) (\<lambda>v.
      let response = response\<lparr>sre_status := v\<rparr> in
      (if (sre_status response) \<noteq> ''ok'' then
        bindE (case sj_at S doc ''response'' of
         Inr resp \<Rightarrow>
           tryE response (sj_type S resp) (\<lambda>v.
           (if v = SJ_String then
             tryE response (sj_string S resp) (\<lambda>v.
             let response = response\<lparr>sre_error := Some v\<rparr> in
             Inr response)
            else Inr response))
         | Inl _ \<Rightarrow>
           Inr response) (\<lambda>response.
        Inl (Return response))
       else
        tryE response (bindE (sj_at S doc ''response'') (sj_object S)) (\<lambda>resp.
        tryE response (field_string S resp ''type'') (\<lambda>v.
        let response = response\<lparr>sre_type := v\<rparr> in
        Inr response)))))))"

definition parseTwapOrder :: "'v sj_reader \<Rightarrow> string \<Rightarrow> TwapOrderResponse outcome" where
  "parseTwapOrder S message =
     (let response = TwapOrderResponse_init in
     let doc = sj_iterate S message in
     finish (
      tryE response (sj_validate S message) (\<lambda>_.
      tryE response (bindE (sj_at S doc ''status'') (sj_string S)) (\<lambda>v.
      let response = response\<lparr>tor_status := v\<rparr> in
      (if (tor_status response) \<noteq> ''ok'' then
        bindE (case sj_at S doc ''response'' of
         Inr resp \<Rightarrow>
           tryE response (sj_type S resp) (\<lambda>v.
           (if v = SJ_String then
             tryE response (sj_string S resp) (\<lambda>v.
             let response = response\<lparr>tor_error := Some v\<rparr> in
             Inr response)
            else Inr response))
         | Inl _ \<Rightarrow>
           Inr response) (\<lambda>response.
        Inl (Return response))
       else
        tryE response (bindE (sj_at S doc ''response'') (sj_object S)) (\<lambda>resp.
        tryE response (field_string S resp ''type'') (\<lambda>v.
        let response = response\<lparr>tor_type := v\<rparr> in
        (case sj_at S (sj_field S resp ''data'') ''status'' of
         Inr statusVal \<Rightarrow>
           tryE response (sj_object S statusVal) (\<lambda>statusObj.
           bindE (case sj_field S statusObj ''running'' of
            Inr running \<Rightarrow>
              tryE response (sj_object S running) (\<lambda>runningObj.
              tryE response (field_uint64 S runningObj ''twapId'') (\<lambda>v.
              let response = response\<lparr>tor_twapId := Some v\<rparr> in
              Inr response))
            | Inl _ \<Rightarrow>
              Inr response) (\<lambda>response.
           (case sj_field S statusObj ''error'' of
            Inr error \<Rightarrow>
              tryE response (sj_string S error) (\<lambda>v.
              let response = response\<lparr>tor_error := Some v\<rparr> in
              Inr response)
            | Inl _ \<Rightarrow>
              Inr response)))
         | Inl _ \<Rightarrow>
           Inr response))))))))"

definition parseTwapCancel :: "'v sj_reader \<Rightarrow> string \<Rightarrow> TwapCancelResponse outcome" where
  "parseTwapCancel S message =
     (let response = TwapCancelResponse_init in
     let doc = sj_iterate S message in
     finish (
      tryE response (sj_validate S message) (\<lambda>_.
      tryE response (bindE (sj_at S doc ''status'') (sj_string S)) (\<lambda>v.
      let response = response\<lparr>tcr_status := v\<rparr> in
      (if (tcr_status response) \<noteq> ''ok'' then
        bindE (case sj_at S doc ''response'' of
         Inr resp \<Rightarrow>
           tryE response (sj_type S resp) (\<lambda>v.
           (if v = SJ_String then
             tryE response (sj_string S resp) (\<lambda>v.
             let response = response\<lparr>tcr_error := Some v\<rparr> in
             Inr response)
            else Inr response))
         | Inl _ \<Rightarrow>
           Inr response) (\<lambda>response.
        Inl (Return response))
       else
        tryE response (bindE (sj_at S doc ''response'') (sj_object S)) (\<lambda>resp.
        tryE response (field_string S resp ''type'') (\<lambda>v.
        let response = response\<lparr>tcr_type := v\<rparr> in
        (case sj_at S (sj_field S resp ''data'') ''status'' of
         Inr statusVal \<Rightarrow>
           tryE response (sj_type S statusVal) (\<lambda>statusType.
           (if statusType = SJ_String then
             tryE response (sj_string S statusVal) (\<lambda>v.
             let response = response\<lparr>tcr_success := Some v\<rparr> in
             Inr response)
            else (if statusType = SJ_Object then
              tryE response (sj_object S statusVal) (\<lambda>statusObj.
              (case sj_field S statusObj ''error'' of
               Inr error \<Rightarrow>
                 tryE response (sj_string S error) (\<lambda>v.
                 let response = response\<lparr>tcr_error := Some v\<rparr> in
                 Inr response)
               | Inl _ \<Rightarrow>
                 Inr response))
             else Inr response)))
         | Inl _ \<Rightarrow>
           Inr response))))))))"

definition parseCreateSubAccount :: "'v sj_reader \<Rightarrow> string \<Rightarrow> CreateSubAccountResponse outcome" where
  "parseCreateSubAccount S message =
     (let response = CreateSubAccountResponse_init in
     let doc = sj_iterate S message in
     finish (
      tryE response (sj_validate S message) (\<lambda>_.
      tryE response (bindE (sj_at S doc ''status'') (sj_string S)) (\<lambda>v.
      let response = response\<lparr>csar_status := v\<rparr> in
      (if (csar_status response) \<noteq> ''ok'' then
        bindE (case sj_at S doc ''response'' of
         Inr resp \<Rightarrow>
           tryE response (sj_type S resp) (\<lambda>v.
           (if v = SJ_String then
             tryE response (sj_string S resp) (\<lambda>v.
             let response = response\<lparr>csar_error := Some v\<rparr> in
             Inr response)
            else Inr response))
         | Inl _ \<Rightarrow>
           Inr response) (\<lambda>response.
        Inl (Return response))
       else
        tryE response (bindE (sj_at S doc ''response'') (sj_object S)) (\<lambda>resp.
        tryE response (field_string S resp ''type'') (\<lambda>v.
        let response = response\<lparr>csar_type := v\<rparr> in
        (case field_string S resp ''data'' of
         Inr data \<Rightarrow>
           let response = response\<lparr>csar_subAccountUser := Some data\<rparr> in
           Inr response
         | Inl _ \<Rightarrow>
           Inr response))))))))"

definition parseCreateVault :: "'v sj_reader \<Rightarrow> string \<Rightarrow> CreateVaultResponse outcome" where
  "parseCreateVault S message =
     (let response = CreateVaultResponse_init in
     let doc = sj_iterate S message in
     finish (
      tryE response (sj_validate S message) (\<lambda>_.
      tryE response (bindE (sj_at S doc ''status'') (sj_string S)) (\<lambda>v.
      let response = response\<lparr>cvr_status := v\<rparr> in
      (if (cvr_status response) \<noteq> ''ok'' then
        bindE (case sj_at S doc ''response'' of
         Inr resp \<Rightarrow>
           tryE response (sj_type S resp) (\<lambda>v.
           (if v = SJ_String then
             tryE response (sj_string S resp) (\<lambda>v.
             let response = response\<lparr>cvr_error := Some v\<rparr> in
             Inr response)
            else Inr response))
         | Inl _ \<Rightarrow>
           Inr response) (\<lambda>response.
        Inl (Return response))
       else
        tryE response (bindE (sj_at S doc ''response'') (sj_object S)) (\<lambda>resp.
        tryE response (field_string S resp ''type'') (\<lambda>v.
        let response = response\<lparr>cvr_type := v\<rparr> in
        (case sj_field S resp ''data'' of
         Inr data \<Rightarrow>
           tryE response (sj_string S data) (\<lambda>v.
           let response = response\<lparr>cvr_vaultAddress := Some v\<rparr> in
           Inr response)
         | Inl _ \<Rightarrow>
           Inr response))))))))"

end
