(* ===== verification/Rest_Fields.thy ===== *)
theory Rest_Fields
  imports Json_Reader
begin

text \<open>
  The numeric field reader of \<open>RestApiMessageParser\<close>, which takes a string or a number.
\<close>

definition parseNumberField :: "'v sj_reader \<Rightarrow> 'v \<Rightarrow> string \<Rightarrow> double outcome" where
  "parseNumberField S obj key =
     (let val = sj_field S obj key in
     (case bindE val (sj_string S) of
      Inr sv \<Rightarrow>
        (toDouble sv)
      | Inl _ \<Rightarrow>
        (bindE val (sj_double S))))"

end
