(* ===== verification/Market_Types.thy ===== *)
theory Market_Types
  imports Doubles Request_Types
begin

text \<open>
  The market-data structures of \<open>ResponseTypes.h\<close> (books, trades, candles, asset contexts, spot balances).
  A field carries a short prefix of its structure. \<open>X_init\<close> is the object a declaration \<open>X x;\<close>
  leaves: strings and vectors are empty, optionals absent, a member with an initialiser has its value,
  and a scalar without one is \<open>undefined\<close>, of which nothing can be proved; \<open>X_zero\<close> is that of
  \<open>X x{}\<close>. Enumerations carry the name of their type; \<open>std::string_view\<close> is the string it shows, and a
  time point its seconds since the epoch.
\<close>

definition L2_BOOK_MAX_LEVELS :: nat where
  "L2_BOOK_MAX_LEVELS = 50"

datatype SubscriptionMethod =
    SubscriptionMethod_Subscribe | SubscriptionMethod_Unsubscribe

record Subscription =
  su_type :: SubscriptionType

definition Subscription_init :: Subscription where
  "Subscription_init = \<lparr>su_type = undefined\<rparr>"

record SubscriptionResponse =
  sr_method :: SubscriptionMethod
  sr_subscription :: Subscription

definition SubscriptionResponse_init :: SubscriptionResponse where
  "SubscriptionResponse_init = \<lparr>sr_method = undefined, sr_subscription = Subscription_init\<rparr>"

datatype Side =
    Side_Bid | Side_Ask

record PriceLevel =
  pl_side :: Side
  pl_px :: string
  pl_sz :: string
  pl_n :: int

definition PriceLevel_init :: PriceLevel where
  "PriceLevel_init = \<lparr>pl_side = undefined, pl_px = '''', pl_sz = '''', pl_n = undefined\<rparr>"

record L2BookUpdate =
  lbu_coin :: string
  lbu_time :: u64

definition L2BookUpdate_init :: L2BookUpdate where
  "L2BookUpdate_init = \<lparr>lbu_coin = '''', lbu_time = undefined\<rparr>"

record L2BookSnapshot =
  lbs_coin :: string
  lbs_time :: u64
  lbs_bids :: "PriceLevel list"
  lbs_asks :: "PriceLevel list"
  lbs_numBids :: u8
  lbs_numAsks :: u8

definition L2BookSnapshot_init :: L2BookSnapshot where
  "L2BookSnapshot_init = \<lparr>lbs_coin = '''', lbs_time = undefined,
     lbs_bids = replicate L2_BOOK_MAX_LEVELS PriceLevel_init,
     lbs_asks = replicate L2_BOOK_MAX_LEVELS PriceLevel_init, lbs_numBids = undefined,
     lbs_numAsks = undefined\<rparr>"

record BboUpdate =
  bup_coin :: string
  bup_time :: u64
  bup_hasBid :: bool
  bup_bid :: PriceLevel
  bup_hasAsk :: bool
  bup_ask :: PriceLevel

definition BboUpdate_init :: BboUpdate where
  "BboUpdate_init = \<lparr>bup_coin = '''', bup_time = undefined, bup_hasBid = undefined, bup_bid = PriceLevel_init,
     bup_hasAsk = undefined, bup_ask = PriceLevel_init\<rparr>"

record Trade =
  tra_coin :: string
  tra_side :: char
  tra_px :: string
  tra_sz :: string
  tra_time :: u64
  tra_tid :: u64
  tra_hash :: string
  tra_buyer :: string
  tra_seller :: string

definition Trade_init :: Trade where
  "Trade_init = \<lparr>tra_coin = '''', tra_side = undefined, tra_px = '''', tra_sz = '''', tra_time = undefined,
     tra_tid = undefined, tra_hash = '''', tra_buyer = '''', tra_seller = ''''\<rparr>"

record Candle =
  can_coin :: string
  can_interval :: string
  can_openTime :: u64
  can_closeTime :: u64
  can_open :: double
  can_close :: double
  can_high :: double
  can_low :: double
  can_volume :: double
  can_numTrades :: int

definition Candle_init :: Candle where
  "Candle_init = \<lparr>can_coin = '''', can_interval = '''', can_openTime = undefined, can_closeTime = undefined,
     can_open = undefined, can_close = undefined, can_high = undefined, can_low = undefined,
     can_volume = undefined, can_numTrades = undefined\<rparr>"

record AllMidsEntry =
  ame_coin :: string
  ame_mid :: double

definition AllMidsEntry_init :: AllMidsEntry where
  "AllMidsEntry_init = \<lparr>ame_coin = '''', ame_mid = undefined\<rparr>"

record PerpAssetCtx =
  pac_coin :: string
  pac_dayNtlVlm :: double
  pac_prevDayPx :: double
  pac_markPx :: double
  pac_midPx :: double
  pac_hasMidPx :: bool
  pac_funding :: double
  pac_openInterest :: double
  pac_oraclePx :: double

definition PerpAssetCtx_init :: PerpAssetCtx where
  "PerpAssetCtx_init = \<lparr>pac_coin = '''', pac_dayNtlVlm = undefined, pac_prevDayPx = undefined,
     pac_markPx = undefined, pac_midPx = undefined, pac_hasMidPx = undefined,
     pac_funding = undefined, pac_openInterest = undefined, pac_oraclePx = undefined\<rparr>"

definition PerpAssetCtx_zero :: PerpAssetCtx where
  "PerpAssetCtx_zero = \<lparr>pac_coin = '''', pac_dayNtlVlm = d_zero, pac_prevDayPx = d_zero, pac_markPx = d_zero,
     pac_midPx = d_zero, pac_hasMidPx = False, pac_funding = d_zero, pac_openInterest = d_zero,
     pac_oraclePx = d_zero\<rparr>"

record SpotAssetCtx =
  sac_coin :: string
  sac_dayNtlVlm :: double
  sac_prevDayPx :: double
  sac_markPx :: double
  sac_midPx :: double
  sac_hasMidPx :: bool
  sac_circulatingSupply :: double

definition SpotAssetCtx_init :: SpotAssetCtx where
  "SpotAssetCtx_init = \<lparr>sac_coin = '''', sac_dayNtlVlm = undefined, sac_prevDayPx = undefined,
     sac_markPx = undefined, sac_midPx = undefined, sac_hasMidPx = undefined,
     sac_circulatingSupply = undefined\<rparr>"

record SpotBalance =
  sb_coin :: string
  sb_token :: int
  sb_hold :: double
  sb_total :: double
  sb_entryNtl :: double

definition SpotBalance_init :: SpotBalance where
  "SpotBalance_init = \<lparr>sb_coin = '''', sb_token = undefined, sb_hold = undefined, sb_total = undefined,
     sb_entryNtl = undefined\<rparr>"

record AssetMeta =
  am_name :: string
  am_szDecimals :: int
  am_maxLeverage :: int

definition AssetMeta_init :: AssetMeta where
  "AssetMeta_init = \<lparr>am_name = '''', am_szDecimals = undefined, am_maxLeverage = undefined\<rparr>"

record SpotClearinghouseStateResponse =
  scsr_balances :: "SpotBalance list"

definition SpotClearinghouseStateResponse_init :: SpotClearinghouseStateResponse where
  "SpotClearinghouseStateResponse_init = \<lparr>scsr_balances = []\<rparr>"

end
