(* ===== verification/Order_Types.thy ===== *)
theory Order_Types
  imports Doubles Request_Types
begin

text \<open>
  The structures of \<open>ResponseTypes.h\<close> on orders, fills, positions and TWAPs that both transports deliver, with
  the conventions of \<open>Market_Types\<close>.
\<close>

datatype OrderStatus =
    OrderStatus_Open | OrderStatus_Filled | OrderStatus_Canceled | OrderStatus_Triggered
    | OrderStatus_Rejected | OrderStatus_MarginCanceled | OrderStatus_OracleRejected
    | OrderStatus_IocCancelRejected | OrderStatus_Unknown

definition stringToOrderStatus :: "string \<Rightarrow> OrderStatus" where
  "stringToOrderStatus s =
     (if s = ''open'' then OrderStatus_Open
      else if s = ''filled'' then OrderStatus_Filled
      else if s = ''canceled'' then OrderStatus_Canceled
      else if s = ''triggered'' then OrderStatus_Triggered
      else if s = ''rejected'' then OrderStatus_Rejected
      else if s = ''marginCanceled'' then OrderStatus_MarginCanceled
      else if s = ''oracleRejected'' then OrderStatus_OracleRejected
      else if s = ''iocCancelRejected'' then OrderStatus_IocCancelRejected
      else OrderStatus_Unknown)"

primrec toString_OrderStatus :: "OrderStatus \<Rightarrow> string" where
  "toString_OrderStatus OrderStatus_Open = ''open''"
| "toString_OrderStatus OrderStatus_Filled = ''filled''"
| "toString_OrderStatus OrderStatus_Canceled = ''canceled''"
| "toString_OrderStatus OrderStatus_Triggered = ''triggered''"
| "toString_OrderStatus OrderStatus_Rejected = ''rejected''"
| "toString_OrderStatus OrderStatus_MarginCanceled = ''marginCanceled''"
| "toString_OrderStatus OrderStatus_OracleRejected = ''oracleRejected''"
| "toString_OrderStatus OrderStatus_IocCancelRejected = ''iocCancelRejected''"
| "toString_OrderStatus OrderStatus_Unknown = ''unknown''"

datatype LiquidationMethod =
    LiquidationMethod_Market | LiquidationMethod_Backstop | LiquidationMethod_Unknown

definition stringToLiquidationMethod :: "string \<Rightarrow> LiquidationMethod" where
  "stringToLiquidationMethod s =
     (if s = ''market'' then LiquidationMethod_Market
      else if s = ''backstop'' then LiquidationMethod_Backstop
      else LiquidationMethod_Unknown)"

primrec toString_LiquidationMethod :: "LiquidationMethod \<Rightarrow> string" where
  "toString_LiquidationMethod LiquidationMethod_Market = ''market''"
| "toString_LiquidationMethod LiquidationMethod_Backstop = ''backstop''"
| "toString_LiquidationMethod LiquidationMethod_Unknown = ''unknown''"

datatype LeverageType =
    LeverageType_Cross | LeverageType_Isolated | LeverageType_Unknown

definition stringToLeverageType :: "string \<Rightarrow> LeverageType" where
  "stringToLeverageType s =
     (if s = ''cross'' \<or> s = ''Cross'' then LeverageType_Cross
      else if s = ''isolated'' \<or> s = ''Isolated'' then LeverageType_Isolated
      else LeverageType_Unknown)"

primrec toString_LeverageType :: "LeverageType \<Rightarrow> string" where
  "toString_LeverageType LeverageType_Cross = ''Cross''"
| "toString_LeverageType LeverageType_Isolated = ''Isolated''"
| "toString_LeverageType LeverageType_Unknown = ''Unknown''"

record Fill =
  fi_coin :: string
  fi_px :: double
  fi_sz :: double
  fi_side :: char
  fi_time :: u64
  fi_startPosition :: double
  fi_dir :: string
  fi_closedPnl :: double
  fi_hash :: string
  fi_oid :: u64
  fi_crossed :: bool
  fi_fee :: double
  fi_tid :: u64
  fi_feeToken :: string
  fi_builderFee :: double
  fi_hasBuilderFee :: bool
  fi_isLiquidation :: bool
  fi_liquidatedUser :: string
  fi_liquidationMarkPx :: double
  fi_liquidationMethod :: LiquidationMethod
  fi_isSnapshot :: bool

definition Fill_init :: Fill where
  "Fill_init = \<lparr>fi_coin = '''', fi_px = undefined, fi_sz = undefined, fi_side = undefined,
     fi_time = undefined, fi_startPosition = undefined, fi_dir = '''', fi_closedPnl = undefined,
     fi_hash = '''', fi_oid = undefined, fi_crossed = undefined, fi_fee = undefined,
     fi_tid = undefined, fi_feeToken = '''', fi_builderFee = undefined,
     fi_hasBuilderFee = undefined, fi_isLiquidation = undefined, fi_liquidatedUser = '''',
     fi_liquidationMarkPx = undefined, fi_liquidationMethod = undefined, fi_isSnapshot = undefined\<rparr>"

record OrderUpdate =
  ou_coin :: string
  ou_side :: char
  ou_limitPx :: double
  ou_sz :: double
  ou_oid :: u64
  ou_timestamp :: u64
  ou_origSz :: double
  ou_cloid :: string
  ou_status :: OrderStatus
  ou_statusTimestamp :: u64

definition OrderUpdate_init :: OrderUpdate where
  "OrderUpdate_init = \<lparr>ou_coin = '''', ou_side = undefined, ou_limitPx = undefined, ou_sz = undefined,
     ou_oid = undefined, ou_timestamp = undefined, ou_origSz = undefined, ou_cloid = '''',
     ou_status = undefined, ou_statusTimestamp = undefined\<rparr>"

record UserFunding =
  uf_time :: u64
  uf_coin :: string
  uf_usdc :: double
  uf_szi :: double
  uf_fundingRate :: double
  uf_isSnapshot :: bool

definition UserFunding_init :: UserFunding where
  "UserFunding_init = \<lparr>uf_time = undefined, uf_coin = '''', uf_usdc = undefined, uf_szi = undefined,
     uf_fundingRate = undefined, uf_isSnapshot = False\<rparr>"

record Liquidation =
  li_lid :: u64
  li_liquidator :: string
  li_liquidatedUser :: string
  li_liquidatedNtlPos :: double
  li_liquidatedAccountValue :: double

definition Liquidation_init :: Liquidation where
  "Liquidation_init = \<lparr>li_lid = undefined, li_liquidator = '''', li_liquidatedUser = '''',
     li_liquidatedNtlPos = undefined, li_liquidatedAccountValue = undefined\<rparr>"

record NonUserCancel =
  nuc_coin :: string
  nuc_oid :: u64

definition NonUserCancel_init :: NonUserCancel where
  "NonUserCancel_init = \<lparr>nuc_coin = '''', nuc_oid = undefined\<rparr>"

record MarginSummary =
  ms_accountValue :: double
  ms_totalNtlPos :: double
  ms_totalRawUsd :: double
  ms_totalMarginUsed :: double

definition MarginSummary_init :: MarginSummary where
  "MarginSummary_init = \<lparr>ms_accountValue = undefined, ms_totalNtlPos = undefined, ms_totalRawUsd = undefined,
     ms_totalMarginUsed = undefined\<rparr>"

definition MarginSummary_zero :: MarginSummary where
  "MarginSummary_zero = \<lparr>ms_accountValue = d_zero, ms_totalNtlPos = d_zero, ms_totalRawUsd = d_zero,
     ms_totalMarginUsed = d_zero\<rparr>"

record AssetPosition =
  ap_coin :: string
  ap_szi :: double
  ap_entryPx :: double
  ap_positionValue :: double
  ap_unrealizedPnl :: double
  ap_returnOnEquity :: double
  ap_liquidationPx :: double
  ap_hasLiquidationPx :: bool
  ap_marginUsed :: double
  ap_maxLeverage :: int
  ap_leverageType :: LeverageType

definition AssetPosition_init :: AssetPosition where
  "AssetPosition_init = \<lparr>ap_coin = '''', ap_szi = undefined, ap_entryPx = undefined, ap_positionValue = undefined,
     ap_unrealizedPnl = undefined, ap_returnOnEquity = undefined, ap_liquidationPx = undefined,
     ap_hasLiquidationPx = undefined, ap_marginUsed = undefined, ap_maxLeverage = undefined,
     ap_leverageType = undefined\<rparr>"

record ClearinghouseState =
  cs_assetPositions :: "AssetPosition list"
  cs_marginSummary :: MarginSummary
  cs_crossMarginSummary :: MarginSummary
  cs_crossMaintenanceMarginUsed :: double
  cs_withdrawable :: double
  cs_time :: u64

definition ClearinghouseState_init :: ClearinghouseState where
  "ClearinghouseState_init = \<lparr>cs_assetPositions = [], cs_marginSummary = MarginSummary_init,
     cs_crossMarginSummary = MarginSummary_init, cs_crossMaintenanceMarginUsed = undefined,
     cs_withdrawable = undefined, cs_time = undefined\<rparr>"

definition ClearinghouseState_zero :: ClearinghouseState where
  "ClearinghouseState_zero = \<lparr>cs_assetPositions = [], cs_marginSummary = MarginSummary_zero,
     cs_crossMarginSummary = MarginSummary_zero, cs_crossMaintenanceMarginUsed = d_zero,
     cs_withdrawable = d_zero, cs_time = 0\<rparr>"

record ClearinghouseStateUpdate =
  csu_dex :: string
  csu_user :: string
  csu_state :: ClearinghouseState

definition ClearinghouseStateUpdate_init :: ClearinghouseStateUpdate where
  "ClearinghouseStateUpdate_init = \<lparr>csu_dex = '''', csu_user = '''', csu_state = ClearinghouseState_init\<rparr>"

record OpenOrder =
  oo_coin :: string
  oo_side :: char
  oo_limitPx :: double
  oo_sz :: double
  oo_oid :: u64
  oo_timestamp :: u64
  oo_origSz :: double
  oo_cloid :: string

definition OpenOrder_init :: OpenOrder where
  "OpenOrder_init = \<lparr>oo_coin = '''', oo_side = undefined, oo_limitPx = undefined, oo_sz = undefined,
     oo_oid = undefined, oo_timestamp = undefined, oo_origSz = undefined, oo_cloid = ''''\<rparr>"

record OpenOrdersUpdate =
  oou_dex :: string
  oou_user :: string
  oou_orders :: "OpenOrder list"

definition OpenOrdersUpdate_init :: OpenOrdersUpdate where
  "OpenOrdersUpdate_init = \<lparr>oou_dex = '''', oou_user = '''', oou_orders = []\<rparr>"

record TwapState =
  ts_id :: u64
  ts_coin :: string
  ts_user :: string
  ts_side :: char
  ts_sz :: double
  ts_executedSz :: double
  ts_executedNtl :: double
  ts_minutes :: int
  ts_reduceOnly :: bool
  ts_randomize :: bool
  ts_timestamp :: u64

definition TwapState_init :: TwapState where
  "TwapState_init = \<lparr>ts_id = undefined, ts_coin = '''', ts_user = '''', ts_side = undefined, ts_sz = undefined,
     ts_executedSz = undefined, ts_executedNtl = undefined, ts_minutes = undefined,
     ts_reduceOnly = undefined, ts_randomize = undefined, ts_timestamp = undefined\<rparr>"

definition TwapState_zero :: TwapState where
  "TwapState_zero = \<lparr>ts_id = 0, ts_coin = '''', ts_user = '''', ts_side = CHR 0x00, ts_sz = d_zero,
     ts_executedSz = d_zero, ts_executedNtl = d_zero, ts_minutes = 0, ts_reduceOnly = False,
     ts_randomize = False, ts_timestamp = 0\<rparr>"

record TwapStatesUpdate =
  tsu_dex :: string
  tsu_user :: string
  tsu_states :: "TwapState list"

definition TwapStatesUpdate_init :: TwapStatesUpdate where
  "TwapStatesUpdate_init = \<lparr>tsu_dex = '''', tsu_user = '''', tsu_states = []\<rparr>"

datatype TwapHistoryStatus =
    TwapHistoryStatus_Activated | TwapHistoryStatus_Terminated
    | TwapHistoryStatus_WaitingForTrigger | TwapHistoryStatus_Stopped | TwapHistoryStatus_Finished
    | TwapHistoryStatus_Error | TwapHistoryStatus_Unknown

definition stringToTwapHistoryStatus :: "string \<Rightarrow> TwapHistoryStatus" where
  "stringToTwapHistoryStatus s =
     (if s = ''activated'' then TwapHistoryStatus_Activated
      else if s = ''terminated'' then TwapHistoryStatus_Terminated
      else if s = ''waitingForTrigger'' then TwapHistoryStatus_WaitingForTrigger
      else if s = ''stopped'' then TwapHistoryStatus_Stopped
      else if s = ''finished'' then TwapHistoryStatus_Finished
      else if s = ''error'' then TwapHistoryStatus_Error
      else TwapHistoryStatus_Unknown)"

primrec toString_TwapHistoryStatus :: "TwapHistoryStatus \<Rightarrow> string" where
  "toString_TwapHistoryStatus TwapHistoryStatus_Activated = ''activated''"
| "toString_TwapHistoryStatus TwapHistoryStatus_Terminated = ''terminated''"
| "toString_TwapHistoryStatus TwapHistoryStatus_WaitingForTrigger = ''waitingForTrigger''"
| "toString_TwapHistoryStatus TwapHistoryStatus_Stopped = ''stopped''"
| "toString_TwapHistoryStatus TwapHistoryStatus_Finished = ''finished''"
| "toString_TwapHistoryStatus TwapHistoryStatus_Error = ''error''"
| "toString_TwapHistoryStatus TwapHistoryStatus_Unknown = ''unknown''"

record TwapHistoryEntry =
  the_state :: TwapState
  the_status :: TwapHistoryStatus
  the_description :: string
  the_time :: u64
  the_twapId :: u64
  the_isSnapshot :: bool

definition TwapHistoryEntry_init :: TwapHistoryEntry where
  "TwapHistoryEntry_init = \<lparr>the_state = TwapState_init, the_status = undefined, the_description = '''',
     the_time = undefined, the_twapId = 0, the_isSnapshot = False\<rparr>"

definition TwapHistoryEntry_zero :: TwapHistoryEntry where
  "TwapHistoryEntry_zero = \<lparr>the_state = TwapState_zero, the_status = TwapHistoryStatus_Activated, the_description = '''',
     the_time = 0, the_twapId = 0, the_isSnapshot = False\<rparr>"

record TwapSliceFill =
  tsf_fill :: Fill
  tsf_twapId :: u64

definition TwapSliceFill_init :: TwapSliceFill where
  "TwapSliceFill_init = \<lparr>tsf_fill = Fill_init, tsf_twapId = undefined\<rparr>"

end
