(* ===== verification/Stream_Types.thy ===== *)
theory Stream_Types
  imports Market_Types Order_Types
begin

text \<open>
  The structures of \<open>ResponseTypes.h\<close> that the WebSocket channels deliver (ledger updates, account snapshots,
  outcome markets), with the conventions of \<open>Market_Types\<close>.
\<close>

datatype LedgerUpdateType =
    LedgerUpdateType_Deposit | LedgerUpdateType_Withdraw | LedgerUpdateType_InternalTransfer
    | LedgerUpdateType_SubAccountTransfer | LedgerUpdateType_Liquidation
    | LedgerUpdateType_VaultCreate | LedgerUpdateType_VaultDeposit
    | LedgerUpdateType_VaultDistribution | LedgerUpdateType_VaultWithdraw
    | LedgerUpdateType_VaultLeaderCommission | LedgerUpdateType_SpotTransfer
    | LedgerUpdateType_AccountClassTransfer | LedgerUpdateType_SpotGenesis
    | LedgerUpdateType_RewardsClaim | LedgerUpdateType_Send | LedgerUpdateType_Unknown

definition stringToLedgerUpdateType :: "string \<Rightarrow> LedgerUpdateType" where
  "stringToLedgerUpdateType s =
     (if s = ''deposit'' then LedgerUpdateType_Deposit
      else if s = ''withdraw'' then LedgerUpdateType_Withdraw
      else if s = ''internalTransfer'' then LedgerUpdateType_InternalTransfer
      else if s = ''subAccountTransfer'' then LedgerUpdateType_SubAccountTransfer
      else if s = ''liquidation'' then LedgerUpdateType_Liquidation
      else if s = ''vaultCreate'' then LedgerUpdateType_VaultCreate
      else if s = ''vaultDeposit'' then LedgerUpdateType_VaultDeposit
      else if s = ''vaultDistribution'' then LedgerUpdateType_VaultDistribution
      else if s = ''vaultWithdraw'' then LedgerUpdateType_VaultWithdraw
      else if s = ''vaultLeaderCommission'' then LedgerUpdateType_VaultLeaderCommission
      else if s = ''spotTransfer'' then LedgerUpdateType_SpotTransfer
      else if s = ''accountClassTransfer'' then LedgerUpdateType_AccountClassTransfer
      else if s = ''spotGenesis'' then LedgerUpdateType_SpotGenesis
      else if s = ''rewardsClaim'' then LedgerUpdateType_RewardsClaim
      else if s = ''send'' then LedgerUpdateType_Send
      else LedgerUpdateType_Unknown)"

primrec toString_LedgerUpdateType :: "LedgerUpdateType \<Rightarrow> string" where
  "toString_LedgerUpdateType LedgerUpdateType_Deposit = ''deposit''"
| "toString_LedgerUpdateType LedgerUpdateType_Withdraw = ''withdraw''"
| "toString_LedgerUpdateType LedgerUpdateType_InternalTransfer = ''internalTransfer''"
| "toString_LedgerUpdateType LedgerUpdateType_SubAccountTransfer = ''subAccountTransfer''"
| "toString_LedgerUpdateType LedgerUpdateType_Liquidation = ''liquidation''"
| "toString_LedgerUpdateType LedgerUpdateType_VaultCreate = ''vaultCreate''"
| "toString_LedgerUpdateType LedgerUpdateType_VaultDeposit = ''vaultDeposit''"
| "toString_LedgerUpdateType LedgerUpdateType_VaultDistribution = ''vaultDistribution''"
| "toString_LedgerUpdateType LedgerUpdateType_VaultWithdraw = ''vaultWithdraw''"
| "toString_LedgerUpdateType LedgerUpdateType_VaultLeaderCommission = ''vaultLeaderCommission''"
| "toString_LedgerUpdateType LedgerUpdateType_SpotTransfer = ''spotTransfer''"
| "toString_LedgerUpdateType LedgerUpdateType_AccountClassTransfer = ''accountClassTransfer''"
| "toString_LedgerUpdateType LedgerUpdateType_SpotGenesis = ''spotGenesis''"
| "toString_LedgerUpdateType LedgerUpdateType_RewardsClaim = ''rewardsClaim''"
| "toString_LedgerUpdateType LedgerUpdateType_Send = ''send''"
| "toString_LedgerUpdateType LedgerUpdateType_Unknown = ''unknown''"

record LiquidatedPosition =
  lp_coin :: string
  lp_szi :: double

definition LiquidatedPosition_init :: LiquidatedPosition where
  "LiquidatedPosition_init = \<lparr>lp_coin = '''', lp_szi = undefined\<rparr>"

record LedgerUpdate =
  lu_time :: u64
  lu_hash :: string
  lu_type :: LedgerUpdateType
  lu_usdc :: double
  lu_user :: string
  lu_destination :: string
  lu_vault :: string
  lu_token :: string
  lu_fee :: double
  lu_amount :: double
  lu_usdcValue :: double
  lu_nonce :: u64
  lu_toPerp :: bool
  lu_sourceDex :: string
  lu_destinationDex :: string
  lu_nativeTokenFee :: double
  lu_feeToken :: string
  lu_accountValue :: double
  lu_leverageType :: LeverageType
  lu_liquidatedPositions :: "LiquidatedPosition list"
  lu_requestedUsd :: double
  lu_commission :: double
  lu_closingCost :: double
  lu_basis :: double
  lu_netWithdrawnUsd :: double
  lu_isSnapshot :: bool

definition LedgerUpdate_init :: LedgerUpdate where
  "LedgerUpdate_init = \<lparr>lu_time = undefined, lu_hash = '''', lu_type = undefined, lu_usdc = undefined,
     lu_user = '''', lu_destination = '''', lu_vault = '''', lu_token = '''', lu_fee = undefined,
     lu_amount = undefined, lu_usdcValue = undefined, lu_nonce = undefined, lu_toPerp = undefined,
     lu_sourceDex = '''', lu_destinationDex = '''', lu_nativeTokenFee = undefined,
     lu_feeToken = '''', lu_accountValue = undefined, lu_leverageType = undefined,
     lu_liquidatedPositions = [], lu_requestedUsd = undefined, lu_commission = undefined,
     lu_closingCost = undefined, lu_basis = undefined, lu_netWithdrawnUsd = undefined,
     lu_isSnapshot = False\<rparr>"

definition LedgerUpdate_zero :: LedgerUpdate where
  "LedgerUpdate_zero = \<lparr>lu_time = 0, lu_hash = '''', lu_type = LedgerUpdateType_Deposit, lu_usdc = d_zero,
     lu_user = '''', lu_destination = '''', lu_vault = '''', lu_token = '''', lu_fee = d_zero,
     lu_amount = d_zero, lu_usdcValue = d_zero, lu_nonce = 0, lu_toPerp = False,
     lu_sourceDex = '''', lu_destinationDex = '''', lu_nativeTokenFee = d_zero,
     lu_feeToken = '''', lu_accountValue = d_zero, lu_leverageType = LeverageType_Cross,
     lu_liquidatedPositions = [], lu_requestedUsd = d_zero, lu_commission = d_zero,
     lu_closingCost = d_zero, lu_basis = d_zero, lu_netWithdrawnUsd = d_zero,
     lu_isSnapshot = False\<rparr>"

record ActiveAssetData =
  aad_user :: string
  aad_coin :: string
  aad_leverageType :: LeverageType
  aad_leverageValue :: double
  aad_leverageRawUsd :: "double option"
  aad_maxTradeSzLong :: double
  aad_maxTradeSzShort :: double
  aad_availableToTradeLong :: double
  aad_availableToTradeShort :: double
  aad_markPx :: double

definition ActiveAssetData_init :: ActiveAssetData where
  "ActiveAssetData_init = \<lparr>aad_user = '''', aad_coin = '''', aad_leverageType = undefined, aad_leverageValue = d_zero,
     aad_leverageRawUsd = None, aad_maxTradeSzLong = undefined, aad_maxTradeSzShort = undefined,
     aad_availableToTradeLong = undefined, aad_availableToTradeShort = undefined,
     aad_markPx = d_zero\<rparr>"

definition ActiveAssetData_zero :: ActiveAssetData where
  "ActiveAssetData_zero = \<lparr>aad_user = '''', aad_coin = '''', aad_leverageType = LeverageType_Cross,
     aad_leverageValue = d_zero, aad_leverageRawUsd = None, aad_maxTradeSzLong = d_zero,
     aad_maxTradeSzShort = d_zero, aad_availableToTradeLong = d_zero,
     aad_availableToTradeShort = d_zero, aad_markPx = d_zero\<rparr>"

record Notification =
  no_notification :: string

definition Notification_init :: Notification where
  "Notification_init = \<lparr>no_notification = ''''\<rparr>"

record SpotStateUpdate =
  ssu_user :: string
  ssu_balances :: "SpotBalance list"

definition SpotStateUpdate_init :: SpotStateUpdate where
  "SpotStateUpdate_init = \<lparr>ssu_user = '''', ssu_balances = []\<rparr>"

record DexClearinghouseState =
  dcs_dex :: string
  dcs_state :: ClearinghouseState

definition DexClearinghouseState_init :: DexClearinghouseState where
  "DexClearinghouseState_init = \<lparr>dcs_dex = '''', dcs_state = ClearinghouseState_init\<rparr>"

definition DexClearinghouseState_zero :: DexClearinghouseState where
  "DexClearinghouseState_zero = \<lparr>dcs_dex = '''', dcs_state = ClearinghouseState_zero\<rparr>"

record AllDexsClearinghouseStateUpdate =
  adcsu_user :: string
  adcsu_states :: "DexClearinghouseState list"

definition AllDexsClearinghouseStateUpdate_init :: AllDexsClearinghouseStateUpdate where
  "AllDexsClearinghouseStateUpdate_init = \<lparr>adcsu_user = '''', adcsu_states = []\<rparr>"

record DexAssetCtxs =
  dac_dex :: string
  dac_ctxs :: "PerpAssetCtx list"

definition DexAssetCtxs_init :: DexAssetCtxs where
  "DexAssetCtxs_init = \<lparr>dac_dex = '''', dac_ctxs = []\<rparr>"

definition DexAssetCtxs_zero :: DexAssetCtxs where
  "DexAssetCtxs_zero = \<lparr>dac_dex = '''', dac_ctxs = []\<rparr>"

record AllDexsAssetCtxsUpdate =
  adacu_dexs :: "DexAssetCtxs list"

definition AllDexsAssetCtxsUpdate_init :: AllDexsAssetCtxsUpdate where
  "AllDexsAssetCtxsUpdate_init = \<lparr>adacu_dexs = []\<rparr>"

record FastAssetCtx =
  fac_coin :: string
  fac_hasMarkPx :: bool
  fac_markPx :: double
  fac_hasMidPx :: bool
  fac_midPx :: double

definition FastAssetCtx_init :: FastAssetCtx where
  "FastAssetCtx_init = \<lparr>fac_coin = '''', fac_hasMarkPx = undefined, fac_markPx = undefined, fac_hasMidPx = undefined,
     fac_midPx = undefined\<rparr>"

definition FastAssetCtx_zero :: FastAssetCtx where
  "FastAssetCtx_zero = \<lparr>fac_coin = '''', fac_hasMarkPx = False, fac_markPx = d_zero, fac_hasMidPx = False,
     fac_midPx = d_zero\<rparr>"

record LeadingVault =
  lv_address :: string
  lv_name :: string

definition LeadingVault_init :: LeadingVault where
  "LeadingVault_init = \<lparr>lv_address = '''', lv_name = ''''\<rparr>"

record PerpDexState =
  pds_totalVaultEquity :: double
  pds_perpsAtOpenInterestCap :: "string list"
  pds_leadingVaults :: "LeadingVault list"

definition PerpDexState_init :: PerpDexState where
  "PerpDexState_init = \<lparr>pds_totalVaultEquity = undefined, pds_perpsAtOpenInterestCap = [], pds_leadingVaults = []\<rparr>"

record WebData3UserState =
  wdus_agentAddress :: "string option"
  wdus_agentValidUntil :: "u64 option"
  wdus_serverTime :: u64
  wdus_cumLedger :: double
  wdus_isVault :: bool
  wdus_user :: string
  wdus_optOutOfSpotDusting :: bool
  wdus_dexAbstractionEnabled :: bool

definition WebData3UserState_init :: WebData3UserState where
  "WebData3UserState_init = \<lparr>wdus_agentAddress = None, wdus_agentValidUntil = None, wdus_serverTime = undefined,
     wdus_cumLedger = undefined, wdus_isVault = undefined, wdus_user = '''',
     wdus_optOutOfSpotDusting = undefined, wdus_dexAbstractionEnabled = undefined\<rparr>"

record WebData3Update =
  wdu_userState :: WebData3UserState
  wdu_perpDexStates :: "PerpDexState list"
  wdu_raw :: string

definition WebData3Update_init :: WebData3Update where
  "WebData3Update_init = \<lparr>wdu_userState = WebData3UserState_init, wdu_perpDexStates = [], wdu_raw = ''''\<rparr>"

record OutcomeSideSpec =
  oss_name :: string
  oss_token :: "int option"

definition OutcomeSideSpec_init :: OutcomeSideSpec where
  "OutcomeSideSpec_init = \<lparr>oss_name = '''', oss_token = None\<rparr>"

record OutcomeDescription =
  od_outcomeClass :: string
  od_underlying :: string
  od_expiry :: int
  od_targetPrice :: string
  od_period :: string

definition OutcomeDescription_init :: OutcomeDescription where
  "OutcomeDescription_init = \<lparr>od_outcomeClass = '''', od_underlying = '''', od_expiry = 0, od_targetPrice = '''',
     od_period = ''''\<rparr>"

definition OutcomeDescription_zero :: OutcomeDescription where
  "OutcomeDescription_zero = \<lparr>od_outcomeClass = '''', od_underlying = '''', od_expiry = 0, od_targetPrice = '''',
     od_period = ''''\<rparr>"

record Outcome =
  out_outcome :: int
  out_name :: string
  out_descriptionRaw :: string
  out_description :: OutcomeDescription
  out_sideSpecs :: "OutcomeSideSpec list"
  out_quoteToken :: string
  out_deployer :: "string option"

definition Outcome_init :: Outcome where
  "Outcome_init = \<lparr>out_outcome = undefined, out_name = '''', out_descriptionRaw = '''',
     out_description = OutcomeDescription_init, out_sideSpecs = [], out_quoteToken = '''',
     out_deployer = None\<rparr>"

definition Outcome_zero :: Outcome where
  "Outcome_zero = \<lparr>out_outcome = 0, out_name = '''', out_descriptionRaw = '''',
     out_description = OutcomeDescription_zero, out_sideSpecs = [], out_quoteToken = '''',
     out_deployer = None\<rparr>"

record OutcomeMetaResponse =
  omr_outcomes :: "Outcome list"

definition OutcomeMetaResponse_init :: OutcomeMetaResponse where
  "OutcomeMetaResponse_init = \<lparr>omr_outcomes = []\<rparr>"

record QuestionSpec =
  qs_question :: int
  qs_name :: string
  qs_description :: string
  qs_fallbackOutcome :: int
  qs_namedOutcomes :: "int list"
  qs_settledNamedOutcomes :: "int list"

definition QuestionSpec_init :: QuestionSpec where
  "QuestionSpec_init = \<lparr>qs_question = undefined, qs_name = '''', qs_description = '''',
     qs_fallbackOutcome = undefined, qs_namedOutcomes = [], qs_settledNamedOutcomes = []\<rparr>"

definition QuestionSpec_zero :: QuestionSpec where
  "QuestionSpec_zero = \<lparr>qs_question = 0, qs_name = '''', qs_description = '''', qs_fallbackOutcome = 0,
     qs_namedOutcomes = [], qs_settledNamedOutcomes = []\<rparr>"

record SettledOutcomeQuestion =
  soq_isSettled :: bool
  soq_questionId :: int
  soq_name :: string
  soq_description :: string

definition SettledOutcomeQuestion_init :: SettledOutcomeQuestion where
  "SettledOutcomeQuestion_init = \<lparr>soq_isSettled = False, soq_questionId = 0, soq_name = '''', soq_description = ''''\<rparr>"

record SettledOutcomeResponse =
  sor_isSettled :: bool
  sor_spec :: Outcome
  sor_settleFraction :: double
  sor_details :: string
  sor_question :: "SettledOutcomeQuestion option"

definition SettledOutcomeResponse_init :: SettledOutcomeResponse where
  "SettledOutcomeResponse_init = \<lparr>sor_isSettled = False, sor_spec = Outcome_init, sor_settleFraction = d_zero,
     sor_details = '''', sor_question = None\<rparr>"

datatype OutcomeMetaUpdateType =
    OutcomeMetaUpdateType_OutcomeCreated | OutcomeMetaUpdateType_OutcomeSettled
    | OutcomeMetaUpdateType_QuestionUpdated | OutcomeMetaUpdateType_QuestionSettled
    | OutcomeMetaUpdateType_Unknown

primrec toString_OutcomeMetaUpdateType :: "OutcomeMetaUpdateType \<Rightarrow> string" where
  "toString_OutcomeMetaUpdateType OutcomeMetaUpdateType_OutcomeCreated = ''outcomeCreated''"
| "toString_OutcomeMetaUpdateType OutcomeMetaUpdateType_OutcomeSettled = ''outcomeSettled''"
| "toString_OutcomeMetaUpdateType OutcomeMetaUpdateType_QuestionUpdated = ''questionUpdated''"
| "toString_OutcomeMetaUpdateType OutcomeMetaUpdateType_QuestionSettled = ''questionSettled''"
| "toString_OutcomeMetaUpdateType OutcomeMetaUpdateType_Unknown = ''unknown''"

definition stringToOutcomeMetaUpdateType :: "string \<Rightarrow> OutcomeMetaUpdateType" where
  "stringToOutcomeMetaUpdateType s =
     (if s = ''outcomeCreated'' then OutcomeMetaUpdateType_OutcomeCreated
      else if s = ''outcomeSettled'' then OutcomeMetaUpdateType_OutcomeSettled
      else if s = ''questionUpdated'' then OutcomeMetaUpdateType_QuestionUpdated
      else if s = ''questionSettled'' then OutcomeMetaUpdateType_QuestionSettled
      else OutcomeMetaUpdateType_Unknown)"

record OutcomeMetaUpdate =
  omu_type :: OutcomeMetaUpdateType
  omu_outcome :: Outcome
  omu_settledOutcome :: int
  omu_question :: QuestionSpec
  omu_settledQuestion :: int

definition OutcomeMetaUpdate_init :: OutcomeMetaUpdate where
  "OutcomeMetaUpdate_init = \<lparr>omu_type = undefined, omu_outcome = Outcome_init, omu_settledOutcome = 0,
     omu_question = QuestionSpec_init, omu_settledQuestion = 0\<rparr>"

definition OutcomeMetaUpdate_zero :: OutcomeMetaUpdate where
  "OutcomeMetaUpdate_zero = \<lparr>omu_type = OutcomeMetaUpdateType_OutcomeCreated, omu_outcome = Outcome_zero,
     omu_settledOutcome = 0, omu_question = QuestionSpec_zero, omu_settledQuestion = 0\<rparr>"

end
