(* ===== verification/Outcome_Text.thy ===== *)
theory Outcome_Text
  imports Stream_Types Json_Reader
begin

text \<open>
  The text format of outcome markets (\<open>ResponseTypes.h\<close>): the expiry \<open>YYYYMMDD-HHMM\<close> and the
  pipe-delimited description, as \<open>parseOutcomeExpiry\<close> and \<open>parseOutcomeDescription\<close> read them.
\<close>

section \<open>Integers in text\<close>

text \<open>
  \<open>std::stoi\<close>: white space, a sign, digits, the rest ignored. No digit is \<open>invalid_argument\<close>, a value
  outside \<open>int\<close> \<open>out_of_range\<close>.
\<close>

definition stoi :: "string \<Rightarrow> int outcome" where
  "stoi str =
     (let (neg, s) = (case dropWhile is_space str of [] \<Rightarrow> (False, [])
                      | c # t \<Rightarrow> if c = CHR ''-'' then (True, t)
                                 else if c = CHR ''+'' then (False, t) else (False, c # t));
          ds = takeWhile is_digit s;
          n = (if neg then - int (nat_of_dec ds) else int (nat_of_dec ds))
      in if ds = [] then Inl (Invalid_Argument ''stoi'')
         else if n < - (2 ^ 31) \<or> 2 ^ 31 \<le> n then Inl (Out_Of_Range ''stoi'')
         else Inr n)"

text \<open>\<open>s.substr(pos, n)\<close> throws past the end of the string and stops at it.\<close>

definition substr :: "string \<Rightarrow> nat \<Rightarrow> nat \<Rightarrow> string outcome" where
  "substr s pos n = (if length s < pos then Inl (Out_Of_Range ''substr'') else Inr (take n (drop pos s)))"

definition stoi_at :: "string \<Rightarrow> nat \<Rightarrow> nat \<Rightarrow> int outcome" where
  "stoi_at s pos n = bindE (substr s pos n) stoi"

section \<open>Time\<close>

text \<open>
  \<open>timegm\<close> on the fields of \<open>std::tm\<close>, which it normalises: a month outside a year carries into the
  years, and days, hours and minutes add up. The days are those of the proleptic Gregorian calendar since
  1970-01-01.
\<close>

definition days_before_year :: "int \<Rightarrow> int" where
  "days_before_year y = 365 * y + y div 4 - y div 100 + y div 400"

definition is_leap :: "int \<Rightarrow> bool" where
  "is_leap y \<longleftrightarrow> y mod 4 = 0 \<and> (y mod 100 \<noteq> 0 \<or> y mod 400 = 0)"

definition month_days :: "int \<Rightarrow> int list" where
  "month_days y = [31, if is_leap y then 29 else 28, 31, 30, 31, 30, 31, 31, 30, 31, 30, 31]"

definition days_from_civil :: "int \<Rightarrow> int \<Rightarrow> int \<Rightarrow> int" where
  "days_from_civil y m d =
     days_before_year (y - 1) - days_before_year 1969 + sum_list (take (nat m) (month_days y)) + (d - 1)"

definition timegm :: "int \<Rightarrow> int \<Rightarrow> int \<Rightarrow> int \<Rightarrow> int \<Rightarrow> int" where
  "timegm tm_year tm_mon tm_mday tm_hour tm_min =
     86400 * days_from_civil (tm_year + 1900 + tm_mon div 12) (tm_mon mod 12) tm_mday + 3600 * tm_hour + 60 * tm_min"

definition parseOutcomeExpiry :: "string \<Rightarrow> int outcome" where
  "parseOutcomeExpiry s =
     bindE (stoi_at s 0 4) (\<lambda>year.
     bindE (stoi_at s 4 2) (\<lambda>mon.
     bindE (stoi_at s 6 2) (\<lambda>mday.
     bindE (stoi_at s 9 2) (\<lambda>hour.
     bindE (stoi_at s 11 2) (\<lambda>minute.
     Inr (timegm (year - 1900) (mon - 1) mday hour minute))))))"

section \<open>The description\<close>

definition set_description_field :: "string \<Rightarrow> string \<Rightarrow> OutcomeDescription \<Rightarrow> OutcomeDescription outcome" where
  "set_description_field key val result =
     (if key = ''class'' then Inr (result\<lparr>od_outcomeClass := val\<rparr>)
      else if key = ''underlying'' then Inr (result\<lparr>od_underlying := val\<rparr>)
      else if key = ''expiry'' then bindE (parseOutcomeExpiry val) (\<lambda>t. Inr (result\<lparr>od_expiry := t\<rparr>))
      else if key = ''targetPrice'' then Inr (result\<lparr>od_targetPrice := val\<rparr>)
      else if key = ''period'' then Inr (result\<lparr>od_period := val\<rparr>)
      else Inr result)"

definition description_segment :: "string \<Rightarrow> OutcomeDescription \<Rightarrow> OutcomeDescription outcome" where
  "description_segment segment result =
     (case dropWhile (\<lambda>c. c \<noteq> CHR '':'') segment of
        [] \<Rightarrow> Inr result
      | _ # val \<Rightarrow> set_description_field (takeWhile (\<lambda>c. c \<noteq> CHR '':'') segment) val result)"

text \<open>The loop over the segments, on what is left of the text from \<open>pos\<close>.\<close>

function description_loop :: "string \<Rightarrow> OutcomeDescription \<Rightarrow> OutcomeDescription outcome" where
  "description_loop rest result =
     (if rest = [] then Inr result
      else bindE (description_segment (takeWhile (\<lambda>c. c \<noteq> CHR ''|'') rest) result) (\<lambda>result.
             case dropWhile (\<lambda>c. c \<noteq> CHR ''|'') rest of
               [] \<Rightarrow> Inr result
             | _ # rest' \<Rightarrow> description_loop rest' result))"
  by pat_completeness auto
termination
proof (relation "measure (\<lambda>(rest, _). length rest)")
  fix rest result result' c rest'
  assume "dropWhile (\<lambda>c. c \<noteq> CHR ''|'') rest = c # rest'"
  then have "length (c # rest') \<le> length rest" using length_dropWhile_le by metis
  then show "((rest', result'), rest, result) \<in> measure (\<lambda>(rest, _). length rest)" by simp
qed simp

declare description_loop.simps [simp del]

definition parseOutcomeDescription :: "string \<Rightarrow> OutcomeDescription outcome" where
  "parseOutcomeDescription desc = description_loop desc OutcomeDescription_init"

section \<open>Behaviour\<close>

text \<open>The exceptions of the two functions: those of \<open>stoi\<close> and \<open>substr\<close>.\<close>

definition text_errors :: "cpp_error set" where
  "text_errors = {Invalid_Argument ''stoi'', Out_Of_Range ''stoi'', Out_Of_Range ''substr''}"

lemma stoi_at_errors: "stoi_at s pos n = Inl e \<Longrightarrow> e \<in> text_errors"
  by (auto simp: stoi_at_def substr_def stoi_def text_errors_def Let_def bindE_Inl_iff split: if_splits prod.splits)

lemma parseOutcomeExpiry_errors: "parseOutcomeExpiry s = Inl e \<Longrightarrow> e \<in> text_errors"
  by (auto simp: parseOutcomeExpiry_def bindE_Inl_iff intro: stoi_at_errors)

lemma set_description_field_errors: "set_description_field k v r = Inl e \<Longrightarrow> e \<in> text_errors"
  by (auto simp: set_description_field_def bindE_Inl_iff intro: parseOutcomeExpiry_errors split: if_splits)

lemma description_segment_errors: "description_segment seg r = Inl e \<Longrightarrow> e \<in> text_errors"
  by (auto simp: description_segment_def intro: set_description_field_errors split: list.splits)

lemma description_loop_errors: "description_loop rest r = Inl e \<Longrightarrow> e \<in> text_errors"
proof (induction rest r rule: description_loop.induct)
  case (1 rest r)
  show ?case
  proof (cases "rest = []")
    case True
    with "1.prems" show ?thesis by (simp add: description_loop.simps)
  next
    case False
    let ?seg = "description_segment (takeWhile (\<lambda>c. c \<noteq> CHR ''|'') rest) r"
    let ?rest = "dropWhile (\<lambda>c. c \<noteq> CHR ''|'') rest"
    from False "1.prems" have eq:
      "bindE ?seg (\<lambda>r. case ?rest of [] \<Rightarrow> Inr r | _ # t \<Rightarrow> description_loop t r) = Inl e"
      by (simp add: description_loop.simps [of rest r])
    show ?thesis
    proof (cases ?seg)
      case (Inl e')
      with eq show ?thesis using description_segment_errors by auto
    next
      case (Inr r')
      with eq obtain c t where t: "?rest = c # t" "description_loop t r' = Inl e"
        by (cases ?rest) auto
      show ?thesis by (rule "1.IH" [OF False Inr t])
    qed
  qed
qed

lemma parseOutcomeDescription_errors: "parseOutcomeDescription s = Inl e \<Longrightarrow> e \<in> text_errors"
  by (simp add: parseOutcomeDescription_def description_loop_errors)

lemma text_errors_not_simdjson: "Simdjson_Error \<notin> text_errors"
  by (simp add: text_errors_def)

end
