(* ===== verification/Info_Types.thy ===== *)
theory Info_Types
  imports Market_Types Order_Types
begin

text \<open>
  The structures of \<open>ResponseTypes.h\<close> that the information endpoints on markets and orders answer with, with
  the conventions of \<open>Market_Types\<close>.
\<close>

record MetaResponse =
  mr_universe :: "AssetMeta list"

definition MetaResponse_init :: MetaResponse where
  "MetaResponse_init = \<lparr>mr_universe = []\<rparr>"

record EvmContract =
  ec_address :: string
  ec_evm_extra_wei_decimals :: int

definition EvmContract_init :: EvmContract where
  "EvmContract_init = \<lparr>ec_address = '''', ec_evm_extra_wei_decimals = undefined\<rparr>"

record SpotAssetMeta =
  sam_name :: string
  sam_szDecimals :: int
  sam_weiDecimals :: int
  sam_index :: int
  sam_tokenId :: string
  sam_isCanonical :: bool
  sam_evmContract :: "EvmContract option"
  sam_fullName :: "string option"

definition SpotAssetMeta_init :: SpotAssetMeta where
  "SpotAssetMeta_init = \<lparr>sam_name = '''', sam_szDecimals = undefined, sam_weiDecimals = undefined,
     sam_index = undefined, sam_tokenId = '''', sam_isCanonical = False, sam_evmContract = None,
     sam_fullName = None\<rparr>"

record SpotMetaResponse =
  smr_tokens :: "SpotAssetMeta list"

definition SpotMetaResponse_init :: SpotMetaResponse where
  "SpotMetaResponse_init = \<lparr>smr_tokens = []\<rparr>"

record PerpDex =
  pd_name :: string
  pd_fullName :: string
  pd_deployer :: string
  pd_oracleUpdater :: "string option"
  pd_feeRecipient :: "string option"
  pd_assetToStreamingOiCap :: "(string \<times> string) list"
  pd_assetToFundingMultiplier :: "(string \<times> string) list"

definition PerpDex_init :: PerpDex where
  "PerpDex_init = \<lparr>pd_name = '''', pd_fullName = '''', pd_deployer = '''', pd_oracleUpdater = None,
     pd_feeRecipient = None, pd_assetToStreamingOiCap = [], pd_assetToFundingMultiplier = []\<rparr>"

record PerpDexsResponse =
  pdr_dexes :: "PerpDex list"

definition PerpDexsResponse_init :: PerpDexsResponse where
  "PerpDexsResponse_init = \<lparr>pdr_dexes = []\<rparr>"

record PerpsAtOpenInterestCapResponse =
  paoicr_coins :: "string list"

definition PerpsAtOpenInterestCapResponse_init :: PerpsAtOpenInterestCapResponse where
  "PerpsAtOpenInterestCapResponse_init = \<lparr>paoicr_coins = []\<rparr>"

record ExchangeStatusResponse =
  esr_specialStatuses :: "string list"
  esr_time :: u64

definition ExchangeStatusResponse_init :: ExchangeStatusResponse where
  "ExchangeStatusResponse_init = \<lparr>esr_specialStatuses = [], esr_time = 0\<rparr>"

record PredictedFundingVenue =
  pfv_venue :: string
  pfv_fundingRate :: "double option"
  pfv_nextFundingTime :: "u64 option"

definition PredictedFundingVenue_init :: PredictedFundingVenue where
  "PredictedFundingVenue_init = \<lparr>pfv_venue = '''', pfv_fundingRate = None, pfv_nextFundingTime = None\<rparr>"

record PredictedFundingEntry =
  pfe_coin :: string
  pfe_venues :: "PredictedFundingVenue list"

definition PredictedFundingEntry_init :: PredictedFundingEntry where
  "PredictedFundingEntry_init = \<lparr>pfe_coin = '''', pfe_venues = []\<rparr>"

record PredictedFundingsResponse =
  pfr_fundings :: "PredictedFundingEntry list"

definition PredictedFundingsResponse_init :: PredictedFundingsResponse where
  "PredictedFundingsResponse_init = \<lparr>pfr_fundings = []\<rparr>"

record FundingHistoryEntry =
  fhe_coin :: string
  fhe_fundingRate :: double
  fhe_premium :: double
  fhe_time :: u64

definition FundingHistoryEntry_init :: FundingHistoryEntry where
  "FundingHistoryEntry_init = \<lparr>fhe_coin = '''', fhe_fundingRate = undefined, fhe_premium = undefined, fhe_time = undefined\<rparr>"

definition FundingHistoryEntry_zero :: FundingHistoryEntry where
  "FundingHistoryEntry_zero = \<lparr>fhe_coin = '''', fhe_fundingRate = d_zero, fhe_premium = d_zero, fhe_time = 0\<rparr>"

record FundingHistoryResponse =
  fhr_history :: "FundingHistoryEntry list"

definition FundingHistoryResponse_init :: FundingHistoryResponse where
  "FundingHistoryResponse_init = \<lparr>fhr_history = []\<rparr>"

datatype LedgerUpdateDeltaType =
    LedgerUpdateDeltaType_Funding | LedgerUpdateDeltaType_Deposit | LedgerUpdateDeltaType_Withdraw
    | LedgerUpdateDeltaType_AccountClassTransfer | LedgerUpdateDeltaType_InternalTransfer
    | LedgerUpdateDeltaType_SubAccountTransfer | LedgerUpdateDeltaType_SpotTransfer
    | LedgerUpdateDeltaType_Unknown

definition stringToLedgerUpdateDeltaType :: "string \<Rightarrow> LedgerUpdateDeltaType" where
  "stringToLedgerUpdateDeltaType s =
     (if s = ''funding'' then LedgerUpdateDeltaType_Funding
      else if s = ''deposit'' then LedgerUpdateDeltaType_Deposit
      else if s = ''withdraw'' then LedgerUpdateDeltaType_Withdraw
      else if s = ''accountClassTransfer'' then LedgerUpdateDeltaType_AccountClassTransfer
      else if s = ''internalTransfer'' then LedgerUpdateDeltaType_InternalTransfer
      else if s = ''subAccountTransfer'' then LedgerUpdateDeltaType_SubAccountTransfer
      else if s = ''spotTransfer'' then LedgerUpdateDeltaType_SpotTransfer
      else LedgerUpdateDeltaType_Unknown)"

primrec toString_LedgerUpdateDeltaType :: "LedgerUpdateDeltaType \<Rightarrow> string" where
  "toString_LedgerUpdateDeltaType LedgerUpdateDeltaType_Funding = ''funding''"
| "toString_LedgerUpdateDeltaType LedgerUpdateDeltaType_Deposit = ''deposit''"
| "toString_LedgerUpdateDeltaType LedgerUpdateDeltaType_Withdraw = ''withdraw''"
| "toString_LedgerUpdateDeltaType LedgerUpdateDeltaType_AccountClassTransfer = ''accountClassTransfer''"
| "toString_LedgerUpdateDeltaType LedgerUpdateDeltaType_InternalTransfer = ''internalTransfer''"
| "toString_LedgerUpdateDeltaType LedgerUpdateDeltaType_SubAccountTransfer = ''subAccountTransfer''"
| "toString_LedgerUpdateDeltaType LedgerUpdateDeltaType_SpotTransfer = ''spotTransfer''"
| "toString_LedgerUpdateDeltaType LedgerUpdateDeltaType_Unknown = ''unknown''"

record LedgerUpdateDelta =
  lud_type :: LedgerUpdateDeltaType
  lud_coin :: "string option"
  lud_fundingRate :: "double option"
  lud_szi :: "double option"
  lud_nSamples :: "double option"
  lud_usdc :: "double option"
  lud_fee :: "double option"
  lud_nonce :: "u64 option"
  lud_toPerp :: "bool option"
  lud_user :: "string option"
  lud_destination :: "string option"
  lud_token :: "string option"
  lud_amount :: "double option"
  lud_usdcValue :: "double option"
  lud_nativeTokenFee :: "double option"
  lud_rawJson :: "string option"

definition LedgerUpdateDelta_init :: LedgerUpdateDelta where
  "LedgerUpdateDelta_init = \<lparr>lud_type = LedgerUpdateDeltaType_Unknown, lud_coin = None, lud_fundingRate = None,
     lud_szi = None, lud_nSamples = None, lud_usdc = None, lud_fee = None, lud_nonce = None,
     lud_toPerp = None, lud_user = None, lud_destination = None, lud_token = None,
     lud_amount = None, lud_usdcValue = None, lud_nativeTokenFee = None, lud_rawJson = None\<rparr>"

definition LedgerUpdateDelta_zero :: LedgerUpdateDelta where
  "LedgerUpdateDelta_zero = \<lparr>lud_type = LedgerUpdateDeltaType_Unknown, lud_coin = None, lud_fundingRate = None,
     lud_szi = None, lud_nSamples = None, lud_usdc = None, lud_fee = None, lud_nonce = None,
     lud_toPerp = None, lud_user = None, lud_destination = None, lud_token = None,
     lud_amount = None, lud_usdcValue = None, lud_nativeTokenFee = None, lud_rawJson = None\<rparr>"

record LedgerUpdateEntry =
  lue_time :: u64
  lue_hash :: string
  lue_delta :: LedgerUpdateDelta

definition LedgerUpdateEntry_init :: LedgerUpdateEntry where
  "LedgerUpdateEntry_init = \<lparr>lue_time = undefined, lue_hash = '''', lue_delta = LedgerUpdateDelta_init\<rparr>"

definition LedgerUpdateEntry_zero :: LedgerUpdateEntry where
  "LedgerUpdateEntry_zero = \<lparr>lue_time = 0, lue_hash = '''', lue_delta = LedgerUpdateDelta_zero\<rparr>"

record UserFundingLedgerUpdateResponse =
  uflur_updates :: "LedgerUpdateEntry list"

definition UserFundingLedgerUpdateResponse_init :: UserFundingLedgerUpdateResponse where
  "UserFundingLedgerUpdateResponse_init = \<lparr>uflur_updates = []\<rparr>"

record PerpAnnotationResponse =
  par_category :: string
  par_description :: string

definition PerpAnnotationResponse_init :: PerpAnnotationResponse where
  "PerpAnnotationResponse_init = \<lparr>par_category = '''', par_description = ''''\<rparr>"

record PerpCategoryEntry =
  pce_coin :: string
  pce_category :: string

definition PerpCategoryEntry_init :: PerpCategoryEntry where
  "PerpCategoryEntry_init = \<lparr>pce_coin = '''', pce_category = ''''\<rparr>"

record PerpCategoriesResponse =
  pcr_categories :: "PerpCategoryEntry list"

definition PerpCategoriesResponse_init :: PerpCategoriesResponse where
  "PerpCategoriesResponse_init = \<lparr>pcr_categories = []\<rparr>"

record PerpConciseAnnotationEntry =
  pcae_coin :: string
  pcae_category :: string
  pcae_keywords :: "string list"

definition PerpConciseAnnotationEntry_init :: PerpConciseAnnotationEntry where
  "PerpConciseAnnotationEntry_init = \<lparr>pcae_coin = '''', pcae_category = '''', pcae_keywords = []\<rparr>"

record PerpConciseAnnotationsResponse =
  pcar_annotations :: "PerpConciseAnnotationEntry list"

definition PerpConciseAnnotationsResponse_init :: PerpConciseAnnotationsResponse where
  "PerpConciseAnnotationsResponse_init = \<lparr>pcar_annotations = []\<rparr>"

record MarginTier =
  mt_lowerBound :: double
  mt_maxLeverage :: int

definition MarginTier_init :: MarginTier where
  "MarginTier_init = \<lparr>mt_lowerBound = undefined, mt_maxLeverage = undefined\<rparr>"

record MarginTableEntry =
  mte_id :: int
  mte_description :: string
  mte_marginTiers :: "MarginTier list"

definition MarginTableEntry_init :: MarginTableEntry where
  "MarginTableEntry_init = \<lparr>mte_id = undefined, mte_description = '''', mte_marginTiers = []\<rparr>"

record PerpDexMeta =
  pdm_universe :: "AssetMeta list"
  pdm_marginTables :: "MarginTableEntry list"
  pdm_collateralToken :: int

definition PerpDexMeta_init :: PerpDexMeta where
  "PerpDexMeta_init = \<lparr>pdm_universe = [], pdm_marginTables = [], pdm_collateralToken = undefined\<rparr>"

record AllPerpMetasResponse =
  apmr_dexMetas :: "PerpDexMeta list"

definition AllPerpMetasResponse_init :: AllPerpMetasResponse where
  "AllPerpMetasResponse_init = \<lparr>apmr_dexMetas = []\<rparr>"

record RestBookLevel =
  rbl_px :: string
  rbl_sz :: string
  rbl_n :: int

definition RestBookLevel_init :: RestBookLevel where
  "RestBookLevel_init = \<lparr>rbl_px = '''', rbl_sz = '''', rbl_n = undefined\<rparr>"

record L2BookResponse =
  lbr_coin :: string
  lbr_time :: u64
  lbr_bids :: "RestBookLevel list"
  lbr_asks :: "RestBookLevel list"

definition L2BookResponse_init :: L2BookResponse where
  "L2BookResponse_init = \<lparr>lbr_coin = '''', lbr_time = undefined, lbr_bids = [], lbr_asks = []\<rparr>"

record CandleSnapshotResponse =
  csr_candles :: "Candle list"

definition CandleSnapshotResponse_init :: CandleSnapshotResponse where
  "CandleSnapshotResponse_init = \<lparr>csr_candles = []\<rparr>"

record RecentTrade =
  rt_coin :: string
  rt_side :: char
  rt_px :: double
  rt_sz :: double
  rt_time :: u64
  rt_hash :: string
  rt_tid :: u64
  rt_users :: "string list"

definition RecentTrade_init :: RecentTrade where
  "RecentTrade_init = \<lparr>rt_coin = '''', rt_side = undefined, rt_px = undefined, rt_sz = undefined,
     rt_time = undefined, rt_hash = '''', rt_tid = undefined, rt_users = replicate 2 ''''\<rparr>"

record RecentTradesResponse =
  rtr_trades :: "RecentTrade list"

definition RecentTradesResponse_init :: RecentTradesResponse where
  "RecentTradesResponse_init = \<lparr>rtr_trades = []\<rparr>"

record AllMidsResponse =
  amr_mids :: "AllMidsEntry list"

definition AllMidsResponse_init :: AllMidsResponse where
  "AllMidsResponse_init = \<lparr>amr_mids = []\<rparr>"

record OpenOrdersResponse =
  oor_orders :: "OpenOrder list"

definition OpenOrdersResponse_init :: OpenOrdersResponse where
  "OpenOrdersResponse_init = \<lparr>oor_orders = []\<rparr>"

record OrderStatusOrder =
  oso_order :: OpenOrder
  oso_status :: OrderStatus
  oso_statusTimestamp :: u64

definition OrderStatusOrder_init :: OrderStatusOrder where
  "OrderStatusOrder_init = \<lparr>oso_order = OpenOrder_init, oso_status = undefined, oso_statusTimestamp = undefined\<rparr>"

record OrderStatusResponse =
  osr_status :: string
  osr_order :: "OrderStatusOrder option"

definition OrderStatusResponse_init :: OrderStatusResponse where
  "OrderStatusResponse_init = \<lparr>osr_status = '''', osr_order = None\<rparr>"

record UserFillsResponse =
  ufr_fills :: "Fill list"

definition UserFillsResponse_init :: UserFillsResponse where
  "UserFillsResponse_init = \<lparr>ufr_fills = []\<rparr>"

record UserRateLimitResponse =
  urlr_cumVlm :: double
  urlr_nRequestsUsed :: int
  urlr_nRequestsCap :: int
  urlr_nRequestsSurplus :: int

definition UserRateLimitResponse_init :: UserRateLimitResponse where
  "UserRateLimitResponse_init = \<lparr>urlr_cumVlm = undefined, urlr_nRequestsUsed = undefined, urlr_nRequestsCap = undefined,
     urlr_nRequestsSurplus = undefined\<rparr>"

definition UserRateLimitResponse_zero :: UserRateLimitResponse where
  "UserRateLimitResponse_zero = \<lparr>urlr_cumVlm = d_zero, urlr_nRequestsUsed = 0, urlr_nRequestsCap = 0,
     urlr_nRequestsSurplus = 0\<rparr>"

record MetaAndAssetCtxsResponse =
  maacr_meta :: MetaResponse
  maacr_assetCtxs :: "PerpAssetCtx list"

definition MetaAndAssetCtxsResponse_init :: MetaAndAssetCtxsResponse where
  "MetaAndAssetCtxsResponse_init = \<lparr>maacr_meta = MetaResponse_init, maacr_assetCtxs = []\<rparr>"

record SpotUniversePair =
  sup_name :: string
  sup_tokens :: "int list"
  sup_index :: int
  sup_isCanonical :: bool

definition SpotUniversePair_init :: SpotUniversePair where
  "SpotUniversePair_init = \<lparr>sup_name = '''', sup_tokens = [], sup_index = undefined, sup_isCanonical = undefined\<rparr>"

record SpotMetaAndAssetCtxsMeta =
  smaacm_tokens :: "SpotAssetMeta list"
  smaacm_universe :: "SpotUniversePair list"

definition SpotMetaAndAssetCtxsMeta_init :: SpotMetaAndAssetCtxsMeta where
  "SpotMetaAndAssetCtxsMeta_init = \<lparr>smaacm_tokens = [], smaacm_universe = []\<rparr>"

record SpotMetaAndAssetCtxsResponse =
  smaacr_meta :: SpotMetaAndAssetCtxsMeta
  smaacr_assetCtxs :: "SpotAssetCtx list"

definition SpotMetaAndAssetCtxsResponse_init :: SpotMetaAndAssetCtxsResponse where
  "SpotMetaAndAssetCtxsResponse_init = \<lparr>smaacr_meta = SpotMetaAndAssetCtxsMeta_init, smaacr_assetCtxs = []\<rparr>"

end
