(* ===== verification/Rest_Market_Parser.thy ===== *)
theory Rest_Market_Parser
  imports Rest_Fields Outcome_Text Info_Types Stream_Types Reply_Types
begin

text \<open>
  \<open>RestApiMessageParser\<close>: the answers on markets (metadata, asset contexts, DEX status, outcome markets).
  Each function is its C++ body statement by statement, in continuation style: a local that is
  assigned is bound again, \<open>tryE s m (\<lambda>v. \<dots>)\<close> evaluates \<open>m\<close> while \<open>s\<close> is what the handler would
  return, \<open>Inl (Return s)\<close> is a \<open>return\<close> inside the \<open>try\<close> block.
\<close>

definition parseOutcomeSpec :: "'v sj_reader \<Rightarrow> 'v \<Rightarrow> Outcome \<Rightarrow> Outcome exit + Outcome" where
  "parseOutcomeSpec S obj outcome =
     (tryE outcome (field_int64 S obj ''outcome'') (\<lambda>v.
     let outcome = outcome\<lparr>out_outcome := to_int32 v\<rparr> in
     tryE outcome (field_string S obj ''name'') (\<lambda>v.
     let outcome = outcome\<lparr>out_name := v\<rparr> in
     tryE outcome (field_string S obj ''description'') (\<lambda>v.
     let outcome = outcome\<lparr>out_descriptionRaw := v\<rparr> in
     tryE outcome (parseOutcomeDescription (out_descriptionRaw outcome)) (\<lambda>v.
     let outcome = outcome\<lparr>out_description := v\<rparr> in
     tryE outcome (field_array S obj ''sideSpecs'') (\<lambda>sideSpecs.
     bindE (foldE (\<lambda>sideEntry outcome.
       tryE outcome (sj_object S sideEntry) (\<lambda>sideObj.
       let spec = OutcomeSideSpec_init in
       tryE outcome (field_string S sideObj ''name'') (\<lambda>v.
       let spec = spec\<lparr>oss_name := v\<rparr> in
       let spec = (case field_int64 S sideObj ''token'' of
        Inr token \<Rightarrow>
          let spec = spec\<lparr>oss_token := Some (to_int32 token)\<rparr> in
          spec
        | Inl _ \<Rightarrow>
          spec) in
       let outcome = outcome\<lparr>out_sideSpecs := (out_sideSpecs outcome) @ [spec]\<rparr> in
       Inr outcome))) sideSpecs outcome) (\<lambda>outcome.
     let outcome = (case field_string S obj ''quoteToken'' of
      Inr quoteToken \<Rightarrow>
        let outcome = outcome\<lparr>out_quoteToken := quoteToken\<rparr> in
        outcome
      | Inl _ \<Rightarrow>
        outcome) in
     (case field_string S obj ''deployer'' of
      Inr deployer \<Rightarrow>
        let outcome = outcome\<lparr>out_deployer := Some deployer\<rparr> in
        Inr outcome
      | Inl _ \<Rightarrow>
        Inr outcome))))))))"

definition parseOutcomeMeta :: "'v sj_reader \<Rightarrow> string \<Rightarrow> OutcomeMetaResponse outcome" where
  "parseOutcomeMeta S message =
     (let response = OutcomeMetaResponse_init in
     let doc = sj_iterate S message in
     finish (
      tryE response (sj_validate S message) (\<lambda>_.
      tryE response (bindE (sj_at S doc ''outcomes'') (sj_array S)) (\<lambda>outcomes.
      foldE (\<lambda>entry response.
        tryE response (sj_object S entry) (\<lambda>obj.
        let outcome = Outcome_init in
        callE (\<lambda>outcome. response) (parseOutcomeSpec S obj outcome) (\<lambda>outcome.
        let response = response\<lparr>omr_outcomes := (omr_outcomes response) @ [outcome]\<rparr> in
        Inr response))) outcomes response))))"

definition parseSettledOutcome :: "'v sj_reader \<Rightarrow> string \<Rightarrow> SettledOutcomeResponse outcome" where
  "parseSettledOutcome S message =
     (let response = SettledOutcomeResponse_init in
     let doc = sj_iterate S message in
     finish (
      tryE response (sj_validate S message) (\<lambda>_.
      tryE response (bindE doc (\<lambda>x. sj_type S x)) (\<lambda>v.
      (if v = SJ_Null then
        Inl (Return response)
       else
        tryE response (bindE doc (sj_object S)) (\<lambda>root.
        let response = response\<lparr>sor_isSettled := True\<rparr> in
        tryE response (field_object S root ''spec'') (\<lambda>spec.
        callE (\<lambda>r. response\<lparr>sor_spec := r\<rparr>) (parseOutcomeSpec S spec (sor_spec response)) (\<lambda>r.
        let response = response\<lparr>sor_spec := r\<rparr> in
        tryE response (field_string S root ''settleFraction'') (\<lambda>v.
        tryE response (toDouble v) (\<lambda>v2.
        let response = response\<lparr>sor_settleFraction := v2\<rparr> in
        tryE response (field_string S root ''details'') (\<lambda>v.
        let response = response\<lparr>sor_details := v\<rparr> in
        (case field_object S root ''question'' of
         Inr questionObj \<Rightarrow>
           let question = SettledOutcomeQuestion_init in
           tryE response (field_object S questionObj ''question'') (\<lambda>questionId.
           bindE (case field_int64 S questionId ''active'' of
            Inr active \<Rightarrow>
              let question = question\<lparr>soq_isSettled := False\<rparr> in
              let question = question\<lparr>soq_questionId := to_int32 active\<rparr> in
              Inr question
            | Inl _ \<Rightarrow>
              let question = question\<lparr>soq_isSettled := True\<rparr> in
              tryE response (field_int64 S questionId ''settled'') (\<lambda>v.
              let question = question\<lparr>soq_questionId := to_int32 v\<rparr> in
              Inr question)) (\<lambda>question.
           tryE response (field_string S questionObj ''name'') (\<lambda>v.
           let question = question\<lparr>soq_name := v\<rparr> in
           tryE response (field_string S questionObj ''description'') (\<lambda>v.
           let question = question\<lparr>soq_description := v\<rparr> in
           let response = response\<lparr>sor_question := Some question\<rparr> in
           Inr response))))
         | Inl _ \<Rightarrow>
           Inr response))))))))))))"

definition parsePerpDexs :: "'v sj_reader \<Rightarrow> string \<Rightarrow> PerpDexsResponse outcome" where
  "parsePerpDexs S message =
     (let response = PerpDexsResponse_init in
     let doc = sj_iterate S message in
     finish (
      tryE response (sj_validate S message) (\<lambda>_.
      tryE response (bindE doc (sj_array S)) (\<lambda>arr.
      let firstElement = True in
      bindE (foldE (\<lambda>entry (firstElement, response).
        (if firstElement then
          let firstElement = False in
          Inr (firstElement, response)
         else
          tryE response (sj_object S entry) (\<lambda>obj.
          let dex = PerpDex_init in
          tryE response (field_string S obj ''name'') (\<lambda>v.
          let dex = dex\<lparr>pd_name := v\<rparr> in
          tryE response (field_string S obj ''fullName'') (\<lambda>v.
          let dex = dex\<lparr>pd_fullName := v\<rparr> in
          tryE response (field_string S obj ''deployer'') (\<lambda>v.
          let dex = dex\<lparr>pd_deployer := v\<rparr> in
          bindE (case sj_field S obj ''oracleUpdater'' of
           Inr oracleUpdater \<Rightarrow>
             (if \<not> (is_null S oracleUpdater) then
               tryE response (sj_string S oracleUpdater) (\<lambda>v.
               let dex = dex\<lparr>pd_oracleUpdater := Some v\<rparr> in
               Inr dex)
              else Inr dex)
           | Inl _ \<Rightarrow>
             Inr dex) (\<lambda>dex.
          bindE (case sj_field S obj ''feeRecipient'' of
           Inr feeRecipient \<Rightarrow>
             (if \<not> (is_null S feeRecipient) then
               tryE response (sj_string S feeRecipient) (\<lambda>v.
               let dex = dex\<lparr>pd_feeRecipient := Some v\<rparr> in
               Inr dex)
              else Inr dex)
           | Inl _ \<Rightarrow>
             Inr dex) (\<lambda>dex.
          tryE response (field_array S obj ''assetToStreamingOiCap'') (\<lambda>oiCaps.
          bindE (foldE (\<lambda>pair dex.
            tryE response (sj_array S pair) (\<lambda>pairArr.
            let iter = pairArr in
            (if iter = [] then
              Inr dex
             else
              tryE response (sj_string S (hd iter)) (\<lambda>asset.
              let iter = tl iter in
              (if iter = [] then
                Inr dex
               else
                tryE response (sj_string S (hd iter)) (\<lambda>cap.
                let dex = dex\<lparr>pd_assetToStreamingOiCap := (pd_assetToStreamingOiCap dex) @ [(asset, cap)]\<rparr> in
                Inr dex)))))) oiCaps dex) (\<lambda>dex.
          tryE response (field_array S obj ''assetToFundingMultiplier'') (\<lambda>fundingMults.
          bindE (foldE (\<lambda>pair dex.
            tryE response (sj_array S pair) (\<lambda>pairArr.
            let iter = pairArr in
            (if iter = [] then
              Inr dex
             else
              tryE response (sj_string S (hd iter)) (\<lambda>asset.
              let iter = tl iter in
              (if iter = [] then
                Inr dex
               else
                tryE response (sj_string S (hd iter)) (\<lambda>multiplier.
                let dex = dex\<lparr>pd_assetToFundingMultiplier := (pd_assetToFundingMultiplier dex) @ [(asset, multiplier)]\<rparr> in
                Inr dex)))))) fundingMults dex) (\<lambda>dex.
          let response = response\<lparr>pdr_dexes := (pdr_dexes response) @ [dex]\<rparr> in
          Inr (firstElement, response))))))))))))) arr (firstElement, response)) (\<lambda>(firstElement, response).
      Inr response)))))"

definition parsePerpDexLimits :: "'v sj_reader \<Rightarrow> string \<Rightarrow> PerpDexLimitsResponse outcome" where
  "parsePerpDexLimits S message =
     (let response = PerpDexLimitsResponse_init in
     let doc = sj_iterate S message in
     finish (
      tryE response (sj_validate S message) (\<lambda>_.
      tryE response (bindE doc (\<lambda>x. sj_type S x)) (\<lambda>v.
      (if v = SJ_Null then
        Inl (Return response)
       else
        tryE response (bindE doc (sj_object S)) (\<lambda>obj.
        let response = response\<lparr>pdlr_exists := True\<rparr> in
        tryE response (parseNumberField S obj ''totalOiCap'') (\<lambda>v.
        let response = response\<lparr>pdlr_totalOiCap := v\<rparr> in
        tryE response (parseNumberField S obj ''oiSzCapPerPerp'') (\<lambda>v.
        let response = response\<lparr>pdlr_oiSzCapPerPerp := v\<rparr> in
        tryE response (parseNumberField S obj ''maxTransferNtl'') (\<lambda>v.
        let response = response\<lparr>pdlr_maxTransferNtl := v\<rparr> in
        tryE response (field_array S obj ''coinToOiCap'') (\<lambda>coinToOiCap.
        foldE (\<lambda>entry response.
          tryE response (sj_array S entry) (\<lambda>pair.
          let iter = pair in
          (if iter = [] then
            Inr response
           else
            let cap = PerpDexLimitsCoinCap_init in
            tryE response (sj_string S (hd iter)) (\<lambda>v.
            let cap = cap\<lparr>pdlcc_coin := v\<rparr> in
            let iter = tl iter in
            (if iter = [] then
              Inr response
             else
              tryE response (sj_string S (hd iter)) (\<lambda>v.
              tryE response (toDouble v) (\<lambda>v2.
              let cap = cap\<lparr>pdlcc_oiCap := v2\<rparr> in
              let response = response\<lparr>pdlr_coinToOiCap := (pdlr_coinToOiCap response) @ [cap]\<rparr> in
              Inr response))))))) coinToOiCap response))))))))))"

definition parsePerpDexStatus :: "'v sj_reader \<Rightarrow> string \<Rightarrow> PerpDexStatusResponse outcome" where
  "parsePerpDexStatus S message =
     (let response = PerpDexStatusResponse_init in
     let doc = sj_iterate S message in
     finish (
      tryE response (sj_validate S message) (\<lambda>_.
      tryE response (bindE doc (\<lambda>x. sj_type S x)) (\<lambda>v.
      (if v = SJ_Null then
        Inl (Return response)
       else
        tryE response (bindE doc (sj_object S)) (\<lambda>obj.
        let response = response\<lparr>pdsr_exists := True\<rparr> in
        tryE response (parseNumberField S obj ''totalNetDeposit'') (\<lambda>v.
        let response = response\<lparr>pdsr_totalNetDeposit := v\<rparr> in
        Inr response)))))))"

definition parsePerpsAtOpenInterestCap :: "'v sj_reader \<Rightarrow> string \<Rightarrow> PerpsAtOpenInterestCapResponse outcome" where
  "parsePerpsAtOpenInterestCap S message =
     (let response = PerpsAtOpenInterestCapResponse_init in
     let doc = sj_iterate S message in
     finish (
      tryE response (sj_validate S message) (\<lambda>_.
      tryE response (bindE doc (sj_array S)) (\<lambda>arr.
      foldE (\<lambda>entry response.
        tryE response (sj_string S entry) (\<lambda>v.
        let response = response\<lparr>paoicr_coins := (paoicr_coins response) @ [v]\<rparr> in
        Inr response)) arr response))))"

definition parsePredictedFundings :: "'v sj_reader \<Rightarrow> string \<Rightarrow> PredictedFundingsResponse outcome" where
  "parsePredictedFundings S message =
     (let response = PredictedFundingsResponse_init in
     let doc = sj_iterate S message in
     finish (
      tryE response (sj_validate S message) (\<lambda>_.
      tryE response (bindE doc (sj_array S)) (\<lambda>arr.
      foldE (\<lambda>entry response.
        tryE response (sj_array S entry) (\<lambda>pair.
        let iter = pair in
        (if iter = [] then
          Inr response
         else
          let pf = PredictedFundingEntry_init in
          tryE response (sj_string S (hd iter)) (\<lambda>v.
          let pf = pf\<lparr>pfe_coin := v\<rparr> in
          let iter = tl iter in
          (if iter = [] then
            Inr response
           else
            tryE response (sj_array S (hd iter)) (\<lambda>venues.
            bindE (foldE (\<lambda>venueEntry pf.
              tryE response (sj_array S venueEntry) (\<lambda>venuePair.
              let vIter = venuePair in
              (if vIter = [] then
                Inr pf
               else
                let venue = PredictedFundingVenue_init in
                tryE response (sj_string S (hd vIter)) (\<lambda>v.
                let venue = venue\<lparr>pfv_venue := v\<rparr> in
                let vIter = tl vIter in
                (if vIter = [] then
                  let pf = pf\<lparr>pfe_venues := (pfe_venues pf) @ [venue]\<rparr> in
                  Inr pf
                 else
                  bindE (case (Inr (hd vIter) :: 'v outcome) of
                   Inr objVal \<Rightarrow>
                     (if \<not> (is_null S objVal) then
                       tryE response (sj_object S objVal) (\<lambda>obj.
                       bindE (case sj_field S obj ''fundingRate'' of
                        Inr rateVal \<Rightarrow>
                          (if \<not> (is_null S rateVal) then
                            tryE response ((case sj_string S rateVal of Inr sv \<Rightarrow> (toDouble sv) | Inl _ \<Rightarrow>
                                (sj_double S rateVal))) (\<lambda>v.
                            let venue = venue\<lparr>pfv_fundingRate := Some v\<rparr> in
                            Inr venue)
                           else Inr venue)
                        | Inl _ \<Rightarrow>
                          Inr venue) (\<lambda>venue.
                       (case sj_field S obj ''nextFundingTime'' of
                        Inr timeVal \<Rightarrow>
                          (if \<not> (is_null S timeVal) then
                            tryE response (sj_uint64 S timeVal) (\<lambda>v.
                            let venue = venue\<lparr>pfv_nextFundingTime := Some v\<rparr> in
                            Inr venue)
                           else Inr venue)
                        | Inl _ \<Rightarrow>
                          Inr venue)))
                      else Inr venue)
                   | Inl _ \<Rightarrow>
                     Inr venue) (\<lambda>venue.
                  let pf = pf\<lparr>pfe_venues := (pfe_venues pf) @ [venue]\<rparr> in
                  Inr pf)))))) venues pf) (\<lambda>pf.
            let response = response\<lparr>pfr_fundings := (pfr_fundings response) @ [pf]\<rparr> in
            Inr response))))))) arr response))))"

definition parsePerpAnnotation :: "'v sj_reader \<Rightarrow> string \<Rightarrow> PerpAnnotationResponse outcome" where
  "parsePerpAnnotation S message =
     (let response = PerpAnnotationResponse_init in
     let doc = sj_iterate S message in
     finish (
      tryE response (sj_validate S message) (\<lambda>_.
      tryE response (bindE doc (\<lambda>x. sj_type S x)) (\<lambda>v.
      (if v \<noteq> SJ_Null then
        tryE response (bindE doc (sj_object S)) (\<lambda>obj.
        tryE response (field_string S obj ''category'') (\<lambda>v.
        let response = response\<lparr>par_category := v\<rparr> in
        tryE response (field_string S obj ''description'') (\<lambda>v.
        let response = response\<lparr>par_description := v\<rparr> in
        Inr response)))
       else Inr response)))))"

definition parsePerpCategories :: "'v sj_reader \<Rightarrow> string \<Rightarrow> PerpCategoriesResponse outcome" where
  "parsePerpCategories S message =
     (let response = PerpCategoriesResponse_init in
     let doc = sj_iterate S message in
     finish (
      tryE response (sj_validate S message) (\<lambda>_.
      tryE response (bindE doc (sj_array S)) (\<lambda>arr.
      foldE (\<lambda>entry response.
        tryE response (sj_array S entry) (\<lambda>pair.
        let iter = pair in
        (if iter = [] then
          Inr response
         else
          let pc = PerpCategoryEntry_init in
          tryE response (sj_string S (hd iter)) (\<lambda>v.
          let pc = pc\<lparr>pce_coin := v\<rparr> in
          let iter = tl iter in
          (if iter = [] then
            Inr response
           else
            tryE response (sj_string S (hd iter)) (\<lambda>v.
            let pc = pc\<lparr>pce_category := v\<rparr> in
            let response = response\<lparr>pcr_categories := (pcr_categories response) @ [pc]\<rparr> in
            Inr response)))))) arr response))))"

definition parsePerpConciseAnnotations :: "'v sj_reader \<Rightarrow> string \<Rightarrow> PerpConciseAnnotationsResponse outcome" where
  "parsePerpConciseAnnotations S message =
     (let response = PerpConciseAnnotationsResponse_init in
     let doc = sj_iterate S message in
     finish (
      tryE response (sj_validate S message) (\<lambda>_.
      tryE response (bindE doc (sj_array S)) (\<lambda>arr.
      foldE (\<lambda>entry response.
        tryE response (sj_array S entry) (\<lambda>pair.
        let iter = pair in
        (if iter = [] then
          Inr response
         else
          let pc = PerpConciseAnnotationEntry_init in
          tryE response (sj_string S (hd iter)) (\<lambda>v.
          let pc = pc\<lparr>pcae_coin := v\<rparr> in
          let iter = tl iter in
          (if iter = [] then
            Inr response
           else
            tryE response (sj_object S (hd iter)) (\<lambda>obj.
            tryE response (field_string S obj ''category'') (\<lambda>v.
            let pc = pc\<lparr>pcae_category := v\<rparr> in
            bindE (case field_array S obj ''keywords'' of
             Inr keywords \<Rightarrow>
               foldE (\<lambda>kw pc.
                 tryE response (sj_string S kw) (\<lambda>v.
                 let pc = pc\<lparr>pcae_keywords := (pcae_keywords pc) @ [v]\<rparr> in
                 Inr pc)) keywords pc
             | Inl _ \<Rightarrow>
               Inr pc) (\<lambda>pc.
            let response = response\<lparr>pcar_annotations := (pcar_annotations response) @ [pc]\<rparr> in
            Inr response)))))))) arr response))))"

definition parseAllPerpMetas :: "'v sj_reader \<Rightarrow> string \<Rightarrow> AllPerpMetasResponse outcome" where
  "parseAllPerpMetas S message =
     (let response = AllPerpMetasResponse_init in
     let doc = sj_iterate S message in
     finish (
      tryE response (sj_validate S message) (\<lambda>_.
      tryE response (bindE doc (sj_array S)) (\<lambda>arr.
      foldE (\<lambda>entry response.
        tryE response (sj_object S entry) (\<lambda>metaObj.
        let dexMeta = PerpDexMeta_init in
        tryE response (field_array S metaObj ''universe'') (\<lambda>universe.
        bindE (foldE (\<lambda>u dexMeta.
          tryE response (sj_object S u) (\<lambda>uObj.
          let asset = AssetMeta_init in
          bindE (foldE (\<lambda>field asset.
            let key = fst field in
            (if key = ''name'' then
              tryE response (sj_string S (snd field)) (\<lambda>v.
              let asset = asset\<lparr>am_name := v\<rparr> in
              Inr asset)
             else (if key = ''szDecimals'' then
               tryE response (sj_int64 S (snd field)) (\<lambda>v.
               let asset = asset\<lparr>am_szDecimals := to_int32 v\<rparr> in
               Inr asset)
              else (if key = ''maxLeverage'' then
                tryE response (sj_int64 S (snd field)) (\<lambda>v.
                let asset = asset\<lparr>am_maxLeverage := to_int32 v\<rparr> in
                Inr asset)
               else Inr asset)))) (sj_members S uObj) asset) (\<lambda>asset.
          let dexMeta = dexMeta\<lparr>pdm_universe := (pdm_universe dexMeta) @ [asset]\<rparr> in
          Inr dexMeta))) universe dexMeta) (\<lambda>dexMeta.
        bindE (case field_array S metaObj ''marginTables'' of
         Inr marginTables \<Rightarrow>
           foldE (\<lambda>mt dexMeta.
             tryE response (sj_array S mt) (\<lambda>mtPair.
             let mtIter = mtPair in
             (if mtIter = [] then
               Inr dexMeta
              else
               let table = MarginTableEntry_init in
               tryE response (sj_int64 S (hd mtIter)) (\<lambda>v.
               let table = table\<lparr>mte_id := to_int32 v\<rparr> in
               let mtIter = tl mtIter in
               (if mtIter = [] then
                 Inr dexMeta
                else
                 tryE response (sj_object S (hd mtIter)) (\<lambda>tableObj.
                 tryE response (field_string S tableObj ''description'') (\<lambda>v.
                 let table = table\<lparr>mte_description := v\<rparr> in
                 tryE response (field_array S tableObj ''marginTiers'') (\<lambda>tiers.
                 bindE (foldE (\<lambda>t table.
                   tryE response (sj_object S t) (\<lambda>tObj.
                   let tier = MarginTier_init in
                   tryE response (field_string S tObj ''lowerBound'') (\<lambda>v.
                   tryE response (toDouble v) (\<lambda>v2.
                   let tier = tier\<lparr>mt_lowerBound := v2\<rparr> in
                   tryE response (field_int64 S tObj ''maxLeverage'') (\<lambda>v.
                   let tier = tier\<lparr>mt_maxLeverage := to_int32 v\<rparr> in
                   let table = table\<lparr>mte_marginTiers := (mte_marginTiers table) @ [tier]\<rparr> in
                   Inr table))))) tiers table) (\<lambda>table.
                 let dexMeta = dexMeta\<lparr>pdm_marginTables := (pdm_marginTables dexMeta) @ [table]\<rparr> in
                 Inr dexMeta))))))))) marginTables dexMeta
         | Inl _ \<Rightarrow>
           Inr dexMeta) (\<lambda>dexMeta.
        let dexMeta = dexMeta\<lparr>pdm_collateralToken := 0\<rparr> in
        bindE (case sj_field S metaObj ''collateralToken'' of
         Inr collateralVal \<Rightarrow>
           (if \<not> (is_null S collateralVal) then
             tryE response (sj_int64 S collateralVal) (\<lambda>v.
             let dexMeta = dexMeta\<lparr>pdm_collateralToken := to_int32 v\<rparr> in
             Inr dexMeta)
            else Inr dexMeta)
         | Inl _ \<Rightarrow>
           Inr dexMeta) (\<lambda>dexMeta.
        let response = response\<lparr>apmr_dexMetas := (apmr_dexMetas response) @ [dexMeta]\<rparr> in
        Inr response)))))) arr response))))"

definition parsePerpDeployAuctionStatus :: "'v sj_reader \<Rightarrow> string \<Rightarrow> PerpDeployAuctionStatusResponse outcome" where
  "parsePerpDeployAuctionStatus S message =
     (let response = PerpDeployAuctionStatusResponse_init in
     let doc = sj_iterate S message in
     finish (
      tryE response (sj_validate S message) (\<lambda>_.
      tryE response (bindE doc (sj_object S)) (\<lambda>obj.
      tryE response (field_uint64 S obj ''startTimeSeconds'') (\<lambda>v.
      let response = response\<lparr>pdasr_startTimeSeconds := v\<rparr> in
      tryE response (field_uint64 S obj ''durationSeconds'') (\<lambda>v.
      let response = response\<lparr>pdasr_durationSeconds := v\<rparr> in
      tryE response (parseNumberField S obj ''startGas'') (\<lambda>v.
      let response = response\<lparr>pdasr_startGas := v\<rparr> in
      bindE (case sj_field S obj ''currentGas'' of
       Inr currentGasVal \<Rightarrow>
         (if \<not> (is_null S currentGasVal) then
           tryE response (sj_string S currentGasVal) (\<lambda>v.
           tryE response (toDouble v) (\<lambda>v2.
           let response = response\<lparr>pdasr_currentGas := Some v2\<rparr> in
           Inr response))
          else Inr response)
       | Inl _ \<Rightarrow>
         Inr response) (\<lambda>response.
      (case sj_field S obj ''endGas'' of
       Inr endGasVal \<Rightarrow>
         (if \<not> (is_null S endGasVal) then
           tryE response (sj_string S endGasVal) (\<lambda>v.
           tryE response (toDouble v) (\<lambda>v2.
           let response = response\<lparr>pdasr_endGas := Some v2\<rparr> in
           Inr response))
          else Inr response)
       | Inl _ \<Rightarrow>
         Inr response)))))))))"

definition parseFundingHistory :: "'v sj_reader \<Rightarrow> string \<Rightarrow> FundingHistoryResponse outcome" where
  "parseFundingHistory S message =
     (let response = FundingHistoryResponse_init in
     let doc = sj_iterate S message in
     finish (
      tryE response (sj_validate S message) (\<lambda>_.
      tryE response (bindE doc (sj_array S)) (\<lambda>arr.
      foldE (\<lambda>entry response.
        tryE response (sj_object S entry) (\<lambda>obj.
        let historyEntry = FundingHistoryEntry_zero in
        tryE response (field_string S obj ''coin'') (\<lambda>v.
        let historyEntry = historyEntry\<lparr>fhe_coin := v\<rparr> in
        tryE response (parseNumberField S obj ''fundingRate'') (\<lambda>v.
        let historyEntry = historyEntry\<lparr>fhe_fundingRate := v\<rparr> in
        tryE response (parseNumberField S obj ''premium'') (\<lambda>v.
        let historyEntry = historyEntry\<lparr>fhe_premium := v\<rparr> in
        tryE response (field_uint64 S obj ''time'') (\<lambda>v.
        let historyEntry = historyEntry\<lparr>fhe_time := v\<rparr> in
        let response = response\<lparr>fhr_history := (fhr_history response) @ [historyEntry]\<rparr> in
        Inr response)))))) arr response))))"

definition parseMetaAndAssetCtxs :: "'v sj_reader \<Rightarrow> string \<Rightarrow> MetaAndAssetCtxsResponse outcome" where
  "parseMetaAndAssetCtxs S message =
     (let response = MetaAndAssetCtxsResponse_init in
     let doc = sj_iterate S message in
     finish (
      tryE response (sj_validate S message) (\<lambda>_.
      tryE response (bindE doc (sj_array S)) (\<lambda>arr.
      let it = arr in
      (if it = [] then
        Inl (Return response)
       else
        tryE response (sj_object S (hd it)) (\<lambda>metaObj.
        tryE response (field_array S metaObj ''universe'') (\<lambda>universe.
        bindE (foldE (\<lambda>entry response.
          tryE response (sj_object S entry) (\<lambda>obj.
          let asset = AssetMeta_init in
          tryE response (field_string S obj ''name'') (\<lambda>v.
          let asset = asset\<lparr>am_name := v\<rparr> in
          tryE response (field_int64 S obj ''szDecimals'') (\<lambda>v.
          let asset = asset\<lparr>am_szDecimals := to_int32 v\<rparr> in
          tryE response (field_int64 S obj ''maxLeverage'') (\<lambda>v.
          let asset = asset\<lparr>am_maxLeverage := to_int32 v\<rparr> in
          let response = response\<lparr>maacr_meta := (maacr_meta response)\<lparr>mr_universe := (mr_universe (maacr_meta response)) @ [asset]\<rparr>\<rparr> in
          Inr response))))) universe response) (\<lambda>response.
        let it = tl it in
        (if it = [] then
          Inl (Return response)
         else
          tryE response (sj_array S (hd it)) (\<lambda>ctxs.
          let idx = (0 :: u64) in
          bindE (foldE (\<lambda>entry (response, idx).
            tryE response (sj_object S entry) (\<lambda>obj.
            let ctx = PerpAssetCtx_init in
            let ctx = ctx\<lparr>pac_coin := (if (unat idx) < (length (mr_universe (maacr_meta response))) then am_name ((mr_universe (maacr_meta response)) ! (unat idx)) else '''')\<rparr> in
            tryE response (parseNumberField S obj ''dayNtlVlm'') (\<lambda>v.
            let ctx = ctx\<lparr>pac_dayNtlVlm := v\<rparr> in
            tryE response (parseNumberField S obj ''prevDayPx'') (\<lambda>v.
            let ctx = ctx\<lparr>pac_prevDayPx := v\<rparr> in
            tryE response (parseNumberField S obj ''markPx'') (\<lambda>v.
            let ctx = ctx\<lparr>pac_markPx := v\<rparr> in
            let midStr = '''' in
            let (ok, midStr) = (case field_string S obj ''midPx'' of Inr midStr \<Rightarrow> (True, midStr) | Inl _ \<Rightarrow>
                (False, midStr)) in
            let ctx = ctx\<lparr>pac_hasMidPx := ok\<rparr> in
            tryE response ((if pac_hasMidPx ctx then (toDouble midStr) else (Inr d_zero))) (\<lambda>v2.
            let ctx = ctx\<lparr>pac_midPx := v2\<rparr> in
            tryE response (parseNumberField S obj ''funding'') (\<lambda>v.
            let ctx = ctx\<lparr>pac_funding := v\<rparr> in
            tryE response (parseNumberField S obj ''openInterest'') (\<lambda>v.
            let ctx = ctx\<lparr>pac_openInterest := v\<rparr> in
            tryE response (parseNumberField S obj ''oraclePx'') (\<lambda>v.
            let ctx = ctx\<lparr>pac_oraclePx := v\<rparr> in
            let response = response\<lparr>maacr_assetCtxs := (maacr_assetCtxs response) @ [ctx]\<rparr> in
            let idx = idx + 1 in
            Inr (response, idx)))))))))) ctxs (response, idx)) (\<lambda>(response, idx).
          Inr response)))))))))))"

definition parseSpotMetaAndAssetCtxs :: "'v sj_reader \<Rightarrow> string \<Rightarrow> SpotMetaAndAssetCtxsResponse outcome" where
  "parseSpotMetaAndAssetCtxs S message =
     (let response = SpotMetaAndAssetCtxsResponse_init in
     let doc = sj_iterate S message in
     finish (
      tryE response (sj_validate S message) (\<lambda>_.
      tryE response (bindE doc (sj_array S)) (\<lambda>arr.
      let it = arr in
      (if it = [] then
        Inl (Return response)
       else
        tryE response (sj_object S (hd it)) (\<lambda>metaObj.
        tryE response (field_array S metaObj ''tokens'') (\<lambda>tokens.
        bindE (foldE (\<lambda>entry response.
          tryE response (sj_object S entry) (\<lambda>obj.
          let token = SpotAssetMeta_init in
          tryE response (field_string S obj ''name'') (\<lambda>v.
          let token = token\<lparr>sam_name := v\<rparr> in
          tryE response (field_int64 S obj ''szDecimals'') (\<lambda>v.
          let token = token\<lparr>sam_szDecimals := to_int32 v\<rparr> in
          tryE response (field_int64 S obj ''weiDecimals'') (\<lambda>v.
          let token = token\<lparr>sam_weiDecimals := to_int32 v\<rparr> in
          tryE response (field_int64 S obj ''index'') (\<lambda>v.
          let token = token\<lparr>sam_index := to_int32 v\<rparr> in
          tryE response (field_string S obj ''tokenId'') (\<lambda>v.
          let token = token\<lparr>sam_tokenId := v\<rparr> in
          tryE response (field_bool S obj ''isCanonical'') (\<lambda>v.
          let token = token\<lparr>sam_isCanonical := v\<rparr> in
          bindE (case sj_field S obj ''evmContract'' of
           Inr evmContract \<Rightarrow>
             (if \<not> (is_null S evmContract) then
               tryE response (field_string S evmContract ''address'') (\<lambda>address.
               tryE response (field_int64 S evmContract ''evm_extra_wei_decimals'') (\<lambda>v.
               let evmExtraWeiDecimals = to_int32 v in
               let token = token\<lparr>sam_evmContract := Some \<lparr>ec_address = address,
                   ec_evm_extra_wei_decimals = evmExtraWeiDecimals\<rparr>\<rparr> in
               Inr token))
              else Inr token)
           | Inl _ \<Rightarrow>
             Inr token) (\<lambda>token.
          bindE (case sj_field S obj ''fullName'' of
           Inr fullName \<Rightarrow>
             (if \<not> (is_null S fullName) then
               tryE response (sj_string S fullName) (\<lambda>v.
               let token = token\<lparr>sam_fullName := Some v\<rparr> in
               Inr token)
              else Inr token)
           | Inl _ \<Rightarrow>
             Inr token) (\<lambda>token.
          let response = response\<lparr>smaacr_meta := (smaacr_meta response)\<lparr>smaacm_tokens := (smaacm_tokens (smaacr_meta response)) @ [token]\<rparr>\<rparr> in
          Inr response)))))))))) tokens response) (\<lambda>response.
        tryE response (field_array S metaObj ''universe'') (\<lambda>universe.
        bindE (foldE (\<lambda>entry response.
          tryE response (sj_object S entry) (\<lambda>obj.
          let pair = SpotUniversePair_init in
          tryE response (field_string S obj ''name'') (\<lambda>v.
          let pair = pair\<lparr>sup_name := v\<rparr> in
          tryE response (field_array S obj ''tokens'') (\<lambda>pairTokens.
          bindE (foldE (\<lambda>tok pair.
            tryE response (sj_int64 S tok) (\<lambda>v.
            let pair = pair\<lparr>sup_tokens := (sup_tokens pair) @ [to_int32 v]\<rparr> in
            Inr pair)) pairTokens pair) (\<lambda>pair.
          tryE response (field_int64 S obj ''index'') (\<lambda>v.
          let pair = pair\<lparr>sup_index := to_int32 v\<rparr> in
          tryE response (field_bool S obj ''isCanonical'') (\<lambda>v.
          let pair = pair\<lparr>sup_isCanonical := v\<rparr> in
          let response = response\<lparr>smaacr_meta := (smaacr_meta response)\<lparr>smaacm_universe := (smaacm_universe (smaacr_meta response)) @ [pair]\<rparr>\<rparr> in
          Inr response))))))) universe response) (\<lambda>response.
        let it = tl it in
        (if it = [] then
          Inl (Return response)
         else
          tryE response (sj_array S (hd it)) (\<lambda>ctxs.
          let idx = (0 :: u64) in
          bindE (foldE (\<lambda>entry (response, idx).
            tryE response (sj_object S entry) (\<lambda>obj.
            let ctx = SpotAssetCtx_init in
            let ctx = ctx\<lparr>sac_coin := (if (unat idx) < (length (smaacm_universe (smaacr_meta response))) then sup_name ((smaacm_universe (smaacr_meta response)) ! (unat idx)) else '''')\<rparr> in
            tryE response (parseNumberField S obj ''dayNtlVlm'') (\<lambda>v.
            let ctx = ctx\<lparr>sac_dayNtlVlm := v\<rparr> in
            tryE response (parseNumberField S obj ''prevDayPx'') (\<lambda>v.
            let ctx = ctx\<lparr>sac_prevDayPx := v\<rparr> in
            tryE response (parseNumberField S obj ''markPx'') (\<lambda>v.
            let ctx = ctx\<lparr>sac_markPx := v\<rparr> in
            let midStr = '''' in
            let (ok, midStr) = (case field_string S obj ''midPx'' of Inr midStr \<Rightarrow> (True, midStr) | Inl _ \<Rightarrow>
                (False, midStr)) in
            let ctx = ctx\<lparr>sac_hasMidPx := ok\<rparr> in
            tryE response ((if sac_hasMidPx ctx then (toDouble midStr) else (Inr d_zero))) (\<lambda>v2.
            let ctx = ctx\<lparr>sac_midPx := v2\<rparr> in
            let ctx = ctx\<lparr>sac_circulatingSupply := d_zero\<rparr> in
            bindE (case sj_field S obj ''circulatingSupply'' of
             Inr circSupply \<Rightarrow>
               (if \<not> (is_null S circSupply) then
                 tryE response ((case sj_string S circSupply of Inr circSv \<Rightarrow> (toDouble circSv) | Inl _ \<Rightarrow>
                     (sj_double S circSupply))) (\<lambda>v.
                 let ctx = ctx\<lparr>sac_circulatingSupply := v\<rparr> in
                 Inr ctx)
                else Inr ctx)
             | Inl _ \<Rightarrow>
               Inr ctx) (\<lambda>ctx.
            let response = response\<lparr>smaacr_assetCtxs := (smaacr_assetCtxs response) @ [ctx]\<rparr> in
            let idx = idx + 1 in
            Inr (response, idx)))))))) ctxs (response, idx)) (\<lambda>(response, idx).
          Inr response)))))))))))))"

definition parseSpotMeta :: "'v sj_reader \<Rightarrow> string \<Rightarrow> SpotMetaResponse outcome" where
  "parseSpotMeta S message =
     (let response = SpotMetaResponse_init in
     let doc = sj_iterate S message in
     finish (
      tryE response (sj_validate S message) (\<lambda>_.
      tryE response (bindE (sj_at S doc ''tokens'') (sj_array S)) (\<lambda>tokens.
      foldE (\<lambda>entry response.
        tryE response (sj_object S entry) (\<lambda>obj.
        let token = SpotAssetMeta_init in
        tryE response (field_string S obj ''name'') (\<lambda>v.
        let token = token\<lparr>sam_name := v\<rparr> in
        tryE response (field_int64 S obj ''szDecimals'') (\<lambda>v.
        let token = token\<lparr>sam_szDecimals := to_int32 v\<rparr> in
        tryE response (field_int64 S obj ''weiDecimals'') (\<lambda>v.
        let token = token\<lparr>sam_weiDecimals := to_int32 v\<rparr> in
        tryE response (field_int64 S obj ''index'') (\<lambda>v.
        let token = token\<lparr>sam_index := to_int32 v\<rparr> in
        tryE response (field_string S obj ''tokenId'') (\<lambda>v.
        let token = token\<lparr>sam_tokenId := v\<rparr> in
        tryE response (field_bool S obj ''isCanonical'') (\<lambda>v.
        let token = token\<lparr>sam_isCanonical := v\<rparr> in
        bindE (case sj_field S obj ''evmContract'' of
         Inr evmContract \<Rightarrow>
           (if \<not> (is_null S evmContract) then
             tryE response (field_string S evmContract ''address'') (\<lambda>address.
             tryE response (field_int64 S evmContract ''evm_extra_wei_decimals'') (\<lambda>v.
             let evmExtraWeiDecimals = to_int32 v in
             let token = token\<lparr>sam_evmContract := Some \<lparr>ec_address = address,
                 ec_evm_extra_wei_decimals = evmExtraWeiDecimals\<rparr>\<rparr> in
             Inr token))
            else Inr token)
         | Inl _ \<Rightarrow>
           Inr token) (\<lambda>token.
        bindE (case sj_field S obj ''fullName'' of
         Inr fullName \<Rightarrow>
           (if \<not> (is_null S fullName) then
             tryE response (sj_string S fullName) (\<lambda>v.
             let token = token\<lparr>sam_fullName := Some v\<rparr> in
             Inr token)
            else Inr token)
         | Inl _ \<Rightarrow>
           Inr token) (\<lambda>token.
        let response = response\<lparr>smr_tokens := (smr_tokens response) @ [token]\<rparr> in
        Inr response)))))))))) tokens response))))"

definition parseMeta :: "'v sj_reader \<Rightarrow> string \<Rightarrow> MetaResponse outcome" where
  "parseMeta S message =
     (let response = MetaResponse_init in
     let doc = sj_iterate S message in
     finish (
      tryE response (sj_validate S message) (\<lambda>_.
      tryE response (bindE (sj_at S doc ''universe'') (sj_array S)) (\<lambda>universe.
      foldE (\<lambda>entry response.
        tryE response (sj_object S entry) (\<lambda>obj.
        let asset = AssetMeta_init in
        tryE response (field_string S obj ''name'') (\<lambda>v.
        let asset = asset\<lparr>am_name := v\<rparr> in
        tryE response (field_int64 S obj ''szDecimals'') (\<lambda>v.
        let asset = asset\<lparr>am_szDecimals := to_int32 v\<rparr> in
        tryE response (field_int64 S obj ''maxLeverage'') (\<lambda>v.
        let asset = asset\<lparr>am_maxLeverage := to_int32 v\<rparr> in
        let response = response\<lparr>mr_universe := (mr_universe response) @ [asset]\<rparr> in
        Inr response))))) universe response))))"

end
