(* ===== verification/Account_Types.thy ===== *)
theory Account_Types
  imports Market_Types Order_Types
begin

text \<open>
  The structures of \<open>ResponseTypes.h\<close> that the information endpoints on accounts answer with (orders, fees,
  portfolios, vaults, referrals, roles), with the conventions of \<open>Market_Types\<close>.
\<close>

datatype FrontendOrderType =
    FrontendOrderType_Market | FrontendOrderType_Limit | FrontendOrderType_StopMarket
    | FrontendOrderType_StopLimit | FrontendOrderType_TakeProfitMarket
    | FrontendOrderType_TakeProfitLimit | FrontendOrderType_Unknown

definition stringToFrontendOrderType :: "string \<Rightarrow> FrontendOrderType" where
  "stringToFrontendOrderType s =
     (if s = ''Market'' then FrontendOrderType_Market
      else if s = ''Limit'' then FrontendOrderType_Limit
      else if s = ''Stop Market'' then FrontendOrderType_StopMarket
      else if s = ''Stop Limit'' then FrontendOrderType_StopLimit
      else if s = ''Take Profit Market'' then FrontendOrderType_TakeProfitMarket
      else if s = ''Take Profit Limit'' then FrontendOrderType_TakeProfitLimit
      else FrontendOrderType_Unknown)"

primrec toString_FrontendOrderType :: "FrontendOrderType \<Rightarrow> string" where
  "toString_FrontendOrderType FrontendOrderType_Market = ''Market''"
| "toString_FrontendOrderType FrontendOrderType_Limit = ''Limit''"
| "toString_FrontendOrderType FrontendOrderType_StopMarket = ''Stop Market''"
| "toString_FrontendOrderType FrontendOrderType_StopLimit = ''Stop Limit''"
| "toString_FrontendOrderType FrontendOrderType_TakeProfitMarket = ''Take Profit Market''"
| "toString_FrontendOrderType FrontendOrderType_TakeProfitLimit = ''Take Profit Limit''"
| "toString_FrontendOrderType FrontendOrderType_Unknown = ''Unknown''"

datatype OrderTif =
    OrderTif_Gtc | OrderTif_Ioc | OrderTif_Alo | OrderTif_FrontendMarket
    | OrderTif_LiquidationMarket | OrderTif_Unknown

definition stringToOrderTif :: "string \<Rightarrow> OrderTif" where
  "stringToOrderTif s =
     (if s = ''Gtc'' then OrderTif_Gtc
      else if s = ''Ioc'' then OrderTif_Ioc
      else if s = ''Alo'' then OrderTif_Alo
      else if s = ''FrontendMarket'' then OrderTif_FrontendMarket
      else if s = ''Liquidation Market'' then OrderTif_LiquidationMarket
      else OrderTif_Unknown)"

primrec toString_OrderTif :: "OrderTif \<Rightarrow> string" where
  "toString_OrderTif OrderTif_Gtc = ''Gtc''"
| "toString_OrderTif OrderTif_Ioc = ''Ioc''"
| "toString_OrderTif OrderTif_Alo = ''Alo''"
| "toString_OrderTif OrderTif_FrontendMarket = ''FrontendMarket''"
| "toString_OrderTif OrderTif_LiquidationMarket = ''Liquidation Market''"
| "toString_OrderTif OrderTif_Unknown = ''Unknown''"

record FrontendOrder =
  fo_coin :: string
  fo_side :: char
  fo_limitPx :: double
  fo_sz :: double
  fo_oid :: u64
  fo_timestamp :: u64
  fo_origSz :: double
  fo_cloid :: string
  fo_isPositionTpsl :: bool
  fo_isTrigger :: bool
  fo_triggerPx :: double
  fo_triggerCondition :: string
  fo_reduceOnly :: bool
  fo_orderType :: FrontendOrderType
  fo_tif :: "OrderTif option"

definition FrontendOrder_init :: FrontendOrder where
  "FrontendOrder_init = \<lparr>fo_coin = '''', fo_side = undefined, fo_limitPx = undefined, fo_sz = undefined,
     fo_oid = undefined, fo_timestamp = undefined, fo_origSz = undefined, fo_cloid = '''',
     fo_isPositionTpsl = undefined, fo_isTrigger = undefined, fo_triggerPx = undefined,
     fo_triggerCondition = '''', fo_reduceOnly = undefined, fo_orderType = undefined,
     fo_tif = None\<rparr>"

record FrontendOpenOrdersResponse =
  foor_orders :: "FrontendOrder list"

definition FrontendOpenOrdersResponse_init :: FrontendOpenOrdersResponse where
  "FrontendOpenOrdersResponse_init = \<lparr>foor_orders = []\<rparr>"

record HistoricalOrder =
  ho_order :: FrontendOrder
  ho_status :: OrderStatus
  ho_statusTimestamp :: u64

definition HistoricalOrder_init :: HistoricalOrder where
  "HistoricalOrder_init = \<lparr>ho_order = FrontendOrder_init, ho_status = undefined, ho_statusTimestamp = undefined\<rparr>"

record HistoricalOrdersResponse =
  hor_orders :: "HistoricalOrder list"

definition HistoricalOrdersResponse_init :: HistoricalOrdersResponse where
  "HistoricalOrdersResponse_init = \<lparr>hor_orders = []\<rparr>"

record UserTwapSliceFillsResponse =
  utsfr_fills :: "TwapSliceFill list"

definition UserTwapSliceFillsResponse_init :: UserTwapSliceFillsResponse where
  "UserTwapSliceFillsResponse_init = \<lparr>utsfr_fills = []\<rparr>"

record TwapHistoryResponse =
  thr_history :: "TwapHistoryEntry list"

definition TwapHistoryResponse_init :: TwapHistoryResponse where
  "TwapHistoryResponse_init = \<lparr>thr_history = []\<rparr>"

record SubAccount =
  sa_name :: string
  sa_subAccountUser :: string
  sa_master :: string
  sa_clearinghouseState :: ClearinghouseState
  sa_spotState :: SpotClearinghouseStateResponse

definition SubAccount_init :: SubAccount where
  "SubAccount_init = \<lparr>sa_name = '''', sa_subAccountUser = '''', sa_master = '''',
     sa_clearinghouseState = ClearinghouseState_init,
     sa_spotState = SpotClearinghouseStateResponse_init\<rparr>"

record SubAccountsResponse =
  sar_subAccounts :: "SubAccount list"

definition SubAccountsResponse_init :: SubAccountsResponse where
  "SubAccountsResponse_init = \<lparr>sar_subAccounts = []\<rparr>"

record DailyUserVolume =
  duv_date :: string
  duv_userCross :: double
  duv_userAdd :: double
  duv_exchange :: double

definition DailyUserVolume_init :: DailyUserVolume where
  "DailyUserVolume_init = \<lparr>duv_date = '''', duv_userCross = undefined, duv_userAdd = undefined, duv_exchange = undefined\<rparr>"

record FeeTierVip =
  ftv_ntlCutoff :: double
  ftv_cross :: double
  ftv_add :: double
  ftv_spotCross :: double
  ftv_spotAdd :: double

definition FeeTierVip_init :: FeeTierVip where
  "FeeTierVip_init = \<lparr>ftv_ntlCutoff = undefined, ftv_cross = undefined, ftv_add = undefined,
     ftv_spotCross = undefined, ftv_spotAdd = undefined\<rparr>"

record FeeTierMm =
  ftm_makerFractionCutoff :: double
  ftm_add :: double

definition FeeTierMm_init :: FeeTierMm where
  "FeeTierMm_init = \<lparr>ftm_makerFractionCutoff = undefined, ftm_add = undefined\<rparr>"

record StakingDiscountTier =
  sdt_bpsOfMaxSupply :: double
  sdt_discount :: double

definition StakingDiscountTier_init :: StakingDiscountTier where
  "StakingDiscountTier_init = \<lparr>sdt_bpsOfMaxSupply = undefined, sdt_discount = undefined\<rparr>"

record FeeSchedule =
  fs_cross :: double
  fs_add :: double
  fs_spotCross :: double
  fs_spotAdd :: double
  fs_vipTiers :: "FeeTierVip list"
  fs_mmTiers :: "FeeTierMm list"
  fs_referralDiscount :: double
  fs_stakingDiscountTiers :: "StakingDiscountTier list"

definition FeeSchedule_init :: FeeSchedule where
  "FeeSchedule_init = \<lparr>fs_cross = undefined, fs_add = undefined, fs_spotCross = undefined, fs_spotAdd = undefined,
     fs_vipTiers = [], fs_mmTiers = [], fs_referralDiscount = undefined,
     fs_stakingDiscountTiers = []\<rparr>"

definition FeeSchedule_zero :: FeeSchedule where
  "FeeSchedule_zero = \<lparr>fs_cross = d_zero, fs_add = d_zero, fs_spotCross = d_zero, fs_spotAdd = d_zero,
     fs_vipTiers = [], fs_mmTiers = [], fs_referralDiscount = d_zero, fs_stakingDiscountTiers = []\<rparr>"

record StakingLink =
  sl_type :: string
  sl_stakingUser :: string

definition StakingLink_init :: StakingLink where
  "StakingLink_init = \<lparr>sl_type = '''', sl_stakingUser = ''''\<rparr>"

record ActiveStakingDiscount =
  asd_bpsOfMaxSupply :: double
  asd_discount :: double

definition ActiveStakingDiscount_init :: ActiveStakingDiscount where
  "ActiveStakingDiscount_init = \<lparr>asd_bpsOfMaxSupply = undefined, asd_discount = undefined\<rparr>"

record UserFeesResponse =
  ufre_dailyUserVlm :: "DailyUserVolume list"
  ufre_feeSchedule :: FeeSchedule
  ufre_userCrossRate :: double
  ufre_userAddRate :: double
  ufre_userSpotCrossRate :: double
  ufre_userSpotAddRate :: double
  ufre_activeReferralDiscount :: double
  ufre_feeTrialEscrow :: double
  ufre_nextTrialAvailableTimestamp :: "u64 option"
  ufre_stakingLink :: "StakingLink option"
  ufre_activeStakingDiscount :: "ActiveStakingDiscount option"

definition UserFeesResponse_init :: UserFeesResponse where
  "UserFeesResponse_init = \<lparr>ufre_dailyUserVlm = [], ufre_feeSchedule = FeeSchedule_init, ufre_userCrossRate = undefined,
     ufre_userAddRate = undefined, ufre_userSpotCrossRate = undefined,
     ufre_userSpotAddRate = undefined, ufre_activeReferralDiscount = undefined,
     ufre_feeTrialEscrow = undefined, ufre_nextTrialAvailableTimestamp = None,
     ufre_stakingLink = None, ufre_activeStakingDiscount = None\<rparr>"

definition UserFeesResponse_zero :: UserFeesResponse where
  "UserFeesResponse_zero = \<lparr>ufre_dailyUserVlm = [], ufre_feeSchedule = FeeSchedule_zero, ufre_userCrossRate = d_zero,
     ufre_userAddRate = d_zero, ufre_userSpotCrossRate = d_zero, ufre_userSpotAddRate = d_zero,
     ufre_activeReferralDiscount = d_zero, ufre_feeTrialEscrow = d_zero,
     ufre_nextTrialAvailableTimestamp = None, ufre_stakingLink = None,
     ufre_activeStakingDiscount = None\<rparr>"

record MaxBuilderFeeResponse =
  mbfr_maxFeeRateTenthsBps :: int

definition MaxBuilderFeeResponse_init :: MaxBuilderFeeResponse where
  "MaxBuilderFeeResponse_init = \<lparr>mbfr_maxFeeRateTenthsBps = undefined\<rparr>"

definition MaxBuilderFeeResponse_zero :: MaxBuilderFeeResponse where
  "MaxBuilderFeeResponse_zero = \<lparr>mbfr_maxFeeRateTenthsBps = 0\<rparr>"

record ApprovedBuildersResponse =
  abr_builders :: "string list"

definition ApprovedBuildersResponse_init :: ApprovedBuildersResponse where
  "ApprovedBuildersResponse_init = \<lparr>abr_builders = []\<rparr>"

datatype PortfolioPeriodType =
    PortfolioPeriodType_Day | PortfolioPeriodType_Week | PortfolioPeriodType_Month
    | PortfolioPeriodType_AllTime | PortfolioPeriodType_PerpDay | PortfolioPeriodType_PerpWeek
    | PortfolioPeriodType_PerpMonth | PortfolioPeriodType_PerpAllTime
    | PortfolioPeriodType_Unknown

definition stringToPortfolioPeriodType :: "string \<Rightarrow> PortfolioPeriodType" where
  "stringToPortfolioPeriodType s =
     (if s = ''day'' then PortfolioPeriodType_Day
      else if s = ''week'' then PortfolioPeriodType_Week
      else if s = ''month'' then PortfolioPeriodType_Month
      else if s = ''allTime'' then PortfolioPeriodType_AllTime
      else if s = ''perpDay'' then PortfolioPeriodType_PerpDay
      else if s = ''perpWeek'' then PortfolioPeriodType_PerpWeek
      else if s = ''perpMonth'' then PortfolioPeriodType_PerpMonth
      else if s = ''perpAllTime'' then PortfolioPeriodType_PerpAllTime
      else PortfolioPeriodType_Unknown)"

primrec toString_PortfolioPeriodType :: "PortfolioPeriodType \<Rightarrow> string" where
  "toString_PortfolioPeriodType PortfolioPeriodType_Day = ''day''"
| "toString_PortfolioPeriodType PortfolioPeriodType_Week = ''week''"
| "toString_PortfolioPeriodType PortfolioPeriodType_Month = ''month''"
| "toString_PortfolioPeriodType PortfolioPeriodType_AllTime = ''allTime''"
| "toString_PortfolioPeriodType PortfolioPeriodType_PerpDay = ''perpDay''"
| "toString_PortfolioPeriodType PortfolioPeriodType_PerpWeek = ''perpWeek''"
| "toString_PortfolioPeriodType PortfolioPeriodType_PerpMonth = ''perpMonth''"
| "toString_PortfolioPeriodType PortfolioPeriodType_PerpAllTime = ''perpAllTime''"
| "toString_PortfolioPeriodType PortfolioPeriodType_Unknown = ''unknown''"

record PortfolioPeriodMetrics =
  ppm_period :: PortfolioPeriodType
  ppm_accountValueHistory :: "(u64 \<times> double) list"
  ppm_pnlHistory :: "(u64 \<times> double) list"
  ppm_vlm :: double

definition PortfolioPeriodMetrics_init :: PortfolioPeriodMetrics where
  "PortfolioPeriodMetrics_init = \<lparr>ppm_period = undefined, ppm_accountValueHistory = [], ppm_pnlHistory = [],
     ppm_vlm = undefined\<rparr>"

record PortfolioResponse =
  pr_periods :: "PortfolioPeriodMetrics list"

definition PortfolioResponse_init :: PortfolioResponse where
  "PortfolioResponse_init = \<lparr>pr_periods = []\<rparr>"

record VaultFollower =
  vf_user :: string
  vf_vaultEquity :: double
  vf_pnl :: double
  vf_allTimePnl :: double
  vf_daysFollowing :: int
  vf_vaultEntryTime :: u64
  vf_lockupUntil :: u64

definition VaultFollower_init :: VaultFollower where
  "VaultFollower_init = \<lparr>vf_user = '''', vf_vaultEquity = undefined, vf_pnl = undefined, vf_allTimePnl = undefined,
     vf_daysFollowing = undefined, vf_vaultEntryTime = undefined, vf_lockupUntil = undefined\<rparr>"

record VaultRelationship =
  vr_type :: string
  vr_childAddresses :: "string list"

definition VaultRelationship_init :: VaultRelationship where
  "VaultRelationship_init = \<lparr>vr_type = '''', vr_childAddresses = []\<rparr>"

definition VaultRelationship_zero :: VaultRelationship where
  "VaultRelationship_zero = \<lparr>vr_type = '''', vr_childAddresses = []\<rparr>"

record VaultDetailsResponse =
  vdr_name :: string
  vdr_vaultAddress :: string
  vdr_leader :: string
  vdr_description :: string
  vdr_portfolio :: "PortfolioPeriodMetrics list"
  vdr_apr :: double
  vdr_followerStateRaw :: "string option"
  vdr_leaderFraction :: double
  vdr_leaderCommission :: double
  vdr_followers :: "VaultFollower list"
  vdr_maxDistributable :: double
  vdr_maxWithdrawable :: double
  vdr_isClosed :: bool
  vdr_relationship :: VaultRelationship
  vdr_allowDeposits :: bool
  vdr_alwaysCloseOnWithdraw :: bool

definition VaultDetailsResponse_init :: VaultDetailsResponse where
  "VaultDetailsResponse_init = \<lparr>vdr_name = '''', vdr_vaultAddress = '''', vdr_leader = '''', vdr_description = '''',
     vdr_portfolio = [], vdr_apr = undefined, vdr_followerStateRaw = None,
     vdr_leaderFraction = undefined, vdr_leaderCommission = undefined, vdr_followers = [],
     vdr_maxDistributable = undefined, vdr_maxWithdrawable = undefined, vdr_isClosed = undefined,
     vdr_relationship = VaultRelationship_init, vdr_allowDeposits = undefined,
     vdr_alwaysCloseOnWithdraw = undefined\<rparr>"

definition VaultDetailsResponse_zero :: VaultDetailsResponse where
  "VaultDetailsResponse_zero = \<lparr>vdr_name = '''', vdr_vaultAddress = '''', vdr_leader = '''', vdr_description = '''',
     vdr_portfolio = [], vdr_apr = d_zero, vdr_followerStateRaw = None,
     vdr_leaderFraction = d_zero, vdr_leaderCommission = d_zero, vdr_followers = [],
     vdr_maxDistributable = d_zero, vdr_maxWithdrawable = d_zero, vdr_isClosed = False,
     vdr_relationship = VaultRelationship_zero, vdr_allowDeposits = False,
     vdr_alwaysCloseOnWithdraw = False\<rparr>"

record UserVaultEquity =
  uve_vaultAddress :: string
  uve_equity :: double

definition UserVaultEquity_init :: UserVaultEquity where
  "UserVaultEquity_init = \<lparr>uve_vaultAddress = '''', uve_equity = undefined\<rparr>"

record UserVaultEquitiesResponse =
  uver_equities :: "UserVaultEquity list"

definition UserVaultEquitiesResponse_init :: UserVaultEquitiesResponse where
  "UserVaultEquitiesResponse_init = \<lparr>uver_equities = []\<rparr>"

record ReferredBy =
  rb_referrer :: string
  rb_code :: string

definition ReferredBy_init :: ReferredBy where
  "ReferredBy_init = \<lparr>rb_referrer = '''', rb_code = ''''\<rparr>"

record ReferralState =
  rs_cumVlm :: double
  rs_cumRewardedFeesSinceReferred :: double
  rs_cumFeesRewardedToReferrer :: double
  rs_timeJoined :: u64
  rs_user :: string

definition ReferralState_init :: ReferralState where
  "ReferralState_init = \<lparr>rs_cumVlm = undefined, rs_cumRewardedFeesSinceReferred = undefined,
     rs_cumFeesRewardedToReferrer = undefined, rs_timeJoined = undefined, rs_user = ''''\<rparr>"

record ReferrerState =
  rst_stage :: string
  rst_required :: "double option"
  rst_code :: "string option"
  rst_referralStates :: "ReferralState list"

definition ReferrerState_init :: ReferrerState where
  "ReferrerState_init = \<lparr>rst_stage = '''', rst_required = None, rst_code = None, rst_referralStates = []\<rparr>"

record TokenRewardState =
  trs_cumVlm :: double
  trs_unclaimedRewards :: double
  trs_claimedRewards :: double
  trs_builderRewards :: double

definition TokenRewardState_init :: TokenRewardState where
  "TokenRewardState_init = \<lparr>trs_cumVlm = undefined, trs_unclaimedRewards = undefined, trs_claimedRewards = undefined,
     trs_builderRewards = undefined\<rparr>"

record ReferralResponse =
  rr_referredBy :: "ReferredBy option"
  rr_cumVlm :: double
  rr_unclaimedRewards :: double
  rr_claimedRewards :: double
  rr_builderRewards :: double
  rr_tokenToState :: "(int \<times> TokenRewardState) option"
  rr_referrerState :: "ReferrerState option"

definition ReferralResponse_init :: ReferralResponse where
  "ReferralResponse_init = \<lparr>rr_referredBy = None, rr_cumVlm = undefined, rr_unclaimedRewards = undefined,
     rr_claimedRewards = undefined, rr_builderRewards = undefined, rr_tokenToState = None,
     rr_referrerState = None\<rparr>"

definition ReferralResponse_zero :: ReferralResponse where
  "ReferralResponse_zero = \<lparr>rr_referredBy = None, rr_cumVlm = d_zero, rr_unclaimedRewards = d_zero,
     rr_claimedRewards = d_zero, rr_builderRewards = d_zero, rr_tokenToState = None,
     rr_referrerState = None\<rparr>"

datatype UserRoleType =
    UserRoleType_User | UserRoleType_Agent | UserRoleType_Vault | UserRoleType_SubAccount
    | UserRoleType_Missing | UserRoleType_Unknown

definition stringToUserRoleType :: "string \<Rightarrow> UserRoleType" where
  "stringToUserRoleType s =
     (if s = ''user'' then UserRoleType_User
      else if s = ''agent'' then UserRoleType_Agent
      else if s = ''vault'' then UserRoleType_Vault
      else if s = ''subAccount'' then UserRoleType_SubAccount
      else if s = ''missing'' then UserRoleType_Missing
      else UserRoleType_Unknown)"

primrec toString_UserRoleType :: "UserRoleType \<Rightarrow> string" where
  "toString_UserRoleType UserRoleType_User = ''user''"
| "toString_UserRoleType UserRoleType_Agent = ''agent''"
| "toString_UserRoleType UserRoleType_Vault = ''vault''"
| "toString_UserRoleType UserRoleType_SubAccount = ''subAccount''"
| "toString_UserRoleType UserRoleType_Missing = ''missing''"
| "toString_UserRoleType UserRoleType_Unknown = ''unknown''"

record UserRoleResponse =
  urr_role :: UserRoleType
  urr_agentUser :: "string option"
  urr_subAccountMaster :: "string option"

definition UserRoleResponse_init :: UserRoleResponse where
  "UserRoleResponse_init = \<lparr>urr_role = undefined, urr_agentUser = None, urr_subAccountMaster = None\<rparr>"

definition UserRoleResponse_zero :: UserRoleResponse where
  "UserRoleResponse_zero = \<lparr>urr_role = UserRoleType_User, urr_agentUser = None, urr_subAccountMaster = None\<rparr>"

record UserDexAbstractionResponse =
  udar_enabled :: "bool option"

definition UserDexAbstractionResponse_init :: UserDexAbstractionResponse where
  "UserDexAbstractionResponse_init = \<lparr>udar_enabled = None\<rparr>"

definition UserDexAbstractionResponse_zero :: UserDexAbstractionResponse where
  "UserDexAbstractionResponse_zero = \<lparr>udar_enabled = None\<rparr>"

datatype UserAbstractionState =
    UserAbstractionState_UnifiedAccount | UserAbstractionState_PortfolioMargin
    | UserAbstractionState_Disabled | UserAbstractionState_Default
    | UserAbstractionState_DexAbstraction | UserAbstractionState_Unknown

definition stringToUserAbstractionState :: "string \<Rightarrow> UserAbstractionState" where
  "stringToUserAbstractionState s =
     (if s = ''unifiedAccount'' then UserAbstractionState_UnifiedAccount
      else if s = ''portfolioMargin'' then UserAbstractionState_PortfolioMargin
      else if s = ''disabled'' then UserAbstractionState_Disabled
      else if s = ''default'' then UserAbstractionState_Default
      else if s = ''dexAbstraction'' then UserAbstractionState_DexAbstraction
      else UserAbstractionState_Unknown)"

primrec toString_UserAbstractionState :: "UserAbstractionState \<Rightarrow> string" where
  "toString_UserAbstractionState UserAbstractionState_UnifiedAccount = ''unifiedAccount''"
| "toString_UserAbstractionState UserAbstractionState_PortfolioMargin = ''portfolioMargin''"
| "toString_UserAbstractionState UserAbstractionState_Disabled = ''disabled''"
| "toString_UserAbstractionState UserAbstractionState_Default = ''default''"
| "toString_UserAbstractionState UserAbstractionState_DexAbstraction = ''dexAbstraction''"
| "toString_UserAbstractionState UserAbstractionState_Unknown = ''unknown''"

record UserAbstractionResponse =
  uar_state :: UserAbstractionState

definition UserAbstractionResponse_init :: UserAbstractionResponse where
  "UserAbstractionResponse_init = \<lparr>uar_state = undefined\<rparr>"

definition UserAbstractionResponse_zero :: UserAbstractionResponse where
  "UserAbstractionResponse_zero = \<lparr>uar_state = UserAbstractionState_UnifiedAccount\<rparr>"

end
