(* ===== verification/Rest_Order_Parser.thy ===== *)
theory Rest_Order_Parser
  imports Rest_Fields Info_Types Account_Types
begin

text \<open>
  \<open>RestApiMessageParser\<close>: books, candles, trades, and the answers on orders, fills and TWAPs.
  Each function is its C++ body statement by statement, in continuation style: a local that is
  assigned is bound again, \<open>tryE s m (\<lambda>v. \<dots>)\<close> evaluates \<open>m\<close> while \<open>s\<close> is what the handler would
  return, \<open>Inl (Return s)\<close> is a \<open>return\<close> inside the \<open>try\<close> block.
\<close>

definition parseL2Book :: "'v sj_reader \<Rightarrow> string \<Rightarrow> L2BookResponse outcome" where
  "parseL2Book S message =
     (let response = L2BookResponse_init in
     let response = response\<lparr>lbr_time := 0\<rparr> in
     let doc = sj_iterate S message in
     finish (
      tryE response (sj_validate S message) (\<lambda>_.
      tryE response (bindE (sj_at S doc ''coin'') (sj_string S)) (\<lambda>v.
      let response = response\<lparr>lbr_coin := v\<rparr> in
      tryE response (bindE (sj_at S doc ''time'') (sj_uint64 S)) (\<lambda>v.
      let response = response\<lparr>lbr_time := v\<rparr> in
      tryE response (bindE (sj_at S doc ''levels'') (sj_array S)) (\<lambda>levels.
      let sideIdx = (0 :: u64) in
      bindE (foldB (\<lambda>side (response, sideIdx).
        (if 1 < sideIdx then
          Inr (False, (response, sideIdx))
         else
          tryE response (sj_array S side) (\<lambda>sideLevels.
          bindE (foldE (\<lambda>entry response.
            tryE response (sj_object S entry) (\<lambda>obj.
            let level = RestBookLevel_init in
            tryE response (field_string S obj ''px'') (\<lambda>v.
            let level = level\<lparr>rbl_px := v\<rparr> in
            tryE response (field_string S obj ''sz'') (\<lambda>v.
            let level = level\<lparr>rbl_sz := v\<rparr> in
            tryE response (field_int64 S obj ''n'') (\<lambda>v.
            let level = level\<lparr>rbl_n := to_int32 v\<rparr> in
            let response = (if sideIdx = 0 then response\<lparr>lbr_bids := (lbr_bids response) @ [level]\<rparr>
                else response\<lparr>lbr_asks := (lbr_asks response) @ [level]\<rparr>) in
            Inr response))))) sideLevels response) (\<lambda>response.
          let sideIdx = sideIdx + 1 in
          Inr (True, (response, sideIdx)))))) levels (response, sideIdx)) (\<lambda>(response, sideIdx).
      Inr response)))))))"

definition parseCandleSnapshot :: "'v sj_reader \<Rightarrow> string \<Rightarrow> CandleSnapshotResponse outcome" where
  "parseCandleSnapshot S message =
     (let response = CandleSnapshotResponse_init in
     let doc = sj_iterate S message in
     finish (
      tryE response (sj_validate S message) (\<lambda>_.
      tryE response (bindE doc (sj_array S)) (\<lambda>arr.
      foldE (\<lambda>entry response.
        tryE response (sj_object S entry) (\<lambda>obj.
        let candle = Candle_init in
        tryE response (field_string S obj ''s'') (\<lambda>v.
        let candle = candle\<lparr>can_coin := v\<rparr> in
        tryE response (field_string S obj ''i'') (\<lambda>v.
        let candle = candle\<lparr>can_interval := v\<rparr> in
        tryE response (field_uint64 S obj ''t'') (\<lambda>v.
        let candle = candle\<lparr>can_openTime := v\<rparr> in
        tryE response (field_uint64 S obj ''T'') (\<lambda>v.
        let candle = candle\<lparr>can_closeTime := v\<rparr> in
        tryE response (parseNumberField S obj ''o'') (\<lambda>v.
        let candle = candle\<lparr>can_open := v\<rparr> in
        tryE response (parseNumberField S obj ''c'') (\<lambda>v.
        let candle = candle\<lparr>can_close := v\<rparr> in
        tryE response (parseNumberField S obj ''h'') (\<lambda>v.
        let candle = candle\<lparr>can_high := v\<rparr> in
        tryE response (parseNumberField S obj ''l'') (\<lambda>v.
        let candle = candle\<lparr>can_low := v\<rparr> in
        tryE response (parseNumberField S obj ''v'') (\<lambda>v.
        let candle = candle\<lparr>can_volume := v\<rparr> in
        tryE response (field_int64 S obj ''n'') (\<lambda>v.
        let candle = candle\<lparr>can_numTrades := to_int32 v\<rparr> in
        let response = response\<lparr>csr_candles := (csr_candles response) @ [candle]\<rparr> in
        Inr response)))))))))))) arr response))))"

definition parseRecentTrades :: "'v sj_reader \<Rightarrow> string \<Rightarrow> RecentTradesResponse outcome" where
  "parseRecentTrades S message =
     (let response = RecentTradesResponse_init in
     let doc = sj_iterate S message in
     finish (
      tryE response (sj_validate S message) (\<lambda>_.
      tryE response (bindE doc (sj_array S)) (\<lambda>arr.
      foldE (\<lambda>entry response.
        tryE response (sj_object S entry) (\<lambda>obj.
        let trade = RecentTrade_init in
        tryE response (field_string S obj ''coin'') (\<lambda>v.
        let trade = trade\<lparr>rt_coin := v\<rparr> in
        tryE response (field_string S obj ''side'') (\<lambda>sideStr.
        let trade = trade\<lparr>rt_side := (if 0 < (length sideStr) then sideStr ! 0 else CHR ''?'')\<rparr> in
        tryE response (field_string S obj ''px'') (\<lambda>v.
        tryE response (toDouble v) (\<lambda>v2.
        let trade = trade\<lparr>rt_px := v2\<rparr> in
        tryE response (field_string S obj ''sz'') (\<lambda>v.
        tryE response (toDouble v) (\<lambda>v2.
        let trade = trade\<lparr>rt_sz := v2\<rparr> in
        tryE response (field_uint64 S obj ''time'') (\<lambda>v.
        let trade = trade\<lparr>rt_time := v\<rparr> in
        tryE response (field_string S obj ''hash'') (\<lambda>v.
        let trade = trade\<lparr>rt_hash := v\<rparr> in
        tryE response (field_uint64 S obj ''tid'') (\<lambda>v.
        let trade = trade\<lparr>rt_tid := v\<rparr> in
        let trade = trade\<lparr>rt_users := ['''', '''']\<rparr> in
        tryE response (field_array S obj ''users'') (\<lambda>usersArr.
        let iter = usersArr in
        bindE (if iter \<noteq> [] then
          tryE response (sj_string S (hd iter)) (\<lambda>v.
          let trade = trade\<lparr>rt_users := (rt_users trade)[0 := v]\<rparr> in
          let iter = tl iter in
          (if iter \<noteq> [] then
            tryE response (sj_string S (hd iter)) (\<lambda>v.
            let trade = trade\<lparr>rt_users := (rt_users trade)[1 := v]\<rparr> in
            Inr (trade, iter))
           else Inr (trade, iter)))
         else Inr (trade, iter)) (\<lambda>(trade, iter).
        let response = response\<lparr>rtr_trades := (rtr_trades response) @ [trade]\<rparr> in
        Inr response))))))))))))) arr response))))"

definition parseAllMids :: "'v sj_reader \<Rightarrow> string \<Rightarrow> AllMidsResponse outcome" where
  "parseAllMids S message =
     (let response = AllMidsResponse_init in
     let doc = sj_iterate S message in
     finish (
      tryE response (sj_validate S message) (\<lambda>_.
      tryE response (bindE doc (sj_object S)) (\<lambda>obj.
      foldE (\<lambda>field response.
        let entry = AllMidsEntry_init in
        let entry = entry\<lparr>ame_coin := fst field\<rparr> in
        tryE response (sj_string S (snd field)) (\<lambda>v.
        tryE response (toDouble v) (\<lambda>v2.
        let entry = entry\<lparr>ame_mid := v2\<rparr> in
        let response = response\<lparr>amr_mids := (amr_mids response) @ [entry]\<rparr> in
        Inr response))) (sj_members S obj) response))))"

definition parseOpenOrderEntry :: "'v sj_reader \<Rightarrow> 'v \<Rightarrow> OpenOrder outcome" where
  "parseOpenOrderEntry S obj =
     (let order = OpenOrder_init in
     bindE (field_string S obj ''coin'') (\<lambda>v.
     let order = order\<lparr>oo_coin := v\<rparr> in
     bindE (field_string S obj ''side'') (\<lambda>sideStr.
     let order = order\<lparr>oo_side := (if 0 < (length sideStr) then sideStr ! 0 else CHR ''?'')\<rparr> in
     bindE (parseNumberField S obj ''limitPx'') (\<lambda>v.
     let order = order\<lparr>oo_limitPx := v\<rparr> in
     bindE (parseNumberField S obj ''sz'') (\<lambda>v.
     let order = order\<lparr>oo_sz := v\<rparr> in
     bindE (field_uint64 S obj ''oid'') (\<lambda>v.
     let order = order\<lparr>oo_oid := v\<rparr> in
     bindE (field_uint64 S obj ''timestamp'') (\<lambda>v.
     let order = order\<lparr>oo_timestamp := v\<rparr> in
     bindE (parseNumberField S obj ''origSz'') (\<lambda>v.
     let order = order\<lparr>oo_origSz := v\<rparr> in
     bindE (case sj_field S obj ''cloid'' of
      Inr cloidVal \<Rightarrow>
        (if \<not> (is_null S cloidVal) then
          bindE (sj_string S cloidVal) (\<lambda>v.
          let order = order\<lparr>oo_cloid := v\<rparr> in
          Inr order)
         else
          let order = order\<lparr>oo_cloid := []\<rparr> in
          Inr order)
      | Inl _ \<Rightarrow>
        let order = order\<lparr>oo_cloid := []\<rparr> in
        Inr order) (\<lambda>order.
     (Inr order))))))))))"

definition parseOpenOrders :: "'v sj_reader \<Rightarrow> string \<Rightarrow> OpenOrdersResponse outcome" where
  "parseOpenOrders S message =
     (let response = OpenOrdersResponse_init in
     let doc = sj_iterate S message in
     finish (
      tryE response (sj_validate S message) (\<lambda>_.
      tryE response (bindE doc (sj_array S)) (\<lambda>arr.
      foldE (\<lambda>entry response.
        tryE response (sj_object S entry) (\<lambda>obj.
        tryE response (parseOpenOrderEntry S obj) (\<lambda>v.
        let response = response\<lparr>oor_orders := (oor_orders response) @ [v]\<rparr> in
        Inr response))) arr response))))"

definition parseOrderStatus :: "'v sj_reader \<Rightarrow> string \<Rightarrow> OrderStatusResponse outcome" where
  "parseOrderStatus S message =
     (let response = OrderStatusResponse_init in
     let doc = sj_iterate S message in
     finish (
      tryE response (sj_validate S message) (\<lambda>_.
      tryE response (bindE (sj_at S doc ''status'') (sj_string S)) (\<lambda>v.
      let response = response\<lparr>osr_status := v\<rparr> in
      (case sj_at S doc ''order'' of
       Inr orderVal \<Rightarrow>
         (if \<not> (is_null S orderVal) then
           tryE response (sj_object S orderVal) (\<lambda>orderObj.
           let result = OrderStatusOrder_init in
           tryE response (field_object S orderObj ''order'') (\<lambda>innerOrder.
           tryE response (parseOpenOrderEntry S innerOrder) (\<lambda>v.
           let result = result\<lparr>oso_order := v\<rparr> in
           tryE response (field_string S orderObj ''status'') (\<lambda>v.
           let result = result\<lparr>oso_status := stringToOrderStatus v\<rparr> in
           tryE response (field_uint64 S orderObj ''statusTimestamp'') (\<lambda>v.
           let result = result\<lparr>oso_statusTimestamp := v\<rparr> in
           let response = response\<lparr>osr_order := Some result\<rparr> in
           Inr response)))))
          else Inr response)
       | Inl _ \<Rightarrow>
         Inr response)))))"

definition parseFillEntry :: "'v sj_reader \<Rightarrow> 'v \<Rightarrow> Fill outcome" where
  "parseFillEntry S obj =
     (let fill = Fill_init in
     bindE (field_string S obj ''coin'') (\<lambda>v.
     let fill = fill\<lparr>fi_coin := v\<rparr> in
     bindE (field_string S obj ''px'') (\<lambda>v.
     bindE (toDouble v) (\<lambda>v2.
     let fill = fill\<lparr>fi_px := v2\<rparr> in
     bindE (field_string S obj ''sz'') (\<lambda>v.
     bindE (toDouble v) (\<lambda>v2.
     let fill = fill\<lparr>fi_sz := v2\<rparr> in
     bindE (field_string S obj ''side'') (\<lambda>sideStr.
     let fill = fill\<lparr>fi_side := (if 0 < (length sideStr) then sideStr ! 0 else CHR ''?'')\<rparr> in
     bindE (field_uint64 S obj ''time'') (\<lambda>v.
     let fill = fill\<lparr>fi_time := v\<rparr> in
     bindE (field_string S obj ''startPosition'') (\<lambda>v.
     bindE (toDouble v) (\<lambda>v2.
     let fill = fill\<lparr>fi_startPosition := v2\<rparr> in
     bindE (field_string S obj ''dir'') (\<lambda>v.
     let fill = fill\<lparr>fi_dir := v\<rparr> in
     bindE (field_string S obj ''closedPnl'') (\<lambda>v.
     bindE (toDouble v) (\<lambda>v2.
     let fill = fill\<lparr>fi_closedPnl := v2\<rparr> in
     bindE (field_string S obj ''hash'') (\<lambda>v.
     let fill = fill\<lparr>fi_hash := v\<rparr> in
     bindE (field_uint64 S obj ''oid'') (\<lambda>v.
     let fill = fill\<lparr>fi_oid := v\<rparr> in
     bindE (field_bool S obj ''crossed'') (\<lambda>v.
     let fill = fill\<lparr>fi_crossed := v\<rparr> in
     bindE (field_string S obj ''fee'') (\<lambda>v.
     bindE (toDouble v) (\<lambda>v2.
     let fill = fill\<lparr>fi_fee := v2\<rparr> in
     bindE (field_uint64 S obj ''tid'') (\<lambda>v.
     let fill = fill\<lparr>fi_tid := v\<rparr> in
     bindE (field_string S obj ''feeToken'') (\<lambda>v.
     let fill = fill\<lparr>fi_feeToken := v\<rparr> in
     let builderFee = undefined in
     let (ok, builderFee) = (case field_double S obj ''builderFee'' of Inr builderFee \<Rightarrow> (True, builderFee)
         | Inl _ \<Rightarrow> (False, builderFee)) in
     let fill = fill\<lparr>fi_hasBuilderFee := ok\<rparr> in
     bindE (if \<not> (fi_hasBuilderFee fill) then
       let bfStr = '''' in
       let (ok, bfStr) = (case field_string S obj ''builderFee'' of Inr bfStr \<Rightarrow> (True, bfStr) | Inl _ \<Rightarrow>
           (False, bfStr)) in
       let fill = fill\<lparr>fi_hasBuilderFee := ok\<rparr> in
       (if fi_hasBuilderFee fill then
         bindE (toDouble bfStr) (\<lambda>v.
         let builderFee = v in
         Inr (fill, builderFee))
        else Inr (fill, builderFee))
      else Inr (fill, builderFee)) (\<lambda>(fill, builderFee).
     let fill = fill\<lparr>fi_builderFee := (if fi_hasBuilderFee fill then builderFee else d_zero)\<rparr> in
     let (ok, liqObj) = (case field_object S obj ''liquidation'' of Inr liqObj \<Rightarrow> (True, liqObj) | Inl _ \<Rightarrow>
         (False, undefined)) in
     let fill = fill\<lparr>fi_isLiquidation := ok\<rparr> in
     bindE (if fi_isLiquidation fill then
       bindE (field_string S liqObj ''liquidatedUser'') (\<lambda>v.
       let fill = fill\<lparr>fi_liquidatedUser := v\<rparr> in
       bindE (field_string S liqObj ''markPx'') (\<lambda>v.
       bindE (toDouble v) (\<lambda>v2.
       let fill = fill\<lparr>fi_liquidationMarkPx := v2\<rparr> in
       bindE (field_string S liqObj ''method'') (\<lambda>v.
       let fill = fill\<lparr>fi_liquidationMethod := stringToLiquidationMethod v\<rparr> in
       Inr fill))))
      else
       let fill = fill\<lparr>fi_liquidatedUser := []\<rparr> in
       let fill = fill\<lparr>fi_liquidationMarkPx := d_zero\<rparr> in
       let fill = fill\<lparr>fi_liquidationMethod := LiquidationMethod_Unknown\<rparr> in
       Inr fill) (\<lambda>fill.
     let fill = fill\<lparr>fi_isSnapshot := False\<rparr> in
     (Inr fill)))))))))))))))))))))))"

definition parseUserFills :: "'v sj_reader \<Rightarrow> string \<Rightarrow> UserFillsResponse outcome" where
  "parseUserFills S message =
     (let response = UserFillsResponse_init in
     let doc = sj_iterate S message in
     finish (
      tryE response (sj_validate S message) (\<lambda>_.
      tryE response (bindE doc (sj_array S)) (\<lambda>arr.
      foldE (\<lambda>entry response.
        tryE response (sj_object S entry) (\<lambda>obj.
        tryE response (parseFillEntry S obj) (\<lambda>v.
        let response = response\<lparr>ufr_fills := (ufr_fills response) @ [v]\<rparr> in
        Inr response))) arr response))))"

definition parseUserFillsByTime :: "'v sj_reader \<Rightarrow> string \<Rightarrow> UserFillsResponse outcome" where
  "parseUserFillsByTime S message =
     ((parseUserFills S message))"

definition parseTwapStateEntry :: "'v sj_reader \<Rightarrow> 'v \<Rightarrow> TwapState outcome" where
  "parseTwapStateEntry S obj =
     (let state = TwapState_zero in
     bindE (field_string S obj ''coin'') (\<lambda>v.
     let state = state\<lparr>ts_coin := v\<rparr> in
     bindE (field_string S obj ''user'') (\<lambda>v.
     let state = state\<lparr>ts_user := v\<rparr> in
     bindE (field_string S obj ''side'') (\<lambda>sideStr.
     let state = state\<lparr>ts_side := (if 0 < (length sideStr) then sideStr ! 0 else CHR ''?'')\<rparr> in
     bindE (parseNumberField S obj ''sz'') (\<lambda>v.
     let state = state\<lparr>ts_sz := v\<rparr> in
     bindE (parseNumberField S obj ''executedSz'') (\<lambda>v.
     let state = state\<lparr>ts_executedSz := v\<rparr> in
     bindE (parseNumberField S obj ''executedNtl'') (\<lambda>v.
     let state = state\<lparr>ts_executedNtl := v\<rparr> in
     bindE (field_int64 S obj ''minutes'') (\<lambda>v.
     let state = state\<lparr>ts_minutes := to_int32 v\<rparr> in
     bindE (field_bool S obj ''reduceOnly'') (\<lambda>v.
     let state = state\<lparr>ts_reduceOnly := v\<rparr> in
     bindE (field_bool S obj ''randomize'') (\<lambda>v.
     let state = state\<lparr>ts_randomize := v\<rparr> in
     bindE (field_uint64 S obj ''timestamp'') (\<lambda>v.
     let state = state\<lparr>ts_timestamp := v\<rparr> in
     (Inr state))))))))))))"

definition parseFrontendOrderEntry :: "'v sj_reader \<Rightarrow> 'v \<Rightarrow> FrontendOrder outcome" where
  "parseFrontendOrderEntry S obj =
     (let order = FrontendOrder_init in
     bindE (field_string S obj ''coin'') (\<lambda>v.
     let order = order\<lparr>fo_coin := v\<rparr> in
     bindE (field_string S obj ''side'') (\<lambda>sideStr.
     let order = order\<lparr>fo_side := (if 0 < (length sideStr) then sideStr ! 0 else CHR ''?'')\<rparr> in
     bindE (parseNumberField S obj ''limitPx'') (\<lambda>v.
     let order = order\<lparr>fo_limitPx := v\<rparr> in
     bindE (parseNumberField S obj ''sz'') (\<lambda>v.
     let order = order\<lparr>fo_sz := v\<rparr> in
     bindE (field_uint64 S obj ''oid'') (\<lambda>v.
     let order = order\<lparr>fo_oid := v\<rparr> in
     bindE (field_uint64 S obj ''timestamp'') (\<lambda>v.
     let order = order\<lparr>fo_timestamp := v\<rparr> in
     bindE (parseNumberField S obj ''origSz'') (\<lambda>v.
     let order = order\<lparr>fo_origSz := v\<rparr> in
     bindE (case sj_field S obj ''cloid'' of
      Inr cloidVal \<Rightarrow>
        (if \<not> (is_null S cloidVal) then
          bindE (sj_string S cloidVal) (\<lambda>v.
          let order = order\<lparr>fo_cloid := v\<rparr> in
          Inr order)
         else
          let order = order\<lparr>fo_cloid := []\<rparr> in
          Inr order)
      | Inl _ \<Rightarrow>
        let order = order\<lparr>fo_cloid := []\<rparr> in
        Inr order) (\<lambda>order.
     bindE (field_bool S obj ''isPositionTpsl'') (\<lambda>v.
     let order = order\<lparr>fo_isPositionTpsl := v\<rparr> in
     bindE (field_bool S obj ''isTrigger'') (\<lambda>v.
     let order = order\<lparr>fo_isTrigger := v\<rparr> in
     bindE (parseNumberField S obj ''triggerPx'') (\<lambda>v.
     let order = order\<lparr>fo_triggerPx := v\<rparr> in
     bindE (field_string S obj ''triggerCondition'') (\<lambda>v.
     let order = order\<lparr>fo_triggerCondition := v\<rparr> in
     bindE (field_bool S obj ''reduceOnly'') (\<lambda>v.
     let order = order\<lparr>fo_reduceOnly := v\<rparr> in
     bindE (field_string S obj ''orderType'') (\<lambda>v.
     let order = order\<lparr>fo_orderType := stringToFrontendOrderType v\<rparr> in
     bindE (case sj_field S obj ''tif'' of
      Inr tifVal \<Rightarrow>
        (if \<not> (is_null S tifVal) then
          bindE (sj_string S tifVal) (\<lambda>v.
          let order = order\<lparr>fo_tif := Some (stringToOrderTif v)\<rparr> in
          Inr order)
         else
          let order = order\<lparr>fo_tif := None\<rparr> in
          Inr order)
      | Inl _ \<Rightarrow>
        let order = order\<lparr>fo_tif := None\<rparr> in
        Inr order) (\<lambda>order.
     (Inr order)))))))))))))))))"

definition parseFrontendOpenOrders :: "'v sj_reader \<Rightarrow> string \<Rightarrow> FrontendOpenOrdersResponse outcome" where
  "parseFrontendOpenOrders S message =
     (let response = FrontendOpenOrdersResponse_init in
     let doc = sj_iterate S message in
     finish (
      tryE response (sj_validate S message) (\<lambda>_.
      tryE response (bindE doc (sj_array S)) (\<lambda>arr.
      foldE (\<lambda>entry response.
        tryE response (sj_object S entry) (\<lambda>obj.
        tryE response (parseFrontendOrderEntry S obj) (\<lambda>v.
        let response = response\<lparr>foor_orders := (foor_orders response) @ [v]\<rparr> in
        Inr response))) arr response))))"

definition parseHistoricalOrders :: "'v sj_reader \<Rightarrow> string \<Rightarrow> HistoricalOrdersResponse outcome" where
  "parseHistoricalOrders S message =
     (let response = HistoricalOrdersResponse_init in
     let doc = sj_iterate S message in
     finish (
      tryE response (sj_validate S message) (\<lambda>_.
      tryE response (bindE doc (sj_array S)) (\<lambda>arr.
      foldE (\<lambda>entry response.
        tryE response (sj_object S entry) (\<lambda>obj.
        let historical = HistoricalOrder_init in
        tryE response (field_object S obj ''order'') (\<lambda>orderObj.
        tryE response (parseFrontendOrderEntry S orderObj) (\<lambda>v.
        let historical = historical\<lparr>ho_order := v\<rparr> in
        tryE response (field_string S obj ''status'') (\<lambda>v.
        let historical = historical\<lparr>ho_status := stringToOrderStatus v\<rparr> in
        tryE response (field_uint64 S obj ''statusTimestamp'') (\<lambda>v.
        let historical = historical\<lparr>ho_statusTimestamp := v\<rparr> in
        let response = response\<lparr>hor_orders := (hor_orders response) @ [historical]\<rparr> in
        Inr response)))))) arr response))))"

definition parseUserTwapSliceFills :: "'v sj_reader \<Rightarrow> string \<Rightarrow> UserTwapSliceFillsResponse outcome" where
  "parseUserTwapSliceFills S message =
     (let response = UserTwapSliceFillsResponse_init in
     let doc = sj_iterate S message in
     finish (
      tryE response (sj_validate S message) (\<lambda>_.
      tryE response (bindE doc (sj_array S)) (\<lambda>arr.
      foldE (\<lambda>entry response.
        tryE response (sj_object S entry) (\<lambda>obj.
        let sliceFill = TwapSliceFill_init in
        tryE response (field_object S obj ''fill'') (\<lambda>fillObj.
        tryE response (parseFillEntry S fillObj) (\<lambda>v.
        let sliceFill = sliceFill\<lparr>tsf_fill := v\<rparr> in
        tryE response (field_int64 S obj ''twapId'') (\<lambda>v.
        let sliceFill = sliceFill\<lparr>tsf_twapId := word_of_int (to_int32 v)\<rparr> in
        let response = response\<lparr>utsfr_fills := (utsfr_fills response) @ [sliceFill]\<rparr> in
        Inr response))))) arr response))))"

definition parseUserTwapSliceFillsByTime :: "'v sj_reader \<Rightarrow> string \<Rightarrow> UserTwapSliceFillsResponse outcome" where
  "parseUserTwapSliceFillsByTime S message =
     ((parseUserTwapSliceFills S message))"

definition parseTwapHistory :: "'v sj_reader \<Rightarrow> string \<Rightarrow> TwapHistoryResponse outcome" where
  "parseTwapHistory S message =
     (let response = TwapHistoryResponse_init in
     let doc = sj_iterate S message in
     finish (
      tryE response (sj_validate S message) (\<lambda>_.
      tryE response (bindE doc (sj_array S)) (\<lambda>arr.
      foldE (\<lambda>entry response.
        tryE response (finish (
         tryE response (sj_object S entry) (\<lambda>obj.
         let hist = TwapHistoryEntry_zero in
         tryE response (field_uint64 S obj ''time'') (\<lambda>v.
         let hist = hist\<lparr>the_time := v\<rparr> in
         tryE response (field_object S obj ''state'') (\<lambda>stateObj.
         tryE response (parseTwapStateEntry S stateObj) (\<lambda>v.
         let hist = hist\<lparr>the_state := v\<rparr> in
         tryE response (field_object S obj ''status'') (\<lambda>statusObj.
         tryE response (field_string S statusObj ''status'') (\<lambda>v.
         let hist = hist\<lparr>the_status := stringToTwapHistoryStatus v\<rparr> in
         let hist = (case field_string S statusObj ''description'' of
          Inr desc \<Rightarrow>
            let hist = hist\<lparr>the_description := desc\<rparr> in
            hist
          | Inl _ \<Rightarrow>
            hist) in
         tryE response (field_uint64 S obj ''twapId'') (\<lambda>v.
         let hist = hist\<lparr>the_twapId := v\<rparr> in
         let hist = hist\<lparr>the_isSnapshot := False\<rparr> in
         let response = response\<lparr>thr_history := (thr_history response) @ [hist]\<rparr> in
         Inr response))))))))) (\<lambda>response.
        Inr response)) arr response))))"

end
