(* ===== verification/Rest_Staking_Parser.thy ===== *)
theory Rest_Staking_Parser
  imports Rest_Fields Info_Types Account_Types Reply_Types
begin

text \<open>
  \<open>RestApiMessageParser\<close>: staking, lending, deployment and status answers.
  Each function is its C++ body statement by statement, in continuation style: a local that is
  assigned is bound again, \<open>tryE s m (\<lambda>v. \<dots>)\<close> evaluates \<open>m\<close> while \<open>s\<close> is what the handler would
  return, \<open>Inl (Return s)\<close> is a \<open>return\<close> inside the \<open>try\<close> block.
\<close>

definition parseDelegations :: "'v sj_reader \<Rightarrow> string \<Rightarrow> DelegationsResponse outcome" where
  "parseDelegations S message =
     (let response = DelegationsResponse_init in
     let doc = sj_iterate S message in
     finish (
      tryE response (sj_validate S message) (\<lambda>_.
      tryE response (bindE doc (sj_array S)) (\<lambda>arr.
      foldE (\<lambda>entry response.
        tryE response (sj_object S entry) (\<lambda>obj.
        let delegation = Delegation_init in
        tryE response (field_string S obj ''validator'') (\<lambda>v.
        let delegation = delegation\<lparr>de_validator := v\<rparr> in
        tryE response (parseNumberField S obj ''amount'') (\<lambda>v.
        let delegation = delegation\<lparr>de_amount := v\<rparr> in
        tryE response (field_uint64 S obj ''lockedUntilTimestamp'') (\<lambda>v.
        let delegation = delegation\<lparr>de_lockedUntilTimestamp := v\<rparr> in
        let response = response\<lparr>dr_delegations := (dr_delegations response) @ [delegation]\<rparr> in
        Inr response))))) arr response))))"

definition parseDelegatorSummary :: "'v sj_reader \<Rightarrow> string \<Rightarrow> DelegatorSummaryResponse outcome" where
  "parseDelegatorSummary S message =
     (let response = DelegatorSummaryResponse_zero in
     let doc = sj_iterate S message in
     finish (
      tryE response (sj_validate S message) (\<lambda>_.
      tryE response (bindE doc (sj_object S)) (\<lambda>obj.
      tryE response (parseNumberField S obj ''delegated'') (\<lambda>v.
      let response = response\<lparr>dsr_delegated := v\<rparr> in
      tryE response (parseNumberField S obj ''undelegated'') (\<lambda>v.
      let response = response\<lparr>dsr_undelegated := v\<rparr> in
      tryE response (parseNumberField S obj ''totalPendingWithdrawal'') (\<lambda>v.
      let response = response\<lparr>dsr_totalPendingWithdrawal := v\<rparr> in
      tryE response (field_int64 S obj ''nPendingWithdrawals'') (\<lambda>v.
      let response = response\<lparr>dsr_nPendingWithdrawals := to_int32 v\<rparr> in
      Inr response))))))))"

definition parseDelegatorHistory :: "'v sj_reader \<Rightarrow> string \<Rightarrow> DelegatorHistoryResponse outcome" where
  "parseDelegatorHistory S message =
     (let response = DelegatorHistoryResponse_init in
     let doc = sj_iterate S message in
     finish (
      tryE response (sj_validate S message) (\<lambda>_.
      tryE response (bindE doc (sj_array S)) (\<lambda>arr.
      foldE (\<lambda>entry response.
        tryE response (sj_object S entry) (\<lambda>obj.
        let historyEntry = DelegatorHistoryEntry_zero in
        tryE response (field_uint64 S obj ''time'') (\<lambda>v.
        let historyEntry = historyEntry\<lparr>dhe_time := v\<rparr> in
        tryE response (field_string S obj ''hash'') (\<lambda>v.
        let historyEntry = historyEntry\<lparr>dhe_hash := v\<rparr> in
        tryE response (field_object S obj ''delta'') (\<lambda>deltaObj.
        bindE (case sj_field S deltaObj ''delegate'' of
         Inr delegateVal \<Rightarrow>
           tryE response (sj_object S delegateVal) (\<lambda>d.
           let historyEntry = historyEntry\<lparr>dhe_delta := (dhe_delta historyEntry)\<lparr>dhd_type := DelegatorHistoryDeltaType_Delegate\<rparr>\<rparr> in
           tryE response (field_string S d ''validator'') (\<lambda>v.
           let historyEntry = historyEntry\<lparr>dhe_delta := (dhe_delta historyEntry)\<lparr>dhd_validator := v\<rparr>\<rparr> in
           tryE response (parseNumberField S d ''amount'') (\<lambda>v.
           let historyEntry = historyEntry\<lparr>dhe_delta := (dhe_delta historyEntry)\<lparr>dhd_amount := v\<rparr>\<rparr> in
           tryE response (field_bool S d ''isUndelegate'') (\<lambda>v.
           let historyEntry = historyEntry\<lparr>dhe_delta := (dhe_delta historyEntry)\<lparr>dhd_isUndelegate := v\<rparr>\<rparr> in
           Inr historyEntry))))
         | Inl _ \<Rightarrow>
           (case sj_field S deltaObj ''cDeposit'' of
            Inr cDepositVal \<Rightarrow>
              tryE response (sj_object S cDepositVal) (\<lambda>d.
              let historyEntry = historyEntry\<lparr>dhe_delta := (dhe_delta historyEntry)\<lparr>dhd_type := DelegatorHistoryDeltaType_CDeposit\<rparr>\<rparr> in
              tryE response (parseNumberField S d ''amount'') (\<lambda>v.
              let historyEntry = historyEntry\<lparr>dhe_delta := (dhe_delta historyEntry)\<lparr>dhd_amount := v\<rparr>\<rparr> in
              Inr historyEntry))
            | Inl _ \<Rightarrow>
              (case sj_field S deltaObj ''withdrawal'' of
               Inr withdrawalVal \<Rightarrow>
                 tryE response (sj_object S withdrawalVal) (\<lambda>d.
                 let historyEntry = historyEntry\<lparr>dhe_delta := (dhe_delta historyEntry)\<lparr>dhd_type := DelegatorHistoryDeltaType_Withdrawal\<rparr>\<rparr> in
                 tryE response (parseNumberField S d ''amount'') (\<lambda>v.
                 let historyEntry = historyEntry\<lparr>dhe_delta := (dhe_delta historyEntry)\<lparr>dhd_amount := v\<rparr>\<rparr> in
                 tryE response (field_string S d ''phase'') (\<lambda>v.
                 let historyEntry = historyEntry\<lparr>dhe_delta := (dhe_delta historyEntry)\<lparr>dhd_phase := stringToWithdrawalPhase v\<rparr>\<rparr> in
                 Inr historyEntry)))
               | Inl _ \<Rightarrow>
                 let historyEntry = historyEntry\<lparr>dhe_delta := (dhe_delta historyEntry)\<lparr>dhd_type := DelegatorHistoryDeltaType_Unknown\<rparr>\<rparr> in
                 Inr historyEntry))) (\<lambda>historyEntry.
        let response = response\<lparr>dhr_history := (dhr_history response) @ [historyEntry]\<rparr> in
        Inr response)))))) arr response))))"

definition parseDelegatorRewards :: "'v sj_reader \<Rightarrow> string \<Rightarrow> DelegatorRewardsResponse outcome" where
  "parseDelegatorRewards S message =
     (let response = DelegatorRewardsResponse_init in
     let doc = sj_iterate S message in
     finish (
      tryE response (sj_validate S message) (\<lambda>_.
      tryE response (bindE doc (sj_array S)) (\<lambda>arr.
      foldE (\<lambda>entry response.
        tryE response (sj_object S entry) (\<lambda>obj.
        let reward = DelegatorReward_zero in
        tryE response (field_uint64 S obj ''time'') (\<lambda>v.
        let reward = reward\<lparr>dre_time := v\<rparr> in
        tryE response (field_string S obj ''source'') (\<lambda>v.
        let reward = reward\<lparr>dre_source := stringToDelegatorRewardSource v\<rparr> in
        tryE response (parseNumberField S obj ''totalAmount'') (\<lambda>v.
        let reward = reward\<lparr>dre_totalAmount := v\<rparr> in
        let response = response\<lparr>drr_rewards := (drr_rewards response) @ [reward]\<rparr> in
        Inr response))))) arr response))))"

definition parseBorrowLendReserveStateFields :: "'v sj_reader \<Rightarrow> 'v \<Rightarrow> BorrowLendReserveState outcome" where
  "parseBorrowLendReserveStateFields S obj =
     (let reserve = BorrowLendReserveState_zero in
     bindE (parseNumberField S obj ''borrowYearlyRate'') (\<lambda>v.
     let reserve = reserve\<lparr>blrs_borrowYearlyRate := v\<rparr> in
     bindE (parseNumberField S obj ''supplyYearlyRate'') (\<lambda>v.
     let reserve = reserve\<lparr>blrs_supplyYearlyRate := v\<rparr> in
     bindE (parseNumberField S obj ''balance'') (\<lambda>v.
     let reserve = reserve\<lparr>blrs_balance := v\<rparr> in
     bindE (parseNumberField S obj ''utilization'') (\<lambda>v.
     let reserve = reserve\<lparr>blrs_utilization := v\<rparr> in
     bindE (parseNumberField S obj ''oraclePx'') (\<lambda>v.
     let reserve = reserve\<lparr>blrs_oraclePx := v\<rparr> in
     bindE (parseNumberField S obj ''ltv'') (\<lambda>v.
     let reserve = reserve\<lparr>blrs_ltv := v\<rparr> in
     bindE (parseNumberField S obj ''totalSupplied'') (\<lambda>v.
     let reserve = reserve\<lparr>blrs_totalSupplied := v\<rparr> in
     bindE (parseNumberField S obj ''totalBorrowed'') (\<lambda>v.
     let reserve = reserve\<lparr>blrs_totalBorrowed := v\<rparr> in
     (Inr reserve))))))))))"

definition parseBorrowLendReserveState :: "'v sj_reader \<Rightarrow> string \<Rightarrow> BorrowLendReserveState outcome" where
  "parseBorrowLendReserveState S message =
     (let response = BorrowLendReserveState_zero in
     let doc = sj_iterate S message in
     finish (
      tryE response (sj_validate S message) (\<lambda>_.
      tryE response (bindE doc (sj_object S)) (\<lambda>obj.
      tryE response (parseBorrowLendReserveStateFields S obj) (\<lambda>v.
      let response = v in
      Inr response)))))"

definition parseAllBorrowLendReserveStates :: "'v sj_reader \<Rightarrow> string \<Rightarrow>
    AllBorrowLendReserveStatesResponse outcome" where
  "parseAllBorrowLendReserveStates S message =
     (let response = AllBorrowLendReserveStatesResponse_init in
     let doc = sj_iterate S message in
     finish (
      tryE response (sj_validate S message) (\<lambda>_.
      tryE response (bindE doc (sj_array S)) (\<lambda>arr.
      foldE (\<lambda>entry response.
        tryE response (sj_array S entry) (\<lambda>pair.
        let iter = pair in
        (if iter = [] then
          Inr response
         else
          let reserveEntry = BorrowLendReserveEntry_init in
          tryE response (sj_int64 S (hd iter)) (\<lambda>v.
          let reserveEntry = reserveEntry\<lparr>blre_token := to_int32 v\<rparr> in
          let iter = tl iter in
          (if iter = [] then
            Inr response
           else
            tryE response (sj_object S (hd iter)) (\<lambda>obj.
            tryE response (parseBorrowLendReserveStateFields S obj) (\<lambda>v.
            let reserveEntry = reserveEntry\<lparr>blre_state := v\<rparr> in
            let response = response\<lparr>ablrsr_reserves := (ablrsr_reserves response) @ [reserveEntry]\<rparr> in
            Inr response))))))) arr response))))"

definition parseBorrowLendUserState :: "'v sj_reader \<Rightarrow> string \<Rightarrow> BorrowLendUserStateResponse outcome" where
  "parseBorrowLendUserState S message =
     (let response = BorrowLendUserStateResponse_init in
     let doc = sj_iterate S message in
     finish (
      tryE response (sj_validate S message) (\<lambda>_.
      tryE response (bindE doc (sj_object S)) (\<lambda>obj.
      tryE response (field_array S obj ''tokenToState'') (\<lambda>tokenToState.
      bindE (foldE (\<lambda>entry response.
        tryE response (sj_array S entry) (\<lambda>pair.
        let iter = pair in
        (if iter = [] then
          Inr response
         else
          let position = BorrowLendUserPosition_zero in
          tryE response (sj_int64 S (hd iter)) (\<lambda>v.
          let position = position\<lparr>blup_token := to_int32 v\<rparr> in
          let iter = tl iter in
          (if iter = [] then
            Inr response
           else
            tryE response (sj_object S (hd iter)) (\<lambda>posObj.
            tryE response (field_object S posObj ''borrow'') (\<lambda>borrowObj.
            tryE response (parseNumberField S borrowObj ''basis'') (\<lambda>v.
            let position = position\<lparr>blup_borrow := (blup_borrow position)\<lparr>blps_basis := v\<rparr>\<rparr> in
            tryE response (parseNumberField S borrowObj ''value'') (\<lambda>v.
            let position = position\<lparr>blup_borrow := (blup_borrow position)\<lparr>blps_value := v\<rparr>\<rparr> in
            tryE response (field_object S posObj ''supply'') (\<lambda>supplyObj.
            tryE response (parseNumberField S supplyObj ''basis'') (\<lambda>v.
            let position = position\<lparr>blup_supply := (blup_supply position)\<lparr>blps_basis := v\<rparr>\<rparr> in
            tryE response (parseNumberField S supplyObj ''value'') (\<lambda>v.
            let position = position\<lparr>blup_supply := (blup_supply position)\<lparr>blps_value := v\<rparr>\<rparr> in
            let response = response\<lparr>blusr_tokenToState := (blusr_tokenToState response) @ [position]\<rparr> in
            Inr response)))))))))))) tokenToState response) (\<lambda>response.
      tryE response (field_string S obj ''health'') (\<lambda>v.
      let response = response\<lparr>blusr_health := v\<rparr> in
      (case sj_field S obj ''healthFactor'' of
       Inr healthFactorVal \<Rightarrow>
         (if \<not> (is_null S healthFactorVal) then
           tryE response ((case sj_string S healthFactorVal of Inr sv \<Rightarrow> (toDouble sv) | Inl _ \<Rightarrow>
               (sj_double S healthFactorVal))) (\<lambda>v.
           let response = response\<lparr>blusr_healthFactor := Some v\<rparr> in
           Inr response)
          else Inr response)
       | Inl _ \<Rightarrow>
         Inr response))))))))"

definition parseUserBorrowLendInterest :: "'v sj_reader \<Rightarrow> string \<Rightarrow> UserBorrowLendInterestResponse outcome" where
  "parseUserBorrowLendInterest S message =
     (let response = UserBorrowLendInterestResponse_init in
     let doc = sj_iterate S message in
     finish (
      tryE response (sj_validate S message) (\<lambda>_.
      tryE response (bindE doc (sj_array S)) (\<lambda>arr.
      foldE (\<lambda>entry response.
        tryE response (sj_object S entry) (\<lambda>obj.
        let item = UserBorrowLendInterestEntry_zero in
        tryE response (field_uint64 S obj ''time'') (\<lambda>v.
        let item = item\<lparr>ublie_time := v\<rparr> in
        tryE response (field_string S obj ''token'') (\<lambda>v.
        let item = item\<lparr>ublie_token := v\<rparr> in
        tryE response (parseNumberField S obj ''borrow'') (\<lambda>v.
        let item = item\<lparr>ublie_borrow := v\<rparr> in
        tryE response (parseNumberField S obj ''supply'') (\<lambda>v.
        let item = item\<lparr>ublie_supply := v\<rparr> in
        let response = response\<lparr>ublir_interest := (ublir_interest response) @ [item]\<rparr> in
        Inr response)))))) arr response))))"

definition parseLiquidatable :: "'v sj_reader \<Rightarrow> string \<Rightarrow> LiquidatableResponse outcome" where
  "parseLiquidatable S message =
     (let response = LiquidatableResponse_init in
     let doc = sj_iterate S message in
     finish (
      tryE response (sj_validate S message) (\<lambda>_.
      tryE response (bindE doc (sj_array S)) (\<lambda>arr.
      foldE (\<lambda>entry response.
        tryE response (sj_object S entry) (\<lambda>obj.
        let item = LiquidatableEntry_zero in
        tryE response (field_string S obj ''user'') (\<lambda>v.
        let item = item\<lparr>le_user := v\<rparr> in
        tryE response (field_object S obj ''positionIndex'') (\<lambda>positionIndexObj.
        tryE response (field_object S positionIndexObj ''isolated'') (\<lambda>isolatedObj.
        tryE response (field_int64 S isolatedObj ''asset'') (\<lambda>v.
        let item = item\<lparr>le_isolatedAsset := to_int32 v\<rparr> in
        tryE response (field_array S obj ''marginAvailable'') (\<lambda>marginArr.
        let iter = marginArr in
        bindE (if iter \<noteq> [] then
          tryE response (sj_double S (hd iter)) (\<lambda>v.
          let item = item\<lparr>le_marginAvailable := (le_marginAvailable item)[0 := v]\<rparr> in
          let iter = tl iter in
          (if iter \<noteq> [] then
            tryE response (sj_double S (hd iter)) (\<lambda>v.
            let item = item\<lparr>le_marginAvailable := (le_marginAvailable item)[1 := v]\<rparr> in
            Inr (item, iter))
           else Inr (item, iter)))
         else Inr (item, iter)) (\<lambda>(item, iter).
        let response = response\<lparr>lr_positions := (lr_positions response) @ [item]\<rparr> in
        Inr response)))))))) arr response))))"

definition parseSpotPairDeployAuctionStatusObj :: "'v sj_reader \<Rightarrow> 'v \<Rightarrow>
    SpotPairDeployAuctionStatusResponse outcome" where
  "parseSpotPairDeployAuctionStatusObj S obj =
     (let response = SpotPairDeployAuctionStatusResponse_init in
     bindE (field_uint64 S obj ''startTimeSeconds'') (\<lambda>v.
     let response = response\<lparr>spdasr_startTimeSeconds := v\<rparr> in
     bindE (field_uint64 S obj ''durationSeconds'') (\<lambda>v.
     let response = response\<lparr>spdasr_durationSeconds := v\<rparr> in
     bindE (parseNumberField S obj ''startGas'') (\<lambda>v.
     let response = response\<lparr>spdasr_startGas := v\<rparr> in
     bindE (case sj_field S obj ''currentGas'' of
      Inr currentGasVal \<Rightarrow>
        (if \<not> (is_null S currentGasVal) then
          bindE (sj_string S currentGasVal) (\<lambda>v.
          bindE (toDouble v) (\<lambda>v2.
          let response = response\<lparr>spdasr_currentGas := Some v2\<rparr> in
          Inr response))
         else Inr response)
      | Inl _ \<Rightarrow>
        Inr response) (\<lambda>response.
     bindE (case sj_field S obj ''endGas'' of
      Inr endGasVal \<Rightarrow>
        (if \<not> (is_null S endGasVal) then
          bindE (sj_string S endGasVal) (\<lambda>v.
          bindE (toDouble v) (\<lambda>v2.
          let response = response\<lparr>spdasr_endGas := Some v2\<rparr> in
          Inr response))
         else Inr response)
      | Inl _ \<Rightarrow>
        Inr response) (\<lambda>response.
     (Inr response)))))))"

definition parseSpotPairDeployAuctionStatus :: "'v sj_reader \<Rightarrow> string \<Rightarrow>
    SpotPairDeployAuctionStatusResponse outcome" where
  "parseSpotPairDeployAuctionStatus S message =
     (let response = SpotPairDeployAuctionStatusResponse_init in
     let doc = sj_iterate S message in
     finish (
      tryE response (sj_validate S message) (\<lambda>_.
      tryE response (bindE doc (sj_object S)) (\<lambda>obj.
      tryE response (parseSpotPairDeployAuctionStatusObj S obj) (\<lambda>v.
      let response = v in
      Inr response)))))"

definition parseSpotDeployState :: "'v sj_reader \<Rightarrow> string \<Rightarrow> SpotDeployStateResponse outcome" where
  "parseSpotDeployState S message =
     (let response = SpotDeployStateResponse_init in
     let doc = sj_iterate S message in
     finish (
      tryE response (sj_validate S message) (\<lambda>_.
      tryE response (bindE doc (sj_object S)) (\<lambda>obj.
      tryE response (field_array S obj ''states'') (\<lambda>states.
      bindE (foldE (\<lambda>entry response.
        tryE response (sj_object S entry) (\<lambda>stateObj.
        let state = SpotDeployStateEntry_init in
        tryE response (field_int64 S stateObj ''token'') (\<lambda>v.
        let state = state\<lparr>sdse_token := to_int32 v\<rparr> in
        tryE response (field_object S stateObj ''spec'') (\<lambda>specObj.
        tryE response (field_string S specObj ''name'') (\<lambda>v.
        let state = state\<lparr>sdse_spec := (sdse_spec state)\<lparr>sdsts_name := v\<rparr>\<rparr> in
        tryE response (field_int64 S specObj ''szDecimals'') (\<lambda>v.
        let state = state\<lparr>sdse_spec := (sdse_spec state)\<lparr>sdsts_szDecimals := to_int32 v\<rparr>\<rparr> in
        tryE response (field_int64 S specObj ''weiDecimals'') (\<lambda>v.
        let state = state\<lparr>sdse_spec := (sdse_spec state)\<lparr>sdsts_weiDecimals := to_int32 v\<rparr>\<rparr> in
        bindE (case sj_field S stateObj ''fullName'' of
         Inr fullNameVal \<Rightarrow>
           (if \<not> (is_null S fullNameVal) then
             tryE response (sj_string S fullNameVal) (\<lambda>v.
             let state = state\<lparr>sdse_fullName := Some v\<rparr> in
             Inr state)
            else Inr state)
         | Inl _ \<Rightarrow>
           Inr state) (\<lambda>state.
        tryE response (parseNumberField S stateObj ''deployerTradingFeeShare'') (\<lambda>v.
        let state = state\<lparr>sdse_deployerTradingFeeShare := v\<rparr> in
        tryE response (field_array S stateObj ''spots'') (\<lambda>spots.
        bindE (foldE (\<lambda>s state.
          tryE response (sj_int64 S s) (\<lambda>v.
          let state = state\<lparr>sdse_spots := (sdse_spots state) @ [to_int32 v]\<rparr> in
          Inr state)) spots state) (\<lambda>state.
        bindE (case sj_field S stateObj ''maxSupply'' of
         Inr maxSupplyVal \<Rightarrow>
           (if \<not> (is_null S maxSupplyVal) then
             tryE response (sj_string S maxSupplyVal) (\<lambda>v.
             tryE response (toDouble v) (\<lambda>v2.
             let state = state\<lparr>sdse_maxSupply := Some v2\<rparr> in
             Inr state))
            else Inr state)
         | Inl _ \<Rightarrow>
           Inr state) (\<lambda>state.
        tryE response (parseNumberField S stateObj ''hyperliquidityGenesisBalance'') (\<lambda>v.
        let state = state\<lparr>sdse_hyperliquidityGenesisBalance := v\<rparr> in
        tryE response (parseNumberField S stateObj ''totalGenesisBalanceWei'') (\<lambda>v.
        let state = state\<lparr>sdse_totalGenesisBalanceWei := v\<rparr> in
        tryE response (field_array S stateObj ''userGenesisBalances'') (\<lambda>userGenesisBalances.
        bindE (foldE (\<lambda>balanceEntry state.
          tryE response (sj_array S balanceEntry) (\<lambda>pair.
          let iter = pair in
          (if iter = [] then
            Inr state
           else
            let balance = SpotDeployStateGenesisBalance_init in
            tryE response (sj_string S (hd iter)) (\<lambda>v.
            let balance = balance\<lparr>sdsgb_address := v\<rparr> in
            let iter = tl iter in
            (if iter = [] then
              Inr state
             else
              tryE response (sj_string S (hd iter)) (\<lambda>v.
              tryE response (toDouble v) (\<lambda>v2.
              let balance = balance\<lparr>sdsgb_balance := v2\<rparr> in
              let state = state\<lparr>sdse_userGenesisBalances := (sdse_userGenesisBalances state) @ [balance]\<rparr> in
              Inr state))))))) userGenesisBalances state) (\<lambda>state.
        tryE response (field_array S stateObj ''existingTokenGenesisBalances'') (\<lambda>existingTokenGenesisBalances.
        bindE (foldE (\<lambda>balanceEntry state.
          tryE response (sj_array S balanceEntry) (\<lambda>pair.
          let iter = pair in
          (if iter = [] then
            Inr state
           else
            let balance = SpotDeployStateExistingTokenBalance_init in
            tryE response (sj_int64 S (hd iter)) (\<lambda>v.
            let balance = balance\<lparr>sdsetb_token := to_int32 v\<rparr> in
            let iter = tl iter in
            (if iter = [] then
              Inr state
             else
              tryE response (sj_string S (hd iter)) (\<lambda>v.
              tryE response (toDouble v) (\<lambda>v2.
              let balance = balance\<lparr>sdsetb_balance := v2\<rparr> in
              let state = state\<lparr>sdse_existingTokenGenesisBalances := (sdse_existingTokenGenesisBalances state) @ [balance]\<rparr> in
              Inr state))))))) existingTokenGenesisBalances state) (\<lambda>state.
        bindE (case field_array S stateObj ''blacklistUsers'' of
         Inr blacklistUsers \<Rightarrow>
           foldE (\<lambda>u state.
             tryE response (sj_string S u) (\<lambda>v.
             let state = state\<lparr>sdse_blacklistUsers := (sdse_blacklistUsers state) @ [v]\<rparr> in
             Inr state)) blacklistUsers state
         | Inl _ \<Rightarrow>
           Inr state) (\<lambda>state.
        let response = response\<lparr>sdsr_states := (sdsr_states response) @ [state]\<rparr> in
        Inr response))))))))))))))))))) states response) (\<lambda>response.
      tryE response (field_object S obj ''gasAuction'') (\<lambda>gasAuctionObj.
      tryE response (parseSpotPairDeployAuctionStatusObj S gasAuctionObj) (\<lambda>v.
      let response = response\<lparr>sdsr_gasAuction := v\<rparr> in
      Inr response))))))))"

definition parseUserDexAbstractionState :: "'v sj_reader \<Rightarrow> string \<Rightarrow> UserDexAbstractionResponse outcome" where
  "parseUserDexAbstractionState S message =
     (let response = UserDexAbstractionResponse_zero in
     let doc = sj_iterate S message in
     finish (
      tryE response (sj_validate S message) (\<lambda>_.
      tryE response (bindE doc (\<lambda>x. sj_type S x)) (\<lambda>v.
      (if v = SJ_Null then
        let response = response\<lparr>udar_enabled := None\<rparr> in
        Inr response
       else
        tryE response (bindE doc (sj_bool S)) (\<lambda>v.
        let response = response\<lparr>udar_enabled := Some v\<rparr> in
        Inr response))))))"

definition parseUserAbstraction :: "'v sj_reader \<Rightarrow> string \<Rightarrow> UserAbstractionResponse outcome" where
  "parseUserAbstraction S message =
     (let response = UserAbstractionResponse_zero in
     let doc = sj_iterate S message in
     finish (
      tryE response (sj_validate S message) (\<lambda>_.
      tryE response (bindE doc (sj_string S)) (\<lambda>v.
      let response = response\<lparr>uar_state := stringToUserAbstractionState v\<rparr> in
      Inr response))))"

definition parseExchangeStatus :: "'v sj_reader \<Rightarrow> string \<Rightarrow> ExchangeStatusResponse outcome" where
  "parseExchangeStatus S message =
     (let response = ExchangeStatusResponse_init in
     let doc = sj_iterate S message in
     finish (
      tryE response (sj_validate S message) (\<lambda>_.
      tryE response (bindE doc (sj_object S)) (\<lambda>obj.
      bindE (case sj_field S obj ''specialStatuses'' of
       Inr specialStatusesVal \<Rightarrow>
         (if \<not> (is_null S specialStatusesVal) then
           tryE response (sj_array S specialStatusesVal) (\<lambda>v.
           foldE (\<lambda>entry response.
             tryE response (sj_string S entry) (\<lambda>v.
             let response = response\<lparr>esr_specialStatuses := (esr_specialStatuses response) @ [v]\<rparr> in
             Inr response)) v response)
          else Inr response)
       | Inl _ \<Rightarrow>
         Inr response) (\<lambda>response.
      tryE response (field_uint64 S obj ''time'') (\<lambda>v.
      let response = response\<lparr>esr_time := v\<rparr> in
      Inr response))))))"

end
