(* ===== verification/Rest_Account_Parser.thy ===== *)
theory Rest_Account_Parser
  imports Rest_Fields Info_Types Stream_Types Account_Types Reply_Types
begin

text \<open>
  \<open>RestApiMessageParser\<close>: the answers on an account (positions, ledger, fees, portfolios, vaults, referrals).
  Each function is its C++ body statement by statement, in continuation style: a local that is
  assigned is bound again, \<open>tryE s m (\<lambda>v. \<dots>)\<close> evaluates \<open>m\<close> while \<open>s\<close> is what the handler would
  return, \<open>Inl (Return s)\<close> is a \<open>return\<close> inside the \<open>try\<close> block.
\<close>

definition parseLedgerUpdateDelta :: "'v sj_reader \<Rightarrow> 'v \<Rightarrow> LedgerUpdateDelta outcome" where
  "parseLedgerUpdateDelta S deltaObj =
     (let delta = LedgerUpdateDelta_init in
     bindE (field_string S deltaObj ''type'') (\<lambda>v.
     let delta = delta\<lparr>lud_type := stringToLedgerUpdateDeltaType v\<rparr> in
     bindE (case lud_type delta of
     LedgerUpdateDeltaType_Funding \<Rightarrow>
       bindE (field_string S deltaObj ''coin'') (\<lambda>v.
       let delta = delta\<lparr>lud_coin := Some v\<rparr> in
       bindE (parseNumberField S deltaObj ''fundingRate'') (\<lambda>v.
       let delta = delta\<lparr>lud_fundingRate := Some v\<rparr> in
       bindE (parseNumberField S deltaObj ''szi'') (\<lambda>v.
       let delta = delta\<lparr>lud_szi := Some v\<rparr> in
       bindE (parseNumberField S deltaObj ''usdc'') (\<lambda>v.
       let delta = delta\<lparr>lud_usdc := Some v\<rparr> in
       (case sj_field S deltaObj ''nSamples'' of
        Inr nSamplesVal \<Rightarrow>
          (if \<not> (is_null S nSamplesVal) then
            (case sj_string S nSamplesVal of
             Inr sv \<Rightarrow>
               bindE (toDouble sv) (\<lambda>v.
               let delta = delta\<lparr>lud_nSamples := Some v\<rparr> in
               Inr delta)
             | Inl _ \<Rightarrow>
               bindE (sj_double S nSamplesVal) (\<lambda>v.
               let delta = delta\<lparr>lud_nSamples := Some v\<rparr> in
               Inr delta))
           else Inr delta)
        | Inl _ \<Rightarrow>
          Inr delta)))))
     | LedgerUpdateDeltaType_Deposit \<Rightarrow>
       bindE (parseNumberField S deltaObj ''usdc'') (\<lambda>v.
       let delta = delta\<lparr>lud_usdc := Some v\<rparr> in
       Inr delta)
     | LedgerUpdateDeltaType_Withdraw \<Rightarrow>
       bindE (parseNumberField S deltaObj ''usdc'') (\<lambda>v.
       let delta = delta\<lparr>lud_usdc := Some v\<rparr> in
       bindE (parseNumberField S deltaObj ''fee'') (\<lambda>v.
       let delta = delta\<lparr>lud_fee := Some v\<rparr> in
       (case field_uint64 S deltaObj ''nonce'' of
        Inr nonce \<Rightarrow>
          let delta = delta\<lparr>lud_nonce := Some nonce\<rparr> in
          Inr delta
        | Inl _ \<Rightarrow>
          Inr delta)))
     | LedgerUpdateDeltaType_AccountClassTransfer \<Rightarrow>
       bindE (parseNumberField S deltaObj ''usdc'') (\<lambda>v.
       let delta = delta\<lparr>lud_usdc := Some v\<rparr> in
       (case field_bool S deltaObj ''toPerp'' of
        Inr toPerp \<Rightarrow>
          let delta = delta\<lparr>lud_toPerp := Some toPerp\<rparr> in
          Inr delta
        | Inl _ \<Rightarrow>
          Inr delta))
     | LedgerUpdateDeltaType_InternalTransfer \<Rightarrow>
       bindE (parseNumberField S deltaObj ''usdc'') (\<lambda>v.
       let delta = delta\<lparr>lud_usdc := Some v\<rparr> in
       bindE (field_string S deltaObj ''user'') (\<lambda>v.
       let delta = delta\<lparr>lud_user := Some v\<rparr> in
       bindE (field_string S deltaObj ''destination'') (\<lambda>v.
       let delta = delta\<lparr>lud_destination := Some v\<rparr> in
       bindE (parseNumberField S deltaObj ''fee'') (\<lambda>v.
       let delta = delta\<lparr>lud_fee := Some v\<rparr> in
       Inr delta))))
     | LedgerUpdateDeltaType_SubAccountTransfer \<Rightarrow>
       bindE (parseNumberField S deltaObj ''usdc'') (\<lambda>v.
       let delta = delta\<lparr>lud_usdc := Some v\<rparr> in
       bindE (field_string S deltaObj ''user'') (\<lambda>v.
       let delta = delta\<lparr>lud_user := Some v\<rparr> in
       bindE (field_string S deltaObj ''destination'') (\<lambda>v.
       let delta = delta\<lparr>lud_destination := Some v\<rparr> in
       Inr delta)))
     | LedgerUpdateDeltaType_SpotTransfer \<Rightarrow>
       bindE (field_string S deltaObj ''token'') (\<lambda>v.
       let delta = delta\<lparr>lud_token := Some v\<rparr> in
       bindE (parseNumberField S deltaObj ''amount'') (\<lambda>v.
       let delta = delta\<lparr>lud_amount := Some v\<rparr> in
       bindE (parseNumberField S deltaObj ''usdcValue'') (\<lambda>v.
       let delta = delta\<lparr>lud_usdcValue := Some v\<rparr> in
       bindE (field_string S deltaObj ''user'') (\<lambda>v.
       let delta = delta\<lparr>lud_user := Some v\<rparr> in
       bindE (field_string S deltaObj ''destination'') (\<lambda>v.
       let delta = delta\<lparr>lud_destination := Some v\<rparr> in
       bindE (parseNumberField S deltaObj ''fee'') (\<lambda>v.
       let delta = delta\<lparr>lud_fee := Some v\<rparr> in
       bindE (parseNumberField S deltaObj ''nativeTokenFee'') (\<lambda>v.
       let delta = delta\<lparr>lud_nativeTokenFee := Some v\<rparr> in
       Inr delta)))))))
     | _ \<Rightarrow>
       Inr delta) (\<lambda>delta.
     bindE (if (lud_type delta) = LedgerUpdateDeltaType_Unknown then
       let rawStr = sj_raw S deltaObj in
       (if \<not> (isl rawStr) then
         bindE rawStr (\<lambda>v.
         let delta = delta\<lparr>lud_rawJson := Some v\<rparr> in
         Inr delta)
        else Inr delta)
      else Inr delta) (\<lambda>delta.
     (Inr delta)))))"

definition parseUserFundingLedgerUpdateResponse :: "'v sj_reader \<Rightarrow> string \<Rightarrow> string \<Rightarrow>
    UserFundingLedgerUpdateResponse outcome" where
  "parseUserFundingLedgerUpdateResponse S message endpointName =
     (let response = UserFundingLedgerUpdateResponse_init in
     let doc = sj_iterate S message in
     finish (
      tryE response (sj_validate S message) (\<lambda>_.
      tryE response (bindE doc (sj_array S)) (\<lambda>arr.
      foldE (\<lambda>entry response.
        tryE response (sj_object S entry) (\<lambda>obj.
        let updateEntry = LedgerUpdateEntry_zero in
        tryE response (field_uint64 S obj ''time'') (\<lambda>v.
        let updateEntry = updateEntry\<lparr>lue_time := v\<rparr> in
        tryE response (field_string S obj ''hash'') (\<lambda>v.
        let updateEntry = updateEntry\<lparr>lue_hash := v\<rparr> in
        tryE response (field_object S obj ''delta'') (\<lambda>deltaObj.
        tryE response (parseLedgerUpdateDelta S deltaObj) (\<lambda>v.
        let updateEntry = updateEntry\<lparr>lue_delta := v\<rparr> in
        let response = response\<lparr>uflur_updates := (uflur_updates response) @ [updateEntry]\<rparr> in
        Inr response)))))) arr response))))"

definition parseUserFunding :: "'v sj_reader \<Rightarrow> string \<Rightarrow> UserFundingLedgerUpdateResponse outcome" where
  "parseUserFunding S message =
     ((parseUserFundingLedgerUpdateResponse S message ''userFunding''))"

definition parseUserNonFundingLedgerUpdates :: "'v sj_reader \<Rightarrow> string \<Rightarrow>
    UserFundingLedgerUpdateResponse outcome" where
  "parseUserNonFundingLedgerUpdates S message =
     ((parseUserFundingLedgerUpdateResponse S message ''userNonFundingLedgerUpdates''))"

definition parseClearinghouseStateObj :: "'v sj_reader \<Rightarrow> 'v \<Rightarrow> ClearinghouseState outcome" where
  "parseClearinghouseStateObj S doc =
     (let response = ClearinghouseState_zero in
     finish (
      tryE response (field_object S doc ''marginSummary'') (\<lambda>marginObj.
      tryE response (field_string S marginObj ''accountValue'') (\<lambda>v.
      tryE response (toDouble v) (\<lambda>v2.
      let response = response\<lparr>cs_marginSummary := (cs_marginSummary response)\<lparr>ms_accountValue := v2\<rparr>\<rparr> in
      tryE response (field_string S marginObj ''totalNtlPos'') (\<lambda>v.
      tryE response (toDouble v) (\<lambda>v2.
      let response = response\<lparr>cs_marginSummary := (cs_marginSummary response)\<lparr>ms_totalNtlPos := v2\<rparr>\<rparr> in
      tryE response (field_string S marginObj ''totalRawUsd'') (\<lambda>v.
      tryE response (toDouble v) (\<lambda>v2.
      let response = response\<lparr>cs_marginSummary := (cs_marginSummary response)\<lparr>ms_totalRawUsd := v2\<rparr>\<rparr> in
      tryE response (field_string S marginObj ''totalMarginUsed'') (\<lambda>v.
      tryE response (toDouble v) (\<lambda>v2.
      let response = response\<lparr>cs_marginSummary := (cs_marginSummary response)\<lparr>ms_totalMarginUsed := v2\<rparr>\<rparr> in
      let response = response\<lparr>cs_crossMarginSummary := MarginSummary_zero\<rparr> in
      bindE (case sj_field S doc ''crossMarginSummary'' of
       Inr crossVal \<Rightarrow>
         (if \<not> (is_null S crossVal) then
           tryE response (sj_object S crossVal) (\<lambda>crossObj.
           tryE response (field_string S crossObj ''accountValue'') (\<lambda>v.
           tryE response (toDouble v) (\<lambda>v2.
           let response = response\<lparr>cs_crossMarginSummary := (cs_crossMarginSummary response)\<lparr>ms_accountValue := v2\<rparr>\<rparr> in
           tryE response (field_string S crossObj ''totalNtlPos'') (\<lambda>v.
           tryE response (toDouble v) (\<lambda>v2.
           let response = response\<lparr>cs_crossMarginSummary := (cs_crossMarginSummary response)\<lparr>ms_totalNtlPos := v2\<rparr>\<rparr> in
           tryE response (field_string S crossObj ''totalRawUsd'') (\<lambda>v.
           tryE response (toDouble v) (\<lambda>v2.
           let response = response\<lparr>cs_crossMarginSummary := (cs_crossMarginSummary response)\<lparr>ms_totalRawUsd := v2\<rparr>\<rparr> in
           tryE response (field_string S crossObj ''totalMarginUsed'') (\<lambda>v.
           tryE response (toDouble v) (\<lambda>v2.
           let response = response\<lparr>cs_crossMarginSummary := (cs_crossMarginSummary response)\<lparr>ms_totalMarginUsed := v2\<rparr>\<rparr> in
           Inr response)))))))))
          else Inr response)
       | Inl _ \<Rightarrow>
         Inr response) (\<lambda>response.
      let response = response\<lparr>cs_crossMaintenanceMarginUsed := d_zero\<rparr> in
      bindE (case sj_field S doc ''crossMaintenanceMarginUsed'' of
       Inr maintVal \<Rightarrow>
         (if \<not> (is_null S maintVal) then
           (case sj_string S maintVal of
            Inr maintSv \<Rightarrow>
              tryE response (toDouble maintSv) (\<lambda>v.
              let response = response\<lparr>cs_crossMaintenanceMarginUsed := v\<rparr> in
              Inr response)
            | Inl _ \<Rightarrow>
              Inr response)
          else Inr response)
       | Inl _ \<Rightarrow>
         Inr response) (\<lambda>response.
      tryE response (field_string S doc ''withdrawable'') (\<lambda>v.
      tryE response (toDouble v) (\<lambda>v2.
      let response = response\<lparr>cs_withdrawable := v2\<rparr> in
      tryE response (field_uint64 S doc ''time'') (\<lambda>v.
      let response = response\<lparr>cs_time := v\<rparr> in
      tryE response (field_array S doc ''assetPositions'') (\<lambda>positions.
      foldE (\<lambda>entry response.
        tryE response (sj_object S entry) (\<lambda>obj.
        tryE response (field_object S obj ''position'') (\<lambda>posObj.
        let pos = AssetPosition_init in
        tryE response (field_string S posObj ''coin'') (\<lambda>v.
        let pos = pos\<lparr>ap_coin := v\<rparr> in
        tryE response (field_string S posObj ''szi'') (\<lambda>v.
        tryE response (toDouble v) (\<lambda>v2.
        let pos = pos\<lparr>ap_szi := v2\<rparr> in
        tryE response (field_string S posObj ''entryPx'') (\<lambda>v.
        tryE response (toDouble v) (\<lambda>v2.
        let pos = pos\<lparr>ap_entryPx := v2\<rparr> in
        tryE response (field_string S posObj ''positionValue'') (\<lambda>v.
        tryE response (toDouble v) (\<lambda>v2.
        let pos = pos\<lparr>ap_positionValue := v2\<rparr> in
        tryE response (field_string S posObj ''unrealizedPnl'') (\<lambda>v.
        tryE response (toDouble v) (\<lambda>v2.
        let pos = pos\<lparr>ap_unrealizedPnl := v2\<rparr> in
        tryE response (field_string S posObj ''returnOnEquity'') (\<lambda>v.
        tryE response (toDouble v) (\<lambda>v2.
        let pos = pos\<lparr>ap_returnOnEquity := v2\<rparr> in
        bindE (case sj_field S posObj ''liquidationPx'' of
         Inr liqPxVal \<Rightarrow>
           (if \<not> (is_null S liqPxVal) then
             let liqSv = '''' in
             let (ok, liqSv) = (case sj_string S liqPxVal of Inr liqSv \<Rightarrow> (True, liqSv) | Inl _ \<Rightarrow> (False, liqSv)) in
             let pos = pos\<lparr>ap_hasLiquidationPx := ok\<rparr> in
             tryE response ((if ap_hasLiquidationPx pos then (toDouble liqSv) else (Inr d_zero))) (\<lambda>v2.
             let pos = pos\<lparr>ap_liquidationPx := v2\<rparr> in
             Inr pos)
            else
             let pos = pos\<lparr>ap_hasLiquidationPx := False\<rparr> in
             let pos = pos\<lparr>ap_liquidationPx := d_zero\<rparr> in
             Inr pos)
         | Inl _ \<Rightarrow>
           let pos = pos\<lparr>ap_hasLiquidationPx := False\<rparr> in
           let pos = pos\<lparr>ap_liquidationPx := d_zero\<rparr> in
           Inr pos) (\<lambda>pos.
        let response = response\<lparr>cs_assetPositions := (cs_assetPositions response) @ [pos]\<rparr> in
        Inr response))))))))))))))) positions response)))))))))))))))))"

definition parseClearinghouseState :: "'v sj_reader \<Rightarrow> string \<Rightarrow> ClearinghouseState outcome" where
  "parseClearinghouseState S message =
     (let doc = sj_iterate S message in
      finish (
        tryE ClearinghouseState_zero (sj_validate S message) (\<lambda>_.
        tryE ClearinghouseState_zero (bindE doc (sj_object S)) (\<lambda>obj.
        tryE ClearinghouseState_zero (parseClearinghouseStateObj S obj) (\<lambda>r.
        Inl (Return r))))))"

definition parseSpotClearinghouseStateObj :: "'v sj_reader \<Rightarrow> 'v \<Rightarrow> SpotClearinghouseStateResponse outcome" where
  "parseSpotClearinghouseStateObj S doc =
     (let response = SpotClearinghouseStateResponse_init in
     bindE (field_array S doc ''balances'') (\<lambda>balances.
     bindE (foldE (\<lambda>entry response.
       bindE (sj_object S entry) (\<lambda>obj.
       let balance = SpotBalance_init in
       bindE (field_string S obj ''coin'') (\<lambda>v.
       let balance = balance\<lparr>sb_coin := v\<rparr> in
       bindE (field_int64 S obj ''token'') (\<lambda>v.
       let balance = balance\<lparr>sb_token := to_int32 v\<rparr> in
       bindE (parseNumberField S obj ''hold'') (\<lambda>v.
       let balance = balance\<lparr>sb_hold := v\<rparr> in
       bindE (parseNumberField S obj ''total'') (\<lambda>v.
       let balance = balance\<lparr>sb_total := v\<rparr> in
       bindE (parseNumberField S obj ''entryNtl'') (\<lambda>v.
       let balance = balance\<lparr>sb_entryNtl := v\<rparr> in
       let response = response\<lparr>scsr_balances := (scsr_balances response) @ [balance]\<rparr> in
       Inr response))))))) balances response) (\<lambda>response.
     (Inr response))))"

definition parseSpotClearinghouseState :: "'v sj_reader \<Rightarrow> string \<Rightarrow> SpotClearinghouseStateResponse outcome" where
  "parseSpotClearinghouseState S message =
     (let response = SpotClearinghouseStateResponse_init in
     let doc = sj_iterate S message in
     finish (
      tryE response (sj_validate S message) (\<lambda>_.
      tryE response (bindE doc (sj_object S)) (\<lambda>obj.
      tryE response (parseSpotClearinghouseStateObj S obj) (\<lambda>v.
      let response = v in
      Inr response)))))"

definition parseActiveAssetData :: "'v sj_reader \<Rightarrow> string \<Rightarrow> ActiveAssetData outcome" where
  "parseActiveAssetData S message =
     (let response = ActiveAssetData_zero in
     let doc = sj_iterate S message in
     finish (
      tryE response (sj_validate S message) (\<lambda>_.
      tryE response (bindE doc (sj_object S)) (\<lambda>obj.
      tryE response (field_string S obj ''user'') (\<lambda>v.
      let response = response\<lparr>aad_user := v\<rparr> in
      tryE response (field_string S obj ''coin'') (\<lambda>v.
      let response = response\<lparr>aad_coin := v\<rparr> in
      tryE response (field_object S obj ''leverage'') (\<lambda>leverageObj.
      tryE response (field_string S leverageObj ''type'') (\<lambda>v.
      let response = response\<lparr>aad_leverageType := stringToLeverageType v\<rparr> in
      tryE response (parseNumberField S leverageObj ''value'') (\<lambda>v.
      let response = response\<lparr>aad_leverageValue := v\<rparr> in
      bindE (case field_string S leverageObj ''rawUsd'' of
       Inr rawUsdStr \<Rightarrow>
         tryE response (toDouble rawUsdStr) (\<lambda>v.
         let response = response\<lparr>aad_leverageRawUsd := Some v\<rparr> in
         Inr response)
       | Inl _ \<Rightarrow>
         (case field_double S leverageObj ''rawUsd'' of
          Inr rawUsd \<Rightarrow>
            let response = response\<lparr>aad_leverageRawUsd := Some rawUsd\<rparr> in
            Inr response
          | Inl _ \<Rightarrow>
            Inr response)) (\<lambda>response.
      tryE response (field_array S obj ''maxTradeSzs'') (\<lambda>maxTradeSzs.
      let idx = (0 :: u64) in
      bindE (foldE (\<lambda>v (response, idx).
        tryE response ((case sj_string S v of Inr sv \<Rightarrow> (toDouble sv) | Inl _ \<Rightarrow> (sj_double S v))) (\<lambda>val.
        let response = (if idx = 0 then
          let response = response\<lparr>aad_maxTradeSzLong := val\<rparr> in
          response
         else (if idx = 1 then
           let response = response\<lparr>aad_maxTradeSzShort := val\<rparr> in
           response
          else response)) in
        let idx = idx + 1 in
        Inr (response, idx))) maxTradeSzs (response, idx)) (\<lambda>(response, idx).
      tryE response (field_array S obj ''availableToTrade'') (\<lambda>availableToTrade.
      let idx = (0 :: u64) in
      bindE (foldE (\<lambda>v (response, idx).
        tryE response ((case sj_string S v of Inr sv \<Rightarrow> (toDouble sv) | Inl _ \<Rightarrow> (sj_double S v))) (\<lambda>val.
        let response = (if idx = 0 then
          let response = response\<lparr>aad_availableToTradeLong := val\<rparr> in
          response
         else (if idx = 1 then
           let response = response\<lparr>aad_availableToTradeShort := val\<rparr> in
           response
          else response)) in
        let idx = idx + 1 in
        Inr (response, idx))) availableToTrade (response, idx)) (\<lambda>(response, idx).
      tryE response (parseNumberField S obj ''markPx'') (\<lambda>v.
      let response = response\<lparr>aad_markPx := v\<rparr> in
      Inr response)))))))))))))))"

definition parseSubAccounts :: "'v sj_reader \<Rightarrow> string \<Rightarrow> SubAccountsResponse outcome" where
  "parseSubAccounts S message =
     (let response = SubAccountsResponse_init in
     let doc = sj_iterate S message in
     finish (
      tryE response (sj_validate S message) (\<lambda>_.
      tryE response (bindE doc (\<lambda>x. sj_type S x)) (\<lambda>v.
      (if v = SJ_Null then
        Inl (Return response)
       else
        tryE response (bindE doc (sj_array S)) (\<lambda>arr.
        foldE (\<lambda>entry response.
          tryE response (sj_object S entry) (\<lambda>obj.
          let sub = SubAccount_init in
          tryE response (field_string S obj ''name'') (\<lambda>v.
          let sub = sub\<lparr>sa_name := v\<rparr> in
          tryE response (field_string S obj ''subAccountUser'') (\<lambda>v.
          let sub = sub\<lparr>sa_subAccountUser := v\<rparr> in
          tryE response (field_string S obj ''master'') (\<lambda>v.
          let sub = sub\<lparr>sa_master := v\<rparr> in
          tryE response (field_object S obj ''clearinghouseState'') (\<lambda>chObj.
          tryE response (parseClearinghouseStateObj S chObj) (\<lambda>v.
          let sub = sub\<lparr>sa_clearinghouseState := v\<rparr> in
          tryE response (field_object S obj ''spotState'') (\<lambda>spotObj.
          tryE response (parseSpotClearinghouseStateObj S spotObj) (\<lambda>v.
          let sub = sub\<lparr>sa_spotState := v\<rparr> in
          let response = response\<lparr>sar_subAccounts := (sar_subAccounts response) @ [sub]\<rparr> in
          Inr response))))))))) arr response))))))"

definition parseUserFees :: "'v sj_reader \<Rightarrow> string \<Rightarrow> UserFeesResponse outcome" where
  "parseUserFees S message =
     (let response = UserFeesResponse_zero in
     let doc = sj_iterate S message in
     finish (
      tryE response (sj_validate S message) (\<lambda>_.
      tryE response (bindE doc (sj_object S)) (\<lambda>obj.
      tryE response (field_array S obj ''dailyUserVlm'') (\<lambda>dailyVlm.
      bindE (foldE (\<lambda>entry response.
        tryE response (sj_object S entry) (\<lambda>dObj.
        let vol = DailyUserVolume_init in
        tryE response (field_string S dObj ''date'') (\<lambda>v.
        let vol = vol\<lparr>duv_date := v\<rparr> in
        tryE response (parseNumberField S dObj ''userCross'') (\<lambda>v.
        let vol = vol\<lparr>duv_userCross := v\<rparr> in
        tryE response (parseNumberField S dObj ''userAdd'') (\<lambda>v.
        let vol = vol\<lparr>duv_userAdd := v\<rparr> in
        tryE response (parseNumberField S dObj ''exchange'') (\<lambda>v.
        let vol = vol\<lparr>duv_exchange := v\<rparr> in
        let response = response\<lparr>ufre_dailyUserVlm := (ufre_dailyUserVlm response) @ [vol]\<rparr> in
        Inr response)))))) dailyVlm response) (\<lambda>response.
      tryE response (field_object S obj ''feeSchedule'') (\<lambda>scheduleObj.
      tryE response (parseNumberField S scheduleObj ''cross'') (\<lambda>v.
      let response = response\<lparr>ufre_feeSchedule := (ufre_feeSchedule response)\<lparr>fs_cross := v\<rparr>\<rparr> in
      tryE response (parseNumberField S scheduleObj ''add'') (\<lambda>v.
      let response = response\<lparr>ufre_feeSchedule := (ufre_feeSchedule response)\<lparr>fs_add := v\<rparr>\<rparr> in
      tryE response (parseNumberField S scheduleObj ''spotCross'') (\<lambda>v.
      let response = response\<lparr>ufre_feeSchedule := (ufre_feeSchedule response)\<lparr>fs_spotCross := v\<rparr>\<rparr> in
      tryE response (parseNumberField S scheduleObj ''spotAdd'') (\<lambda>v.
      let response = response\<lparr>ufre_feeSchedule := (ufre_feeSchedule response)\<lparr>fs_spotAdd := v\<rparr>\<rparr> in
      tryE response (parseNumberField S scheduleObj ''referralDiscount'') (\<lambda>v.
      let response = response\<lparr>ufre_feeSchedule := (ufre_feeSchedule response)\<lparr>fs_referralDiscount := v\<rparr>\<rparr> in
      tryE response (field_object S scheduleObj ''tiers'') (\<lambda>tiersObj.
      tryE response (field_array S tiersObj ''vip'') (\<lambda>vipTiers.
      bindE (foldE (\<lambda>entry response.
        tryE response (sj_object S entry) (\<lambda>vObj.
        let tier = FeeTierVip_init in
        tryE response (parseNumberField S vObj ''ntlCutoff'') (\<lambda>v.
        let tier = tier\<lparr>ftv_ntlCutoff := v\<rparr> in
        tryE response (parseNumberField S vObj ''cross'') (\<lambda>v.
        let tier = tier\<lparr>ftv_cross := v\<rparr> in
        tryE response (parseNumberField S vObj ''add'') (\<lambda>v.
        let tier = tier\<lparr>ftv_add := v\<rparr> in
        tryE response (parseNumberField S vObj ''spotCross'') (\<lambda>v.
        let tier = tier\<lparr>ftv_spotCross := v\<rparr> in
        tryE response (parseNumberField S vObj ''spotAdd'') (\<lambda>v.
        let tier = tier\<lparr>ftv_spotAdd := v\<rparr> in
        let response = response\<lparr>ufre_feeSchedule := (ufre_feeSchedule response)\<lparr>fs_vipTiers := (fs_vipTiers (ufre_feeSchedule response)) @ [tier]\<rparr>\<rparr> in
        Inr response))))))) vipTiers response) (\<lambda>response.
      tryE response (field_array S tiersObj ''mm'') (\<lambda>mmTiers.
      bindE (foldE (\<lambda>entry response.
        tryE response (sj_object S entry) (\<lambda>mObj.
        let tier = FeeTierMm_init in
        tryE response (parseNumberField S mObj ''makerFractionCutoff'') (\<lambda>v.
        let tier = tier\<lparr>ftm_makerFractionCutoff := v\<rparr> in
        tryE response (parseNumberField S mObj ''add'') (\<lambda>v.
        let tier = tier\<lparr>ftm_add := v\<rparr> in
        let response = response\<lparr>ufre_feeSchedule := (ufre_feeSchedule response)\<lparr>fs_mmTiers := (fs_mmTiers (ufre_feeSchedule response)) @ [tier]\<rparr>\<rparr> in
        Inr response)))) mmTiers response) (\<lambda>response.
      tryE response (field_array S scheduleObj ''stakingDiscountTiers'') (\<lambda>stakingTiers.
      bindE (foldE (\<lambda>entry response.
        tryE response (sj_object S entry) (\<lambda>sObj.
        let tier = StakingDiscountTier_init in
        tryE response (parseNumberField S sObj ''bpsOfMaxSupply'') (\<lambda>v.
        let tier = tier\<lparr>sdt_bpsOfMaxSupply := v\<rparr> in
        tryE response (parseNumberField S sObj ''discount'') (\<lambda>v.
        let tier = tier\<lparr>sdt_discount := v\<rparr> in
        let response = response\<lparr>ufre_feeSchedule := (ufre_feeSchedule response)\<lparr>fs_stakingDiscountTiers := (fs_stakingDiscountTiers (ufre_feeSchedule response)) @ [tier]\<rparr>\<rparr> in
        Inr response)))) stakingTiers response) (\<lambda>response.
      tryE response (parseNumberField S obj ''userCrossRate'') (\<lambda>v.
      let response = response\<lparr>ufre_userCrossRate := v\<rparr> in
      tryE response (parseNumberField S obj ''userAddRate'') (\<lambda>v.
      let response = response\<lparr>ufre_userAddRate := v\<rparr> in
      tryE response (parseNumberField S obj ''userSpotCrossRate'') (\<lambda>v.
      let response = response\<lparr>ufre_userSpotCrossRate := v\<rparr> in
      tryE response (parseNumberField S obj ''userSpotAddRate'') (\<lambda>v.
      let response = response\<lparr>ufre_userSpotAddRate := v\<rparr> in
      tryE response (parseNumberField S obj ''activeReferralDiscount'') (\<lambda>v.
      let response = response\<lparr>ufre_activeReferralDiscount := v\<rparr> in
      tryE response (parseNumberField S obj ''feeTrialEscrow'') (\<lambda>v.
      let response = response\<lparr>ufre_feeTrialEscrow := v\<rparr> in
      bindE (case sj_field S obj ''nextTrialAvailableTimestamp'' of
       Inr trialTsVal \<Rightarrow>
         (if \<not> (is_null S trialTsVal) then
           tryE response (sj_uint64 S trialTsVal) (\<lambda>v.
           let response = response\<lparr>ufre_nextTrialAvailableTimestamp := Some v\<rparr> in
           Inr response)
          else Inr response)
       | Inl _ \<Rightarrow>
         Inr response) (\<lambda>response.
      bindE (case sj_field S obj ''stakingLink'' of
       Inr stakingLinkVal \<Rightarrow>
         (if \<not> (is_null S stakingLinkVal) then
           tryE response (sj_object S stakingLinkVal) (\<lambda>linkObj.
           let link = StakingLink_init in
           tryE response (field_string S linkObj ''type'') (\<lambda>v.
           let link = link\<lparr>sl_type := v\<rparr> in
           tryE response (field_string S linkObj ''stakingUser'') (\<lambda>v.
           let link = link\<lparr>sl_stakingUser := v\<rparr> in
           let response = response\<lparr>ufre_stakingLink := Some link\<rparr> in
           Inr response)))
          else Inr response)
       | Inl _ \<Rightarrow>
         Inr response) (\<lambda>response.
      (case sj_field S obj ''activeStakingDiscount'' of
       Inr activeDiscountVal \<Rightarrow>
         (if \<not> (is_null S activeDiscountVal) then
           tryE response (sj_object S activeDiscountVal) (\<lambda>discObj.
           let discount = ActiveStakingDiscount_init in
           tryE response (parseNumberField S discObj ''bpsOfMaxSupply'') (\<lambda>v.
           let discount = discount\<lparr>asd_bpsOfMaxSupply := v\<rparr> in
           tryE response (parseNumberField S discObj ''discount'') (\<lambda>v.
           let discount = discount\<lparr>asd_discount := v\<rparr> in
           let response = response\<lparr>ufre_activeStakingDiscount := Some discount\<rparr> in
           Inr response)))
          else Inr response)
       | Inl _ \<Rightarrow>
         Inr response))))))))))))))))))))))))))))"

definition parseMaxBuilderFee :: "'v sj_reader \<Rightarrow> string \<Rightarrow> MaxBuilderFeeResponse outcome" where
  "parseMaxBuilderFee S message =
     (let response = MaxBuilderFeeResponse_zero in
     let doc = sj_iterate S message in
     finish (
      tryE response (sj_validate S message) (\<lambda>_.
      tryE response (bindE doc (sj_int64 S)) (\<lambda>v.
      let response = response\<lparr>mbfr_maxFeeRateTenthsBps := to_int32 v\<rparr> in
      Inr response))))"

definition parseApprovedBuilders :: "'v sj_reader \<Rightarrow> string \<Rightarrow> ApprovedBuildersResponse outcome" where
  "parseApprovedBuilders S message =
     (let response = ApprovedBuildersResponse_init in
     let doc = sj_iterate S message in
     finish (
      tryE response (sj_validate S message) (\<lambda>_.
      tryE response (bindE doc (sj_array S)) (\<lambda>arr.
      foldE (\<lambda>entry response.
        tryE response (sj_string S entry) (\<lambda>v.
        let response = response\<lparr>abr_builders := (abr_builders response) @ [v]\<rparr> in
        Inr response)) arr response))))"

definition parseUserRateLimit :: "'v sj_reader \<Rightarrow> string \<Rightarrow> UserRateLimitResponse outcome" where
  "parseUserRateLimit S message =
     (let response = UserRateLimitResponse_zero in
     let doc = sj_iterate S message in
     finish (
      tryE response (sj_validate S message) (\<lambda>_.
      tryE response (bindE (sj_at S doc ''cumVlm'') (sj_string S)) (\<lambda>v.
      tryE response (toDouble v) (\<lambda>v2.
      let response = response\<lparr>urlr_cumVlm := v2\<rparr> in
      tryE response (bindE (sj_at S doc ''nRequestsUsed'') (sj_int64 S)) (\<lambda>v.
      let response = response\<lparr>urlr_nRequestsUsed := v\<rparr> in
      tryE response (bindE (sj_at S doc ''nRequestsCap'') (sj_int64 S)) (\<lambda>v.
      let response = response\<lparr>urlr_nRequestsCap := v\<rparr> in
      tryE response (bindE (sj_at S doc ''nRequestsSurplus'') (sj_int64 S)) (\<lambda>v.
      let response = response\<lparr>urlr_nRequestsSurplus := v\<rparr> in
      Inr response))))))))"

definition parsePortfolioArray :: "'v sj_reader \<Rightarrow> 'v list \<Rightarrow> (PortfolioPeriodMetrics list) outcome" where
  "parsePortfolioArray S arr =
     (let periods = [] in
     bindE (foldE (\<lambda>entry periods.
       bindE (sj_array S entry) (\<lambda>pairArr.
       let iter = pairArr in
       (if iter = [] then
         Inr periods
        else
         bindE (sj_string S (hd iter)) (\<lambda>periodName.
         let iter = tl iter in
         (if iter = [] then
           Inr periods
          else
           bindE (sj_object S (hd iter)) (\<lambda>metricsObj.
           let metrics = PortfolioPeriodMetrics_init in
           let metrics = metrics\<lparr>ppm_period := stringToPortfolioPeriodType periodName\<rparr> in
           bindE (field_array S metricsObj ''accountValueHistory'') (\<lambda>accountValueHistory.
           bindE (foldE (\<lambda>point metrics.
             bindE (sj_array S point) (\<lambda>pointArr.
             let pointIter = pointArr in
             (if pointIter = [] then
               Inr metrics
              else
               bindE (sj_uint64 S (hd pointIter)) (\<lambda>time.
               let pointIter = tl pointIter in
               (if pointIter = [] then
                 Inr metrics
                else
                 bindE (sj_string S (hd pointIter)) (\<lambda>v.
                 bindE (toDouble v) (\<lambda>value.
                 let metrics = metrics\<lparr>ppm_accountValueHistory := (ppm_accountValueHistory metrics) @ [(time, value)]\<rparr> in
                 Inr metrics))))))) accountValueHistory metrics) (\<lambda>metrics.
           bindE (field_array S metricsObj ''pnlHistory'') (\<lambda>pnlHistory.
           bindE (foldE (\<lambda>point metrics.
             bindE (sj_array S point) (\<lambda>pointArr.
             let pointIter = pointArr in
             (if pointIter = [] then
               Inr metrics
              else
               bindE (sj_uint64 S (hd pointIter)) (\<lambda>time.
               let pointIter = tl pointIter in
               (if pointIter = [] then
                 Inr metrics
                else
                 bindE (sj_string S (hd pointIter)) (\<lambda>v.
                 bindE (toDouble v) (\<lambda>value.
                 let metrics = metrics\<lparr>ppm_pnlHistory := (ppm_pnlHistory metrics) @ [(time, value)]\<rparr> in
                 Inr metrics))))))) pnlHistory metrics) (\<lambda>metrics.
           bindE (parseNumberField S metricsObj ''vlm'') (\<lambda>v.
           let metrics = metrics\<lparr>ppm_vlm := v\<rparr> in
           let periods = periods @ [metrics] in
           Inr periods))))))))))) arr periods) (\<lambda>periods.
     (Inr periods)))"

definition parseVaultDetails :: "'v sj_reader \<Rightarrow> string \<Rightarrow> VaultDetailsResponse outcome" where
  "parseVaultDetails S message =
     (let response = VaultDetailsResponse_zero in
     let doc = sj_iterate S message in
     finish (
      tryE response (sj_validate S message) (\<lambda>_.
      tryE response (bindE doc (sj_object S)) (\<lambda>obj.
      tryE response (field_string S obj ''name'') (\<lambda>v.
      let response = response\<lparr>vdr_name := v\<rparr> in
      tryE response (field_string S obj ''vaultAddress'') (\<lambda>v.
      let response = response\<lparr>vdr_vaultAddress := v\<rparr> in
      tryE response (field_string S obj ''leader'') (\<lambda>v.
      let response = response\<lparr>vdr_leader := v\<rparr> in
      tryE response (field_string S obj ''description'') (\<lambda>v.
      let response = response\<lparr>vdr_description := v\<rparr> in
      tryE response (field_array S obj ''portfolio'') (\<lambda>portfolioArr.
      tryE response (parsePortfolioArray S portfolioArr) (\<lambda>v.
      let response = response\<lparr>vdr_portfolio := v\<rparr> in
      tryE response (parseNumberField S obj ''apr'') (\<lambda>v.
      let response = response\<lparr>vdr_apr := v\<rparr> in
      bindE (case sj_field S obj ''followerState'' of
       Inr followerStateVal \<Rightarrow>
         (if \<not> (is_null S followerStateVal) then
           let rawStr = sj_raw S followerStateVal in
           (if \<not> (isl rawStr) then
             tryE response rawStr (\<lambda>v.
             let response = response\<lparr>vdr_followerStateRaw := Some v\<rparr> in
             Inr response)
            else Inr response)
          else Inr response)
       | Inl _ \<Rightarrow>
         Inr response) (\<lambda>response.
      tryE response (parseNumberField S obj ''leaderFraction'') (\<lambda>v.
      let response = response\<lparr>vdr_leaderFraction := v\<rparr> in
      tryE response (parseNumberField S obj ''leaderCommission'') (\<lambda>v.
      let response = response\<lparr>vdr_leaderCommission := v\<rparr> in
      tryE response (field_array S obj ''followers'') (\<lambda>followersArr.
      bindE (foldE (\<lambda>entry response.
        tryE response (sj_object S entry) (\<lambda>fObj.
        let follower = VaultFollower_init in
        tryE response (field_string S fObj ''user'') (\<lambda>v.
        let follower = follower\<lparr>vf_user := v\<rparr> in
        tryE response (parseNumberField S fObj ''vaultEquity'') (\<lambda>v.
        let follower = follower\<lparr>vf_vaultEquity := v\<rparr> in
        tryE response (parseNumberField S fObj ''pnl'') (\<lambda>v.
        let follower = follower\<lparr>vf_pnl := v\<rparr> in
        tryE response (parseNumberField S fObj ''allTimePnl'') (\<lambda>v.
        let follower = follower\<lparr>vf_allTimePnl := v\<rparr> in
        tryE response (field_int64 S fObj ''daysFollowing'') (\<lambda>v.
        let follower = follower\<lparr>vf_daysFollowing := to_int32 v\<rparr> in
        tryE response (field_uint64 S fObj ''vaultEntryTime'') (\<lambda>v.
        let follower = follower\<lparr>vf_vaultEntryTime := v\<rparr> in
        tryE response (field_uint64 S fObj ''lockupUntil'') (\<lambda>v.
        let follower = follower\<lparr>vf_lockupUntil := v\<rparr> in
        let response = response\<lparr>vdr_followers := (vdr_followers response) @ [follower]\<rparr> in
        Inr response))))))))) followersArr response) (\<lambda>response.
      tryE response (parseNumberField S obj ''maxDistributable'') (\<lambda>v.
      let response = response\<lparr>vdr_maxDistributable := v\<rparr> in
      tryE response (parseNumberField S obj ''maxWithdrawable'') (\<lambda>v.
      let response = response\<lparr>vdr_maxWithdrawable := v\<rparr> in
      tryE response (field_bool S obj ''isClosed'') (\<lambda>v.
      let response = response\<lparr>vdr_isClosed := v\<rparr> in
      bindE (case sj_field S obj ''relationship'' of
       Inr relVal \<Rightarrow>
         (if \<not> (is_null S relVal) then
           tryE response (sj_object S relVal) (\<lambda>relObj.
           tryE response (field_string S relObj ''type'') (\<lambda>v.
           let response = response\<lparr>vdr_relationship := (vdr_relationship response)\<lparr>vr_type := v\<rparr>\<rparr> in
           (case sj_field S relObj ''data'' of
            Inr dataVal \<Rightarrow>
              (if \<not> (is_null S dataVal) then
                (case field_array S dataVal ''childAddresses'' of
                 Inr childArr \<Rightarrow>
                   foldE (\<lambda>child response.
                     tryE response (sj_string S child) (\<lambda>v.
                     let response = response\<lparr>vdr_relationship := (vdr_relationship response)\<lparr>vr_childAddresses := (vr_childAddresses (vdr_relationship response)) @ [v]\<rparr>\<rparr> in
                     Inr response)) childArr response
                 | Inl _ \<Rightarrow>
                   Inr response)
               else Inr response)
            | Inl _ \<Rightarrow>
              Inr response)))
          else Inr response)
       | Inl _ \<Rightarrow>
         Inr response) (\<lambda>response.
      tryE response (field_bool S obj ''allowDeposits'') (\<lambda>v.
      let response = response\<lparr>vdr_allowDeposits := v\<rparr> in
      tryE response (field_bool S obj ''alwaysCloseOnWithdraw'') (\<lambda>v.
      let response = response\<lparr>vdr_alwaysCloseOnWithdraw := v\<rparr> in
      Inr response))))))))))))))))))))))"

definition parseUserVaultEquities :: "'v sj_reader \<Rightarrow> string \<Rightarrow> UserVaultEquitiesResponse outcome" where
  "parseUserVaultEquities S message =
     (let response = UserVaultEquitiesResponse_init in
     let doc = sj_iterate S message in
     finish (
      tryE response (sj_validate S message) (\<lambda>_.
      tryE response (bindE doc (sj_array S)) (\<lambda>arr.
      foldE (\<lambda>entry response.
        tryE response (sj_object S entry) (\<lambda>obj.
        let equity = UserVaultEquity_init in
        tryE response (field_string S obj ''vaultAddress'') (\<lambda>v.
        let equity = equity\<lparr>uve_vaultAddress := v\<rparr> in
        tryE response (parseNumberField S obj ''equity'') (\<lambda>v.
        let equity = equity\<lparr>uve_equity := v\<rparr> in
        let response = response\<lparr>uver_equities := (uver_equities response) @ [equity]\<rparr> in
        Inr response)))) arr response))))"

definition parsePortfolio :: "'v sj_reader \<Rightarrow> string \<Rightarrow> PortfolioResponse outcome" where
  "parsePortfolio S message =
     (let response = PortfolioResponse_init in
     let doc = sj_iterate S message in
     finish (
      tryE response (sj_validate S message) (\<lambda>_.
      tryE response (bindE doc (sj_array S)) (\<lambda>arr.
      tryE response (parsePortfolioArray S arr) (\<lambda>v.
      let response = response\<lparr>pr_periods := v\<rparr> in
      Inr response)))))"

definition parseReferral :: "'v sj_reader \<Rightarrow> string \<Rightarrow> ReferralResponse outcome" where
  "parseReferral S message =
     (let response = ReferralResponse_zero in
     let doc = sj_iterate S message in
     finish (
      tryE response (sj_validate S message) (\<lambda>_.
      tryE response (bindE doc (sj_object S)) (\<lambda>obj.
      bindE (case sj_field S obj ''referredBy'' of
       Inr referredByVal \<Rightarrow>
         (if \<not> (is_null S referredByVal) then
           tryE response (sj_object S referredByVal) (\<lambda>rbObj.
           let referredBy = ReferredBy_init in
           tryE response (field_string S rbObj ''referrer'') (\<lambda>v.
           let referredBy = referredBy\<lparr>rb_referrer := v\<rparr> in
           tryE response (field_string S rbObj ''code'') (\<lambda>v.
           let referredBy = referredBy\<lparr>rb_code := v\<rparr> in
           let response = response\<lparr>rr_referredBy := Some referredBy\<rparr> in
           Inr response)))
          else Inr response)
       | Inl _ \<Rightarrow>
         Inr response) (\<lambda>response.
      tryE response (parseNumberField S obj ''cumVlm'') (\<lambda>v.
      let response = response\<lparr>rr_cumVlm := v\<rparr> in
      tryE response (parseNumberField S obj ''unclaimedRewards'') (\<lambda>v.
      let response = response\<lparr>rr_unclaimedRewards := v\<rparr> in
      tryE response (parseNumberField S obj ''claimedRewards'') (\<lambda>v.
      let response = response\<lparr>rr_claimedRewards := v\<rparr> in
      tryE response (parseNumberField S obj ''builderRewards'') (\<lambda>v.
      let response = response\<lparr>rr_builderRewards := v\<rparr> in
      bindE (case field_array S obj ''tokenToState'' of
       Inr tokenToStateArr \<Rightarrow>
         let outerIter = tokenToStateArr in
         (if outerIter \<noteq> [] then
           tryE response (sj_array S (hd outerIter)) (\<lambda>pairArr.
           let iter = pairArr in
           (if iter \<noteq> [] then
             tryE response (sj_int64 S (hd iter)) (\<lambda>v.
             let tokenIndex = to_int32 v in
             let iter = tl iter in
             (if iter \<noteq> [] then
               tryE response (sj_object S (hd iter)) (\<lambda>stateObj.
               let state = TokenRewardState_init in
               tryE response (parseNumberField S stateObj ''cumVlm'') (\<lambda>v.
               let state = state\<lparr>trs_cumVlm := v\<rparr> in
               tryE response (parseNumberField S stateObj ''unclaimedRewards'') (\<lambda>v.
               let state = state\<lparr>trs_unclaimedRewards := v\<rparr> in
               tryE response (parseNumberField S stateObj ''claimedRewards'') (\<lambda>v.
               let state = state\<lparr>trs_claimedRewards := v\<rparr> in
               tryE response (parseNumberField S stateObj ''builderRewards'') (\<lambda>v.
               let state = state\<lparr>trs_builderRewards := v\<rparr> in
               let response = response\<lparr>rr_tokenToState := Some (tokenIndex, state)\<rparr> in
               Inr response)))))
              else Inr response))
            else Inr response))
          else Inr response)
       | Inl _ \<Rightarrow>
         Inr response) (\<lambda>response.
      (case sj_field S obj ''referrerState'' of
       Inr referrerStateVal \<Rightarrow>
         (if \<not> (is_null S referrerStateVal) then
           tryE response (sj_object S referrerStateVal) (\<lambda>rsObj.
           let referrerState = ReferrerState_init in
           tryE response (field_string S rsObj ''stage'') (\<lambda>v.
           let referrerState = referrerState\<lparr>rst_stage := v\<rparr> in
           bindE (case field_object S rsObj ''data'' of
            Inr dataObj \<Rightarrow>
              (if (rst_stage referrerState) = ''needToTrade'' then
                tryE response (parseNumberField S dataObj ''required'') (\<lambda>v.
                let referrerState = referrerState\<lparr>rst_required := Some v\<rparr> in
                Inr referrerState)
               else
                let referrerState = (case field_string S dataObj ''code'' of
                 Inr codeStr \<Rightarrow>
                   let referrerState = referrerState\<lparr>rst_code := Some codeStr\<rparr> in
                   referrerState
                 | Inl _ \<Rightarrow>
                   referrerState) in
                (case field_array S dataObj ''referralStates'' of
                 Inr statesArr \<Rightarrow>
                   foldE (\<lambda>entry referrerState.
                     tryE response (sj_object S entry) (\<lambda>sObj.
                     let state = ReferralState_init in
                     tryE response (parseNumberField S sObj ''cumVlm'') (\<lambda>v.
                     let state = state\<lparr>rs_cumVlm := v\<rparr> in
                     tryE response (parseNumberField S sObj ''cumRewardedFeesSinceReferred'') (\<lambda>v.
                     let state = state\<lparr>rs_cumRewardedFeesSinceReferred := v\<rparr> in
                     tryE response (parseNumberField S sObj ''cumFeesRewardedToReferrer'') (\<lambda>v.
                     let state = state\<lparr>rs_cumFeesRewardedToReferrer := v\<rparr> in
                     tryE response (field_uint64 S sObj ''timeJoined'') (\<lambda>v.
                     let state = state\<lparr>rs_timeJoined := v\<rparr> in
                     tryE response (field_string S sObj ''user'') (\<lambda>v.
                     let state = state\<lparr>rs_user := v\<rparr> in
                     let referrerState = referrerState\<lparr>rst_referralStates := (rst_referralStates referrerState) @ [state]\<rparr> in
                     Inr referrerState))))))) statesArr referrerState
                 | Inl _ \<Rightarrow>
                   Inr referrerState))
            | Inl _ \<Rightarrow>
              Inr referrerState) (\<lambda>referrerState.
           let response = response\<lparr>rr_referrerState := Some referrerState\<rparr> in
           Inr response)))
          else Inr response)
       | Inl _ \<Rightarrow>
         Inr response)))))))))))"

definition parseUserRole :: "'v sj_reader \<Rightarrow> string \<Rightarrow> UserRoleResponse outcome" where
  "parseUserRole S message =
     (let response = UserRoleResponse_zero in
     let doc = sj_iterate S message in
     finish (
      tryE response (sj_validate S message) (\<lambda>_.
      tryE response (bindE doc (sj_object S)) (\<lambda>obj.
      tryE response (field_string S obj ''role'') (\<lambda>v.
      let response = response\<lparr>urr_role := stringToUserRoleType v\<rparr> in
      (case field_object S obj ''data'' of
       Inr dataObj \<Rightarrow>
         (if (urr_role response) = UserRoleType_Agent then
           (case field_string S dataObj ''user'' of
            Inr sv \<Rightarrow>
              let response = response\<lparr>urr_agentUser := Some sv\<rparr> in
              Inr response
            | Inl _ \<Rightarrow>
              Inr response)
          else (if (urr_role response) = UserRoleType_SubAccount then
            (case field_string S dataObj ''master'' of
             Inr sv \<Rightarrow>
               let response = response\<lparr>urr_subAccountMaster := Some sv\<rparr> in
               Inr response
             | Inl _ \<Rightarrow>
               Inr response)
           else Inr response))
       | Inl _ \<Rightarrow>
         Inr response))))))"

end
