(* ===== verification/Rest_Message_Parser.thy ===== *)
theory Rest_Message_Parser
  imports Rest_Exchange_Parser Rest_Market_Parser Rest_Order_Parser Rest_Staking_Parser Rest_Account_Parser
begin

text \<open>
  \<open>RestApiMessageParser::parse\<close>: the parser and the callback of an endpoint. The replies are
  grouped as the endpoints are; every action on funds is answered by \<open>onSimpleResponse\<close>. An endpoint
  without a case in the \<open>switch\<close> is logged and answered by nothing.
\<close>

datatype trading_reply =
    R_Meta MetaResponse
  | R_PerpDexs PerpDexsResponse
  | R_L2Book L2BookResponse
  | R_CandleSnapshot CandleSnapshotResponse
  | R_RecentTrades RecentTradesResponse
  | R_AllMids AllMidsResponse
  | R_OpenOrders OpenOrdersResponse
  | R_OrderStatus OrderStatusResponse
  | R_UserFills UserFillsResponse
  | R_UserFillsByTime UserFillsResponse
  | R_ClearinghouseState ClearinghouseState
  | R_UserRateLimit UserRateLimitResponse
  | R_MetaAndAssetCtxs MetaAndAssetCtxsResponse
  | R_FrontendOpenOrders FrontendOpenOrdersResponse
  | R_HistoricalOrders HistoricalOrdersResponse
  | R_UserTwapSliceFills UserTwapSliceFillsResponse
  | R_UserTwapSliceFillsByTime UserTwapSliceFillsResponse
  | R_TwapHistory TwapHistoryResponse
  | R_ActiveAssetData ActiveAssetData

datatype account_reply =
    R_PerpsAtOpenInterestCap PerpsAtOpenInterestCapResponse
  | R_PredictedFundings PredictedFundingsResponse
  | R_PerpAnnotation PerpAnnotationResponse
  | R_PerpCategories PerpCategoriesResponse
  | R_PerpConciseAnnotations PerpConciseAnnotationsResponse
  | R_AllPerpMetas AllPerpMetasResponse
  | R_PerpDexLimits PerpDexLimitsResponse
  | R_PerpDexStatus PerpDexStatusResponse
  | R_PerpDeployAuctionStatus PerpDeployAuctionStatusResponse
  | R_UserFunding UserFundingLedgerUpdateResponse
  | R_UserNonFundingLedgerUpdates UserFundingLedgerUpdateResponse
  | R_FundingHistory FundingHistoryResponse
  | R_SubAccounts SubAccountsResponse
  | R_UserFees UserFeesResponse
  | R_MaxBuilderFee MaxBuilderFeeResponse
  | R_ApprovedBuilders ApprovedBuildersResponse
  | R_VaultDetails VaultDetailsResponse
  | R_UserVaultEquities UserVaultEquitiesResponse
  | R_Portfolio PortfolioResponse
  | R_Referral ReferralResponse
  | R_UserRole UserRoleResponse
  | R_ExchangeStatus ExchangeStatusResponse

datatype spot_reply =
    R_SpotMeta SpotMetaResponse
  | R_OutcomeMeta OutcomeMetaResponse
  | R_SettledOutcome SettledOutcomeResponse
  | R_SpotMetaAndAssetCtxs SpotMetaAndAssetCtxsResponse
  | R_SpotClearinghouseState SpotClearinghouseStateResponse
  | R_SpotDeployState SpotDeployStateResponse
  | R_SpotPairDeployAuctionStatus SpotPairDeployAuctionStatusResponse
  | R_BorrowLendUserState BorrowLendUserStateResponse
  | R_BorrowLendReserveState BorrowLendReserveState
  | R_AllBorrowLendReserveStates AllBorrowLendReserveStatesResponse
  | R_UserBorrowLendInterest UserBorrowLendInterestResponse
  | R_Liquidatable LiquidatableResponse
  | R_Delegations DelegationsResponse
  | R_DelegatorSummary DelegatorSummaryResponse
  | R_DelegatorHistory DelegatorHistoryResponse
  | R_DelegatorRewards DelegatorRewardsResponse
  | R_UserDexAbstractionState UserDexAbstractionResponse
  | R_UserAbstraction UserAbstractionResponse

datatype order_reply =
    R_PlaceOrder PlaceOrderResponse
  | R_CancelOrder CancelOrderResponse
  | R_ModifyOrder ModifyOrderResponse
  | R_SimpleResponse SimpleResponse
  | R_TwapOrder TwapOrderResponse
  | R_TwapCancel TwapCancelResponse
  | R_CreateSubAccount CreateSubAccountResponse
  | R_CreateVault CreateVaultResponse

primrec parse_trading :: "'v sj_reader \<Rightarrow> string \<Rightarrow> TradingInfo \<Rightarrow> trading_reply option outcome" where
  "parse_trading S message TI_Meta = bindE (parseMeta S message) (\<lambda>r. Inr (Some (R_Meta r)))"
| "parse_trading S message TI_MetaAndAssetCtxs = bindE (parseMetaAndAssetCtxs S message) (\<lambda>r. Inr (Some (R_MetaAndAssetCtxs r)))"
| "parse_trading S message TI_AllMids = bindE (parseAllMids S message) (\<lambda>r. Inr (Some (R_AllMids r)))"
| "parse_trading S message TI_L2Book = bindE (parseL2Book S message) (\<lambda>r. Inr (Some (R_L2Book r)))"
| "parse_trading S message TI_CandleSnapshot = bindE (parseCandleSnapshot S message) (\<lambda>r. Inr (Some (R_CandleSnapshot r)))"
| "parse_trading S message TI_RecentTrades = bindE (parseRecentTrades S message) (\<lambda>r. Inr (Some (R_RecentTrades r)))"
| "parse_trading S message TI_OpenOrders = bindE (parseOpenOrders S message) (\<lambda>r. Inr (Some (R_OpenOrders r)))"
| "parse_trading S message TI_UserFills = bindE (parseUserFills S message) (\<lambda>r. Inr (Some (R_UserFills r)))"
| "parse_trading S message TI_UserFillsByTime = bindE (parseUserFillsByTime S message) (\<lambda>r. Inr (Some (R_UserFillsByTime r)))"
| "parse_trading S message TI_OrderStatus = bindE (parseOrderStatus S message) (\<lambda>r. Inr (Some (R_OrderStatus r)))"
| "parse_trading S message TI_ClearinghouseState = bindE (parseClearinghouseState S message) (\<lambda>r. Inr (Some (R_ClearinghouseState r)))"
| "parse_trading S message TI_UserRateLimit = bindE (parseUserRateLimit S message) (\<lambda>r. Inr (Some (R_UserRateLimit r)))"
| "parse_trading S message TI_PerpDexs = bindE (parsePerpDexs S message) (\<lambda>r. Inr (Some (R_PerpDexs r)))"
| "parse_trading S message TI_FrontendOpenOrders = bindE (parseFrontendOpenOrders S message) (\<lambda>r. Inr (Some (R_FrontendOpenOrders r)))"
| "parse_trading S message TI_HistoricalOrders = bindE (parseHistoricalOrders S message) (\<lambda>r. Inr (Some (R_HistoricalOrders r)))"
| "parse_trading S message TI_UserTwapSliceFills = bindE (parseUserTwapSliceFills S message) (\<lambda>r. Inr (Some (R_UserTwapSliceFills r)))"
| "parse_trading S message TI_UserTwapSliceFillsByTime = bindE (parseUserTwapSliceFillsByTime S message) (\<lambda>r. Inr (Some (R_UserTwapSliceFillsByTime r)))"
| "parse_trading S message TI_TwapHistory = bindE (parseTwapHistory S message) (\<lambda>r. Inr (Some (R_TwapHistory r)))"
| "parse_trading S message TI_ActiveAssetData = bindE (parseActiveAssetData S message) (\<lambda>r. Inr (Some (R_ActiveAssetData r)))"

primrec parse_account :: "'v sj_reader \<Rightarrow> string \<Rightarrow> AccountInfo \<Rightarrow> account_reply option outcome" where
  "parse_account S message AI_SubAccounts = bindE (parseSubAccounts S message) (\<lambda>r. Inr (Some (R_SubAccounts r)))"
| "parse_account S message AI_UserFees = bindE (parseUserFees S message) (\<lambda>r. Inr (Some (R_UserFees r)))"
| "parse_account S message AI_MaxBuilderFee = bindE (parseMaxBuilderFee S message) (\<lambda>r. Inr (Some (R_MaxBuilderFee r)))"
| "parse_account S message AI_ApprovedBuilders = bindE (parseApprovedBuilders S message) (\<lambda>r. Inr (Some (R_ApprovedBuilders r)))"
| "parse_account S message AI_ExchangeStatus = bindE (parseExchangeStatus S message) (\<lambda>r. Inr (Some (R_ExchangeStatus r)))"
| "parse_account S message AI_VaultDetails = bindE (parseVaultDetails S message) (\<lambda>r. Inr (Some (R_VaultDetails r)))"
| "parse_account S message AI_UserVaultEquities = bindE (parseUserVaultEquities S message) (\<lambda>r. Inr (Some (R_UserVaultEquities r)))"
| "parse_account S message AI_Portfolio = bindE (parsePortfolio S message) (\<lambda>r. Inr (Some (R_Portfolio r)))"
| "parse_account S message AI_Referral = bindE (parseReferral S message) (\<lambda>r. Inr (Some (R_Referral r)))"
| "parse_account S message AI_UserRole = bindE (parseUserRole S message) (\<lambda>r. Inr (Some (R_UserRole r)))"
| "parse_account S message AI_PerpsAtOpenInterestCap = bindE (parsePerpsAtOpenInterestCap S message) (\<lambda>r. Inr (Some (R_PerpsAtOpenInterestCap r)))"
| "parse_account S message AI_PredictedFundings = bindE (parsePredictedFundings S message) (\<lambda>r. Inr (Some (R_PredictedFundings r)))"
| "parse_account S message AI_PerpAnnotation = bindE (parsePerpAnnotation S message) (\<lambda>r. Inr (Some (R_PerpAnnotation r)))"
| "parse_account S message AI_PerpCategories = bindE (parsePerpCategories S message) (\<lambda>r. Inr (Some (R_PerpCategories r)))"
| "parse_account S message AI_PerpConciseAnnotations = bindE (parsePerpConciseAnnotations S message) (\<lambda>r. Inr (Some (R_PerpConciseAnnotations r)))"
| "parse_account S message AI_AllPerpMetas = bindE (parseAllPerpMetas S message) (\<lambda>r. Inr (Some (R_AllPerpMetas r)))"
| "parse_account S message AI_PerpDexLimits = bindE (parsePerpDexLimits S message) (\<lambda>r. Inr (Some (R_PerpDexLimits r)))"
| "parse_account S message AI_PerpDexStatus = bindE (parsePerpDexStatus S message) (\<lambda>r. Inr (Some (R_PerpDexStatus r)))"
| "parse_account S message AI_PerpDeployAuctionStatus = bindE (parsePerpDeployAuctionStatus S message) (\<lambda>r. Inr (Some (R_PerpDeployAuctionStatus r)))"
| "parse_account S message AI_UserFunding = bindE (parseUserFunding S message) (\<lambda>r. Inr (Some (R_UserFunding r)))"
| "parse_account S message AI_UserNonFundingLedgerUpdates = bindE (parseUserNonFundingLedgerUpdates S message) (\<lambda>r. Inr (Some (R_UserNonFundingLedgerUpdates r)))"
| "parse_account S message AI_FundingHistory = bindE (parseFundingHistory S message) (\<lambda>r. Inr (Some (R_FundingHistory r)))"

primrec parse_spot :: "'v sj_reader \<Rightarrow> string \<Rightarrow> SpotInfo \<Rightarrow> spot_reply option outcome" where
  "parse_spot S message SI_OutcomeMeta = bindE (parseOutcomeMeta S message) (\<lambda>r. Inr (Some (R_OutcomeMeta r)))"
| "parse_spot S message SI_SettledOutcome = bindE (parseSettledOutcome S message) (\<lambda>r. Inr (Some (R_SettledOutcome r)))"
| "parse_spot S message SI_SpotMeta = bindE (parseSpotMeta S message) (\<lambda>r. Inr (Some (R_SpotMeta r)))"
| "parse_spot S message SI_SpotMetaAndAssetCtxs = bindE (parseSpotMetaAndAssetCtxs S message) (\<lambda>r. Inr (Some (R_SpotMetaAndAssetCtxs r)))"
| "parse_spot S message SI_SpotClearinghouseState = bindE (parseSpotClearinghouseState S message) (\<lambda>r. Inr (Some (R_SpotClearinghouseState r)))"
| "parse_spot S message SI_SpotDeployState = bindE (parseSpotDeployState S message) (\<lambda>r. Inr (Some (R_SpotDeployState r)))"
| "parse_spot S message SI_SpotPairDeployAuctionStatus = bindE (parseSpotPairDeployAuctionStatus S message) (\<lambda>r. Inr (Some (R_SpotPairDeployAuctionStatus r)))"
| "parse_spot S message SI_TokenDetails = Inr None"
| "parse_spot S message SI_Delegations = bindE (parseDelegations S message) (\<lambda>r. Inr (Some (R_Delegations r)))"
| "parse_spot S message SI_DelegatorSummary = bindE (parseDelegatorSummary S message) (\<lambda>r. Inr (Some (R_DelegatorSummary r)))"
| "parse_spot S message SI_DelegatorHistory = bindE (parseDelegatorHistory S message) (\<lambda>r. Inr (Some (R_DelegatorHistory r)))"
| "parse_spot S message SI_DelegatorRewards = bindE (parseDelegatorRewards S message) (\<lambda>r. Inr (Some (R_DelegatorRewards r)))"
| "parse_spot S message SI_BorrowLendUserState = bindE (parseBorrowLendUserState S message) (\<lambda>r. Inr (Some (R_BorrowLendUserState r)))"
| "parse_spot S message SI_BorrowLendReserveState = bindE (parseBorrowLendReserveState S message) (\<lambda>r. Inr (Some (R_BorrowLendReserveState r)))"
| "parse_spot S message SI_AllBorrowLendReserveStates = bindE (parseAllBorrowLendReserveStates S message) (\<lambda>r. Inr (Some (R_AllBorrowLendReserveStates r)))"
| "parse_spot S message SI_UserBorrowLendInterest = bindE (parseUserBorrowLendInterest S message) (\<lambda>r. Inr (Some (R_UserBorrowLendInterest r)))"
| "parse_spot S message SI_Liquidatable = bindE (parseLiquidatable S message) (\<lambda>r. Inr (Some (R_Liquidatable r)))"
| "parse_spot S message SI_UserDexAbstractionState = bindE (parseUserDexAbstractionState S message) (\<lambda>r. Inr (Some (R_UserDexAbstractionState r)))"
| "parse_spot S message SI_UserAbstraction = bindE (parseUserAbstraction S message) (\<lambda>r. Inr (Some (R_UserAbstraction r)))"

primrec parse_order :: "'v sj_reader \<Rightarrow> string \<Rightarrow> OrderAction \<Rightarrow> order_reply option outcome" where
  "parse_order S message OA_PlaceOrder = bindE (parsePlaceOrder S message) (\<lambda>r. Inr (Some (R_PlaceOrder r)))"
| "parse_order S message OA_CancelOrder = bindE (parseCancelOrder S message) (\<lambda>r. Inr (Some (R_CancelOrder r)))"
| "parse_order S message OA_CancelOrderByCloid = bindE (parseCancelOrder S message) (\<lambda>r. Inr (Some (R_CancelOrder r)))"
| "parse_order S message OA_ScheduleCancel = bindE (parseSimpleResponse S message) (\<lambda>r. Inr (Some (R_SimpleResponse r)))"
| "parse_order S message OA_ModifyOrder = bindE (parseModifyOrder S message) (\<lambda>r. Inr (Some (R_ModifyOrder r)))"
| "parse_order S message OA_BatchModifyOrder = bindE (parseModifyOrder S message) (\<lambda>r. Inr (Some (R_ModifyOrder r)))"
| "parse_order S message OA_UpdateLeverage = bindE (parseSimpleResponse S message) (\<lambda>r. Inr (Some (R_SimpleResponse r)))"
| "parse_order S message OA_UpdateIsolatedMargin = bindE (parseSimpleResponse S message) (\<lambda>r. Inr (Some (R_SimpleResponse r)))"
| "parse_order S message OA_ApproveAgent = bindE (parseSimpleResponse S message) (\<lambda>r. Inr (Some (R_SimpleResponse r)))"
| "parse_order S message OA_AgentSetAbstraction = bindE (parseSimpleResponse S message) (\<lambda>r. Inr (Some (R_SimpleResponse r)))"
| "parse_order S message OA_TwapOrder = bindE (parseTwapOrder S message) (\<lambda>r. Inr (Some (R_TwapOrder r)))"
| "parse_order S message OA_TwapCancel = bindE (parseTwapCancel S message) (\<lambda>r. Inr (Some (R_TwapCancel r)))"
| "parse_order S message OA_VaultTransfer = bindE (parseSimpleResponse S message) (\<lambda>r. Inr (Some (R_SimpleResponse r)))"
| "parse_order S message OA_Hip3LiquidatorTransfer = bindE (parseSimpleResponse S message) (\<lambda>r. Inr (Some (R_SimpleResponse r)))"
| "parse_order S message OA_CreateSubAccount = bindE (parseCreateSubAccount S message) (\<lambda>r. Inr (Some (R_CreateSubAccount r)))"
| "parse_order S message OA_SubAccountTransfer = bindE (parseSimpleResponse S message) (\<lambda>r. Inr (Some (R_SimpleResponse r)))"
| "parse_order S message OA_CreateVault = bindE (parseCreateVault S message) (\<lambda>r. Inr (Some (R_CreateVault r)))"

datatype rest_reply =
    R_Trading trading_reply | R_Account account_reply | R_Spot spot_reply | R_Order order_reply
  | R_Funds SimpleResponse

text \<open>The callbacks made, each with the correlation id the request was sent with.\<close>

type_synonym rest_event = "rest_reply \<times> u64 option"

primrec parse_reply :: "'v sj_reader \<Rightarrow> string \<Rightarrow> RestEndpointType \<Rightarrow> rest_reply option outcome" where
  "parse_reply S message (EpTrading t) = bindE (parse_trading S message t) (\<lambda>r. Inr (map_option R_Trading r))"
| "parse_reply S message (EpAccount t) = bindE (parse_account S message t) (\<lambda>r. Inr (map_option R_Account r))"
| "parse_reply S message (EpSpot t) = bindE (parse_spot S message t) (\<lambda>r. Inr (map_option R_Spot r))"
| "parse_reply S message (EpOrder t) = bindE (parse_order S message t) (\<lambda>r. Inr (map_option R_Order r))"
| "parse_reply S message (EpFunds t) = bindE (parseSimpleResponse S message) (\<lambda>r. Inr (Some (R_Funds r)))"

definition parse_message ::
  "'v sj_reader \<Rightarrow> string \<Rightarrow> RestEndpointType \<Rightarrow> u64 option \<Rightarrow> rest_event list \<Rightarrow> rest_event list outcome" where
  "parse_message S message type correlationId listener =
     bindE (parse_reply S message type) (\<lambda>r.
       Inr (listener @ (case r of None \<Rightarrow> [] | Some r \<Rightarrow> [(r, correlationId)])))"

end
