(* ===== verification/Websocket_Api.thy ===== *)
theory Websocket_Api
  imports Signing Exchange_Builder Info_Builder Rest_Message_Parser
begin

text \<open>
  \<open>src/websocket/WebsocketApi.cpp\<close> and \<open>src/websocket/PostResponseDispatch.cpp\<close>: the public methods
  (which endpoint and which body each sends), \<open>signAndSend\<close> with the table of outstanding post
  requests, subscriptions, and the dispatch of incoming messages. A message handed to the connection
  or to the listener is appended to a log. The user's thread and the connection's thread share only
  the table, under a mutex: their critical sections are the steps.
\<close>

section \<open>The public methods\<close>

text \<open>
  One constructor per method, in the order of the file, with the method's arguments except the
  correlation id; the functions give the endpoint, the body (building it may throw) and the vault
  argument that the method passes to \<open>signAndSend\<close>. No method passes an expiry.
\<close>

record 'j api_request =
  rq_type :: RestEndpointType
  rq_body :: "'j outcome"
  rq_vault :: "string option"

definition api_call :: "RestEndpointType \<Rightarrow> 'j outcome \<Rightarrow> string option \<Rightarrow> 'j api_request" where
  "api_call type body vault = \<lparr>rq_type = type, rq_body = body, rq_vault = vault\<rparr>"

datatype MarketCall =
    C_SpotMeta
  | C_Meta "string option"
  | C_OutcomeMeta
  | C_PerpDexs
  | C_SettledOutcome int
  | C_PerpsAtOpenInterestCap "string option"
  | C_PredictedFundings
  | C_PerpAnnotation string
  | C_PerpCategories
  | C_PerpConciseAnnotations
  | C_AllPerpMetas
  | C_PerpDexLimits string
  | C_PerpDexStatus string
  | C_PerpDeployAuctionStatus
  | C_L2Book string "int option" "int option"
  | C_CandleSnapshot string string u64 u64
  | C_AllMids "string option"
  | C_OpenOrders string "string option"
  | C_OrderStatus string OrderId
  | C_UserFills string "bool option" "string option"

primrec market_call :: "'j json_ops \<Rightarrow> symbol_map \<Rightarrow> MarketCall \<Rightarrow> 'j api_request" where
  "market_call J syms C_SpotMeta = api_call Ep_SpotMeta (Inr (spotMeta J)) None"
| "market_call J syms (C_Meta dex) = api_call Ep_Meta (Inr (meta J dex)) None"
| "market_call J syms C_OutcomeMeta = api_call Ep_OutcomeMeta (Inr (outcomeMeta J)) None"
| "market_call J syms C_PerpDexs = api_call Ep_PerpDexs (Inr (perpDexs J)) None"
| "market_call J syms (C_SettledOutcome outcome) = api_call Ep_SettledOutcome (Inr (settledOutcome J outcome)) None"
| "market_call J syms (C_PerpsAtOpenInterestCap dex) = api_call Ep_PerpsAtOpenInterestCap (Inr (perpsAtOpenInterestCap J dex)) None"
| "market_call J syms C_PredictedFundings = api_call Ep_PredictedFundings (Inr (predictedFundings J)) None"
| "market_call J syms (C_PerpAnnotation coin) = api_call Ep_PerpAnnotation (Inr (perpAnnotation J coin)) None"
| "market_call J syms C_PerpCategories = api_call Ep_PerpCategories (Inr (perpCategories J)) None"
| "market_call J syms C_PerpConciseAnnotations = api_call Ep_PerpConciseAnnotations (Inr (perpConciseAnnotations J)) None"
| "market_call J syms C_AllPerpMetas = api_call Ep_AllPerpMetas (Inr (allPerpMetas J)) None"
| "market_call J syms (C_PerpDexLimits dex) = api_call Ep_PerpDexLimits (Inr (perpDexLimits J dex)) None"
| "market_call J syms (C_PerpDexStatus dex) = api_call Ep_PerpDexStatus (Inr (perpDexStatus J dex)) None"
| "market_call J syms C_PerpDeployAuctionStatus = api_call Ep_PerpDeployAuctionStatus (Inr (perpDeployAuctionStatus J)) None"
| "market_call J syms (C_L2Book coin nSigFigs mantissa) = api_call Ep_L2Book (Inr (l2Book J coin nSigFigs mantissa)) None"
| "market_call J syms (C_CandleSnapshot coin interval startTime endTime) = api_call Ep_CandleSnapshot (Inr (candleSnapshot J coin interval startTime endTime)) None"
| "market_call J syms (C_AllMids dex) = api_call Ep_AllMids (Inr (allMids J dex)) None"
| "market_call J syms (C_OpenOrders user dex) = api_call Ep_OpenOrders (Inr (openOrders J user dex)) None"
| "market_call J syms (C_OrderStatus user oid) = api_call Ep_OrderStatus (Inr (orderStatus J user oid)) None"
| "market_call J syms (C_UserFills user aggregateByTime dex) = api_call Ep_UserFills (Inr (userFills J user aggregateByTime dex)) None"

datatype UserCall =
    C_UserFillsByTime string u64 "u64 option" "bool option" "string option"
  | C_ClearinghouseState string "string option"
  | C_RecentTrades string
  | C_UserFunding string u64 "u64 option"
  | C_UserNonFundingLedgerUpdates string u64 "u64 option"
  | C_FundingHistory string u64 "u64 option"
  | C_UserRateLimit string
  | C_MetaAndAssetCtxs "string option"
  | C_SpotMetaAndAssetCtxs
  | C_SpotClearinghouseState string "string option"
  | C_SpotDeployState string
  | C_SpotPairDeployAuctionStatus
  | C_UserDexAbstractionState string
  | C_UserAbstraction string
  | C_ExchangeStatus
  | C_FrontendOpenOrders string "string option"
  | C_HistoricalOrders string
  | C_UserTwapSliceFills string
  | C_UserTwapSliceFillsByTime string u64 "u64 option" "bool option"
  | C_TwapHistory string

primrec user_call :: "'j json_ops \<Rightarrow> symbol_map \<Rightarrow> UserCall \<Rightarrow> 'j api_request" where
  "user_call J syms (C_UserFillsByTime user startTime endTime aggregateByTime dex) = api_call Ep_UserFillsByTime (Inr (userFillsByTime J user startTime endTime aggregateByTime dex)) None"
| "user_call J syms (C_ClearinghouseState user dex) = api_call Ep_ClearinghouseState (Inr (clearinghouseState J user dex)) None"
| "user_call J syms (C_RecentTrades coin) = api_call Ep_RecentTrades (Inr (recentTrades J coin)) None"
| "user_call J syms (C_UserFunding user startTime endTime) = api_call Ep_UserFunding (Inr (userFunding J user startTime endTime)) None"
| "user_call J syms (C_UserNonFundingLedgerUpdates user startTime endTime) = api_call Ep_UserNonFundingLedgerUpdates (Inr (userNonFundingLedgerUpdates J user startTime endTime)) None"
| "user_call J syms (C_FundingHistory coin startTime endTime) = api_call Ep_FundingHistory (Inr (fundingHistory J coin startTime endTime)) None"
| "user_call J syms (C_UserRateLimit user) = api_call Ep_UserRateLimit (Inr (userRateLimit J user)) None"
| "user_call J syms (C_MetaAndAssetCtxs dex) = api_call Ep_MetaAndAssetCtxs (Inr (metaAndAssetCtxs J dex)) None"
| "user_call J syms C_SpotMetaAndAssetCtxs = api_call Ep_SpotMetaAndAssetCtxs (Inr (spotMetaAndAssetCtxs J)) None"
| "user_call J syms (C_SpotClearinghouseState user dex) = api_call Ep_SpotClearinghouseState (Inr (spotClearinghouseState J user dex)) None"
| "user_call J syms (C_SpotDeployState user) = api_call Ep_SpotDeployState (Inr (spotDeployState J user)) None"
| "user_call J syms C_SpotPairDeployAuctionStatus = api_call Ep_SpotPairDeployAuctionStatus (Inr (spotPairDeployAuctionStatus J)) None"
| "user_call J syms (C_UserDexAbstractionState user) = api_call Ep_UserDexAbstractionState (Inr (userDexAbstractionState J user)) None"
| "user_call J syms (C_UserAbstraction user) = api_call Ep_UserAbstraction (Inr (userAbstraction J user)) None"
| "user_call J syms C_ExchangeStatus = api_call Ep_ExchangeStatus (Inr (exchangeStatus J)) None"
| "user_call J syms (C_FrontendOpenOrders user dex) = api_call Ep_FrontendOpenOrders (Inr (frontendOpenOrders J user dex)) None"
| "user_call J syms (C_HistoricalOrders user) = api_call Ep_HistoricalOrders (Inr (historicalOrders J user)) None"
| "user_call J syms (C_UserTwapSliceFills user) = api_call Ep_UserTwapSliceFills (Inr (userTwapSliceFills J user)) None"
| "user_call J syms (C_UserTwapSliceFillsByTime user startTime endTime aggregateByTime) = api_call Ep_UserTwapSliceFillsByTime (Inr (userTwapSliceFillsByTime J user startTime endTime aggregateByTime)) None"
| "user_call J syms (C_TwapHistory user) = api_call Ep_TwapHistory (Inr (twapHistory J user)) None"

datatype AccountCall =
    C_ActiveAssetData string string
  | C_SubAccounts string
  | C_UserFees string
  | C_MaxBuilderFee string string
  | C_ApprovedBuilders string
  | C_Delegations string
  | C_DelegatorSummary string
  | C_DelegatorHistory string
  | C_DelegatorRewards string
  | C_VaultDetails string "string option"
  | C_UserVaultEquities string
  | C_Portfolio string
  | C_Referral string
  | C_UserRole string
  | C_BorrowLendUserState string
  | C_BorrowLendReserveState int
  | C_AllBorrowLendReserveStates
  | C_UserBorrowLendInterest string u64 "u64 option"
  | C_Liquidatable

primrec account_call :: "'j json_ops \<Rightarrow> symbol_map \<Rightarrow> AccountCall \<Rightarrow> 'j api_request" where
  "account_call J syms (C_ActiveAssetData user coin) = api_call Ep_ActiveAssetData (Inr (activeAssetData J user coin)) None"
| "account_call J syms (C_SubAccounts user) = api_call Ep_SubAccounts (Inr (subAccounts J user)) None"
| "account_call J syms (C_UserFees user) = api_call Ep_UserFees (Inr (userFees J user)) None"
| "account_call J syms (C_MaxBuilderFee user builder) = api_call Ep_MaxBuilderFee (Inr (maxBuilderFee J user builder)) None"
| "account_call J syms (C_ApprovedBuilders user) = api_call Ep_ApprovedBuilders (Inr (approvedBuilders J user)) None"
| "account_call J syms (C_Delegations user) = api_call Ep_Delegations (Inr (delegations J user)) None"
| "account_call J syms (C_DelegatorSummary user) = api_call Ep_DelegatorSummary (Inr (delegatorSummary J user)) None"
| "account_call J syms (C_DelegatorHistory user) = api_call Ep_DelegatorHistory (Inr (delegatorHistory J user)) None"
| "account_call J syms (C_DelegatorRewards user) = api_call Ep_DelegatorRewards (Inr (delegatorRewards J user)) None"
| "account_call J syms (C_VaultDetails vaultAddress user) = api_call Ep_VaultDetails (Inr (vaultDetails J vaultAddress user)) None"
| "account_call J syms (C_UserVaultEquities user) = api_call Ep_UserVaultEquities (Inr (userVaultEquities J user)) None"
| "account_call J syms (C_Portfolio user) = api_call Ep_Portfolio (Inr (portfolio J user)) None"
| "account_call J syms (C_Referral user) = api_call Ep_Referral (Inr (referral J user)) None"
| "account_call J syms (C_UserRole user) = api_call Ep_UserRole (Inr (userRole J user)) None"
| "account_call J syms (C_BorrowLendUserState user) = api_call Ep_BorrowLendUserState (Inr (borrowLendUserState J user)) None"
| "account_call J syms (C_BorrowLendReserveState token) = api_call Ep_BorrowLendReserveState (Inr (borrowLendReserveState J token)) None"
| "account_call J syms C_AllBorrowLendReserveStates = api_call Ep_AllBorrowLendReserveStates (Inr (allBorrowLendReserveStates J)) None"
| "account_call J syms (C_UserBorrowLendInterest user startTime endTime) = api_call Ep_UserBorrowLendInterest (Inr (userBorrowLendInterest J user startTime endTime)) None"
| "account_call J syms C_Liquidatable = api_call Ep_Liquidatable (Inr (liquidatable J)) None"

datatype OrderCall =
    C_PlaceOrder "OrderRequest list" Grouping "Builder option" "string option"
  | C_CancelOrder "CancelRequest list" "string option"
  | C_CancelOrderByCloid "CancelByCloidRequest list" "string option"
  | C_ScheduleCancel "u64 option" "string option"
  | C_ModifyOrder ModifyRequest "string option"
  | C_BatchModifyOrder "ModifyRequest list" "string option"
  | C_UpdateLeverage UpdateLeverageRequest "string option"
  | C_UpdateIsolatedMargin UpdateIsolatedMarginRequest "string option"
  | C_ApproveAgent ApproveAgentRequest
  | C_AgentSetAbstraction UserAbstractionMode "string option"
  | C_TwapOrder TwapOrderRequest "string option"
  | C_TwapCancel TwapCancelRequest "string option"
  | C_VaultTransfer VaultTransferRequest
  | C_Hip3LiquidatorTransfer Hip3LiquidatorTransferRequest
  | C_CreateSubAccount CreateSubAccountRequest
  | C_SubAccountTransfer SubAccountTransferRequest
  | C_CreateVault CreateVaultRequest
  | C_UsdClassTransfer UsdClassTransferRequest
  | C_SendAsset SendAssetRequest
  | C_UsdSend UsdSendRequest

primrec order_call :: "'j json_ops \<Rightarrow> symbol_map \<Rightarrow> OrderCall \<Rightarrow> 'j api_request" where
  "order_call J syms (C_PlaceOrder orders grouping builder vaultAddress) = api_call Ep_PlaceOrder (placeOrder J syms orders grouping builder) vaultAddress"
| "order_call J syms (C_CancelOrder cancels vaultAddress) = api_call Ep_CancelOrder (cancelOrder J syms cancels) vaultAddress"
| "order_call J syms (C_CancelOrderByCloid cancels vaultAddress) = api_call Ep_CancelOrderByCloid (cancelOrderByCloid J syms cancels) vaultAddress"
| "order_call J syms (C_ScheduleCancel time vaultAddress) = api_call Ep_ScheduleCancel (Inr (scheduleCancel J time)) vaultAddress"
| "order_call J syms (C_ModifyOrder modify vaultAddress) = api_call Ep_ModifyOrder (modifyOrder J syms modify) vaultAddress"
| "order_call J syms (C_BatchModifyOrder modifies vaultAddress) = api_call Ep_BatchModifyOrder (batchModifyOrder J syms modifies) vaultAddress"
| "order_call J syms (C_UpdateLeverage request vaultAddress) = api_call Ep_UpdateLeverage (updateLeverage J syms request) vaultAddress"
| "order_call J syms (C_UpdateIsolatedMargin request vaultAddress) = api_call Ep_UpdateIsolatedMargin (updateIsolatedMargin J syms request) vaultAddress"
| "order_call J syms (C_ApproveAgent request) = api_call Ep_ApproveAgent (Inr (approveAgent J request)) None"
| "order_call J syms (C_AgentSetAbstraction abstraction vaultAddress) = api_call Ep_AgentSetAbstraction (Inr (agentSetAbstraction J abstraction)) vaultAddress"
| "order_call J syms (C_TwapOrder request vaultAddress) = api_call Ep_TwapOrder (twapOrder J syms request) vaultAddress"
| "order_call J syms (C_TwapCancel request vaultAddress) = api_call Ep_TwapCancel (twapCancel J syms request) vaultAddress"
| "order_call J syms (C_VaultTransfer request) = api_call Ep_VaultTransfer (Inr (vaultTransfer J request)) None"
| "order_call J syms (C_Hip3LiquidatorTransfer request) = api_call Ep_Hip3LiquidatorTransfer (Inr (hip3LiquidatorTransfer J request)) None"
| "order_call J syms (C_CreateSubAccount request) = api_call Ep_CreateSubAccount (Inr (createSubAccount J request)) None"
| "order_call J syms (C_SubAccountTransfer request) = api_call Ep_SubAccountTransfer (Inr (subAccountTransfer J request)) None"
| "order_call J syms (C_CreateVault request) = api_call Ep_CreateVault (Inr (createVault J request)) None"
| "order_call J syms (C_UsdClassTransfer request) = api_call Ep_UsdClassTransfer (usdClassTransfer J request) None"
| "order_call J syms (C_SendAsset request) = api_call Ep_SendAsset (sendAsset J request) None"
| "order_call J syms (C_UsdSend request) = api_call Ep_UsdSend (usdSend J request) None"

datatype FundsCall =
    C_SpotSend SpotSendRequest
  | C_Withdraw3 Withdraw3Request
  | C_ApproveBuilderFee ApproveBuilderFeeRequest
  | C_UserSetAbstraction UserSetAbstractionRequest
  | C_SetReferrer SetReferrerRequest
  | C_CDeposit u64
  | C_CWithdraw u64
  | C_TokenDelegate TokenDelegateRequest
  | C_BorrowLend BorrowLendRequest
  | C_SpotDeployRegisterToken2 SpotDeployRegisterToken2Request
  | C_SpotDeployUserGenesis SpotDeployUserGenesisRequest
  | C_SpotDeployGenesis SpotDeployGenesisRequest
  | C_SpotDeployRegisterSpot SpotDeployRegisterSpotRequest
  | C_SpotDeployRegisterHyperliquidity SpotDeployRegisterHyperliquidityRequest
  | C_PerpDeployRegisterAsset2 PerpDeployRegisterAsset2Request
  | C_SendToEvmWithData SendToEvmWithDataRequest
  | C_UserDexAbstraction UserDexAbstractionRequest
  | C_UserPortfolioMargin UserPortfolioMarginRequest
  | C_AgentSendAsset AgentSendAssetRequest "string option"
  | C_ReserveRequestWeight ReserveRequestWeightRequest "string option"
  | C_Noop "string option"

primrec funds_call :: "'j json_ops \<Rightarrow> symbol_map \<Rightarrow> FundsCall \<Rightarrow> 'j api_request" where
  "funds_call J syms (C_SpotSend request) = api_call Ep_SpotSend (spotSend J request) None"
| "funds_call J syms (C_Withdraw3 request) = api_call Ep_Withdraw3 (withdraw3 J request) None"
| "funds_call J syms (C_ApproveBuilderFee request) = api_call Ep_ApproveBuilderFee (Inr (approveBuilderFee J request)) None"
| "funds_call J syms (C_UserSetAbstraction request) = api_call Ep_UserSetAbstraction (Inr (userSetAbstraction J request)) None"
| "funds_call J syms (C_SetReferrer request) = api_call Ep_SetReferrer (Inr (setReferrer J request)) None"
| "funds_call J syms (C_CDeposit wei) = api_call Ep_CDeposit (Inr (cDeposit J wei)) None"
| "funds_call J syms (C_CWithdraw wei) = api_call Ep_CWithdraw (Inr (cWithdraw J wei)) None"
| "funds_call J syms (C_TokenDelegate request) = api_call Ep_TokenDelegate (Inr (tokenDelegate J request)) None"
| "funds_call J syms (C_BorrowLend request) = api_call Ep_BorrowLend (borrowLend J request) None"
| "funds_call J syms (C_SpotDeployRegisterToken2 request) = api_call Ep_SpotDeployRegisterToken2 (Inr (spotDeployRegisterToken2 J request)) None"
| "funds_call J syms (C_SpotDeployUserGenesis request) = api_call Ep_SpotDeployUserGenesis (spotDeployUserGenesis J request) None"
| "funds_call J syms (C_SpotDeployGenesis request) = api_call Ep_SpotDeployGenesis (spotDeployGenesis J request) None"
| "funds_call J syms (C_SpotDeployRegisterSpot request) = api_call Ep_SpotDeployRegisterSpot (Inr (spotDeployRegisterSpot J request)) None"
| "funds_call J syms (C_SpotDeployRegisterHyperliquidity request) = api_call Ep_SpotDeployRegisterHyperliquidity (spotDeployRegisterHyperliquidity J request) None"
| "funds_call J syms (C_PerpDeployRegisterAsset2 request) = api_call Ep_PerpDeployRegisterAsset2 (perpDeployRegisterAsset2 J request) None"
| "funds_call J syms (C_SendToEvmWithData request) = api_call Ep_SendToEvmWithData (Inr (sendToEvmWithData J request)) None"
| "funds_call J syms (C_UserDexAbstraction request) = api_call Ep_UserDexAbstraction (Inr (userDexAbstraction J request)) None"
| "funds_call J syms (C_UserPortfolioMargin request) = api_call Ep_UserPortfolioMargin (Inr (userPortfolioMargin J request)) None"
| "funds_call J syms (C_AgentSendAsset request vaultAddress) = api_call Ep_AgentSendAsset (Inr (agentSendAsset J request)) vaultAddress"
| "funds_call J syms (C_ReserveRequestWeight request vaultAddress) = api_call Ep_ReserveRequestWeight (Inr (reserveRequestWeight J request)) vaultAddress"
| "funds_call J syms (C_Noop vaultAddress) = api_call Ep_Noop (Inr (noop J)) vaultAddress"

datatype ApiCall =
    MarketApi MarketCall | UserApi UserCall | AccountApi AccountCall
  | OrderApi OrderCall | FundsApi FundsCall

primrec api_request_of :: "'j json_ops \<Rightarrow> symbol_map \<Rightarrow> ApiCall \<Rightarrow> 'j api_request" where
  "api_request_of J syms (MarketApi c) = market_call J syms c"
| "api_request_of J syms (UserApi c) = user_call J syms c"
| "api_request_of J syms (AccountApi c) = account_call J syms c"
| "api_request_of J syms (OrderApi c) = order_call J syms c"
| "api_request_of J syms (FundsApi c) = funds_call J syms c"

section \<open>State\<close>

text \<open>
  What the listener and the connection are told. \<open>Listener_Typed\<close> are the typed overloads of
  \<open>onPostResponse\<close>, \<open>Listener_Simple\<close> the one for actions.
\<close>

datatype api_event =
    Ws_Send string
  | Pong_Received
  | Listener_Message string
  | Listener_Post string RestEndpointType "u64 option"
  | Listener_Typed rest_reply "u64 option"
  | Listener_Simple RestEndpointType SimpleResponse "u64 option"
  | Listener_Connected
  | Listener_Disconnected bool string

record ws_api =
  wa_config :: ApiConfig
  wa_syms :: symbol_map
  wa_stopping :: bool
  postRequestCounter :: u32
  postRequestInfo :: "u64 \<rightharpoonup> RestEndpointType \<times> u64 option"
  wa_nonce :: u64
  wa_log :: "api_event list"

definition wa_emit :: "api_event \<Rightarrow> ws_api \<Rightarrow> ws_api" where
  "wa_emit e s = s\<lparr>wa_log := wa_log s @ [e]\<rparr>"

text \<open>The constructor: the symbol map is built whatever \<open>skipBuildingSymbolMap\<close> says.\<close>

definition WebsocketApi_init :: "ApiConfig \<Rightarrow> rest_metadata \<Rightarrow> u64 \<Rightarrow> ws_api outcome" where
  "WebsocketApi_init config api nonce =
     bindE (initializeMapping (config\<lparr>skipBuildingSymbolMap := True\<rparr>) api SymbolMap_empty) (\<lambda>syms.
       Inr \<lparr>wa_config = config\<lparr>skipBuildingSymbolMap := True\<rparr>, wa_syms = syms, wa_stopping = False,
            postRequestCounter = 0, postRequestInfo = Map.empty, wa_nonce = nonce, wa_log = []\<rparr>)"

section \<open>Sending\<close>

text \<open>The counter is an \<open>atomic<int>\<close>, which wraps; the id is that \<open>int\<close>, the table's key a \<open>uint64_t\<close>.\<close>

definition post_key :: "u32 \<Rightarrow> u64" where
  "post_key n = scast n"

definition post_message :: "'j json_ops \<Rightarrow> u32 \<Rightarrow> RestEndpointType \<Rightarrow> 'j \<Rightarrow> 'j" where
  "post_message J postRequestId type payload =
     jobject J
       [(''method'', jstr J ''post''),
        (''id'', jint J (sint postRequestId)),
        (''request'', jobject J
           [(''type'', jstr J (if isAuthenticated type then ''action'' else ''info'')),
            (''payload'', payload)])]"

definition signAndSend ::
  "'j json_ops \<Rightarrow> secp256k1 \<Rightarrow> RestEndpointType \<Rightarrow> 'j \<Rightarrow> string option \<Rightarrow> u64 option \<Rightarrow> u64 option \<Rightarrow> u64
    \<Rightarrow> ws_api \<Rightarrow> ws_api \<times> unit outcome" where
  "signAndSend J E type body vaultAddress expiresAfter correlationId now s =
     (case prepareBodyForType J E (wa_config s) type body vaultAddress expiresAfter now (wa_nonce s) of
        (nonce, Inl e) \<Rightarrow> (s\<lparr>wa_nonce := nonce\<rparr>, Inl e)
      | (nonce, Inr payload) \<Rightarrow>
          let postRequestId = postRequestCounter s;
              s1 = s\<lparr>wa_nonce := nonce, postRequestCounter := postRequestId + 1,
                     postRequestInfo := (postRequestInfo s)(post_key postRequestId \<mapsto> (type, correlationId))\<rparr>
          in (wa_emit (Ws_Send (jdump J (post_message J postRequestId type payload))) s1, Inr ()))"

definition call_method ::
  "'j json_ops \<Rightarrow> secp256k1 \<Rightarrow> ApiCall \<Rightarrow> u64 option \<Rightarrow> u64 \<Rightarrow> ws_api \<Rightarrow> ws_api \<times> unit outcome" where
  "call_method J E call correlationId now s =
     (let rq = api_request_of J (wa_syms s) call
      in case rq_body rq of
           Inl e \<Rightarrow> (s, Inl e)
         | Inr body \<Rightarrow> signAndSend J E (rq_type rq) body (rq_vault rq) None correlationId now s)"

section \<open>Subscriptions\<close>

definition isUserSubscription :: "SubscriptionType \<Rightarrow> bool" where
  "isUserSubscription type \<longleftrightarrow>
     type \<in> {Sub_OrderUpdates, Sub_UserEvents, Sub_UserFills, Sub_UserFundings,
             Sub_UserNonFundingLedgerUpdates, Sub_Notification, Sub_WebData3, Sub_TwapStates,
             Sub_ClearingHouseState, Sub_OpenOrders, Sub_ActiveAssetData, Sub_UserTwapSliceFills,
             Sub_UserTwapHistory, Sub_SpotState, Sub_AllDexsClearinghouseState}"

text \<open>
  These messages are \<open>nlohmann::json\<close>, the variant whose objects sort their keys: its operations are
  the argument. \<open>filters\<close> is the \<open>std::map\<close> as the list of its entries in order.
\<close>

definition user_field :: "'j json_ops \<Rightarrow> ApiConfig \<Rightarrow> SubscriptionType \<Rightarrow> (string \<times> string) list \<Rightarrow> (string \<times> 'j) list" where
  "user_field J config type filters =
     (case wallet config of
        Some w \<Rightarrow>
          if isUserSubscription type \<and> ''user'' \<notin> fst ` set filters
          then [(''user'', jstr J (accountAddress w))] else []
      | None \<Rightarrow> [])"

definition subscription_message ::
  "'j json_ops \<Rightarrow> ApiConfig \<Rightarrow> string \<Rightarrow> SubscriptionType \<Rightarrow> (string \<times> string) list \<Rightarrow> 'j outcome" where
  "subscription_message J config method type filters =
     bindE (toString_Subscription type) (\<lambda>name.
       Inr (jobject J
         [(''method'', jstr J method),
          (''subscription'', jobject J
             ([(''type'', jstr J name)] @ user_field J config type filters
              @ map (\<lambda>(key, value). (key, jstr J value)) filters))]))"

definition subscribe ::
  "'j json_ops \<Rightarrow> SubscriptionType \<Rightarrow> (string \<times> string) list \<Rightarrow> ws_api \<Rightarrow> ws_api \<times> unit outcome" where
  "subscribe J type filters s =
     (case subscription_message J (wa_config s) ''subscribe'' type filters of
        Inl e \<Rightarrow> (s, Inl e)
      | Inr m \<Rightarrow> (wa_emit (Ws_Send (jdump J m)) s, Inr ()))"

definition unsubscribe ::
  "'j json_ops \<Rightarrow> SubscriptionType \<Rightarrow> (string \<times> string) list \<Rightarrow> ws_api \<Rightarrow> ws_api \<times> unit outcome" where
  "unsubscribe J type filters s =
     (case subscription_message J (wa_config s) ''unsubscribe'' type filters of
        Inl e \<Rightarrow> (s, Inl e)
      | Inr m \<Rightarrow> (wa_emit (Ws_Send (jdump J m)) s, Inr ()))"

section \<open>Incoming messages\<close>

text \<open>The endpoints with a case in the \<open>switch\<close> of \<open>dispatchInfoPostResponse\<close>.\<close>

definition info_post_handled :: "RestEndpointType \<Rightarrow> bool" where
  "info_post_handled type \<longleftrightarrow>
     type \<in> {Ep_SpotMeta, Ep_Meta, Ep_OutcomeMeta, Ep_PerpDexs, Ep_PerpAnnotation, Ep_PerpCategories,
       Ep_PerpConciseAnnotations, Ep_AllPerpMetas, Ep_PerpsAtOpenInterestCap, Ep_PredictedFundings,
       Ep_MetaAndAssetCtxs, Ep_SpotMetaAndAssetCtxs, Ep_SpotClearinghouseState, Ep_FrontendOpenOrders,
       Ep_HistoricalOrders, Ep_UserTwapSliceFills, Ep_UserTwapSliceFillsByTime, Ep_TwapHistory,
       Ep_ActiveAssetData, Ep_SubAccounts, Ep_UserFees, Ep_MaxBuilderFee, Ep_ApprovedBuilders,
       Ep_L2Book, Ep_CandleSnapshot, Ep_AllMids, Ep_OpenOrders, Ep_OrderStatus, Ep_UserFills,
       Ep_UserFillsByTime, Ep_ClearinghouseState, Ep_VaultDetails, Ep_UserVaultEquities, Ep_Portfolio,
       Ep_Referral, Ep_UserRole, Ep_UserRateLimit, Ep_PerpDexLimits, Ep_PerpDexStatus,
       Ep_PerpDeployAuctionStatus, Ep_SettledOutcome, Ep_BorrowLendUserState, Ep_BorrowLendReserveState,
       Ep_AllBorrowLendReserveStates, Ep_SpotDeployState, Ep_SpotPairDeployAuctionStatus,
       Ep_UserDexAbstractionState, Ep_UserAbstraction, Ep_Delegations, Ep_DelegatorSummary,
       Ep_DelegatorHistory, Ep_DelegatorRewards, Ep_ExchangeStatus}"

text \<open>
  The cases parse with the parser the endpoint has in \<open>RestApiMessageParser::parse\<close>. What a parser throws
  passes through the dispatch.
\<close>

definition deliver_typed ::
  "'v sj_reader \<Rightarrow> RestEndpointType \<Rightarrow> string \<Rightarrow> u64 option \<Rightarrow> ws_api \<Rightarrow> ws_api \<times> unit outcome" where
  "deliver_typed S type json correlationId s =
     (case parse_reply S json type of
        Inl e \<Rightarrow> (s, Inl e)
      | Inr None \<Rightarrow> (s, Inr ())
      | Inr (Some reply) \<Rightarrow> (wa_emit (Listener_Typed reply correlationId) s, Inr ()))"

definition dispatchInfoPostResponse ::
  "'v sj_reader \<Rightarrow> RestEndpointType \<Rightarrow> string \<Rightarrow> u64 option \<Rightarrow> ws_api \<Rightarrow> ws_api \<times> unit outcome" where
  "dispatchInfoPostResponse S type payloadJson correlationId s =
     (case bindE (sj_at S (sj_iterate S payloadJson) ''data'') (sj_raw S) of
        Inl e \<Rightarrow> (s, if e = Simdjson_Error then Inr () else Inl e)
      | Inr dataJson \<Rightarrow>
          if info_post_handled type then deliver_typed S type dataJson correlationId s else (s, Inr ()))"

text \<open>The answer to any action is parsed as a \<open>SimpleResponse\<close>.\<close>

definition dispatchExchangeActionPostResponse ::
  "'v sj_reader \<Rightarrow> RestEndpointType \<Rightarrow> string \<Rightarrow> u64 option \<Rightarrow> ws_api \<Rightarrow> ws_api \<times> unit outcome" where
  "dispatchExchangeActionPostResponse S type payloadJson correlationId s =
     (case parseSimpleResponse S payloadJson of
        Inl e \<Rightarrow> (s, Inl e)
      | Inr reply \<Rightarrow> (wa_emit (Listener_Simple type reply correlationId) s, Inr ()))"

text \<open>
  The entry is taken out of the table before the payload, read as a \<open>simdjson_result\<close> in between, is asked for
  its value: a bad payload loses it.
\<close>

definition handlePostChannelMessage :: "'v sj_reader \<Rightarrow> string \<Rightarrow> ws_api \<Rightarrow> ws_api \<times> unit outcome" where
  "handlePostChannelMessage S rawMessage s =
     (case bindE (sj_iterate S rawMessage) (\<lambda>doc.
           bindE (field_object S doc ''data'') (\<lambda>data.
           bindE (field_uint64 S data ''id'') (\<lambda>key.
           Inr (key, bindE (sj_at S (sj_field S data ''response'') ''payload'') (sj_raw S))))) of
        Inl e \<Rightarrow> (s, Inl e)
      | Inr (key, payload) \<Rightarrow>
          (case postRequestInfo s key of
             None \<Rightarrow> (wa_emit (Listener_Message rawMessage) s, Inr ())
           | Some (type, correlationId) \<Rightarrow>
               let s1 = s\<lparr>postRequestInfo := (postRequestInfo s)(key := None)\<rparr>
               in case payload of
                    Inl e \<Rightarrow> (s1, Inl e)
                  | Inr payloadStr \<Rightarrow>
                      let s2 = wa_emit (Listener_Post payloadStr type correlationId) s1
                      in if isAuthenticated type
                         then dispatchExchangeActionPostResponse S type payloadStr correlationId s2
                         else dispatchInfoPostResponse S type payloadStr correlationId s2))"

text \<open>The handler that catches a \<open>simdjson_error\<close> falls through to \<open>onMessage\<close>.\<close>

definition onWsMessage :: "'v sj_reader \<Rightarrow> string \<Rightarrow> ws_api \<Rightarrow> ws_api \<times> unit outcome" where
  "onWsMessage S message s =
     (if wa_stopping s then (s, Inr ())
      else
        let r = (case bindE (sj_at S (sj_iterate S message) ''channel'') (sj_string S) of
                   Inl e \<Rightarrow> (s, Inl e)
                 | Inr channel \<Rightarrow>
                     if channel = ''pong'' then (wa_emit Pong_Received s, Inr True)
                     else if channel = ''post'' then
                       (case handlePostChannelMessage S message s of (s1, p) \<Rightarrow> (s1, bindE p (\<lambda>_. Inr True)))
                     else (s, Inr False))
        in case r of
             (s1, Inr True) \<Rightarrow> (s1, Inr ())
           | (s1, Inr False) \<Rightarrow> (wa_emit (Listener_Message message) s1, Inr ())
           | (s1, Inl e) \<Rightarrow>
               if e = Simdjson_Error then (wa_emit (Listener_Message message) s1, Inr ()) else (s1, Inl e))"

definition onWsConnected :: "ws_api \<Rightarrow> ws_api" where
  "onWsConnected s = wa_emit Listener_Connected s"

definition onWsDisconnected :: "bool \<Rightarrow> string \<Rightarrow> ws_api \<Rightarrow> ws_api" where
  "onWsDisconnected hasError errMsg s = wa_emit (Listener_Disconnected hasError errMsg) s"

text \<open>\<open>stop\<close> first makes \<open>onWsMessage\<close> drop everything, then stops the connection.\<close>

definition stop_api :: "ws_api \<Rightarrow> ws_api" where
  "stop_api s = s\<lparr>wa_stopping := True\<rparr>"

end
