(* ===== verification/Signing_Proofs.thy ===== *)
theory Signing_Proofs
  imports Api_Proofs
begin

text \<open>
  What signing promises: a signature binds the action, the nonce, the vault and the expiry, and they
  are those of the envelope; which vault a request carries; and a user-signed action built by the
  SDK never fails for a missing or mistyped field.
\<close>

section \<open>Codec properties\<close>

text \<open>
  Reading back the padded hexadecimal form of a byte string (private keys, addresses) gives the
  bytes; reading back the unpadded form (the \<open>r\<close> and \<open>s\<close> of a signature), which drops leading zero
  digits and may have odd length, gives bytes with the same big-endian value.
\<close>

theorem hex_round_trips:
  "hexToBytes (toHexPadded data) = Inr data \<and>
   (\<exists>bs. hexToBytes (toHex data) = Inr bs \<and> be_value bs = be_value data)"
proof -
  have "be_value (dropWhile (\<lambda>b. b = 0) data) = be_value data" by (rule be_value_dropWhile)
  then show ?thesis
    using hexToBytes_toHexPadded [of data] hexToBytes_toHex [of data]
    by (auto simp: be_value_Cons simp del: be_value_dropWhile dropWhile_eq_Nil_conv split: if_splits)
qed

section \<open>What a signature binds\<close>

text \<open>A vault address that is absent or reads as 20 bytes.\<close>

definition proper_vault :: "string option \<Rightarrow> bool" where
  "proper_vault v =
     (case v of None \<Rightarrow> True
      | Some s \<Rightarrow> (case hexToBytes s of Inl e \<Rightarrow> False | Inr bs \<Rightarrow> length bs = 20))"

definition vault_part :: "string option \<Rightarrow> bytes" where
  "vault_part v =
     (case v of None \<Rightarrow> [0x00]
      | Some s \<Rightarrow> 0x01 # (case hexToBytes s of Inl e \<Rightarrow> [] | Inr bs \<Rightarrow> bs))"

definition expiry_part :: "u64 option \<Rightarrow> bytes" where
  "expiry_part e = (case e of None \<Rightarrow> [] | Some x \<Rightarrow> 0x00 # be64 x)"

lemma preimage_parts:
  "action_preimage J action v nonce e = Inr data \<Longrightarrow>
   data = to_msgpack J action @ be64 nonce @ vault_part v @ expiry_part e"
  by (auto simp: action_preimage_def vault_part_def expiry_part_def split: option.splits)

lemma vault_part_split:
  assumes "proper_vault v" and "proper_vault v'" and "vault_part v @ xs = vault_part v' @ xs'"
  shows "vault_part v = vault_part v' \<and> xs = xs'"
  using assms
  by (auto simp: vault_part_def proper_vault_def split: option.splits sum.splits)

lemma vault_part_inj:
  "proper_vault v \<Longrightarrow> proper_vault v' \<Longrightarrow> vault_part v = vault_part v' \<Longrightarrow>
   map_option hexToBytes v = map_option hexToBytes v'"
  by (auto simp: vault_part_def proper_vault_def split: option.splits sum.splits)

lemma expiry_part_inj: "expiry_part e = expiry_part e' \<longleftrightarrow> e = e'"
  by (auto simp: expiry_part_def be64_inj split: option.splits)

text \<open>
  C37: the bytes hashed for an L1 action determine what they are made of, given that MessagePack is self-delimiting: two
  requests with the same bytes have the same encoded action and nonce; and if their vault addresses, where given, read
  as 20 bytes, also the same vault address and expiry. The code does not check that condition: \<open>vault_expiry_confusion\<close>
  shows a longer address that stands for another vault with an expiry.
\<close>

theorem action_preimage_injective:
  assumes "\<And>x y xs ys. to_msgpack J x @ xs = to_msgpack J y @ ys \<Longrightarrow> to_msgpack J x = to_msgpack J y"
    and "action_preimage J action v nonce e = Inr data"
    and "action_preimage J action' v' nonce' e' = Inr data"
  shows "to_msgpack J action = to_msgpack J action' \<and> nonce = nonce' \<and>
    (proper_vault v \<and> proper_vault v' \<longrightarrow> map_option hexToBytes v = map_option hexToBytes v' \<and> e = e')"
proof -
  have eq: "to_msgpack J action @ be64 nonce @ vault_part v @ expiry_part e =
    to_msgpack J action' @ be64 nonce' @ vault_part v' @ expiry_part e'"
    using preimage_parts [OF assms(2)] preimage_parts [OF assms(3)] by simp
  have m: "to_msgpack J action = to_msgpack J action'" using assms(1) [OF eq] .
  then have "be64 nonce @ vault_part v @ expiry_part e = be64 nonce' @ vault_part v' @ expiry_part e'"
    using eq by simp
  then have n: "nonce = nonce'" and t: "vault_part v @ expiry_part e = vault_part v' @ expiry_part e'"
    by (simp_all add: be64_inj)
  then show ?thesis
    using m vault_part_split [OF _ _ t] vault_part_inj expiry_part_inj by blast
qed

text \<open>An address of 29 bytes, signed without an expiry, for the vault of its first 20 with one.\<close>

lemma vault_expiry_confusion:
  assumes "hexToBytes v = Inr bs" and "hexToBytes longer = Inr (bs @ 0x00 # be64 expiry)"
  shows "action_preimage J action (Some longer) nonce None = action_preimage J action (Some v) nonce (Some expiry)"
  by (simp add: action_preimage_def assms)

definition unary_model :: "json json_ops" where
  "unary_model = json_model\<lparr>to_msgpack := (\<lambda>j. replicate (size j) 1 @ [0])\<rparr>"

lemma replicate_delimited: "replicate m (1::u8) @ 0 # xs = replicate n 1 @ 0 # ys \<Longrightarrow> m = n"
proof (induction m arbitrary: n)
  case 0
  then show ?case by (cases n) auto
next
  case (Suc m)
  then show ?case by (cases n) auto
qed

lemma unary_model_delimited:
  "to_msgpack unary_model x @ xs = to_msgpack unary_model y @ ys \<Longrightarrow> to_msgpack unary_model x = to_msgpack unary_model y"
  using replicate_delimited [of "size x" xs "size y" ys] by (simp add: unary_model_def)

text \<open>
  Two spellings of one vault give the same bytes, and no other request of theirs does: not another vault, nor another
  expiry, though the confusion above meets an address that is too long.
\<close>

definition vault_upper :: string where
  "vault_upper = ''0xABABABABABABABABABABABABABABABABABABABAB''"

definition vault_lower :: string where
  "vault_lower = ''0xabababababababababababababababababababab''"

definition vault_longer :: string where
  "vault_longer = vault_lower @ ''000000000000000007''"

lemma vault_bytes:
  "hexToBytes vault_upper = Inr (replicate 20 0xAB)" "hexToBytes vault_lower = Inr (replicate 20 0xAB)"
  "hexToBytes vault_longer = Inr (replicate 20 0xAB @ 0x00 # be64 7)"
  by code_simp+

lemma action_preimage_injective_witness:
  "(\<exists>data. action_preimage unary_model J_Null (Some vault_upper) 5 (Some 7) = Inr data \<and>
      action_preimage unary_model J_Null (Some vault_lower) 5 (Some 7) = Inr data \<and>
      action_preimage unary_model J_Null (Some vault_longer) 5 None = Inr data) \<and>
   map_option hexToBytes (Some vault_upper) = map_option hexToBytes (Some vault_lower) \<and>
   action_preimage unary_model J_Null (Some vault_upper) 5 None \<noteq> action_preimage unary_model J_Null (Some vault_lower) 5 (Some 7)"
proof -
  obtain data where d: "action_preimage unary_model J_Null (Some vault_upper) 5 (Some 7) = Inr data"
    "action_preimage unary_model J_Null (Some vault_lower) 5 (Some 7) = Inr data"
    by (simp add: action_preimage_def vault_bytes)
  obtain data' where d': "action_preimage unary_model J_Null (Some vault_upper) 5 None = Inr data'"
    by (simp add: action_preimage_def vault_bytes)
  have p: "proper_vault (Some vault_upper)" "proper_vault (Some vault_lower)"
    by (simp_all add: proper_vault_def vault_bytes)
  have "action_preimage unary_model J_Null (Some vault_longer) 5 None = Inr data"
    using d(2) vault_expiry_confusion [OF vault_bytes(2,3), of unary_model J_Null 5] by simp
  moreover have "data' \<noteq> data"
  proof
    assume "data' = data"
    with action_preimage_injective [OF unary_model_delimited d'] d(2) p show False by fastforce
  qed
  ultimately show ?thesis
    using action_preimage_injective [OF unary_model_delimited d] d d' p by auto
qed

section \<open>From the message that is signed back to the request\<close>

definition l1_message :: "bool \<Rightarrow> bytes \<Rightarrow> bytes" where
  "l1_message isMainnet data =
     eip712Hash domainSeparatorHash (agentStructHash (source_of isMainnet) (keccak256 data))"

lemma signL1Action_message:
  "signL1Action J E w action v nonce e isMainnet =
   bindE (action_preimage J action v nonce e) (\<lambda>data. ecdsaSign E w (l1_message isMainnet data))"
  by (simp add: signL1Action_def actionHash_def l1_message_def bindE_assoc)

definition keccak_collision :: "bytes \<Rightarrow> bytes \<Rightarrow> bool" where
  "keccak_collision x y \<longleftrightarrow> x \<noteq> y \<and> keccak256 x = keccak256 y"

definition eip712_preimage :: "bool \<Rightarrow> bytes \<Rightarrow> bytes" where
  "eip712_preimage isMainnet data =
     [0x19, 0x01] @ domainSeparatorHash @ agentStructHash (source_of isMainnet) (keccak256 data)"

text \<open>
  C36: the 32 bytes that an L1 signature signs determine the network and the bytes of the request: if two requests
  give the same message, then they agree on both, or one of four named pairs of inputs is a
  collision of Keccak-256 (on the signing envelope, on the agent structure, on the request bytes, or on
  the two one-letter network names).
\<close>

theorem l1_message_binds:
  assumes "l1_message net data = l1_message net' data'"
    and "length data < 2 ^ 32" and "length data' < 2 ^ 32"
  shows "(net = net' \<and> data = data') \<or>
    keccak_collision (eip712_preimage net data) (eip712_preimage net' data') \<or>
    keccak_collision (agent_preimage (source_of net) (keccak256 data))
      (agent_preimage (source_of net') (keccak256 data')) \<or>
    keccak_collision data data' \<or>
    keccak_collision (char_bytes (source_of net)) (char_bytes (source_of net'))"
proof (rule ccontr)
  assume no: "\<not> ?thesis"
  have len: "length (keccak_string (source_of net)) = length (keccak_string (source_of net'))"
    by (simp add: length_keccak_string source_of_def)
  have "eip712_preimage net data = eip712_preimage net' data'"
    using no assms(1) by (auto simp: keccak_collision_def l1_message_def eip712Hash_def eip712_preimage_def)
  then have "agent_preimage (source_of net) (keccak256 data) = agent_preimage (source_of net') (keccak256 data')"
    using no by (auto simp: keccak_collision_def eip712_preimage_def agentStructHash_def)
  then have "keccak_string (source_of net) = keccak_string (source_of net')" and "keccak256 data = keccak256 data'"
    using len by (simp_all add: agent_preimage_def)
  then have "char_bytes (source_of net) = char_bytes (source_of net')" and "data = data'"
    using no by (auto simp: keccak_collision_def keccak_string_def)
  then have "net = net'" by (auto simp: source_of_def char_bytes_def split: if_splits)
  then show False using no \<open>data = data'\<close> by blast
qed

lemma l1_message_binds_witness:
  "(True = True \<and> [1, 2 :: u8] = [1, 2]) \<or>
    keccak_collision (eip712_preimage True [1, 2]) (eip712_preimage True [1, 2]) \<or>
    keccak_collision (agent_preimage (source_of True) (keccak256 [1, 2]))
      (agent_preimage (source_of True) (keccak256 [1, 2])) \<or>
    keccak_collision [1, 2] [1, 2] \<or>
    keccak_collision (char_bytes (source_of True)) (char_bytes (source_of True))"
  by (rule l1_message_binds) simp_all

section \<open>The envelope of an L1 request\<close>

text \<open>Fields of the body after signing, each as the value it must have.\<close>

definition opt_json :: "('a \<Rightarrow> 'j) \<Rightarrow> 'a option \<Rightarrow> 'j option \<Rightarrow> 'j option" where
  "opt_json f x old = (case x of None \<Rightarrow> old | Some y \<Rightarrow> Some (f y))"

context ordered_json begin

lemma assign_checked_Inr:
  "jassign_checked J j kvs = Inr j' \<longleftrightarrow> (kvs = [] \<or> jassignable J j) \<and> j' = jassign J j kvs"
  by (auto simp: jassign_checked_def)

lemma prepareBody_signed:
  assumes "prepareBody J E config type body v e now prev = (n, Inr b)" and "isAuthenticated type"
  obtains w action a sg where
    "n = nextNonce now prev" "wallet config = Some w" "jassignable J body"
    "action = (case jlookup J body ''action'' of None \<Rightarrow> jnull J | Some x \<Rightarrow> x)"
    "sign_in_body J E config w type action v e n = Inr (a, sg)"
    "jlookup J b ''action'' = Some a" "jlookup J b ''nonce'' = Some (jword J n)"
    "jlookup J b ''signature'' = Some (signature_json J sg)"
    "jlookup J b ''vaultAddress'' = opt_json (jstr J) v (jlookup J body ''vaultAddress'')"
    "jlookup J b ''expiresAfter'' = opt_json (jword J) e (jlookup J body ''expiresAfter'')"
proof -
  let ?kvs = "opt_field ''vaultAddress'' (jstr J) v @ opt_field ''expiresAfter'' (jword J) e"
  let ?b1 = "jassign J body ?kvs"
  obtain b1 where b1: "jassign_checked J body ?kvs = Inr b1"
    using assms(1) by (auto simp: prepareBody_def split: sum.splits)
  then have b1': "b1 = ?b1" by (simp add: assign_checked_Inr)
  obtain w where w: "wallet config = Some w"
    using assms b1 by (auto simp: prepareBody_def split: option.splits)
  define b2 where "b2 = jset J b1 ''nonce'' (jword J n)"
  have n: "n = nextNonce now prev" and as1: "jassignable J b1"
    and rest: "bindE (jindex J b2 ''action'') (\<lambda>action.
      bindE (sign_in_body J E config w type action v e n) (\<lambda>(a, sg).
        Inr (jassign J b2 [(''action'', a), (''signature'', signature_json J sg)]))) = Inr b"
    using assms b1 w
    by (auto simp: prepareBody_def Let_def jset_checked_def b2_def split: if_splits)
  have as2: "jassignable J b2" using as1 by (simp add: b2_def assignable_set)
  obtain action a sg where i: "jindex J b2 ''action'' = Inr action"
    and sg: "sign_in_body J E config w type action v e n = Inr (a, sg)"
    and b: "b = jassign J b2 [(''action'', a), (''signature'', signature_json J sg)]"
    using rest by (auto split: prod.splits)
  have asb: "jassignable J body"
    using as1 b1 unfolding assign_checked_Inr by (cases "?kvs = []") (auto simp: jassign_def)
  have l1: "jlookup J b1 k = (case map_of (rev ?kvs) k of None \<Rightarrow> jlookup J body k | Some x \<Rightarrow> Some x)" for k
    unfolding b1' by (rule lookup_assign [OF asb])
  have l2: "jlookup J b2 k = (if k = ''nonce'' then Some (jword J n) else jlookup J b1 k)" for k
    using as1 by (simp add: b2_def lookup_set)
  have lb: "jlookup J b k = (if k = ''signature'' then Some (signature_json J sg)
      else if k = ''action'' then Some a else jlookup J b2 k)" for k
    using as2 by (simp add: b lookup_assign)
  have "action = (case jlookup J body ''action'' of None \<Rightarrow> jnull J | Some x \<Rightarrow> x)"
    using i as2 by (auto simp: jindex_def l2 l1 opt_field_def split: option.splits)
  moreover have "jlookup J b ''vaultAddress'' = opt_json (jstr J) v (jlookup J body ''vaultAddress'')"
    by (cases v; cases e) (simp_all add: lb l2 l1 opt_field_def opt_json_def)
  moreover have "jlookup J b ''expiresAfter'' = opt_json (jword J) e (jlookup J body ''expiresAfter'')"
    by (cases v; cases e) (simp_all add: lb l2 l1 opt_field_def opt_json_def)
  ultimately show thesis using that [OF n w asb _ sg] by (simp add: lb l2)
qed

lemma l1_envelope:
  assumes "isAuthenticated type" and "\<not> isUserSignedAction type" and "type \<noteq> Ep_ApproveAgent"
    and "prepareBodyForType J E config type body vault e now prev = (n, Inr b)"
  shows "\<exists>w a sg. wallet config = Some w \<and> n = nextNonce now prev \<and>
     jlookup J b ''action'' = Some a \<and> jlookup J b ''nonce'' = Some (jword J n) \<and>
     jlookup J b ''signature'' = Some (signature_json J sg) \<and>
     signL1Action J E w a (effective_vault config type vault) n e (env config = Env_Mainnet) = Inr sg \<and>
     jlookup J b ''vaultAddress'' =
       opt_json (jstr J) (effective_vault config type vault) (jlookup J body ''vaultAddress'') \<and>
     jlookup J b ''expiresAfter'' = opt_json (jword J) e (jlookup J body ''expiresAfter'') \<and>
     (type = Ep_AgentSendAsset \<or> type = Ep_CreateVault \<longrightarrow> jlookup J a ''nonce'' = Some (jword J n))"
proof -
  have p: "prepareBody J E config type body (effective_vault config type vault) e now prev = (n, Inr b)"
    using assms(2-4) by (simp add: prepareBodyForType_def)
  obtain w action a sg where f:
    "n = nextNonce now prev" "wallet config = Some w" "jassignable J body"
    "action = (case jlookup J body ''action'' of None \<Rightarrow> jnull J | Some x \<Rightarrow> x)"
    "sign_in_body J E config w type action (effective_vault config type vault) e n = Inr (a, sg)"
    "jlookup J b ''action'' = Some a" "jlookup J b ''nonce'' = Some (jword J n)"
    "jlookup J b ''signature'' = Some (signature_json J sg)"
    "jlookup J b ''vaultAddress'' =
       opt_json (jstr J) (effective_vault config type vault) (jlookup J body ''vaultAddress'')"
    "jlookup J b ''expiresAfter'' = opt_json (jword J) e (jlookup J body ''expiresAfter'')"
    using p assms(1) by (rule prepareBody_signed)
  have s: "signL1Action J E w a (effective_vault config type vault) n e (env config = Env_Mainnet) = Inr sg"
    and a: "jassign_checked J action (l1_action_fields J type n) = Inr a"
    using f(5) assms(2) by (auto simp: sign_in_body_def)
  have "jlookup J a ''nonce'' = Some (jword J n)" if "type = Ep_AgentSendAsset \<or> type = Ep_CreateVault"
    using a that by (auto simp: l1_action_fields_def assign_checked_Inr lookup_assign)
  then show ?thesis using f s by blast
qed

end

text \<open>
  C2: the signature of an L1 request covers what its envelope says: when signing succeeds, the nonce issued is
  the \<open>nonce\<close> of the envelope, the signature is that of the action in the body with this nonce, and the vault and
  expiry it covers are the \<open>vaultAddress\<close> and \<open>expiresAfter\<close> of the body; where the exchange wants the
  nonce inside the action too, it is the same one.
\<close>

theorem l1_signature_covers_envelope:
  assumes "ordered_json J"
    and "isAuthenticated type" and "\<not> isUserSignedAction type" and "type \<noteq> Ep_ApproveAgent"
    and "prepareBodyForType J E config type body vault e now prev = (n, Inr b)"
  shows "\<exists>w a sg. wallet config = Some w \<and> n = nextNonce now prev \<and>
     jlookup J b ''action'' = Some a \<and> jlookup J b ''nonce'' = Some (jword J n) \<and>
     jlookup J b ''signature'' = Some (signature_json J sg) \<and>
     signL1Action J E w a (effective_vault config type vault) n e (env config = Env_Mainnet) = Inr sg \<and>
     jlookup J b ''vaultAddress'' =
       opt_json (jstr J) (effective_vault config type vault) (jlookup J body ''vaultAddress'') \<and>
     jlookup J b ''expiresAfter'' = opt_json (jword J) e (jlookup J body ''expiresAfter'') \<and>
     (type = Ep_AgentSendAsset \<or> type = Ep_CreateVault \<longrightarrow> jlookup J a ''nonce'' = Some (jword J n))"
  by (rule ordered_json.l1_envelope [OF assms])

text \<open>A configuration with a wallet, and a signing library that always signs, for the witnesses.\<close>

definition demo_secp :: secp256k1 where
  "demo_secp = \<lparr>context_create = True, sign_recoverable = (\<lambda>h k. Some (replicate 64 1, 0)),
     seckey_verify = (\<lambda>k. True), pubkey_create = (\<lambda>k. Some (replicate 65 4))\<rparr>"

definition demo_config :: ApiConfig where
  "demo_config = default_config\<lparr>wallet := Some \<lparr>accountAddress = ''0xabc'', privateKey = toHexPadded (replicate 32 1)\<rparr>\<rparr>"

lemma demo_signs:
  "wallet demo_config = Some w \<Longrightarrow>
   ecdsaSign demo_secp w h = Inr \<lparr>sig_r = toHex (replicate 32 1), sig_s = toHex (replicate 32 1), sig_v = 27\<rparr>"
  by (auto simp: demo_config_def demo_secp_def ecdsaSign_def hexToBytes_toHexPadded simp del: bindE_Inr_iff)

lemma demo_config_simps:
  "env demo_config = Env_Testnet" "cfg_vaultAddress demo_config = None" "\<exists>w. wallet demo_config = Some w"
  by (simp_all add: demo_config_def default_config_def)

lemma demo_l1_body:
  "\<exists>b. prepareBodyForType json_model demo_secp demo_config Ep_Noop (noop json_model) None None 5 0 = (5, Inr b)"
proof -
  obtain w where w: "wallet demo_config = Some w" using demo_config_simps by blast
  then show ?thesis
    by (simp add: prepareBodyForType_def isUserSignedAction_def prepareBody_def jassign_checked_def opt_field_def
        jassign_def nextNonce_def next_nonce_from_def jset_checked_def jindex_def sign_in_body_def
        l1_action_fields_def signL1Action_def actionHash_def action_preimage_def demo_signs [OF w]
        noop_def action_body_def jobject_def json_model_def effective_vault_def demo_config_simps)
qed

lemma l1_signature_covers_envelope_witness:
  "\<exists>b a sg. jlookup json_model b ''action'' = Some a \<and> jlookup json_model b ''nonce'' = Some (J_Num 5) \<and>
     jlookup json_model b ''signature'' = Some (signature_json json_model sg)"
proof -
  obtain b where b: "prepareBodyForType json_model demo_secp demo_config Ep_Noop (noop json_model) None None 5 0 = (5, Inr b)"
    using demo_l1_body by blast
  have w: "jword json_model (5 :: u64) = J_Num 5" by (simp add: jword_def json_model_def)
  show ?thesis
    using l1_signature_covers_envelope [OF jm.ordered_json_axioms _ _ _ b] w
    by (auto simp: isUserSignedAction_def)
qed

section \<open>User-signed actions\<close>

lemma hexCharToNibble_error: "hexCharToNibble c = Inl e \<Longrightarrow> \<exists>m. e = Invalid_Argument m"
  by (auto simp: hexCharToNibble_def Let_def split: if_splits)

lemma hex_pairs_error: "hex_pairs s = Inl e \<Longrightarrow> \<exists>m. e = Invalid_Argument m"
  by (induction s rule: hex_pairs.induct) (auto simp: bindE_Inl_iff dest: hexCharToNibble_error)

lemma hexToBytes_error: "hexToBytes s = Inl e \<Longrightarrow> \<exists>m. e = Invalid_Argument m"
  by (auto simp: hexToBytes_def Let_def dest: hex_pairs_error)

lemma hexToBytes_not_json: "hexToBytes s \<noteq> Inl Nlohmann_Error"
  using hexToBytes_error by blast

lemma encode_field_error:
  assumes "field_present J action f"
  shows "encode_field J action f \<noteq> Inl Nlohmann_Error"
proof (cases "ef_type f \<in> {''string'', ''address'', ''bytes''}")
  case True
  obtain s where s: "field_as J (jstring J) action (ef_name f) = Inr s"
    using assms [unfolded field_present_def if_P [OF True]] by blast
  from True consider "ef_type f = ''string''" | "ef_type f = ''address''" | "ef_type f = ''bytes''" by blast
  then show ?thesis by cases (simp_all add: encode_field_def s bindE_Inl_iff hexToBytes_not_json)
next
  case other: False
  show ?thesis
  proof (cases "ef_type f \<in> {''uint64'', ''uint32''}")
    case True
    obtain n where n: "field_as J (juint J) action (ef_name f) = Inr n"
      using assms [unfolded field_present_def if_not_P [OF other] if_P [OF True]] by blast
    from True consider "ef_type f = ''uint64''" | "ef_type f = ''uint32''" by blast
    then show ?thesis by cases (simp_all add: encode_field_def n)
  next
    case False
    then show ?thesis
      using assms [unfolded field_present_def if_not_P [OF other] if_not_P [OF False]]
      by (auto simp: encode_field_def)
  qed
qed

lemma mapE_not_Inl: "(\<And>x. x \<in> set xs \<Longrightarrow> f x \<noteq> Inl e) \<Longrightarrow> mapE f xs \<noteq> Inl e"
  by (induction xs) (auto simp: bindE_Inl_iff)

lemma ecdsaSign_error: "ecdsaSign E w h \<noteq> Inl Nlohmann_Error"
  by (simp add: ecdsaSign_def bindE_Inl_iff hexToBytes_not_json split: option.split prod.split)

lemma sign_user_error:
  "list_all (field_present J action) fs \<Longrightarrow>
   signUserSignedAction J E w action fs primaryType \<noteq> Inl Nlohmann_Error"
  using mapE_not_Inl [of fs "encode_field J action" Nlohmann_Error]
  by (auto simp: signUserSignedAction_def userSignedStructHash_def bindE_Inl_iff ecdsaSign_error
      encode_field_error list_all_iff)

lemma signable_prepares:
  assumes "signable J config type body" and "isUserSignedAction type" and "type \<noteq> Ep_ApproveAgent"
  shows "snd (prepareBodyForType J E config type body v e now prev) \<noteq> Inl Nlohmann_Error"
proof -
  obtain action pt fs tf where a: "jat J body ''action'' = Inr action" "jassignable J action"
    "user_signed_spec type = Inr (pt, fs, tf)"
    "\<And>nonce. list_all (field_present J (jassign J action (chain_fields J config tf nonce))) fs"
    using assms(1) by (auto simp: signable_def split: sum.splits prod.splits)
  then show ?thesis
    using assms(2,3) sign_user_error [OF a(4)]
    by (auto simp: prepareBodyForType_def prepareUserSignedActionBody_def Let_def no_wallet_def
        jassign_checked_def bindE_Inl_iff split: option.splits)
qed

text \<open>The call sends a user-signed action.\<close>

definition user_signed_call :: "'j json_ops \<Rightarrow> symbol_map \<Rightarrow> ApiCall \<Rightarrow> bool" where
  "user_signed_call J syms call \<longleftrightarrow> isUserSignedAction (rq_type (api_request_of J syms call))"

lemmas signable_builders =
  ordered_json.signable_usdSend ordered_json.signable_withdraw3 ordered_json.signable_spotSend
  ordered_json.signable_usdClassTransfer ordered_json.signable_sendAsset ordered_json.signable_words
  ordered_json.signable_strings

lemma signable_order_calls:
  "ordered_json J \<Longrightarrow> isUserSignedAction (rq_type (order_call J syms c)) \<Longrightarrow>
   rq_body (order_call J syms c) = Inr body \<Longrightarrow> signable J config (rq_type (order_call J syms c)) body"
  by (cases c) (simp_all add: isUserSignedAction_def api_call_def signable_builders)

lemma signable_funds_calls:
  "ordered_json J \<Longrightarrow> isUserSignedAction (rq_type (funds_call J syms c)) \<Longrightarrow>
   rq_body (funds_call J syms c) = Inr body \<Longrightarrow> signable J config (rq_type (funds_call J syms c)) body"
  by (cases c) (auto simp: isUserSignedAction_def api_call_def signable_builders)

lemma market_calls_unsigned: "\<not> isAuthenticated (rq_type (market_call J syms c))"
  by (cases c) (simp_all add: api_call_def)

lemma user_calls_unsigned: "\<not> isAuthenticated (rq_type (user_call J syms c))"
  by (cases c) (simp_all add: api_call_def)

lemma account_calls_unsigned: "\<not> isAuthenticated (rq_type (account_call J syms c))"
  by (cases c) (simp_all add: api_call_def)

lemma user_signed_calls_signable:
  assumes "ordered_json J" and "rq_body (api_request_of J syms call) = Inr body"
    and "isUserSignedAction (rq_type (api_request_of J syms call))"
  shows "signable J config (rq_type (api_request_of J syms call)) body"
  using assms userSigned_authenticated [OF assms(3)]
  by (cases call)
    (simp_all add: signable_order_calls signable_funds_calls market_calls_unsigned user_calls_unsigned
      account_calls_unsigned)

text \<open>
  C38: every user-signed action that the API methods build can be signed as far as its fields go: preparing it
  never fails because a field that the signature encodes is missing or has another JSON type; only a
  missing wallet, a malformed address or byte string, or the key can make it fail.
\<close>

theorem user_signed_fields_complete:
  assumes "ordered_json J" and "rq_body (api_request_of J syms call) = Inr body"
    and "isUserSignedAction (rq_type (api_request_of J syms call))"
  shows "snd (prepareBodyForType J E config (rq_type (api_request_of J syms call)) body v e now prev)
    \<noteq> Inl Nlohmann_Error"
proof -
  have "rq_type (api_request_of J syms call) \<noteq> Ep_ApproveAgent"
    using assms(3) by (auto simp: isUserSignedAction_def)
  then show ?thesis
    by (intro signable_prepares user_signed_calls_signable assms)
qed

definition demo_call :: ApiCall where
  "demo_call = FundsApi (C_CDeposit 25)"

lemma user_signed_fields_complete_witness:
  "snd (prepareBodyForType json_model demo_secp demo_config Ep_CDeposit (cDeposit json_model 25) None None 5 0)
    \<noteq> Inl Nlohmann_Error"
  using user_signed_fields_complete [OF jm.ordered_json_axioms, of SymbolMap_empty demo_call "cDeposit json_model 25"]
  by (simp add: demo_call_def api_call_def isUserSignedAction_def)

section \<open>Information requests\<close>

text \<open>
  Without a default vault, signing leaves an information request exactly as it was built and issues
  no nonce.
\<close>

theorem info_body_unchanged:
  assumes "\<not> isAuthenticated type" and "cfg_vaultAddress config = None"
  shows "prepareBodyForType J E config type body None None now prev = (prev, Inr body)"
proof -
  have "type \<noteq> Ep_ApproveAgent" and "\<not> isUserSignedAction type"
    using assms(1) userSigned_authenticated by auto
  then show ?thesis
    using assms
    by (simp add: prepareBodyForType_def prepareBody_def effective_vault_def jassign_checked_def
        jassign_def opt_field_def)
qed

lemma info_body_unchanged_witness:
  "prepareBodyForType json_model demo_secp demo_config Ep_AllMids (allMids json_model None) None None 5 0
    = (0, Inr (allMids json_model None))"
  by (rule info_body_unchanged) (simp_all add: demo_config_simps)

text \<open>
  C40: with a default vault \<open>d\<close> in the configuration, a request for the details of any other vault asks for
  those of \<open>d\<close>: the fallback also applies to information requests and overwrites the
  \<open>vaultAddress\<close> the caller gave.
\<close>

theorem vault_details_overridden:
  assumes "ordered_json J" and "cfg_vaultAddress config = Some d"
  shows "\<exists>b. prepareBodyForType J E config Ep_VaultDetails (vaultDetails J requested user) None None now prev = (prev, Inr b) \<and>
    jlookup J b ''vaultAddress'' = Some (jstr J d)"
proof -
  have "jassignable J (vaultDetails J requested user)"
    unfolding vaultDetails_def by (rule ordered_json.object_assignable [OF assms(1)])
  then show ?thesis
    using assms(2) ordered_json.lookup_set [OF assms(1)]
    by (simp add: prepareBodyForType_def isUserSignedAction_def prepareBody_def effective_vault_def
        jassign_checked_def jassign_def opt_field_def)
qed

lemma vault_details_overridden_witness:
  "\<exists>b. prepareBodyForType json_model demo_secp (demo_config\<lparr>cfg_vaultAddress := Some ''0xd''\<rparr>) Ep_VaultDetails
     (vaultDetails json_model ''0xother'' None) None None 5 0 = (0, Inr b) \<and>
    jlookup json_model b ''vaultAddress'' = Some (J_Str ''0xd'')"
  using vault_details_overridden [OF jm.ordered_json_axioms, of "demo_config\<lparr>cfg_vaultAddress := Some ''0xd''\<rparr>" "''0xd''"]
  by (simp add: json_model_def)

end
