(* ===== verification/Http_Session.thy ===== *)
theory Http_Session
  imports Request_Types
begin

text \<open>
  \<open>HttpSession\<close>: one HTTPS request. Each handler of the source is a function on the state of the
  session; the Boost.Asio operation a handler starts is the phase it leaves the session in, and the
  step relation lets that operation complete with any error code. \<open>hs_deadline\<close> is the last
  \<open>expires_after\<close> on the stream, in seconds, \<open>hs_calls\<close> the calls of the completion callback.
\<close>

section \<open>State\<close>

datatype http_phase = Resolving | Connecting | Handshaking | Writing | Reading | Shutting_Down | Finished

record http_request =
  hr_method :: string
  hr_target :: string
  hr_version :: nat
  hr_fields :: "(string \<times> string) list"
  hr_body :: string

text \<open>The arguments of \<open>onComplete_\<close>: body, status and the message of the error code, if one is set.\<close>

record http_result =
  hres_body :: string
  hres_status :: nat
  hres_error :: "string option"

record http_session =
  hs_phase :: http_phase
  hs_request :: http_request
  hs_deadline :: "nat option"
  hs_response :: "string \<times> nat"
  hs_calls :: "http_result list"

section \<open>The handlers\<close>

definition onComplete :: "string \<Rightarrow> nat \<Rightarrow> string option \<Rightarrow> http_session \<Rightarrow> http_session" where
  "onComplete body status ec s =
     s\<lparr>hs_calls := hs_calls s @ [\<lparr>hres_body = body, hres_status = status, hres_error = ec\<rparr>]\<rparr>"

text \<open>An error ends the session with the callback \<open>onComplete_("", 0, ec)\<close>.\<close>

definition complete_with_error :: "string \<Rightarrow> http_session \<Rightarrow> http_session" where
  "complete_with_error ec s = (onComplete '''' 0 (Some ec) s)\<lparr>hs_phase := Finished\<rparr>"

definition expires_after :: "nat \<Rightarrow> http_session \<Rightarrow> http_session" where
  "expires_after secs s = s\<lparr>hs_deadline := Some secs\<rparr>"

definition post_request :: "string \<Rightarrow> string \<Rightarrow> string \<Rightarrow> http_request" where
  "post_request hostname target body =
     \<lparr>hr_method = ''POST'', hr_target = target, hr_version = 11,
      hr_fields = [(''Host'', hostname), (''Content-Type'', ''application/json''),
                   (''User-Agent'', ''hyperliquid-sdk-cpp/0.1''),
                   (''Content-Length'', dec_of_nat (length body))],
      hr_body = body\<rparr>"

definition run_session :: "string \<Rightarrow> string \<Rightarrow> string \<Rightarrow> http_session" where
  "run_session hostname target body =
     \<lparr>hs_phase = Resolving, hs_request = post_request hostname target body, hs_deadline = None,
      hs_response = ('''', 0), hs_calls = []\<rparr>"

text \<open>\<open>sni\<close> is the error of \<open>SSL_set_tlsext_host_name\<close>, if it fails.\<close>

definition onResolve_http :: "string option \<Rightarrow> string option \<Rightarrow> http_session \<Rightarrow> http_session" where
  "onResolve_http ec sni s =
     (case ec of
        Some e \<Rightarrow> complete_with_error e s
      | None \<Rightarrow>
          (case sni of
             Some e \<Rightarrow> complete_with_error e s
           | None \<Rightarrow> (expires_after 10 s)\<lparr>hs_phase := Connecting\<rparr>))"

definition onConnect_http :: "string option \<Rightarrow> http_session \<Rightarrow> http_session" where
  "onConnect_http ec s =
     (case ec of
        Some e \<Rightarrow> complete_with_error e s
      | None \<Rightarrow> (expires_after 10 s)\<lparr>hs_phase := Handshaking\<rparr>)"

definition onSslHandshake_http :: "string option \<Rightarrow> http_session \<Rightarrow> http_session" where
  "onSslHandshake_http ec s =
     (case ec of
        Some e \<Rightarrow> complete_with_error e s
      | None \<Rightarrow> (expires_after 10 s)\<lparr>hs_phase := Writing\<rparr>)"

definition onWrite_http :: "string option \<Rightarrow> http_session \<Rightarrow> http_session" where
  "onWrite_http ec s =
     (case ec of
        Some e \<Rightarrow> complete_with_error e s
      | None \<Rightarrow> s\<lparr>hs_phase := Reading\<rparr>)"

text \<open>\<open>hs_response\<close> holds what \<open>async_read\<close> has put into \<open>res_\<close>.\<close>

definition onRead_http :: "string option \<Rightarrow> http_session \<Rightarrow> http_session" where
  "onRead_http ec s =
     (case ec of
        Some e \<Rightarrow> complete_with_error e s
      | None \<Rightarrow>
          (case hs_response s of (body, status) \<Rightarrow>
             (expires_after 5 (onComplete body status None s))\<lparr>hs_phase := Shutting_Down\<rparr>))"

text \<open>The completion of the TLS shutdown only logs.\<close>

definition onShutdown_http :: "string option \<Rightarrow> http_session \<Rightarrow> http_session" where
  "onShutdown_http ec s = s\<lparr>hs_phase := Finished\<rparr>"

section \<open>The runs of a session\<close>

inductive http_step :: "http_session \<Rightarrow> http_session \<Rightarrow> bool" where
  resolved: "hs_phase s = Resolving \<Longrightarrow> http_step s (onResolve_http ec sni s)"
| connected: "hs_phase s = Connecting \<Longrightarrow> http_step s (onConnect_http ec s)"
| handshaken: "hs_phase s = Handshaking \<Longrightarrow> http_step s (onSslHandshake_http ec s)"
| written: "hs_phase s = Writing \<Longrightarrow> http_step s (onWrite_http ec s)"
| read: "hs_phase s = Reading \<Longrightarrow> http_step s (onRead_http ec (s\<lparr>hs_response := response\<rparr>))"
| shut_down: "hs_phase s = Shutting_Down \<Longrightarrow> http_step s (onShutdown_http ec s)"

inductive http_run :: "http_session \<Rightarrow> nat \<Rightarrow> http_session \<Rightarrow> bool" where
  http_refl: "http_run s 0 s"
| http_more: "http_run s n t \<Longrightarrow> http_step t u \<Longrightarrow> http_run s (Suc n) u"

inductive_cases http_step_elim: "http_step s t"

lemmas http_defs =
  onResolve_http_def onConnect_http_def onSslHandshake_http_def onWrite_http_def onRead_http_def
  onShutdown_http_def complete_with_error_def expires_after_def onComplete_def

section \<open>Behaviour\<close>

text \<open>The callback has been called once when the exchange is over, and not before.\<close>

definition session_inv :: "http_request \<Rightarrow> http_session \<Rightarrow> bool" where
  "session_inv rq s \<longleftrightarrow>
     hs_request s = rq \<and>
     length (hs_calls s) = (if hs_phase s \<in> {Shutting_Down, Finished} then 1 else 0) \<and>
     hs_deadline s = (case hs_phase s of Resolving \<Rightarrow> None | Shutting_Down \<Rightarrow> Some 5 | Finished \<Rightarrow> hs_deadline s
                      | _ \<Rightarrow> Some 10) \<and>
     (\<forall>c \<in> set (hs_calls s). hres_error c = None \<longrightarrow> hs_response s = (hres_body c, hres_status c)) \<and>
     (\<forall>c \<in> set (hs_calls s). hres_error c \<noteq> None \<longrightarrow> hres_body c = '''' \<and> hres_status c = 0)"

lemma session_inv_step: "http_step s t \<Longrightarrow> session_inv rq s \<Longrightarrow> session_inv rq t"
  by (erule http_step_elim)
    (auto simp: session_inv_def http_defs split: option.splits prod.splits)

lemma http_run_inv: "http_run s n t \<Longrightarrow> session_inv rq s \<Longrightarrow> session_inv rq t"
  by (induction rule: http_run.induct) (auto intro: session_inv_step)

lemma session_inv_start: "session_inv (post_request hostname target body) (run_session hostname target body)"
  by (simp add: session_inv_def run_session_def)

section \<open>What a session comes to\<close>

text \<open>
  What the network does to a session: the error code each operation completes with, the error of
  \<open>SSL_set_tlsext_host_name\<close>, and the response that \<open>async_read\<close> reads.
\<close>

record http_script =
  op_error :: "http_phase \<Rightarrow> string option"
  sni_error :: "string option"
  answer :: "string \<times> nat"

definition http_next :: "http_script \<Rightarrow> http_session \<Rightarrow> http_session" where
  "http_next w s =
     (case hs_phase s of
        Resolving \<Rightarrow> onResolve_http (op_error w Resolving) (sni_error w) s
      | Connecting \<Rightarrow> onConnect_http (op_error w Connecting) s
      | Handshaking \<Rightarrow> onSslHandshake_http (op_error w Handshaking) s
      | Writing \<Rightarrow> onWrite_http (op_error w Writing) s
      | Reading \<Rightarrow> onRead_http (op_error w Reading) (s\<lparr>hs_response := answer w\<rparr>)
      | Shutting_Down \<Rightarrow> onShutdown_http (op_error w Shutting_Down) s
      | Finished \<Rightarrow> s)"

definition http_course :: "http_script \<Rightarrow> http_session \<Rightarrow> nat \<Rightarrow> http_session" where
  "http_course w s n = (http_next w ^^ n) s"

text \<open>
  What it should come to: the first error ends it and is what the callback is told; without one the callback is given
  the response, and the shutdown is the sixth completion.
\<close>

definition exchange_errors :: "http_script \<Rightarrow> string option list" where
  "exchange_errors w =
     [if op_error w Resolving = None then sni_error w else op_error w Resolving,
      op_error w Connecting, op_error w Handshaking, op_error w Writing, op_error w Reading]"

fun exchange_length :: "string option list \<Rightarrow> nat" where
  "exchange_length [] = 1"
| "exchange_length (Some e # es) = 1"
| "exchange_length (None # es) = Suc (exchange_length es)"

fun exchange_result :: "string option list \<Rightarrow> string \<times> nat \<Rightarrow> http_result" where
  "exchange_result [] response = \<lparr>hres_body = fst response, hres_status = snd response, hres_error = None\<rparr>"
| "exchange_result (Some e # es) response = \<lparr>hres_body = '''', hres_status = 0, hres_error = Some e\<rparr>"
| "exchange_result (None # es) response = exchange_result es response"

lemma exchange_length_le: "exchange_length es \<le> Suc (length es)"
  by (induction es rule: exchange_length.induct) simp_all

definition in_phase :: "http_phase \<Rightarrow> nat option \<Rightarrow> http_request \<Rightarrow> string \<times> nat \<Rightarrow> http_result list \<Rightarrow> http_session" where
  "in_phase p d rq response calls =
     \<lparr>hs_phase = p, hs_request = rq, hs_deadline = d, hs_response = response, hs_calls = calls\<rparr>"

text \<open>One completion, by the phase in which it finds the session.\<close>

definition with_error :: "string \<Rightarrow> http_result" where
  "with_error e = \<lparr>hres_body = '''', hres_status = 0, hres_error = Some e\<rparr>"

lemma http_next_phases:
  "http_next w (in_phase Resolving d rq r c) =
     (case hd (exchange_errors w) of
        Some e \<Rightarrow> in_phase Finished d rq r (c @ [with_error e])
      | None \<Rightarrow> in_phase Connecting (Some 10) rq r c)"
  "http_next w (in_phase Connecting d rq r c) =
     (case op_error w Connecting of
        Some e \<Rightarrow> in_phase Finished d rq r (c @ [with_error e])
      | None \<Rightarrow> in_phase Handshaking (Some 10) rq r c)"
  "http_next w (in_phase Handshaking d rq r c) =
     (case op_error w Handshaking of
        Some e \<Rightarrow> in_phase Finished d rq r (c @ [with_error e])
      | None \<Rightarrow> in_phase Writing (Some 10) rq r c)"
  "http_next w (in_phase Writing d rq r c) =
     (case op_error w Writing of
        Some e \<Rightarrow> in_phase Finished d rq r (c @ [with_error e])
      | None \<Rightarrow> in_phase Reading d rq r c)"
  "http_next w (in_phase Reading d rq r c) =
     (case op_error w Reading of
        Some e \<Rightarrow> in_phase Finished d rq (answer w) (c @ [with_error e])
      | None \<Rightarrow> in_phase Shutting_Down (Some 5) rq (answer w) (c @ [exchange_result [] (answer w)]))"
  "http_next w (in_phase Shutting_Down d rq r c) = in_phase Finished d rq r c"
  "http_next w (in_phase Finished d rq r c) = in_phase Finished d rq r c"
  by (simp_all add: http_next_def in_phase_def with_error_def http_defs exchange_errors_def
      split: option.split prod.split)

lemma http_course_Suc: "http_course w s (Suc n) = http_next w (http_course w s n)"
  by (simp add: http_course_def)

lemma http_course_done:
  "hs_phase (http_course w s k) = Finished \<Longrightarrow> k \<le> n \<Longrightarrow> http_course w s n = http_course w s k"
proof (induction n)
  case (Suc n)
  then show ?case by (cases "k = Suc n") (simp_all add: http_course_Suc http_next_def)
qed simp

lemma in_phase_fields [simp]:
  "hs_phase (in_phase p d rq r c) = p" "hs_deadline (in_phase p d rq r c) = d"
  "hs_request (in_phase p d rq r c) = rq" "hs_response (in_phase p d rq r c) = r"
  "hs_calls (in_phase p d rq r c) = c"
  by (simp_all add: in_phase_def)

lemma no_error_course:
  assumes "\<forall>e \<in> set (take n (exchange_errors w)). e = None" and "n \<le> 4"
  shows "http_course w (run_session hostname target body) n =
    in_phase ([Resolving, Connecting, Handshaking, Writing, Reading] ! n) (if n = 0 then None else Some 10)
      (post_request hostname target body) ('''', 0) []"
  using assms
proof (induction n)
  case 0
  then show ?case by (simp add: http_course_def run_session_def in_phase_def)
next
  case (Suc n)
  have "set (take n (exchange_errors w)) \<subseteq> set (take (Suc n) (exchange_errors w))"
    by (rule set_take_subset_set_take) simp
  then have "\<forall>e \<in> set (take n (exchange_errors w)). e = None" using Suc.prems(1) by blast
  from Suc.IH [OF this] Suc.prems(2)
  have IH: "http_course w (run_session hostname target body) n =
    in_phase ([Resolving, Connecting, Handshaking, Writing, Reading] ! n) (if n = 0 then None else Some 10)
      (post_request hostname target body) ('''', 0) []" by simp
  have "n < length (exchange_errors w)" using Suc.prems(2) by (simp add: exchange_errors_def)
  then have "exchange_errors w ! n \<in> set (take (Suc n) (exchange_errors w))"
    by (simp add: take_Suc_conv_app_nth)
  then have e: "exchange_errors w ! n = None" using Suc.prems(1) by blast
  have "n \<in> {0, 1, 2, 3}" using Suc.prems(2) by auto
  then show ?case using e
    by (auto simp: http_course_Suc IH http_next_phases exchange_errors_def)
qed

lemma before_first_error: "n < exchange_length es \<Longrightarrow> \<forall>e \<in> set (take n es). e = None"
proof (induction es arbitrary: n rule: exchange_length.induct)
  case (3 es)
  then show ?case by (cases n) auto
qed simp_all

lemma at_first_error:
  "exchange_length es \<le> length es \<Longrightarrow>
   \<exists>e. es ! (exchange_length es - 1) = Some e \<and> exchange_result es response = with_error e"
proof (induction es rule: exchange_length.induct)
  case (3 es)
  then show ?case by (cases es rule: exchange_length.cases) auto
qed (simp_all add: with_error_def)

lemma exchange_length_pos: "0 < exchange_length es"
  by (induction es rule: exchange_length.induct) simp_all

lemma no_first_error:
  "exchange_length es = Suc (length es) \<Longrightarrow>
   (\<forall>e \<in> set es. e = None) \<and> exchange_result es response = exchange_result [] response"
proof (induction es rule: exchange_length.induct)
  case (2 e es)
  then show ?case using exchange_length_le [of es] by simp
qed simp_all

text \<open>Every completion before the end, and the end, of a session.\<close>

lemma course_open:
  assumes "n < exchange_length (exchange_errors w)"
  shows "http_course w (run_session hostname target body) n =
    in_phase ([Resolving, Connecting, Handshaking, Writing, Reading, Shutting_Down] ! n)
      ([None, Some 10, Some 10, Some 10, Some 10, Some 5] ! n) (post_request hostname target body)
      (if n < 5 then ('''', 0) else answer w)
      (if n < 5 then [] else [exchange_result (exchange_errors w) (answer w)])"
proof (cases "n \<le> 4")
  case True
  then have "n \<in> {0, 1, 2, 3, 4}" by auto
  then have "[Resolving, Connecting, Handshaking, Writing, Reading] ! n =
      [Resolving, Connecting, Handshaking, Writing, Reading, Shutting_Down] ! n"
    "(if n = 0 then None else Some 10) = [None, Some 10, Some 10, Some 10, Some 10, Some (5 :: nat)] ! n"
    by auto
  then show ?thesis
    using no_error_course [OF before_first_error [OF assms] True, of hostname target body] True by simp
next
  case False
  have len: "exchange_length (exchange_errors w) \<le> 6"
    using exchange_length_le [of "exchange_errors w"] by (simp add: exchange_errors_def)
  with False assms have n: "n = 5" and k: "exchange_length (exchange_errors w) = 6" by auto
  then have "exchange_length (exchange_errors w) = Suc (length (exchange_errors w))"
    by (simp add: exchange_errors_def)
  then have none: "\<forall>e \<in> set (exchange_errors w). e = None"
    "exchange_result (exchange_errors w) (answer w) = exchange_result [] (answer w)"
    using no_first_error [of "exchange_errors w" "answer w"] by blast+
  have "\<forall>e \<in> set (take 4 (exchange_errors w)). e = None" using none(1) by (auto dest: in_set_takeD)
  from no_error_course [OF this, of hostname target body]
  have "http_course w (run_session hostname target body) 4 =
      in_phase Reading (Some 10) (post_request hostname target body) ('''', 0) []" by simp
  moreover have "op_error w Reading = None" using none(1) by (simp add: exchange_errors_def)
  moreover have "http_course w (run_session hostname target body) 5 =
      http_next w (http_course w (run_session hostname target body) 4)"
    using http_course_Suc [of w _ 4] by simp
  ultimately have "http_course w (run_session hostname target body) 5 =
      in_phase Shutting_Down (Some 5) (post_request hostname target body) (answer w) [exchange_result [] (answer w)]"
    by (simp add: http_next_phases)
  then show ?thesis by (simp add: n none(2))
qed

lemma course_end:
  fixes hostname target body
  defines "s0 \<equiv> run_session hostname target body"
  assumes "exchange_length (exchange_errors w) \<le> n"
  shows "hs_phase (http_course w s0 n) = Finished"
    and "hs_calls (http_course w s0 n) = [exchange_result (exchange_errors w) (answer w)]"
    and "hs_request (http_course w s0 n) = post_request hostname target body"
proof -
  let ?k = "exchange_length (exchange_errors w)"
  define m where "m = ?k - 1"
  have k: "?k = Suc m" using exchange_length_pos [of "exchange_errors w"] by (simp add: m_def)
  then have m: "http_course w s0 m =
    in_phase ([Resolving, Connecting, Handshaking, Writing, Reading, Shutting_Down] ! m)
      ([None, Some 10, Some 10, Some 10, Some 10, Some 5] ! m) (post_request hostname target body)
      (if m < 5 then ('''', 0) else answer w)
      (if m < 5 then [] else [exchange_result (exchange_errors w) (answer w)])"
    unfolding s0_def by (intro course_open) simp
  have "hs_phase (http_course w s0 ?k) = Finished \<and>
    hs_calls (http_course w s0 ?k) = [exchange_result (exchange_errors w) (answer w)] \<and>
    hs_request (http_course w s0 ?k) = post_request hostname target body"
  proof (cases "m \<le> 4")
    case True
    then obtain e where e: "exchange_errors w ! m = Some e" "exchange_result (exchange_errors w) (answer w) = with_error e"
      using at_first_error [of "exchange_errors w" "answer w"] k by (auto simp: exchange_errors_def)
    have "m \<in> {0, 1, 2, 3, 4}" using True by auto
    then show ?thesis
      using e(1) unfolding k http_course_Suc m e(2) by (auto simp: http_next_phases exchange_errors_def)
  next
    case False
    then have "m = 5"
      using exchange_length_le [of "exchange_errors w"] k by (simp add: exchange_errors_def)
    then show ?thesis unfolding k http_course_Suc m by (simp add: http_next_phases)
  qed
  then show "hs_phase (http_course w s0 n) = Finished"
    and "hs_calls (http_course w s0 n) = [exchange_result (exchange_errors w) (answer w)]"
    and "hs_request (http_course w s0 n) = post_request hostname target body"
    using http_course_done [where s = s0, OF _ assms(2)] by auto
qed

subsection \<open>Every run is such a course\<close>

text \<open>Scripts that differ only in what the completion of one phase brings.\<close>

definition script_at :: "http_phase \<Rightarrow> string option \<Rightarrow> string option \<Rightarrow> string \<times> nat \<Rightarrow> http_script \<Rightarrow> http_script" where
  "script_at p ec sni response w =
     w\<lparr>op_error := (op_error w)(p := ec), sni_error := (if p = Resolving then sni else sni_error w),
       answer := (if p = Reading then response else answer w)\<rparr>"

lemma http_step_script:
  assumes "http_step s t"
  obtains ec sni response where "\<And>w. t = http_next (script_at (hs_phase s) ec sni response w) s" "hs_phase s \<noteq> Finished"
  using assms by cases (fastforce simp: http_next_def script_at_def intro: that)+

lemma http_next_other: "hs_phase s \<noteq> p \<Longrightarrow> http_next (script_at p ec sni response w) s = http_next w s"
  by (cases "hs_phase s") (auto simp: http_next_def script_at_def)

lemma http_course_other:
  "(\<And>i. i < n \<Longrightarrow> hs_phase (http_course w s i) \<noteq> p) \<Longrightarrow>
   http_course (script_at p ec sni response w) s n = http_course w s n"
proof (induction n)
  case (Suc n)
  then have "http_course (script_at p ec sni response w) s n = http_course w s n" by simp
  then show ?case using Suc.prems [of n] by (simp add: http_course_Suc http_next_other)
qed (simp add: http_course_def)

lemma http_next_step: "hs_phase s \<noteq> Finished \<Longrightarrow> http_step s (http_next w s)"
  by (cases "hs_phase s") (auto simp: http_next_def intro: http_step.intros)

lemma course_distinct:
  assumes "i < n" and "hs_phase (http_course w (run_session hostname target body) n) \<noteq> Finished"
  shows "hs_phase (http_course w (run_session hostname target body) i) \<noteq>
    hs_phase (http_course w (run_session hostname target body) n)"
proof -
  have "n < exchange_length (exchange_errors w)"
    using course_end(1) [of w n hostname target body] assms(2) by (meson not_less)
  moreover from this have "n < 6" using exchange_length_le [of "exchange_errors w"] by (simp add: exchange_errors_def)
  ultimately have "n \<in> {0, 1, 2, 3, 4, 5}" "i \<in> {0, 1, 2, 3, 4, 5}" "i < exchange_length (exchange_errors w)"
    "n < exchange_length (exchange_errors w)" using assms(1) by auto
  then show ?thesis using assms(1) by (auto simp: course_open)
qed

lemma runs_are_courses:
  "http_run (run_session hostname target body) n s \<longleftrightarrow>
   (\<exists>w. n \<le> exchange_length (exchange_errors w) \<and> s = http_course w (run_session hostname target body) n)"
  (is "?run n s \<longleftrightarrow> (\<exists>w. ?course w n s)")
proof
  assume "?run n s"
  then show "\<exists>w. ?course w n s"
  proof (induction "run_session hostname target body" n s rule: http_run.induct)
    case http_refl
    then show ?case by (auto simp: http_course_def)
  next
    case (http_more n t u)
    then obtain w where w: "t = http_course w (run_session hostname target body) n" by blast
    from http_step_script [OF http_more.hyps(3)] obtain ec sni response where
      u: "\<And>w. u = http_next (script_at (hs_phase t) ec sni response w) t" and unfinished: "hs_phase t \<noteq> Finished" by blast
    let ?w = "script_at (hs_phase t) ec sni response w"
    have t: "http_course ?w (run_session hostname target body) n = t"
      using course_distinct unfinished unfolding w by (intro http_course_other) metis
    moreover from this have "n < exchange_length (exchange_errors ?w)"
      using course_end(1) [of ?w n hostname target body] unfinished by (metis not_less)
    ultimately show ?case using u [of w] by (intro exI [of _ ?w]) (simp add: http_course_Suc)
  qed
next
  assume "\<exists>w. ?course w n s"
  then obtain w where "?course w n s" by blast
  then show "?run n s"
  proof (induction n arbitrary: s)
    case 0
    then show ?case by (simp add: http_course_def http_refl)
  next
    case (Suc n)
    then have "?run n (http_course w (run_session hostname target body) n)" by simp
    moreover have "hs_phase (http_course w (run_session hostname target body) n) \<noteq> Finished"
    proof -
      have "n < 6" using Suc.prems exchange_length_le [of "exchange_errors w"] by (simp add: exchange_errors_def)
      then have "n \<in> {0, 1, 2, 3, 4, 5}" by auto
      then show ?thesis using Suc.prems by (auto simp: course_open)
    qed
    ultimately show ?case using Suc.prems http_next_step by (auto simp: http_course_Suc intro: http_more)
  qed
qed

text \<open>
  C15: What a session comes to, for every script of the network: the first of its operations to fail (resolving or the
  server name, connecting, the handshake, writing, reading) ends it at once, with one call of the completion callback
  that has that error, an empty body and status 0; without an error the callback is called once with the response that
  was read, when it has been read, and the sixth completion, of the shutdown, ends the session. Before that the
  callback has not been called. The resolve runs without a deadline, connecting to reading under an \<open>expires_after\<close> of
  10 seconds (the read under the one set for the write), the shutdown under one of 5; the request is never changed; and
  the runs of the handlers are the courses of the scripts.
\<close>

theorem http_session_outcome:
  "let s0 = run_session hostname target body; s = http_course w s0 n; k = exchange_length (exchange_errors w)
    in (hs_phase s = Finished \<longleftrightarrow> k \<le> n) \<and>
       hs_calls s = (if n < min k 5 then [] else [exchange_result (exchange_errors w) (answer w)]) \<and>
       (case hs_phase s of Resolving \<Rightarrow> hs_deadline s = None | Shutting_Down \<Rightarrow> hs_deadline s = Some 5
        | Finished \<Rightarrow> True | _ \<Rightarrow> hs_deadline s = Some 10) \<and>
       hs_request s = post_request hostname target body \<and>
       (http_run s0 m t \<longleftrightarrow> (\<exists>w. m \<le> exchange_length (exchange_errors w) \<and> t = http_course w s0 m))"
proof (cases "exchange_length (exchange_errors w) \<le> n")
  case True
  then show ?thesis
    using course_end [OF True, of hostname target body] runs_are_courses by (simp add: Let_def)
next
  case False
  then have k: "n < exchange_length (exchange_errors w)" by simp
  then have "n < 6" using exchange_length_le [of "exchange_errors w"] by (simp add: exchange_errors_def)
  then have "n \<in> {0, 1, 2, 3, 4, 5}" by auto
  then show ?thesis
    using course_open [OF k, of hostname target body] runs_are_courses k by (auto simp: Let_def)
qed

end
