(* ===== verification/Rest_Api_Sync.thy ===== *)
theory Rest_Api_Sync
  imports Rest_Message_Parser Websocket_Api
begin

text \<open>
  The synchronous methods of \<open>RestApi\<close>, one definition each: the request a method hands to
  \<open>signAndSendSync\<close> and the parser it applies to the body of the answer. The reply is tagged with the
  constructor of its endpoint, so that all methods have one type.
\<close>

record ('j, 'v) sync_call =
  sc_request :: "'j api_request"
  sc_parse :: "'v sj_reader \<Rightarrow> string \<Rightarrow> rest_reply outcome"

definition parsed_by :: "'j api_request \<Rightarrow> ('v sj_reader \<Rightarrow> string \<Rightarrow> rest_reply outcome) \<Rightarrow> ('j, 'v) sync_call" where
  "parsed_by rq p = \<lparr>sc_request = rq, sc_parse = p\<rparr>"

definition reply_of :: "('a \<Rightarrow> rest_reply) \<Rightarrow> (string \<Rightarrow> 'a outcome) \<Rightarrow> string \<Rightarrow> rest_reply outcome" where
  "reply_of f p message = bindE (p message) (\<lambda>r. Inr (f r))"

definition spotMeta_sync :: "'j json_ops \<Rightarrow> symbol_map \<Rightarrow> ('j, 'v) sync_call" where
  "spotMeta_sync J syms =
     parsed_by (api_call Ep_SpotMeta (Inr (spotMeta J)) None)
       (\<lambda>S. reply_of (R_Spot \<circ> R_SpotMeta) (parseSpotMeta S))"

definition meta_sync :: "'j json_ops \<Rightarrow> symbol_map \<Rightarrow> string option \<Rightarrow> ('j, 'v) sync_call" where
  "meta_sync J syms dex =
     parsed_by (api_call Ep_Meta (Inr (meta J dex)) None)
       (\<lambda>S. reply_of (R_Trading \<circ> R_Meta) (parseMeta S))"

definition outcomeMeta_sync :: "'j json_ops \<Rightarrow> symbol_map \<Rightarrow> ('j, 'v) sync_call" where
  "outcomeMeta_sync J syms =
     parsed_by (api_call Ep_OutcomeMeta (Inr (outcomeMeta J)) None)
       (\<lambda>S. reply_of (R_Spot \<circ> R_OutcomeMeta) (parseOutcomeMeta S))"

definition settledOutcome_sync :: "'j json_ops \<Rightarrow> symbol_map \<Rightarrow> int \<Rightarrow> ('j, 'v) sync_call" where
  "settledOutcome_sync J syms outcome =
     parsed_by (api_call Ep_SettledOutcome (Inr (settledOutcome J outcome)) None)
       (\<lambda>S. reply_of (R_Spot \<circ> R_SettledOutcome) (parseSettledOutcome S))"

definition perpDexs_sync :: "'j json_ops \<Rightarrow> symbol_map \<Rightarrow> ('j, 'v) sync_call" where
  "perpDexs_sync J syms =
     parsed_by (api_call Ep_PerpDexs (Inr (perpDexs J)) None)
       (\<lambda>S. reply_of (R_Trading \<circ> R_PerpDexs) (parsePerpDexs S))"

definition perpsAtOpenInterestCap_sync :: "'j json_ops \<Rightarrow> symbol_map \<Rightarrow> string option \<Rightarrow> ('j, 'v) sync_call" where
  "perpsAtOpenInterestCap_sync J syms dex =
     parsed_by (api_call Ep_PerpsAtOpenInterestCap (Inr (perpsAtOpenInterestCap J dex)) None)
       (\<lambda>S. reply_of (R_Account \<circ> R_PerpsAtOpenInterestCap) (parsePerpsAtOpenInterestCap S))"

definition predictedFundings_sync :: "'j json_ops \<Rightarrow> symbol_map \<Rightarrow> ('j, 'v) sync_call" where
  "predictedFundings_sync J syms =
     parsed_by (api_call Ep_PredictedFundings (Inr (predictedFundings J)) None)
       (\<lambda>S. reply_of (R_Account \<circ> R_PredictedFundings) (parsePredictedFundings S))"

definition perpAnnotation_sync :: "'j json_ops \<Rightarrow> symbol_map \<Rightarrow> string \<Rightarrow> ('j, 'v) sync_call" where
  "perpAnnotation_sync J syms coin =
     parsed_by (api_call Ep_PerpAnnotation (Inr (perpAnnotation J coin)) None)
       (\<lambda>S. reply_of (R_Account \<circ> R_PerpAnnotation) (parsePerpAnnotation S))"

definition perpCategories_sync :: "'j json_ops \<Rightarrow> symbol_map \<Rightarrow> ('j, 'v) sync_call" where
  "perpCategories_sync J syms =
     parsed_by (api_call Ep_PerpCategories (Inr (perpCategories J)) None)
       (\<lambda>S. reply_of (R_Account \<circ> R_PerpCategories) (parsePerpCategories S))"

definition perpConciseAnnotations_sync :: "'j json_ops \<Rightarrow> symbol_map \<Rightarrow> ('j, 'v) sync_call" where
  "perpConciseAnnotations_sync J syms =
     parsed_by (api_call Ep_PerpConciseAnnotations (Inr (perpConciseAnnotations J)) None)
       (\<lambda>S. reply_of (R_Account \<circ> R_PerpConciseAnnotations) (parsePerpConciseAnnotations S))"

definition allPerpMetas_sync :: "'j json_ops \<Rightarrow> symbol_map \<Rightarrow> ('j, 'v) sync_call" where
  "allPerpMetas_sync J syms =
     parsed_by (api_call Ep_AllPerpMetas (Inr (allPerpMetas J)) None)
       (\<lambda>S. reply_of (R_Account \<circ> R_AllPerpMetas) (parseAllPerpMetas S))"

definition perpDexLimits_sync :: "'j json_ops \<Rightarrow> symbol_map \<Rightarrow> string \<Rightarrow> ('j, 'v) sync_call" where
  "perpDexLimits_sync J syms dex =
     parsed_by (api_call Ep_PerpDexLimits (Inr (perpDexLimits J dex)) None)
       (\<lambda>S. reply_of (R_Account \<circ> R_PerpDexLimits) (parsePerpDexLimits S))"

definition perpDexStatus_sync :: "'j json_ops \<Rightarrow> symbol_map \<Rightarrow> string \<Rightarrow> ('j, 'v) sync_call" where
  "perpDexStatus_sync J syms dex =
     parsed_by (api_call Ep_PerpDexStatus (Inr (perpDexStatus J dex)) None)
       (\<lambda>S. reply_of (R_Account \<circ> R_PerpDexStatus) (parsePerpDexStatus S))"

definition perpDeployAuctionStatus_sync :: "'j json_ops \<Rightarrow> symbol_map \<Rightarrow> ('j, 'v) sync_call" where
  "perpDeployAuctionStatus_sync J syms =
     parsed_by (api_call Ep_PerpDeployAuctionStatus (Inr (perpDeployAuctionStatus J)) None)
       (\<lambda>S. reply_of (R_Account \<circ> R_PerpDeployAuctionStatus) (parsePerpDeployAuctionStatus S))"

definition userFunding_sync :: "'j json_ops \<Rightarrow> symbol_map \<Rightarrow> string \<Rightarrow> u64 \<Rightarrow> u64 option \<Rightarrow> ('j, 'v) sync_call" where
  "userFunding_sync J syms user startTime endTime =
     parsed_by (api_call Ep_UserFunding (Inr (userFunding J user startTime endTime)) None)
       (\<lambda>S. reply_of (R_Account \<circ> R_UserFunding) (parseUserFunding S))"

definition userNonFundingLedgerUpdates_sync :: "'j json_ops \<Rightarrow> symbol_map \<Rightarrow> string \<Rightarrow> u64 \<Rightarrow> u64 option \<Rightarrow> ('j, 'v) sync_call" where
  "userNonFundingLedgerUpdates_sync J syms user startTime endTime =
     parsed_by (api_call Ep_UserNonFundingLedgerUpdates (Inr (userNonFundingLedgerUpdates J user startTime endTime)) None)
       (\<lambda>S. reply_of (R_Account \<circ> R_UserNonFundingLedgerUpdates) (parseUserNonFundingLedgerUpdates S))"

definition fundingHistory_sync :: "'j json_ops \<Rightarrow> symbol_map \<Rightarrow> string \<Rightarrow> u64 \<Rightarrow> u64 option \<Rightarrow> ('j, 'v) sync_call" where
  "fundingHistory_sync J syms coin startTime endTime =
     parsed_by (api_call Ep_FundingHistory (Inr (fundingHistory J coin startTime endTime)) None)
       (\<lambda>S. reply_of (R_Account \<circ> R_FundingHistory) (parseFundingHistory S))"

definition l2Book_sync :: "'j json_ops \<Rightarrow> symbol_map \<Rightarrow> string \<Rightarrow> int option \<Rightarrow> int option \<Rightarrow> ('j, 'v) sync_call" where
  "l2Book_sync J syms coin nSigFigs mantissa =
     parsed_by (api_call Ep_L2Book (Inr (l2Book J coin nSigFigs mantissa)) None)
       (\<lambda>S. reply_of (R_Trading \<circ> R_L2Book) (parseL2Book S))"

definition candleSnapshot_sync :: "'j json_ops \<Rightarrow> symbol_map \<Rightarrow> string \<Rightarrow> string \<Rightarrow> u64 \<Rightarrow> u64 \<Rightarrow> ('j, 'v) sync_call" where
  "candleSnapshot_sync J syms coin interval startTime endTime =
     parsed_by (api_call Ep_CandleSnapshot (Inr (candleSnapshot J coin interval startTime endTime)) None)
       (\<lambda>S. reply_of (R_Trading \<circ> R_CandleSnapshot) (parseCandleSnapshot S))"

definition recentTrades_sync :: "'j json_ops \<Rightarrow> symbol_map \<Rightarrow> string \<Rightarrow> ('j, 'v) sync_call" where
  "recentTrades_sync J syms coin =
     parsed_by (api_call Ep_RecentTrades (Inr (recentTrades J coin)) None)
       (\<lambda>S. reply_of (R_Trading \<circ> R_RecentTrades) (parseRecentTrades S))"

definition allMids_sync :: "'j json_ops \<Rightarrow> symbol_map \<Rightarrow> string option \<Rightarrow> ('j, 'v) sync_call" where
  "allMids_sync J syms dex =
     parsed_by (api_call Ep_AllMids (Inr (allMids J dex)) None)
       (\<lambda>S. reply_of (R_Trading \<circ> R_AllMids) (parseAllMids S))"

definition openOrders_sync :: "'j json_ops \<Rightarrow> symbol_map \<Rightarrow> string \<Rightarrow> string option \<Rightarrow> ('j, 'v) sync_call" where
  "openOrders_sync J syms user dex =
     parsed_by (api_call Ep_OpenOrders (Inr (openOrders J user dex)) None)
       (\<lambda>S. reply_of (R_Trading \<circ> R_OpenOrders) (parseOpenOrders S))"

definition orderStatus_sync :: "'j json_ops \<Rightarrow> symbol_map \<Rightarrow> string \<Rightarrow> OrderId \<Rightarrow> ('j, 'v) sync_call" where
  "orderStatus_sync J syms user oid =
     parsed_by (api_call Ep_OrderStatus (Inr (orderStatus J user oid)) None)
       (\<lambda>S. reply_of (R_Trading \<circ> R_OrderStatus) (parseOrderStatus S))"

definition userFills_sync :: "'j json_ops \<Rightarrow> symbol_map \<Rightarrow> string \<Rightarrow> bool option \<Rightarrow> string option \<Rightarrow> ('j, 'v) sync_call" where
  "userFills_sync J syms user aggregateByTime dex =
     parsed_by (api_call Ep_UserFills (Inr (userFills J user aggregateByTime dex)) None)
       (\<lambda>S. reply_of (R_Trading \<circ> R_UserFills) (parseUserFills S))"

definition userFillsByTime_sync :: "'j json_ops \<Rightarrow> symbol_map \<Rightarrow> string \<Rightarrow> u64 \<Rightarrow> u64 option \<Rightarrow> bool option \<Rightarrow> string option \<Rightarrow> ('j, 'v) sync_call" where
  "userFillsByTime_sync J syms user startTime endTime aggregateByTime dex =
     parsed_by (api_call Ep_UserFillsByTime (Inr (userFillsByTime J user startTime endTime aggregateByTime dex)) None)
       (\<lambda>S. reply_of (R_Trading \<circ> R_UserFillsByTime) (parseUserFillsByTime S))"

definition clearinghouseState_sync :: "'j json_ops \<Rightarrow> symbol_map \<Rightarrow> string \<Rightarrow> string option \<Rightarrow> ('j, 'v) sync_call" where
  "clearinghouseState_sync J syms user dex =
     parsed_by (api_call Ep_ClearinghouseState (Inr (clearinghouseState J user dex)) None)
       (\<lambda>S. reply_of (R_Trading \<circ> R_ClearinghouseState) (parseClearinghouseState S))"

definition userRateLimit_sync :: "'j json_ops \<Rightarrow> symbol_map \<Rightarrow> string \<Rightarrow> ('j, 'v) sync_call" where
  "userRateLimit_sync J syms user =
     parsed_by (api_call Ep_UserRateLimit (Inr (userRateLimit J user)) None)
       (\<lambda>S. reply_of (R_Trading \<circ> R_UserRateLimit) (parseUserRateLimit S))"

definition metaAndAssetCtxs_sync :: "'j json_ops \<Rightarrow> symbol_map \<Rightarrow> string option \<Rightarrow> ('j, 'v) sync_call" where
  "metaAndAssetCtxs_sync J syms dex =
     parsed_by (api_call Ep_MetaAndAssetCtxs (Inr (metaAndAssetCtxs J dex)) None)
       (\<lambda>S. reply_of (R_Trading \<circ> R_MetaAndAssetCtxs) (parseMetaAndAssetCtxs S))"

definition spotMetaAndAssetCtxs_sync :: "'j json_ops \<Rightarrow> symbol_map \<Rightarrow> ('j, 'v) sync_call" where
  "spotMetaAndAssetCtxs_sync J syms =
     parsed_by (api_call Ep_SpotMetaAndAssetCtxs (Inr (spotMetaAndAssetCtxs J)) None)
       (\<lambda>S. reply_of (R_Spot \<circ> R_SpotMetaAndAssetCtxs) (parseSpotMetaAndAssetCtxs S))"

definition spotClearinghouseState_sync :: "'j json_ops \<Rightarrow> symbol_map \<Rightarrow> string \<Rightarrow> string option \<Rightarrow> ('j, 'v) sync_call" where
  "spotClearinghouseState_sync J syms user dex =
     parsed_by (api_call Ep_SpotClearinghouseState (Inr (spotClearinghouseState J user dex)) None)
       (\<lambda>S. reply_of (R_Spot \<circ> R_SpotClearinghouseState) (parseSpotClearinghouseState S))"

definition spotDeployState_sync :: "'j json_ops \<Rightarrow> symbol_map \<Rightarrow> string \<Rightarrow> ('j, 'v) sync_call" where
  "spotDeployState_sync J syms user =
     parsed_by (api_call Ep_SpotDeployState (Inr (spotDeployState J user)) None)
       (\<lambda>S. reply_of (R_Spot \<circ> R_SpotDeployState) (parseSpotDeployState S))"

definition spotPairDeployAuctionStatus_sync :: "'j json_ops \<Rightarrow> symbol_map \<Rightarrow> ('j, 'v) sync_call" where
  "spotPairDeployAuctionStatus_sync J syms =
     parsed_by (api_call Ep_SpotPairDeployAuctionStatus (Inr (spotPairDeployAuctionStatus J)) None)
       (\<lambda>S. reply_of (R_Spot \<circ> R_SpotPairDeployAuctionStatus) (parseSpotPairDeployAuctionStatus S))"

definition frontendOpenOrders_sync :: "'j json_ops \<Rightarrow> symbol_map \<Rightarrow> string \<Rightarrow> string option \<Rightarrow> ('j, 'v) sync_call" where
  "frontendOpenOrders_sync J syms user dex =
     parsed_by (api_call Ep_FrontendOpenOrders (Inr (frontendOpenOrders J user dex)) None)
       (\<lambda>S. reply_of (R_Trading \<circ> R_FrontendOpenOrders) (parseFrontendOpenOrders S))"

definition historicalOrders_sync :: "'j json_ops \<Rightarrow> symbol_map \<Rightarrow> string \<Rightarrow> ('j, 'v) sync_call" where
  "historicalOrders_sync J syms user =
     parsed_by (api_call Ep_HistoricalOrders (Inr (historicalOrders J user)) None)
       (\<lambda>S. reply_of (R_Trading \<circ> R_HistoricalOrders) (parseHistoricalOrders S))"

definition userTwapSliceFills_sync :: "'j json_ops \<Rightarrow> symbol_map \<Rightarrow> string \<Rightarrow> ('j, 'v) sync_call" where
  "userTwapSliceFills_sync J syms user =
     parsed_by (api_call Ep_UserTwapSliceFills (Inr (userTwapSliceFills J user)) None)
       (\<lambda>S. reply_of (R_Trading \<circ> R_UserTwapSliceFills) (parseUserTwapSliceFills S))"

definition userTwapSliceFillsByTime_sync :: "'j json_ops \<Rightarrow> symbol_map \<Rightarrow> string \<Rightarrow> u64 \<Rightarrow> u64 option \<Rightarrow> bool option \<Rightarrow> ('j, 'v) sync_call" where
  "userTwapSliceFillsByTime_sync J syms user startTime endTime aggregateByTime =
     parsed_by (api_call Ep_UserTwapSliceFillsByTime (Inr (userTwapSliceFillsByTime J user startTime endTime aggregateByTime)) None)
       (\<lambda>S. reply_of (R_Trading \<circ> R_UserTwapSliceFillsByTime) (parseUserTwapSliceFillsByTime S))"

definition twapHistory_sync :: "'j json_ops \<Rightarrow> symbol_map \<Rightarrow> string \<Rightarrow> ('j, 'v) sync_call" where
  "twapHistory_sync J syms user =
     parsed_by (api_call Ep_TwapHistory (Inr (twapHistory J user)) None)
       (\<lambda>S. reply_of (R_Trading \<circ> R_TwapHistory) (parseTwapHistory S))"

definition activeAssetData_sync :: "'j json_ops \<Rightarrow> symbol_map \<Rightarrow> string \<Rightarrow> string \<Rightarrow> ('j, 'v) sync_call" where
  "activeAssetData_sync J syms user coin =
     parsed_by (api_call Ep_ActiveAssetData (Inr (activeAssetData J user coin)) None)
       (\<lambda>S. reply_of (R_Trading \<circ> R_ActiveAssetData) (parseActiveAssetData S))"

definition subAccounts_sync :: "'j json_ops \<Rightarrow> symbol_map \<Rightarrow> string \<Rightarrow> ('j, 'v) sync_call" where
  "subAccounts_sync J syms user =
     parsed_by (api_call Ep_SubAccounts (Inr (subAccounts J user)) None)
       (\<lambda>S. reply_of (R_Account \<circ> R_SubAccounts) (parseSubAccounts S))"

definition userFees_sync :: "'j json_ops \<Rightarrow> symbol_map \<Rightarrow> string \<Rightarrow> ('j, 'v) sync_call" where
  "userFees_sync J syms user =
     parsed_by (api_call Ep_UserFees (Inr (userFees J user)) None)
       (\<lambda>S. reply_of (R_Account \<circ> R_UserFees) (parseUserFees S))"

definition maxBuilderFee_sync :: "'j json_ops \<Rightarrow> symbol_map \<Rightarrow> string \<Rightarrow> string \<Rightarrow> ('j, 'v) sync_call" where
  "maxBuilderFee_sync J syms user builder =
     parsed_by (api_call Ep_MaxBuilderFee (Inr (maxBuilderFee J user builder)) None)
       (\<lambda>S. reply_of (R_Account \<circ> R_MaxBuilderFee) (parseMaxBuilderFee S))"

definition approvedBuilders_sync :: "'j json_ops \<Rightarrow> symbol_map \<Rightarrow> string \<Rightarrow> ('j, 'v) sync_call" where
  "approvedBuilders_sync J syms user =
     parsed_by (api_call Ep_ApprovedBuilders (Inr (approvedBuilders J user)) None)
       (\<lambda>S. reply_of (R_Account \<circ> R_ApprovedBuilders) (parseApprovedBuilders S))"

definition vaultDetails_sync :: "'j json_ops \<Rightarrow> symbol_map \<Rightarrow> string \<Rightarrow> string option \<Rightarrow> ('j, 'v) sync_call" where
  "vaultDetails_sync J syms vaultAddress user =
     parsed_by (api_call Ep_VaultDetails (Inr (vaultDetails J vaultAddress user)) None)
       (\<lambda>S. reply_of (R_Account \<circ> R_VaultDetails) (parseVaultDetails S))"

definition userVaultEquities_sync :: "'j json_ops \<Rightarrow> symbol_map \<Rightarrow> string \<Rightarrow> ('j, 'v) sync_call" where
  "userVaultEquities_sync J syms user =
     parsed_by (api_call Ep_UserVaultEquities (Inr (userVaultEquities J user)) None)
       (\<lambda>S. reply_of (R_Account \<circ> R_UserVaultEquities) (parseUserVaultEquities S))"

definition portfolio_sync :: "'j json_ops \<Rightarrow> symbol_map \<Rightarrow> string \<Rightarrow> ('j, 'v) sync_call" where
  "portfolio_sync J syms user =
     parsed_by (api_call Ep_Portfolio (Inr (portfolio J user)) None)
       (\<lambda>S. reply_of (R_Account \<circ> R_Portfolio) (parsePortfolio S))"

definition referral_sync :: "'j json_ops \<Rightarrow> symbol_map \<Rightarrow> string \<Rightarrow> ('j, 'v) sync_call" where
  "referral_sync J syms user =
     parsed_by (api_call Ep_Referral (Inr (referral J user)) None)
       (\<lambda>S. reply_of (R_Account \<circ> R_Referral) (parseReferral S))"

definition userRole_sync :: "'j json_ops \<Rightarrow> symbol_map \<Rightarrow> string \<Rightarrow> ('j, 'v) sync_call" where
  "userRole_sync J syms user =
     parsed_by (api_call Ep_UserRole (Inr (userRole J user)) None)
       (\<lambda>S. reply_of (R_Account \<circ> R_UserRole) (parseUserRole S))"

definition borrowLendUserState_sync :: "'j json_ops \<Rightarrow> symbol_map \<Rightarrow> string \<Rightarrow> ('j, 'v) sync_call" where
  "borrowLendUserState_sync J syms user =
     parsed_by (api_call Ep_BorrowLendUserState (Inr (borrowLendUserState J user)) None)
       (\<lambda>S. reply_of (R_Spot \<circ> R_BorrowLendUserState) (parseBorrowLendUserState S))"

definition borrowLendReserveState_sync :: "'j json_ops \<Rightarrow> symbol_map \<Rightarrow> int \<Rightarrow> ('j, 'v) sync_call" where
  "borrowLendReserveState_sync J syms token =
     parsed_by (api_call Ep_BorrowLendReserveState (Inr (borrowLendReserveState J token)) None)
       (\<lambda>S. reply_of (R_Spot \<circ> R_BorrowLendReserveState) (parseBorrowLendReserveState S))"

definition allBorrowLendReserveStates_sync :: "'j json_ops \<Rightarrow> symbol_map \<Rightarrow> ('j, 'v) sync_call" where
  "allBorrowLendReserveStates_sync J syms =
     parsed_by (api_call Ep_AllBorrowLendReserveStates (Inr (allBorrowLendReserveStates J)) None)
       (\<lambda>S. reply_of (R_Spot \<circ> R_AllBorrowLendReserveStates) (parseAllBorrowLendReserveStates S))"

definition userBorrowLendInterest_sync :: "'j json_ops \<Rightarrow> symbol_map \<Rightarrow> string \<Rightarrow> u64 \<Rightarrow> u64 option \<Rightarrow> ('j, 'v) sync_call" where
  "userBorrowLendInterest_sync J syms user startTime endTime =
     parsed_by (api_call Ep_UserBorrowLendInterest (Inr (userBorrowLendInterest J user startTime endTime)) None)
       (\<lambda>S. reply_of (R_Spot \<circ> R_UserBorrowLendInterest) (parseUserBorrowLendInterest S))"

definition liquidatable_sync :: "'j json_ops \<Rightarrow> symbol_map \<Rightarrow> ('j, 'v) sync_call" where
  "liquidatable_sync J syms =
     parsed_by (api_call Ep_Liquidatable (Inr (liquidatable J)) None)
       (\<lambda>S. reply_of (R_Spot \<circ> R_Liquidatable) (parseLiquidatable S))"

definition userDexAbstractionState_sync :: "'j json_ops \<Rightarrow> symbol_map \<Rightarrow> string \<Rightarrow> ('j, 'v) sync_call" where
  "userDexAbstractionState_sync J syms user =
     parsed_by (api_call Ep_UserDexAbstractionState (Inr (userDexAbstractionState J user)) None)
       (\<lambda>S. reply_of (R_Spot \<circ> R_UserDexAbstractionState) (parseUserDexAbstractionState S))"

definition userAbstraction_sync :: "'j json_ops \<Rightarrow> symbol_map \<Rightarrow> string \<Rightarrow> ('j, 'v) sync_call" where
  "userAbstraction_sync J syms user =
     parsed_by (api_call Ep_UserAbstraction (Inr (userAbstraction J user)) None)
       (\<lambda>S. reply_of (R_Spot \<circ> R_UserAbstraction) (parseUserAbstraction S))"

definition exchangeStatus_sync :: "'j json_ops \<Rightarrow> symbol_map \<Rightarrow> ('j, 'v) sync_call" where
  "exchangeStatus_sync J syms =
     parsed_by (api_call Ep_ExchangeStatus (Inr (exchangeStatus J)) None)
       (\<lambda>S. reply_of (R_Account \<circ> R_ExchangeStatus) (parseExchangeStatus S))"

definition placeOrder_sync :: "'j json_ops \<Rightarrow> symbol_map \<Rightarrow> OrderRequest list \<Rightarrow> Grouping \<Rightarrow> Builder option \<Rightarrow> string option \<Rightarrow> ('j, 'v) sync_call" where
  "placeOrder_sync J syms orders grouping builder vaultAddress =
     parsed_by (api_call Ep_PlaceOrder (placeOrder J syms orders grouping builder) vaultAddress)
       (\<lambda>S. reply_of (R_Order \<circ> R_PlaceOrder) (parsePlaceOrder S))"

definition cancelOrder_sync :: "'j json_ops \<Rightarrow> symbol_map \<Rightarrow> CancelRequest list \<Rightarrow> string option \<Rightarrow> ('j, 'v) sync_call" where
  "cancelOrder_sync J syms cancels vaultAddress =
     parsed_by (api_call Ep_CancelOrder (cancelOrder J syms cancels) vaultAddress)
       (\<lambda>S. reply_of (R_Order \<circ> R_CancelOrder) (parseCancelOrder S))"

definition cancelOrderByCloid_sync :: "'j json_ops \<Rightarrow> symbol_map \<Rightarrow> CancelByCloidRequest list \<Rightarrow> string option \<Rightarrow> ('j, 'v) sync_call" where
  "cancelOrderByCloid_sync J syms cancels vaultAddress =
     parsed_by (api_call Ep_CancelOrderByCloid (cancelOrderByCloid J syms cancels) vaultAddress)
       (\<lambda>S. reply_of (R_Order \<circ> R_CancelOrder) (parseCancelOrder S))"

definition scheduleCancel_sync :: "'j json_ops \<Rightarrow> symbol_map \<Rightarrow> u64 option \<Rightarrow> string option \<Rightarrow> ('j, 'v) sync_call" where
  "scheduleCancel_sync J syms time vaultAddress =
     parsed_by (api_call Ep_ScheduleCancel (Inr (scheduleCancel J time)) vaultAddress)
       (\<lambda>S. reply_of (R_Order \<circ> R_SimpleResponse) (parseSimpleResponse S))"

definition modifyOrder_sync :: "'j json_ops \<Rightarrow> symbol_map \<Rightarrow> ModifyRequest \<Rightarrow> string option \<Rightarrow> ('j, 'v) sync_call" where
  "modifyOrder_sync J syms modify vaultAddress =
     parsed_by (api_call Ep_ModifyOrder (modifyOrder J syms modify) vaultAddress)
       (\<lambda>S. reply_of (R_Order \<circ> R_ModifyOrder) (parseModifyOrder S))"

definition batchModifyOrder_sync :: "'j json_ops \<Rightarrow> symbol_map \<Rightarrow> ModifyRequest list \<Rightarrow> string option \<Rightarrow> ('j, 'v) sync_call" where
  "batchModifyOrder_sync J syms modifies vaultAddress =
     parsed_by (api_call Ep_BatchModifyOrder (batchModifyOrder J syms modifies) vaultAddress)
       (\<lambda>S. reply_of (R_Order \<circ> R_ModifyOrder) (parseModifyOrder S))"

definition updateLeverage_sync :: "'j json_ops \<Rightarrow> symbol_map \<Rightarrow> UpdateLeverageRequest \<Rightarrow> string option \<Rightarrow> ('j, 'v) sync_call" where
  "updateLeverage_sync J syms request vaultAddress =
     parsed_by (api_call Ep_UpdateLeverage (updateLeverage J syms request) vaultAddress)
       (\<lambda>S. reply_of (R_Order \<circ> R_SimpleResponse) (parseSimpleResponse S))"

definition updateIsolatedMargin_sync :: "'j json_ops \<Rightarrow> symbol_map \<Rightarrow> UpdateIsolatedMarginRequest \<Rightarrow> string option \<Rightarrow> ('j, 'v) sync_call" where
  "updateIsolatedMargin_sync J syms request vaultAddress =
     parsed_by (api_call Ep_UpdateIsolatedMargin (updateIsolatedMargin J syms request) vaultAddress)
       (\<lambda>S. reply_of (R_Order \<circ> R_SimpleResponse) (parseSimpleResponse S))"

definition approveAgent_sync :: "'j json_ops \<Rightarrow> symbol_map \<Rightarrow> ApproveAgentRequest \<Rightarrow> ('j, 'v) sync_call" where
  "approveAgent_sync J syms request =
     parsed_by (api_call Ep_ApproveAgent (Inr (approveAgent J request)) None)
       (\<lambda>S. reply_of (R_Order \<circ> R_SimpleResponse) (parseSimpleResponse S))"

definition agentSetAbstraction_sync :: "'j json_ops \<Rightarrow> symbol_map \<Rightarrow> UserAbstractionMode \<Rightarrow> string option \<Rightarrow> ('j, 'v) sync_call" where
  "agentSetAbstraction_sync J syms abstraction vaultAddress =
     parsed_by (api_call Ep_AgentSetAbstraction (Inr (agentSetAbstraction J abstraction)) vaultAddress)
       (\<lambda>S. reply_of (R_Order \<circ> R_SimpleResponse) (parseSimpleResponse S))"

definition twapOrder_sync :: "'j json_ops \<Rightarrow> symbol_map \<Rightarrow> TwapOrderRequest \<Rightarrow> string option \<Rightarrow> ('j, 'v) sync_call" where
  "twapOrder_sync J syms request vaultAddress =
     parsed_by (api_call Ep_TwapOrder (twapOrder J syms request) vaultAddress)
       (\<lambda>S. reply_of (R_Order \<circ> R_TwapOrder) (parseTwapOrder S))"

definition twapCancel_sync :: "'j json_ops \<Rightarrow> symbol_map \<Rightarrow> TwapCancelRequest \<Rightarrow> string option \<Rightarrow> ('j, 'v) sync_call" where
  "twapCancel_sync J syms request vaultAddress =
     parsed_by (api_call Ep_TwapCancel (twapCancel J syms request) vaultAddress)
       (\<lambda>S. reply_of (R_Order \<circ> R_TwapCancel) (parseTwapCancel S))"

definition vaultTransfer_sync :: "'j json_ops \<Rightarrow> symbol_map \<Rightarrow> VaultTransferRequest \<Rightarrow> ('j, 'v) sync_call" where
  "vaultTransfer_sync J syms request =
     parsed_by (api_call Ep_VaultTransfer (Inr (vaultTransfer J request)) None)
       (\<lambda>S. reply_of (R_Order \<circ> R_SimpleResponse) (parseSimpleResponse S))"

definition hip3LiquidatorTransfer_sync :: "'j json_ops \<Rightarrow> symbol_map \<Rightarrow> Hip3LiquidatorTransferRequest \<Rightarrow> ('j, 'v) sync_call" where
  "hip3LiquidatorTransfer_sync J syms request =
     parsed_by (api_call Ep_Hip3LiquidatorTransfer (Inr (hip3LiquidatorTransfer J request)) None)
       (\<lambda>S. reply_of (R_Order \<circ> R_SimpleResponse) (parseSimpleResponse S))"

definition createSubAccount_sync :: "'j json_ops \<Rightarrow> symbol_map \<Rightarrow> CreateSubAccountRequest \<Rightarrow> ('j, 'v) sync_call" where
  "createSubAccount_sync J syms request =
     parsed_by (api_call Ep_CreateSubAccount (Inr (createSubAccount J request)) None)
       (\<lambda>S. reply_of (R_Order \<circ> R_CreateSubAccount) (parseCreateSubAccount S))"

definition subAccountTransfer_sync :: "'j json_ops \<Rightarrow> symbol_map \<Rightarrow> SubAccountTransferRequest \<Rightarrow> ('j, 'v) sync_call" where
  "subAccountTransfer_sync J syms request =
     parsed_by (api_call Ep_SubAccountTransfer (Inr (subAccountTransfer J request)) None)
       (\<lambda>S. reply_of (R_Order \<circ> R_SimpleResponse) (parseSimpleResponse S))"

definition createVault_sync :: "'j json_ops \<Rightarrow> symbol_map \<Rightarrow> CreateVaultRequest \<Rightarrow> ('j, 'v) sync_call" where
  "createVault_sync J syms request =
     parsed_by (api_call Ep_CreateVault (Inr (createVault J request)) None)
       (\<lambda>S. reply_of (R_Order \<circ> R_CreateVault) (parseCreateVault S))"

definition borrowLend_sync :: "'j json_ops \<Rightarrow> symbol_map \<Rightarrow> BorrowLendRequest \<Rightarrow> ('j, 'v) sync_call" where
  "borrowLend_sync J syms request =
     parsed_by (api_call Ep_BorrowLend (borrowLend J request) None)
       (\<lambda>S. reply_of (R_Funds) (parseSimpleResponse S))"

definition spotDeployRegisterToken2_sync :: "'j json_ops \<Rightarrow> symbol_map \<Rightarrow> SpotDeployRegisterToken2Request \<Rightarrow> ('j, 'v) sync_call" where
  "spotDeployRegisterToken2_sync J syms request =
     parsed_by (api_call Ep_SpotDeployRegisterToken2 (Inr (spotDeployRegisterToken2 J request)) None)
       (\<lambda>S. reply_of (R_Funds) (parseSimpleResponse S))"

definition spotDeployUserGenesis_sync :: "'j json_ops \<Rightarrow> symbol_map \<Rightarrow> SpotDeployUserGenesisRequest \<Rightarrow> ('j, 'v) sync_call" where
  "spotDeployUserGenesis_sync J syms request =
     parsed_by (api_call Ep_SpotDeployUserGenesis (spotDeployUserGenesis J request) None)
       (\<lambda>S. reply_of (R_Funds) (parseSimpleResponse S))"

definition spotDeployGenesis_sync :: "'j json_ops \<Rightarrow> symbol_map \<Rightarrow> SpotDeployGenesisRequest \<Rightarrow> ('j, 'v) sync_call" where
  "spotDeployGenesis_sync J syms request =
     parsed_by (api_call Ep_SpotDeployGenesis (spotDeployGenesis J request) None)
       (\<lambda>S. reply_of (R_Funds) (parseSimpleResponse S))"

definition spotDeployRegisterSpot_sync :: "'j json_ops \<Rightarrow> symbol_map \<Rightarrow> SpotDeployRegisterSpotRequest \<Rightarrow> ('j, 'v) sync_call" where
  "spotDeployRegisterSpot_sync J syms request =
     parsed_by (api_call Ep_SpotDeployRegisterSpot (Inr (spotDeployRegisterSpot J request)) None)
       (\<lambda>S. reply_of (R_Funds) (parseSimpleResponse S))"

definition spotDeployRegisterHyperliquidity_sync :: "'j json_ops \<Rightarrow> symbol_map \<Rightarrow> SpotDeployRegisterHyperliquidityRequest \<Rightarrow> ('j, 'v) sync_call" where
  "spotDeployRegisterHyperliquidity_sync J syms request =
     parsed_by (api_call Ep_SpotDeployRegisterHyperliquidity (spotDeployRegisterHyperliquidity J request) None)
       (\<lambda>S. reply_of (R_Funds) (parseSimpleResponse S))"

definition perpDeployRegisterAsset2_sync :: "'j json_ops \<Rightarrow> symbol_map \<Rightarrow> PerpDeployRegisterAsset2Request \<Rightarrow> ('j, 'v) sync_call" where
  "perpDeployRegisterAsset2_sync J syms request =
     parsed_by (api_call Ep_PerpDeployRegisterAsset2 (perpDeployRegisterAsset2 J request) None)
       (\<lambda>S. reply_of (R_Funds) (parseSimpleResponse S))"

definition usdClassTransfer_sync :: "'j json_ops \<Rightarrow> symbol_map \<Rightarrow> UsdClassTransferRequest \<Rightarrow> ('j, 'v) sync_call" where
  "usdClassTransfer_sync J syms request =
     parsed_by (api_call Ep_UsdClassTransfer (usdClassTransfer J request) None)
       (\<lambda>S. reply_of (R_Funds) (parseSimpleResponse S))"

definition sendAsset_sync :: "'j json_ops \<Rightarrow> symbol_map \<Rightarrow> SendAssetRequest \<Rightarrow> ('j, 'v) sync_call" where
  "sendAsset_sync J syms request =
     parsed_by (api_call Ep_SendAsset (sendAsset J request) None)
       (\<lambda>S. reply_of (R_Funds) (parseSimpleResponse S))"

definition usdSend_sync :: "'j json_ops \<Rightarrow> symbol_map \<Rightarrow> UsdSendRequest \<Rightarrow> ('j, 'v) sync_call" where
  "usdSend_sync J syms request =
     parsed_by (api_call Ep_UsdSend (usdSend J request) None)
       (\<lambda>S. reply_of (R_Funds) (parseSimpleResponse S))"

definition spotSend_sync :: "'j json_ops \<Rightarrow> symbol_map \<Rightarrow> SpotSendRequest \<Rightarrow> ('j, 'v) sync_call" where
  "spotSend_sync J syms request =
     parsed_by (api_call Ep_SpotSend (spotSend J request) None)
       (\<lambda>S. reply_of (R_Funds) (parseSimpleResponse S))"

definition withdraw3_sync :: "'j json_ops \<Rightarrow> symbol_map \<Rightarrow> Withdraw3Request \<Rightarrow> ('j, 'v) sync_call" where
  "withdraw3_sync J syms request =
     parsed_by (api_call Ep_Withdraw3 (withdraw3 J request) None)
       (\<lambda>S. reply_of (R_Funds) (parseSimpleResponse S))"

definition approveBuilderFee_sync :: "'j json_ops \<Rightarrow> symbol_map \<Rightarrow> ApproveBuilderFeeRequest \<Rightarrow> ('j, 'v) sync_call" where
  "approveBuilderFee_sync J syms request =
     parsed_by (api_call Ep_ApproveBuilderFee (Inr (approveBuilderFee J request)) None)
       (\<lambda>S. reply_of (R_Funds) (parseSimpleResponse S))"

definition userSetAbstraction_sync :: "'j json_ops \<Rightarrow> symbol_map \<Rightarrow> UserSetAbstractionRequest \<Rightarrow> ('j, 'v) sync_call" where
  "userSetAbstraction_sync J syms request =
     parsed_by (api_call Ep_UserSetAbstraction (Inr (userSetAbstraction J request)) None)
       (\<lambda>S. reply_of (R_Funds) (parseSimpleResponse S))"

definition setReferrer_sync :: "'j json_ops \<Rightarrow> symbol_map \<Rightarrow> SetReferrerRequest \<Rightarrow> ('j, 'v) sync_call" where
  "setReferrer_sync J syms request =
     parsed_by (api_call Ep_SetReferrer (Inr (setReferrer J request)) None)
       (\<lambda>S. reply_of (R_Funds) (parseSimpleResponse S))"

definition cDeposit_sync :: "'j json_ops \<Rightarrow> symbol_map \<Rightarrow> u64 \<Rightarrow> ('j, 'v) sync_call" where
  "cDeposit_sync J syms wei =
     parsed_by (api_call Ep_CDeposit (Inr (cDeposit J wei)) None)
       (\<lambda>S. reply_of (R_Funds) (parseSimpleResponse S))"

definition cWithdraw_sync :: "'j json_ops \<Rightarrow> symbol_map \<Rightarrow> u64 \<Rightarrow> ('j, 'v) sync_call" where
  "cWithdraw_sync J syms wei =
     parsed_by (api_call Ep_CWithdraw (Inr (cWithdraw J wei)) None)
       (\<lambda>S. reply_of (R_Funds) (parseSimpleResponse S))"

definition tokenDelegate_sync :: "'j json_ops \<Rightarrow> symbol_map \<Rightarrow> TokenDelegateRequest \<Rightarrow> ('j, 'v) sync_call" where
  "tokenDelegate_sync J syms request =
     parsed_by (api_call Ep_TokenDelegate (Inr (tokenDelegate J request)) None)
       (\<lambda>S. reply_of (R_Funds) (parseSimpleResponse S))"

definition delegations_sync :: "'j json_ops \<Rightarrow> symbol_map \<Rightarrow> string \<Rightarrow> ('j, 'v) sync_call" where
  "delegations_sync J syms user =
     parsed_by (api_call Ep_Delegations (Inr (delegations J user)) None)
       (\<lambda>S. reply_of (R_Spot \<circ> R_Delegations) (parseDelegations S))"

definition delegatorSummary_sync :: "'j json_ops \<Rightarrow> symbol_map \<Rightarrow> string \<Rightarrow> ('j, 'v) sync_call" where
  "delegatorSummary_sync J syms user =
     parsed_by (api_call Ep_DelegatorSummary (Inr (delegatorSummary J user)) None)
       (\<lambda>S. reply_of (R_Spot \<circ> R_DelegatorSummary) (parseDelegatorSummary S))"

definition delegatorHistory_sync :: "'j json_ops \<Rightarrow> symbol_map \<Rightarrow> string \<Rightarrow> ('j, 'v) sync_call" where
  "delegatorHistory_sync J syms user =
     parsed_by (api_call Ep_DelegatorHistory (Inr (delegatorHistory J user)) None)
       (\<lambda>S. reply_of (R_Spot \<circ> R_DelegatorHistory) (parseDelegatorHistory S))"

definition delegatorRewards_sync :: "'j json_ops \<Rightarrow> symbol_map \<Rightarrow> string \<Rightarrow> ('j, 'v) sync_call" where
  "delegatorRewards_sync J syms user =
     parsed_by (api_call Ep_DelegatorRewards (Inr (delegatorRewards J user)) None)
       (\<lambda>S. reply_of (R_Spot \<circ> R_DelegatorRewards) (parseDelegatorRewards S))"

definition sendToEvmWithData_sync :: "'j json_ops \<Rightarrow> symbol_map \<Rightarrow> SendToEvmWithDataRequest \<Rightarrow> ('j, 'v) sync_call" where
  "sendToEvmWithData_sync J syms request =
     parsed_by (api_call Ep_SendToEvmWithData (Inr (sendToEvmWithData J request)) None)
       (\<lambda>S. reply_of (R_Funds) (parseSimpleResponse S))"

definition userDexAbstraction_sync :: "'j json_ops \<Rightarrow> symbol_map \<Rightarrow> UserDexAbstractionRequest \<Rightarrow> ('j, 'v) sync_call" where
  "userDexAbstraction_sync J syms request =
     parsed_by (api_call Ep_UserDexAbstraction (Inr (userDexAbstraction J request)) None)
       (\<lambda>S. reply_of (R_Funds) (parseSimpleResponse S))"

definition userPortfolioMargin_sync :: "'j json_ops \<Rightarrow> symbol_map \<Rightarrow> UserPortfolioMarginRequest \<Rightarrow> ('j, 'v) sync_call" where
  "userPortfolioMargin_sync J syms request =
     parsed_by (api_call Ep_UserPortfolioMargin (Inr (userPortfolioMargin J request)) None)
       (\<lambda>S. reply_of (R_Funds) (parseSimpleResponse S))"

definition agentSendAsset_sync :: "'j json_ops \<Rightarrow> symbol_map \<Rightarrow> AgentSendAssetRequest \<Rightarrow> string option \<Rightarrow> ('j, 'v) sync_call" where
  "agentSendAsset_sync J syms request vaultAddress =
     parsed_by (api_call Ep_AgentSendAsset (Inr (agentSendAsset J request)) vaultAddress)
       (\<lambda>S. reply_of (R_Funds) (parseSimpleResponse S))"

definition reserveRequestWeight_sync :: "'j json_ops \<Rightarrow> symbol_map \<Rightarrow> ReserveRequestWeightRequest \<Rightarrow> string option \<Rightarrow> ('j, 'v) sync_call" where
  "reserveRequestWeight_sync J syms request vaultAddress =
     parsed_by (api_call Ep_ReserveRequestWeight (Inr (reserveRequestWeight J request)) vaultAddress)
       (\<lambda>S. reply_of (R_Funds) (parseSimpleResponse S))"

definition noop_sync :: "'j json_ops \<Rightarrow> symbol_map \<Rightarrow> string option \<Rightarrow> ('j, 'v) sync_call" where
  "noop_sync J syms vaultAddress =
     parsed_by (api_call Ep_Noop (Inr (noop J)) vaultAddress)
       (\<lambda>S. reply_of (R_Funds) (parseSimpleResponse S))"

text \<open>The methods by the calls of the API.\<close>

primrec market_sync :: "'j json_ops \<Rightarrow> symbol_map \<Rightarrow> MarketCall \<Rightarrow> ('j, 'v) sync_call" where
  "market_sync J syms C_SpotMeta = spotMeta_sync J syms"
| "market_sync J syms (C_Meta dex) = meta_sync J syms dex"
| "market_sync J syms C_OutcomeMeta = outcomeMeta_sync J syms"
| "market_sync J syms C_PerpDexs = perpDexs_sync J syms"
| "market_sync J syms (C_SettledOutcome outcome) = settledOutcome_sync J syms outcome"
| "market_sync J syms (C_PerpsAtOpenInterestCap dex) = perpsAtOpenInterestCap_sync J syms dex"
| "market_sync J syms C_PredictedFundings = predictedFundings_sync J syms"
| "market_sync J syms (C_PerpAnnotation coin) = perpAnnotation_sync J syms coin"
| "market_sync J syms C_PerpCategories = perpCategories_sync J syms"
| "market_sync J syms C_PerpConciseAnnotations = perpConciseAnnotations_sync J syms"
| "market_sync J syms C_AllPerpMetas = allPerpMetas_sync J syms"
| "market_sync J syms (C_PerpDexLimits dex) = perpDexLimits_sync J syms dex"
| "market_sync J syms (C_PerpDexStatus dex) = perpDexStatus_sync J syms dex"
| "market_sync J syms C_PerpDeployAuctionStatus = perpDeployAuctionStatus_sync J syms"
| "market_sync J syms (C_L2Book coin nSigFigs mantissa) = l2Book_sync J syms coin nSigFigs mantissa"
| "market_sync J syms (C_CandleSnapshot coin interval startTime endTime) = candleSnapshot_sync J syms coin interval startTime endTime"
| "market_sync J syms (C_AllMids dex) = allMids_sync J syms dex"
| "market_sync J syms (C_OpenOrders user dex) = openOrders_sync J syms user dex"
| "market_sync J syms (C_OrderStatus user oid) = orderStatus_sync J syms user oid"
| "market_sync J syms (C_UserFills user aggregateByTime dex) = userFills_sync J syms user aggregateByTime dex"

primrec user_sync :: "'j json_ops \<Rightarrow> symbol_map \<Rightarrow> UserCall \<Rightarrow> ('j, 'v) sync_call" where
  "user_sync J syms (C_UserFillsByTime user startTime endTime aggregateByTime dex) = userFillsByTime_sync J syms user startTime endTime aggregateByTime dex"
| "user_sync J syms (C_ClearinghouseState user dex) = clearinghouseState_sync J syms user dex"
| "user_sync J syms (C_RecentTrades coin) = recentTrades_sync J syms coin"
| "user_sync J syms (C_UserFunding user startTime endTime) = userFunding_sync J syms user startTime endTime"
| "user_sync J syms (C_UserNonFundingLedgerUpdates user startTime endTime) = userNonFundingLedgerUpdates_sync J syms user startTime endTime"
| "user_sync J syms (C_FundingHistory coin startTime endTime) = fundingHistory_sync J syms coin startTime endTime"
| "user_sync J syms (C_UserRateLimit user) = userRateLimit_sync J syms user"
| "user_sync J syms (C_MetaAndAssetCtxs dex) = metaAndAssetCtxs_sync J syms dex"
| "user_sync J syms C_SpotMetaAndAssetCtxs = spotMetaAndAssetCtxs_sync J syms"
| "user_sync J syms (C_SpotClearinghouseState user dex) = spotClearinghouseState_sync J syms user dex"
| "user_sync J syms (C_SpotDeployState user) = spotDeployState_sync J syms user"
| "user_sync J syms C_SpotPairDeployAuctionStatus = spotPairDeployAuctionStatus_sync J syms"
| "user_sync J syms (C_UserDexAbstractionState user) = userDexAbstractionState_sync J syms user"
| "user_sync J syms (C_UserAbstraction user) = userAbstraction_sync J syms user"
| "user_sync J syms C_ExchangeStatus = exchangeStatus_sync J syms"
| "user_sync J syms (C_FrontendOpenOrders user dex) = frontendOpenOrders_sync J syms user dex"
| "user_sync J syms (C_HistoricalOrders user) = historicalOrders_sync J syms user"
| "user_sync J syms (C_UserTwapSliceFills user) = userTwapSliceFills_sync J syms user"
| "user_sync J syms (C_UserTwapSliceFillsByTime user startTime endTime aggregateByTime) = userTwapSliceFillsByTime_sync J syms user startTime endTime aggregateByTime"
| "user_sync J syms (C_TwapHistory user) = twapHistory_sync J syms user"

primrec account_sync :: "'j json_ops \<Rightarrow> symbol_map \<Rightarrow> AccountCall \<Rightarrow> ('j, 'v) sync_call" where
  "account_sync J syms (C_ActiveAssetData user coin) = activeAssetData_sync J syms user coin"
| "account_sync J syms (C_SubAccounts user) = subAccounts_sync J syms user"
| "account_sync J syms (C_UserFees user) = userFees_sync J syms user"
| "account_sync J syms (C_MaxBuilderFee user builder) = maxBuilderFee_sync J syms user builder"
| "account_sync J syms (C_ApprovedBuilders user) = approvedBuilders_sync J syms user"
| "account_sync J syms (C_Delegations user) = delegations_sync J syms user"
| "account_sync J syms (C_DelegatorSummary user) = delegatorSummary_sync J syms user"
| "account_sync J syms (C_DelegatorHistory user) = delegatorHistory_sync J syms user"
| "account_sync J syms (C_DelegatorRewards user) = delegatorRewards_sync J syms user"
| "account_sync J syms (C_VaultDetails vaultAddress user) = vaultDetails_sync J syms vaultAddress user"
| "account_sync J syms (C_UserVaultEquities user) = userVaultEquities_sync J syms user"
| "account_sync J syms (C_Portfolio user) = portfolio_sync J syms user"
| "account_sync J syms (C_Referral user) = referral_sync J syms user"
| "account_sync J syms (C_UserRole user) = userRole_sync J syms user"
| "account_sync J syms (C_BorrowLendUserState user) = borrowLendUserState_sync J syms user"
| "account_sync J syms (C_BorrowLendReserveState token) = borrowLendReserveState_sync J syms token"
| "account_sync J syms C_AllBorrowLendReserveStates = allBorrowLendReserveStates_sync J syms"
| "account_sync J syms (C_UserBorrowLendInterest user startTime endTime) = userBorrowLendInterest_sync J syms user startTime endTime"
| "account_sync J syms C_Liquidatable = liquidatable_sync J syms"

primrec order_sync :: "'j json_ops \<Rightarrow> symbol_map \<Rightarrow> OrderCall \<Rightarrow> ('j, 'v) sync_call" where
  "order_sync J syms (C_PlaceOrder orders grouping builder vaultAddress) = placeOrder_sync J syms orders grouping builder vaultAddress"
| "order_sync J syms (C_CancelOrder cancels vaultAddress) = cancelOrder_sync J syms cancels vaultAddress"
| "order_sync J syms (C_CancelOrderByCloid cancels vaultAddress) = cancelOrderByCloid_sync J syms cancels vaultAddress"
| "order_sync J syms (C_ScheduleCancel time vaultAddress) = scheduleCancel_sync J syms time vaultAddress"
| "order_sync J syms (C_ModifyOrder modify vaultAddress) = modifyOrder_sync J syms modify vaultAddress"
| "order_sync J syms (C_BatchModifyOrder modifies vaultAddress) = batchModifyOrder_sync J syms modifies vaultAddress"
| "order_sync J syms (C_UpdateLeverage request vaultAddress) = updateLeverage_sync J syms request vaultAddress"
| "order_sync J syms (C_UpdateIsolatedMargin request vaultAddress) = updateIsolatedMargin_sync J syms request vaultAddress"
| "order_sync J syms (C_ApproveAgent request) = approveAgent_sync J syms request"
| "order_sync J syms (C_AgentSetAbstraction abstraction vaultAddress) = agentSetAbstraction_sync J syms abstraction vaultAddress"
| "order_sync J syms (C_TwapOrder request vaultAddress) = twapOrder_sync J syms request vaultAddress"
| "order_sync J syms (C_TwapCancel request vaultAddress) = twapCancel_sync J syms request vaultAddress"
| "order_sync J syms (C_VaultTransfer request) = vaultTransfer_sync J syms request"
| "order_sync J syms (C_Hip3LiquidatorTransfer request) = hip3LiquidatorTransfer_sync J syms request"
| "order_sync J syms (C_CreateSubAccount request) = createSubAccount_sync J syms request"
| "order_sync J syms (C_SubAccountTransfer request) = subAccountTransfer_sync J syms request"
| "order_sync J syms (C_CreateVault request) = createVault_sync J syms request"
| "order_sync J syms (C_UsdClassTransfer request) = usdClassTransfer_sync J syms request"
| "order_sync J syms (C_SendAsset request) = sendAsset_sync J syms request"
| "order_sync J syms (C_UsdSend request) = usdSend_sync J syms request"

primrec funds_sync :: "'j json_ops \<Rightarrow> symbol_map \<Rightarrow> FundsCall \<Rightarrow> ('j, 'v) sync_call" where
  "funds_sync J syms (C_SpotSend request) = spotSend_sync J syms request"
| "funds_sync J syms (C_Withdraw3 request) = withdraw3_sync J syms request"
| "funds_sync J syms (C_ApproveBuilderFee request) = approveBuilderFee_sync J syms request"
| "funds_sync J syms (C_UserSetAbstraction request) = userSetAbstraction_sync J syms request"
| "funds_sync J syms (C_SetReferrer request) = setReferrer_sync J syms request"
| "funds_sync J syms (C_CDeposit wei) = cDeposit_sync J syms wei"
| "funds_sync J syms (C_CWithdraw wei) = cWithdraw_sync J syms wei"
| "funds_sync J syms (C_TokenDelegate request) = tokenDelegate_sync J syms request"
| "funds_sync J syms (C_BorrowLend request) = borrowLend_sync J syms request"
| "funds_sync J syms (C_SpotDeployRegisterToken2 request) = spotDeployRegisterToken2_sync J syms request"
| "funds_sync J syms (C_SpotDeployUserGenesis request) = spotDeployUserGenesis_sync J syms request"
| "funds_sync J syms (C_SpotDeployGenesis request) = spotDeployGenesis_sync J syms request"
| "funds_sync J syms (C_SpotDeployRegisterSpot request) = spotDeployRegisterSpot_sync J syms request"
| "funds_sync J syms (C_SpotDeployRegisterHyperliquidity request) = spotDeployRegisterHyperliquidity_sync J syms request"
| "funds_sync J syms (C_PerpDeployRegisterAsset2 request) = perpDeployRegisterAsset2_sync J syms request"
| "funds_sync J syms (C_SendToEvmWithData request) = sendToEvmWithData_sync J syms request"
| "funds_sync J syms (C_UserDexAbstraction request) = userDexAbstraction_sync J syms request"
| "funds_sync J syms (C_UserPortfolioMargin request) = userPortfolioMargin_sync J syms request"
| "funds_sync J syms (C_AgentSendAsset request vaultAddress) = agentSendAsset_sync J syms request vaultAddress"
| "funds_sync J syms (C_ReserveRequestWeight request vaultAddress) = reserveRequestWeight_sync J syms request vaultAddress"
| "funds_sync J syms (C_Noop vaultAddress) = noop_sync J syms vaultAddress"

primrec rest_sync :: "'j json_ops \<Rightarrow> symbol_map \<Rightarrow> ApiCall \<Rightarrow> ('j, 'v) sync_call" where
  "rest_sync J syms (MarketApi c) = market_sync J syms c"
| "rest_sync J syms (UserApi c) = user_sync J syms c"
| "rest_sync J syms (AccountApi c) = account_sync J syms c"
| "rest_sync J syms (OrderApi c) = order_sync J syms c"
| "rest_sync J syms (FundsApi c) = funds_sync J syms c"

end
