(* ===== verification/Rest_Api_Async.thy ===== *)
theory Rest_Api_Async
  imports Websocket_Api
begin

text \<open>
  The asynchronous methods of \<open>RestApi\<close>, one definition each: the request a method hands to
  \<open>signAndSend\<close>. The answer goes to the listener unparsed.
\<close>

definition spotMetaAsync :: "'j json_ops \<Rightarrow> symbol_map \<Rightarrow> 'j api_request" where
  "spotMetaAsync J syms = api_call Ep_SpotMeta (Inr (spotMeta J)) None"

definition metaAsync :: "'j json_ops \<Rightarrow> symbol_map \<Rightarrow> string option \<Rightarrow> 'j api_request" where
  "metaAsync J syms dex = api_call Ep_Meta (Inr (meta J dex)) None"

definition outcomeMetaAsync :: "'j json_ops \<Rightarrow> symbol_map \<Rightarrow> 'j api_request" where
  "outcomeMetaAsync J syms = api_call Ep_OutcomeMeta (Inr (outcomeMeta J)) None"

definition settledOutcomeAsync :: "'j json_ops \<Rightarrow> symbol_map \<Rightarrow> int \<Rightarrow> 'j api_request" where
  "settledOutcomeAsync J syms outcome = api_call Ep_SettledOutcome (Inr (settledOutcome J outcome)) None"

definition perpDexsAsync :: "'j json_ops \<Rightarrow> symbol_map \<Rightarrow> 'j api_request" where
  "perpDexsAsync J syms = api_call Ep_PerpDexs (Inr (perpDexs J)) None"

definition perpsAtOpenInterestCapAsync :: "'j json_ops \<Rightarrow> symbol_map \<Rightarrow> string option \<Rightarrow> 'j api_request" where
  "perpsAtOpenInterestCapAsync J syms dex = api_call Ep_PerpsAtOpenInterestCap (Inr (perpsAtOpenInterestCap J dex)) None"

definition predictedFundingsAsync :: "'j json_ops \<Rightarrow> symbol_map \<Rightarrow> 'j api_request" where
  "predictedFundingsAsync J syms = api_call Ep_PredictedFundings (Inr (predictedFundings J)) None"

definition perpAnnotationAsync :: "'j json_ops \<Rightarrow> symbol_map \<Rightarrow> string \<Rightarrow> 'j api_request" where
  "perpAnnotationAsync J syms coin = api_call Ep_PerpAnnotation (Inr (perpAnnotation J coin)) None"

definition perpCategoriesAsync :: "'j json_ops \<Rightarrow> symbol_map \<Rightarrow> 'j api_request" where
  "perpCategoriesAsync J syms = api_call Ep_PerpCategories (Inr (perpCategories J)) None"

definition perpConciseAnnotationsAsync :: "'j json_ops \<Rightarrow> symbol_map \<Rightarrow> 'j api_request" where
  "perpConciseAnnotationsAsync J syms = api_call Ep_PerpConciseAnnotations (Inr (perpConciseAnnotations J)) None"

definition allPerpMetasAsync :: "'j json_ops \<Rightarrow> symbol_map \<Rightarrow> 'j api_request" where
  "allPerpMetasAsync J syms = api_call Ep_AllPerpMetas (Inr (allPerpMetas J)) None"

definition perpDexLimitsAsync :: "'j json_ops \<Rightarrow> symbol_map \<Rightarrow> string \<Rightarrow> 'j api_request" where
  "perpDexLimitsAsync J syms dex = api_call Ep_PerpDexLimits (Inr (perpDexLimits J dex)) None"

definition perpDexStatusAsync :: "'j json_ops \<Rightarrow> symbol_map \<Rightarrow> string \<Rightarrow> 'j api_request" where
  "perpDexStatusAsync J syms dex = api_call Ep_PerpDexStatus (Inr (perpDexStatus J dex)) None"

definition perpDeployAuctionStatusAsync :: "'j json_ops \<Rightarrow> symbol_map \<Rightarrow> 'j api_request" where
  "perpDeployAuctionStatusAsync J syms = api_call Ep_PerpDeployAuctionStatus (Inr (perpDeployAuctionStatus J)) None"

definition userFundingAsync :: "'j json_ops \<Rightarrow> symbol_map \<Rightarrow> string \<Rightarrow> u64 \<Rightarrow> u64 option \<Rightarrow> 'j api_request" where
  "userFundingAsync J syms user startTime endTime = api_call Ep_UserFunding (Inr (userFunding J user startTime endTime)) None"

definition userNonFundingLedgerUpdatesAsync :: "'j json_ops \<Rightarrow> symbol_map \<Rightarrow> string \<Rightarrow> u64 \<Rightarrow> u64 option \<Rightarrow> 'j api_request" where
  "userNonFundingLedgerUpdatesAsync J syms user startTime endTime = api_call Ep_UserNonFundingLedgerUpdates (Inr (userNonFundingLedgerUpdates J user startTime endTime)) None"

definition fundingHistoryAsync :: "'j json_ops \<Rightarrow> symbol_map \<Rightarrow> string \<Rightarrow> u64 \<Rightarrow> u64 option \<Rightarrow> 'j api_request" where
  "fundingHistoryAsync J syms coin startTime endTime = api_call Ep_FundingHistory (Inr (fundingHistory J coin startTime endTime)) None"

definition l2BookAsync :: "'j json_ops \<Rightarrow> symbol_map \<Rightarrow> string \<Rightarrow> int option \<Rightarrow> int option \<Rightarrow> 'j api_request" where
  "l2BookAsync J syms coin nSigFigs mantissa = api_call Ep_L2Book (Inr (l2Book J coin nSigFigs mantissa)) None"

definition candleSnapshotAsync :: "'j json_ops \<Rightarrow> symbol_map \<Rightarrow> string \<Rightarrow> string \<Rightarrow> u64 \<Rightarrow> u64 \<Rightarrow> 'j api_request" where
  "candleSnapshotAsync J syms coin interval startTime endTime = api_call Ep_CandleSnapshot (Inr (candleSnapshot J coin interval startTime endTime)) None"

definition recentTradesAsync :: "'j json_ops \<Rightarrow> symbol_map \<Rightarrow> string \<Rightarrow> 'j api_request" where
  "recentTradesAsync J syms coin = api_call Ep_RecentTrades (Inr (recentTrades J coin)) None"

definition allMidsAsync :: "'j json_ops \<Rightarrow> symbol_map \<Rightarrow> string option \<Rightarrow> 'j api_request" where
  "allMidsAsync J syms dex = api_call Ep_AllMids (Inr (allMids J dex)) None"

definition openOrdersAsync :: "'j json_ops \<Rightarrow> symbol_map \<Rightarrow> string \<Rightarrow> string option \<Rightarrow> 'j api_request" where
  "openOrdersAsync J syms user dex = api_call Ep_OpenOrders (Inr (openOrders J user dex)) None"

definition orderStatusAsync :: "'j json_ops \<Rightarrow> symbol_map \<Rightarrow> string \<Rightarrow> OrderId \<Rightarrow> 'j api_request" where
  "orderStatusAsync J syms user oid = api_call Ep_OrderStatus (Inr (orderStatus J user oid)) None"

definition userFillsAsync :: "'j json_ops \<Rightarrow> symbol_map \<Rightarrow> string \<Rightarrow> bool option \<Rightarrow> string option \<Rightarrow> 'j api_request" where
  "userFillsAsync J syms user aggregateByTime dex = api_call Ep_UserFills (Inr (userFills J user aggregateByTime dex)) None"

definition userFillsByTimeAsync :: "'j json_ops \<Rightarrow> symbol_map \<Rightarrow> string \<Rightarrow> u64 \<Rightarrow> u64 option \<Rightarrow> bool option \<Rightarrow> string option \<Rightarrow> 'j api_request" where
  "userFillsByTimeAsync J syms user startTime endTime aggregateByTime dex = api_call Ep_UserFillsByTime (Inr (userFillsByTime J user startTime endTime aggregateByTime dex)) None"

definition clearinghouseStateAsync :: "'j json_ops \<Rightarrow> symbol_map \<Rightarrow> string \<Rightarrow> string option \<Rightarrow> 'j api_request" where
  "clearinghouseStateAsync J syms user dex = api_call Ep_ClearinghouseState (Inr (clearinghouseState J user dex)) None"

definition userRateLimitAsync :: "'j json_ops \<Rightarrow> symbol_map \<Rightarrow> string \<Rightarrow> 'j api_request" where
  "userRateLimitAsync J syms user = api_call Ep_UserRateLimit (Inr (userRateLimit J user)) None"

definition metaAndAssetCtxsAsync :: "'j json_ops \<Rightarrow> symbol_map \<Rightarrow> string option \<Rightarrow> 'j api_request" where
  "metaAndAssetCtxsAsync J syms dex = api_call Ep_MetaAndAssetCtxs (Inr (metaAndAssetCtxs J dex)) None"

definition spotMetaAndAssetCtxsAsync :: "'j json_ops \<Rightarrow> symbol_map \<Rightarrow> 'j api_request" where
  "spotMetaAndAssetCtxsAsync J syms = api_call Ep_SpotMetaAndAssetCtxs (Inr (spotMetaAndAssetCtxs J)) None"

definition spotClearinghouseStateAsync :: "'j json_ops \<Rightarrow> symbol_map \<Rightarrow> string \<Rightarrow> string option \<Rightarrow> 'j api_request" where
  "spotClearinghouseStateAsync J syms user dex = api_call Ep_SpotClearinghouseState (Inr (spotClearinghouseState J user dex)) None"

definition spotDeployStateAsync :: "'j json_ops \<Rightarrow> symbol_map \<Rightarrow> string \<Rightarrow> 'j api_request" where
  "spotDeployStateAsync J syms user = api_call Ep_SpotDeployState (Inr (spotDeployState J user)) None"

definition spotPairDeployAuctionStatusAsync :: "'j json_ops \<Rightarrow> symbol_map \<Rightarrow> 'j api_request" where
  "spotPairDeployAuctionStatusAsync J syms = api_call Ep_SpotPairDeployAuctionStatus (Inr (spotPairDeployAuctionStatus J)) None"

definition frontendOpenOrdersAsync :: "'j json_ops \<Rightarrow> symbol_map \<Rightarrow> string \<Rightarrow> string option \<Rightarrow> 'j api_request" where
  "frontendOpenOrdersAsync J syms user dex = api_call Ep_FrontendOpenOrders (Inr (frontendOpenOrders J user dex)) None"

definition historicalOrdersAsync :: "'j json_ops \<Rightarrow> symbol_map \<Rightarrow> string \<Rightarrow> 'j api_request" where
  "historicalOrdersAsync J syms user = api_call Ep_HistoricalOrders (Inr (historicalOrders J user)) None"

definition userTwapSliceFillsAsync :: "'j json_ops \<Rightarrow> symbol_map \<Rightarrow> string \<Rightarrow> 'j api_request" where
  "userTwapSliceFillsAsync J syms user = api_call Ep_UserTwapSliceFills (Inr (userTwapSliceFills J user)) None"

definition userTwapSliceFillsByTimeAsync :: "'j json_ops \<Rightarrow> symbol_map \<Rightarrow> string \<Rightarrow> u64 \<Rightarrow> u64 option \<Rightarrow> bool option \<Rightarrow> 'j api_request" where
  "userTwapSliceFillsByTimeAsync J syms user startTime endTime aggregateByTime = api_call Ep_UserTwapSliceFillsByTime (Inr (userTwapSliceFillsByTime J user startTime endTime aggregateByTime)) None"

definition twapHistoryAsync :: "'j json_ops \<Rightarrow> symbol_map \<Rightarrow> string \<Rightarrow> 'j api_request" where
  "twapHistoryAsync J syms user = api_call Ep_TwapHistory (Inr (twapHistory J user)) None"

definition activeAssetDataAsync :: "'j json_ops \<Rightarrow> symbol_map \<Rightarrow> string \<Rightarrow> string \<Rightarrow> 'j api_request" where
  "activeAssetDataAsync J syms user coin = api_call Ep_ActiveAssetData (Inr (activeAssetData J user coin)) None"

definition subAccountsAsync :: "'j json_ops \<Rightarrow> symbol_map \<Rightarrow> string \<Rightarrow> 'j api_request" where
  "subAccountsAsync J syms user = api_call Ep_SubAccounts (Inr (subAccounts J user)) None"

definition userFeesAsync :: "'j json_ops \<Rightarrow> symbol_map \<Rightarrow> string \<Rightarrow> 'j api_request" where
  "userFeesAsync J syms user = api_call Ep_UserFees (Inr (userFees J user)) None"

definition maxBuilderFeeAsync :: "'j json_ops \<Rightarrow> symbol_map \<Rightarrow> string \<Rightarrow> string \<Rightarrow> 'j api_request" where
  "maxBuilderFeeAsync J syms user builder = api_call Ep_MaxBuilderFee (Inr (maxBuilderFee J user builder)) None"

definition approvedBuildersAsync :: "'j json_ops \<Rightarrow> symbol_map \<Rightarrow> string \<Rightarrow> 'j api_request" where
  "approvedBuildersAsync J syms user = api_call Ep_ApprovedBuilders (Inr (approvedBuilders J user)) None"

definition vaultDetailsAsync :: "'j json_ops \<Rightarrow> symbol_map \<Rightarrow> string \<Rightarrow> string option \<Rightarrow> 'j api_request" where
  "vaultDetailsAsync J syms vaultAddress user = api_call Ep_VaultDetails (Inr (vaultDetails J vaultAddress user)) None"

definition userVaultEquitiesAsync :: "'j json_ops \<Rightarrow> symbol_map \<Rightarrow> string \<Rightarrow> 'j api_request" where
  "userVaultEquitiesAsync J syms user = api_call Ep_UserVaultEquities (Inr (userVaultEquities J user)) None"

definition portfolioAsync :: "'j json_ops \<Rightarrow> symbol_map \<Rightarrow> string \<Rightarrow> 'j api_request" where
  "portfolioAsync J syms user = api_call Ep_Portfolio (Inr (portfolio J user)) None"

definition referralAsync :: "'j json_ops \<Rightarrow> symbol_map \<Rightarrow> string \<Rightarrow> 'j api_request" where
  "referralAsync J syms user = api_call Ep_Referral (Inr (referral J user)) None"

definition userRoleAsync :: "'j json_ops \<Rightarrow> symbol_map \<Rightarrow> string \<Rightarrow> 'j api_request" where
  "userRoleAsync J syms user = api_call Ep_UserRole (Inr (userRole J user)) None"

definition borrowLendUserStateAsync :: "'j json_ops \<Rightarrow> symbol_map \<Rightarrow> string \<Rightarrow> 'j api_request" where
  "borrowLendUserStateAsync J syms user = api_call Ep_BorrowLendUserState (Inr (borrowLendUserState J user)) None"

definition borrowLendReserveStateAsync :: "'j json_ops \<Rightarrow> symbol_map \<Rightarrow> int \<Rightarrow> 'j api_request" where
  "borrowLendReserveStateAsync J syms token = api_call Ep_BorrowLendReserveState (Inr (borrowLendReserveState J token)) None"

definition allBorrowLendReserveStatesAsync :: "'j json_ops \<Rightarrow> symbol_map \<Rightarrow> 'j api_request" where
  "allBorrowLendReserveStatesAsync J syms = api_call Ep_AllBorrowLendReserveStates (Inr (allBorrowLendReserveStates J)) None"

definition userBorrowLendInterestAsync :: "'j json_ops \<Rightarrow> symbol_map \<Rightarrow> string \<Rightarrow> u64 \<Rightarrow> u64 option \<Rightarrow> 'j api_request" where
  "userBorrowLendInterestAsync J syms user startTime endTime = api_call Ep_UserBorrowLendInterest (Inr (userBorrowLendInterest J user startTime endTime)) None"

definition liquidatableAsync :: "'j json_ops \<Rightarrow> symbol_map \<Rightarrow> 'j api_request" where
  "liquidatableAsync J syms = api_call Ep_Liquidatable (Inr (liquidatable J)) None"

definition userDexAbstractionStateAsync :: "'j json_ops \<Rightarrow> symbol_map \<Rightarrow> string \<Rightarrow> 'j api_request" where
  "userDexAbstractionStateAsync J syms user = api_call Ep_UserDexAbstractionState (Inr (userDexAbstractionState J user)) None"

definition userAbstractionAsync :: "'j json_ops \<Rightarrow> symbol_map \<Rightarrow> string \<Rightarrow> 'j api_request" where
  "userAbstractionAsync J syms user = api_call Ep_UserAbstraction (Inr (userAbstraction J user)) None"

definition exchangeStatusAsync :: "'j json_ops \<Rightarrow> symbol_map \<Rightarrow> 'j api_request" where
  "exchangeStatusAsync J syms = api_call Ep_ExchangeStatus (Inr (exchangeStatus J)) None"

definition placeOrderAsync :: "'j json_ops \<Rightarrow> symbol_map \<Rightarrow> OrderRequest list \<Rightarrow> Grouping \<Rightarrow> Builder option \<Rightarrow> string option \<Rightarrow> 'j api_request" where
  "placeOrderAsync J syms orders grouping builder vaultAddress = api_call Ep_PlaceOrder (placeOrder J syms orders grouping builder) vaultAddress"

definition cancelOrderAsync :: "'j json_ops \<Rightarrow> symbol_map \<Rightarrow> CancelRequest list \<Rightarrow> string option \<Rightarrow> 'j api_request" where
  "cancelOrderAsync J syms cancels vaultAddress = api_call Ep_CancelOrder (cancelOrder J syms cancels) vaultAddress"

definition cancelOrderByCloidAsync :: "'j json_ops \<Rightarrow> symbol_map \<Rightarrow> CancelByCloidRequest list \<Rightarrow> string option \<Rightarrow> 'j api_request" where
  "cancelOrderByCloidAsync J syms cancels vaultAddress = api_call Ep_CancelOrderByCloid (cancelOrderByCloid J syms cancels) vaultAddress"

definition scheduleCancelAsync :: "'j json_ops \<Rightarrow> symbol_map \<Rightarrow> u64 option \<Rightarrow> string option \<Rightarrow> 'j api_request" where
  "scheduleCancelAsync J syms time vaultAddress = api_call Ep_ScheduleCancel (Inr (scheduleCancel J time)) vaultAddress"

definition modifyOrderAsync :: "'j json_ops \<Rightarrow> symbol_map \<Rightarrow> ModifyRequest \<Rightarrow> string option \<Rightarrow> 'j api_request" where
  "modifyOrderAsync J syms modify vaultAddress = api_call Ep_ModifyOrder (modifyOrder J syms modify) vaultAddress"

definition batchModifyOrderAsync :: "'j json_ops \<Rightarrow> symbol_map \<Rightarrow> ModifyRequest list \<Rightarrow> string option \<Rightarrow> 'j api_request" where
  "batchModifyOrderAsync J syms modifies vaultAddress = api_call Ep_BatchModifyOrder (batchModifyOrder J syms modifies) vaultAddress"

definition updateLeverageAsync :: "'j json_ops \<Rightarrow> symbol_map \<Rightarrow> UpdateLeverageRequest \<Rightarrow> string option \<Rightarrow> 'j api_request" where
  "updateLeverageAsync J syms request vaultAddress = api_call Ep_UpdateLeverage (updateLeverage J syms request) vaultAddress"

definition updateIsolatedMarginAsync :: "'j json_ops \<Rightarrow> symbol_map \<Rightarrow> UpdateIsolatedMarginRequest \<Rightarrow> string option \<Rightarrow> 'j api_request" where
  "updateIsolatedMarginAsync J syms request vaultAddress = api_call Ep_UpdateIsolatedMargin (updateIsolatedMargin J syms request) vaultAddress"

definition approveAgentAsync :: "'j json_ops \<Rightarrow> symbol_map \<Rightarrow> ApproveAgentRequest \<Rightarrow> 'j api_request" where
  "approveAgentAsync J syms request = api_call Ep_ApproveAgent (Inr (approveAgent J request)) None"

definition agentSetAbstractionAsync :: "'j json_ops \<Rightarrow> symbol_map \<Rightarrow> UserAbstractionMode \<Rightarrow> string option \<Rightarrow> 'j api_request" where
  "agentSetAbstractionAsync J syms abstraction vaultAddress = api_call Ep_AgentSetAbstraction (Inr (agentSetAbstraction J abstraction)) vaultAddress"

definition twapOrderAsync :: "'j json_ops \<Rightarrow> symbol_map \<Rightarrow> TwapOrderRequest \<Rightarrow> string option \<Rightarrow> 'j api_request" where
  "twapOrderAsync J syms request vaultAddress = api_call Ep_TwapOrder (twapOrder J syms request) vaultAddress"

definition twapCancelAsync :: "'j json_ops \<Rightarrow> symbol_map \<Rightarrow> TwapCancelRequest \<Rightarrow> string option \<Rightarrow> 'j api_request" where
  "twapCancelAsync J syms request vaultAddress = api_call Ep_TwapCancel (twapCancel J syms request) vaultAddress"

definition vaultTransferAsync :: "'j json_ops \<Rightarrow> symbol_map \<Rightarrow> VaultTransferRequest \<Rightarrow> 'j api_request" where
  "vaultTransferAsync J syms request = api_call Ep_VaultTransfer (Inr (vaultTransfer J request)) None"

definition hip3LiquidatorTransferAsync :: "'j json_ops \<Rightarrow> symbol_map \<Rightarrow> Hip3LiquidatorTransferRequest \<Rightarrow> 'j api_request" where
  "hip3LiquidatorTransferAsync J syms request = api_call Ep_Hip3LiquidatorTransfer (Inr (hip3LiquidatorTransfer J request)) None"

definition createSubAccountAsync :: "'j json_ops \<Rightarrow> symbol_map \<Rightarrow> CreateSubAccountRequest \<Rightarrow> 'j api_request" where
  "createSubAccountAsync J syms request = api_call Ep_CreateSubAccount (Inr (createSubAccount J request)) None"

definition subAccountTransferAsync :: "'j json_ops \<Rightarrow> symbol_map \<Rightarrow> SubAccountTransferRequest \<Rightarrow> 'j api_request" where
  "subAccountTransferAsync J syms request = api_call Ep_SubAccountTransfer (Inr (subAccountTransfer J request)) None"

definition createVaultAsync :: "'j json_ops \<Rightarrow> symbol_map \<Rightarrow> CreateVaultRequest \<Rightarrow> 'j api_request" where
  "createVaultAsync J syms request = api_call Ep_CreateVault (Inr (createVault J request)) None"

definition borrowLendAsync :: "'j json_ops \<Rightarrow> symbol_map \<Rightarrow> BorrowLendRequest \<Rightarrow> 'j api_request" where
  "borrowLendAsync J syms request = api_call Ep_BorrowLend (borrowLend J request) None"

definition spotDeployRegisterToken2Async :: "'j json_ops \<Rightarrow> symbol_map \<Rightarrow> SpotDeployRegisterToken2Request \<Rightarrow> 'j api_request" where
  "spotDeployRegisterToken2Async J syms request = api_call Ep_SpotDeployRegisterToken2 (Inr (spotDeployRegisterToken2 J request)) None"

definition spotDeployUserGenesisAsync :: "'j json_ops \<Rightarrow> symbol_map \<Rightarrow> SpotDeployUserGenesisRequest \<Rightarrow> 'j api_request" where
  "spotDeployUserGenesisAsync J syms request = api_call Ep_SpotDeployUserGenesis (spotDeployUserGenesis J request) None"

definition spotDeployGenesisAsync :: "'j json_ops \<Rightarrow> symbol_map \<Rightarrow> SpotDeployGenesisRequest \<Rightarrow> 'j api_request" where
  "spotDeployGenesisAsync J syms request = api_call Ep_SpotDeployGenesis (spotDeployGenesis J request) None"

definition spotDeployRegisterSpotAsync :: "'j json_ops \<Rightarrow> symbol_map \<Rightarrow> SpotDeployRegisterSpotRequest \<Rightarrow> 'j api_request" where
  "spotDeployRegisterSpotAsync J syms request = api_call Ep_SpotDeployRegisterSpot (Inr (spotDeployRegisterSpot J request)) None"

definition spotDeployRegisterHyperliquidityAsync :: "'j json_ops \<Rightarrow> symbol_map \<Rightarrow> SpotDeployRegisterHyperliquidityRequest \<Rightarrow> 'j api_request" where
  "spotDeployRegisterHyperliquidityAsync J syms request = api_call Ep_SpotDeployRegisterHyperliquidity (spotDeployRegisterHyperliquidity J request) None"

definition perpDeployRegisterAsset2Async :: "'j json_ops \<Rightarrow> symbol_map \<Rightarrow> PerpDeployRegisterAsset2Request \<Rightarrow> 'j api_request" where
  "perpDeployRegisterAsset2Async J syms request = api_call Ep_PerpDeployRegisterAsset2 (perpDeployRegisterAsset2 J request) None"

definition usdClassTransferAsync :: "'j json_ops \<Rightarrow> symbol_map \<Rightarrow> UsdClassTransferRequest \<Rightarrow> 'j api_request" where
  "usdClassTransferAsync J syms request = api_call Ep_UsdClassTransfer (usdClassTransfer J request) None"

definition sendAssetAsync :: "'j json_ops \<Rightarrow> symbol_map \<Rightarrow> SendAssetRequest \<Rightarrow> 'j api_request" where
  "sendAssetAsync J syms request = api_call Ep_SendAsset (sendAsset J request) None"

definition usdSendAsync :: "'j json_ops \<Rightarrow> symbol_map \<Rightarrow> UsdSendRequest \<Rightarrow> 'j api_request" where
  "usdSendAsync J syms request = api_call Ep_UsdSend (usdSend J request) None"

definition spotSendAsync :: "'j json_ops \<Rightarrow> symbol_map \<Rightarrow> SpotSendRequest \<Rightarrow> 'j api_request" where
  "spotSendAsync J syms request = api_call Ep_SpotSend (spotSend J request) None"

definition withdraw3Async :: "'j json_ops \<Rightarrow> symbol_map \<Rightarrow> Withdraw3Request \<Rightarrow> 'j api_request" where
  "withdraw3Async J syms request = api_call Ep_Withdraw3 (withdraw3 J request) None"

definition approveBuilderFeeAsync :: "'j json_ops \<Rightarrow> symbol_map \<Rightarrow> ApproveBuilderFeeRequest \<Rightarrow> 'j api_request" where
  "approveBuilderFeeAsync J syms request = api_call Ep_ApproveBuilderFee (Inr (approveBuilderFee J request)) None"

definition userSetAbstractionAsync :: "'j json_ops \<Rightarrow> symbol_map \<Rightarrow> UserSetAbstractionRequest \<Rightarrow> 'j api_request" where
  "userSetAbstractionAsync J syms request = api_call Ep_UserSetAbstraction (Inr (userSetAbstraction J request)) None"

definition setReferrerAsync :: "'j json_ops \<Rightarrow> symbol_map \<Rightarrow> SetReferrerRequest \<Rightarrow> 'j api_request" where
  "setReferrerAsync J syms request = api_call Ep_SetReferrer (Inr (setReferrer J request)) None"

definition cDepositAsync :: "'j json_ops \<Rightarrow> symbol_map \<Rightarrow> u64 \<Rightarrow> 'j api_request" where
  "cDepositAsync J syms wei = api_call Ep_CDeposit (Inr (cDeposit J wei)) None"

definition cWithdrawAsync :: "'j json_ops \<Rightarrow> symbol_map \<Rightarrow> u64 \<Rightarrow> 'j api_request" where
  "cWithdrawAsync J syms wei = api_call Ep_CWithdraw (Inr (cWithdraw J wei)) None"

definition tokenDelegateAsync :: "'j json_ops \<Rightarrow> symbol_map \<Rightarrow> TokenDelegateRequest \<Rightarrow> 'j api_request" where
  "tokenDelegateAsync J syms request = api_call Ep_TokenDelegate (Inr (tokenDelegate J request)) None"

definition delegationsAsync :: "'j json_ops \<Rightarrow> symbol_map \<Rightarrow> string \<Rightarrow> 'j api_request" where
  "delegationsAsync J syms user = api_call Ep_Delegations (Inr (delegations J user)) None"

definition delegatorSummaryAsync :: "'j json_ops \<Rightarrow> symbol_map \<Rightarrow> string \<Rightarrow> 'j api_request" where
  "delegatorSummaryAsync J syms user = api_call Ep_DelegatorSummary (Inr (delegatorSummary J user)) None"

definition delegatorHistoryAsync :: "'j json_ops \<Rightarrow> symbol_map \<Rightarrow> string \<Rightarrow> 'j api_request" where
  "delegatorHistoryAsync J syms user = api_call Ep_DelegatorHistory (Inr (delegatorHistory J user)) None"

definition delegatorRewardsAsync :: "'j json_ops \<Rightarrow> symbol_map \<Rightarrow> string \<Rightarrow> 'j api_request" where
  "delegatorRewardsAsync J syms user = api_call Ep_DelegatorRewards (Inr (delegatorRewards J user)) None"

definition sendToEvmWithDataAsync :: "'j json_ops \<Rightarrow> symbol_map \<Rightarrow> SendToEvmWithDataRequest \<Rightarrow> 'j api_request" where
  "sendToEvmWithDataAsync J syms request = api_call Ep_SendToEvmWithData (Inr (sendToEvmWithData J request)) None"

definition userDexAbstractionAsync :: "'j json_ops \<Rightarrow> symbol_map \<Rightarrow> UserDexAbstractionRequest \<Rightarrow> 'j api_request" where
  "userDexAbstractionAsync J syms request = api_call Ep_UserDexAbstraction (Inr (userDexAbstraction J request)) None"

definition userPortfolioMarginAsync :: "'j json_ops \<Rightarrow> symbol_map \<Rightarrow> UserPortfolioMarginRequest \<Rightarrow> 'j api_request" where
  "userPortfolioMarginAsync J syms request = api_call Ep_UserPortfolioMargin (Inr (userPortfolioMargin J request)) None"

definition agentSendAssetAsync :: "'j json_ops \<Rightarrow> symbol_map \<Rightarrow> AgentSendAssetRequest \<Rightarrow> string option \<Rightarrow> 'j api_request" where
  "agentSendAssetAsync J syms request vaultAddress = api_call Ep_AgentSendAsset (Inr (agentSendAsset J request)) vaultAddress"

definition reserveRequestWeightAsync :: "'j json_ops \<Rightarrow> symbol_map \<Rightarrow> ReserveRequestWeightRequest \<Rightarrow> string option \<Rightarrow> 'j api_request" where
  "reserveRequestWeightAsync J syms request vaultAddress = api_call Ep_ReserveRequestWeight (Inr (reserveRequestWeight J request)) vaultAddress"

definition noopAsync :: "'j json_ops \<Rightarrow> symbol_map \<Rightarrow> string option \<Rightarrow> 'j api_request" where
  "noopAsync J syms vaultAddress = api_call Ep_Noop (Inr (noop J)) vaultAddress"

text \<open>The methods by the calls of the API.\<close>

primrec market_async :: "'j json_ops \<Rightarrow> symbol_map \<Rightarrow> MarketCall \<Rightarrow> 'j api_request" where
  "market_async J syms C_SpotMeta = spotMetaAsync J syms"
| "market_async J syms (C_Meta dex) = metaAsync J syms dex"
| "market_async J syms C_OutcomeMeta = outcomeMetaAsync J syms"
| "market_async J syms C_PerpDexs = perpDexsAsync J syms"
| "market_async J syms (C_SettledOutcome outcome) = settledOutcomeAsync J syms outcome"
| "market_async J syms (C_PerpsAtOpenInterestCap dex) = perpsAtOpenInterestCapAsync J syms dex"
| "market_async J syms C_PredictedFundings = predictedFundingsAsync J syms"
| "market_async J syms (C_PerpAnnotation coin) = perpAnnotationAsync J syms coin"
| "market_async J syms C_PerpCategories = perpCategoriesAsync J syms"
| "market_async J syms C_PerpConciseAnnotations = perpConciseAnnotationsAsync J syms"
| "market_async J syms C_AllPerpMetas = allPerpMetasAsync J syms"
| "market_async J syms (C_PerpDexLimits dex) = perpDexLimitsAsync J syms dex"
| "market_async J syms (C_PerpDexStatus dex) = perpDexStatusAsync J syms dex"
| "market_async J syms C_PerpDeployAuctionStatus = perpDeployAuctionStatusAsync J syms"
| "market_async J syms (C_L2Book coin nSigFigs mantissa) = l2BookAsync J syms coin nSigFigs mantissa"
| "market_async J syms (C_CandleSnapshot coin interval startTime endTime) = candleSnapshotAsync J syms coin interval startTime endTime"
| "market_async J syms (C_AllMids dex) = allMidsAsync J syms dex"
| "market_async J syms (C_OpenOrders user dex) = openOrdersAsync J syms user dex"
| "market_async J syms (C_OrderStatus user oid) = orderStatusAsync J syms user oid"
| "market_async J syms (C_UserFills user aggregateByTime dex) = userFillsAsync J syms user aggregateByTime dex"

primrec user_async :: "'j json_ops \<Rightarrow> symbol_map \<Rightarrow> UserCall \<Rightarrow> 'j api_request" where
  "user_async J syms (C_UserFillsByTime user startTime endTime aggregateByTime dex) = userFillsByTimeAsync J syms user startTime endTime aggregateByTime dex"
| "user_async J syms (C_ClearinghouseState user dex) = clearinghouseStateAsync J syms user dex"
| "user_async J syms (C_RecentTrades coin) = recentTradesAsync J syms coin"
| "user_async J syms (C_UserFunding user startTime endTime) = userFundingAsync J syms user startTime endTime"
| "user_async J syms (C_UserNonFundingLedgerUpdates user startTime endTime) = userNonFundingLedgerUpdatesAsync J syms user startTime endTime"
| "user_async J syms (C_FundingHistory coin startTime endTime) = fundingHistoryAsync J syms coin startTime endTime"
| "user_async J syms (C_UserRateLimit user) = userRateLimitAsync J syms user"
| "user_async J syms (C_MetaAndAssetCtxs dex) = metaAndAssetCtxsAsync J syms dex"
| "user_async J syms C_SpotMetaAndAssetCtxs = spotMetaAndAssetCtxsAsync J syms"
| "user_async J syms (C_SpotClearinghouseState user dex) = spotClearinghouseStateAsync J syms user dex"
| "user_async J syms (C_SpotDeployState user) = spotDeployStateAsync J syms user"
| "user_async J syms C_SpotPairDeployAuctionStatus = spotPairDeployAuctionStatusAsync J syms"
| "user_async J syms (C_UserDexAbstractionState user) = userDexAbstractionStateAsync J syms user"
| "user_async J syms (C_UserAbstraction user) = userAbstractionAsync J syms user"
| "user_async J syms C_ExchangeStatus = exchangeStatusAsync J syms"
| "user_async J syms (C_FrontendOpenOrders user dex) = frontendOpenOrdersAsync J syms user dex"
| "user_async J syms (C_HistoricalOrders user) = historicalOrdersAsync J syms user"
| "user_async J syms (C_UserTwapSliceFills user) = userTwapSliceFillsAsync J syms user"
| "user_async J syms (C_UserTwapSliceFillsByTime user startTime endTime aggregateByTime) = userTwapSliceFillsByTimeAsync J syms user startTime endTime aggregateByTime"
| "user_async J syms (C_TwapHistory user) = twapHistoryAsync J syms user"

primrec account_async :: "'j json_ops \<Rightarrow> symbol_map \<Rightarrow> AccountCall \<Rightarrow> 'j api_request" where
  "account_async J syms (C_ActiveAssetData user coin) = activeAssetDataAsync J syms user coin"
| "account_async J syms (C_SubAccounts user) = subAccountsAsync J syms user"
| "account_async J syms (C_UserFees user) = userFeesAsync J syms user"
| "account_async J syms (C_MaxBuilderFee user builder) = maxBuilderFeeAsync J syms user builder"
| "account_async J syms (C_ApprovedBuilders user) = approvedBuildersAsync J syms user"
| "account_async J syms (C_Delegations user) = delegationsAsync J syms user"
| "account_async J syms (C_DelegatorSummary user) = delegatorSummaryAsync J syms user"
| "account_async J syms (C_DelegatorHistory user) = delegatorHistoryAsync J syms user"
| "account_async J syms (C_DelegatorRewards user) = delegatorRewardsAsync J syms user"
| "account_async J syms (C_VaultDetails vaultAddress user) = vaultDetailsAsync J syms vaultAddress user"
| "account_async J syms (C_UserVaultEquities user) = userVaultEquitiesAsync J syms user"
| "account_async J syms (C_Portfolio user) = portfolioAsync J syms user"
| "account_async J syms (C_Referral user) = referralAsync J syms user"
| "account_async J syms (C_UserRole user) = userRoleAsync J syms user"
| "account_async J syms (C_BorrowLendUserState user) = borrowLendUserStateAsync J syms user"
| "account_async J syms (C_BorrowLendReserveState token) = borrowLendReserveStateAsync J syms token"
| "account_async J syms C_AllBorrowLendReserveStates = allBorrowLendReserveStatesAsync J syms"
| "account_async J syms (C_UserBorrowLendInterest user startTime endTime) = userBorrowLendInterestAsync J syms user startTime endTime"
| "account_async J syms C_Liquidatable = liquidatableAsync J syms"

primrec order_async :: "'j json_ops \<Rightarrow> symbol_map \<Rightarrow> OrderCall \<Rightarrow> 'j api_request" where
  "order_async J syms (C_PlaceOrder orders grouping builder vaultAddress) = placeOrderAsync J syms orders grouping builder vaultAddress"
| "order_async J syms (C_CancelOrder cancels vaultAddress) = cancelOrderAsync J syms cancels vaultAddress"
| "order_async J syms (C_CancelOrderByCloid cancels vaultAddress) = cancelOrderByCloidAsync J syms cancels vaultAddress"
| "order_async J syms (C_ScheduleCancel time vaultAddress) = scheduleCancelAsync J syms time vaultAddress"
| "order_async J syms (C_ModifyOrder modify vaultAddress) = modifyOrderAsync J syms modify vaultAddress"
| "order_async J syms (C_BatchModifyOrder modifies vaultAddress) = batchModifyOrderAsync J syms modifies vaultAddress"
| "order_async J syms (C_UpdateLeverage request vaultAddress) = updateLeverageAsync J syms request vaultAddress"
| "order_async J syms (C_UpdateIsolatedMargin request vaultAddress) = updateIsolatedMarginAsync J syms request vaultAddress"
| "order_async J syms (C_ApproveAgent request) = approveAgentAsync J syms request"
| "order_async J syms (C_AgentSetAbstraction abstraction vaultAddress) = agentSetAbstractionAsync J syms abstraction vaultAddress"
| "order_async J syms (C_TwapOrder request vaultAddress) = twapOrderAsync J syms request vaultAddress"
| "order_async J syms (C_TwapCancel request vaultAddress) = twapCancelAsync J syms request vaultAddress"
| "order_async J syms (C_VaultTransfer request) = vaultTransferAsync J syms request"
| "order_async J syms (C_Hip3LiquidatorTransfer request) = hip3LiquidatorTransferAsync J syms request"
| "order_async J syms (C_CreateSubAccount request) = createSubAccountAsync J syms request"
| "order_async J syms (C_SubAccountTransfer request) = subAccountTransferAsync J syms request"
| "order_async J syms (C_CreateVault request) = createVaultAsync J syms request"
| "order_async J syms (C_UsdClassTransfer request) = usdClassTransferAsync J syms request"
| "order_async J syms (C_SendAsset request) = sendAssetAsync J syms request"
| "order_async J syms (C_UsdSend request) = usdSendAsync J syms request"

primrec funds_async :: "'j json_ops \<Rightarrow> symbol_map \<Rightarrow> FundsCall \<Rightarrow> 'j api_request" where
  "funds_async J syms (C_SpotSend request) = spotSendAsync J syms request"
| "funds_async J syms (C_Withdraw3 request) = withdraw3Async J syms request"
| "funds_async J syms (C_ApproveBuilderFee request) = approveBuilderFeeAsync J syms request"
| "funds_async J syms (C_UserSetAbstraction request) = userSetAbstractionAsync J syms request"
| "funds_async J syms (C_SetReferrer request) = setReferrerAsync J syms request"
| "funds_async J syms (C_CDeposit wei) = cDepositAsync J syms wei"
| "funds_async J syms (C_CWithdraw wei) = cWithdrawAsync J syms wei"
| "funds_async J syms (C_TokenDelegate request) = tokenDelegateAsync J syms request"
| "funds_async J syms (C_BorrowLend request) = borrowLendAsync J syms request"
| "funds_async J syms (C_SpotDeployRegisterToken2 request) = spotDeployRegisterToken2Async J syms request"
| "funds_async J syms (C_SpotDeployUserGenesis request) = spotDeployUserGenesisAsync J syms request"
| "funds_async J syms (C_SpotDeployGenesis request) = spotDeployGenesisAsync J syms request"
| "funds_async J syms (C_SpotDeployRegisterSpot request) = spotDeployRegisterSpotAsync J syms request"
| "funds_async J syms (C_SpotDeployRegisterHyperliquidity request) = spotDeployRegisterHyperliquidityAsync J syms request"
| "funds_async J syms (C_PerpDeployRegisterAsset2 request) = perpDeployRegisterAsset2Async J syms request"
| "funds_async J syms (C_SendToEvmWithData request) = sendToEvmWithDataAsync J syms request"
| "funds_async J syms (C_UserDexAbstraction request) = userDexAbstractionAsync J syms request"
| "funds_async J syms (C_UserPortfolioMargin request) = userPortfolioMarginAsync J syms request"
| "funds_async J syms (C_AgentSendAsset request vaultAddress) = agentSendAssetAsync J syms request vaultAddress"
| "funds_async J syms (C_ReserveRequestWeight request vaultAddress) = reserveRequestWeightAsync J syms request vaultAddress"
| "funds_async J syms (C_Noop vaultAddress) = noopAsync J syms vaultAddress"

primrec rest_async :: "'j json_ops \<Rightarrow> symbol_map \<Rightarrow> ApiCall \<Rightarrow> 'j api_request" where
  "rest_async J syms (MarketApi c) = market_async J syms c"
| "rest_async J syms (UserApi c) = user_async J syms c"
| "rest_async J syms (AccountApi c) = account_async J syms c"
| "rest_async J syms (OrderApi c) = order_async J syms c"
| "rest_async J syms (FundsApi c) = funds_async J syms c"

end
