(* ===== verification/Rest_Api.thy ===== *)
theory Rest_Api
  imports Http_Session Rest_Api_Sync Rest_Api_Async
begin

text \<open>
  \<open>RestApi\<close>: signing and sending a request over an \<open>HttpSession\<close>, what becomes of its answer on the
  synchronous and the asynchronous path, and the construction of the symbol map. The network is a parameter:
  a function from a started session to the arguments its completion callback gets.
\<close>

section \<open>State\<close>

text \<open>The callbacks of \<open>RestApiListener\<close>.\<close>

datatype rest_listener_event =
    RL_Message string RestEndpointType
  | RL_Error RestEndpointType string
  | RL_Rate_Limit RestEndpointType string

record rest_api =
  ra_config :: ApiConfig
  ra_syms :: symbol_map
  ra_nonce :: u64
  ra_sessions :: "(RestEndpointType \<times> http_session) list"
  ra_events :: "rest_listener_event list"

type_synonym network = "http_session \<Rightarrow> http_result"

section \<open>Sending\<close>

text \<open>Both paths sign the body and start a session for it; the issued nonce stays issued when signing throws.\<close>

definition start_request ::
  "'j json_ops \<Rightarrow> secp256k1 \<Rightarrow> RestEndpointType \<Rightarrow> 'j \<Rightarrow> string option \<Rightarrow> u64 option \<Rightarrow> u64 \<Rightarrow> rest_api
    \<Rightarrow> rest_api \<times> http_session outcome" where
  "start_request J E type body vaultAddress expiresAfter now s =
     (case prepareBodyForType J E (ra_config s) type body vaultAddress expiresAfter now (ra_nonce s) of
        (nonce, Inl e) \<Rightarrow> (s\<lparr>ra_nonce := nonce\<rparr>, Inl e)
      | (nonce, Inr prepared) \<Rightarrow>
          let session = run_session (host (toInfoEndpoint (env (ra_config s)))) (toPath type) (jdump J prepared)
          in (s\<lparr>ra_nonce := nonce, ra_sessions := ra_sessions s @ [(type, session)]\<rparr>, Inr session))"

text \<open>The callback of \<open>signAndSend\<close>.\<close>

definition on_async_complete :: "RestEndpointType \<Rightarrow> http_result \<Rightarrow> rest_api \<Rightarrow> rest_api" where
  "on_async_complete type res s =
     s\<lparr>ra_events := ra_events s @
         [case hres_error res of
            Some msg \<Rightarrow> RL_Error type msg
          | None \<Rightarrow> if hres_status res = 429 then RL_Rate_Limit type (hres_body res)
                    else RL_Message (hres_body res) type]\<rparr>"

definition signAndSend_rest ::
  "'j json_ops \<Rightarrow> secp256k1 \<Rightarrow> RestEndpointType \<Rightarrow> 'j \<Rightarrow> string option \<Rightarrow> u64 option \<Rightarrow> u64 \<Rightarrow> rest_api
    \<Rightarrow> rest_api \<times> unit outcome" where
  "signAndSend_rest J E type body vaultAddress expiresAfter now s =
     (case start_request J E type body vaultAddress expiresAfter now s of
        (s1, Inl e) \<Rightarrow> (s1, Inl e)
      | (s1, Inr session) \<Rightarrow> (s1, Inr ()))"

text \<open>The callback of \<open>signAndSendSync\<close> settles the promise; \<open>future.get()\<close> returns or throws it.\<close>

definition sync_result :: "http_result \<Rightarrow> string outcome" where
  "sync_result res =
     (case hres_error res of
        Some msg \<Rightarrow> Inl (Transport_Error (''RestApi: '' @ msg))
      | None \<Rightarrow>
          if hres_status res = 429
          then Inl (Rate_Limit_Error (''RestApi: HTTP 429 rate limited: '' @ hres_body res))
          else Inr (hres_body res))"

definition signAndSendSync ::
  "'j json_ops \<Rightarrow> secp256k1 \<Rightarrow> network \<Rightarrow> RestEndpointType \<Rightarrow> 'j \<Rightarrow> string option \<Rightarrow> u64 option \<Rightarrow> u64 \<Rightarrow> rest_api
    \<Rightarrow> rest_api \<times> string outcome" where
  "signAndSendSync J E net type body vaultAddress expiresAfter now s =
     (case start_request J E type body vaultAddress expiresAfter now s of
        (s1, Inl e) \<Rightarrow> (s1, Inl e)
      | (s1, Inr session) \<Rightarrow> (s1, sync_result (net session)))"

section \<open>The methods\<close>

text \<open>A method builds the body first: a builder that throws sends nothing and issues no nonce.\<close>

definition call_sync ::
  "'j json_ops \<Rightarrow> secp256k1 \<Rightarrow> 'v sj_reader \<Rightarrow> network \<Rightarrow> ApiCall \<Rightarrow> u64 \<Rightarrow> rest_api
    \<Rightarrow> rest_api \<times> rest_reply outcome" where
  "call_sync J E S net call now s =
     (let c = rest_sync J (ra_syms s) call; rq = sc_request c
      in case rq_body rq of
           Inl e \<Rightarrow> (s, Inl e)
         | Inr body \<Rightarrow>
             (case signAndSendSync J E net (rq_type rq) body (rq_vault rq) None now s of
                (s1, Inl e) \<Rightarrow> (s1, Inl e)
              | (s1, Inr message) \<Rightarrow> (s1, sc_parse c S message)))"

definition call_async ::
  "'j json_ops \<Rightarrow> secp256k1 \<Rightarrow> ApiCall \<Rightarrow> u64 \<Rightarrow> rest_api \<Rightarrow> rest_api \<times> unit outcome" where
  "call_async J E call now s =
     (let rq = rest_async J (ra_syms s) call
      in case rq_body rq of
           Inl e \<Rightarrow> (s, Inl e)
         | Inr body \<Rightarrow> signAndSend_rest J E (rq_type rq) body (rq_vault rq) None now s)"

section \<open>Construction\<close>

definition RestApi_Impl :: "ApiConfig \<Rightarrow> u64 \<Rightarrow> rest_api" where
  "RestApi_Impl config nonce =
     \<lparr>ra_config = config, ra_syms = SymbolMap_empty, ra_nonce = nonce, ra_sessions = [], ra_events = []\<rparr>"

text \<open>
  The metadata \<open>initializeMapping\<close> asks the new object for, from the replies of its synchronous methods. These
  are information requests, which leave the nonce and the configuration alone, so each is made in the state the
  object has before the symbol map is set.
\<close>

definition rest_metadata_of ::
  "'j json_ops \<Rightarrow> secp256k1 \<Rightarrow> 'v sj_reader \<Rightarrow> network \<Rightarrow> u64 \<Rightarrow> rest_api \<Rightarrow> rest_metadata" where
  "rest_metadata_of J E S net now s =
     \<lparr>api_meta = (\<lambda>dex. bindE (snd (call_sync J E S net (MarketApi (C_Meta dex)) now s)) (\<lambda>r.
         case r of R_Trading (R_Meta m) \<Rightarrow> Inr (map am_name (mr_universe m)) | _ \<Rightarrow> Inr [])),
      api_spotMeta = bindE (snd (call_sync J E S net (UserApi C_SpotMetaAndAssetCtxs) now s)) (\<lambda>r.
         case r of
           R_Spot (R_SpotMetaAndAssetCtxs m) \<Rightarrow>
             Inr (map (\<lambda>t. \<lparr>tok_name = sam_name t, tok_index = sam_index t\<rparr>) (smaacm_tokens (smaacr_meta m)),
                  map (\<lambda>p. \<lparr>pair_name = sup_name p, pair_index = sup_index p, pair_tokens = sup_tokens p\<rparr>)
                    (smaacm_universe (smaacr_meta m)))
         | _ \<Rightarrow> Inr ([], [])),
      api_perpDexs = bindE (snd (call_sync J E S net (MarketApi C_PerpDexs) now s)) (\<lambda>r.
         case r of R_Trading (R_PerpDexs m) \<Rightarrow> Inr (map pd_name (pdr_dexes m)) | _ \<Rightarrow> Inr [])\<rparr>"

definition RestApi_new ::
  "'j json_ops \<Rightarrow> secp256k1 \<Rightarrow> 'v sj_reader \<Rightarrow> network \<Rightarrow> ApiConfig \<Rightarrow> u64 \<Rightarrow> u64 \<Rightarrow> rest_api outcome" where
  "RestApi_new J E S net config now nonce =
     (let s = RestApi_Impl config nonce
      in if skipBuildingSymbolMap config then Inr s
         else bindE (initializeMapping config (rest_metadata_of J E S net now s) (ra_syms s)) (\<lambda>syms.
                Inr (s\<lparr>ra_syms := syms\<rparr>)))"

end
