(* ===== verification/Stream_Events.thy ===== *)
theory Stream_Events
  imports Stream_Types Json_Reader
begin

text \<open>
  What \<open>WebsocketMessageParser\<close> tells its listener: one constructor per callback of
  \<open>WebsocketMessageHandler\<close>; the parser appends the events of a message to a list. Also the two helpers
  all its parts use.
\<close>

datatype stream_event =
    OnSubscriptionResponse SubscriptionResponse
  | OnL2Book L2BookSnapshot
  | OnBbo BboUpdate
  | OnTrade Trade
  | OnCandle Candle
  | OnAllMidsEntry AllMidsEntry
  | OnPerpAssetCtx PerpAssetCtx
  | OnSpotAssetCtx SpotAssetCtx
  | OnOrderUpdate OrderUpdate
  | OnUserFill Fill
  | OnUserFunding UserFunding
  | OnLiquidation Liquidation
  | OnNonUserCancel NonUserCancel
  | OnUserFundingUpdate UserFunding
  | OnLedgerUpdate LedgerUpdate
  | OnWebData3 WebData3Update
  | OnClearinghouseState ClearinghouseStateUpdate
  | OnOpenOrdersSnapshot OpenOrdersUpdate
  | OnTwapStates TwapStatesUpdate
  | OnNotification Notification
  | OnUserTwapSliceFill TwapSliceFill
  | OnUserTwapHistory TwapHistoryEntry
  | OnActiveAssetData ActiveAssetData
  | OnSpotState SpotStateUpdate
  | OnAllDexsClearinghouseState AllDexsClearinghouseStateUpdate
  | OnAllDexsAssetCtxs AllDexsAssetCtxsUpdate
  | OnFastAssetCtx FastAssetCtx
  | OnOutcomeMetaUpdate OutcomeMetaUpdate

text \<open>\<open>validateStructure\<close>: the DOM parse that only has to succeed, unless it is switched off.\<close>

definition validateStructure :: "'v sj_reader \<Rightarrow> bool \<Rightarrow> string \<Rightarrow> unit outcome" where
  "validateStructure S validate message = (if validate then sj_validate S message else Inr ())"

definition toDoubleField :: "'v sj_reader \<Rightarrow> 'v \<Rightarrow> string \<Rightarrow> double outcome" where
  "toDoubleField S obj key =
     (let val = sj_field S obj key in
     (case bindE val (sj_string S) of
      Inr sv \<Rightarrow>
        (Inr (from_chars_double sv))
      | Inl _ \<Rightarrow>
        (bindE val (sj_double S))))"

end
