(* ===== verification/Base64.thy ===== *)
theory Base64
  imports Prelude
begin

unbundle bit_operations_syntax

text \<open>
  \<open>WebsocketParsingUtils::base64Decode\<close>, which the compact asset-context channel is packed in, and the
  encoding of RFC 4648 it inverts. \<open>inflateRawDeflate\<close> is in \<open>Inflate\<close>.
\<close>

section \<open>The decoder\<close>

definition base64_alphabet :: string where
  "base64_alphabet = ''ABCDEFGHIJKLMNOPQRSTUVWXYZabcdefghijklmnopqrstuvwxyz0123456789+/''"

text \<open>\<open>table[c]\<close>, \<open>None\<close> for the entries that stay -1.\<close>

definition base64_table :: "char \<Rightarrow> nat option" where
  "base64_table c = map_of (zip base64_alphabet [0..<64]) c"

text \<open>
  One round of the loop on \<open>val\<close>, \<open>bits\<close> and \<open>out\<close>: a character outside the alphabet, padding
  included, is skipped. \<open>val\<close> is an \<open>int\<close>, whose older bits are shifted out.
\<close>

definition sextet_in :: "u32 \<Rightarrow> nat \<Rightarrow> u32" where
  "sextet_in val t = push_bit 6 val + word_of_nat t"

definition byte_at :: "nat \<Rightarrow> u32 \<Rightarrow> u8" where
  "byte_at bits val = ucast (signed_drop_bit bits val AND 0xFF)"

fun base64_step :: "u32 \<times> int \<times> bytes \<Rightarrow> char \<Rightarrow> u32 \<times> int \<times> bytes" where
  "base64_step (val, bits, out) c =
     (case base64_table c of
        None \<Rightarrow> (val, bits, out)
      | Some t \<Rightarrow>
          let val = sextet_in val t; bits = bits + 6
          in if 0 \<le> bits then (val, bits - 8, out @ [byte_at (nat bits) val])
             else (val, bits, out))"

definition base64Decode :: "string \<Rightarrow> bytes" where
  "base64Decode input = (case foldl base64_step (0, -8, []) input of (val, bits, out) \<Rightarrow> out)"

section \<open>The encoding of RFC 4648\<close>

definition base64_char :: "nat \<Rightarrow> char" where
  "base64_char n = base64_alphabet ! n"

fun base64_encode :: "bytes \<Rightarrow> string" where
  "base64_encode [] = ''''"
| "base64_encode [a] =
     [base64_char (unat a div 4), base64_char (unat a mod 4 * 16), CHR ''='', CHR ''='']"
| "base64_encode [a, b] =
     [base64_char (unat a div 4), base64_char (unat a mod 4 * 16 + unat b div 16),
      base64_char (unat b mod 16 * 4), CHR ''='']"
| "base64_encode (a # b # c # bs) =
     [base64_char (unat a div 4), base64_char (unat a mod 4 * 16 + unat b div 16),
      base64_char (unat b mod 16 * 4 + unat c div 64), base64_char (unat c mod 64)] @ base64_encode bs"

section \<open>The round trip\<close>

lemma base64_table_char: "n < 64 \<Longrightarrow> base64_table (base64_char n) = Some n"
proof -
  have "list_all (\<lambda>n. base64_table (base64_char n) = Some n) [0..<64]"
    by code_simp
  then show "n < 64 \<Longrightarrow> base64_table (base64_char n) = Some n"
    by (simp add: list_all_iff)
qed

lemma base64_table_pad [simp]: "base64_table (CHR ''='') = None"
  by code_simp

lemma base64_step_char:
  "n < 64 \<Longrightarrow> base64_step (val, bits, out) (base64_char n) =
     (let val = sextet_in val n; bits = bits + 6
      in if 0 \<le> bits then (val, bits - 8, out @ [byte_at (nat bits) val]) else (val, bits, out))"
  by (simp add: base64_table_char)

text \<open>The decoder in arithmetic: \<open>val\<close> modulo $2^{32}$, the emitted byte a quotient modulo 256.\<close>

lemma unat_sextet_in: "unat (sextet_in val n) = (64 * unat val + n) mod 2 ^ 32"
proof -
  have "sextet_in val n = word_of_nat (64 * unat val + n)"
    by (simp add: sextet_in_def push_bit_eq_mult)
  then show ?thesis
    by (simp add: unsigned_of_nat take_bit_eq_mod del: of_nat_add of_nat_mult)
qed

lemma byte_at_take_bit: "byte_at k val = ucast (take_bit 8 (signed_drop_bit k val))"
proof -
  have "(0xFF :: u32) = mask 8" by (simp add: mask_eq_exp_minus_1)
  then show ?thesis by (simp add: byte_at_def take_bit_eq_mask)
qed

lemma unat_byte_at:
  assumes "k \<le> 24"
  shows "unat (byte_at k val) = unat val div 2 ^ k mod 256"
proof -
  have "byte_at k val = ucast (drop_bit k val)"
    using assms by (intro bit_word_eqI) (auto simp: byte_at_take_bit bit_simps)
  moreover have "unat (ucast w :: u8) = unat w mod 256" for w :: u32
    by (simp add: unsigned_ucast_eq take_bit_eq_mod)
  ultimately show ?thesis by (simp only: unat_drop_bit_eq drop_bit_eq_div [where 'a = nat])
qed

lemma mod_word_div:
  fixes x :: nat
  assumes "k \<le> 24"
  shows "x mod 2 ^ 32 div 2 ^ k mod 256 = x div 2 ^ k mod 256"
proof -
  have "take_bit 8 (drop_bit k (take_bit 32 x)) = take_bit 8 (drop_bit k x)"
    using assms by (intro bit_eqI) (auto simp: bit_simps)
  then show ?thesis by (simp add: take_bit_eq_mod drop_bit_eq_div)
qed

lemma unat_byte_lt: "unat (b :: u8) < 256"
  using unsigned_less [of b] by simp

text \<open>Two characters on any older \<open>val\<close>, and the byte they complete.\<close>

lemma byte_at_two:
  assumes "unat b = (64 * m + n) div 2 ^ k mod 256" and "k \<le> 4"
  shows "byte_at k (sextet_in (sextet_in val m) n) = b"
proof -
  let ?x = "4096 * unat val + (64 * m + n)"
  have p: "(2 :: nat) ^ (12 - k) = 256 * 2 ^ (4 - k)"
    using power_add [of "2 :: nat" 8 "4 - k"] assms(2) by simp
  have "unat (sextet_in (sextet_in val m) n) = ?x mod 2 ^ 32"
    unfolding unat_sextet_in
    by (subst mod_add_left_eq [symmetric], subst mod_mult_right_eq, subst mod_add_left_eq) (simp add: algebra_simps)
  then have "unat (byte_at k (sextet_in (sextet_in val m) n)) = ?x div 2 ^ k mod 256"
    using mod_word_div [of k ?x] assms(2) by (simp add: unat_byte_at)
  also have "?x = (64 * m + n) + 2 ^ k * (2 ^ (12 - k) * unat val)"
    using power_add [of "2 :: nat" k "12 - k"] assms(2) by (simp add: mult.assoc [symmetric])
  also have "\<dots> div 2 ^ k = (64 * m + n) div 2 ^ k + 256 * (2 ^ (4 - k) * unat val)"
    by (simp add: p)
  also have "\<dots> mod 256 = unat b" using assms(1) by simp
  finally show ?thesis by (simp add: word_unat_eq_iff)
qed

text \<open>The same on numbers: each byte is made of the two characters that hold its bits.\<close>

lemma sextet_arith:
  fixes a x y :: nat
  assumes "a < 256"
  shows "y < 16 \<Longrightarrow> (64 * (a div 4) + (a mod 4 * 16 + y)) div 2 ^ 4 mod 256 = a"
    and "y < 4 \<Longrightarrow> (64 * (x * 16 + a div 16) + (a mod 16 * 4 + y)) div 2 ^ 2 mod 256 = a"
    and "(64 * (x * 4 + a div 64) + a mod 64) div 2 ^ 0 mod 256 = a"
proof -
  assume y: "y < 16"
  have "64 * (a div 4) + (a mod 4 * 16 + y) = 16 * a + y"
    using div_mult_mod_eq [of a 4] by linarith
  then have "(64 * (a div 4) + (a mod 4 * 16 + y)) div 2 ^ 4 = a"
    using y by simp
  then show "(64 * (a div 4) + (a mod 4 * 16 + y)) div 2 ^ 4 mod 256 = a"
    using assms by simp
next
  assume y: "y < 4"
  have "64 * (x * 16 + p) + (q * 4 + y) = 4 * (256 * x + (p * 16 + q)) + y" for p q
    by simp
  from this [of "a div 16" "a mod 16"]
  have "64 * (x * 16 + a div 16) + (a mod 16 * 4 + y) = 4 * (256 * x + a) + y"
    by (simp only: div_mult_mod_eq)
  then have "(64 * (x * 16 + a div 16) + (a mod 16 * 4 + y)) div 2 ^ 2 = 256 * x + a"
    using y by simp
  then show "(64 * (x * 16 + a div 16) + (a mod 16 * 4 + y)) div 2 ^ 2 mod 256 = a"
    using assms by simp
next
  have "64 * (x * 4 + p) + q = 256 * x + (p * 64 + q)" for p q :: nat
    by simp
  from this [of "a div 64" "a mod 64"]
  have "64 * (x * 4 + a div 64) + a mod 64 = 256 * x + a"
    by (simp only: div_mult_mod_eq)
  then show "(64 * (x * 4 + a div 64) + a mod 64) div 2 ^ 0 mod 256 = a"
    using assms by simp
qed

lemma sextets:
  fixes a b c :: u8
  shows "unat a div 4 < 64" "unat a mod 4 * 16 + unat b div 16 < 64"
    "unat b mod 16 * 4 + unat c div 64 < 64" "unat c mod 64 < 64"
    "unat a mod 4 * 16 < 64" "unat b mod 16 * 4 < 64"
  using unat_byte_lt [of a] unat_byte_lt [of b] unat_byte_lt [of c] by auto

lemma group_bytes:
  fixes a b c :: u8
  shows "byte_at 4 (sextet_in (sextet_in v (unat a div 4)) (unat a mod 4 * 16 + unat b div 16)) = a"
    "byte_at 4 (sextet_in (sextet_in v (unat a div 4)) (unat a mod 4 * 16)) = a"
    "byte_at 2 (sextet_in (sextet_in v (unat a mod 4 * 16 + unat b div 16)) (unat b mod 16 * 4 + unat c div 64)) = b"
    "byte_at 2 (sextet_in (sextet_in v (unat a mod 4 * 16 + unat b div 16)) (unat b mod 16 * 4)) = b"
    "byte_at 0 (sextet_in (sextet_in v (unat b mod 16 * 4 + unat c div 64)) (unat c mod 64)) = c"
proof -
  have y: "unat b div 16 < 16" "unat c div 64 < 4"
    using unat_byte_lt [of b] unat_byte_lt [of c] by auto
  note arith = sextet_arith [OF unat_byte_lt]
  show "byte_at 4 (sextet_in (sextet_in v (unat a div 4)) (unat a mod 4 * 16 + unat b div 16)) = a"
    by (rule byte_at_two) (use arith(1) [OF y(1), of a] in simp_all)
  show "byte_at 4 (sextet_in (sextet_in v (unat a div 4)) (unat a mod 4 * 16)) = a"
    using arith(1) [of 0 a] by (intro byte_at_two) simp_all
  show "byte_at 2 (sextet_in (sextet_in v (unat a mod 4 * 16 + unat b div 16)) (unat b mod 16 * 4 + unat c div 64)) = b"
    by (rule byte_at_two) (use arith(2) [OF y(2), of "unat a mod 4" b] in simp_all)
  show "byte_at 2 (sextet_in (sextet_in v (unat a mod 4 * 16 + unat b div 16)) (unat b mod 16 * 4)) = b"
    using arith(2) [of 0 "unat a mod 4" b] by (intro byte_at_two) simp_all
  show "byte_at 0 (sextet_in (sextet_in v (unat b mod 16 * 4 + unat c div 64)) (unat c mod 64)) = c"
    by (rule byte_at_two) (use arith(3) [of "unat b mod 16" c] in simp_all)
qed

lemma decode_groups:
  "\<exists>val bits. foldl base64_step (v, -8, out) (base64_encode bs) = (val, bits, out @ bs)"
proof (induction bs arbitrary: v out rule: base64_encode.induct)
  case (4 a b c bs)
  show ?case
    using "4.IH" [of _ "out @ [a, b, c]"]
    by (simp add: base64_step_char sextets group_bytes Let_def del: base64_step.simps)
qed (simp_all add: base64_step_char sextets group_bytes Let_def del: base64_step.simps, simp_all)

text \<open>C20: Decoding undoes the encoding of RFC 4648 for every byte string, with or without padding at its end.\<close>

theorem base64_round_trip: "base64Decode (base64_encode bs) = bs"
  using decode_groups [of 0 "[]" bs] by (auto simp: base64Decode_def)

end
