(* ===== verification/Ws_Market_Cracker.thy ===== *)
theory Ws_Market_Cracker
  imports Stream_Events Outcome_Text Base64
begin

text \<open>
  \<open>WebsocketMessageParser\<close>: the channels on markets.
  Each function is its C++ body statement by statement, in continuation style: a local that is
  assigned is bound again, \<open>tryE s m (\<lambda>v. \<dots>)\<close> evaluates \<open>m\<close> while \<open>s\<close> is what the handler would
  keep, \<open>Inl (Return s)\<close> is a \<open>return\<close> inside the \<open>try\<close> block.
\<close>

definition crackSubscriptionResponse :: "'v sj_reader \<Rightarrow> 'v \<Rightarrow> stream_event list \<Rightarrow>
    (stream_event list) exit + stream_event list" where
  "crackSubscriptionResponse S data listener =
     (let response = SubscriptionResponse_init in
     bindE (tryE listener (field_string S data ''method'') (\<lambda>v.
     (if v = ''subscribe'' then
       let response = response\<lparr>sr_method := SubscriptionMethod_Subscribe\<rparr> in
       Inr response
      else
       let response = response\<lparr>sr_method := SubscriptionMethod_Unsubscribe\<rparr> in
       Inr response))) (\<lambda>response.
     let subscription = Subscription_init in
     tryE listener (field_object S data ''subscription'') (\<lambda>v.
     tryE listener (field_string S v ''type'') (\<lambda>v2.
     let subscription = subscription\<lparr>su_type := stringToSubscriptionType v2\<rparr> in
     let response = response\<lparr>sr_subscription := subscription\<rparr> in
     let listener = listener @ [OnSubscriptionResponse response] in
     Inr listener))))"

definition crackL2Book :: "'v sj_reader \<Rightarrow> 'v \<Rightarrow> stream_event list \<Rightarrow>
    (stream_event list) exit + stream_event list" where
  "crackL2Book S data listener =
     (let snapshot = L2BookSnapshot_init in
     tryE listener (field_string S data ''coin'') (\<lambda>v.
     let snapshot = snapshot\<lparr>lbs_coin := v\<rparr> in
     tryE listener (field_uint64 S data ''time'') (\<lambda>v.
     let snapshot = snapshot\<lparr>lbs_time := v\<rparr> in
     let snapshot = snapshot\<lparr>lbs_numBids := 0\<rparr> in
     let snapshot = snapshot\<lparr>lbs_numAsks := 0\<rparr> in
     tryE listener (field_array S data ''levels'') (\<lambda>levels.
     let sideIdx = (0 :: u64) in
     bindE (foldB (\<lambda>side (snapshot, sideIdx).
       (if 1 < sideIdx then
         Inr (False, (snapshot, sideIdx))
        else
         let s = (if sideIdx = 0 then Side_Bid else Side_Ask) in
         tryE listener (sj_array S side) (\<lambda>sideLevels.
         bindE (foldE (\<lambda>entry snapshot.
           tryE listener (finish (
            tryE snapshot (sj_object S entry) (\<lambda>obj.
            let level = PriceLevel_init in
            let level = level\<lparr>pl_side := s\<rparr> in
            tryE snapshot (field_string S obj ''px'') (\<lambda>v.
            let level = level\<lparr>pl_px := v\<rparr> in
            tryE snapshot (field_string S obj ''sz'') (\<lambda>v.
            let level = level\<lparr>pl_sz := v\<rparr> in
            tryE snapshot (field_int64 S obj ''n'') (\<lambda>v.
            let level = level\<lparr>pl_n := to_int32 v\<rparr> in
            (if (s = Side_Bid) \<and> (unat (lbs_numBids snapshot) < L2_BOOK_MAX_LEVELS) then
              let snapshot = snapshot\<lparr>lbs_bids := (lbs_bids snapshot)[unat (lbs_numBids snapshot) := level]\<rparr> in
              let snapshot = snapshot\<lparr>lbs_numBids := (lbs_numBids snapshot) + 1\<rparr> in
              Inr snapshot
             else (if (s = Side_Ask) \<and> (unat (lbs_numAsks snapshot) < L2_BOOK_MAX_LEVELS) then
               let snapshot = snapshot\<lparr>lbs_asks := (lbs_asks snapshot)[unat (lbs_numAsks snapshot) := level]\<rparr> in
               let snapshot = snapshot\<lparr>lbs_numAsks := (lbs_numAsks snapshot) + 1\<rparr> in
               Inr snapshot
              else Inr snapshot)))))))) (\<lambda>snapshot.
           Inr snapshot)) sideLevels snapshot) (\<lambda>snapshot.
         let sideIdx = sideIdx + 1 in
         Inr (True, (snapshot, sideIdx)))))) levels (snapshot, sideIdx)) (\<lambda>(snapshot, sideIdx).
     let listener = listener @ [OnL2Book snapshot] in
     Inr listener)))))"

definition crackBbo :: "'v sj_reader \<Rightarrow> 'v \<Rightarrow> stream_event list \<Rightarrow>
    (stream_event list) exit + stream_event list" where
  "crackBbo S data listener =
     (let update = BboUpdate_init in
     tryE listener (field_string S data ''coin'') (\<lambda>v.
     let update = update\<lparr>bup_coin := v\<rparr> in
     tryE listener (field_uint64 S data ''time'') (\<lambda>v.
     let update = update\<lparr>bup_time := v\<rparr> in
     let update = update\<lparr>bup_hasBid := False\<rparr> in
     let update = update\<lparr>bup_hasAsk := False\<rparr> in
     tryE listener (field_array S data ''bbo'') (\<lambda>bbo.
     let idx = (0 :: u64) in
     bindE (foldE (\<lambda>entry (update, idx).
       tryE listener (sj_type S entry) (\<lambda>v.
       let isNull = v = SJ_Null in
       bindE (if idx = 0 then
         let update = update\<lparr>bup_hasBid := \<not> isNull\<rparr> in
         (if \<not> isNull then
           tryE listener (sj_object S entry) (\<lambda>obj.
           tryE listener (field_string S obj ''px'') (\<lambda>v.
           let update = update\<lparr>bup_bid := (bup_bid update)\<lparr>pl_px := v\<rparr>\<rparr> in
           tryE listener (field_string S obj ''sz'') (\<lambda>v.
           let update = update\<lparr>bup_bid := (bup_bid update)\<lparr>pl_sz := v\<rparr>\<rparr> in
           tryE listener (field_int64 S obj ''n'') (\<lambda>v.
           let update = update\<lparr>bup_bid := (bup_bid update)\<lparr>pl_n := to_int32 v\<rparr>\<rparr> in
           Inr update))))
          else Inr update)
        else
         let update = update\<lparr>bup_hasAsk := \<not> isNull\<rparr> in
         (if \<not> isNull then
           tryE listener (sj_object S entry) (\<lambda>obj.
           tryE listener (field_string S obj ''px'') (\<lambda>v.
           let update = update\<lparr>bup_ask := (bup_ask update)\<lparr>pl_px := v\<rparr>\<rparr> in
           tryE listener (field_string S obj ''sz'') (\<lambda>v.
           let update = update\<lparr>bup_ask := (bup_ask update)\<lparr>pl_sz := v\<rparr>\<rparr> in
           tryE listener (field_int64 S obj ''n'') (\<lambda>v.
           let update = update\<lparr>bup_ask := (bup_ask update)\<lparr>pl_n := to_int32 v\<rparr>\<rparr> in
           Inr update))))
          else Inr update)) (\<lambda>update.
       let idx = idx + 1 in
       Inr (update, idx)))) bbo (update, idx)) (\<lambda>(update, idx).
     let listener = listener @ [OnBbo update] in
     Inr listener)))))"

definition crackTrades :: "'v sj_reader \<Rightarrow> 'v list \<Rightarrow> stream_event list \<Rightarrow>
    (stream_event list) exit + stream_event list" where
  "crackTrades S data listener =
     (let trade = Trade_init in
     bindE (foldE (\<lambda>entry (trade, listener).
       tryE listener (finish (
        tryE (trade, listener) (sj_object S entry) (\<lambda>obj.
        tryE (trade, listener) (field_string S obj ''coin'') (\<lambda>v.
        let trade = trade\<lparr>tra_coin := v\<rparr> in
        tryE (trade, listener) (field_string S obj ''side'') (\<lambda>sideStr.
        let trade = trade\<lparr>tra_side := (if 0 < (length sideStr) then sideStr ! 0 else CHR ''?'')\<rparr> in
        tryE (trade, listener) (field_string S obj ''px'') (\<lambda>v.
        let trade = trade\<lparr>tra_px := v\<rparr> in
        tryE (trade, listener) (field_string S obj ''sz'') (\<lambda>v.
        let trade = trade\<lparr>tra_sz := v\<rparr> in
        tryE (trade, listener) (field_string S obj ''hash'') (\<lambda>v.
        let trade = trade\<lparr>tra_hash := v\<rparr> in
        tryE (trade, listener) (field_uint64 S obj ''time'') (\<lambda>v.
        let trade = trade\<lparr>tra_time := v\<rparr> in
        tryE (trade, listener) (field_uint64 S obj ''tid'') (\<lambda>v.
        let trade = trade\<lparr>tra_tid := v\<rparr> in
        let trade = trade\<lparr>tra_buyer := []\<rparr> in
        let trade = trade\<lparr>tra_seller := []\<rparr> in
        bindE (case field_array S obj ''users'' of
         Inr users \<Rightarrow>
           let ui = (0 :: u64) in
           bindE (foldE (\<lambda>u (trade, ui).
             bindE (if ui = 0 then
               tryE (trade, listener) (sj_string S u) (\<lambda>v.
               let trade = trade\<lparr>tra_buyer := v\<rparr> in
               Inr trade)
              else (if ui = 1 then
                tryE (trade, listener) (sj_string S u) (\<lambda>v.
                let trade = trade\<lparr>tra_seller := v\<rparr> in
                Inr trade)
               else Inr trade)) (\<lambda>trade.
             let ui = ui + 1 in
             Inr (trade, ui))) users (trade, ui)) (\<lambda>(trade, ui).
           Inr trade)
         | Inl _ \<Rightarrow>
           Inr trade) (\<lambda>trade.
        let listener = listener @ [OnTrade trade] in
        Inr (trade, listener)))))))))))) (\<lambda>(trade, listener).
       Inr (trade, listener))) data (trade, listener)) (\<lambda>(trade, listener).
     Inr listener))"

definition crackCandles :: "'v sj_reader \<Rightarrow> 'v list \<Rightarrow> stream_event list \<Rightarrow>
    (stream_event list) exit + stream_event list" where
  "crackCandles S data listener =
     (let candle = Candle_init in
     bindE (foldE (\<lambda>entry (candle, listener).
       tryE listener (finish (
        tryE (candle, listener) (sj_object S entry) (\<lambda>obj.
        tryE (candle, listener) (field_string S obj ''s'') (\<lambda>v.
        let candle = candle\<lparr>can_coin := v\<rparr> in
        tryE (candle, listener) (field_string S obj ''i'') (\<lambda>v.
        let candle = candle\<lparr>can_interval := v\<rparr> in
        tryE (candle, listener) (field_uint64 S obj ''t'') (\<lambda>v.
        let candle = candle\<lparr>can_openTime := v\<rparr> in
        tryE (candle, listener) (field_uint64 S obj ''T'') (\<lambda>v.
        let candle = candle\<lparr>can_closeTime := v\<rparr> in
        tryE (candle, listener) (field_double S obj ''o'') (\<lambda>v.
        let candle = candle\<lparr>can_open := v\<rparr> in
        tryE (candle, listener) (field_double S obj ''c'') (\<lambda>v.
        let candle = candle\<lparr>can_close := v\<rparr> in
        tryE (candle, listener) (field_double S obj ''h'') (\<lambda>v.
        let candle = candle\<lparr>can_high := v\<rparr> in
        tryE (candle, listener) (field_double S obj ''l'') (\<lambda>v.
        let candle = candle\<lparr>can_low := v\<rparr> in
        tryE (candle, listener) (field_double S obj ''v'') (\<lambda>v.
        let candle = candle\<lparr>can_volume := v\<rparr> in
        tryE (candle, listener) (field_int64 S obj ''n'') (\<lambda>v.
        let candle = candle\<lparr>can_numTrades := to_int32 v\<rparr> in
        let listener = listener @ [OnCandle candle] in
        Inr (candle, listener)))))))))))))) (\<lambda>(candle, listener).
       Inr (candle, listener))) data (candle, listener)) (\<lambda>(candle, listener).
     Inr listener))"

definition crackAllMids :: "'v sj_reader \<Rightarrow> 'v \<Rightarrow> stream_event list \<Rightarrow>
    (stream_event list) exit + stream_event list" where
  "crackAllMids S data listener =
     (tryE listener (field_object S data ''mids'') (\<lambda>mids.
     let entry = AllMidsEntry_init in
     bindE (foldE (\<lambda>field (entry, listener).
       tryE listener (finish (
        let entry = entry\<lparr>ame_coin := fst field\<rparr> in
        tryE (entry, listener) (sj_string S (snd field)) (\<lambda>v.
        let entry = entry\<lparr>ame_mid := from_chars_double v\<rparr> in
        let listener = listener @ [OnAllMidsEntry entry] in
        Inr (entry, listener)))) (\<lambda>(entry, listener).
       Inr (entry, listener))) (sj_members S mids) (entry, listener)) (\<lambda>(entry, listener).
     Inr listener)))"

definition crackActiveAssetCtx :: "'v sj_reader \<Rightarrow> 'v \<Rightarrow> stream_event list \<Rightarrow>
    (stream_event list) exit + stream_event list" where
  "crackActiveAssetCtx S data listener =
     (tryE listener (field_string S data ''coin'') (\<lambda>coin.
     tryE listener (field_object S data ''ctx'') (\<lambda>ctx.
     let fundingStr = '''' in
     let (isPerp, fundingStr) = (case field_string S ctx ''funding'' of Inr fundingStr \<Rightarrow> (True, fundingStr)
         | Inl _ \<Rightarrow> (False, fundingStr)) in
     (if isPerp then
       let perp = PerpAssetCtx_init in
       let perp = perp\<lparr>pac_coin := coin\<rparr> in
       let perp = perp\<lparr>pac_funding := from_chars_double fundingStr\<rparr> in
       tryE listener (toDoubleField S ctx ''dayNtlVlm'') (\<lambda>v.
       let perp = perp\<lparr>pac_dayNtlVlm := v\<rparr> in
       tryE listener (toDoubleField S ctx ''prevDayPx'') (\<lambda>v.
       let perp = perp\<lparr>pac_prevDayPx := v\<rparr> in
       tryE listener (toDoubleField S ctx ''markPx'') (\<lambda>v.
       let perp = perp\<lparr>pac_markPx := v\<rparr> in
       let midStr = '''' in
       let (ok, midStr) = (case field_string S ctx ''midPx'' of Inr midStr \<Rightarrow> (True, midStr) | Inl _ \<Rightarrow>
           (False, midStr)) in
       let perp = perp\<lparr>pac_hasMidPx := ok\<rparr> in
       let perp = perp\<lparr>pac_midPx := (if pac_hasMidPx perp then from_chars_double midStr else d_zero)\<rparr> in
       tryE listener (toDoubleField S ctx ''openInterest'') (\<lambda>v.
       let perp = perp\<lparr>pac_openInterest := v\<rparr> in
       tryE listener (toDoubleField S ctx ''oraclePx'') (\<lambda>v.
       let perp = perp\<lparr>pac_oraclePx := v\<rparr> in
       let listener = listener @ [OnPerpAssetCtx perp] in
       Inr listener)))))
      else
       let spot = SpotAssetCtx_init in
       let spot = spot\<lparr>sac_coin := coin\<rparr> in
       tryE listener (toDoubleField S ctx ''dayNtlVlm'') (\<lambda>v.
       let spot = spot\<lparr>sac_dayNtlVlm := v\<rparr> in
       tryE listener (toDoubleField S ctx ''prevDayPx'') (\<lambda>v.
       let spot = spot\<lparr>sac_prevDayPx := v\<rparr> in
       tryE listener (toDoubleField S ctx ''markPx'') (\<lambda>v.
       let spot = spot\<lparr>sac_markPx := v\<rparr> in
       let midStr = '''' in
       let (ok, midStr) = (case field_string S ctx ''midPx'' of Inr midStr \<Rightarrow> (True, midStr) | Inl _ \<Rightarrow>
           (False, midStr)) in
       let spot = spot\<lparr>sac_hasMidPx := ok\<rparr> in
       let spot = spot\<lparr>sac_midPx := (if sac_hasMidPx spot then from_chars_double midStr else d_zero)\<rparr> in
       tryE listener (toDoubleField S ctx ''circulatingSupply'') (\<lambda>v.
       let spot = spot\<lparr>sac_circulatingSupply := v\<rparr> in
       let listener = listener @ [OnSpotAssetCtx spot] in
       Inr listener))))))))"

definition crackAllDexsAssetCtxs :: "'v sj_reader \<Rightarrow> 'v \<Rightarrow> stream_event list \<Rightarrow>
    (stream_event list) exit + stream_event list" where
  "crackAllDexsAssetCtxs S data listener =
     (let update = AllDexsAssetCtxsUpdate_init in
     tryE listener (field_array S data ''ctxs'') (\<lambda>ctxs.
     bindE (foldE (\<lambda>entry update.
       tryE listener (finish (
        tryE update (sj_array S entry) (\<lambda>pair.
        let dexCtxs = DexAssetCtxs_zero in
        let idx = (0 :: u64) in
        bindE (foldE (\<lambda>item (dexCtxs, idx).
          bindE (if idx = 0 then
            tryE update (sj_string S item) (\<lambda>v.
            let dexCtxs = dexCtxs\<lparr>dac_dex := v\<rparr> in
            Inr dexCtxs)
           else
            tryE update (sj_array S item) (\<lambda>ctxArr.
            foldE (\<lambda>ctxEntry dexCtxs.
              tryE update (sj_object S ctxEntry) (\<lambda>obj.
              let ctx = PerpAssetCtx_zero in
              tryE update (toDoubleField S obj ''dayNtlVlm'') (\<lambda>v.
              let ctx = ctx\<lparr>pac_dayNtlVlm := v\<rparr> in
              tryE update (toDoubleField S obj ''prevDayPx'') (\<lambda>v.
              let ctx = ctx\<lparr>pac_prevDayPx := v\<rparr> in
              tryE update (toDoubleField S obj ''markPx'') (\<lambda>v.
              let ctx = ctx\<lparr>pac_markPx := v\<rparr> in
              let midStr = '''' in
              let (ok, midStr) = (case field_string S obj ''midPx'' of Inr midStr \<Rightarrow> (True, midStr)
                  | Inl _ \<Rightarrow> (False, midStr)) in
              let ctx = ctx\<lparr>pac_hasMidPx := ok\<rparr> in
              let ctx = ctx\<lparr>pac_midPx := (if pac_hasMidPx ctx then from_chars_double midStr else d_zero)\<rparr> in
              tryE update (toDoubleField S obj ''funding'') (\<lambda>v.
              let ctx = ctx\<lparr>pac_funding := v\<rparr> in
              tryE update (toDoubleField S obj ''openInterest'') (\<lambda>v.
              let ctx = ctx\<lparr>pac_openInterest := v\<rparr> in
              tryE update (toDoubleField S obj ''oraclePx'') (\<lambda>v.
              let ctx = ctx\<lparr>pac_oraclePx := v\<rparr> in
              let dexCtxs = dexCtxs\<lparr>dac_ctxs := (dac_ctxs dexCtxs) @ [ctx]\<rparr> in
              Inr dexCtxs)))))))) ctxArr dexCtxs)) (\<lambda>dexCtxs.
          let idx = idx + 1 in
          Inr (dexCtxs, idx))) pair (dexCtxs, idx)) (\<lambda>(dexCtxs, idx).
        let update = update\<lparr>adacu_dexs := (adacu_dexs update) @ [dexCtxs]\<rparr> in
        Inr update)))) (\<lambda>update.
       Inr update)) ctxs update) (\<lambda>update.
     let listener = listener @ [OnAllDexsAssetCtxs update] in
     Inr listener)))"

definition crackFastAssetCtxs :: "'v sj_reader \<Rightarrow> bool \<Rightarrow> (bytes \<Rightarrow> string option) \<Rightarrow>
    string \<Rightarrow> stream_event list \<Rightarrow> (stream_event list) exit + stream_event list" where
  "crackFastAssetCtxs S validate inflate base64Data listener =
     (let compressed = base64Decode base64Data in
     (case inflate compressed of
      None \<Rightarrow>
        Inl (Return listener)
      | Some decompressed \<Rightarrow>
        tryE listener (finish (
         tryE listener (validateStructure S validate decompressed) (\<lambda>_.
         let localDoc = sj_iterate S decompressed in
         tryE listener (bindE localDoc (sj_object S)) (\<lambda>obj.
         foldE (\<lambda>field listener.
           tryE listener (finish (
            let ctx = FastAssetCtx_zero in
            let ctx = ctx\<lparr>fac_coin := fst field\<rparr> in
            tryE listener (sj_object S (snd field)) (\<lambda>entry.
            let markStr = '''' in
            let (ok, markStr) = (case field_string S entry ''markPx'' of Inr markStr \<Rightarrow> (True, markStr)
                | Inl _ \<Rightarrow> (False, markStr)) in
            let ctx = ctx\<lparr>fac_hasMarkPx := ok\<rparr> in
            let ctx = ctx\<lparr>fac_markPx := (if fac_hasMarkPx ctx then from_chars_double markStr else d_zero)\<rparr> in
            let midStr = '''' in
            let (ok, midStr) = (case field_string S entry ''midPx'' of Inr midStr \<Rightarrow> (True, midStr)
                | Inl _ \<Rightarrow> (False, midStr)) in
            let ctx = ctx\<lparr>fac_hasMidPx := ok\<rparr> in
            let ctx = ctx\<lparr>fac_midPx := (if fac_hasMidPx ctx then from_chars_double midStr else d_zero)\<rparr> in
            let listener = listener @ [OnFastAssetCtx ctx] in
            Inr listener))) (\<lambda>listener.
           Inr listener)) (sj_members S obj) listener)))) (\<lambda>listener.
        Inr listener)))"

definition parseOutcomeSpecForUpdate :: "'v sj_reader \<Rightarrow> 'v \<Rightarrow> Outcome \<Rightarrow> Outcome exit + Outcome" where
  "parseOutcomeSpecForUpdate S obj outcome =
     (tryE outcome (field_int64 S obj ''outcome'') (\<lambda>v.
     let outcome = outcome\<lparr>out_outcome := to_int32 v\<rparr> in
     tryE outcome (field_string S obj ''name'') (\<lambda>v.
     let outcome = outcome\<lparr>out_name := v\<rparr> in
     tryE outcome (field_string S obj ''description'') (\<lambda>v.
     let outcome = outcome\<lparr>out_descriptionRaw := v\<rparr> in
     tryE outcome (parseOutcomeDescription (out_descriptionRaw outcome)) (\<lambda>v.
     let outcome = outcome\<lparr>out_description := v\<rparr> in
     tryE outcome (field_array S obj ''sideSpecs'') (\<lambda>sideSpecs.
     bindE (foldE (\<lambda>sideEntry outcome.
       tryE outcome (sj_object S sideEntry) (\<lambda>sideObj.
       let spec = OutcomeSideSpec_init in
       tryE outcome (field_string S sideObj ''name'') (\<lambda>v.
       let spec = spec\<lparr>oss_name := v\<rparr> in
       let spec = (case field_int64 S sideObj ''token'' of
        Inr token \<Rightarrow>
          let spec = spec\<lparr>oss_token := Some (to_int32 token)\<rparr> in
          spec
        | Inl _ \<Rightarrow>
          spec) in
       let outcome = outcome\<lparr>out_sideSpecs := (out_sideSpecs outcome) @ [spec]\<rparr> in
       Inr outcome))) sideSpecs outcome) (\<lambda>outcome.
     let outcome = (case field_string S obj ''quoteToken'' of
      Inr quoteToken \<Rightarrow>
        let outcome = outcome\<lparr>out_quoteToken := quoteToken\<rparr> in
        outcome
      | Inl _ \<Rightarrow>
        outcome) in
     (case field_string S obj ''deployer'' of
      Inr deployer \<Rightarrow>
        let outcome = outcome\<lparr>out_deployer := Some deployer\<rparr> in
        Inr outcome
      | Inl _ \<Rightarrow>
        Inr outcome))))))))"

definition parseQuestionSpecForUpdate :: "'v sj_reader \<Rightarrow> 'v \<Rightarrow> QuestionSpec \<Rightarrow>
    QuestionSpec exit + QuestionSpec" where
  "parseQuestionSpecForUpdate S obj question =
     (tryE question (field_int64 S obj ''question'') (\<lambda>v.
     let question = question\<lparr>qs_question := to_int32 v\<rparr> in
     tryE question (field_string S obj ''name'') (\<lambda>v.
     let question = question\<lparr>qs_name := v\<rparr> in
     tryE question (field_string S obj ''description'') (\<lambda>v.
     let question = question\<lparr>qs_description := v\<rparr> in
     tryE question (field_int64 S obj ''fallbackOutcome'') (\<lambda>v.
     let question = question\<lparr>qs_fallbackOutcome := to_int32 v\<rparr> in
     tryE question (field_array S obj ''namedOutcomes'') (\<lambda>namedOutcomes.
     bindE (foldE (\<lambda>entry question.
       tryE question (sj_int64 S entry) (\<lambda>v.
       let question = question\<lparr>qs_namedOutcomes := (qs_namedOutcomes question) @ [to_int32 v]\<rparr> in
       Inr question)) namedOutcomes question) (\<lambda>question.
     (case field_array S obj ''settledNamedOutcomes'' of
      Inr settledNamedOutcomes \<Rightarrow>
        foldE (\<lambda>entry question.
          tryE question (sj_int64 S entry) (\<lambda>v.
          let question = question\<lparr>qs_settledNamedOutcomes := (qs_settledNamedOutcomes question) @ [to_int32 v]\<rparr> in
          Inr question)) settledNamedOutcomes question
      | Inl _ \<Rightarrow>
        Inr question))))))))"

definition crackOutcomeMetaUpdates :: "'v sj_reader \<Rightarrow> 'v list \<Rightarrow> stream_event list \<Rightarrow>
    (stream_event list) exit + stream_event list" where
  "crackOutcomeMetaUpdates S data listener =
     (foldE (\<lambda>entry listener.
       tryE listener (finish (
        tryE listener (sj_object S entry) (\<lambda>obj.
        let update = OutcomeMetaUpdate_zero in
        bindE (case sj_field S obj ''outcomeCreated'' of
         Inr outcomeCreatedVal \<Rightarrow>
           let update = update\<lparr>omu_type := OutcomeMetaUpdateType_OutcomeCreated\<rparr> in
           tryE listener (sj_object S outcomeCreatedVal) (\<lambda>createdObj.
           callE (\<lambda>r. listener) (parseOutcomeSpecForUpdate S createdObj (omu_outcome update)) (\<lambda>r.
           let update = update\<lparr>omu_outcome := r\<rparr> in
           Inr update))
         | Inl _ \<Rightarrow>
           (case sj_field S obj ''outcomeSettled'' of
            Inr outcomeSettledVal \<Rightarrow>
              let update = update\<lparr>omu_type := OutcomeMetaUpdateType_OutcomeSettled\<rparr> in
              tryE listener (sj_int64 S outcomeSettledVal) (\<lambda>v.
              let update = update\<lparr>omu_settledOutcome := to_int32 v\<rparr> in
              Inr update)
            | Inl _ \<Rightarrow>
              (case sj_field S obj ''questionUpdated'' of
               Inr questionUpdatedVal \<Rightarrow>
                 let update = update\<lparr>omu_type := OutcomeMetaUpdateType_QuestionUpdated\<rparr> in
                 tryE listener (sj_object S questionUpdatedVal) (\<lambda>updatedObj.
                 callE (\<lambda>r. listener) (parseQuestionSpecForUpdate S updatedObj (omu_question update)) (\<lambda>r.
                 let update = update\<lparr>omu_question := r\<rparr> in
                 Inr update))
               | Inl _ \<Rightarrow>
                 (case sj_field S obj ''questionSettled'' of
                  Inr questionSettledVal \<Rightarrow>
                    let update = update\<lparr>omu_type := OutcomeMetaUpdateType_QuestionSettled\<rparr> in
                    tryE listener (sj_int64 S questionSettledVal) (\<lambda>v.
                    let update = update\<lparr>omu_settledQuestion := to_int32 v\<rparr> in
                    Inr update)
                  | Inl _ \<Rightarrow>
                    let update = update\<lparr>omu_type := OutcomeMetaUpdateType_Unknown\<rparr> in
                    Inr update)))) (\<lambda>update.
        let listener = listener @ [OnOutcomeMetaUpdate update] in
        Inr listener)))) (\<lambda>listener.
       Inr listener)) data listener)"

end
