(* ===== verification/Ws_User_Cracker.thy ===== *)
theory Ws_User_Cracker
  imports Stream_Events
begin

text \<open>
  \<open>WebsocketMessageParser\<close>: the channels on a user.
  Each function is its C++ body statement by statement, in continuation style: a local that is
  assigned is bound again, \<open>tryE s m (\<lambda>v. \<dots>)\<close> evaluates \<open>m\<close> while \<open>s\<close> is what the handler would
  keep, \<open>Inl (Return s)\<close> is a \<open>return\<close> inside the \<open>try\<close> block.
\<close>

definition parseFillObject :: "'v sj_reader \<Rightarrow> 'v \<Rightarrow> bool \<Rightarrow> Fill outcome" where
  "parseFillObject S obj isSnapshot =
     (let fill = Fill_init in
     bindE (field_string S obj ''coin'') (\<lambda>v.
     let fill = fill\<lparr>fi_coin := v\<rparr> in
     bindE (field_string S obj ''px'') (\<lambda>v.
     let fill = fill\<lparr>fi_px := from_chars_double v\<rparr> in
     bindE (field_string S obj ''sz'') (\<lambda>v.
     let fill = fill\<lparr>fi_sz := from_chars_double v\<rparr> in
     bindE (field_string S obj ''side'') (\<lambda>sideStr.
     let fill = fill\<lparr>fi_side := (if 0 < (length sideStr) then sideStr ! 0 else CHR ''?'')\<rparr> in
     bindE (field_uint64 S obj ''time'') (\<lambda>v.
     let fill = fill\<lparr>fi_time := v\<rparr> in
     bindE (field_string S obj ''startPosition'') (\<lambda>v.
     let fill = fill\<lparr>fi_startPosition := from_chars_double v\<rparr> in
     bindE (field_string S obj ''dir'') (\<lambda>v.
     let fill = fill\<lparr>fi_dir := v\<rparr> in
     bindE (field_string S obj ''closedPnl'') (\<lambda>v.
     let fill = fill\<lparr>fi_closedPnl := from_chars_double v\<rparr> in
     bindE (field_string S obj ''hash'') (\<lambda>v.
     let fill = fill\<lparr>fi_hash := v\<rparr> in
     bindE (field_uint64 S obj ''oid'') (\<lambda>v.
     let fill = fill\<lparr>fi_oid := v\<rparr> in
     bindE (field_bool S obj ''crossed'') (\<lambda>v.
     let fill = fill\<lparr>fi_crossed := v\<rparr> in
     bindE (field_string S obj ''fee'') (\<lambda>v.
     let fill = fill\<lparr>fi_fee := from_chars_double v\<rparr> in
     bindE (field_uint64 S obj ''tid'') (\<lambda>v.
     let fill = fill\<lparr>fi_tid := v\<rparr> in
     bindE (field_string S obj ''feeToken'') (\<lambda>v.
     let fill = fill\<lparr>fi_feeToken := v\<rparr> in
     let builderFee = undefined in
     let (ok, builderFee) = (case field_double S obj ''builderFee'' of Inr builderFee \<Rightarrow> (True, builderFee)
         | Inl _ \<Rightarrow> (False, builderFee)) in
     let fill = fill\<lparr>fi_hasBuilderFee := ok\<rparr> in
     let (fill, builderFee) = (if \<not> (fi_hasBuilderFee fill) then
       let bfStr = '''' in
       let (ok, bfStr) = (case field_string S obj ''builderFee'' of Inr bfStr \<Rightarrow> (True, bfStr) | Inl _ \<Rightarrow>
           (False, bfStr)) in
       let fill = fill\<lparr>fi_hasBuilderFee := ok\<rparr> in
       (if fi_hasBuilderFee fill then
         let builderFee = from_chars_double bfStr in
         (fill, builderFee)
        else (fill, builderFee))
      else (fill, builderFee)) in
     let fill = fill\<lparr>fi_builderFee := (if fi_hasBuilderFee fill then builderFee else d_zero)\<rparr> in
     let (ok, liqObj) = (case field_object S obj ''liquidation'' of Inr liqObj \<Rightarrow> (True, liqObj) | Inl _ \<Rightarrow>
         (False, undefined)) in
     let fill = fill\<lparr>fi_isLiquidation := ok\<rparr> in
     bindE (if fi_isLiquidation fill then
       bindE (field_string S liqObj ''liquidatedUser'') (\<lambda>v.
       let fill = fill\<lparr>fi_liquidatedUser := v\<rparr> in
       bindE (field_string S liqObj ''markPx'') (\<lambda>v.
       let fill = fill\<lparr>fi_liquidationMarkPx := from_chars_double v\<rparr> in
       bindE (field_string S liqObj ''method'') (\<lambda>v.
       let fill = fill\<lparr>fi_liquidationMethod := stringToLiquidationMethod v\<rparr> in
       Inr fill)))
      else
       let fill = fill\<lparr>fi_liquidatedUser := []\<rparr> in
       let fill = fill\<lparr>fi_liquidationMarkPx := d_zero\<rparr> in
       let fill = fill\<lparr>fi_liquidationMethod := LiquidationMethod_Unknown\<rparr> in
       Inr fill) (\<lambda>fill.
     let fill = fill\<lparr>fi_isSnapshot := isSnapshot\<rparr> in
     (Inr fill)))))))))))))))))"

definition crackFill :: "'v sj_reader \<Rightarrow> 'v \<Rightarrow> stream_event list \<Rightarrow> bool \<Rightarrow>
    (stream_event list) exit + stream_event list" where
  "crackFill S obj listener isSnapshot =
     (tryE listener (parseFillObject S obj isSnapshot) (\<lambda>v.
     let listener = listener @ [OnUserFill v] in
     Inr listener))"

definition crackOrderUpdates :: "'v sj_reader \<Rightarrow> 'v list \<Rightarrow> stream_event list \<Rightarrow>
    (stream_event list) exit + stream_event list" where
  "crackOrderUpdates S data listener =
     (foldE (\<lambda>entry listener.
       tryE listener (finish (
        tryE listener (sj_object S entry) (\<lambda>obj.
        tryE listener (field_object S obj ''order'') (\<lambda>order.
        let update = OrderUpdate_init in
        tryE listener (field_string S order ''coin'') (\<lambda>v.
        let update = update\<lparr>ou_coin := v\<rparr> in
        tryE listener (field_string S order ''side'') (\<lambda>sideStr.
        let update = update\<lparr>ou_side := (if 0 < (length sideStr) then sideStr ! 0 else CHR ''?'')\<rparr> in
        tryE listener (field_string S order ''limitPx'') (\<lambda>v.
        let update = update\<lparr>ou_limitPx := from_chars_double v\<rparr> in
        tryE listener (field_string S order ''sz'') (\<lambda>v.
        let update = update\<lparr>ou_sz := from_chars_double v\<rparr> in
        tryE listener (field_uint64 S order ''oid'') (\<lambda>v.
        let update = update\<lparr>ou_oid := v\<rparr> in
        tryE listener (field_uint64 S order ''timestamp'') (\<lambda>v.
        let update = update\<lparr>ou_timestamp := v\<rparr> in
        tryE listener (field_string S order ''origSz'') (\<lambda>v.
        let update = update\<lparr>ou_origSz := from_chars_double v\<rparr> in
        let update = (case field_string S order ''cloid'' of
         Inr cloidStr \<Rightarrow>
           let update = update\<lparr>ou_cloid := cloidStr\<rparr> in
           update
         | Inl _ \<Rightarrow>
           update) in
        tryE listener (field_string S obj ''status'') (\<lambda>v.
        let update = update\<lparr>ou_status := stringToOrderStatus v\<rparr> in
        tryE listener (field_uint64 S obj ''statusTimestamp'') (\<lambda>v.
        let update = update\<lparr>ou_statusTimestamp := v\<rparr> in
        let listener = listener @ [OnOrderUpdate update] in
        Inr listener))))))))))))) (\<lambda>listener.
       Inr listener)) data listener)"

definition crackUserFills :: "'v sj_reader \<Rightarrow> 'v \<Rightarrow> stream_event list \<Rightarrow>
    (stream_event list) exit + stream_event list" where
  "crackUserFills S data listener =
     (let isSnapshot = False in
     let snapshotVal = sj_field S data ''isSnapshot'' in
     bindE (if \<not> (isl snapshotVal) then
       tryE listener (bindE snapshotVal (sj_bool S)) (\<lambda>v.
       let isSnapshot = v in
       Inr isSnapshot)
      else Inr isSnapshot) (\<lambda>isSnapshot.
     tryE listener (field_array S data ''fills'') (\<lambda>fills.
     foldE (\<lambda>entry listener.
       tryE listener (finish (
        tryE listener (sj_object S entry) (\<lambda>obj.
        callE (\<lambda>listener. listener) (crackFill S obj listener isSnapshot) (\<lambda>listener.
        Inr listener)))) (\<lambda>listener.
       Inr listener)) fills listener)))"

definition crackUserEvents :: "'v sj_reader \<Rightarrow> 'v \<Rightarrow> stream_event list \<Rightarrow>
    (stream_event list) exit + stream_event list" where
  "crackUserEvents S data listener =
     ((case field_array S data ''fills'' of
      Inr fillsArr \<Rightarrow>
        bindE (foldE (\<lambda>entry listener.
          tryE listener (finish (
           tryE listener (sj_object S entry) (\<lambda>obj.
           callE (\<lambda>listener. listener) (crackFill S obj listener False) (\<lambda>listener.
           Inr listener)))) (\<lambda>listener.
          Inr listener)) fillsArr listener) (\<lambda>listener.
        Inl (Return listener))
      | Inl _ \<Rightarrow>
        (case field_object S data ''funding'' of
         Inr fundingObj \<Rightarrow>
           let funding = UserFunding_init in
           tryE listener (field_uint64 S fundingObj ''time'') (\<lambda>v.
           let funding = funding\<lparr>uf_time := v\<rparr> in
           tryE listener (field_string S fundingObj ''coin'') (\<lambda>v.
           let funding = funding\<lparr>uf_coin := v\<rparr> in
           tryE listener (field_string S fundingObj ''usdc'') (\<lambda>v.
           let funding = funding\<lparr>uf_usdc := from_chars_double v\<rparr> in
           tryE listener (field_string S fundingObj ''szi'') (\<lambda>v.
           let funding = funding\<lparr>uf_szi := from_chars_double v\<rparr> in
           tryE listener (field_string S fundingObj ''fundingRate'') (\<lambda>v.
           let funding = funding\<lparr>uf_fundingRate := from_chars_double v\<rparr> in
           let listener = listener @ [OnUserFunding funding] in
           Inl (Return listener))))))
         | Inl _ \<Rightarrow>
           (case field_object S data ''liquidation'' of
            Inr liqObj \<Rightarrow>
              let liq = Liquidation_init in
              tryE listener (field_uint64 S liqObj ''lid'') (\<lambda>v.
              let liq = liq\<lparr>li_lid := v\<rparr> in
              tryE listener (field_string S liqObj ''liquidator'') (\<lambda>v.
              let liq = liq\<lparr>li_liquidator := v\<rparr> in
              tryE listener (field_string S liqObj ''liquidatedUser'') (\<lambda>v.
              let liq = liq\<lparr>li_liquidatedUser := v\<rparr> in
              tryE listener (field_string S liqObj ''liquidatedNtlPos'') (\<lambda>v.
              let liq = liq\<lparr>li_liquidatedNtlPos := from_chars_double v\<rparr> in
              tryE listener (field_string S liqObj ''liquidatedAccountValue'') (\<lambda>v.
              let liq = liq\<lparr>li_liquidatedAccountValue := from_chars_double v\<rparr> in
              let listener = listener @ [OnLiquidation liq] in
              Inl (Return listener))))))
            | Inl _ \<Rightarrow>
              (case field_array S data ''nonUserCancel'' of
               Inr cancelArr \<Rightarrow>
                 bindE (foldE (\<lambda>entry listener.
                   tryE listener (finish (
                    tryE listener (sj_object S entry) (\<lambda>obj.
                    let cancel = NonUserCancel_init in
                    tryE listener (field_string S obj ''coin'') (\<lambda>v.
                    let cancel = cancel\<lparr>nuc_coin := v\<rparr> in
                    tryE listener (field_uint64 S obj ''oid'') (\<lambda>v.
                    let cancel = cancel\<lparr>nuc_oid := v\<rparr> in
                    let listener = listener @ [OnNonUserCancel cancel] in
                    Inr listener))))) (\<lambda>listener.
                   Inr listener)) cancelArr listener) (\<lambda>listener.
                 Inl (Return listener))
               | Inl _ \<Rightarrow>
                 Inr listener)))))"

definition crackUserFundings :: "'v sj_reader \<Rightarrow> 'v \<Rightarrow> stream_event list \<Rightarrow>
    (stream_event list) exit + stream_event list" where
  "crackUserFundings S data listener =
     (let isSnapshot = False in
     let isSnapshot = (case field_bool S data ''isSnapshot'' of
      Inr snapshotVal \<Rightarrow>
        let isSnapshot = snapshotVal in
        isSnapshot
      | Inl _ \<Rightarrow>
        isSnapshot) in
     tryE listener (field_array S data ''fundings'') (\<lambda>fundings.
     foldE (\<lambda>entry listener.
       tryE listener (finish (
        tryE listener (sj_object S entry) (\<lambda>obj.
        let funding = UserFunding_init in
        tryE listener (field_uint64 S obj ''time'') (\<lambda>v.
        let funding = funding\<lparr>uf_time := v\<rparr> in
        tryE listener (field_string S obj ''coin'') (\<lambda>v.
        let funding = funding\<lparr>uf_coin := v\<rparr> in
        tryE listener (field_string S obj ''usdc'') (\<lambda>v.
        let funding = funding\<lparr>uf_usdc := from_chars_double v\<rparr> in
        tryE listener (field_string S obj ''szi'') (\<lambda>v.
        let funding = funding\<lparr>uf_szi := from_chars_double v\<rparr> in
        tryE listener (field_string S obj ''fundingRate'') (\<lambda>v.
        let funding = funding\<lparr>uf_fundingRate := from_chars_double v\<rparr> in
        let funding = funding\<lparr>uf_isSnapshot := isSnapshot\<rparr> in
        let listener = listener @ [OnUserFundingUpdate funding] in
        Inr listener)))))))) (\<lambda>listener.
       Inr listener)) fundings listener))"

definition crackLedgerDelta :: "'v sj_reader \<Rightarrow> 'v \<Rightarrow> LedgerUpdate \<Rightarrow>
    LedgerUpdate exit + LedgerUpdate" where
  "crackLedgerDelta S delta update =
     (tryE update (field_string S delta ''type'') (\<lambda>typeStr.
     let update = update\<lparr>lu_type := stringToLedgerUpdateType typeStr\<rparr> in
     bindE (case lu_type update of
     LedgerUpdateType_Deposit \<Rightarrow>
       tryE update (toDoubleField S delta ''usdc'') (\<lambda>v.
       let update = update\<lparr>lu_usdc := v\<rparr> in
       Inr update)
     | LedgerUpdateType_Withdraw \<Rightarrow>
       tryE update (toDoubleField S delta ''usdc'') (\<lambda>v.
       let update = update\<lparr>lu_usdc := v\<rparr> in
       tryE update (field_uint64 S delta ''nonce'') (\<lambda>v.
       let update = update\<lparr>lu_nonce := v\<rparr> in
       tryE update (toDoubleField S delta ''fee'') (\<lambda>v.
       let update = update\<lparr>lu_fee := v\<rparr> in
       Inr update)))
     | LedgerUpdateType_InternalTransfer \<Rightarrow>
       tryE update (toDoubleField S delta ''usdc'') (\<lambda>v.
       let update = update\<lparr>lu_usdc := v\<rparr> in
       tryE update (field_string S delta ''user'') (\<lambda>v.
       let update = update\<lparr>lu_user := v\<rparr> in
       tryE update (field_string S delta ''destination'') (\<lambda>v.
       let update = update\<lparr>lu_destination := v\<rparr> in
       tryE update (toDoubleField S delta ''fee'') (\<lambda>v.
       let update = update\<lparr>lu_fee := v\<rparr> in
       Inr update))))
     | LedgerUpdateType_SubAccountTransfer \<Rightarrow>
       tryE update (toDoubleField S delta ''usdc'') (\<lambda>v.
       let update = update\<lparr>lu_usdc := v\<rparr> in
       tryE update (field_string S delta ''user'') (\<lambda>v.
       let update = update\<lparr>lu_user := v\<rparr> in
       tryE update (field_string S delta ''destination'') (\<lambda>v.
       let update = update\<lparr>lu_destination := v\<rparr> in
       Inr update)))
     | LedgerUpdateType_Liquidation \<Rightarrow>
       tryE update (toDoubleField S delta ''accountValue'') (\<lambda>v.
       let update = update\<lparr>lu_accountValue := v\<rparr> in
       tryE update (field_string S delta ''leverageType'') (\<lambda>v.
       let update = update\<lparr>lu_leverageType := stringToLeverageType v\<rparr> in
       (case field_array S delta ''liquidatedPositions'' of
        Inr positions \<Rightarrow>
          foldE (\<lambda>posEntry update.
            tryE update (sj_object S posEntry) (\<lambda>posObj.
            let pos = LiquidatedPosition_init in
            tryE update (field_string S posObj ''coin'') (\<lambda>v.
            let pos = pos\<lparr>lp_coin := v\<rparr> in
            tryE update (toDoubleField S posObj ''szi'') (\<lambda>v.
            let pos = pos\<lparr>lp_szi := v\<rparr> in
            let update = update\<lparr>lu_liquidatedPositions := (lu_liquidatedPositions update) @ [pos]\<rparr> in
            Inr update)))) positions update
        | Inl _ \<Rightarrow>
          Inr update)))
     | LedgerUpdateType_VaultCreate \<Rightarrow>
       tryE update (field_string S delta ''vault'') (\<lambda>v.
       let update = update\<lparr>lu_vault := v\<rparr> in
       tryE update (toDoubleField S delta ''usdc'') (\<lambda>v.
       let update = update\<lparr>lu_usdc := v\<rparr> in
       Inr update))
     | LedgerUpdateType_VaultDeposit \<Rightarrow>
       tryE update (field_string S delta ''vault'') (\<lambda>v.
       let update = update\<lparr>lu_vault := v\<rparr> in
       tryE update (toDoubleField S delta ''usdc'') (\<lambda>v.
       let update = update\<lparr>lu_usdc := v\<rparr> in
       Inr update))
     | LedgerUpdateType_VaultDistribution \<Rightarrow>
       tryE update (field_string S delta ''vault'') (\<lambda>v.
       let update = update\<lparr>lu_vault := v\<rparr> in
       tryE update (toDoubleField S delta ''usdc'') (\<lambda>v.
       let update = update\<lparr>lu_usdc := v\<rparr> in
       Inr update))
     | LedgerUpdateType_VaultWithdraw \<Rightarrow>
       tryE update (field_string S delta ''vault'') (\<lambda>v.
       let update = update\<lparr>lu_vault := v\<rparr> in
       tryE update (field_string S delta ''user'') (\<lambda>v.
       let update = update\<lparr>lu_user := v\<rparr> in
       tryE update (toDoubleField S delta ''requestedUsd'') (\<lambda>v.
       let update = update\<lparr>lu_requestedUsd := v\<rparr> in
       tryE update (toDoubleField S delta ''commission'') (\<lambda>v.
       let update = update\<lparr>lu_commission := v\<rparr> in
       tryE update (toDoubleField S delta ''closingCost'') (\<lambda>v.
       let update = update\<lparr>lu_closingCost := v\<rparr> in
       tryE update (toDoubleField S delta ''basis'') (\<lambda>v.
       let update = update\<lparr>lu_basis := v\<rparr> in
       tryE update (toDoubleField S delta ''netWithdrawnUsd'') (\<lambda>v.
       let update = update\<lparr>lu_netWithdrawnUsd := v\<rparr> in
       Inr update)))))))
     | LedgerUpdateType_VaultLeaderCommission \<Rightarrow>
       tryE update (field_string S delta ''user'') (\<lambda>v.
       let update = update\<lparr>lu_user := v\<rparr> in
       tryE update (toDoubleField S delta ''usdc'') (\<lambda>v.
       let update = update\<lparr>lu_usdc := v\<rparr> in
       Inr update))
     | LedgerUpdateType_SpotTransfer \<Rightarrow>
       tryE update (field_string S delta ''token'') (\<lambda>v.
       let update = update\<lparr>lu_token := v\<rparr> in
       tryE update (toDoubleField S delta ''amount'') (\<lambda>v.
       let update = update\<lparr>lu_amount := v\<rparr> in
       tryE update (toDoubleField S delta ''usdcValue'') (\<lambda>v.
       let update = update\<lparr>lu_usdcValue := v\<rparr> in
       tryE update (field_string S delta ''user'') (\<lambda>v.
       let update = update\<lparr>lu_user := v\<rparr> in
       tryE update (field_string S delta ''destination'') (\<lambda>v.
       let update = update\<lparr>lu_destination := v\<rparr> in
       tryE update (toDoubleField S delta ''fee'') (\<lambda>v.
       let update = update\<lparr>lu_fee := v\<rparr> in
       Inr update))))))
     | LedgerUpdateType_Send \<Rightarrow>
       tryE update (field_string S delta ''user'') (\<lambda>v.
       let update = update\<lparr>lu_user := v\<rparr> in
       tryE update (field_string S delta ''destination'') (\<lambda>v.
       let update = update\<lparr>lu_destination := v\<rparr> in
       tryE update (field_string S delta ''sourceDex'') (\<lambda>v.
       let update = update\<lparr>lu_sourceDex := v\<rparr> in
       tryE update (field_string S delta ''destinationDex'') (\<lambda>v.
       let update = update\<lparr>lu_destinationDex := v\<rparr> in
       tryE update (field_string S delta ''token'') (\<lambda>v.
       let update = update\<lparr>lu_token := v\<rparr> in
       tryE update (toDoubleField S delta ''amount'') (\<lambda>v.
       let update = update\<lparr>lu_amount := v\<rparr> in
       tryE update (toDoubleField S delta ''usdcValue'') (\<lambda>v.
       let update = update\<lparr>lu_usdcValue := v\<rparr> in
       tryE update (toDoubleField S delta ''fee'') (\<lambda>v.
       let update = update\<lparr>lu_fee := v\<rparr> in
       tryE update (toDoubleField S delta ''nativeTokenFee'') (\<lambda>v.
       let update = update\<lparr>lu_nativeTokenFee := v\<rparr> in
       tryE update (field_uint64 S delta ''nonce'') (\<lambda>v.
       let update = update\<lparr>lu_nonce := v\<rparr> in
       tryE update (field_string S delta ''feeToken'') (\<lambda>v.
       let update = update\<lparr>lu_feeToken := v\<rparr> in
       Inr update)))))))))))
     | LedgerUpdateType_AccountClassTransfer \<Rightarrow>
       tryE update (toDoubleField S delta ''usdc'') (\<lambda>v.
       let update = update\<lparr>lu_usdc := v\<rparr> in
       tryE update (field_bool S delta ''toPerp'') (\<lambda>v.
       let update = update\<lparr>lu_toPerp := v\<rparr> in
       Inr update))
     | LedgerUpdateType_SpotGenesis \<Rightarrow>
       tryE update (field_string S delta ''token'') (\<lambda>v.
       let update = update\<lparr>lu_token := v\<rparr> in
       tryE update (toDoubleField S delta ''amount'') (\<lambda>v.
       let update = update\<lparr>lu_amount := v\<rparr> in
       Inr update))
     | LedgerUpdateType_RewardsClaim \<Rightarrow>
       tryE update (toDoubleField S delta ''amount'') (\<lambda>v.
       let update = update\<lparr>lu_amount := v\<rparr> in
       Inr update)
     | _ \<Rightarrow>
       Inr update) (\<lambda>update.
     Inr update)))"

definition crackUserNonFundingLedgerUpdates :: "'v sj_reader \<Rightarrow> 'v \<Rightarrow> stream_event list \<Rightarrow>
    (stream_event list) exit + stream_event list" where
  "crackUserNonFundingLedgerUpdates S data listener =
     (let isSnapshot = False in
     let isSnapshot = (case field_bool S data ''isSnapshot'' of
      Inr snapshotVal \<Rightarrow>
        let isSnapshot = snapshotVal in
        isSnapshot
      | Inl _ \<Rightarrow>
        isSnapshot) in
     tryE listener (field_array S data ''nonFundingLedgerUpdates'') (\<lambda>updates.
     foldE (\<lambda>entry listener.
       tryE listener (finish (
        tryE listener (sj_object S entry) (\<lambda>obj.
        let update = LedgerUpdate_zero in
        tryE listener (field_uint64 S obj ''time'') (\<lambda>v.
        let update = update\<lparr>lu_time := v\<rparr> in
        tryE listener (field_string S obj ''hash'') (\<lambda>v.
        let update = update\<lparr>lu_hash := v\<rparr> in
        tryE listener (field_object S obj ''delta'') (\<lambda>delta.
        callE (\<lambda>update. listener) (crackLedgerDelta S delta update) (\<lambda>update.
        let update = update\<lparr>lu_isSnapshot := isSnapshot\<rparr> in
        let listener = listener @ [OnLedgerUpdate update] in
        Inr listener))))))) (\<lambda>listener.
       Inr listener)) updates listener))"

definition crackWebData3 :: "'v sj_reader \<Rightarrow> 'v \<Rightarrow> stream_event list \<Rightarrow>
    (stream_event list) exit + stream_event list" where
  "crackWebData3 S data listener =
     (let update = WebData3Update_init in
     let rawStr = sj_raw S data in
     bindE (if \<not> (isl rawStr) then
       tryE listener rawStr (\<lambda>v.
       let update = update\<lparr>wdu_raw := v\<rparr> in
       Inr update)
      else Inr update) (\<lambda>update.
     bindE (case field_object S data ''userState'' of
      Inr userState \<Rightarrow>
        let update = (case field_string S userState ''agentAddress'' of
         Inr agentAddress \<Rightarrow>
           let update = update\<lparr>wdu_userState := (wdu_userState update)\<lparr>wdus_agentAddress := Some agentAddress\<rparr>\<rparr> in
           update
         | Inl _ \<Rightarrow>
           update) in
        let update = (case field_uint64 S userState ''agentValidUntil'' of
         Inr agentValidUntil \<Rightarrow>
           let update = update\<lparr>wdu_userState := (wdu_userState update)\<lparr>wdus_agentValidUntil := Some agentValidUntil\<rparr>\<rparr> in
           update
         | Inl _ \<Rightarrow>
           update) in
        tryE listener (field_uint64 S userState ''serverTime'') (\<lambda>v.
        let update = update\<lparr>wdu_userState := (wdu_userState update)\<lparr>wdus_serverTime := v\<rparr>\<rparr> in
        tryE listener (toDoubleField S userState ''cumLedger'') (\<lambda>v.
        let update = update\<lparr>wdu_userState := (wdu_userState update)\<lparr>wdus_cumLedger := v\<rparr>\<rparr> in
        tryE listener (field_bool S userState ''isVault'') (\<lambda>v.
        let update = update\<lparr>wdu_userState := (wdu_userState update)\<lparr>wdus_isVault := v\<rparr>\<rparr> in
        tryE listener (field_string S userState ''user'') (\<lambda>v.
        let update = update\<lparr>wdu_userState := (wdu_userState update)\<lparr>wdus_user := v\<rparr>\<rparr> in
        let (ok, optOut) = (case field_bool S userState ''optOutOfSpotDusting'' of Inr optOut \<Rightarrow> (optOut, optOut)
            | Inl _ \<Rightarrow> (False, undefined)) in
        let update = update\<lparr>wdu_userState := (wdu_userState update)\<lparr>wdus_optOutOfSpotDusting := ok\<rparr>\<rparr> in
        let (ok, dexAbstraction) = (case field_bool S userState ''dexAbstractionEnabled'' of Inr dexAbstraction \<Rightarrow>
            (dexAbstraction, dexAbstraction) | Inl _ \<Rightarrow> (False, undefined)) in
        let update = update\<lparr>wdu_userState := (wdu_userState update)\<lparr>wdus_dexAbstractionEnabled := ok\<rparr>\<rparr> in
        Inr update))))
      | Inl _ \<Rightarrow>
        Inr update) (\<lambda>update.
     bindE (case field_array S data ''perpDexStates'' of
      Inr perpDexStates \<Rightarrow>
        foldE (\<lambda>entry update.
          tryE listener (finish (
           tryE update (sj_object S entry) (\<lambda>obj.
           let state = PerpDexState_init in
           tryE update (toDoubleField S obj ''totalVaultEquity'') (\<lambda>v.
           let state = state\<lparr>pds_totalVaultEquity := v\<rparr> in
           bindE (case field_array S obj ''perpsAtOpenInterestCap'' of
            Inr caps \<Rightarrow>
              foldE (\<lambda>capEntry state.
                tryE update (sj_string S capEntry) (\<lambda>v.
                let state = state\<lparr>pds_perpsAtOpenInterestCap := (pds_perpsAtOpenInterestCap state) @ [v]\<rparr> in
                Inr state)) caps state
            | Inl _ \<Rightarrow>
              Inr state) (\<lambda>state.
           bindE (case field_array S obj ''leadingVaults'' of
            Inr vaults \<Rightarrow>
              foldE (\<lambda>vaultEntry state.
                tryE update (sj_object S vaultEntry) (\<lambda>vaultObj.
                let vault = LeadingVault_init in
                tryE update (field_string S vaultObj ''address'') (\<lambda>v.
                let vault = vault\<lparr>lv_address := v\<rparr> in
                tryE update (field_string S vaultObj ''name'') (\<lambda>v.
                let vault = vault\<lparr>lv_name := v\<rparr> in
                let state = state\<lparr>pds_leadingVaults := (pds_leadingVaults state) @ [vault]\<rparr> in
                Inr state)))) vaults state
            | Inl _ \<Rightarrow>
              Inr state) (\<lambda>state.
           let update = update\<lparr>wdu_perpDexStates := (wdu_perpDexStates update) @ [state]\<rparr> in
           Inr update)))))) (\<lambda>update.
          Inr update)) perpDexStates update
      | Inl _ \<Rightarrow>
        Inr update) (\<lambda>update.
     let listener = listener @ [OnWebData3 update] in
     Inr listener))))"

definition crackInnerClearinghouseState :: "'v sj_reader \<Rightarrow> 'v \<Rightarrow> ClearinghouseState \<Rightarrow>
    ClearinghouseState exit + ClearinghouseState" where
  "crackInnerClearinghouseState S obj state =
     (bindE (case field_array S obj ''assetPositions'' of
      Inr positions \<Rightarrow>
        foldE (\<lambda>entry state.
          tryE state (finish (
           tryE state (sj_object S entry) (\<lambda>posEntry.
           tryE state (field_object S posEntry ''position'') (\<lambda>position.
           let pos = AssetPosition_init in
           tryE state (field_string S position ''coin'') (\<lambda>v.
           let pos = pos\<lparr>ap_coin := v\<rparr> in
           tryE state (toDoubleField S position ''szi'') (\<lambda>v.
           let pos = pos\<lparr>ap_szi := v\<rparr> in
           tryE state (toDoubleField S position ''entryPx'') (\<lambda>v.
           let pos = pos\<lparr>ap_entryPx := v\<rparr> in
           tryE state (toDoubleField S position ''positionValue'') (\<lambda>v.
           let pos = pos\<lparr>ap_positionValue := v\<rparr> in
           tryE state (toDoubleField S position ''unrealizedPnl'') (\<lambda>v.
           let pos = pos\<lparr>ap_unrealizedPnl := v\<rparr> in
           tryE state (toDoubleField S position ''returnOnEquity'') (\<lambda>v.
           let pos = pos\<lparr>ap_returnOnEquity := v\<rparr> in
           tryE state (toDoubleField S position ''marginUsed'') (\<lambda>v.
           let pos = pos\<lparr>ap_marginUsed := v\<rparr> in
           tryE state (field_int64 S position ''maxLeverage'') (\<lambda>v.
           let pos = pos\<lparr>ap_maxLeverage := to_int32 v\<rparr> in
           let (ok, liqPxStr) = (case field_string S position ''liquidationPx'' of Inr liqPxStr \<Rightarrow>
               (\<not> (liqPxStr = []), liqPxStr) | Inl _ \<Rightarrow> (False, '''')) in
           let pos = pos\<lparr>ap_hasLiquidationPx := ok\<rparr> in
           let pos = pos\<lparr>ap_liquidationPx := (if ap_hasLiquidationPx pos then from_chars_double liqPxStr else d_zero)\<rparr> in
           bindE (case field_object S position ''leverage'' of
            Inr leverage \<Rightarrow>
              tryE state (field_string S leverage ''type'') (\<lambda>v.
              let pos = pos\<lparr>ap_leverageType := stringToLeverageType v\<rparr> in
              Inr pos)
            | Inl _ \<Rightarrow>
              Inr pos) (\<lambda>pos.
           let state = state\<lparr>cs_assetPositions := (cs_assetPositions state) @ [pos]\<rparr> in
           Inr state))))))))))))) (\<lambda>state.
          Inr state)) positions state
      | Inl _ \<Rightarrow>
        Inr state) (\<lambda>state.
     tryE state (field_object S obj ''marginSummary'') (\<lambda>marginSummary.
     tryE state (toDoubleField S marginSummary ''accountValue'') (\<lambda>v.
     let state = state\<lparr>cs_marginSummary := (cs_marginSummary state)\<lparr>ms_accountValue := v\<rparr>\<rparr> in
     tryE state (toDoubleField S marginSummary ''totalNtlPos'') (\<lambda>v.
     let state = state\<lparr>cs_marginSummary := (cs_marginSummary state)\<lparr>ms_totalNtlPos := v\<rparr>\<rparr> in
     tryE state (toDoubleField S marginSummary ''totalRawUsd'') (\<lambda>v.
     let state = state\<lparr>cs_marginSummary := (cs_marginSummary state)\<lparr>ms_totalRawUsd := v\<rparr>\<rparr> in
     tryE state (toDoubleField S marginSummary ''totalMarginUsed'') (\<lambda>v.
     let state = state\<lparr>cs_marginSummary := (cs_marginSummary state)\<lparr>ms_totalMarginUsed := v\<rparr>\<rparr> in
     tryE state (field_object S obj ''crossMarginSummary'') (\<lambda>crossMarginSummary.
     tryE state (toDoubleField S crossMarginSummary ''accountValue'') (\<lambda>v.
     let state = state\<lparr>cs_crossMarginSummary := (cs_crossMarginSummary state)\<lparr>ms_accountValue := v\<rparr>\<rparr> in
     tryE state (toDoubleField S crossMarginSummary ''totalNtlPos'') (\<lambda>v.
     let state = state\<lparr>cs_crossMarginSummary := (cs_crossMarginSummary state)\<lparr>ms_totalNtlPos := v\<rparr>\<rparr> in
     tryE state (toDoubleField S crossMarginSummary ''totalRawUsd'') (\<lambda>v.
     let state = state\<lparr>cs_crossMarginSummary := (cs_crossMarginSummary state)\<lparr>ms_totalRawUsd := v\<rparr>\<rparr> in
     tryE state (toDoubleField S crossMarginSummary ''totalMarginUsed'') (\<lambda>v.
     let state = state\<lparr>cs_crossMarginSummary := (cs_crossMarginSummary state)\<lparr>ms_totalMarginUsed := v\<rparr>\<rparr> in
     tryE state (toDoubleField S obj ''crossMaintenanceMarginUsed'') (\<lambda>v.
     let state = state\<lparr>cs_crossMaintenanceMarginUsed := v\<rparr> in
     tryE state (toDoubleField S obj ''withdrawable'') (\<lambda>v.
     let state = state\<lparr>cs_withdrawable := v\<rparr> in
     Inr state))))))))))))))"

definition crackClearinghouseState :: "'v sj_reader \<Rightarrow> 'v \<Rightarrow> stream_event list \<Rightarrow>
    (stream_event list) exit + stream_event list" where
  "crackClearinghouseState S data listener =
     (let update = ClearinghouseStateUpdate_init in
     let update = (case field_string S data ''dex'' of
      Inr dex \<Rightarrow>
        let update = update\<lparr>csu_dex := dex\<rparr> in
        update
      | Inl _ \<Rightarrow>
        update) in
     tryE listener (field_string S data ''user'') (\<lambda>v.
     let update = update\<lparr>csu_user := v\<rparr> in
     tryE listener (field_object S data ''clearinghouseState'') (\<lambda>inner.
     callE (\<lambda>r. listener) (crackInnerClearinghouseState S inner (csu_state update)) (\<lambda>r.
     let update = update\<lparr>csu_state := r\<rparr> in
     let listener = listener @ [OnClearinghouseState update] in
     Inr listener))))"

definition crackOpenOrders :: "'v sj_reader \<Rightarrow> 'v \<Rightarrow> stream_event list \<Rightarrow>
    (stream_event list) exit + stream_event list" where
  "crackOpenOrders S data listener =
     (let update = OpenOrdersUpdate_init in
     let update = (case field_string S data ''dex'' of
      Inr dex \<Rightarrow>
        let update = update\<lparr>oou_dex := dex\<rparr> in
        update
      | Inl _ \<Rightarrow>
        update) in
     tryE listener (field_string S data ''user'') (\<lambda>v.
     let update = update\<lparr>oou_user := v\<rparr> in
     tryE listener (field_array S data ''orders'') (\<lambda>orders.
     bindE (foldE (\<lambda>entry update.
       tryE listener (finish (
        tryE update (sj_object S entry) (\<lambda>obj.
        let order = OpenOrder_init in
        tryE update (field_string S obj ''coin'') (\<lambda>v.
        let order = order\<lparr>oo_coin := v\<rparr> in
        tryE update (field_string S obj ''side'') (\<lambda>sideStr.
        let order = order\<lparr>oo_side := (if 0 < (length sideStr) then sideStr ! 0 else CHR ''?'')\<rparr> in
        tryE update (field_string S obj ''limitPx'') (\<lambda>v.
        let order = order\<lparr>oo_limitPx := from_chars_double v\<rparr> in
        tryE update (field_string S obj ''sz'') (\<lambda>v.
        let order = order\<lparr>oo_sz := from_chars_double v\<rparr> in
        tryE update (field_uint64 S obj ''oid'') (\<lambda>v.
        let order = order\<lparr>oo_oid := v\<rparr> in
        tryE update (field_uint64 S obj ''timestamp'') (\<lambda>v.
        let order = order\<lparr>oo_timestamp := v\<rparr> in
        tryE update (field_string S obj ''origSz'') (\<lambda>v.
        let order = order\<lparr>oo_origSz := from_chars_double v\<rparr> in
        let order = (case field_string S obj ''cloid'' of
         Inr cloidStr \<Rightarrow>
           let order = order\<lparr>oo_cloid := cloidStr\<rparr> in
           order
         | Inl _ \<Rightarrow>
           order) in
        let update = update\<lparr>oou_orders := (oou_orders update) @ [order]\<rparr> in
        Inr update)))))))))) (\<lambda>update.
       Inr update)) orders update) (\<lambda>update.
     let listener = listener @ [OnOpenOrdersSnapshot update] in
     Inr listener))))"

definition crackTwapState :: "'v sj_reader \<Rightarrow> 'v \<Rightarrow> TwapState \<Rightarrow> TwapState exit + TwapState" where
  "crackTwapState S obj state =
     (tryE state (field_string S obj ''coin'') (\<lambda>v.
     let state = state\<lparr>ts_coin := v\<rparr> in
     tryE state (field_string S obj ''user'') (\<lambda>v.
     let state = state\<lparr>ts_user := v\<rparr> in
     tryE state (field_string S obj ''side'') (\<lambda>sideStr.
     let state = state\<lparr>ts_side := (if 0 < (length sideStr) then sideStr ! 0 else CHR ''?'')\<rparr> in
     tryE state (toDoubleField S obj ''sz'') (\<lambda>v.
     let state = state\<lparr>ts_sz := v\<rparr> in
     tryE state (toDoubleField S obj ''executedSz'') (\<lambda>v.
     let state = state\<lparr>ts_executedSz := v\<rparr> in
     tryE state (toDoubleField S obj ''executedNtl'') (\<lambda>v.
     let state = state\<lparr>ts_executedNtl := v\<rparr> in
     tryE state (field_int64 S obj ''minutes'') (\<lambda>v.
     let state = state\<lparr>ts_minutes := to_int32 v\<rparr> in
     tryE state (field_bool S obj ''reduceOnly'') (\<lambda>v.
     let state = state\<lparr>ts_reduceOnly := v\<rparr> in
     tryE state (field_bool S obj ''randomize'') (\<lambda>v.
     let state = state\<lparr>ts_randomize := v\<rparr> in
     tryE state (field_uint64 S obj ''timestamp'') (\<lambda>v.
     let state = state\<lparr>ts_timestamp := v\<rparr> in
     Inr state)))))))))))"

definition crackTwapStates :: "'v sj_reader \<Rightarrow> 'v \<Rightarrow> stream_event list \<Rightarrow>
    (stream_event list) exit + stream_event list" where
  "crackTwapStates S data listener =
     (let update = TwapStatesUpdate_init in
     let update = (case field_string S data ''dex'' of
      Inr dex \<Rightarrow>
        let update = update\<lparr>tsu_dex := dex\<rparr> in
        update
      | Inl _ \<Rightarrow>
        update) in
     tryE listener (field_string S data ''user'') (\<lambda>v.
     let update = update\<lparr>tsu_user := v\<rparr> in
     tryE listener (field_array S data ''states'') (\<lambda>states.
     bindE (foldE (\<lambda>entry update.
       tryE listener (finish (
        tryE update (sj_array S entry) (\<lambda>pair.
        let state = TwapState_zero in
        let idx = (0 :: u64) in
        bindE (foldE (\<lambda>item (state, idx).
          bindE (if idx = 0 then
            tryE update (sj_uint64 S item) (\<lambda>v.
            let state = state\<lparr>ts_id := v\<rparr> in
            Inr state)
           else
            tryE update (sj_object S item) (\<lambda>obj.
            callE (\<lambda>state. update) (crackTwapState S obj state) (\<lambda>state.
            Inr state))) (\<lambda>state.
          let idx = idx + 1 in
          Inr (state, idx))) pair (state, idx)) (\<lambda>(state, idx).
        let update = update\<lparr>tsu_states := (tsu_states update) @ [state]\<rparr> in
        Inr update)))) (\<lambda>update.
       Inr update)) states update) (\<lambda>update.
     let listener = listener @ [OnTwapStates update] in
     Inr listener))))"

definition crackNotification :: "'v sj_reader \<Rightarrow> 'v \<Rightarrow> stream_event list \<Rightarrow>
    (stream_event list) exit + stream_event list" where
  "crackNotification S data listener =
     (let notification = Notification_init in
     tryE listener (field_string S data ''notification'') (\<lambda>v.
     let notification = notification\<lparr>no_notification := v\<rparr> in
     let listener = listener @ [OnNotification notification] in
     Inr listener))"

definition crackUserTwapSliceFills :: "'v sj_reader \<Rightarrow> 'v \<Rightarrow> stream_event list \<Rightarrow>
    (stream_event list) exit + stream_event list" where
  "crackUserTwapSliceFills S data listener =
     (let isSnapshot = False in
     let isSnapshot = (case field_bool S data ''isSnapshot'' of
      Inr snapshotVal \<Rightarrow>
        let isSnapshot = snapshotVal in
        isSnapshot
      | Inl _ \<Rightarrow>
        isSnapshot) in
     tryE listener (field_array S data ''twapSliceFills'') (\<lambda>sliceFills.
     foldE (\<lambda>entry listener.
       tryE listener (finish (
        tryE listener (sj_object S entry) (\<lambda>obj.
        tryE listener (field_object S obj ''fill'') (\<lambda>fillObj.
        let sliceFill = TwapSliceFill_init in
        tryE listener (parseFillObject S fillObj isSnapshot) (\<lambda>v.
        let sliceFill = sliceFill\<lparr>tsf_fill := v\<rparr> in
        tryE listener (field_uint64 S obj ''twapId'') (\<lambda>v.
        let sliceFill = sliceFill\<lparr>tsf_twapId := v\<rparr> in
        let listener = listener @ [OnUserTwapSliceFill sliceFill] in
        Inr listener)))))) (\<lambda>listener.
       Inr listener)) sliceFills listener))"

definition crackUserTwapHistory :: "'v sj_reader \<Rightarrow> 'v \<Rightarrow> stream_event list \<Rightarrow>
    (stream_event list) exit + stream_event list" where
  "crackUserTwapHistory S data listener =
     (let isSnapshot = False in
     let isSnapshot = (case field_bool S data ''isSnapshot'' of
      Inr snapshotVal \<Rightarrow>
        let isSnapshot = snapshotVal in
        isSnapshot
      | Inl _ \<Rightarrow>
        isSnapshot) in
     tryE listener (field_array S data ''history'') (\<lambda>history.
     foldE (\<lambda>entry listener.
       tryE listener (finish (
        tryE listener (sj_object S entry) (\<lambda>obj.
        let hist = TwapHistoryEntry_zero in
        tryE listener (field_object S obj ''state'') (\<lambda>stateObj.
        callE (\<lambda>r. listener) (crackTwapState S stateObj (the_state hist)) (\<lambda>r.
        let hist = hist\<lparr>the_state := r\<rparr> in
        tryE listener (field_object S obj ''status'') (\<lambda>statusObj.
        tryE listener (field_string S statusObj ''status'') (\<lambda>v.
        let hist = hist\<lparr>the_status := stringToTwapHistoryStatus v\<rparr> in
        let hist = (case field_string S statusObj ''description'' of
         Inr desc \<Rightarrow>
           let hist = hist\<lparr>the_description := desc\<rparr> in
           hist
         | Inl _ \<Rightarrow>
           hist) in
        tryE listener (field_uint64 S obj ''time'') (\<lambda>v.
        let hist = hist\<lparr>the_time := v\<rparr> in
        let hist = hist\<lparr>the_isSnapshot := isSnapshot\<rparr> in
        let listener = listener @ [OnUserTwapHistory hist] in
        Inr listener)))))))) (\<lambda>listener.
       Inr listener)) history listener))"

definition crackActiveAssetData :: "'v sj_reader \<Rightarrow> 'v \<Rightarrow> stream_event list \<Rightarrow>
    (stream_event list) exit + stream_event list" where
  "crackActiveAssetData S data listener =
     (let result = ActiveAssetData_zero in
     tryE listener (field_string S data ''user'') (\<lambda>v.
     let result = result\<lparr>aad_user := v\<rparr> in
     tryE listener (field_string S data ''coin'') (\<lambda>v.
     let result = result\<lparr>aad_coin := v\<rparr> in
     bindE (case field_object S data ''leverage'' of
      Inr leverage \<Rightarrow>
        tryE listener (field_string S leverage ''type'') (\<lambda>v.
        let result = result\<lparr>aad_leverageType := stringToLeverageType v\<rparr> in
        Inr result)
      | Inl _ \<Rightarrow>
        Inr result) (\<lambda>result.
     tryE listener (field_array S data ''maxTradeSzs'') (\<lambda>maxTradeSzs.
     let idx = (0 :: u64) in
     bindE (foldE (\<lambda>v (result, idx).
       tryE listener ((case sj_string S v of Inr sv \<Rightarrow> (Inr (from_chars_double sv)) | Inl _ \<Rightarrow>
           (sj_double S v))) (\<lambda>val.
       let result = (if idx = 0 then
         let result = result\<lparr>aad_maxTradeSzLong := val\<rparr> in
         result
        else (if idx = 1 then
          let result = result\<lparr>aad_maxTradeSzShort := val\<rparr> in
          result
         else result)) in
       let idx = idx + 1 in
       Inr (result, idx))) maxTradeSzs (result, idx)) (\<lambda>(result, idx).
     tryE listener (field_array S data ''availableToTrade'') (\<lambda>availableToTrade.
     let idx = (0 :: u64) in
     bindE (foldE (\<lambda>v (result, idx).
       tryE listener ((case sj_string S v of Inr sv \<Rightarrow> (Inr (from_chars_double sv)) | Inl _ \<Rightarrow>
           (sj_double S v))) (\<lambda>val.
       let result = (if idx = 0 then
         let result = result\<lparr>aad_availableToTradeLong := val\<rparr> in
         result
        else (if idx = 1 then
          let result = result\<lparr>aad_availableToTradeShort := val\<rparr> in
          result
         else result)) in
       let idx = idx + 1 in
       Inr (result, idx))) availableToTrade (result, idx)) (\<lambda>(result, idx).
     let listener = listener @ [OnActiveAssetData result] in
     Inr listener))))))))"

definition crackSpotState :: "'v sj_reader \<Rightarrow> 'v \<Rightarrow> stream_event list \<Rightarrow>
    (stream_event list) exit + stream_event list" where
  "crackSpotState S data listener =
     (let update = SpotStateUpdate_init in
     tryE listener (field_string S data ''user'') (\<lambda>v.
     let update = update\<lparr>ssu_user := v\<rparr> in
     tryE listener (field_object S data ''spotState'') (\<lambda>spotState.
     tryE listener (field_array S spotState ''balances'') (\<lambda>balances.
     bindE (foldE (\<lambda>entry update.
       tryE listener (finish (
        tryE update (sj_object S entry) (\<lambda>obj.
        let balance = SpotBalance_init in
        tryE update (field_string S obj ''coin'') (\<lambda>v.
        let balance = balance\<lparr>sb_coin := v\<rparr> in
        tryE update (field_int64 S obj ''token'') (\<lambda>v.
        let balance = balance\<lparr>sb_token := to_int32 v\<rparr> in
        tryE update (toDoubleField S obj ''hold'') (\<lambda>v.
        let balance = balance\<lparr>sb_hold := v\<rparr> in
        tryE update (toDoubleField S obj ''total'') (\<lambda>v.
        let balance = balance\<lparr>sb_total := v\<rparr> in
        tryE update (toDoubleField S obj ''entryNtl'') (\<lambda>v.
        let balance = balance\<lparr>sb_entryNtl := v\<rparr> in
        let update = update\<lparr>ssu_balances := (ssu_balances update) @ [balance]\<rparr> in
        Inr update)))))))) (\<lambda>update.
       Inr update)) balances update) (\<lambda>update.
     let listener = listener @ [OnSpotState update] in
     Inr listener)))))"

definition crackAllDexsClearinghouseState :: "'v sj_reader \<Rightarrow> 'v \<Rightarrow> stream_event list \<Rightarrow>
    (stream_event list) exit + stream_event list" where
  "crackAllDexsClearinghouseState S data listener =
     (let update = AllDexsClearinghouseStateUpdate_init in
     tryE listener (field_string S data ''user'') (\<lambda>v.
     let update = update\<lparr>adcsu_user := v\<rparr> in
     tryE listener (field_array S data ''clearinghouseStates'') (\<lambda>states.
     bindE (foldE (\<lambda>entry update.
       tryE listener (finish (
        tryE update (sj_array S entry) (\<lambda>pair.
        let dexState = DexClearinghouseState_zero in
        let idx = (0 :: u64) in
        bindE (foldE (\<lambda>item (dexState, idx).
          bindE (if idx = 0 then
            tryE update (sj_string S item) (\<lambda>v.
            let dexState = dexState\<lparr>dcs_dex := v\<rparr> in
            Inr dexState)
           else
            tryE update (sj_object S item) (\<lambda>obj.
            callE (\<lambda>r. update) (crackInnerClearinghouseState S obj (dcs_state dexState)) (\<lambda>r.
            let dexState = dexState\<lparr>dcs_state := r\<rparr> in
            Inr dexState))) (\<lambda>dexState.
          let idx = idx + 1 in
          Inr (dexState, idx))) pair (dexState, idx)) (\<lambda>(dexState, idx).
        let update = update\<lparr>adcsu_states := (adcsu_states update) @ [dexState]\<rparr> in
        Inr update)))) (\<lambda>update.
       Inr update)) states update) (\<lambda>update.
     let listener = listener @ [OnAllDexsClearinghouseState update] in
     Inr listener))))"

end
