(* ===== verification/Ws_Message_Parser.thy ===== *)
theory Ws_Message_Parser
  imports Ws_Market_Cracker Ws_User_Cracker
begin

text \<open>
  \<open>WebsocketMessageParser::crack\<close>: the channel of a message and the function its data goes to. The
  decompression of the compact asset contexts is zlib's and a parameter.
\<close>

text \<open>The \<open>channel\<close> is a string, or an object whose \<open>type\<close> names it; anything else is ignored.\<close>

definition channel_of :: "'v sj_reader \<Rightarrow> 'v outcome \<Rightarrow> string option outcome" where
  "channel_of S doc =
     (let channelVal = sj_at S doc ''channel'' in
      bindE (bindE channelVal (sj_type S)) (\<lambda>channelType.
      if channelType = SJ_String then bindE (bindE channelVal (sj_string S)) (\<lambda>channel. Inr (Some channel))
      else if channelType = SJ_Object then
        bindE (bindE channelVal (sj_object S)) (\<lambda>obj.
        case field_string S obj ''type'' of Inl _ \<Rightarrow> Inr None | Inr channel \<Rightarrow> Inr (Some channel))
      else Inr None))"

definition crack_channel ::
  "'v sj_reader \<Rightarrow> bool \<Rightarrow> (bytes \<Rightarrow> string option) \<Rightarrow> string \<Rightarrow> 'v outcome \<Rightarrow> stream_event list
    \<Rightarrow> stream_event list exit + stream_event list" where
  "crack_channel S validate inflate channel doc listener =
     (let on_object = (\<lambda>f. tryE listener (bindE (sj_at S doc ''data'') (sj_object S))
                                (\<lambda>data. callE (\<lambda>l. l) (f data listener) Inr));
          on_array = (\<lambda>f. tryE listener (bindE (sj_at S doc ''data'') (sj_array S))
                                (\<lambda>data. callE (\<lambda>l. l) (f data listener) Inr));
          on_string = (\<lambda>f. tryE listener (bindE (sj_at S doc ''data'') (sj_string S))
                                (\<lambda>data. callE (\<lambda>l. l) (f data listener) Inr))
      in
       if channel = ''l2Book'' then on_object (crackL2Book S)
       else if channel = ''bbo'' then on_object (crackBbo S)
       else if channel = ''trades'' then on_array (crackTrades S)
       else if channel = ''candle'' then on_array (crackCandles S)
       else if channel = ''allMids'' then on_object (crackAllMids S)
       else if channel = ''activeAssetCtx'' \<or> channel = ''activeSpotAssetCtx'' then on_object (crackActiveAssetCtx S)
       else if channel = ''orderUpdates'' then on_array (crackOrderUpdates S)
       else if channel = ''userFills'' then on_object (crackUserFills S)
       else if channel = ''userEvents'' then on_object (crackUserEvents S)
       else if channel = ''subscriptionResponse'' then on_object (crackSubscriptionResponse S)
       else if channel = ''userFundings'' then on_object (crackUserFundings S)
       else if channel = ''userNonFundingLedgerUpdates'' then on_object (crackUserNonFundingLedgerUpdates S)
       else if channel = ''webData3'' then on_object (crackWebData3 S)
       else if channel = ''clearinghouseState'' then on_object (crackClearinghouseState S)
       else if channel = ''openOrders'' then on_object (crackOpenOrders S)
       else if channel = ''twapStates'' then on_object (crackTwapStates S)
       else if channel = ''notification'' then on_object (crackNotification S)
       else if channel = ''userTwapSliceFills'' then on_object (crackUserTwapSliceFills S)
       else if channel = ''userTwapHistory'' then on_object (crackUserTwapHistory S)
       else if channel = ''activeAssetData'' then on_object (crackActiveAssetData S)
       else if channel = ''spotState'' then on_object (crackSpotState S)
       else if channel = ''allDexsClearinghouseState'' then on_object (crackAllDexsClearinghouseState S)
       else if channel = ''allDexsAssetCtxs'' then on_object (crackAllDexsAssetCtxs S)
       else if channel = ''fastAssetCtxs'' then on_string (crackFastAssetCtxs S validate inflate)
       else if channel = ''outcomeMetaUpdates'' then on_array (crackOutcomeMetaUpdates S)
       else if channel = ''error'' then Inr listener
       else Inr listener)"

definition crack ::
  "'v sj_reader \<Rightarrow> bool \<Rightarrow> (bytes \<Rightarrow> string option) \<Rightarrow> string \<Rightarrow> stream_event list
    \<Rightarrow> stream_event list outcome" where
  "crack S validate inflate message listener =
     (let doc = sj_iterate S message in
      finish (
        tryE listener (validateStructure S validate message) (\<lambda>_.
        tryE listener (channel_of S doc) (\<lambda>channel.
        case channel of
          None \<Rightarrow> Inl (Return listener)
        | Some channel \<Rightarrow> crack_channel S validate inflate channel doc listener))))"

end
