(* ===== verification/Parser_Safety.thy ===== *)
theory Parser_Safety
  imports Rest_Message_Parser Ws_Message_Parser
begin

text \<open>
  Which exceptions pass the handlers of the two message parsers. The handlers catch
  \<open>simdjson_error\<close> only, so the numeric conversions decide: the WebSocket parser converts with
  \<open>from_chars\<close>, the REST parser with \<open>std::stod\<close>, and outcome descriptions are read with \<open>std::stoi\<close> and
  \<open>substr\<close> by both. The proofs walk over the bodies with one rule per construct.
\<close>

section \<open>Rules\<close>

text \<open>The exceptions of numeric text.\<close>

definition number_errors :: "cpp_error set" where
  "number_errors = {Invalid_Argument ''stod'', Out_Of_Range ''stod''} \<union> text_errors"

lemma throws_in_bindE: "throws_in P m \<Longrightarrow> (\<And>x. throws_in P (k x)) \<Longrightarrow> throws_in P (bindE m k)"
  by (cases m) (auto simp: throws_in_def)

lemma throws_in_Inr: "throws_in P (Inr x)"
  by (simp add: throws_in_def)

lemma throws_in_if: "throws_in P a \<Longrightarrow> throws_in P b \<Longrightarrow> throws_in P (if c then a else b)"
  by simp

lemma throws_in_case_sum:
  "(\<And>x. throws_in P (f x)) \<Longrightarrow> (\<And>x. throws_in P (g x)) \<Longrightarrow> throws_in P (case m of Inl x \<Rightarrow> f x | Inr x \<Rightarrow> g x)"
  by (simp split: sum.splits)

lemma throws_in_case_prod:
  "(\<And>x y. throws_in P (f x y)) \<Longrightarrow> throws_in P (case p of (x, y) \<Rightarrow> f x y)"
  by (simp split: prod.splits)

lemma throws_in_Let: "(\<And>x. throws_in P (f x)) \<Longrightarrow> throws_in P (let x = t in f x)"
  by (simp add: Let_def)

lemma throws_in_foldE: "(\<And>x s. throws_in P (f x s)) \<Longrightarrow> throws_in P (foldE f xs s)"
  by (induction xs arbitrary: s) (auto intro: throws_in_bindE simp: throws_in_Inr)

lemma throws_in_inner_finish: "tame P m \<Longrightarrow> throws_in (insert Simdjson_Error P) (finish m)"
  by (rule throws_in_insert) (rule throws_in_finish)

lemma throws_in_inner_finish_with: "tame P m \<Longrightarrow> throws_in (insert Simdjson_Error P) (finish_with h m)"
  by (rule throws_in_insert) (rule throws_in_finish_with)

text \<open>A result of the reader that is bound before it is used.\<close>

lemma tame_Let_read:
  "sj_only (t :: 'a outcome) \<Longrightarrow> (\<And>x. sj_only x \<Longrightarrow> tame P (f x)) \<Longrightarrow> tame P (let x = t in f x)"
  by (simp add: Let_def)

lemma throws_in_Let_read:
  "sj_only (t :: 'a outcome) \<Longrightarrow> (\<And>x. sj_only x \<Longrightarrow> throws_in P (f x)) \<Longrightarrow> throws_in P (let x = t in f x)"
  by (simp add: Let_def)

lemma throws_in_sj: "sj_only m \<Longrightarrow> throws_in (insert Simdjson_Error P) m"
  by (auto simp: throws_in_def sj_only_def)

lemma stod_throws: "throws_in number_errors (stod s)"
  by (auto simp: throws_in_def number_errors_def stod_def strtod_magnitude_def Let_def
      split: option.splits prod.splits if_splits)

lemma toDouble_throws: "throws_in (insert e number_errors) (toDouble s)"
  using stod_throws by (auto simp: throws_in_def toDouble_def)

lemma description_throws: "throws_in (insert e number_errors) (parseOutcomeDescription s)"
  by (auto simp: throws_in_def number_errors_def dest: parseOutcomeDescription_errors)

lemma description_throws_text: "throws_in (insert e text_errors) (parseOutcomeDescription s)"
  by (auto simp: throws_in_def dest: parseOutcomeDescription_errors)

lemma tame_cond: "(c \<Longrightarrow> tame P a) \<Longrightarrow> (\<not> c \<Longrightarrow> tame P b) \<Longrightarrow> tame P (if c then a else b)"
  by simp

lemma tame_case_option:
  "tame P a \<Longrightarrow> (\<And>x. tame P (f x)) \<Longrightarrow> tame P (case m of None \<Rightarrow> a | Some x \<Rightarrow> f x)"
  by (simp split: option.splits)

text \<open>The two enumerations the ledger parsers switch on.\<close>

lemma throws_in_case_delta:
  "\<lbrakk>throws_in P a0; throws_in P a1; throws_in P a2; throws_in P a3; throws_in P a4; throws_in P a5; throws_in P
     a6; throws_in P a7\<rbrakk> \<Longrightarrow> throws_in P
     (case t of
         LedgerUpdateDeltaType_Funding \<Rightarrow> a0 | LedgerUpdateDeltaType_Deposit \<Rightarrow> a1
       | LedgerUpdateDeltaType_Withdraw \<Rightarrow> a2 | LedgerUpdateDeltaType_AccountClassTransfer \<Rightarrow> a3
       | LedgerUpdateDeltaType_InternalTransfer \<Rightarrow> a4 | LedgerUpdateDeltaType_SubAccountTransfer \<Rightarrow> a5
       | LedgerUpdateDeltaType_SpotTransfer \<Rightarrow> a6 | LedgerUpdateDeltaType_Unknown \<Rightarrow> a7)"
  by (cases t) simp_all

lemma tame_case_ledger:
  "\<lbrakk>tame P a0; tame P a1; tame P a2; tame P a3; tame P a4; tame P a5; tame P a6; tame P a7; tame P a8; tame P a9;
     tame P a10; tame P a11; tame P a12; tame P a13; tame P a14; tame P a15\<rbrakk> \<Longrightarrow> tame P
     (case t of
         LedgerUpdateType_Deposit \<Rightarrow> a0 | LedgerUpdateType_Withdraw \<Rightarrow> a1
       | LedgerUpdateType_InternalTransfer \<Rightarrow> a2 | LedgerUpdateType_SubAccountTransfer \<Rightarrow> a3
       | LedgerUpdateType_Liquidation \<Rightarrow> a4 | LedgerUpdateType_VaultCreate \<Rightarrow> a5
       | LedgerUpdateType_VaultDeposit \<Rightarrow> a6 | LedgerUpdateType_VaultDistribution \<Rightarrow> a7
       | LedgerUpdateType_VaultWithdraw \<Rightarrow> a8 | LedgerUpdateType_VaultLeaderCommission \<Rightarrow> a9
       | LedgerUpdateType_SpotTransfer \<Rightarrow> a10 | LedgerUpdateType_AccountClassTransfer \<Rightarrow> a11
       | LedgerUpdateType_SpotGenesis \<Rightarrow> a12 | LedgerUpdateType_RewardsClaim \<Rightarrow> a13
       | LedgerUpdateType_Send \<Rightarrow> a14 | LedgerUpdateType_Unknown \<Rightarrow> a15)"
  by (cases t) simp_all

lemmas throws_in_intros =
  throws_in_inner_finish throws_in_inner_finish_with throws_in_finish throws_in_finish_with throws_in_bindE
  throws_in_Inr throws_in_if throws_in_case_sum throws_in_case_prod throws_in_Let_read throws_in_Let
  throws_in_case_delta tame_case_ledger tame_case_option throws_in_foldE toDouble_throws description_throws

context simdjson
begin

lemma validate_only: "sj_only (validateStructure S validate m)"
  by (simp add: validateStructure_def only_prims)

lemma channel_only: "sj_only doc \<Longrightarrow> sj_only (channel_of S doc)"
  unfolding channel_of_def Let_def by (auto intro!: sj_only_bindE only_reads split: sum.splits)

lemmas escape_intros = tame_Let_read tame_intros throws_in_intros only_reads sj_only_bindE throws_in_sj

section \<open>The REST parser\<close>

lemma exchange_throws:
    "throws_in P (parsePlaceOrder S message)"
    "throws_in P (parseCancelOrder S message)"
    "throws_in P (parseModifyOrder S message)"
    "throws_in P (parseSimpleResponse S message)"
    "throws_in P (parseTwapOrder S message)"
    "throws_in P (parseTwapCancel S message)"
    "throws_in P (parseCreateSubAccount S message)"
    "throws_in P (parseCreateVault S message)"
  unfolding parsePlaceOrder_def parseCancelOrder_def parseModifyOrder_def parseSimpleResponse_def parseTwapOrder_def
    parseTwapCancel_def parseCreateSubAccount_def parseCreateVault_def
  by (rule escape_intros | assumption)+

lemma book_throws:
    "throws_in number_errors (parseL2Book S message)"
    "throws_in number_errors (parseRecentTrades S message)"
    "throws_in number_errors (parseAllMids S message)"
    "throws_in (insert Simdjson_Error number_errors) (parseFillEntry S obj)"
  unfolding parseL2Book_def parseRecentTrades_def parseAllMids_def parseFillEntry_def
  by (rule escape_intros | assumption)+

lemma staking_throws:
    "throws_in number_errors (parseLiquidatable S message)"
    "throws_in number_errors (parseUserDexAbstractionState S message)"
    "throws_in number_errors (parseUserAbstraction S message)"
    "throws_in number_errors (parseExchangeStatus S message)"
  unfolding parseLiquidatable_def parseUserDexAbstractionState_def parseUserAbstraction_def parseExchangeStatus_def
  by (rule escape_intros | assumption)+

lemma account_throws:
    "throws_in (insert Simdjson_Error number_errors) (parseClearinghouseStateObj S doc)"
    "throws_in number_errors (parseMaxBuilderFee S message)"
    "throws_in number_errors (parseApprovedBuilders S message)"
    "throws_in number_errors (parseUserRateLimit S message)"
    "throws_in number_errors (parseUserRole S message)"
  unfolding parseClearinghouseStateObj_def parseMaxBuilderFee_def parseApprovedBuilders_def parseUserRateLimit_def
    parseUserRole_def
  by (rule escape_intros | assumption)+

lemma market_throws:
    "tame number_errors (parseOutcomeSpec S obj outcome)"
    "throws_in number_errors (parsePerpDexs S message)"
    "throws_in number_errors (parsePerpsAtOpenInterestCap S message)"
    "throws_in number_errors (parsePredictedFundings S message)"
    "throws_in number_errors (parsePerpAnnotation S message)"
    "throws_in number_errors (parsePerpCategories S message)"
    "throws_in number_errors (parsePerpConciseAnnotations S message)"
    "throws_in number_errors (parseAllPerpMetas S message)"
    "throws_in number_errors (parseSpotMeta S message)"
    "throws_in number_errors (parseMeta S message)"
  unfolding parseOutcomeSpec_def parsePerpDexs_def parsePerpsAtOpenInterestCap_def parsePredictedFundings_def
    parsePerpAnnotation_def parsePerpCategories_def parsePerpConciseAnnotations_def parseAllPerpMetas_def
    parseSpotMeta_def parseMeta_def
  by (rule escape_intros | assumption)+

lemma field_throws:
    "throws_in (insert Simdjson_Error number_errors) (parseNumberField S obj key)"
  unfolding parseNumberField_def
  by (rule escape_intros | assumption)+

lemma book_throws_1:
    "throws_in number_errors (parseCandleSnapshot S message)"
    "throws_in (insert Simdjson_Error number_errors) (parseOpenOrderEntry S obj)"
    "throws_in number_errors (parseUserFills S message)"
    "throws_in (insert Simdjson_Error number_errors) (parseTwapStateEntry S obj)"
    "throws_in (insert Simdjson_Error number_errors) (parseFrontendOrderEntry S obj)"
    "throws_in number_errors (parseUserTwapSliceFills S message)"
  unfolding parseCandleSnapshot_def parseOpenOrderEntry_def parseUserFills_def parseTwapStateEntry_def parseFrontendOrderEntry_def
    parseUserTwapSliceFills_def
  by (rule book_throws staking_throws account_throws market_throws field_throws escape_intros | assumption)+

lemma staking_throws_1:
    "throws_in number_errors (parseDelegations S message)"
    "throws_in number_errors (parseDelegatorSummary S message)"
    "throws_in number_errors (parseDelegatorHistory S message)"
    "throws_in number_errors (parseDelegatorRewards S message)"
    "throws_in (insert Simdjson_Error number_errors) (parseBorrowLendReserveStateFields S obj)"
    "throws_in number_errors (parseBorrowLendUserState S message)"
    "throws_in number_errors (parseUserBorrowLendInterest S message)"
    "throws_in (insert Simdjson_Error number_errors) (parseSpotPairDeployAuctionStatusObj S obj)"
  unfolding parseDelegations_def parseDelegatorSummary_def parseDelegatorHistory_def parseDelegatorRewards_def
    parseBorrowLendReserveStateFields_def parseBorrowLendUserState_def parseUserBorrowLendInterest_def
    parseSpotPairDeployAuctionStatusObj_def
  by (rule book_throws staking_throws account_throws market_throws field_throws escape_intros | assumption)+

lemma account_throws_1:
    "throws_in (insert Simdjson_Error number_errors) (parseLedgerUpdateDelta S deltaObj)"
    "throws_in number_errors (parseClearinghouseState S message)"
    "throws_in (insert Simdjson_Error number_errors) (parseSpotClearinghouseStateObj S doc)"
    "throws_in number_errors (parseActiveAssetData S message)"
    "throws_in number_errors (parseUserFees S message)"
    "throws_in (insert Simdjson_Error number_errors) (parsePortfolioArray S entries)"
    "throws_in number_errors (parseUserVaultEquities S message)"
    "throws_in number_errors (parseReferral S message)"
  unfolding parseLedgerUpdateDelta_def parseClearinghouseState_def parseSpotClearinghouseStateObj_def parseActiveAssetData_def
    parseUserFees_def parsePortfolioArray_def parseUserVaultEquities_def parseReferral_def
  by (rule book_throws staking_throws account_throws market_throws field_throws escape_intros | assumption)+

lemma market_throws_1:
    "throws_in number_errors (parseOutcomeMeta S message)"
    "throws_in number_errors (parseSettledOutcome S message)"
    "throws_in number_errors (parsePerpDexLimits S message)"
    "throws_in number_errors (parsePerpDexStatus S message)"
    "throws_in number_errors (parsePerpDeployAuctionStatus S message)"
    "throws_in number_errors (parseFundingHistory S message)"
    "throws_in number_errors (parseMetaAndAssetCtxs S message)"
    "throws_in number_errors (parseSpotMetaAndAssetCtxs S message)"
  unfolding parseOutcomeMeta_def parseSettledOutcome_def parsePerpDexLimits_def parsePerpDexStatus_def
    parsePerpDeployAuctionStatus_def parseFundingHistory_def parseMetaAndAssetCtxs_def parseSpotMetaAndAssetCtxs_def
  by (rule book_throws staking_throws account_throws market_throws field_throws escape_intros | assumption)+

lemma book_throws_2:
    "throws_in number_errors (parseOpenOrders S message)"
    "throws_in number_errors (parseOrderStatus S message)"
    "throws_in number_errors (parseUserFillsByTime S message)"
    "throws_in number_errors (parseFrontendOpenOrders S message)"
    "throws_in number_errors (parseHistoricalOrders S message)"
    "throws_in number_errors (parseUserTwapSliceFillsByTime S message)"
    "throws_in number_errors (parseTwapHistory S message)"
  unfolding parseOpenOrders_def parseOrderStatus_def parseUserFillsByTime_def parseFrontendOpenOrders_def
    parseHistoricalOrders_def parseUserTwapSliceFillsByTime_def parseTwapHistory_def
  by (rule book_throws staking_throws account_throws market_throws field_throws book_throws_1 staking_throws_1 account_throws_1 market_throws_1 escape_intros | assumption)+

lemma staking_throws_2:
    "throws_in number_errors (parseBorrowLendReserveState S message)"
    "throws_in number_errors (parseAllBorrowLendReserveStates S message)"
    "throws_in number_errors (parseSpotPairDeployAuctionStatus S message)"
    "throws_in number_errors (parseSpotDeployState S message)"
  unfolding parseBorrowLendReserveState_def parseAllBorrowLendReserveStates_def parseSpotPairDeployAuctionStatus_def
    parseSpotDeployState_def
  by (rule book_throws staking_throws account_throws market_throws field_throws book_throws_1 staking_throws_1 account_throws_1 market_throws_1 escape_intros | assumption)+

lemma account_throws_2:
    "throws_in number_errors (parseUserFundingLedgerUpdateResponse S message endpointName)"
    "throws_in number_errors (parseSpotClearinghouseState S message)"
    "throws_in number_errors (parseSubAccounts S message)"
    "throws_in number_errors (parseVaultDetails S message)"
    "throws_in number_errors (parsePortfolio S message)"
  unfolding parseUserFundingLedgerUpdateResponse_def parseSpotClearinghouseState_def parseSubAccounts_def parseVaultDetails_def
    parsePortfolio_def
  by (rule book_throws staking_throws account_throws market_throws field_throws book_throws_1 staking_throws_1 account_throws_1 market_throws_1 escape_intros | assumption)+

lemma account_throws_3:
    "throws_in number_errors (parseUserFunding S message)"
    "throws_in number_errors (parseUserNonFundingLedgerUpdates S message)"
  unfolding parseUserFunding_def parseUserNonFundingLedgerUpdates_def
  by (rule book_throws staking_throws account_throws market_throws field_throws book_throws_1 staking_throws_1 account_throws_1 market_throws_1 book_throws_2 staking_throws_2 account_throws_2 escape_intros | assumption)+

lemmas rest_throws =
  book_throws staking_throws account_throws market_throws field_throws book_throws_1 staking_throws_1
  account_throws_1 market_throws_1 book_throws_2 staking_throws_2 account_throws_2 account_throws_3

section \<open>The WebSocket parser\<close>

lemma crack_market_throws:
    "tame P (crackSubscriptionResponse S data listener)"
    "tame P (crackL2Book S data listener)"
    "tame P (crackBbo S data listener)"
    "tame P (crackTrades S entries listener)"
    "tame P (crackCandles S entries listener)"
    "tame P (crackAllMids S data listener)"
    "tame P (crackFastAssetCtxs S validate inflate base64Data listener)"
    "tame text_errors (parseOutcomeSpecForUpdate S obj outcome)"
    "tame P (parseQuestionSpecForUpdate S obj question)"
  unfolding crackSubscriptionResponse_def crackL2Book_def crackBbo_def crackTrades_def crackCandles_def crackAllMids_def
    crackFastAssetCtxs_def parseOutcomeSpecForUpdate_def parseQuestionSpecForUpdate_def
  by (rule validate_only description_throws_text escape_intros | assumption)+

lemma crack_user_throws:
    "throws_in (insert Simdjson_Error P) (parseFillObject S obj isSnapshot)"
    "tame P (crackOrderUpdates S entries listener)"
    "tame P (crackUserFundings S data listener)"
    "tame P (crackOpenOrders S data listener)"
    "tame P (crackNotification S data listener)"
    "tame P (crackActiveAssetData S data listener)"
  unfolding parseFillObject_def crackOrderUpdates_def crackUserFundings_def crackOpenOrders_def crackNotification_def
    crackActiveAssetData_def
  by (rule crack_market_throws validate_only description_throws_text escape_intros | assumption)+

lemma crack_field_throws:
    "throws_in (insert Simdjson_Error P) (toDoubleField S obj key)"
  unfolding toDoubleField_def
  by (rule crack_market_throws crack_user_throws validate_only description_throws_text escape_intros | assumption)+

lemma crack_market_throws_1:
    "tame P (crackActiveAssetCtx S data listener)"
    "tame P (crackAllDexsAssetCtxs S data listener)"
    "tame text_errors (crackOutcomeMetaUpdates S entries listener)"
  unfolding crackActiveAssetCtx_def crackAllDexsAssetCtxs_def crackOutcomeMetaUpdates_def
  by (rule crack_market_throws crack_user_throws crack_field_throws validate_only description_throws_text escape_intros | assumption)+

lemma crack_user_throws_1:
    "tame P (crackFill S obj listener isSnapshot)"
    "tame P (crackLedgerDelta S delta update)"
    "tame P (crackWebData3 S data listener)"
    "tame P (crackInnerClearinghouseState S obj state)"
    "tame P (crackTwapState S obj twap)"
    "tame P (crackUserTwapSliceFills S data listener)"
    "tame P (crackSpotState S data listener)"
  unfolding crackFill_def crackLedgerDelta_def crackWebData3_def crackInnerClearinghouseState_def crackTwapState_def
    crackUserTwapSliceFills_def crackSpotState_def
  by (rule crack_market_throws crack_user_throws crack_field_throws crack_market_throws_1 validate_only description_throws_text escape_intros | assumption)+

lemma crack_user_throws_2:
    "tame P (crackUserFills S data listener)"
    "tame P (crackUserEvents S data listener)"
    "tame P (crackUserNonFundingLedgerUpdates S data listener)"
    "tame P (crackClearinghouseState S data listener)"
    "tame P (crackTwapStates S data listener)"
    "tame P (crackUserTwapHistory S data listener)"
    "tame P (crackAllDexsClearinghouseState S data listener)"
  unfolding crackUserFills_def crackUserEvents_def crackUserNonFundingLedgerUpdates_def crackClearinghouseState_def
    crackTwapStates_def crackUserTwapHistory_def crackAllDexsClearinghouseState_def
  by (rule crack_market_throws crack_user_throws crack_field_throws crack_market_throws_1 crack_user_throws_1 validate_only description_throws_text escape_intros | assumption)+

lemmas crack_lemmas_throw =
  crack_market_throws crack_user_throws crack_field_throws crack_market_throws_1 crack_user_throws_1
  crack_user_throws_2

lemma crack_channel_throws:
  "tame (if channel = ''outcomeMetaUpdates'' then text_errors else {}) (crack_channel S validate inflate channel doc listener)"
  if "sj_only doc"
proof (cases "channel = ''outcomeMetaUpdates''")
  case True
  have "tame text_errors (crack_channel S validate inflate ''outcomeMetaUpdates'' doc listener)"
    unfolding crack_channel_def Let_def
    by simp (rule crack_market_throws_1 escape_intros that | assumption)+
  with True show ?thesis by simp
next
  case False
  then have "tame {} (crack_channel S validate inflate channel doc listener)"
    unfolding crack_channel_def Let_def
    by - (rule tame_cond crack_lemmas_throw escape_intros that | assumption | (erule (1) notE))+
  with False show ?thesis by simp
qed

lemma crack_throws: "throws_in text_errors (crack S validate inflate message listener)"
proof -
  have "tame text_errors (crack_channel S validate inflate channel (sj_iterate S message) listener)" for channel
    using crack_channel_throws [OF only_prims(2) [of message], of channel validate inflate listener]
    by (cases "channel = ''outcomeMetaUpdates''") (auto simp: tame_def)
  then show ?thesis
    unfolding crack_def
    by (simp only: Let_def)
      (rule validate_only channel_only escape_intros tame_case_option | assumption)+
qed

lemma crack_throws_channel:
  assumes "crack S validate inflate message listener = Inl e"
  shows "channel_of S (sj_iterate S message) = Inr (Some ''outcomeMetaUpdates'')"
proof (rule ccontr)
  assume other: "\<not> ?thesis"
  have "tame {} (crack_channel S validate inflate channel (sj_iterate S message) listener)"
    if "channel_of S (sj_iterate S message) = Inr (Some channel)" for channel
    using crack_channel_throws [OF only_prims(2) [of message], of channel validate inflate listener] that other
    by (auto split: if_splits)
  moreover have "sj_only (validateStructure S validate message)" "sj_only (channel_of S (sj_iterate S message))"
    by (rule validate_only channel_only only_prims)+
  ultimately show False
    using assms by (auto simp: crack_def Let_def finish_def finish_with_def tryE_def sj_only_def tame_def
        split: sum.splits exit.splits option.splits if_splits)
qed

lemma parse_reply_throws: "throws_in number_errors (parse_reply S message type)"
proof (cases type)
  case (EpTrading t)
  then show ?thesis by (cases t) (simp_all, (rule rest_throws throws_in_bindE throws_in_Inr)+)
next
  case (EpAccount t)
  then show ?thesis by (cases t) (simp_all, (rule rest_throws throws_in_bindE throws_in_Inr)+)
next
  case (EpSpot t)
  then show ?thesis by (cases t) (simp_all, (rule rest_throws throws_in_bindE throws_in_Inr)+)
next
  case (EpOrder t)
  then show ?thesis by (cases t) (simp_all, (rule exchange_throws throws_in_bindE throws_in_Inr)+)
next
  case (EpFunds t)
  then show ?thesis by simp (rule exchange_throws throws_in_bindE throws_in_Inr)+
qed

lemma exchange_reply_total:
  assumes "isAuthenticated type"
  shows "\<exists>r. parse_reply S message type = Inr (Some r)"
proof -
  have ok: "throws_in {} m \<Longrightarrow> \<exists>x. m = Inr x" for m :: "'x outcome"
    by (cases m) (auto simp: throws_in_def)
  note replies = exchange_throws [where P = "{}" and message = message, THEN ok]
  show ?thesis
  proof (cases type)
    case (EpOrder t)
    then show ?thesis using replies by (cases t) auto
  next
    case (EpFunds t)
    then show ?thesis using replies(4) by auto
  next
    case (EpTrading t)
    with assms show ?thesis by (cases t) simp_all
  next
    case (EpAccount t)
    with assms show ?thesis by (cases t) simp_all
  next
    case (EpSpot t)
    with assms show ?thesis by (cases t) simp_all
  qed
qed

end

section \<open>Malformed text\<close>

text \<open>
  Only the head of a block is looked at once the DOM parse has failed; the congruence keeps the simplifier
  out of the bodies.
\<close>

lemma trading_malformed:
  assumes "sj_validate S message = Inl Simdjson_Error" and "sj_validate S' message = Inl Simdjson_Error"
  shows "parse_trading S message t = parse_trading S' message t"
  using assms
  by (cases t) (simp_all add: Let_def
      parseMeta_def parseMetaAndAssetCtxs_def parseAllMids_def parseL2Book_def parseCandleSnapshot_def
      parseRecentTrades_def parseOpenOrders_def parseUserFills_def parseUserFillsByTime_def
      parseOrderStatus_def parseClearinghouseState_def parseUserRateLimit_def parsePerpDexs_def
      parseFrontendOpenOrders_def parseHistoricalOrders_def parseUserTwapSliceFills_def
      parseUserTwapSliceFillsByTime_def parseTwapHistory_def parseActiveAssetData_def
      cong: tryE_weak_cong)

lemma account_malformed:
  assumes "sj_validate S message = Inl Simdjson_Error" and "sj_validate S' message = Inl Simdjson_Error"
  shows "parse_account S message t = parse_account S' message t"
  using assms
  by (cases t) (simp_all add: Let_def
      parseSubAccounts_def parseUserFees_def parseMaxBuilderFee_def parseApprovedBuilders_def
      parseExchangeStatus_def parseVaultDetails_def parseUserVaultEquities_def parsePortfolio_def
      parseReferral_def parseUserRole_def parsePerpsAtOpenInterestCap_def parsePredictedFundings_def
      parsePerpAnnotation_def parsePerpCategories_def parsePerpConciseAnnotations_def parseAllPerpMetas_def
      parsePerpDexLimits_def parsePerpDexStatus_def parsePerpDeployAuctionStatus_def parseUserFunding_def
      parseUserNonFundingLedgerUpdates_def parseFundingHistory_def parseUserFundingLedgerUpdateResponse_def
      cong: tryE_weak_cong)

lemma spot_malformed:
  assumes "sj_validate S message = Inl Simdjson_Error" and "sj_validate S' message = Inl Simdjson_Error"
  shows "parse_spot S message t = parse_spot S' message t"
  using assms
  by (cases t) (simp_all add: Let_def
      parseOutcomeMeta_def parseSettledOutcome_def parseSpotMeta_def parseSpotMetaAndAssetCtxs_def
      parseSpotClearinghouseState_def parseSpotDeployState_def parseSpotPairDeployAuctionStatus_def
      parseDelegations_def parseDelegatorSummary_def parseDelegatorHistory_def parseDelegatorRewards_def
      parseBorrowLendUserState_def parseBorrowLendReserveState_def parseAllBorrowLendReserveStates_def
      parseUserBorrowLendInterest_def parseLiquidatable_def parseUserDexAbstractionState_def
      parseUserAbstraction_def
      cong: tryE_weak_cong)

lemma order_malformed:
  assumes "sj_validate S message = Inl Simdjson_Error" and "sj_validate S' message = Inl Simdjson_Error"
  shows "parse_order S message t = parse_order S' message t"
  using assms
  by (cases t) (simp_all add: Let_def
      parsePlaceOrder_def parseCancelOrder_def parseSimpleResponse_def parseModifyOrder_def parseTwapOrder_def
      parseTwapCancel_def parseCreateSubAccount_def parseCreateVault_def
      cong: tryE_weak_cong)

lemma parse_reply_malformed:
  assumes "sj_validate S message = Inl Simdjson_Error" and "sj_validate S' message = Inl Simdjson_Error"
  shows "parse_reply S message type = parse_reply S' message type"
  by (cases type)
    (simp_all add: trading_malformed [OF assms] account_malformed [OF assms] spot_malformed [OF assms]
      order_malformed [OF assms] parseSimpleResponse_def Let_def assms cong: tryE_weak_cong)

section \<open>The properties\<close>

text \<open>
  C11: The exceptions a REST answer can make its parser throw are those of the numeric conversions
  (\<open>std::stod\<close>, \<open>std::stoi\<close>, \<open>substr\<close>); no parse error of \<open>simdjson\<close> passes, whatever the endpoint and
  the text.
\<close>

theorem rest_parser_exceptions:
  assumes "simdjson S" and "parse_reply S message type = Inl e"
  shows "e \<in> {Invalid_Argument ''stod'', Out_Of_Range ''stod'', Invalid_Argument ''stoi'', Out_Of_Range ''stoi'',
              Out_Of_Range ''substr''}"
  using simdjson.parse_reply_throws [OF assms(1), of message type] assms(2)
  by (auto simp: throws_in_def number_errors_def text_errors_def)

text \<open>An answer that does throw: a numeric field whose text is no number.\<close>

definition bad_rate_limit :: "json sj_reader" where
  "bad_rate_limit = tree_reader (\<lambda>_. Some (J_Obj [(''cumVlm'', J_Str ''n/a'')]))"

lemma stod_not_a_number: "stod ''n/a'' = Inl (Invalid_Argument ''stod'')"
  by (simp add: stod_def strtod_magnitude_def scan_decimal_def starts_with_ci_def is_space_def lower_char_def Let_def)

lemma bad_rate_limit_parse: "parseUserRateLimit bad_rate_limit ''{}'' = Inl (Invalid_Argument ''stod'')"
  by (simp add: parseUserRateLimit_def bad_rate_limit_def tree_eval toDouble_def stod_not_a_number
      cong: tryE_weak_cong)

lemma bad_rate_limit_throws:
  "parse_reply bad_rate_limit ''{}'' Ep_UserRateLimit = Inl (Invalid_Argument ''stod'')"
  by (simp add: bad_rate_limit_parse)

theorem rest_parser_exceptions_witness:
  "parse_reply bad_rate_limit ''{}'' Ep_UserRateLimit = Inl (Invalid_Argument ''stod'') \<and>
   Invalid_Argument ''stod'' \<in> {Invalid_Argument ''stod'', Out_Of_Range ''stod'', Invalid_Argument ''stoi'',
     Out_Of_Range ''stoi'', Out_Of_Range ''substr''}"
  using rest_parser_exceptions [OF tree.simdjson_axioms, of _ "''{}''" Ep_UserRateLimit "Invalid_Argument ''stod''"]
    bad_rate_limit_throws
  unfolding bad_rate_limit_def by blast

text \<open>
  C17: The answer to an authenticated request is always parsed to a reply: none of its parsers throws, and
  every such endpoint has one.
\<close>

theorem exchange_replies_delivered:
  assumes "simdjson S" and "isAuthenticated type"
  shows "\<exists>r. parse_message S message type correlationId listener = Inr (listener @ [(r, correlationId)])"
  using simdjson.exchange_reply_total [OF assms, of message] by (auto simp: parse_message_def)

theorem exchange_replies_delivered_witness:
  "isAuthenticated Ep_PlaceOrder \<and>
   (\<exists>r. parse_message bad_rate_limit ''{}'' Ep_PlaceOrder (Some 7) [] = Inr ([] @ [(r, Some 7)]))"
  using exchange_replies_delivered [of bad_rate_limit Ep_PlaceOrder "''{}''" "Some 7" "[]"]
    tree.simdjson_axioms
  unfolding bad_rate_limit_def by simp

text \<open>
  C18: On text that is not JSON the reply does not depend on the on-demand reader: no field of a malformed
  document is ever read, by any of the parsers.
\<close>

theorem malformed_answers_not_read:
  assumes "sj_validate S message = Inl Simdjson_Error" and "sj_validate S' message = Inl Simdjson_Error"
  shows "parse_message S message type correlationId listener = parse_message S' message type correlationId listener"
  unfolding parse_message_def using parse_reply_malformed [OF assms, of type] by simp

theorem malformed_answers_not_read_witness:
  "parse_message (tree_reader (\<lambda>_. None)) ''{'' Ep_AllMids None [] =
   parse_message (tree_reader (\<lambda>_. None)\<lparr>sj_iterate := \<lambda>_. Inr J_Null\<rparr>) ''{'' Ep_AllMids None []"
  by (rule malformed_answers_not_read) (simp_all add: tree_reader_def)

text \<open>
  C12: The WebSocket parser lets one kind of exception pass: those of an outcome description (\<open>std::stoi\<close>
  and \<open>substr\<close> on its expiry), which only the channel of outcome updates reads. On any other message it
  returns, with the events of the message appended for its listener.
\<close>

theorem crack_exceptions:
  assumes "simdjson S" and "crack S validate inflate message listener = Inl e"
  shows "e \<in> {Invalid_Argument ''stoi'', Out_Of_Range ''stoi'', Out_Of_Range ''substr''} \<and>
    channel_of S (sj_iterate S message) = Inr (Some ''outcomeMetaUpdates'')"
proof
  show "e \<in> {Invalid_Argument ''stoi'', Out_Of_Range ''stoi'', Out_Of_Range ''substr''}"
    using simdjson.crack_throws [OF assms(1), of validate inflate message listener] assms(2)
    by (simp add: throws_in_def text_errors_def)
next
  show "channel_of S (sj_iterate S message) = Inr (Some ''outcomeMetaUpdates'')"
    by (rule simdjson.crack_throws_channel [OF assms])
qed

text \<open>An outcome update whose description has a short expiry.\<close>

definition short_expiry :: "json sj_reader" where
  "short_expiry = tree_reader (\<lambda>_. Some (J_Obj
     [(''channel'', J_Str ''outcomeMetaUpdates''),
      (''data'', J_Arr [J_Obj [(''outcomeCreated'', J_Obj
         [(''outcome'', J_Num 1), (''name'', J_Str ''x''), (''description'', J_Str ''expiry:2026'')])]])]))"

lemma short_expiry_description: "parseOutcomeDescription ''expiry:2026'' = Inl (Invalid_Argument ''stoi'')"
  by (simp add: parseOutcomeDescription_def description_loop.simps description_segment_def set_description_field_def
      parseOutcomeExpiry_def stoi_at_def substr_def stoi_def is_space_def nat_of_dec_def Let_def)

lemma short_expiry_throws:
  "crack short_expiry True (\<lambda>_. None) ''{}'' [] = Inl (Invalid_Argument ''stoi'')"
  by (simp add: crack_def short_expiry_def tree_eval channel_of_def validateStructure_def crack_channel_def
      crackOutcomeMetaUpdates_def parseOutcomeSpecForUpdate_def short_expiry_description cong: tryE_weak_cong)

theorem crack_exceptions_witness:
  "Invalid_Argument ''stoi'' \<in> {Invalid_Argument ''stoi'', Out_Of_Range ''stoi'', Out_Of_Range ''substr''} \<and>
   channel_of short_expiry (sj_iterate short_expiry ''{}'') = Inr (Some ''outcomeMetaUpdates'')"
  using crack_exceptions [OF tree.simdjson_axioms, of _ True "\<lambda>_. None" "''{}''" "[]"] short_expiry_throws
  unfolding short_expiry_def by blast


end
