(* ===== verification/Rest_Api_Proofs.thy ===== *)
theory Rest_Api_Proofs
  imports Rest_Api Parser_Safety
begin

text \<open>
  The three ways to make a call (WebSocket post, synchronous and asynchronous REST) agree, and what a
  synchronous call returns or throws.
\<close>

section \<open>The methods agree\<close>

lemma market_async_same: "market_async J syms c = market_call J syms c"
  by (cases c) (simp_all add:
      spotMetaAsync_def metaAsync_def outcomeMetaAsync_def perpDexsAsync_def settledOutcomeAsync_def
      perpsAtOpenInterestCapAsync_def predictedFundingsAsync_def perpAnnotationAsync_def perpCategoriesAsync_def
      perpConciseAnnotationsAsync_def allPerpMetasAsync_def perpDexLimitsAsync_def perpDexStatusAsync_def
      perpDeployAuctionStatusAsync_def l2BookAsync_def candleSnapshotAsync_def allMidsAsync_def
      openOrdersAsync_def orderStatusAsync_def userFillsAsync_def)

lemma market_sync_same:
  "sc_request (market_sync J syms c) = market_call J syms c"
  "bindE (sc_parse (market_sync J syms c) S m) (\<lambda>r. Inr (Some r)) = parse_reply S m (rq_type (market_call J syms c))"
  by (cases c; simp add: parsed_by_def api_call_def reply_of_def bindE_assoc
      spotMeta_sync_def meta_sync_def outcomeMeta_sync_def perpDexs_sync_def settledOutcome_sync_def
      perpsAtOpenInterestCap_sync_def predictedFundings_sync_def perpAnnotation_sync_def perpCategories_sync_def
      perpConciseAnnotations_sync_def allPerpMetas_sync_def perpDexLimits_sync_def perpDexStatus_sync_def
      perpDeployAuctionStatus_sync_def l2Book_sync_def candleSnapshot_sync_def allMids_sync_def
      openOrders_sync_def orderStatus_sync_def userFills_sync_def)+

lemma user_async_same: "user_async J syms c = user_call J syms c"
  by (cases c) (simp_all add:
      userFillsByTimeAsync_def clearinghouseStateAsync_def recentTradesAsync_def userFundingAsync_def
      userNonFundingLedgerUpdatesAsync_def fundingHistoryAsync_def userRateLimitAsync_def
      metaAndAssetCtxsAsync_def spotMetaAndAssetCtxsAsync_def spotClearinghouseStateAsync_def
      spotDeployStateAsync_def spotPairDeployAuctionStatusAsync_def userDexAbstractionStateAsync_def
      userAbstractionAsync_def exchangeStatusAsync_def frontendOpenOrdersAsync_def historicalOrdersAsync_def
      userTwapSliceFillsAsync_def userTwapSliceFillsByTimeAsync_def twapHistoryAsync_def)

lemma user_sync_same:
  "sc_request (user_sync J syms c) = user_call J syms c"
  "bindE (sc_parse (user_sync J syms c) S m) (\<lambda>r. Inr (Some r)) = parse_reply S m (rq_type (user_call J syms c))"
  by (cases c; simp add: parsed_by_def api_call_def reply_of_def bindE_assoc
      userFillsByTime_sync_def clearinghouseState_sync_def recentTrades_sync_def userFunding_sync_def
      userNonFundingLedgerUpdates_sync_def fundingHistory_sync_def userRateLimit_sync_def
      metaAndAssetCtxs_sync_def spotMetaAndAssetCtxs_sync_def spotClearinghouseState_sync_def
      spotDeployState_sync_def spotPairDeployAuctionStatus_sync_def userDexAbstractionState_sync_def
      userAbstraction_sync_def exchangeStatus_sync_def frontendOpenOrders_sync_def historicalOrders_sync_def
      userTwapSliceFills_sync_def userTwapSliceFillsByTime_sync_def twapHistory_sync_def)+

lemma account_async_same: "account_async J syms c = account_call J syms c"
  by (cases c) (simp_all add:
      activeAssetDataAsync_def subAccountsAsync_def userFeesAsync_def maxBuilderFeeAsync_def
      approvedBuildersAsync_def delegationsAsync_def delegatorSummaryAsync_def delegatorHistoryAsync_def
      delegatorRewardsAsync_def vaultDetailsAsync_def userVaultEquitiesAsync_def portfolioAsync_def
      referralAsync_def userRoleAsync_def borrowLendUserStateAsync_def borrowLendReserveStateAsync_def
      allBorrowLendReserveStatesAsync_def userBorrowLendInterestAsync_def liquidatableAsync_def)

lemma account_sync_same:
  "sc_request (account_sync J syms c) = account_call J syms c"
  "bindE (sc_parse (account_sync J syms c) S m) (\<lambda>r. Inr (Some r)) = parse_reply S m (rq_type (account_call J syms c))"
  by (cases c; simp add: parsed_by_def api_call_def reply_of_def bindE_assoc
      activeAssetData_sync_def subAccounts_sync_def userFees_sync_def maxBuilderFee_sync_def
      approvedBuilders_sync_def delegations_sync_def delegatorSummary_sync_def delegatorHistory_sync_def
      delegatorRewards_sync_def vaultDetails_sync_def userVaultEquities_sync_def portfolio_sync_def
      referral_sync_def userRole_sync_def borrowLendUserState_sync_def borrowLendReserveState_sync_def
      allBorrowLendReserveStates_sync_def userBorrowLendInterest_sync_def liquidatable_sync_def)+

lemma order_async_same: "order_async J syms c = order_call J syms c"
  by (cases c) (simp_all add:
      placeOrderAsync_def cancelOrderAsync_def cancelOrderByCloidAsync_def scheduleCancelAsync_def
      modifyOrderAsync_def batchModifyOrderAsync_def updateLeverageAsync_def updateIsolatedMarginAsync_def
      approveAgentAsync_def agentSetAbstractionAsync_def twapOrderAsync_def twapCancelAsync_def
      vaultTransferAsync_def hip3LiquidatorTransferAsync_def createSubAccountAsync_def subAccountTransferAsync_def
      createVaultAsync_def usdClassTransferAsync_def sendAssetAsync_def usdSendAsync_def)

lemma order_sync_same:
  "sc_request (order_sync J syms c) = order_call J syms c"
  "bindE (sc_parse (order_sync J syms c) S m) (\<lambda>r. Inr (Some r)) = parse_reply S m (rq_type (order_call J syms c))"
  by (cases c; simp add: parsed_by_def api_call_def reply_of_def bindE_assoc
      placeOrder_sync_def cancelOrder_sync_def cancelOrderByCloid_sync_def scheduleCancel_sync_def
      modifyOrder_sync_def batchModifyOrder_sync_def updateLeverage_sync_def updateIsolatedMargin_sync_def
      approveAgent_sync_def agentSetAbstraction_sync_def twapOrder_sync_def twapCancel_sync_def
      vaultTransfer_sync_def hip3LiquidatorTransfer_sync_def createSubAccount_sync_def subAccountTransfer_sync_def
      createVault_sync_def usdClassTransfer_sync_def sendAsset_sync_def usdSend_sync_def)+

lemma funds_async_same: "funds_async J syms c = funds_call J syms c"
  by (cases c) (simp_all add:
      spotSendAsync_def withdraw3Async_def approveBuilderFeeAsync_def userSetAbstractionAsync_def
      setReferrerAsync_def cDepositAsync_def cWithdrawAsync_def tokenDelegateAsync_def borrowLendAsync_def
      spotDeployRegisterToken2Async_def spotDeployUserGenesisAsync_def spotDeployGenesisAsync_def
      spotDeployRegisterSpotAsync_def spotDeployRegisterHyperliquidityAsync_def perpDeployRegisterAsset2Async_def
      sendToEvmWithDataAsync_def userDexAbstractionAsync_def userPortfolioMarginAsync_def agentSendAssetAsync_def
      reserveRequestWeightAsync_def noopAsync_def)

lemma funds_sync_same:
  "sc_request (funds_sync J syms c) = funds_call J syms c"
  "bindE (sc_parse (funds_sync J syms c) S m) (\<lambda>r. Inr (Some r)) = parse_reply S m (rq_type (funds_call J syms c))"
  by (cases c; simp add: parsed_by_def api_call_def reply_of_def bindE_assoc
      spotSend_sync_def withdraw3_sync_def approveBuilderFee_sync_def userSetAbstraction_sync_def
      setReferrer_sync_def cDeposit_sync_def cWithdraw_sync_def tokenDelegate_sync_def borrowLend_sync_def
      spotDeployRegisterToken2_sync_def spotDeployUserGenesis_sync_def spotDeployGenesis_sync_def
      spotDeployRegisterSpot_sync_def spotDeployRegisterHyperliquidity_sync_def perpDeployRegisterAsset2_sync_def
      sendToEvmWithData_sync_def userDexAbstraction_sync_def userPortfolioMargin_sync_def agentSendAsset_sync_def
      reserveRequestWeight_sync_def noop_sync_def)+

lemmas async_same = market_async_same user_async_same account_async_same order_async_same funds_async_same

lemmas sync_same = market_sync_same user_sync_same account_sync_same order_sync_same funds_sync_same

lemma rest_async_same: "rest_async J syms call = api_request_of J syms call"
  by (cases call) (simp_all add: async_same)

lemma rest_sync_same:
  "sc_request (rest_sync J syms call) = api_request_of J syms call"
  "bindE (sc_parse (rest_sync J syms call) S m) (\<lambda>r. Inr (Some r)) =
     parse_reply S m (rq_type (api_request_of J syms call))"
  by (cases call; simp add: sync_same)+

text \<open>
  C13: Every call of the API sends the same request by all three transports: the asynchronous and the synchronous
  REST method and the WebSocket method agree on the endpoint, the body (or the exception its builder throws) and
  the vault address; and the parser a synchronous method applies is the one the message parser has for its
  endpoint.
\<close>

theorem transports_agree:
  "rest_async J syms call = api_request_of J syms call \<and>
   sc_request (rest_sync J syms call) = api_request_of J syms call \<and>
   (\<forall>m. bindE (sc_parse (rest_sync J syms call) S m) (\<lambda>r. Inr (Some r)) =
        parse_reply S m (rq_type (api_request_of J syms call)))"
  by (simp add: rest_async_same rest_sync_same)

section \<open>Synchronous calls\<close>

lemma parsed_reply_throws:
  assumes "simdjson S" and "sc_parse (rest_sync J syms call) S m = Inl e"
  shows "e \<in> number_errors" and "\<not> isAuthenticated (rq_type (api_request_of J syms call))"
proof -
  have "parse_reply S m (rq_type (api_request_of J syms call)) = Inl e"
    using assms(2) rest_sync_same(2) [of J syms call S m] by simp
  then show "e \<in> number_errors" and "\<not> isAuthenticated (rq_type (api_request_of J syms call))"
    using simdjson.parse_reply_throws [OF assms(1), of m] simdjson.exchange_reply_total [OF assms(1), of _ m]
    by (force simp: throws_in_def)+
qed

definition session_for :: "'j json_ops \<Rightarrow> ApiConfig \<Rightarrow> RestEndpointType \<Rightarrow> 'j \<Rightarrow> http_session" where
  "session_for J config type prepared =
     run_session (host (toInfoEndpoint (env config))) (toPath type) (jdump J prepared)"

text \<open>A call ends in its builder, in the signing, or with one session and what its answer gives.\<close>

lemma call_sync_cases:
  assumes "call_sync J E S net call now s = (s', r)" and "rq = api_request_of J (ra_syms s) call"
  obtains (built) e where "rq_body rq = Inl e" "s' = s" "r = Inl e"
  | (signed) body nonce e where "rq_body rq = Inr body"
      "prepareBodyForType J E (ra_config s) (rq_type rq) body (rq_vault rq) None now (ra_nonce s) = (nonce, Inl e)"
      "s' = s\<lparr>ra_nonce := nonce\<rparr>" "r = Inl e"
  | (sent) body nonce prepared where "rq_body rq = Inr body"
      "prepareBodyForType J E (ra_config s) (rq_type rq) body (rq_vault rq) None now (ra_nonce s) = (nonce, Inr prepared)"
      "s' = s\<lparr>ra_nonce := nonce,
             ra_sessions := ra_sessions s @ [(rq_type rq, session_for J (ra_config s) (rq_type rq) prepared)]\<rparr>"
      "r = bindE (sync_result (net (session_for J (ra_config s) (rq_type rq) prepared)))
             (sc_parse (rest_sync J (ra_syms s) call) S)"
proof (cases "rq_body rq")
  case (Inl e)
  then show ?thesis using built assms by (simp add: call_sync_def rest_sync_same Let_def)
next
  case (Inr body)
  obtain nonce p where p:
    "prepareBodyForType J E (ra_config s) (rq_type rq) body (rq_vault rq) None now (ra_nonce s) = (nonce, p)"
    by fastforce
  show ?thesis
  proof (cases p)
    case (Inl e)
    then show ?thesis
      using signed [OF Inr] p Inr assms
      by (simp add: call_sync_def rest_sync_same Let_def signAndSendSync_def start_request_def)
  next
    case (Inr prepared)
    then show ?thesis
      using sent [OF \<open>rq_body rq = Inr body\<close>, of nonce prepared] p \<open>rq_body rq = Inr body\<close> assms
      by (simp add: call_sync_def rest_sync_same Let_def signAndSendSync_def start_request_def session_for_def
          split: sum.splits prod.splits)
  qed
qed

text \<open>
  C14: When a synchronous call throws after its request has gone out, the exception says why: the transport error
  or the rate limit the session reported, or, for an information request only, an exception of the numeric
  conversions. The answer to an exchange request that arrives with another status is always returned.
\<close>

theorem sync_call_errors:
  assumes "simdjson S" and "call_sync J E S net call now s = (s', Inl e)" and "ra_sessions s' \<noteq> ra_sessions s"
  shows "case hres_error (net (snd (last (ra_sessions s')))) of
      Some msg \<Rightarrow> e = Transport_Error (''RestApi: '' @ msg)
    | None \<Rightarrow>
        if hres_status (net (snd (last (ra_sessions s')))) = 429
        then e = Rate_Limit_Error (''RestApi: HTTP 429 rate limited: '' @ hres_body (net (snd (last (ra_sessions s')))))
        else e \<in> number_errors \<and> \<not> isAuthenticated (rq_type (api_request_of J (ra_syms s) call))"
  using assms(2) refl
proof (cases rule: call_sync_cases)
  case (sent body nonce prepared)
  let ?res = "net (session_for J (ra_config s) (rq_type (api_request_of J (ra_syms s) call)) prepared)"
  have res: "net (snd (last (ra_sessions s'))) = ?res" using sent(3) by simp
  have r: "bindE (sync_result ?res) (sc_parse (rest_sync J (ra_syms s) call) S) = Inl e" using sent(4) by simp
  show ?thesis
  proof (cases "hres_error ?res")
    case (Some msg)
    with r show ?thesis unfolding res by (simp add: sync_result_def)
  next
    case None
    show ?thesis
    proof (cases "hres_status ?res = 429")
      case True
      with None r show ?thesis unfolding res by (simp add: sync_result_def)
    next
      case False
      with None r have "sc_parse (rest_sync J (ra_syms s) call) S (hres_body ?res) = Inl e"
        by (simp add: sync_result_def)
      with None False show ?thesis unfolding res by (simp add: parsed_reply_throws [OF assms(1)])
    qed
  qed
qed (use assms(3) in simp_all)

text \<open>The rate-limit request of a client without a wallet, answered with a field that is no number.\<close>

definition bad_answer :: network where
  "bad_answer session = \<lparr>hres_body = ''{}'', hres_status = 200, hres_error = None\<rparr>"

definition no_curve :: secp256k1 where
  "no_curve = undefined"

lemma bad_call:
  "\<exists>s'. call_sync json_model no_curve bad_rate_limit bad_answer (UserApi (C_UserRateLimit ''0x0'')) 0
          (RestApi_Impl default_config 0) = (s', Inl (Invalid_Argument ''stod'')) \<and>
        ra_sessions s' \<noteq> ra_sessions (RestApi_Impl default_config 0)"
  by (auto simp: call_sync_def userRateLimit_sync_def parsed_by_def api_call_def signAndSendSync_def start_request_def
      prepareBodyForType_def prepareBody_def effective_vault_def jassign_checked_def jassign_def opt_field_def
      isUserSignedAction_def RestApi_Impl_def default_config_def sync_result_def bad_answer_def reply_of_def
      bad_rate_limit_parse Let_def)

theorem sync_call_errors_witness:
  "Invalid_Argument ''stod'' \<in> number_errors \<and> \<not> isAuthenticated Ep_UserRateLimit"
proof -
  from bad_call obtain s' where s':
    "call_sync json_model no_curve bad_rate_limit bad_answer (UserApi (C_UserRateLimit ''0x0'')) 0
       (RestApi_Impl default_config 0) = (s', Inl (Invalid_Argument ''stod''))"
    "ra_sessions s' \<noteq> ra_sessions (RestApi_Impl default_config 0)" by blast
  have "simdjson bad_rate_limit" unfolding bad_rate_limit_def by (rule tree.simdjson_axioms)
  from sync_call_errors [OF this s'] show ?thesis
    by (simp add: bad_answer_def api_call_def)
qed


end
