(* ===== verification/Rest_Session.thy ===== *)
theory Rest_Session
  imports Rest_Api_Proofs
begin

text \<open>
  A call of the REST client put together with the session it starts: what the caller is given, for any run of the
  session's handlers.
\<close>

section \<open>From the call to the answer\<close>

text \<open>What a finished session's callback hands over: an error, or the response that was read.\<close>

lemma finished_session:
  assumes "http_run (run_session hostname target body) n t" and "hs_phase t = Finished" and "hs_calls t = [res]"
  shows "hs_request t = post_request hostname target body"
    and "hres_error res = None \<Longrightarrow> hres_body res = fst (hs_response t) \<and> hres_status res = snd (hs_response t)"
  using http_run_inv [OF assms(1) session_inv_start] assms(2,3) by (auto simp: session_inv_def)

text \<open>
  C26: A synchronous call posts its request once, if it can be built and signed, and not at all otherwise: then the
  caller has the exception of the builder or of the signing. The session it starts posts the signed body to the host of
  the environment and the path of its endpoint. When that session has ended, whatever its handlers met, the caller has
  the reply parsed from the body that was read, unless the session reported an error or the status 429. The
  asynchronous call starts the same session, and its listener is told the same, once.
\<close>

theorem answer_reaches_caller:
  assumes "call_sync J E S net call now s = (s', r)"
  shows "let rq = api_request_of J (ra_syms s) call; type = rq_type rq
    in case rq_body rq of
         Inl e \<Rightarrow> s' = s \<and> r = Inl e
       | Inr body \<Rightarrow>
           (case prepareBodyForType J E (ra_config s) type body (rq_vault rq) None now (ra_nonce s) of
              (nonce, Inl e) \<Rightarrow> s' = s\<lparr>ra_nonce := nonce\<rparr> \<and> r = Inl e
            | (nonce, Inr prepared) \<Rightarrow>
                (let session = run_session (host (toInfoEndpoint (env (ra_config s)))) (toPath type) (jdump J prepared);
                     answered = s\<lparr>ra_nonce := nonce, ra_sessions := ra_sessions s @ [(type, session)]\<rparr>
                 in s' = answered \<and> call_async J E call now s = (answered, Inr ()) \<and>
                    (http_run session n t \<and> hs_phase t = Finished \<and> hs_calls t = [net session] \<longrightarrow>
                       hs_request t = post_request (host (toInfoEndpoint (env (ra_config s)))) (toPath type) (jdump J prepared) \<and>
                       r = (case hres_error (net session) of
                              Some msg \<Rightarrow> Inl (Transport_Error (''RestApi: '' @ msg))
                            | None \<Rightarrow>
                                if snd (hs_response t) = 429
                                then Inl (Rate_Limit_Error (''RestApi: HTTP 429 rate limited: '' @ fst (hs_response t)))
                                else sc_parse (rest_sync J (ra_syms s) call) S (fst (hs_response t))) \<and>
                       ra_events (on_async_complete type (net session) s') = ra_events s @
                         [case hres_error (net session) of
                            Some msg \<Rightarrow> RL_Error type msg
                          | None \<Rightarrow>
                              if snd (hs_response t) = 429 then RL_Rate_Limit type (fst (hs_response t))
                              else RL_Message (fst (hs_response t)) type])))"
  using assms refl
proof (cases rule: call_sync_cases)
  case (sent body nonce prepared)
  let ?type = "rq_type (api_request_of J (ra_syms s) call)"
  let ?session = "run_session (host (toInfoEndpoint (env (ra_config s)))) (toPath ?type) (jdump J prepared)"
  have async: "call_async J E call now s =
      (s\<lparr>ra_nonce := nonce, ra_sessions := ra_sessions s @ [(?type, ?session)]\<rparr>, Inr ())"
    using sent(1,2) by (simp add: call_async_def rest_async_same signAndSend_rest_def start_request_def Let_def)
  have fin: "hs_request t = post_request (host (toInfoEndpoint (env (ra_config s)))) (toPath ?type) (jdump J prepared)"
    "hres_error (net ?session) = None \<Longrightarrow>
       hres_body (net ?session) = fst (hs_response t) \<and> hres_status (net ?session) = snd (hs_response t)"
    if "http_run ?session n t" "hs_phase t = Finished" "hs_calls t = [net ?session]"
    using finished_session [OF that] by simp_all
  show ?thesis
    using sent async fin
    by (auto simp: session_for_def sync_result_def on_async_complete_def Let_def split: option.splits)
qed (simp_all add: Let_def)

text \<open>The mid prices of a client without a wallet, from a session that meets no error.\<close>

definition quiet_network :: network where
  "quiet_network session = \<lparr>hres_body = ''{}'', hres_status = 429, hres_error = None\<rparr>"

lemma quiet_run:
  "\<exists>t. http_run (run_session h p b) 6 t \<and> hs_phase t = Finished \<and> hs_response t = (''{}'', 429) \<and>
     hs_calls t = [quiet_network (run_session h p b)]"
proof -
  define s0 where "s0 = run_session h p b"
  define s4 where "s4 = onWrite_http None (onSslHandshake_http None (onConnect_http None (onResolve_http None None s0)))"
  define s5 where "s5 = onRead_http None (s4\<lparr>hs_response := (''{}'', 429)\<rparr>)"
  note defs = http_defs run_session_def s0_def s4_def s5_def
  have "http_run s0 0 s0" by (rule http_refl)
  from http_more [OF this resolved [of _ None None]]
  have "http_run s0 1 (onResolve_http None None s0)" by (simp add: defs)
  from http_more [OF this connected [of _ None]]
  have "http_run s0 2 (onConnect_http None (onResolve_http None None s0))" by (simp add: defs numeral_2_eq_2)
  from http_more [OF this handshaken [of _ None]]
  have "http_run s0 3 (onSslHandshake_http None (onConnect_http None (onResolve_http None None s0)))"
    by (simp add: defs numeral_3_eq_3)
  from http_more [OF this written [of _ None]]
  have "http_run s0 4 s4" unfolding s4_def by (simp add: defs)
  from http_more [OF this read [of _ None "(''{}'', 429)"]]
  have "http_run s0 5 s5" unfolding s5_def by (simp add: s4_def s0_def http_defs run_session_def)
  from http_more [OF this shut_down [of _ None]]
  have "http_run s0 6 (onShutdown_http None s5)" by (simp add: defs)
  moreover have "hs_calls (onShutdown_http None s5) = [quiet_network s0]"
    "hs_response (onShutdown_http None s5) = (''{}'', 429)" "hs_phase (onShutdown_http None s5) = Finished"
    by (simp_all add: defs quiet_network_def)
  ultimately show ?thesis unfolding s0_def by blast
qed

lemma mids_prepared:
  "\<exists>body prepared. rq_body (api_request_of json_model SymbolMap_empty (MarketApi (C_AllMids None))) = Inr body \<and>
     prepareBodyForType json_model E default_config Ep_AllMids body None None 0 0 = (0, Inr prepared)"
  by (simp add: api_call_def prepareBodyForType_def prepareBody_def effective_vault_def jassign_checked_def
      jassign_def opt_field_def isUserSignedAction_def default_config_def)

theorem answer_reaches_caller_witness:
  "\<forall>E S. \<exists>s' session. call_sync json_model E S quiet_network (MarketApi (C_AllMids None)) 0 (RestApi_Impl default_config 0) =
     (s', Inl (Rate_Limit_Error ''RestApi: HTTP 429 rate limited: {}'')) \<and> ra_sessions s' = [(Ep_AllMids, session)]"
proof (intro allI)
  fix E :: secp256k1 and S :: "'v sj_reader"
  let ?s = "RestApi_Impl default_config 0"
  obtain s' r where call: "call_sync json_model E S quiet_network (MarketApi (C_AllMids None)) 0 ?s = (s', r)"
    by fastforce
  obtain body prepared where p: "rq_body (api_request_of json_model SymbolMap_empty (MarketApi (C_AllMids None))) = Inr body"
    "prepareBodyForType json_model E default_config Ep_AllMids body None None 0 0 = (0, Inr prepared)"
    using mids_prepared by blast
  let ?session = "run_session (host (toInfoEndpoint (env default_config))) (toPath Ep_AllMids) (jdump json_model prepared)"
  obtain t where t: "http_run ?session 6 t" "hs_phase t = Finished" "hs_response t = (''{}'', 429)"
    "hs_calls t = [quiet_network ?session]" using quiet_run by blast
  have s: "ra_config ?s = default_config" "ra_syms ?s = SymbolMap_empty" "ra_nonce ?s = 0" "ra_sessions ?s = []"
    "rq_type (api_request_of json_model SymbolMap_empty (MarketApi (C_AllMids None))) = Ep_AllMids"
    "rq_vault (api_request_of json_model SymbolMap_empty (MarketApi (C_AllMids None))) = None"
    by (simp_all add: RestApi_Impl_def api_call_def)
  from answer_reaches_caller [OF call, of 6 t] t p call
  show "\<exists>s' session. call_sync json_model E S quiet_network (MarketApi (C_AllMids None)) 0 ?s =
      (s', Inl (Rate_Limit_Error ''RestApi: HTTP 429 rate limited: {}'')) \<and> ra_sessions s' = [(Ep_AllMids, session)]"
    by (simp add: s api_call_def Let_def quiet_network_def)
qed

end
