(* ===== verification/Mapping_Proofs.thy ===== *)
theory Mapping_Proofs
  imports Exchange_Builder
begin

text \<open>
  The symbol map \<open>initializeMapping\<close> builds, described by what the names resolve to: which of several claims on
  a name wins.
\<close>

section \<open>The claims on names\<close>

text \<open>The numbered assets of a perpetuals universe, the pairs by their own index, the aliases of pairs.\<close>

definition asset_ids :: "int \<Rightarrow> string list \<Rightarrow> (string \<times> int) list" where
  "asset_ids base assets = map (\<lambda>i. (assets ! i, base + int i)) [0..<length assets]"

definition pair_ids :: "spot_pair list \<Rightarrow> (string \<times> int) list" where
  "pair_ids pairs = map (\<lambda>p. (pair_name p, pair_index p + 10000)) pairs"

fun alias_of :: "(int \<Rightarrow> spot_token option) \<Rightarrow> spot_pair \<Rightarrow> (string \<times> int) list" where
  "alias_of byIndex p =
     (case pair_tokens p of
        [base, quote] \<Rightarrow>
          (case (byIndex base, byIndex quote) of
             (Some b, Some q) \<Rightarrow> [(tok_name b @ ''/'' @ tok_name q, pair_index p + 10000)]
           | _ \<Rightarrow> [])
      | _ \<Rightarrow> [])"

definition alias_ids :: "(int \<Rightarrow> spot_token option) \<Rightarrow> spot_pair list \<Rightarrow> (string \<times> int) list" where
  "alias_ids byIndex pairs = concat (map (alias_of byIndex) pairs)"

fun dex_ids :: "rest_metadata \<Rightarrow> string list \<Rightarrow> int \<Rightarrow> string list \<Rightarrow> (string \<times> int) list" where
  "dex_ids api wanted perpIdx [] = []"
| "dex_ids api wanted perpIdx (dex # rest) =
     (case (dex \<in> set wanted, api_meta api (Some dex)) of
        (True, Inr universe) \<Rightarrow> asset_ids (100000 + perpIdx * 10000) universe
      | _ \<Rightarrow> []) @ dex_ids api wanted (perpIdx + 1) rest"

section \<open>The loops\<close>

lemma asset_ids_Cons: "asset_ids base (a # as) = (a, base) # asset_ids (base + 1) as"
  by (auto simp: asset_ids_def upt_rec [of 0] map_Suc_upt [symmetric] simp del: upt_Suc)

lemma asset_ids_Nil [simp]: "asset_ids base [] = []"
  by (simp add: asset_ids_def)

text \<open>\<open>set\<close> in a loop: the last claim wins.\<close>

definition override :: "(string \<times> int) list \<Rightarrow> symbol_map \<Rightarrow> symbol_map" where
  "override ids m n = (case map_of (rev ids) n of None \<Rightarrow> m n | Some i \<Rightarrow> Some i)"

lemma override_Nil [simp]: "override [] m = m"
  by (rule ext) (simp add: override_def)

lemma override_append: "override (ids @ ids') m = override ids' (override ids m)"
  by (rule ext) (auto simp: override_def map_add_def split: option.splits)

lemma override_single: "override [(k, i)] m = SymbolMap_set k i m"
  by (rule ext) (simp add: override_def SymbolMap_set_def)

lemma override_Cons: "override ((k, i) # ids) m = override ids (SymbolMap_set k i m)"
  using override_append [of "[(k, i)]" ids m] by (simp add: override_single)

lemma set_assets_override: "set_assets index assets m = override (asset_ids index assets) m"
  by (induction assets arbitrary: index m) (simp_all add: asset_ids_Cons override_Cons)

lemma add_dexes_override:
  "add_dexes api wanted perpIdx names m = Inr m' \<Longrightarrow> m' = override (dex_ids api wanted perpIdx names) m"
proof (induction names arbitrary: perpIdx m)
  case (Cons dex rest)
  show ?case
  proof (cases "dex \<in> set wanted")
    case True
    with Cons.prems obtain universe where u: "api_meta api (Some dex) = Inr universe"
      "add_dexes api wanted (perpIdx + 1) rest (set_assets (100000 + perpIdx * 10000) universe m) = Inr m'"
      by auto
    from Cons.IH [OF u(2)] True u(1) show ?thesis
      by (simp add: set_assets_override override_append)
  next
    case False
    with Cons show ?thesis by simp
  qed
qed simp

lemma SymbolMap_add_apply:
  "SymbolMap_add k i m n = (if n = k then (case m k of Some j \<Rightarrow> Some j | None \<Rightarrow> Some i) else m n)"
  by (auto simp: SymbolMap_add_def split: option.splits)

text \<open>A pair sets its own name and then adds its alias if the name is free.\<close>

lemma add_pair_result:
  assumes "add_pair byIndex p m = Inr m'"
  shows "m' n = (if n = pair_name p then Some (pair_index p + 10000)
                 else case m n of Some i \<Rightarrow> Some i | None \<Rightarrow> map_of (alias_of byIndex p) n)"
proof -
  have m': "m' = (case alias_of byIndex p of
      [] \<Rightarrow> SymbolMap_set (pair_name p) (pair_index p + 10000) m
    | (k, i) # _ \<Rightarrow> SymbolMap_add k i (SymbolMap_set (pair_name p) (pair_index p + 10000) m))"
    using assms by (auto simp: add_pair_def Let_def split: list.splits option.splits)
  have "alias_of byIndex p = [] \<or> (\<exists>k i. alias_of byIndex p = [(k, i)] \<and> i = pair_index p + 10000)"
    by (auto split: list.splits option.splits)
  then show ?thesis
    unfolding m'
    by (auto simp: SymbolMap_add_apply SymbolMap_set_def simp del: alias_of.simps split: option.splits)
qed

lemma add_pairs_result:
  "foldE (add_pair byIndex) pairs m = Inr m' \<Longrightarrow>
   m' n = (case map_of (rev (pair_ids pairs)) n of
             Some i \<Rightarrow> Some i
           | None \<Rightarrow> (case m n of Some i \<Rightarrow> Some i | None \<Rightarrow> map_of (alias_ids byIndex pairs) n))"
proof (induction pairs arbitrary: m)
  case Nil
  then show ?case by (simp add: pair_ids_def alias_ids_def split: option.splits)
next
  case (Cons p pairs)
  then obtain m1 where m1: "add_pair byIndex p m = Inr m1" "foldE (add_pair byIndex) pairs m1 = Inr m'"
    by auto
  have "pair_ids (p # pairs) = (pair_name p, pair_index p + 10000) # pair_ids pairs"
    "alias_ids byIndex (p # pairs) = alias_of byIndex p @ alias_ids byIndex pairs"
    by (simp_all add: pair_ids_def alias_ids_def)
  with Cons.IH [OF m1(2)] show ?case
    by (auto simp: add_pair_result [OF m1(1)] map_add_def simp del: alias_of.simps split: option.splits if_splits)
qed

text \<open>
  C19: What a name resolves to after \<open>initializeMapping\<close>: the asset of a configured DEX if one has the name (the
  last one), else the spot pair whose own name it is, else the asset of the default universe, and only then the
  first pair that has it as its alias, whatever the order in which real names and aliases were registered. A
  spot id is 10000 plus the pair's own index, a perpetual's its position in the universe.
\<close>

theorem symbol_map_precedence:
  assumes "initializeMapping config api SymbolMap_empty = Inr m" and "wallet config \<noteq> None"
    and "api_meta api None = Inr universe" and "api_spotMeta api = Inr (tokens, pairs)"
    and "dexes config \<noteq> [] \<Longrightarrow> api_perpDexs api = Inr dexNames"
  shows "SymbolMap_resolve m name =
    of_option (Invalid_Argument (''Unknown symbol: '' @ name))
      (case map_of (rev (if dexes config = [] then [] else dex_ids api (dexes config) 1 dexNames)) name of
         Some i \<Rightarrow> Some i
       | None \<Rightarrow>
      (case map_of (rev (pair_ids pairs)) name of
         Some i \<Rightarrow> Some i
       | None \<Rightarrow>
      (case map_of (rev (asset_ids 0 universe)) name of
         Some i \<Rightarrow> Some i
       | None \<Rightarrow> map_of (alias_ids (tokenByIndex tokens) pairs) name)))"
proof -
  from assms(1-4) obtain m1 where
    pairs: "foldE (add_pair (tokenByIndex tokens)) pairs (set_assets 0 universe SymbolMap_empty) = Inr m1"
    and rest: "(if dexes config = [] then Inr m1
       else bindE (api_perpDexs api) (\<lambda>dexNames. add_dexes api (dexes config) 1 dexNames m1)) = Inr m"
    by (auto simp: initializeMapping_def)
  have m: "m = override (if dexes config = [] then [] else dex_ids api (dexes config) 1 dexNames) m1"
  proof (cases "dexes config = []")
    case False
    with rest assms(5) show ?thesis by (simp add: add_dexes_override)
  qed (use rest in simp)
  have m1: "m1 name = (case map_of (rev (pair_ids pairs)) name of
      Some i \<Rightarrow> Some i
    | None \<Rightarrow> (case map_of (rev (asset_ids 0 universe)) name of
        Some i \<Rightarrow> Some i | None \<Rightarrow> map_of (alias_ids (tokenByIndex tokens) pairs) name))"
    using add_pairs_result [OF pairs, of name]
    by (simp add: set_assets_override override_def SymbolMap_empty_def split: option.splits)
  show ?thesis
    unfolding SymbolMap_resolve_def m override_def m1
    by (simp add: of_option_def split: option.splits)
qed

text \<open>Two pairs of which the second has the name that is the alias of the first.\<close>

definition example_metadata :: rest_metadata where
  "example_metadata =
     \<lparr>api_meta = (\<lambda>_. Inr [''BTC'', ''ETH'']),
      api_spotMeta = Inr ([\<lparr>tok_name = ''PURR'', tok_index = 1\<rparr>, \<lparr>tok_name = ''USDC'', tok_index = 0\<rparr>],
        [\<lparr>pair_name = ''@7'', pair_index = 7, pair_tokens = [1, 0]\<rparr>,
         \<lparr>pair_name = ''PURR/USDC'', pair_index = 0, pair_tokens = [1, 0]\<rparr>]),
      api_perpDexs = Inr []\<rparr>"

theorem symbol_map_precedence_witness:
  "\<exists>m. initializeMapping (default_config\<lparr>wallet := Some \<lparr>accountAddress = '''', privateKey = ''''\<rparr>\<rparr>)
         example_metadata SymbolMap_empty = Inr m \<and> SymbolMap_resolve m ''PURR/USDC'' = Inr 10000"
proof -
  let ?config = "default_config\<lparr>wallet := Some \<lparr>accountAddress = '''', privateKey = ''''\<rparr>\<rparr>"
  have "\<exists>m. initializeMapping ?config example_metadata SymbolMap_empty = Inr m"
    by (simp add: initializeMapping_def example_metadata_def default_config_def add_pair_def tokenByIndex_def Let_def)
  then obtain m where m: "initializeMapping ?config example_metadata SymbolMap_empty = Inr m" by blast
  have "SymbolMap_resolve m ''PURR/USDC'' = Inr 10000"
    using symbol_map_precedence [OF m, of "[''BTC'', ''ETH'']" _ _ "[]" "''PURR/USDC''"]
    by (simp add: example_metadata_def default_config_def pair_ids_def)
  with m show ?thesis by blast
qed

end
