(* ===== verification/Post_Dispatch.thy ===== *)
theory Post_Dispatch
  imports Websocket_Api Parser_Safety "HOL-Library.Multiset"
begin

text \<open>
  Requests over the WebSocket and their responses: what a response does to the table of outstanding requests, what
  the listener is told, and which exceptions leave the message callback.
\<close>

section \<open>Reading a post response\<close>

text \<open>The id and the payload \<open>handlePostChannelMessage\<close> reads of a message.\<close>

definition read_post :: "'v sj_reader \<Rightarrow> string \<Rightarrow> (u64 \<times> string outcome) outcome" where
  "read_post S message =
     bindE (sj_iterate S message) (\<lambda>doc.
     bindE (field_object S doc ''data'') (\<lambda>data.
     bindE (field_uint64 S data ''id'') (\<lambda>key.
     Inr (key, bindE (sj_at S (sj_field S data ''response'') ''payload'') (sj_raw S)))))"

definition read_channel :: "'v sj_reader \<Rightarrow> string \<Rightarrow> string outcome" where
  "read_channel S message = bindE (sj_at S (sj_iterate S message) ''channel'') (sj_string S)"

context simdjson
begin

lemma only_read_post: "sj_only (read_post S message)"
  by (simp add: read_post_def sj_only_bindE only_reads)

lemma only_payload: "read_post S message = Inr (key, payload) \<Longrightarrow> sj_only payload"
  by (auto simp: read_post_def sj_only_bindE only_reads)

lemma only_channel: "sj_only (read_channel S message)"
  by (simp add: read_channel_def sj_only_bindE only_reads)

end

text \<open>The typed callback of a payload: nothing for an endpoint without a case or a payload without data.\<close>

definition typed_events ::
  "'v sj_reader \<Rightarrow> RestEndpointType \<Rightarrow> string \<Rightarrow> u64 option \<Rightarrow> api_event list outcome" where
  "typed_events S type payloadText correlationId =
     (if isAuthenticated type
      then bindE (parseSimpleResponse S payloadText) (\<lambda>reply. Inr [Listener_Simple type reply correlationId])
      else case bindE (sj_at S (sj_iterate S payloadText) ''data'') (sj_raw S) of
             Inl e \<Rightarrow> if e = Simdjson_Error then Inr [] else Inl e
           | Inr dataJson \<Rightarrow>
               if info_post_handled type
               then bindE (parse_reply S dataJson type) (\<lambda>reply.
                      Inr (case reply of None \<Rightarrow> [] | Some r \<Rightarrow> [Listener_Typed r correlationId]))
               else Inr [])"

definition emit_all :: "api_event list \<Rightarrow> ws_api \<Rightarrow> ws_api" where
  "emit_all es s = s\<lparr>wa_log := wa_log s @ es\<rparr>"

lemma emit_all_simps [simp]:
  "wa_log (emit_all es s) = wa_log s @ es" "postRequestInfo (emit_all es s) = postRequestInfo s"
  "emit_all [] s = s"
  by (simp_all add: emit_all_def)

lemma dispatch_typed:
  "(if isAuthenticated type then dispatchExchangeActionPostResponse S type payloadText correlationId s
    else dispatchInfoPostResponse S type payloadText correlationId s) =
   (case typed_events S type payloadText correlationId of
      Inl e \<Rightarrow> (s, Inl e) | Inr es \<Rightarrow> (emit_all es s, Inr ()))"
proof (cases "isAuthenticated type")
  case True
  then show ?thesis
    by (cases "parseSimpleResponse S payloadText")
      (simp_all add: typed_events_def dispatchExchangeActionPostResponse_def wa_emit_def emit_all_def)
next
  case False
  note defs = typed_events_def dispatchInfoPostResponse_def deliver_typed_def wa_emit_def emit_all_def
  show ?thesis
  proof (cases "bindE (sj_at S (sj_iterate S payloadText) ''data'') (sj_raw S)")
    case (Inl e)
    with False show ?thesis by (simp add: defs del: bindE_Inl_iff)
  next
    case (Inr dataJson)
    then show ?thesis
      using False by (cases "parse_reply S dataJson type") (simp_all add: defs del: bindE_Inr_iff split: option.split)
  qed
qed

text \<open>A response to an outstanding request, in one equation.\<close>

definition answer_post :: "'v sj_reader \<Rightarrow> u64 \<Rightarrow> RestEndpointType \<Rightarrow> u64 option \<Rightarrow> string \<Rightarrow> ws_api \<Rightarrow> ws_api \<times> unit outcome" where
  "answer_post S key type correlationId payloadText s =
     (let s1 = emit_all [Listener_Post payloadText type correlationId]
                 (s\<lparr>postRequestInfo := (postRequestInfo s)(key := None)\<rparr>)
      in case typed_events S type payloadText correlationId of
           Inl e \<Rightarrow> (s1, Inl e) | Inr es \<Rightarrow> (emit_all es s1, Inr ()))"

lemma handle_post_eq:
  "handlePostChannelMessage S message s =
     (case read_post S message of
        Inl e \<Rightarrow> (s, Inl e)
      | Inr (key, payload) \<Rightarrow>
          (case postRequestInfo s key of
             None \<Rightarrow> (emit_all [Listener_Message message] s, Inr ())
           | Some (type, correlationId) \<Rightarrow>
               (case payload of
                  Inl e \<Rightarrow> (s\<lparr>postRequestInfo := (postRequestInfo s)(key := None)\<rparr>, Inl e)
                | Inr payloadText \<Rightarrow> answer_post S key type correlationId payloadText s)))"
  unfolding handlePostChannelMessage_def read_post_def [symmetric] answer_post_def
  by (auto simp: Let_def dispatch_typed [symmetric] wa_emit_def emit_all_def
      simp del: if_split_asm split: sum.splits option.splits)

text \<open>
  What a message does, as a relation between the table and the log before and after: it is dropped, handed on, lost
  with its entry, or answers a request.
\<close>

inductive ws_message :: "'v sj_reader \<Rightarrow> string \<Rightarrow> ws_api \<Rightarrow> ws_api \<times> unit outcome \<Rightarrow> bool" where
  dropped: "ws_message S message s (s, Inr ())"
| pong: "ws_message S message s (emit_all [Pong_Received] s, Inr ())"
| handed_on: "ws_message S message s (emit_all [Listener_Message message] s, Inr ())"
| lost: "read_post S message = Inr (key, Inl e) \<Longrightarrow> postRequestInfo s key \<noteq> None \<Longrightarrow>
    ws_message S message s
      (emit_all [Listener_Message message] (s\<lparr>postRequestInfo := (postRequestInfo s)(key := None)\<rparr>), Inr ())"
| answered: "read_channel S message = Inr ''post'' \<Longrightarrow> read_post S message = Inr (key, Inr payloadText) \<Longrightarrow>
    postRequestInfo s key = Some (type, correlationId) \<Longrightarrow>
    ws_message S message s (answer_post S key type correlationId payloadText s)"

context simdjson
begin

lemma simple_response_total: "\<exists>reply. parseSimpleResponse S payloadText = Inr reply"
  using exchange_throws(4) [of "{}" payloadText] by (cases "parseSimpleResponse S payloadText") (auto simp: throws_in_def)

lemma only_data: "sj_only (bindE (sj_at S (sj_iterate S payloadText) ''data'') (sj_raw S))"
  by (simp add: sj_only_bindE only_reads)

lemma typed_events_throws: "throws_in number_errors (typed_events S type payloadText c)"
  using only_data [of payloadText] parse_reply_throws [of _ type] simple_response_total [of payloadText]
  by (auto simp: typed_events_def throws_in_def sj_only_def bindE_Inl_iff split: sum.splits option.splits)

lemma typed_events_error:
  assumes "typed_events S type payloadText c = Inl e"
  shows "e \<in> number_errors \<and> \<not> isAuthenticated type \<and> info_post_handled type"
  using assms typed_events_throws [of type payloadText c] simple_response_total [of payloadText]
    only_data [of payloadText]
  by (auto simp: typed_events_def throws_in_def sj_only_def split: sum.splits option.splits if_splits)

lemma onWsMessage_answer:
  assumes "\<not> wa_stopping s" and "read_channel S message = Inr ''post''"
    and "read_post S message = Inr (key, Inr payloadText)" and "postRequestInfo s key = Some (type, c)"
  shows "onWsMessage S message s = answer_post S key type c payloadText s"
proof -
  have "typed_events S type payloadText c \<noteq> Inl Simdjson_Error"
    using typed_events_throws [of type payloadText c] by (auto simp: throws_in_def number_errors_def text_errors_def)
  with assms show ?thesis
    by (auto simp: onWsMessage_def read_channel_def [symmetric] handle_post_eq answer_post_def Let_def
        split: sum.splits)
qed

lemma onWsMessage_step: "ws_message S message s (onWsMessage S message s)"
proof (cases "wa_stopping s")
  case True
  then show ?thesis by (simp add: onWsMessage_def dropped)
next
  case running: False
  have typed: "typed_events S type payloadText c \<noteq> Inl Simdjson_Error" for type payloadText c
    using typed_events_throws [of type payloadText c] by (auto simp: throws_in_def number_errors_def text_errors_def)
  show ?thesis
  proof (cases "read_channel S message = Inr ''post''")
    case False
    then show ?thesis
      using running only_channel [of message]
      by (auto simp: onWsMessage_def read_channel_def [symmetric] sj_only_def wa_emit_def emit_all_def [symmetric]
          Let_def intro: ws_message.intros split: sum.splits)
  next
    case post: True
    have msg: "onWsMessage S message s =
      (case handlePostChannelMessage S message s of
         (s1, Inr _) \<Rightarrow> (s1, Inr ())
       | (s1, Inl e) \<Rightarrow> if e = Simdjson_Error then (emit_all [Listener_Message message] s1, Inr ()) else (s1, Inl e))"
      using running post
      by (auto simp: onWsMessage_def read_channel_def [symmetric] wa_emit_def emit_all_def split: prod.splits sum.splits)
    show ?thesis
    proof (cases "read_post S message")
      case (Inl e)
      with only_read_post [of message] show ?thesis
        by (simp add: msg handle_post_eq sj_only_def handed_on)
    next
      case (Inr r)
      obtain key payload where r: "r = (key, payload)" by (cases r)
      note read = Inr [unfolded r]
      show ?thesis
      proof (cases "postRequestInfo s key")
        case None
        with read show ?thesis by (simp add: msg handle_post_eq handed_on)
      next
        case (Some q)
        obtain type c where q: "q = (type, c)" by (cases q)
        show ?thesis
        proof (cases payload)
          case (Inl e)
          with only_payload [OF read] read Some q show ?thesis
            by (auto simp: msg handle_post_eq sj_only_def intro: lost)
        next
          case (Inr payloadText)
          have "onWsMessage S message s = answer_post S key type c payloadText s"
            using read Some q Inr typed [of type payloadText c]
            by (auto simp: msg handle_post_eq answer_post_def Let_def split: sum.splits)
          with answered [of S message key payloadText s type c] post read Some q Inr show ?thesis by simp
        qed
      qed
    qed
  qed
qed

end

section \<open>The properties\<close>

text \<open>A post response whose payload, and whose every other text, reads as this tree.\<close>

definition post_tree :: json where
  "post_tree = J_Obj
     [(''channel'', J_Str ''post''), (''cumVlm'', J_Str ''n/a''),
      (''data'', J_Obj [(''id'', J_Num 0), (''response'', J_Obj [(''payload'', J_Null)])])]"

definition post_reader :: "json sj_reader" where
  "post_reader = tree_reader (\<lambda>_. Some post_tree)"

definition waiting_api :: "RestEndpointType \<Rightarrow> ws_api" where
  "waiting_api type =
     \<lparr>wa_config = default_config, wa_syms = SymbolMap_empty, wa_stopping = False, postRequestCounter = 1,
      postRequestInfo = [0 \<mapsto> (type, Some 7)], wa_nonce = 0, wa_log = []\<rparr>"

lemma post_reader_channel: "read_channel post_reader m = Inr ''post''"
  by (simp add: read_channel_def post_reader_def post_tree_def tree_eval)

lemma post_reader_post: "read_post post_reader m = Inr (0, Inr (jdump json_model J_Null))"
  by (simp add: read_post_def post_reader_def post_tree_def tree_eval)

lemma post_reader_simdjson: "simdjson post_reader"
  by (simp add: post_reader_def tree.simdjson_axioms)

lemma post_reader_rate_limit: "parseUserRateLimit post_reader m = Inl (Invalid_Argument ''stod'')"
  by (simp add: parseUserRateLimit_def post_reader_def post_tree_def tree_eval toDouble_def stod_not_a_number
      cong: tryE_weak_cong)

lemma waiting_api_answer:
  "onWsMessage post_reader m (waiting_api type) =
   answer_post post_reader 0 type (Some 7) (jdump json_model J_Null) (waiting_api type)"
  by (rule simdjson.onWsMessage_answer [OF post_reader_simdjson])
    (simp_all add: waiting_api_def post_reader_channel post_reader_post)

lemma bad_number_message:
  "\<exists>s'. onWsMessage post_reader ''m'' (waiting_api Ep_UserRateLimit) = (s', Inl (Invalid_Argument ''stod''))"
proof -
  have "typed_events post_reader Ep_UserRateLimit m (Some 7) = Inl (Invalid_Argument ''stod'')" for m
  proof -
    have d: "bindE (sj_at post_reader (sj_iterate post_reader m) ''data'') (sj_raw post_reader) =
        Inr (jdump json_model (J_Obj [(''id'', J_Num 0), (''response'', J_Obj [(''payload'', J_Null)])]))"
      by (simp add: post_reader_def post_tree_def tree_eval)
    show ?thesis
      unfolding typed_events_def d by (simp add: info_post_handled_def post_reader_rate_limit)
  qed
  then show ?thesis unfolding waiting_api_answer by (simp add: answer_post_def Let_def)
qed

text \<open>
  C23: An exception leaves the message callback in one case only: the typed parser of an information response met
  payloadText that is no number. By then the raw response has been delivered and the request is no longer outstanding.
\<close>

theorem post_exceptions:
  assumes "simdjson S" and "onWsMessage S message s = (s', Inl e)"
  shows "e \<in> number_errors \<and>
    (\<exists>key type correlationId payloadText.
       postRequestInfo s key = Some (type, correlationId) \<and> \<not> isAuthenticated type \<and> info_post_handled type \<and>
       s' = s\<lparr>postRequestInfo := (postRequestInfo s)(key := None),
              wa_log := wa_log s @ [Listener_Post payloadText type correlationId]\<rparr>)"
  using simdjson.onWsMessage_step [OF assms(1), of message s] unfolding assms(2)
proof (cases rule: ws_message.cases)
  case (answered key payloadText type c)
  then have e: "typed_events S type payloadText c = Inl e"
    "s' = emit_all [Listener_Post payloadText type c] (s\<lparr>postRequestInfo := (postRequestInfo s)(key := None)\<rparr>)"
    by (auto simp: answer_post_def Let_def split: sum.splits)
  from simdjson.typed_events_error [OF assms(1) e(1)] answered e(2) show ?thesis
    by (auto simp: emit_all_def)
qed

theorem post_exceptions_witness:
  "\<exists>s'. onWsMessage post_reader ''m'' (waiting_api Ep_UserRateLimit) = (s', Inl (Invalid_Argument ''stod'')) \<and>
     (\<exists>e. wa_log s' = [e])"
proof -
  obtain s' where s': "onWsMessage post_reader ''m'' (waiting_api Ep_UserRateLimit) = (s', Inl (Invalid_Argument ''stod''))"
    using bad_number_message by blast
  from post_exceptions [OF post_reader_simdjson s'] s' show ?thesis by (auto simp: waiting_api_def)
qed



section \<open>A session of requests and responses\<close>

text \<open>The requests sent, by endpoint and correlation id, and the raw responses delivered.\<close>

type_synonym sent_post = "RestEndpointType \<times> u64 option"

inductive api_run ::
  "'j json_ops \<Rightarrow> secp256k1 \<Rightarrow> 'v sj_reader \<Rightarrow> ws_api \<Rightarrow> sent_post list \<Rightarrow> ws_api \<Rightarrow> bool"
  for J E S s0 where
  api_new: "api_run J E S s0 [] s0"
| api_sent: "api_run J E S s0 sent s \<Longrightarrow> call_method J E call correlationId now s = (s', Inr ()) \<Longrightarrow>
    api_run J E S s0 (sent @ [(rq_type (api_request_of J (wa_syms s) call), correlationId)]) s'"
| api_failed: "api_run J E S s0 sent s \<Longrightarrow> call_method J E call correlationId now s = (s', Inl e) \<Longrightarrow>
    api_run J E S s0 sent s'"
| api_subscribed: "api_run J E S s0 sent s \<Longrightarrow> subscribe J type filters s = (s', r) \<Longrightarrow> api_run J E S s0 sent s'"
| api_unsubscribed: "api_run J E S s0 sent s \<Longrightarrow> unsubscribe J type filters s = (s', r) \<Longrightarrow> api_run J E S s0 sent s'"
| api_received: "api_run J E S s0 sent s \<Longrightarrow> onWsMessage S message s = (s', r) \<Longrightarrow> api_run J E S s0 sent s'"
| api_stopped: "api_run J E S s0 sent s \<Longrightarrow> api_run J E S s0 sent (stop_api s)"

fun answered_post :: "api_event \<Rightarrow> sent_post option" where
  "answered_post (Listener_Post payloadText type correlationId) = Some (type, correlationId)"
| "answered_post _ = None"

definition answered_posts :: "ws_api \<Rightarrow> sent_post multiset" where
  "answered_posts s = mset (List.map_filter answered_post (wa_log s))"

definition pending_posts :: "ws_api \<Rightarrow> sent_post multiset" where
  "pending_posts s = image_mset (\<lambda>k. the (postRequestInfo s k)) (mset_set (dom (postRequestInfo s)))"

definition posts_inv :: "sent_post list \<Rightarrow> ws_api \<Rightarrow> bool" where
  "posts_inv sent s \<longleftrightarrow> finite (dom (postRequestInfo s)) \<and> answered_posts s + pending_posts s \<subseteq># mset sent"

lemma answered_posts_emit:
  "answered_posts (emit_all es s) = answered_posts s + mset (List.map_filter answered_post es)"
  by (simp add: answered_posts_def List.map_filter_def)

lemma pending_posts_emit [simp]: "pending_posts (emit_all es s) = pending_posts s"
  by (simp add: pending_posts_def)

lemma pending_posts_remove:
  assumes "finite (dom (postRequestInfo s))" and "postRequestInfo s key = Some q"
  shows "pending_posts s = add_mset q (pending_posts (s\<lparr>postRequestInfo := (postRequestInfo s)(key := None)\<rparr>))"
proof -
  have dom: "dom (postRequestInfo s) = insert key (dom ((postRequestInfo s)(key := None)))"
    using assms(2) by auto
  have "mset_set (dom (postRequestInfo s)) = add_mset key (mset_set (dom ((postRequestInfo s)(key := None))))"
    using assms(1) by (subst dom) (subst mset_set.insert, auto)
  moreover have "image_mset (\<lambda>k. the (postRequestInfo s k)) (mset_set (dom ((postRequestInfo s)(key := None)))) =
    image_mset (\<lambda>k. the (((postRequestInfo s)(key := None)) k)) (mset_set (dom ((postRequestInfo s)(key := None))))"
    using assms(1) by (intro image_mset_cong) auto
  ultimately show ?thesis using assms(2) by (simp add: pending_posts_def)
qed

lemma pending_posts_removed:
  assumes "finite (dom (postRequestInfo s))"
  shows "pending_posts (s\<lparr>postRequestInfo := (postRequestInfo s)(key := None)\<rparr>) \<subseteq># pending_posts s"
proof (cases "postRequestInfo s key")
  case None
  then have "(postRequestInfo s)(key := None) = postRequestInfo s" by auto
  then show ?thesis by (simp add: pending_posts_def)
next
  case (Some q)
  with pending_posts_remove [OF assms Some] show ?thesis by simp
qed

text \<open>A new entry may take the place of one whose id has come round again.\<close>

lemma pending_posts_insert:
  assumes "finite (dom (postRequestInfo s))"
  shows "pending_posts (s\<lparr>postRequestInfo := (postRequestInfo s)(key \<mapsto> q)\<rparr>) \<subseteq># add_mset q (pending_posts s)"
proof -
  let ?t = "s\<lparr>postRequestInfo := (postRequestInfo s)(key \<mapsto> q)\<rparr>"
  have "pending_posts ?t = add_mset q (pending_posts (?t\<lparr>postRequestInfo := (postRequestInfo ?t)(key := None)\<rparr>))"
    using assms by (intro pending_posts_remove) auto
  with pending_posts_removed [OF assms, of key] show ?thesis by simp
qed

lemma signAndSend_table:
  assumes "signAndSend J E type body vaultAddress expiresAfter correlationId now s = (s', Inr ())"
  shows "\<exists>nonce m. s' = emit_all [Ws_Send m] (s\<lparr>wa_nonce := nonce, postRequestCounter := postRequestCounter s + 1,
    postRequestInfo := (postRequestInfo s)(post_key (postRequestCounter s) \<mapsto> (type, correlationId))\<rparr>)"
  using assms by (auto simp: signAndSend_def Let_def wa_emit_def emit_all_def split: prod.splits sum.splits)

lemma posts_inv_cong:
  "postRequestInfo s' = postRequestInfo s \<Longrightarrow> answered_posts s' = answered_posts s \<Longrightarrow> posts_inv sent s \<Longrightarrow> posts_inv sent s'"
  by (simp add: posts_inv_def pending_posts_def)

lemma posts_inv_sent:
  assumes "signAndSend J E type body vaultAddress expiresAfter correlationId now s = (s', Inr ())" and "posts_inv sent s"
  shows "posts_inv (sent @ [(type, correlationId)]) s'"
proof -
  let ?t = "s\<lparr>postRequestInfo := (postRequestInfo s)(post_key (postRequestCounter s) \<mapsto> (type, correlationId))\<rparr>"
  from signAndSend_table [OF assms(1)] have eq: "postRequestInfo s' = postRequestInfo ?t"
    "answered_posts s' = answered_posts s"
    by (auto simp: answered_posts_emit answered_posts_def List.map_filter_def)
  have "pending_posts s' = pending_posts ?t" using eq(1) by (simp add: pending_posts_def)
  also have "\<dots> \<subseteq># add_mset (type, correlationId) (pending_posts s)"
    using assms(2) by (intro pending_posts_insert) (simp add: posts_inv_def)
  finally have "answered_posts s' + pending_posts s' \<subseteq># add_mset (type, correlationId) (answered_posts s + pending_posts s)"
    by (simp add: eq(2))
  also have "\<dots> \<subseteq># mset (sent @ [(type, correlationId)])" using assms(2) by (simp add: posts_inv_def)
  finally show ?thesis using assms(2) eq(1) by (simp add: posts_inv_def)
qed

lemma posts_inv_answer:
  assumes "answer_post S key type correlationId payloadText s = (s', r)" and "posts_inv sent s"
    and "postRequestInfo s key = Some (type, correlationId)"
  shows "posts_inv sent s'"
proof -
  let ?t = "s\<lparr>postRequestInfo := (postRequestInfo s)(key := None)\<rparr>"
  have "\<exists>es. s' = emit_all es (emit_all [Listener_Post payloadText type correlationId] ?t) \<and>
      List.map_filter answered_post es = []"
    using assms(1) unfolding answer_post_def Let_def typed_events_def
    by (auto simp: List.map_filter_def split: sum.splits if_splits option.splits intro: exI [of _ "[]"])
  then obtain es where s': "s' = emit_all es (emit_all [Listener_Post payloadText type correlationId] ?t)"
    and es: "List.map_filter answered_post es = []" by blast
  have "answered_posts s' = add_mset (type, correlationId) (answered_posts s)"
    by (simp add: s' answered_posts_emit es) (simp add: answered_posts_def List.map_filter_def)
  moreover have "pending_posts s = add_mset (type, correlationId) (pending_posts s')"
    using assms(2,3) by (simp add: s' posts_inv_def pending_posts_remove)
  ultimately show ?thesis using assms(2) by (simp add: posts_inv_def s')
qed

lemma posts_inv_received:
  assumes "simdjson S" and "onWsMessage S message s = (s', r)" and "posts_inv sent s"
  shows "posts_inv sent s'"
  using simdjson.onWsMessage_step [OF assms(1), of message s] unfolding assms(2)
proof (cases rule: ws_message.cases)
  case (lost key e)
  then have eq: "answered_posts s' = answered_posts s"
    "pending_posts s' = pending_posts (s\<lparr>postRequestInfo := (postRequestInfo s)(key := None)\<rparr>)"
    by (simp_all add: answered_posts_emit answered_posts_def List.map_filter_def)
  have fin: "finite (dom (postRequestInfo s))" using assms(3) by (simp add: posts_inv_def)
  have "answered_posts s' + pending_posts s' \<subseteq># answered_posts s + pending_posts s"
    unfolding eq using pending_posts_removed [OF fin] by (rule subset_mset.add_left_mono)
  also have "\<dots> \<subseteq># mset sent" using assms(3) by (simp add: posts_inv_def)
  finally show ?thesis using lost fin by (simp add: posts_inv_def)
next
  case (answered key payloadText type correlationId)
  then show ?thesis using posts_inv_answer assms(3) by metis
qed (use assms(3) in \<open>auto simp: answered_posts_def List.map_filter_def intro: posts_inv_cong [of _ s]\<close>)

lemma signAndSend_failed:
  "signAndSend J E type body vaultAddress expiresAfter correlationId now s = (s', Inl e) \<Longrightarrow>
   \<exists>nonce. s' = s\<lparr>wa_nonce := nonce\<rparr>"
  by (auto simp: signAndSend_def Let_def split: prod.splits sum.splits)

lemma subscriptions_frame:
  "subscribe J type filters s = (s', r) \<Longrightarrow> postRequestInfo s' = postRequestInfo s \<and> answered_posts s' = answered_posts s"
  "unsubscribe J type filters s = (s', r) \<Longrightarrow> postRequestInfo s' = postRequestInfo s \<and> answered_posts s' = answered_posts s"
  by (auto simp: subscribe_def unsubscribe_def wa_emit_def answered_posts_def List.map_filter_def split: sum.splits)

lemma api_run_inv:
  assumes "simdjson S" and "api_run J E S s0 sent s" and "posts_inv [] s0"
  shows "posts_inv sent s"
  using assms(2)
proof induction
  case api_new
  show ?case by (rule assms(3))
next
  case (api_sent sent s call correlationId now s')
  then show ?case by (auto simp: call_method_def Let_def split: sum.splits intro: posts_inv_sent)
next
  case (api_failed sent s call correlationId now s' e)
  then have "s' = s \<or> (\<exists>nonce. s' = s\<lparr>wa_nonce := nonce\<rparr>)"
    by (auto simp: call_method_def Let_def split: sum.splits dest: signAndSend_failed)
  with api_failed.IH show ?case
    by (auto intro: posts_inv_cong [of _ s] simp: answered_posts_def)
next
  case (api_subscribed sent s type filters s' r)
  then show ?case using subscriptions_frame(1) posts_inv_cong by metis
next
  case (api_unsubscribed sent s type filters s' r)
  then show ?case using subscriptions_frame(2) posts_inv_cong by metis
next
  case (api_received sent s message s' r)
  with posts_inv_received [OF assms(1)] show ?case by blast
next
  case (api_stopped sent s)
  then show ?case by (auto simp: stop_api_def answered_posts_def intro: posts_inv_cong [of _ s])
qed

lemma init_posts_inv: "WebsocketApi_init config api nonce = Inr s0 \<Longrightarrow> posts_inv [] s0 \<and> answered_posts s0 = {#}"
  by (auto simp: WebsocketApi_init_def posts_inv_def answered_posts_def pending_posts_def List.map_filter_def)

text \<open>
  C21: However requests, responses, failures and subscriptions interleave, and also after the request counter has
  wrapped around: the responses delivered, each with the endpoint and the correlation id it is delivered under, are
  among the requests sent with that endpoint and id, each answered at most once, and the outstanding ones are
  different requests again.
\<close>

theorem posts_answered_once:
  assumes "simdjson S" and "WebsocketApi_init config api nonce = Inr s0" and "api_run J E S s0 sent s"
  shows "answered_posts s + pending_posts s \<subseteq># mset sent"
  using api_run_inv [OF assms(1,3)] init_posts_inv [OF assms(2)] by (simp add: posts_inv_def)

text \<open>One request, sent and answered.\<close>

definition no_metadata :: rest_metadata where
  "no_metadata = \<lparr>api_meta = \<lambda>_. Inr [], api_spotMeta = Inr ([], []), api_perpDexs = Inr []\<rparr>"

lemma one_request:
  "WebsocketApi_init default_config no_metadata 0 = Inr s0 \<Longrightarrow>
   \<exists>s. call_method json_model E (MarketApi (C_AllMids None)) (Some 7) 5 s0 = (s, Inr ())"
  by (auto simp: WebsocketApi_init_def initializeMapping_def call_method_def signAndSend_def api_call_def prepareBodyForType_def isUserSignedAction_def
      prepareBody_def effective_vault_def default_config_def jassign_checked_def jassign_def opt_field_def Let_def)

theorem posts_answered_once_witness:
  "\<forall>E. \<exists>s0 s. WebsocketApi_init default_config no_metadata 0 = Inr s0 \<and>
     api_run json_model E post_reader s0 [(Ep_AllMids, Some 7)] s \<and>
     answered_posts s + pending_posts s \<subseteq># {#(Ep_AllMids, Some 7)#}"
proof
  fix E
  obtain s0 where s0: "WebsocketApi_init default_config no_metadata 0 = Inr s0"
    by (simp add: WebsocketApi_init_def initializeMapping_def default_config_def)
  from one_request [OF this] obtain s1 where
    s1: "call_method json_model E (MarketApi (C_AllMids None)) (Some 7) 5 s0 = (s1, Inr ())" by blast
  obtain s r where "onWsMessage post_reader ''m'' s1 = (s, r)" by (rule prod.exhaust)
  from api_received [OF api_sent [OF api_new s1] this]
  have s: "api_run json_model E post_reader s0 [(Ep_AllMids, Some 7)] s" by (simp add: api_call_def)
  from posts_answered_once [OF post_reader_simdjson s0 s] s0 s
  show "\<exists>s0 s. WebsocketApi_init default_config no_metadata 0 = Inr s0 \<and>
     api_run json_model E post_reader s0 [(Ep_AllMids, Some 7)] s \<and>
     answered_posts s + pending_posts s \<subseteq># {#(Ep_AllMids, Some 7)#}" by auto
qed

section \<open>Responses without a typed callback\<close>

lemma untyped_call_cases:
  assumes "\<not> isAuthenticated (rq_type (api_request_of J syms call))"
    and "\<not> info_post_handled (rq_type (api_request_of J syms call))"
  shows "rq_type (api_request_of J syms call) \<in> {Ep_RecentTrades, Ep_UserFunding, Ep_UserNonFundingLedgerUpdates,
     Ep_FundingHistory, Ep_UserBorrowLendInterest, Ep_Liquidatable}"
  using assms by (cases call; hypsubst; rename_tac c; case_tac c) (simp_all add: api_call_def info_post_handled_def)

text \<open>
  C24: Six information requests the API can send have no typed callback: their responses reach the listener as raw
  text only.
\<close>

theorem untyped_posts:
  "(\<not> isAuthenticated type \<and> \<not> info_post_handled type \<and> (\<exists>call. rq_type (api_request_of J syms call) = type)) \<longleftrightarrow>
   type \<in> {Ep_RecentTrades, Ep_UserFunding, Ep_UserNonFundingLedgerUpdates, Ep_FundingHistory,
     Ep_UserBorrowLendInterest, Ep_Liquidatable}"
proof -
  let ?types = "{Ep_RecentTrades, Ep_UserFunding, Ep_UserNonFundingLedgerUpdates, Ep_FundingHistory,
      Ep_UserBorrowLendInterest, Ep_Liquidatable}"
  let ?rq = "\<lambda>call. rq_type (api_request_of J syms call)"
  have "?rq (UserApi (C_RecentTrades [])) = Ep_RecentTrades" "?rq (UserApi (C_UserFunding [] 0 None)) = Ep_UserFunding"
    "?rq (UserApi (C_UserNonFundingLedgerUpdates [] 0 None)) = Ep_UserNonFundingLedgerUpdates"
    "?rq (UserApi (C_FundingHistory [] 0 None)) = Ep_FundingHistory"
    "?rq (AccountApi (C_UserBorrowLendInterest [] 0 None)) = Ep_UserBorrowLendInterest"
    "?rq (AccountApi C_Liquidatable) = Ep_Liquidatable"
    by (simp_all add: api_call_def)
  then have "t \<in> ?types \<Longrightarrow> \<exists>call. ?rq call = t" for t by blast
  moreover have "t \<in> ?types \<Longrightarrow> \<not> isAuthenticated t \<and> \<not> info_post_handled t" for t
    by (auto simp: info_post_handled_def)
  ultimately show ?thesis using untyped_call_cases [of J syms] by blast
qed

end
