(* ===== verification/Stream_Typing.thy ===== *)
theory Stream_Typing
  imports Ws_Message_Parser
begin

text \<open>
  Typing of the stream: which callbacks a channel can make. A message only ever appends events of its channel, in
  every branch of every \<open>crack\<close> function, the ones that leave by an exception included.
\<close>

section \<open>The events of a channel\<close>

fun event_channels :: "stream_event \<Rightarrow> string list" where
  "event_channels (OnSubscriptionResponse x) = [''subscriptionResponse'']"
| "event_channels (OnL2Book x) = [''l2Book'']"
| "event_channels (OnBbo x) = [''bbo'']"
| "event_channels (OnTrade x) = [''trades'']"
| "event_channels (OnCandle x) = [''candle'']"
| "event_channels (OnAllMidsEntry x) = [''allMids'']"
| "event_channels (OnPerpAssetCtx x) = [''activeAssetCtx'', ''activeSpotAssetCtx'']"
| "event_channels (OnSpotAssetCtx x) = [''activeAssetCtx'', ''activeSpotAssetCtx'']"
| "event_channels (OnOrderUpdate x) = [''orderUpdates'']"
| "event_channels (OnUserFill x) = [''userFills'', ''userEvents'']"
| "event_channels (OnUserFunding x) = [''userEvents'']"
| "event_channels (OnLiquidation x) = [''userEvents'']"
| "event_channels (OnNonUserCancel x) = [''userEvents'']"
| "event_channels (OnUserFundingUpdate x) = [''userFundings'']"
| "event_channels (OnLedgerUpdate x) = [''userNonFundingLedgerUpdates'']"
| "event_channels (OnWebData3 x) = [''webData3'']"
| "event_channels (OnClearinghouseState x) = [''clearinghouseState'']"
| "event_channels (OnOpenOrdersSnapshot x) = [''openOrders'']"
| "event_channels (OnTwapStates x) = [''twapStates'']"
| "event_channels (OnNotification x) = [''notification'']"
| "event_channels (OnUserTwapSliceFill x) = [''userTwapSliceFills'']"
| "event_channels (OnUserTwapHistory x) = [''userTwapHistory'']"
| "event_channels (OnActiveAssetData x) = [''activeAssetData'']"
| "event_channels (OnSpotState x) = [''spotState'']"
| "event_channels (OnAllDexsClearinghouseState x) = [''allDexsClearinghouseState'']"
| "event_channels (OnAllDexsAssetCtxs x) = [''allDexsAssetCtxs'']"
| "event_channels (OnFastAssetCtx x) = [''fastAssetCtxs'']"
| "event_channels (OnOutcomeMetaUpdate x) = [''outcomeMetaUpdates'']"

section \<open>Blocks that only append\<close>

text \<open>
  \<open>grows C l l'\<close>: \<open>l'\<close> is \<open>l\<close> with events of \<open>C\<close> appended. \<open>sat C l Q R m\<close>: the block \<open>m\<close> ends normally in \<open>R\<close> or
  leaves in \<open>Q\<close>. The states of the blocks are the listener, a pair with it, or something else, which their types
  tell apart, so that one rule applies to each step of a block.
\<close>

definition grows :: "(stream_event \<Rightarrow> bool) \<Rightarrow> stream_event list \<Rightarrow> stream_event list \<Rightarrow> bool" where
  "grows C l l' \<longleftrightarrow> (\<exists>es. l' = l @ es \<and> (\<forall>e \<in> set es. C e))"

definition grows_snd :: "(stream_event \<Rightarrow> bool) \<Rightarrow> stream_event list \<Rightarrow> 'a \<times> stream_event list \<Rightarrow> bool" where
  "grows_snd C l p \<longleftrightarrow> grows C l (snd p)"

definition anything :: "'a \<Rightarrow> bool" where
  "anything x \<longleftrightarrow> True"

definition on_snd :: "('a \<Rightarrow> bool) \<Rightarrow> 'b \<times> 'a \<Rightarrow> bool" where
  "on_snd R p \<longleftrightarrow> R (snd p)"

definition sat :: "(stream_event \<Rightarrow> bool) \<Rightarrow> stream_event list \<Rightarrow> ('s \<Rightarrow> bool) \<Rightarrow> ('r \<Rightarrow> bool) \<Rightarrow> 's exit + 'r \<Rightarrow> bool" where
  "sat C l Q R m \<longleftrightarrow>
     (case m of Inr r \<Rightarrow> R r | Inl (Return s) \<Rightarrow> Q s | Inl (Caught s) \<Rightarrow> Q s | Inl (Escape e) \<Rightarrow> True)"

lemma sat_simps:
  "sat C l Q R (Inr r) = R r" "sat C l Q R (Inl (Return s)) = Q s" "sat C l Q R (Inl (Caught s)) = Q s"
  "sat C l Q R (Inl (Escape e))"
  by (simp_all add: sat_def)

lemma grows_refl: "grows C l l"
  by (simp add: grows_def)

lemma grows_snoc: "grows C l a \<Longrightarrow> C e \<Longrightarrow> grows C l (a @ [e])"
  by (auto simp: grows_def)

lemma grows_snd_Pair: "grows C l b \<Longrightarrow> grows_snd C l (a, b)"
  by (simp add: grows_snd_def)

lemma anythingI: "anything x"
  by (simp add: anything_def)

lemma on_snd_Pair: "R b \<Longrightarrow> on_snd R (a, b)"
  by (simp add: on_snd_def)

lemma exit_cases [case_names normal return caught escape]:
  obtains r where "m = Inr r" | s where "m = Inl (Return s)" | s where "m = Inl (Caught s)" | e where "m = Inl (Escape e)"
proof (cases m)
  case (Inl x)
  then show ?thesis using that(2-4) by (cases x) auto
qed (use that(1) in auto)

lemma sat_Inr: "R x \<Longrightarrow> sat C l Q R (Inr x)"
  by (simp add: sat_def)

lemma sat_Return: "Q s \<Longrightarrow> sat C l Q R (Inl (Return s))"
  by (simp add: sat_def)

lemma sat_bindE: "sat C l Q R' m \<Longrightarrow> (\<And>x. R' x \<Longrightarrow> sat C l Q R (k x)) \<Longrightarrow> sat C l Q R (bindE m k)"
  by (cases m rule: exit_cases) (auto simp: sat_simps)

lemma sat_bindE_listener:
  "sat C l Q (grows C l) m \<Longrightarrow> (\<And>x. grows C l x \<Longrightarrow> sat C l Q R (k x)) \<Longrightarrow> sat C l Q R (bindE m k)"
  by (rule sat_bindE)

lemma sat_bindE_pair:
  "sat C l Q (grows_snd C l) m \<Longrightarrow> (\<And>x. grows_snd C l x \<Longrightarrow> sat C l Q R (k x)) \<Longrightarrow> sat C l Q R (bindE m k)"
  by (rule sat_bindE)

lemma sat_bindE_any:
  "sat C l Q anything m \<Longrightarrow> (\<And>x. sat C l Q R (k x)) \<Longrightarrow> sat C l Q R (bindE m k)"
  by (rule sat_bindE)

lemma sat_tryE: "Q s \<Longrightarrow> (\<And>x. sat C l Q R (k x)) \<Longrightarrow> sat C l Q R (tryE s m k)"
  by (cases m) (auto simp: sat_def)

lemma sat_finish:
  "Q s \<Longrightarrow> sat C l Q' Q' b \<Longrightarrow> (\<And>x. Q' x \<Longrightarrow> sat C l Q R (k x)) \<Longrightarrow> sat C l Q R (tryE s (finish b) k)"
  by (cases b rule: exit_cases) (auto simp: sat_simps)

lemma sat_finish_listener:
  "Q s \<Longrightarrow> sat C l (grows C l) (grows C l) b \<Longrightarrow> (\<And>x. grows C l x \<Longrightarrow> sat C l Q R (k x)) \<Longrightarrow>
   sat C l Q R (tryE s (finish b) k)"
  by (rule sat_finish)

lemma sat_finish_pair:
  "Q s \<Longrightarrow> sat C l (grows_snd C l) (grows_snd C l) b \<Longrightarrow> (\<And>x. grows_snd C l x \<Longrightarrow> sat C l Q R (k x)) \<Longrightarrow>
   sat C l Q R (tryE s (finish b) k)"
  by (rule sat_finish)

lemma sat_callE: "(\<And>t. Q (u t)) \<Longrightarrow> (\<And>x. sat C l Q R (k x)) \<Longrightarrow> sat C l Q R (callE u m k)"
  by (cases m rule: exit_cases) (auto simp: sat_simps)

lemma sat_callE_listener:
  "sat C l (grows C l) (grows C l) m \<Longrightarrow> (\<And>t. grows C l t \<Longrightarrow> Q (u t)) \<Longrightarrow>
   (\<And>x. grows C l x \<Longrightarrow> sat C l Q R (k x)) \<Longrightarrow> sat C l Q R (callE u m k)"
  by (cases m rule: exit_cases) (auto simp: sat_simps)

lemma sat_foldE: "R s \<Longrightarrow> (\<And>x s. R s \<Longrightarrow> sat C l Q R (f x s)) \<Longrightarrow> sat C l Q R (foldE f xs s)"
proof (induction xs arbitrary: s)
  case (Cons x xs)
  show ?case by (simp, rule sat_bindE [where R' = R], rule Cons.prems(2), rule Cons.prems(1), rule Cons.IH)
    (auto intro: Cons.prems)
qed (simp add: sat_def)

lemma sat_foldB: "R s \<Longrightarrow> (\<And>x s. R s \<Longrightarrow> sat C l Q (on_snd R) (f x s)) \<Longrightarrow> sat C l Q R (foldB f xs s)"
proof (induction xs arbitrary: s)
  case (Cons x xs)
  show ?case
    by (simp, rule sat_bindE [where R' = "on_snd R"], rule Cons.prems(2), rule Cons.prems(1))
      (auto simp: on_snd_def split: prod.splits intro: Cons.IH Cons.prems(2) sat_Inr)
qed (simp add: sat_def)

lemma sat_Let_listener: "grows C l t \<Longrightarrow> (\<And>x. grows C l x \<Longrightarrow> sat C l Q R (f x)) \<Longrightarrow> sat C l Q R (let x = t in f x)"
  by (simp add: Let_def)

lemma sat_Let: "(\<And>x. sat C l Q R (f x)) \<Longrightarrow> sat C l Q R (let x = t in f x)"
  by (simp add: Let_def)

lemma sat_if: "sat C l Q R a \<Longrightarrow> sat C l Q R b \<Longrightarrow> sat C l Q R (if c then a else b)"
  by simp

lemma sat_case_sum:
  "(\<And>x. sat C l Q R (f x)) \<Longrightarrow> (\<And>x. sat C l Q R (g x)) \<Longrightarrow> sat C l Q R (case m of Inl x \<Rightarrow> f x | Inr x \<Rightarrow> g x)"
  by (simp split: sum.splits)

lemma sat_case_option:
  "sat C l Q R a \<Longrightarrow> (\<And>x. sat C l Q R (f x)) \<Longrightarrow> sat C l Q R (case m of None \<Rightarrow> a | Some x \<Rightarrow> f x)"
  by (simp split: option.splits)

lemma sat_case_pair:
  "grows_snd C l p \<Longrightarrow> (\<And>x y. grows C l y \<Longrightarrow> sat C l Q R (f x y)) \<Longrightarrow> sat C l Q R (case p of (x, y) \<Rightarrow> f x y)"
  by (cases p) (simp add: grows_snd_def)

lemma sat_case_prod:
  "(\<And>x y. sat C l Q R (f x y)) \<Longrightarrow> sat C l Q R (case p of (x, y) \<Rightarrow> f x y)"
  by (simp split: prod.splits)

text \<open>The special rules stand before the general ones.\<close>

lemmas sat_rules =
  sat_Inr sat_Return sat_bindE_listener sat_bindE_pair sat_bindE_any sat_finish_listener sat_finish_pair
  sat_callE_listener sat_callE sat_tryE sat_foldE sat_foldB sat_Let_listener sat_Let sat_if sat_case_sum
  sat_case_option sat_case_pair sat_case_prod grows_snoc grows_snd_Pair anythingI on_snd_Pair

section \<open>The crack functions\<close>

lemma fill_appends:
  "\<forall>x. C (OnUserFill x) \<Longrightarrow> grows C l listener \<Longrightarrow> sat C l (grows C l) (grows C l) (crackFill S obj listener isSnapshot)"
  unfolding crackFill_def by (rule sat_rules | assumption | erule spec)+

text \<open>The market channels.\<close>

lemma market_appends:
  "\<forall>x. C (OnSubscriptionResponse x) \<Longrightarrow> grows C l listener \<Longrightarrow> sat C l (grows C l) (grows C l) (crackSubscriptionResponse S data listener)"
  "\<forall>x. C (OnL2Book x) \<Longrightarrow> grows C l listener \<Longrightarrow> sat C l (grows C l) (grows C l) (crackL2Book S data listener)"
  "\<forall>x. C (OnBbo x) \<Longrightarrow> grows C l listener \<Longrightarrow> sat C l (grows C l) (grows C l) (crackBbo S data listener)"
  "\<forall>x. C (OnTrade x) \<Longrightarrow> grows C l listener \<Longrightarrow> sat C l (grows C l) (grows C l) (crackTrades S entries listener)"
  "\<forall>x. C (OnCandle x) \<Longrightarrow> grows C l listener \<Longrightarrow> sat C l (grows C l) (grows C l) (crackCandles S entries listener)"
  "\<forall>x. C (OnAllMidsEntry x) \<Longrightarrow> grows C l listener \<Longrightarrow> sat C l (grows C l) (grows C l) (crackAllMids S data listener)"
  "\<forall>x. C (OnPerpAssetCtx x) \<Longrightarrow> \<forall>x. C (OnSpotAssetCtx x) \<Longrightarrow> grows C l listener \<Longrightarrow> sat C l (grows C l) (grows C l) (crackActiveAssetCtx S data listener)"
  "\<forall>x. C (OnAllDexsAssetCtxs x) \<Longrightarrow> grows C l listener \<Longrightarrow> sat C l (grows C l) (grows C l) (crackAllDexsAssetCtxs S data listener)"
  "\<forall>x. C (OnOutcomeMetaUpdate x) \<Longrightarrow> grows C l listener \<Longrightarrow> sat C l (grows C l) (grows C l) (crackOutcomeMetaUpdates S entries listener)"
  unfolding crackSubscriptionResponse_def
    crackL2Book_def
    crackBbo_def
    crackTrades_def
    crackCandles_def
    crackAllMids_def
    crackActiveAssetCtx_def
    crackAllDexsAssetCtxs_def
    crackOutcomeMetaUpdates_def
  by (rule sat_rules | assumption | erule spec)+

lemma fast_appends:
  "\<forall>x. C (OnFastAssetCtx x) \<Longrightarrow> grows C l listener \<Longrightarrow> sat C l (grows C l) (grows C l) (crackFastAssetCtxs S validate inflate packed listener)"
  unfolding crackFastAssetCtxs_def by (rule sat_rules | assumption | erule spec)+

text \<open>The channels of a user.\<close>

lemma user_appends:
  "\<forall>x. C (OnOrderUpdate x) \<Longrightarrow> grows C l listener \<Longrightarrow> sat C l (grows C l) (grows C l) (crackOrderUpdates S entries listener)"
  "\<forall>x. C (OnUserFill x) \<Longrightarrow> grows C l listener \<Longrightarrow> sat C l (grows C l) (grows C l) (crackUserFills S data listener)"
  "\<forall>x. C (OnUserFill x) \<Longrightarrow> \<forall>x. C (OnUserFunding x) \<Longrightarrow> \<forall>x. C (OnLiquidation x) \<Longrightarrow> \<forall>x. C (OnNonUserCancel x) \<Longrightarrow> grows C l listener \<Longrightarrow> sat C l (grows C l) (grows C l) (crackUserEvents S data listener)"
  "\<forall>x. C (OnUserFundingUpdate x) \<Longrightarrow> grows C l listener \<Longrightarrow> sat C l (grows C l) (grows C l) (crackUserFundings S data listener)"
  "\<forall>x. C (OnLedgerUpdate x) \<Longrightarrow> grows C l listener \<Longrightarrow> sat C l (grows C l) (grows C l) (crackUserNonFundingLedgerUpdates S data listener)"
  "\<forall>x. C (OnWebData3 x) \<Longrightarrow> grows C l listener \<Longrightarrow> sat C l (grows C l) (grows C l) (crackWebData3 S data listener)"
  "\<forall>x. C (OnClearinghouseState x) \<Longrightarrow> grows C l listener \<Longrightarrow> sat C l (grows C l) (grows C l) (crackClearinghouseState S data listener)"
  "\<forall>x. C (OnOpenOrdersSnapshot x) \<Longrightarrow> grows C l listener \<Longrightarrow> sat C l (grows C l) (grows C l) (crackOpenOrders S data listener)"
  "\<forall>x. C (OnTwapStates x) \<Longrightarrow> grows C l listener \<Longrightarrow> sat C l (grows C l) (grows C l) (crackTwapStates S data listener)"
  "\<forall>x. C (OnNotification x) \<Longrightarrow> grows C l listener \<Longrightarrow> sat C l (grows C l) (grows C l) (crackNotification S data listener)"
  "\<forall>x. C (OnUserTwapSliceFill x) \<Longrightarrow> grows C l listener \<Longrightarrow> sat C l (grows C l) (grows C l) (crackUserTwapSliceFills S data listener)"
  "\<forall>x. C (OnUserTwapHistory x) \<Longrightarrow> grows C l listener \<Longrightarrow> sat C l (grows C l) (grows C l) (crackUserTwapHistory S data listener)"
  "\<forall>x. C (OnActiveAssetData x) \<Longrightarrow> grows C l listener \<Longrightarrow> sat C l (grows C l) (grows C l) (crackActiveAssetData S data listener)"
  "\<forall>x. C (OnSpotState x) \<Longrightarrow> grows C l listener \<Longrightarrow> sat C l (grows C l) (grows C l) (crackSpotState S data listener)"
  "\<forall>x. C (OnAllDexsClearinghouseState x) \<Longrightarrow> grows C l listener \<Longrightarrow> sat C l (grows C l) (grows C l) (crackAllDexsClearinghouseState S data listener)"
  unfolding crackOrderUpdates_def
    crackUserFills_def
    crackUserEvents_def
    crackUserFundings_def
    crackUserNonFundingLedgerUpdates_def
    crackWebData3_def
    crackClearinghouseState_def
    crackOpenOrders_def
    crackTwapStates_def
    crackNotification_def
    crackUserTwapSliceFills_def
    crackUserTwapHistory_def
    crackActiveAssetData_def
    crackSpotState_def
    crackAllDexsClearinghouseState_def
  by (rule fill_appends sat_rules | assumption | erule spec)+

section \<open>The dispatch\<close>

definition of_channel :: "string \<Rightarrow> stream_event \<Rightarrow> bool" where
  "of_channel ch e \<longleftrightarrow> ch \<in> set (event_channels e)"

lemmas channel_appends = market_appends fast_appends user_appends

lemma sat_dispatch:
  "grows C l listener \<Longrightarrow> (\<And>data. sat C l (grows C l) (grows C l) (f data)) \<Longrightarrow>
   sat C l (grows C l) (grows C l) (tryE listener m (\<lambda>data. callE (\<lambda>l. l) (f data) Inr))"
  by (rule sat_tryE, assumption, rule sat_callE_listener, assumption) (auto intro: sat_Inr)

lemma sat_branch:
  "(c \<Longrightarrow> sat C l Q R a) \<Longrightarrow> sat C l Q R b \<Longrightarrow> sat C l Q R (if c then a else b)"
  by simp

lemma crack_channel_appends:
  "sat (of_channel ch) l (grows (of_channel ch) l) (grows (of_channel ch) l) (crack_channel S validate inflate ch doc l)"
  unfolding crack_channel_def Let_def
  by (rule sat_branch sat_dispatch channel_appends grows_refl sat_Inr | (rule allI, force simp: of_channel_def))+

lemma sat_outcome: "sat C l Q Q b \<Longrightarrow> finish b = Inr x \<Longrightarrow> Q x"
  by (cases b rule: exit_cases) (auto simp: sat_simps)

text \<open>
  C30: Whatever arrives, a message makes only callbacks of the channel it names, after those made before it; a
  message without a channel makes none.
\<close>

theorem stream_events_typed:
  assumes "crack S validate inflate message listener = Inr listener'"
  shows "\<exists>es. listener' = listener @ es \<and>
    (\<forall>e \<in> set es. \<exists>ch \<in> set (event_channels e). channel_of S (sj_iterate S message) = Inr (Some ch))"
proof (cases "\<exists>ch. channel_of S (sj_iterate S message) = Inr (Some ch)")
  case True
  then obtain ch where ch: "channel_of S (sj_iterate S message) = Inr (Some ch)" ..
  have "crack S validate inflate message listener = finish (tryE listener (validateStructure S validate message)
      (\<lambda>_. crack_channel S validate inflate ch (sj_iterate S message) listener))"
    by (simp add: crack_def ch Let_def)
  moreover have "sat (of_channel ch) listener (grows (of_channel ch) listener) (grows (of_channel ch) listener)
      (tryE listener (validateStructure S validate message)
        (\<lambda>_. crack_channel S validate inflate ch (sj_iterate S message) listener))"
    by (rule sat_tryE grows_refl crack_channel_appends)+
  ultimately have "grows (of_channel ch) listener listener'"
    using assms by (metis sat_outcome)
  with ch show ?thesis by (fastforce simp: grows_def of_channel_def)
next
  case False
  then have "listener' = listener"
    using assms by (cases "channel_of S (sj_iterate S message)"; cases "validateStructure S validate message")
      (auto simp: crack_def Let_def split: option.splits if_splits)
  then show ?thesis by simp
qed

text \<open>A message on the channel of notifications.\<close>

definition notice_tree :: json where
  "notice_tree = J_Obj [(''channel'', J_Str ''notification''), (''data'', J_Obj [(''notification'', J_Str ''hi'')])]"

definition notice_reader :: "json sj_reader" where
  "notice_reader = tree_reader (\<lambda>_. Some notice_tree)"

lemma notice_channel: "channel_of notice_reader (Inr notice_tree) = Inr (Some ''notification'')"
  by (simp add: channel_of_def notice_reader_def notice_tree_def tree_eval)

lemma notice_cracked: "\<exists>e. crack notice_reader True (\<lambda>_. None) ''m'' [] = Inr [e]"
proof -
  have "sj_iterate notice_reader ''m'' = Inr notice_tree" and "validateStructure notice_reader True ''m'' = Inr ()"
    by (simp_all add: notice_reader_def validateStructure_def tree_eval)
  moreover have "bindE (sj_at notice_reader (Inr notice_tree) ''data'') (sj_object notice_reader) =
      Inr (J_Obj [(''notification'', J_Str ''hi'')])"
    by (simp add: notice_reader_def notice_tree_def tree_eval)
  moreover have "\<exists>e. crackNotification notice_reader (J_Obj [(''notification'', J_Str ''hi'')]) [] = Inr [e]"
    by (simp add: notice_reader_def crackNotification_def tree_eval)
  ultimately show ?thesis by (auto simp: crack_def Let_def notice_channel crack_channel_def)
qed

theorem stream_events_typed_witness:
  "\<exists>es. crack notice_reader True (\<lambda>_. None) ''m'' [] = Inr es \<and> es \<noteq> [] \<and>
     (\<forall>e \<in> set es. ''notification'' \<in> set (event_channels e))"
proof -
  obtain e where e: "crack notice_reader True (\<lambda>_. None) ''m'' [] = Inr [e]"
    using notice_cracked ..
  have ch: "channel_of notice_reader (sj_iterate notice_reader ''m'') = Inr (Some ''notification'')"
    using notice_channel by (simp add: notice_reader_def tree_reads)
  from stream_events_typed [OF e] e ch show ?thesis by auto
qed

end
