(* ===== verification/Stream_Reads.thy ===== *)
theory Stream_Reads
  imports Ws_Message_Parser
begin

text \<open>
  What the stream parser makes of the entries of a message, against a reading of each entry on its own: no entry
  depends on the ones before it, although the source reuses one structure for all of them.
\<close>

section \<open>Readable entries\<close>

definition readable :: "('a \<Rightarrow> 'b outcome) \<Rightarrow> 'a list \<Rightarrow> 'b list" where
  "readable f xs = List.map_filter (\<lambda>x. case f x of Inr y \<Rightarrow> Some y | Inl _ \<Rightarrow> None) xs"

lemma readable_simps [simp]:
  "readable f [] = []"
  "readable f (x # xs) = (case f x of Inr y \<Rightarrow> y # readable f xs | Inl _ \<Rightarrow> readable f xs)"
  by (simp_all add: readable_def List.map_filter_def split: sum.splits)

text \<open>A block that is caught, with a state that is dropped when it is.\<close>

lemma finish_tryE_only:
  "sj_only m \<Longrightarrow> finish (tryE s m k) = (case m of Inr x \<Rightarrow> finish (k x) | Inl _ \<Rightarrow> Inr s)"
  by (cases m) (auto simp: sj_only_def)

lemma tryE_bindE: "bindE (tryE s m k) h = tryE s m (\<lambda>x. bindE (k x) h)"
  by (cases m) simp_all

lemma bindE_return: "bindE m Inr = m"
  by (cases m) simp_all

lemma foldB_stop: "(\<And>x. f x s = Inr (False, s)) \<Longrightarrow> foldB f xs s = Inr s"
  by (cases xs) simp_all

section \<open>The order book\<close>

definition book_level :: "'v sj_reader \<Rightarrow> Side \<Rightarrow> 'v \<Rightarrow> PriceLevel outcome" where
  "book_level S side entry =
     bindE (sj_object S entry) (\<lambda>obj.
     bindE (field_string S obj ''px'') (\<lambda>px.
     bindE (field_string S obj ''sz'') (\<lambda>sz.
     bindE (field_int64 S obj ''n'') (\<lambda>n.
     Inr \<lparr>pl_side = side, pl_px = px, pl_sz = sz, pl_n = to_int32 n\<rparr>))))"

text \<open>A snapshot with its arrays filled from the start.\<close>

definition book_array :: "PriceLevel list \<Rightarrow> PriceLevel list" where
  "book_array ls = ls @ replicate (L2_BOOK_MAX_LEVELS - length ls) PriceLevel_init"

definition book :: "string \<Rightarrow> u64 \<Rightarrow> PriceLevel list \<Rightarrow> PriceLevel list \<Rightarrow> L2BookSnapshot" where
  "book coin time bids asks =
     \<lparr>lbs_coin = coin, lbs_time = time, lbs_bids = book_array bids, lbs_asks = book_array asks,
      lbs_numBids = of_nat (length bids), lbs_numAsks = of_nat (length asks)\<rparr>"

definition read_side :: "'v sj_reader \<Rightarrow> Side \<Rightarrow> 'v list \<Rightarrow> PriceLevel list outcome" where
  "read_side S side sides =
     (case sides of
        [] \<Rightarrow> Inr []
      | levels # _ \<Rightarrow>
          bindE (sj_array S levels) (\<lambda>entries. Inr (take L2_BOOK_MAX_LEVELS (readable (book_level S side) entries))))"

definition read_book :: "'v sj_reader \<Rightarrow> 'v \<Rightarrow> L2BookSnapshot outcome" where
  "read_book S data =
     bindE (field_string S data ''coin'') (\<lambda>coin.
     bindE (field_uint64 S data ''time'') (\<lambda>time.
     bindE (field_array S data ''levels'') (\<lambda>sides.
     bindE (read_side S Side_Bid sides) (\<lambda>bids.
     bindE (read_side S Side_Ask (drop 1 sides)) (\<lambda>asks.
     Inr (book coin time bids asks))))))"

lemma book_array_put:
  "length ls < L2_BOOK_MAX_LEVELS \<Longrightarrow> (book_array ls)[length ls := l] = book_array (ls @ [l])"
  by (cases "L2_BOOK_MAX_LEVELS - length ls") (auto simp: book_array_def list_update_append diff_Suc)

lemma book_counts:
  "length ls \<le> L2_BOOK_MAX_LEVELS \<Longrightarrow> unat (of_nat (length ls) :: u8) = length ls"
  by (simp add: L2_BOOK_MAX_LEVELS_def unat_of_nat)

text \<open>The loop over one side.\<close>

definition put_level :: "Side \<Rightarrow> PriceLevel \<Rightarrow> L2BookSnapshot \<Rightarrow> L2BookSnapshot" where
  "put_level s level snapshot =
     (if s = Side_Bid \<and> unat (lbs_numBids snapshot) < L2_BOOK_MAX_LEVELS
      then snapshot\<lparr>lbs_bids := (lbs_bids snapshot)[unat (lbs_numBids snapshot) := level],
                    lbs_numBids := lbs_numBids snapshot + 1\<rparr>
      else if s = Side_Ask \<and> unat (lbs_numAsks snapshot) < L2_BOOK_MAX_LEVELS
      then snapshot\<lparr>lbs_asks := (lbs_asks snapshot)[unat (lbs_numAsks snapshot) := level],
                    lbs_numAsks := lbs_numAsks snapshot + 1\<rparr>
      else snapshot)"

lemma put_level_book:
  assumes "length bids \<le> L2_BOOK_MAX_LEVELS" and "length asks \<le> L2_BOOK_MAX_LEVELS"
  shows "put_level Side_Bid l (book c t bids asks) = book c t (take L2_BOOK_MAX_LEVELS (bids @ [l])) asks"
    and "put_level Side_Ask l (book c t bids asks) = book c t bids (take L2_BOOK_MAX_LEVELS (asks @ [l]))"
  using assms by (simp_all add: put_level_def book_def book_counts book_array_put)

context simdjson
begin

lemma only_level: "sj_only (book_level S side entry)"
  by (simp add: book_level_def sj_only_bindE only_reads)

lemma book_entry:
  "tryE listener (finish (
     tryE snapshot (sj_object S entry) (\<lambda>obj.
     let level = PriceLevel_init in
     let level = level\<lparr>pl_side := s\<rparr> in
     tryE snapshot (field_string S obj ''px'') (\<lambda>v.
     let level = level\<lparr>pl_px := v\<rparr> in
     tryE snapshot (field_string S obj ''sz'') (\<lambda>v.
     let level = level\<lparr>pl_sz := v\<rparr> in
     tryE snapshot (field_int64 S obj ''n'') (\<lambda>v.
     let level = level\<lparr>pl_n := to_int32 v\<rparr> in
     (if (s = Side_Bid) \<and> (unat (lbs_numBids snapshot) < L2_BOOK_MAX_LEVELS) then
       let snapshot = snapshot\<lparr>lbs_bids := (lbs_bids snapshot)[unat (lbs_numBids snapshot) := level]\<rparr> in
       let snapshot = snapshot\<lparr>lbs_numBids := (lbs_numBids snapshot) + 1\<rparr> in
       Inr snapshot
      else (if (s = Side_Ask) \<and> (unat (lbs_numAsks snapshot) < L2_BOOK_MAX_LEVELS) then
        let snapshot = snapshot\<lparr>lbs_asks := (lbs_asks snapshot)[unat (lbs_numAsks snapshot) := level]\<rparr> in
        let snapshot = snapshot\<lparr>lbs_numAsks := (lbs_numAsks snapshot) + 1\<rparr> in
        Inr snapshot
       else Inr snapshot)))))))) (\<lambda>snapshot. Inr snapshot) =
   Inr (case book_level S s entry of Inr level \<Rightarrow> put_level s level snapshot | Inl _ \<Rightarrow> snapshot)"
  by (auto simp: finish_tryE_only only_reads object_error book_level_def Let_def put_level_def PriceLevel_init_def split: sum.splits)

lemma book_side:
  assumes "length bids \<le> L2_BOOK_MAX_LEVELS" and "length asks \<le> L2_BOOK_MAX_LEVELS"
  shows "foldE (\<lambda>entry snapshot. Inr (case book_level S Side_Bid entry of
          Inr level \<Rightarrow> put_level Side_Bid level snapshot | Inl _ \<Rightarrow> snapshot)) entries (book c t bids asks) =
      Inr (book c t (take L2_BOOK_MAX_LEVELS (bids @ readable (book_level S Side_Bid) entries)) asks)"
    and "foldE (\<lambda>entry snapshot. Inr (case book_level S Side_Ask entry of
          Inr level \<Rightarrow> put_level Side_Ask level snapshot | Inl _ \<Rightarrow> snapshot)) entries (book c t bids asks) =
      Inr (book c t bids (take L2_BOOK_MAX_LEVELS (asks @ readable (book_level S Side_Ask) entries)))"
  using assms
proof (induction entries arbitrary: bids asks)
  case (Cons e entries)
  have short: "take n (take n (xs @ [l]) @ ys) = take n (xs @ l # ys)" for n and xs ys :: "'z list" and l
    by (cases "length xs < n") (auto simp: take_Cons')
  {
    case 1
    with Cons.IH(1) show ?case by (auto simp: put_level_book short simp del: take_append split: sum.splits)
  next
    case 2
    with Cons.IH(2) show ?case by (auto simp: put_level_book short simp del: take_append split: sum.splits)
  }
qed simp_all

lemma crackL2Book_reads:
  "crackL2Book S data listener =
     (case read_book S data of
        Inr snapshot \<Rightarrow> Inr (listener @ [OnL2Book snapshot])
      | Inl _ \<Rightarrow> Inl (Caught listener))"
proof -
  have empty: "L2BookSnapshot_init\<lparr>lbs_coin := c, lbs_time := t, lbs_numBids := 0, lbs_numAsks := 0\<rparr> = book c t [] []" for c t
    by (simp add: L2BookSnapshot_init_def book_def book_array_def)
  show ?thesis
    unfolding crackL2Book_def book_entry read_book_def read_side_def
    using only_fields [of data]
    by (auto simp: Let_def tryE_def sj_only_def empty book_side array_error foldB_stop split: sum.splits list.splits)
qed

text \<open>The loop over the entries of a message.\<close>

lemma entries_loop:
  "(\<And>e l. step e l = Inr (case f e of Inr y \<Rightarrow> l @ [ev y] | Inl _ \<Rightarrow> l)) \<Longrightarrow>
   foldE step xs l = Inr (l @ map ev (readable f xs))"
  by (induction xs arbitrary: l) (auto split: sum.splits)

text \<open>The same with a structure that is shared by the entries and whose contents an entry does not depend on.\<close>

lemma shared_entries_loop:
  assumes "\<And>e t l. e \<in> set xs \<Longrightarrow> \<exists>t'. step e (t, l) = Inr (t', case f e of Inr y \<Rightarrow> l @ [ev y] | Inl _ \<Rightarrow> l)"
  shows "bindE (foldE step xs (t, l)) (\<lambda>(t, l). Inr l) = Inr (l @ map ev (readable f xs))"
  using assms
proof (induction xs arbitrary: t l)
  case (Cons e xs)
  from Cons.prems [of e t l] obtain t' where "step e (t, l) = Inr (t', case f e of Inr y \<Rightarrow> l @ [ev y] | Inl _ \<Rightarrow> l)" by auto
  with Cons.IH [of t' "case f e of Inr y \<Rightarrow> l @ [ev y] | Inl _ \<Rightarrow> l"] Cons.prems show ?case by (auto split: sum.splits)
qed simp

end

section \<open>Trades, candles and order updates\<close>

definition side_char :: "string \<Rightarrow> char" where
  "side_char s = (case s of [] \<Rightarrow> CHR ''?'' | c # _ \<Rightarrow> c)"

text \<open>Buyer and seller are the first two users, if there is such an array.\<close>

definition read_users :: "'v sj_reader \<Rightarrow> 'v \<Rightarrow> (string \<times> string) outcome" where
  "read_users S obj =
     (case field_array S obj ''users'' of
        Inl _ \<Rightarrow> Inr ([], [])
      | Inr users \<Rightarrow>
          (case users of
             [] \<Rightarrow> Inr ([], [])
           | [b] \<Rightarrow> bindE (sj_string S b) (\<lambda>buyer. Inr (buyer, []))
           | b # s # _ \<Rightarrow> bindE (sj_string S b) (\<lambda>buyer. bindE (sj_string S s) (\<lambda>seller. Inr (buyer, seller)))))"

definition read_trade :: "'v sj_reader \<Rightarrow> 'v \<Rightarrow> Trade outcome" where
  "read_trade S entry =
     bindE (sj_object S entry) (\<lambda>obj.
     bindE (field_string S obj ''coin'') (\<lambda>coin.
     bindE (field_string S obj ''side'') (\<lambda>side.
     bindE (field_string S obj ''px'') (\<lambda>px.
     bindE (field_string S obj ''sz'') (\<lambda>sz.
     bindE (field_string S obj ''hash'') (\<lambda>hash.
     bindE (field_uint64 S obj ''time'') (\<lambda>time.
     bindE (field_uint64 S obj ''tid'') (\<lambda>tid.
     bindE (read_users S obj) (\<lambda>(buyer, seller).
     Inr \<lparr>tra_coin = coin, tra_side = side_char side, tra_px = px, tra_sz = sz, tra_time = time, tra_tid = tid,
          tra_hash = hash, tra_buyer = buyer, tra_seller = seller\<rparr>)))))))))"

definition read_order_update :: "'v sj_reader \<Rightarrow> 'v \<Rightarrow> OrderUpdate outcome" where
  "read_order_update S entry =
     bindE (sj_object S entry) (\<lambda>obj.
     bindE (field_object S obj ''order'') (\<lambda>order.
     bindE (field_string S order ''coin'') (\<lambda>coin.
     bindE (field_string S order ''side'') (\<lambda>side.
     bindE (field_string S order ''limitPx'') (\<lambda>limitPx.
     bindE (field_string S order ''sz'') (\<lambda>sz.
     bindE (field_uint64 S order ''oid'') (\<lambda>oid.
     bindE (field_uint64 S order ''timestamp'') (\<lambda>timestamp.
     bindE (field_string S order ''origSz'') (\<lambda>origSz.
     bindE (field_string S obj ''status'') (\<lambda>status.
     bindE (field_uint64 S obj ''statusTimestamp'') (\<lambda>statusTimestamp.
     Inr \<lparr>ou_coin = coin, ou_side = side_char side, ou_limitPx = from_chars_double limitPx,
          ou_sz = from_chars_double sz, ou_oid = oid, ou_timestamp = timestamp, ou_origSz = from_chars_double origSz,
          ou_cloid = (case field_string S order ''cloid'' of Inr cloid \<Rightarrow> cloid | Inl _ \<Rightarrow> []),
          ou_status = stringToOrderStatus status, ou_statusTimestamp = statusTimestamp\<rparr>)))))))))))"

definition read_candle :: "'v sj_reader \<Rightarrow> 'v \<Rightarrow> Candle outcome" where
  "read_candle S entry =
     bindE (sj_object S entry) (\<lambda>obj.
     bindE (field_string S obj ''s'') (\<lambda>coin.
     bindE (field_string S obj ''i'') (\<lambda>interval.
     bindE (field_uint64 S obj ''t'') (\<lambda>openTime.
     bindE (field_uint64 S obj ''T'') (\<lambda>closeTime.
     bindE (field_double S obj ''o'') (\<lambda>open.
     bindE (field_double S obj ''c'') (\<lambda>close.
     bindE (field_double S obj ''h'') (\<lambda>high.
     bindE (field_double S obj ''l'') (\<lambda>low.
     bindE (field_double S obj ''v'') (\<lambda>volume.
     bindE (field_int64 S obj ''n'') (\<lambda>n.
     Inr \<lparr>can_coin = coin, can_interval = interval, can_openTime = openTime, can_closeTime = closeTime,
          can_open = open, can_close = close, can_high = high, can_low = low, can_volume = volume,
          can_numTrades = to_int32 n\<rparr>)))))))))))"

lemma side_char_eq: "(if 0 < length s then s ! 0 else CHR ''?'') = side_char s"
  by (cases s) (simp_all add: side_char_def)

context simdjson
begin

lemma crackOrderUpdates_reads:
  "crackOrderUpdates S data listener = Inr (listener @ map OnOrderUpdate (readable (read_order_update S) data))"
  unfolding crackOrderUpdates_def side_char_eq
  by (rule entries_loop)
    (auto simp: finish_tryE_only only_reads object_error read_order_update_def Let_def OrderUpdate_init_def
      split: sum.splits)

lemma crackCandles_reads:
  "crackCandles S data listener = Inr (listener @ map OnCandle (readable (read_candle S) data))"
  unfolding crackCandles_def Let_def
  by (rule shared_entries_loop)
    (auto simp: finish_tryE_only only_reads object_error read_candle_def split: sum.splits)

lemma more_users:
  assumes "2 \<le> n" and "n + length us \<le> 2 ^ 64"
  shows "foldE (\<lambda>u (t, ui). bindE (if ui = (0 :: u64) then f u t else if ui = 1 then g u t else Inr t)
     (\<lambda>t. let ui = ui + 1 in Inr (t, ui))) us (t, of_nat n) = Inr (t, of_nat (n + length us))"
  using assms
proof (induction us arbitrary: n)
  case (Cons u us)
  then have "unat (of_nat n :: u64) = n" by (simp add: unat_of_nat)
  with Cons.prems(1) have "of_nat n \<noteq> (0 :: u64)" "of_nat n \<noteq> (1 :: u64)"
    by (metis not_numeral_le_zero unat_0, metis one_le_numeral le_antisym numeral_eq_one_iff semiring_norm(85) unat_1)
  with Cons.IH [of "Suc n"] Cons.prems show ?case by (simp add: add.commute)
qed simp

lemma users_loop:
  assumes "length us < 2 ^ 64"
  shows "bindE (foldE (\<lambda>u (t, ui). bindE (if ui = (0 :: u64) then f u t else if ui = 1 then g u t else Inr t)
     (\<lambda>t. let ui = ui + 1 in Inr (t, ui))) us (t, 0)) (\<lambda>(t, ui). Inr t) =
   (case us of [] \<Rightarrow> Inr t | [b] \<Rightarrow> f b t | b # s # _ \<Rightarrow> bindE (f b t) (g s))"
proof -
  note more = more_users [of 2, simplified]
  show ?thesis
    using assms
    by (auto simp: Let_def bindE_assoc bindE_return more [unfolded Let_def] split: list.splits)
qed

lemma crackTrades_reads:
  assumes "\<forall>entry \<in> set data. \<forall>obj users. sj_object S entry = Inr obj \<longrightarrow> field_array S obj ''users'' = Inr users \<longrightarrow>
    length users < 2 ^ 64"
  shows "crackTrades S data listener = Inr (listener @ map OnTrade (readable (read_trade S) data))"
  unfolding crackTrades_def Let_def side_char_eq
  by (rule shared_entries_loop)
    (use assms in \<open>auto simp: finish_tryE_only only_reads object_error read_trade_def read_users_def
       users_loop [unfolded Let_def]
       tryE_bindE bindE_assoc split: sum.splits list.splits\<close>)

end

section \<open>The properties\<close>

text \<open>
  C31: The snapshot of an order book has the first 50 readable levels of each side, in the order sent and from the
  start of its array, whatever is malformed among them and however many there are; its arrays keep their 50 places
  and its counts stay within them. A message without a coin, a time or the two arrays makes no callback.
\<close>

theorem l2_book_snapshot:
  assumes "simdjson S"
  shows "crackL2Book S data listener =
      (case read_book S data of
         Inr snapshot \<Rightarrow> Inr (listener @ [OnL2Book snapshot])
       | Inl _ \<Rightarrow> Inl (Caught listener)) \<and>
    (\<forall>snapshot. read_book S data = Inr snapshot \<longrightarrow>
       length (lbs_bids snapshot) = L2_BOOK_MAX_LEVELS \<and> unat (lbs_numBids snapshot) \<le> L2_BOOK_MAX_LEVELS \<and>
       length (lbs_asks snapshot) = L2_BOOK_MAX_LEVELS \<and> unat (lbs_numAsks snapshot) \<le> L2_BOOK_MAX_LEVELS)"
proof (rule conjI, rule simdjson.crackL2Book_reads [OF assms], intro allI impI)
  fix snapshot
  assume read: "read_book S data = Inr snapshot"
  have "read_side S side sides = Inr ls \<Longrightarrow> length ls \<le> L2_BOOK_MAX_LEVELS" for side sides ls
    by (auto simp: read_side_def split: list.splits)
  with read obtain c t bids asks where "snapshot = book c t bids asks"
    and "length bids \<le> L2_BOOK_MAX_LEVELS" "length asks \<le> L2_BOOK_MAX_LEVELS"
    by (auto simp: read_book_def)
  then show "length (lbs_bids snapshot) = L2_BOOK_MAX_LEVELS \<and> unat (lbs_numBids snapshot) \<le> L2_BOOK_MAX_LEVELS \<and>
      length (lbs_asks snapshot) = L2_BOOK_MAX_LEVELS \<and> unat (lbs_numAsks snapshot) \<le> L2_BOOK_MAX_LEVELS"
    by (simp add: book_def book_counts book_array_def)
qed

text \<open>One readable bid between two that are not, and no asks.\<close>

definition thin_book :: json where
  "thin_book = J_Obj
     [(''coin'', J_Str ''BTC''), (''time'', J_Num 5),
      (''levels'', J_Arr
         [J_Arr [J_Null, J_Obj [(''px'', J_Str ''100''), (''sz'', J_Str ''2''), (''n'', J_Num 3)],
                 J_Obj [(''px'', J_Str ''99'')]],
          J_Arr []])]"

theorem l2_book_snapshot_witness:
  "crackL2Book (tree_reader (\<lambda>_. None)) thin_book [] =
     Inr [OnL2Book (book ''BTC'' 5 [\<lparr>pl_side = Side_Bid, pl_px = ''100'', pl_sz = ''2'', pl_n = 3\<rparr>] [])]"
proof -
  have "sj_object (tree_reader (\<lambda>_. None)) J_Null = Inl Simdjson_Error"
    by (simp add: tree_reader_def)
  then have "read_book (tree_reader (\<lambda>_. None)) thin_book =
      Inr (book ''BTC'' 5 [\<lparr>pl_side = Side_Bid, pl_px = ''100'', pl_sz = ''2'', pl_n = 3\<rparr>] [])"
    by (simp add: read_book_def thin_book_def read_side_def book_level_def tree_eval L2_BOOK_MAX_LEVELS_def)
  with l2_book_snapshot [OF tree.simdjson_axioms, of "\<lambda>_. None" thin_book "[]"] show ?thesis by simp
qed

text \<open>
  C32: The entries of a message of trades, candles or order updates are read each on its own: the callbacks are those
  of the readable entries, in their order, and nothing of an entry, read or given up half-way, shows in another,
  though the structure they are read into is shared.
\<close>

theorem stream_entries_independent:
  assumes "simdjson S"
    and "\<forall>entry \<in> set data. \<forall>obj users. sj_object S entry = Inr obj \<longrightarrow> field_array S obj ''users'' = Inr users \<longrightarrow>
      length users < 2 ^ 64"
  shows "crackTrades S data listener = Inr (listener @ map OnTrade (readable (read_trade S) data)) \<and>
    crackCandles S data listener = Inr (listener @ map OnCandle (readable (read_candle S) data)) \<and>
    crackOrderUpdates S data listener = Inr (listener @ map OnOrderUpdate (readable (read_order_update S) data))"
  using simdjson.crackTrades_reads [OF assms] simdjson.crackCandles_reads [OF assms(1)]
    simdjson.crackOrderUpdates_reads [OF assms(1)] by blast

text \<open>A trade, one that breaks off, and a trade without users.\<close>

definition trade_json :: "string \<Rightarrow> (string \<times> json) list \<Rightarrow> json" where
  "trade_json coin rest = J_Obj
     ([(''coin'', J_Str coin), (''side'', J_Str ''B''), (''px'', J_Str ''1''), (''sz'', J_Str ''2''),
       (''hash'', J_Str ''0x''), (''time'', J_Num 5)] @ rest)"

definition some_trades :: "json list" where
  "some_trades =
     [trade_json ''BTC'' [(''tid'', J_Num 1), (''users'', J_Arr [J_Str ''0xa'', J_Str ''0xb''])],
      trade_json ''DOGE'' [],
      trade_json ''ETH'' [(''tid'', J_Num 2)]]"

theorem stream_entries_independent_witness:
  "\<exists>t1 t2. crackTrades (tree_reader (\<lambda>_. None)) some_trades [] = Inr [OnTrade t1, OnTrade t2] \<and>
     tra_buyer t1 = ''0xa'' \<and> tra_coin t2 = ''ETH'' \<and> tra_buyer t2 = []"
proof -
  let ?S = "tree_reader (\<lambda>_. None)"
  have "readable (read_trade ?S) some_trades =
      [\<lparr>tra_coin = ''BTC'', tra_side = CHR ''B'', tra_px = ''1'', tra_sz = ''2'', tra_time = 5, tra_tid = 1,
        tra_hash = ''0x'', tra_buyer = ''0xa'', tra_seller = ''0xb''\<rparr>,
       \<lparr>tra_coin = ''ETH'', tra_side = CHR ''B'', tra_px = ''1'', tra_sz = ''2'', tra_time = 5, tra_tid = 2,
        tra_hash = ''0x'', tra_buyer = [], tra_seller = []\<rparr>]"
    by (simp add: some_trades_def trade_json_def read_trade_def read_users_def side_char_def tree_eval)
  moreover have "\<forall>entry \<in> set some_trades. \<forall>obj users. sj_object ?S entry = Inr obj \<longrightarrow>
      field_array ?S obj ''users'' = Inr users \<longrightarrow> length users < 2 ^ 64"
    by (auto simp: some_trades_def trade_json_def tree_eval)
  ultimately show ?thesis
    using stream_entries_independent [OF tree.simdjson_axioms, of some_trades "\<lambda>_. None" "[]"] by auto
qed

end
