(* ===== verification/Wire_Format.thy ===== *)
theory Wire_Format
  imports Exchange_Builder
begin

text \<open>
  \<open>floatToWire\<close>: the shape of the text it gives, that reading the text gives the number back, and what becomes of
  the values that are no numbers.
\<close>

section \<open>Scaling a ratio\<close>

text \<open>The nearest double of a ratio does not depend on how the ratio is written.\<close>

lemma floorlog_2:
  assumes "0 < a"
  shows "(2::nat) ^ (floorlog 2 a - 1) \<le> a" and "a < 2 ^ floorlog 2 a" and "0 < floorlog 2 a"
  using Log_Nat.floorlog_bounds [of a 2] assms floorlog_eq_zero_iff [of 2 a] by auto

definition ratio_exp :: "nat \<Rightarrow> nat \<Rightarrow> int" where
  "ratio_exp a b = (let k = int (floorlog 2 a) - int (floorlog 2 b)
                    in if b * 2 ^ nat k \<le> a * 2 ^ nat (- k) then k else k - 1)"

lemma binade_real:
  assumes "0 < b"
  shows "b * 2 ^ nat k \<le> a * 2 ^ nat (- k) \<longleftrightarrow> 2 powi k \<le> real a / real b"
proof (cases "0 \<le> k")
  case True
  then have "b * 2 ^ nat k \<le> a * 2 ^ nat (- k) \<longleftrightarrow> real (b * 2 ^ nat k) \<le> real a"
    by (simp only: of_nat_le_iff) simp
  also have "\<dots> \<longleftrightarrow> 2 ^ nat k \<le> real a / real b" using assms by (simp add: field_simps)
  finally show ?thesis using True by (simp add: power_int_def)
next
  case False
  then have "b * 2 ^ nat k \<le> a * 2 ^ nat (- k) \<longleftrightarrow> real b \<le> real (a * 2 ^ nat (- k))"
    by (simp only: of_nat_le_iff) simp
  also have "\<dots> \<longleftrightarrow> inverse (2 ^ nat (- k)) \<le> real a / real b" using assms by (simp add: field_simps)
  finally show ?thesis using False by (simp add: power_int_def power_one_over inverse_eq_divide)
qed

lemma binade_unique:
  fixes r :: real
  assumes "2 powi i \<le> r" "r < 2 powi (i + 1)" "2 powi j \<le> r" "r < 2 powi (j + 1)"
  shows "i = j"
proof (rule ccontr)
  assume "i \<noteq> j"
  then consider "i + 1 \<le> j" | "j + 1 \<le> i" by linarith
  then show False
    using assms power_int_increasing [of "i + 1" j "2::real"] power_int_increasing [of "j + 1" i "2::real"]
    by cases linarith+
qed

lemma floorlog_real:
  assumes "0 < a"
  shows "2 powi (int (floorlog 2 a) - 1) \<le> real a" and "real a < 2 powi int (floorlog 2 a)"
proof -
  note f = floorlog_2 [OF assms]
  have "real (2 ^ (floorlog 2 a - 1)) \<le> real a" and "real a < real (2 ^ floorlog 2 a)"
    using f by (simp_all only: of_nat_le_iff of_nat_less_iff)
  then show "2 powi (int (floorlog 2 a) - 1) \<le> real a" and "real a < 2 powi int (floorlog 2 a)"
    using f(3) by (simp_all add: power_int_def nat_diff_distrib')
qed

lemma ratio_exp_binade:
  assumes "0 < a" and "0 < b"
  shows "2 powi ratio_exp a b \<le> real a / real b \<and> real a / real b < 2 powi (ratio_exp a b + 1)"
proof -
  define fa fb where "fa = int (floorlog 2 a)" and "fb = int (floorlog 2 b)"
  define k where "k = fa - fb"
  note a = floorlog_real [OF assms(1), folded fa_def] and b = floorlog_real [OF assms(2), folded fb_def]
  have "2 powi (fa - 1) / 2 powi fb \<le> real a / real b"
    using a(1) b(2) assms by (intro frac_le) simp_all
  moreover have "(2::real) powi (k - 1) = 2 powi (fa - 1) / 2 powi fb"
    by (simp add: k_def power_int_diff)
  moreover have "real a / real b < 2 powi fa / 2 powi (fb - 1)"
    using a(2) b(1) by (intro frac_less) simp_all
  moreover have "(2::real) powi (k + 1) = 2 powi fa / 2 powi (fb - 1)"
    by (simp add: k_def power_int_diff power_int_add)
  ultimately show ?thesis
    using binade_real [OF assms(2), of k a]
    by (auto simp: ratio_exp_def Let_def k_def fa_def fb_def)
qed

lemma ratio_exp_scale:
  assumes "0 < a" and "0 < b" and "0 < c"
  shows "ratio_exp (a * c) (b * c) = ratio_exp a b"
proof -
  have "real (a * c) / real (b * c) = real a / real b" using assms(3) by simp
  with ratio_exp_binade [of "a * c" "b * c"] ratio_exp_binade [OF assms(1,2)] assms
  show ?thesis by (intro binade_unique [where r = "real a / real b"]) auto
qed

lemma rne_scale: "0 < c \<Longrightarrow> rne (a * c) (b * c) = rne a b"
  by (simp add: rne_def Let_def mult_mod_left [symmetric])

lemma round_ratio_scale:
  assumes "0 < b" and "0 < c"
  shows "round_ratio (a * c) (b * c) = round_ratio a b"
proof (cases "a = 0")
  case False
  have exp: "round_exp a b = max (- 1074) (ratio_exp a b - 52)" for a b
    by (simp add: round_exp_def ratio_exp_def Let_def)
  have "round_exp (a * c) (b * c) = round_exp a b"
    using False assms ratio_exp_scale by (simp add: exp)
  moreover have "rne (a * c * x) (b * c * y) = rne (a * x) (b * y)" for x y
    using rne_scale [OF assms(2), of "a * x" "b * y"] by (simp add: ac_simps)
  ultimately show ?thesis using False assms(2) by (simp add: round_ratio_def)
qed (simp add: round_ratio_def)

section \<open>Decimal digits\<close>

lemma is_digit_digit_char: "d < 10 \<Longrightarrow> is_digit (digit_char d)"
  by (simp add: of_char_digit_char)

lemma dec_of_nat_is_digit: "c \<in> set (dec_of_nat n) \<Longrightarrow> is_digit c"
  using dec_of_nat_digits is_digit_digit_char by metis

lemma length_dec_of_nat: "n < 10 ^ k \<Longrightarrow> 0 < k \<Longrightarrow> length (dec_of_nat n) \<le> k"
proof (induction k arbitrary: n)
  case (Suc k)
  show ?case
  proof (cases "n < 10")
    case True
    then show ?thesis by (subst dec_of_nat.simps) simp
  next
    case False
    with Suc.prems have "n div 10 < 10 ^ k" and "0 < k"
      by (cases k; simp add: less_mult_imp_div_less mult.commute)+
    with Suc.IH False show ?thesis by (subst dec_of_nat.simps) simp
  qed
qed simp

lemma nat_of_dec_append: "nat_of_dec (s @ t) = nat_of_dec s * 10 ^ length t + nat_of_dec t"
  by (induction t rule: rev_induct) (simp_all add: nat_of_dec_def algebra_simps)

lemma nat_of_dec_zeros [simp]: "nat_of_dec (replicate n (CHR ''0'')) = 0"
  by (induction n) (simp_all add: nat_of_dec_def)

lemma nat_of_dec_pad [simp]: "nat_of_dec (pad_left n (CHR ''0'') s) = nat_of_dec s"
  by (simp add: pad_left_def nat_of_dec_append)

text \<open>A digit string up to its last digit that is not zero.\<close>

lemma trailing_zeros:
  obtains ds j where "s = ds @ replicate j (CHR ''0'')" "ds \<noteq> [] \<Longrightarrow> last ds \<noteq> CHR ''0''"
    "rev (dropWhile (\<lambda>c. c = CHR ''0'') (rev s)) = ds"
proof -
  let ?ds = "rev (dropWhile (\<lambda>c. c = CHR ''0'') (rev s))" and ?z = "rev (takeWhile (\<lambda>c. c = CHR ''0'') (rev s))"
  have "s = ?ds @ ?z" 
    using takeWhile_dropWhile_id [of "\<lambda>c. c = CHR ''0''" "rev s"] by (metis rev_append rev_rev_ident)
  moreover have "?z = replicate (length ?z) (CHR ''0'')"
    by (rule replicate_length_same [symmetric]) (auto dest: set_takeWhileD)
  moreover have "?ds \<noteq> [] \<Longrightarrow> last ?ds \<noteq> CHR ''0''"
    using hd_dropWhile [of "\<lambda>c. c = CHR ''0''" "rev s"] by (simp add: last_rev)
  ultimately show ?thesis using that [of ?ds "length ?z"] by simp
qed

section \<open>Reading a decimal\<close>

text \<open>The texts with digits before and, after a dot, behind it.\<close>

definition decimal_text :: "bool \<Rightarrow> string \<Rightarrow> string \<Rightarrow> string" where
  "decimal_text s ip fp = sign_string s @ ip @ (if fp = [] then [] else CHR ''.'' # fp)"

lemma digit_facts:
  assumes "is_digit c"
  shows "lower_char c = c" "\<not> is_space c" "c \<noteq> CHR ''-''" "c \<noteq> CHR ''+''" "c \<noteq> CHR ''.''" "c \<noteq> CHR ''i''" "c \<noteq> CHR ''n''"
    "c \<noteq> CHR ''x''"
  using assms by (auto simp: lower_char_def is_space_def)

lemma scan_decimal_digits:
  assumes "ip \<noteq> []" and "\<forall>c \<in> set ip. is_digit c" and "\<forall>c \<in> set fp. is_digit c"
  shows "scan_decimal (ip @ (if fp = [] then [] else CHR ''.'' # fp)) = Some (nat_of_dec (ip @ fp), - int (length fp))"
proof -
  have dot: "\<not> is_digit (CHR ''.'')" by simp
  have ip: "takeWhile is_digit (ip @ (if fp = [] then [] else CHR ''.'' # fp)) = ip"
    "dropWhile is_digit (ip @ (if fp = [] then [] else CHR ''.'' # fp)) = (if fp = [] then [] else CHR ''.'' # fp)"
    using assms(2) dot by (simp_all add: takeWhile_append2 dropWhile_append2 del: is_digit.simps)
  have fp: "takeWhile is_digit fp = fp" "dropWhile is_digit fp = []"
    using assms(3) by (simp_all add: takeWhile_eq_all_conv dropWhile_eq_Nil_conv del: is_digit.simps)
  show ?thesis
    using assms(1) by (simp add: ip fp scan_decimal_def Let_def scan_exponent_def del: is_digit.simps)
qed

lemma stod_decimal_text:
  assumes "ip \<noteq> []" and "\<forall>c \<in> set ip. is_digit c" and "\<forall>c \<in> set fp. is_digit c"
  shows "stod (decimal_text s ip fp) =
    of_option (Out_Of_Range ''stod'') (decimal_to_double s (nat_of_dec (ip @ fp)) (- int (length fp)))"
proof -
  obtain c cs where ip: "ip = c # cs" using assms(1) by (cases ip) auto
  let ?m = "ip @ (if fp = [] then [] else CHR ''.'' # fp)"
  have c: "is_digit c" using assms(2) ip by simp
  have minus: "\<not> is_space (CHR ''-'')" by (simp add: is_space_def)
  have no_hex: "\<not> starts_with_ci ''0x'' ?m"
  proof
    assume "starts_with_ci ''0x'' ?m"
    then obtain d ds where "cs @ (if fp = [] then [] else CHR ''.'' # fp) = d # ds" "lower_char d = CHR ''x''"
      by (cases "cs @ (if fp = [] then [] else CHR ''.'' # fp)")
        (auto simp: starts_with_ci_def ip simp del: append_is_Nil_conv append_eq_Cons_conv append_assoc split: if_splits)
    then have "is_digit d \<or> d = CHR ''.''" "lower_char d = CHR ''x''"
      using assms(2) ip by (cases cs; auto split: if_splits simp del: is_digit.simps)+
    then show False using digit_facts [of d] by (auto simp: lower_char_def)
  qed
  have no_inf: "\<not> starts_with_ci ''inf'' ?m" "\<not> starts_with_ci ''nan'' ?m"
    using digit_facts [OF c] by (simp_all add: starts_with_ci_def ip)
  have "strtod_magnitude s ?m =
      of_option (Out_Of_Range ''stod'') (decimal_to_double s (nat_of_dec (ip @ fp)) (- int (length fp)))"
    using no_hex scan_decimal_digits [OF assms] by (simp add: strtod_magnitude_def Let_def)
  with no_inf show ?thesis
    using digit_facts [OF c] minus
    by (cases s) (simp_all add: stod_def decimal_text_def sign_string_def ip)
qed

text \<open>Zeros at the end do not change what is read.\<close>

lemma stod_trailing_zeros:
  assumes "ip \<noteq> []" and "\<forall>c \<in> set ip. is_digit c" and "\<forall>c \<in> set fp. is_digit c"
  shows "stod (decimal_text s ip (fp @ replicate j (CHR ''0''))) = stod (decimal_text s ip fp)"
proof -
  have zeros: "\<forall>c \<in> set (fp @ replicate j (CHR ''0'')). is_digit c" using assms(3) by auto
  have d: "nat_of_dec (ip @ fp @ replicate j (CHR ''0'')) = nat_of_dec (ip @ fp) * 10 ^ j"
    by (simp add: nat_of_dec_append algebra_simps power_add)
  have scale: "round_ratio (d * 10 ^ j) (10 ^ (j + length fp)) = round_ratio d (10 ^ length fp)" for d
    using round_ratio_scale [of "10 ^ length fp" "10 ^ j" d] by (simp add: power_add mult.commute)
  show ?thesis
    by (simp add: stod_decimal_text [OF assms] stod_decimal_text [OF assms(1,2) zeros] decimal_to_double_def d scale nat_int_add del: is_digit.simps)
qed

section \<open>The wire text\<close>

lemma strip_zeros_decimal:
  assumes "\<forall>c \<in> set ip. is_digit c" and "fp = [] \<or> last fp \<noteq> CHR ''0''" and "0 < length fp + j"
  shows "strip_zeros (decimal_text s ip (fp @ replicate j (CHR ''0''))) = decimal_text s ip fp"
proof -
  let ?pre = "sign_string s @ ip"
  have full: "decimal_text s ip (fp @ replicate j (CHR ''0'')) = ?pre @ CHR ''.'' # fp @ replicate j (CHR ''0'')"
    using assms(3) by (auto simp: decimal_text_def)
  have nodot: "\<forall>c \<in> set ?pre. c \<noteq> CHR ''.''"
    using assms(1) digit_facts(5) by (auto simp: sign_string_def)
  then have dot: "takeWhile (\<lambda>c. c \<noteq> CHR ''.'') (?pre @ CHR ''.'' # t) = ?pre" for t
    by (simp add: takeWhile_append2)
  have kept: "rev (dropWhile (\<lambda>c. c = CHR ''0'') (rev (?pre @ CHR ''.'' # fp @ replicate j (CHR ''0'')))) =
      ?pre @ CHR ''.'' # fp"
  proof -
    have "dropWhile (\<lambda>c. c = CHR ''0'') (replicate j (CHR ''0'') @ t) = dropWhile (\<lambda>c. c = CHR ''0'') t" for t
      by (induction j) simp_all
    then show ?thesis
      using assms(2) by (cases fp rule: rev_cases) simp_all
  qed
  show ?thesis
    unfolding full strip_zeros_def Let_def kept dot by (auto simp: decimal_text_def)
qed

lemma fixed_text:
  obtains fp j where "print_fixed 8 (Finite s m e) =
      decimal_text s (dec_of_nat (fixed_units 8 m e div 10 ^ 8)) (fp @ replicate j (CHR ''0''))"
    "length fp + j = 8" "\<forall>c \<in> set fp. is_digit c" "fp = [] \<or> last fp \<noteq> CHR ''0''"
    "nat_of_dec fp * 10 ^ j = fixed_units 8 m e mod 10 ^ 8"
proof -
  let ?n = "fixed_units 8 m e"
  let ?f = "pad_left 8 (CHR ''0'') (dec_of_nat (?n mod 10 ^ 8))"
  have "length (dec_of_nat (?n mod 10 ^ 8)) \<le> 8" by (rule length_dec_of_nat) simp_all
  then have len: "length ?f = 8" by (simp add: pad_left_def)
  have dig: "\<forall>c \<in> set ?f. is_digit c" using dec_of_nat_is_digit by (auto simp: pad_left_def)
  obtain fp j where f: "?f = fp @ replicate j (CHR ''0'')" "fp \<noteq> [] \<Longrightarrow> last fp \<noteq> CHR ''0''"
    using trailing_zeros [of ?f] by metis
  have "nat_of_dec ?f = ?n mod 10 ^ 8" by simp
  then have "nat_of_dec fp * 10 ^ j = ?n mod 10 ^ 8" unfolding f(1) by (simp add: nat_of_dec_append)
  moreover have "print_fixed 8 (Finite s m e) = decimal_text s (dec_of_nat (?n div 10 ^ 8)) ?f"
    using len by (auto simp: decimal_text_def fixed_string_def)
  ultimately show ?thesis using that [of fp j] f len dig by auto
qed

text \<open>
  C28: A number that is accepted goes out as the shortest decimal with its value rounded to 8 places: a minus sign if
  it has one, the digits before the dot without leading zeros, and a dot only in front of at most 8 digits that do
  not end in a zero. Reading that text gives a number that differs from it by less than 1e-12.
\<close>

theorem float_to_wire_round_trip:
  assumes "floatToWire (Finite s m e) = Inr w" and "fixed_units 8 m e < 10 ^ 60"
  shows "\<exists>fp v. w = sign_string s @ dec_of_nat (fixed_units 8 m e div 10 ^ 8) @ (if fp = [] then [] else CHR ''.'' # fp) \<and>
    length fp \<le> 8 \<and> (\<forall>c \<in> set fp. is_digit c) \<and> (fp = [] \<or> last fp \<noteq> CHR ''0'') \<and>
    nat_of_dec fp * 10 ^ (8 - length fp) = fixed_units 8 m e mod 10 ^ 8 \<and>
    stod w = Inr v \<and> \<not> abs_diff_ge_1em12 v (Finite s m e)"
proof -
  let ?ip = "dec_of_nat (fixed_units 8 m e div 10 ^ 8)"
  obtain fp j where fp: "print_fixed 8 (Finite s m e) = decimal_text s ?ip (fp @ replicate j (CHR ''0''))"
    "length fp + j = 8" "\<forall>c \<in> set fp. is_digit c" "fp = [] \<or> last fp \<noteq> CHR ''0''"
    "nat_of_dec fp * 10 ^ j = fixed_units 8 m e mod 10 ^ 8"
    by (rule fixed_text)
  have ip: "?ip \<noteq> []" "\<forall>c \<in> set ?ip. is_digit c" using dec_of_nat_is_digit by auto
  have "fixed_units 8 m e div 10 ^ 8 < 10 ^ 52" using assms(2) by (simp add: less_mult_imp_div_less)
  then have "length ?ip \<le> 52" by (rule length_dec_of_nat) simp
  then have "length (print_fixed 8 (Finite s m e)) \<le> 63"
    unfolding fp(1) using fp(2) by (auto simp: decimal_text_def sign_string_def)
  then have "take 63 (print_fixed 8 (Finite s m e)) = print_fixed 8 (Finite s m e)" by simp
  with assms(1) obtain v where v: "stod (print_fixed 8 (Finite s m e)) = Inr v" "\<not> abs_diff_ge_1em12 v (Finite s m e)"
    and w: "w = strip_zeros (print_fixed 8 (Finite s m e))"
    by (auto simp: floatToWire_def Let_def simp del: print_fixed.simps split: if_splits)
  have w': "w = decimal_text s ?ip fp"
    unfolding w fp(1) by (rule strip_zeros_decimal) (use ip fp in auto)
  then have "stod w = Inr v"
    using v(1) stod_trailing_zeros [OF ip fp(3), of s j] unfolding fp(1) by simp
  moreover have "8 - length fp = j" using fp(2) by simp
  ultimately show ?thesis using w' fp v(2) unfolding decimal_text_def by (intro exI [of _ fp] exI [of _ v]) simp
qed

text \<open>The price 0.5.\<close>

lemma half_printed: "take 63 (print_fixed 8 (Finite False 1 (- 1))) = ''0.50000000''"
  by (simp add: fixed_units_def mag_num_def mag_den_def rne_def sign_string_def fixed_string_def pad_left_def
      dec_of_nat.simps digit_char_def char_of_def bit_Suc bit_0)

lemma half_nearest: "round_ratio 50000000 100000000 = (2 ^ 52, - 53)"
  by (simp add: round_ratio_def round_exp_def compute_floorlog rne_def Let_def)

lemma half_read: "stod ''0.50000000'' = Inr (Finite False (2 ^ 52) (- 53))"
  by (simp add: stod_def is_space_def starts_with_ci_def lower_char_def strtod_magnitude_def scan_decimal_def
      scan_exponent_def nat_of_dec_def decimal_to_double_def half_nearest Let_def)

lemma half_to_wire: "floatToWire (Finite False 1 (- 1)) = Inr ''0.5''"
  unfolding floatToWire_def half_printed Let_def half_read
  by (simp add: abs_diff_num_def abs_diff_den_def mag_num_def mag_den_def signed_num_def mag_ge_def
      round_ratio_def round_exp_def compute_floorlog rne_def Let_def strip_zeros_def)

theorem float_to_wire_round_trip_witness:
  "\<exists>v. stod ''0.5'' = Inr v \<and> \<not> abs_diff_ge_1em12 v (Finite False 1 (- 1))"
  using float_to_wire_round_trip [OF half_to_wire] by (auto simp: fixed_units_def mag_num_def mag_den_def rne_def)

text \<open>
  C29: The check against rounding does not reject the values that are no numbers: a comparison with a NaN is false,
  and the difference of two infinities is a NaN. An order with such a price or size is built and carries the text
  \<open>nan\<close> or \<open>inf\<close>.
\<close>

theorem non_numbers_on_the_wire:
  "floatToWire (Not_A_Number s) = Inr (sign_string s @ ''nan'') \<and>
   floatToWire (Infinite s) = Inr (sign_string s @ ''inf'') \<and>
   buildOrderWire J syms \<lparr>or_asset = asset, or_isBuy = buy, or_price = Not_A_Number False,
       or_size = Infinite False, or_reduceOnly = False, or_limit = None, or_trigger = None, or_cloid = None,
       or_assetId = Some i\<rparr> =
     Inr (jobject J [(''a'', jint J i), (''b'', jbool J buy), (''p'', jstr J ''nan''), (''s'', jstr J ''inf''),
       (''r'', jbool J False)])"
proof -
  have "floatToWire (Not_A_Number s) = Inr (sign_string s @ ''nan'')"
    "floatToWire (Infinite s) = Inr (sign_string s @ ''inf'')" for s
    by (cases s; simp add: floatToWire_def sign_string_def stod_def starts_with_ci_def is_space_def lower_char_def
        strip_zeros_def)+
  then show ?thesis
    by (simp add: buildOrderWire_def asset_id_def order_type_field_def sign_string_def opt_field_def)
qed

end
