(* ===== verification/Reply_Round_Trip.thy ===== *)
theory Reply_Round_Trip
  imports Rest_Exchange_Parser
begin

text \<open>
  The reply to an order, printed as the exchange sends it and read back.
\<close>

section \<open>Printing a reply\<close>

definition cloid_field :: "string option \<Rightarrow> (string \<times> json) list" where
  "cloid_field cloid = (case cloid of None \<Rightarrow> [] | Some c \<Rightarrow> [(''cloid'', J_Str c)])"

definition resting_json :: "OrderStatusResting \<Rightarrow> json" where
  "resting_json r = J_Obj ((''oid'', J_Num (uint (osre_oid r))) # cloid_field (osre_cloid r))"

definition filled_json :: "OrderStatusFilled \<Rightarrow> json" where
  "filled_json f = J_Obj
     ([(''totalSz'', J_Str (osf_totalSz f)), (''avgPx'', J_Str (osf_avgPx f)), (''oid'', J_Num (uint (osf_oid f)))]
      @ cloid_field (osf_cloid f))"

definition status_json :: "OrderStatusResult \<Rightarrow> json" where
  "status_json r = J_Obj
     ((case osres_resting r of None \<Rightarrow> [] | Some x \<Rightarrow> [(''resting'', resting_json x)])
      @ (case osres_filled r of None \<Rightarrow> [] | Some x \<Rightarrow> [(''filled'', filled_json x)])
      @ (case osres_error r of None \<Rightarrow> [] | Some e \<Rightarrow> [(''error'', J_Str e)]))"

definition order_reply_json :: "string \<Rightarrow> json list \<Rightarrow> json" where
  "order_reply_json ty statuses = J_Obj
     [(''status'', J_Str ''ok''),
      (''response'', J_Obj [(''type'', J_Str ty), (''data'', J_Obj [(''statuses'', J_Arr statuses)])])]"

section \<open>Reading it back\<close>

text \<open>The loop over the statuses: one that is read is added, one that is not an object ends it.\<close>

lemma statuses_loop:
  assumes "\<And>r (response :: PlaceOrderResponse). step (status_json r) response =
      Inr (response\<lparr>por_statuses := por_statuses response @ [r]\<rparr>)"
    and "rest = [] \<or> (\<exists>x xs. rest = x # xs \<and> (\<forall>response. step x response = Inl (Caught response)))"
  shows "finish (foldE step (map status_json rs @ rest) response) =
    Inr (response\<lparr>por_statuses := por_statuses response @ rs\<rparr>)"
  using assms(2)
proof (induction rs arbitrary: response)
  case Nil
  then show ?case by auto
next
  case (Cons r rs)
  then show ?case by (simp add: assms(1))
qed

text \<open>The body of the loop over the statuses, under a name.\<close>

definition order_entry :: "'v sj_reader \<Rightarrow> 'v \<Rightarrow> PlaceOrderResponse \<Rightarrow> PlaceOrderResponse exit + PlaceOrderResponse" where
  "order_entry S entry response = (tryE response (sj_object S entry) (\<lambda>obj.
            let result = OrderStatusResult_init in
            bindE (case sj_field S obj ''resting'' of
             Inr resting \<Rightarrow>
               tryE response (sj_object S resting) (\<lambda>restingObj.
               let rest = OrderStatusResting_init in
               tryE response (field_uint64 S restingObj ''oid'') (\<lambda>v.
               let rest = rest\<lparr>osre_oid := v\<rparr> in
               bindE (case sj_field S restingObj ''cloid'' of
                Inr restingCloid \<Rightarrow>
                  (if \<not> (is_null S restingCloid) then
                    tryE response (sj_string S restingCloid) (\<lambda>v.
                    let rest = rest\<lparr>osre_cloid := Some v\<rparr> in
                    Inr rest)
                   else Inr rest)
                | Inl _ \<Rightarrow>
                  Inr rest) (\<lambda>rest.
               let result = result\<lparr>osres_resting := Some rest\<rparr> in
               Inr result)))
             | Inl _ \<Rightarrow>
               Inr result) (\<lambda>result.
            bindE (case sj_field S obj ''filled'' of
             Inr filled \<Rightarrow>
               tryE response (sj_object S filled) (\<lambda>filledObj.
               let fill = OrderStatusFilled_init in
               tryE response (field_string S filledObj ''totalSz'') (\<lambda>v.
               let fill = fill\<lparr>osf_totalSz := v\<rparr> in
               tryE response (field_string S filledObj ''avgPx'') (\<lambda>v.
               let fill = fill\<lparr>osf_avgPx := v\<rparr> in
               tryE response (field_uint64 S filledObj ''oid'') (\<lambda>v.
               let fill = fill\<lparr>osf_oid := v\<rparr> in
               bindE (case sj_field S filledObj ''cloid'' of
                Inr filledCloid \<Rightarrow>
                  (if \<not> (is_null S filledCloid) then
                    tryE response (sj_string S filledCloid) (\<lambda>v.
                    let fill = fill\<lparr>osf_cloid := Some v\<rparr> in
                    Inr fill)
                   else Inr fill)
                | Inl _ \<Rightarrow>
                  Inr fill) (\<lambda>fill.
               let result = result\<lparr>osres_filled := Some fill\<rparr> in
               Inr result)))))
             | Inl _ \<Rightarrow>
               Inr result) (\<lambda>result.
            bindE (case sj_field S obj ''error'' of
             Inr error \<Rightarrow>
               tryE response (sj_string S error) (\<lambda>v.
               let result = result\<lparr>osres_error := Some v\<rparr> in
               Inr result)
             | Inl _ \<Rightarrow>
               Inr result) (\<lambda>result.
            let response = response\<lparr>por_statuses := (por_statuses response) @ [result]\<rparr> in
            Inr response)))))"

lemma parsePlaceOrder_entries:
  "parsePlaceOrder S message =
     (let response = PlaceOrderResponse_init in
     let doc = sj_iterate S message in
     finish (
      tryE response (sj_validate S message) (\<lambda>_.
      tryE response (bindE (sj_at S doc ''status'') (sj_string S)) (\<lambda>v.
      let response = response\<lparr>por_status := v\<rparr> in
      (if (por_status response) \<noteq> ''ok'' then
        Inl (Return response)
       else
        tryE response (bindE (sj_at S doc ''response'') (sj_object S)) (\<lambda>resp.
        tryE response (field_string S resp ''type'') (\<lambda>v.
        let response = response\<lparr>por_type := v\<rparr> in
        (if (por_type response) = ''default'' then
          Inl (Return response)
         else
          tryE response (bindE (sj_at S (sj_field S resp ''data'') ''statuses'') (sj_array S)) (\<lambda>statuses.
          foldE (order_entry S) statuses response)))))))))"
  unfolding parsePlaceOrder_def order_entry_def ..

lemma u64_bound: "uint (w :: u64) < 18446744073709551616"
  using uint_lt2p [of w] by simp

lemma order_entry_status:
  "order_entry (tree_reader parse) (status_json r) response =
     Inr (response\<lparr>por_statuses := por_statuses response @ [r]\<rparr>)"
  by (cases r rule: OrderStatusResult.cases, rename_tac a b c)
    (auto simp: order_entry_def tree_eval status_json_def resting_json_def filled_json_def cloid_field_def
      u64_bound OrderStatusResult_init_def OrderStatusResting_init_def OrderStatusFilled_init_def
      split: option.splits)

lemma order_entry_text: "order_entry (tree_reader parse) (J_Str w) response = Inl (Caught response)"
  by (simp add: order_entry_def tree_reads)

text \<open>
  C27: A reply to an order survives the wire: for every list of results \<open>rs\<close> (resting, filled, refused, or any
  combination, with or without a client order id), the answer the exchange prints for them is read back by
  \<open>parsePlaceOrder\<close> as exactly \<open>rs\<close>, in order, with every 64-bit order id intact. The statement covers the answers
  that hold a status which is a text, as \<open>waitingForFill\<close>, too: the results before it are kept and it ends the
  reading, so that it and every result after it are lost.
\<close>

theorem place_order_reply_round_trip:
  assumes "parse m = Some (order_reply_json ty (map status_json rs @ rest))" and "ty \<noteq> ''default''"
    and "rest = [] \<or> (\<exists>w ws. rest = J_Str w # ws)"
  shows "parsePlaceOrder (tree_reader parse) m = Inr \<lparr>por_status = ''ok'', por_type = ty, por_statuses = rs\<rparr>"
proof -
  have "finish (foldE (order_entry (tree_reader parse)) (map status_json rs @ rest) response) =
      Inr (response\<lparr>por_statuses := por_statuses response @ rs\<rparr>)" for response
    by (rule statuses_loop [OF order_entry_status]) (use assms(3) in \<open>auto simp: order_entry_text\<close>)
  then show ?thesis
    using assms(1,2)
    by (simp add: parsePlaceOrder_entries tree_reads order_reply_json_def field_defs PlaceOrderResponse_init_def Let_def)
qed

theorem place_order_reply_round_trip_witness:
  "parsePlaceOrder (tree_reader (\<lambda>_. Some (order_reply_json ''order''
      (map status_json
         [\<lparr>osres_resting = Some \<lparr>osre_oid = 77738308, osre_cloid = Some ''0x1''\<rparr>, osres_filled = None, osres_error = None\<rparr>,
          \<lparr>osres_resting = None, osres_filled = None, osres_error = Some ''no margin''\<rparr>] @
       [J_Str ''waitingForFill'', status_json \<lparr>osres_resting = None, osres_filled = None, osres_error = None\<rparr>])))) ''m'' =
   Inr \<lparr>por_status = ''ok'', por_type = ''order'', por_statuses =
         [\<lparr>osres_resting = Some \<lparr>osre_oid = 77738308, osre_cloid = Some ''0x1''\<rparr>, osres_filled = None, osres_error = None\<rparr>,
          \<lparr>osres_resting = None, osres_filled = None, osres_error = Some ''no margin''\<rparr>]\<rparr>"
  by (rule place_order_reply_round_trip [OF refl]) (simp, blast)

end
