(* ===== verification/Inflate.thy ===== *)
theory Inflate
  imports Base64 Ws_Message_Parser
begin

unbundle bit_operations_syntax

text \<open>
  \<open>WebsocketParsingUtils::inflateRawDeflate\<close>: the loop that draws the contents of a raw deflate stream out of zlib in
  pieces of 4096 bytes. zlib is a parameter; what its manual says of \<open>inflate\<close> are the laws of the locale \<open>deflate\<close>,
  which an inflater for stored blocks (RFC 1951, section 3.2.4) satisfies.
\<close>

section \<open>The loop\<close>

datatype zret = Z_OK | Z_STREAM_END | Z_NEED_DICT | Z_DATA_ERROR | Z_STREAM_ERROR | Z_MEM_ERROR | Z_BUF_ERROR

text \<open>
  The calls on a \<open>z_stream\<close>: \<open>inflateInit2(&stream, windowBits)\<close>, the assignment of \<open>next_in\<close> and \<open>avail_in\<close>, and
  \<open>inflate(&stream, Z_NO_FLUSH)\<close> with room for \<open>n\<close> bytes, which returns its code, what it put out and the stream.
  \<open>inflateEnd\<close> only frees memory.
\<close>

record 'z zlib =
  zl_inflateInit2 :: "int \<Rightarrow> 'z option"
  zl_next_in :: "bytes \<Rightarrow> 'z \<Rightarrow> 'z"
  zl_inflate :: "nat \<Rightarrow> 'z \<Rightarrow> zret \<times> string \<times> 'z"

text \<open>The \<open>do\<close> loop; \<open>None\<close> is a loop that does not end. \<open>out\<close> keeps what an error leaves in it.\<close>

partial_function (option) inflate_loop :: "'z zlib \<Rightarrow> 'z \<Rightarrow> string \<Rightarrow> (bool \<times> string) option" where
  "inflate_loop Z stream out =
     (case zl_inflate Z 4096 stream of (ret, buffer, stream) \<Rightarrow>
       if ret \<noteq> Z_OK \<and> ret \<noteq> Z_STREAM_END \<and> ret \<noteq> Z_BUF_ERROR then Some (False, out)
       else if ret \<noteq> Z_STREAM_END \<and> ret \<noteq> Z_BUF_ERROR then inflate_loop Z stream (out @ buffer)
       else Some (ret = Z_STREAM_END, out @ buffer))"

text \<open>\<open>avail_in\<close> is an \<open>unsigned int\<close>: the size is cut to 32 bits.\<close>

definition inflateRawDeflate :: "'z zlib \<Rightarrow> bytes \<Rightarrow> (bool \<times> string) option" where
  "inflateRawDeflate Z compressed =
     (case zl_inflateInit2 Z (- 15) of
        None \<Rightarrow> Some (False, [])
      | Some stream \<Rightarrow>
          inflate_loop Z (zl_next_in Z (take (length compressed mod 2 ^ 32) compressed) stream) [])"

text \<open>The inflater that the stream parser takes: the text when \<open>inflateRawDeflate\<close> returns true.\<close>

definition inflate_text :: "'z zlib \<Rightarrow> bytes \<Rightarrow> string option" where
  "inflate_text Z compressed =
     (case inflateRawDeflate Z compressed of Some (True, out) \<Rightarrow> Some out | _ \<Rightarrow> None)"

section \<open>What zlib promises\<close>

text \<open>
  \<open>decode\<close> is the format: how a whole input ends, and its contents up to there. \<open>rest\<close> is the same of a stream
  under way, \<open>left\<close> the input not yet consumed with the output not yet delivered. The manual: \<open>inflate\<close> returns
  \<open>Z_OK\<close> if some progress has been made, and then what it put out comes before what the stream still holds; it
  returns \<open>Z_STREAM_END\<close> if the end of the data was reached and all output was produced, \<open>Z_BUF_ERROR\<close> if no
  progress was possible, and an error if the data is corrupted.
\<close>

locale deflate =
  fixes Z :: "'z zlib" and decode :: "bytes \<Rightarrow> zret \<times> string"
    and rest :: "'z \<Rightarrow> zret \<times> string" and left :: "'z \<Rightarrow> nat"
  assumes fresh: "zl_inflateInit2 Z (- 15) = Some z \<Longrightarrow> rest (zl_next_in Z input z) = decode input"
    and progress: "0 < n \<Longrightarrow> zl_inflate Z n z = (Z_OK, out, z') \<Longrightarrow> left z' < left z"
    and piece: "0 < n \<Longrightarrow> zl_inflate Z n z = (Z_OK, out, z') \<Longrightarrow> rest z = (fst (rest z'), out @ snd (rest z'))"
    and last_piece: "0 < n \<Longrightarrow> zl_inflate Z n z = (ret, out, z') \<Longrightarrow> ret \<noteq> Z_OK \<Longrightarrow> rest z = (ret, out)"
begin

lemma loop_returns:
  "\<exists>s. inflate_loop Z z out = Some (fst (rest z) = Z_STREAM_END, s) \<and>
     (s = out @ snd (rest z) \<or> fst (rest z) \<noteq> Z_STREAM_END)"
proof (induction "left z" arbitrary: z out rule: less_induct)
  case less
  obtain ret buffer z' where call: "zl_inflate Z 4096 z = (ret, buffer, z')"
    by (cases "zl_inflate Z 4096 z")
  show ?case
  proof (cases "ret = Z_OK")
    case True
    with call have "left z' < left z" and "rest z = (fst (rest z'), buffer @ snd (rest z'))"
      using progress [of 4096 z buffer z'] piece [of 4096 z buffer z'] by simp_all
    with less [of z' "out @ buffer"] True call show ?thesis
      by (simp add: inflate_loop.simps [of Z z])
  next
    case False
    with call have "rest z = (ret, buffer)"
      using last_piece [of 4096 z ret buffer z'] by simp
    with False call show ?thesis
      by (auto simp: inflate_loop.simps [of Z z])
  qed
qed

lemma inflates:
  assumes "length c < 2 ^ 32" and "zl_inflateInit2 Z (- 15) \<noteq> None"
  shows "\<exists>s. inflateRawDeflate Z c = Some (fst (decode c) = Z_STREAM_END, s) \<and>
     (s = snd (decode c) \<or> fst (decode c) \<noteq> Z_STREAM_END)"
proof -
  obtain z where "zl_inflateInit2 Z (- 15) = Some z"
    using assms(2) by blast
  then show ?thesis
    using loop_returns [of "zl_next_in Z c z" "[]"] fresh [of z c] assms(1)
    by (simp add: inflateRawDeflate_def)
qed

lemma inflated_text:
  assumes "length c < 2 ^ 32" and "zl_inflateInit2 Z (- 15) \<noteq> None"
  shows "inflate_text Z c = (if fst (decode c) = Z_STREAM_END then Some (snd (decode c)) else None)"
  using inflates [OF assms] by (auto simp: inflate_text_def)

end

section \<open>An inflater for stored blocks\<close>

text \<open>
  A block is a byte whose bit 0 marks the last block and whose bits 1 and 2 are zero, the length in two bytes, least
  significant first, its complement, and the bytes themselves. Input that ends early is not an error yet.
\<close>

fun stored_blocks :: "bytes \<Rightarrow> zret \<times> bytes" where
  "stored_blocks (h # l0 # l1 # n0 # n1 # bs) =
     (let len = unat l0 + 256 * unat l1 in
      if h AND 6 \<noteq> 0 \<or> n0 \<noteq> NOT l0 \<or> n1 \<noteq> NOT l1 then (Z_DATA_ERROR, [])
      else if length bs < len then (Z_BUF_ERROR, bs)
      else if h AND 1 = 1 then (Z_STREAM_END, take len bs)
      else (case stored_blocks (drop len bs) of (ret, out) \<Rightarrow> (ret, take len bs @ out)))"
| "stored_blocks _ = (Z_BUF_ERROR, [])"

definition stored_decode :: "bytes \<Rightarrow> zret \<times> string" where
  "stored_decode bs = (case stored_blocks bs of (ret, out) \<Rightarrow> (ret, map (\<lambda>b. char_of (unat b)) out))"

text \<open>A stream is what is still to be delivered; \<open>inflate\<close> fills the room it is given.\<close>

definition stored_rest :: "zret \<times> string \<Rightarrow> zret \<times> string" where
  "stored_rest z = (if fst z = Z_OK then Z_BUF_ERROR else fst z, snd z)"

definition stored_inflate :: "nat \<Rightarrow> zret \<times> string \<Rightarrow> zret \<times> string \<times> (zret \<times> string)" where
  "stored_inflate n z =
     (if snd z = [] \<or> length (snd z) \<le> n \<and> fst z = Z_STREAM_END
      then (fst (stored_rest z), snd z, fst z, [])
      else (Z_OK, take n (snd z), fst z, drop n (snd z)))"

definition stored_zlib :: "(zret \<times> string) zlib" where
  "stored_zlib =
     \<lparr>zl_inflateInit2 = (\<lambda>bits. if bits = - 15 then Some (Z_BUF_ERROR, []) else None),
      zl_next_in = (\<lambda>input z. stored_decode input), zl_inflate = stored_inflate\<rparr>"

lemma stored_blocks_ends: "fst (stored_blocks bs) \<noteq> Z_OK"
  by (induction bs rule: stored_blocks.induct) (auto simp: Let_def split: prod.split)

lemma stored_decode_ends: "fst (stored_decode bs) \<noteq> Z_OK"
  using stored_blocks_ends [of bs] by (auto simp: stored_decode_def split: prod.split)

interpretation stored: deflate stored_zlib stored_decode stored_rest "\<lambda>z. length (snd z)"
  by unfold_locales
    (auto simp: stored_zlib_def stored_decode_ends stored_inflate_def stored_rest_def split: if_splits)

section \<open>Every stream is inflated whole\<close>

text \<open>The decoder hands the bytes to the inflater.\<close>

lemma channel_decoded:
  "crackFastAssetCtxs S validate inflate (base64_encode c) listener =
   (case inflate c of
      None \<Rightarrow> Inl (Return listener)
    | Some s \<Rightarrow> crackFastAssetCtxs S validate (\<lambda>_. Some s) '''' listener)"
proof -
  have "base64Decode (base64_encode c) = c"
    using decode_groups [of 0 "[]" c] by (auto simp: base64Decode_def)
  then show ?thesis
    unfolding crackFastAssetCtxs_def by (cases "inflate c") simp_all
qed

text \<open>
  C33: The inflation of a message ends and loses nothing. For every zlib that keeps the promises of its manual and
  every input below $2^{32}$ bytes, the loop over buffers of 4096 bytes terminates; it returns true exactly when the
  stream is complete, and then its output is the whole of the contents, so that a truncated or corrupted stream is
  never taken for a message. The channel of compressed asset contexts is therefore read as if its contents had been
  sent in the clear: the base64 decoder, the inflation and the parser compose to the parser on the contents.
\<close>

theorem compressed_channel:
  assumes "deflate Z decode rest left" and "length c < 2 ^ 32" and "zl_inflateInit2 Z (- 15) \<noteq> None"
  shows "(\<exists>s. inflateRawDeflate Z c = Some (fst (decode c) = Z_STREAM_END, s) \<and>
      (s = snd (decode c) \<or> fst (decode c) \<noteq> Z_STREAM_END)) \<and>
    crackFastAssetCtxs S validate (inflate_text Z) (base64_encode c) listener =
      (if fst (decode c) = Z_STREAM_END
       then crackFastAssetCtxs S validate (\<lambda>_. Some (snd (decode c))) '''' listener
       else Inl (Return listener))"
  using deflate.inflates [OF assms] deflate.inflated_text [OF assms] by (simp add: channel_decoded)

theorem compressed_channel_witness:
  "inflateRawDeflate stored_zlib [1, 2, 0, 0xFD, 0xFF, 0x7B, 0x7D] = Some (True, ''{}'') \<and>
   (\<forall>S validate listener.
     crackFastAssetCtxs S validate (inflate_text stored_zlib) (base64_encode [1, 2, 0, 0xFD, 0xFF, 0x7B, 0x7D]) listener =
     crackFastAssetCtxs S validate (\<lambda>_. Some ''{}'') '''' listener)"
proof -
  have contents: "stored_decode [1, 2, 0, 0xFD, 0xFF, 0x7B, 0x7D] = (Z_STREAM_END, ''{}'')"
    by code_simp
  have opens: "zl_inflateInit2 stored_zlib (- 15) \<noteq> None"
    by (simp add: stored_zlib_def)
  show ?thesis
    using compressed_channel [OF stored.deflate_axioms _ opens, of "[1, 2, 0, 0xFD, 0xFF, 0x7B, 0x7D]"]
    by (auto simp: contents simp del: base64_encode.simps)
qed

end
