(* ===== verification/Config_Keys.thy ===== *)
theory Config_Keys
  imports Signing_Proofs
begin

text \<open>
  \<open>signing/Keys.cpp\<close>, \<open>config/Config.cpp\<close> and \<open>config/Logger.h\<close>: the keys of agent wallets and where their randomness
  comes from, and the level of the logger.
\<close>

section \<open>Keys\<close>

definition generateAgentPrivateKey :: "secp256k1 \<Rightarrow> u64 list \<Rightarrow> string option outcome" where
  "generateAgentPrivateKey E draws = generatePrivateKeyHex E draws"

definition privateKeyToAddress_keys :: "secp256k1 \<Rightarrow> string \<Rightarrow> string outcome" where
  "privateKeyToAddress_keys E privateKeyHex = privateKeyToAddress E privateKeyHex"

text \<open>
  \<open>std::random_device rd; std::mt19937_64 gen(rd()); dist(gen)\<close>: every draw is determined by the 32-bit number that
  \<open>rd()\<close> returns. The generator, of the standard library, is the argument \<open>gen\<close>.
\<close>

definition draws :: "(u32 \<Rightarrow> nat \<Rightarrow> u64) \<Rightarrow> u32 \<Rightarrow> nat \<Rightarrow> u64 list" where
  "draws gen seed n = map (gen seed) [0..<n]"

text \<open>The keys that a call can return.\<close>

definition agent_key :: "secp256k1 \<Rightarrow> (u32 \<Rightarrow> nat \<Rightarrow> u64) \<Rightarrow> u32 \<Rightarrow> string \<Rightarrow> bool" where
  "agent_key E gen seed k \<longleftrightarrow> (\<exists>n. generateAgentPrivateKey E (draws gen seed n) = Inr (Some k))"

lemma agent_key_draw: "agent_key E gen seed k \<longleftrightarrow> context_create E \<and> (\<exists>n. draw_key E (draws gen seed n) = Some k)"
  by (auto simp: agent_key_def generateAgentPrivateKey_def generatePrivateKeyHex_def)

text \<open>Drawing on after a key was found does not change it, so a seed has one key at most.\<close>

lemma draw_key_append: "draw_key E xs = Some k \<Longrightarrow> draw_key E (xs @ ys) = Some k"
  by (induction E xs rule: draw_key.induct) (auto simp: Let_def split: if_splits)

lemma draw_key_more:
  assumes "draw_key E (draws gen seed m) = Some k" and "m \<le> n"
  shows "draw_key E (draws gen seed n) = Some k"
proof -
  have "[0..<n] = [0..<m] @ [m..<n]"
    using assms(2) upt_add_eq_append [of 0 m "n - m"] by simp
  then show ?thesis
    using draw_key_append [OF assms(1)] by (simp add: draws_def)
qed

text \<open>A key is the text of 32 bytes that the library accepts.\<close>

lemma draw_key_text: "draw_key E xs = Some k \<Longrightarrow> \<exists>key. k = toHexPadded key \<and> length key = 32 \<and> seckey_verify E key"
proof (induction E xs rule: draw_key.induct)
  case (1 E a b c d draws)
  let ?key = "be64 a @ be64 b @ be64 c @ be64 d"
  show ?case
  proof (cases "seckey_verify E ?key")
    case True
    with "1.prems" have "k = toHexPadded ?key" by (simp add: Let_def)
    with True show ?thesis by (intro exI [of _ ?key]) simp
  next
    case False
    with 1 show ?thesis by (simp add: Let_def)
  qed
qed simp_all

lemma agent_key_unique:
  assumes "agent_key E gen seed k" and "agent_key E gen seed k'"
  shows "k = k'"
proof -
  obtain m n where "draw_key E (draws gen seed m) = Some k" and "draw_key E (draws gen seed n) = Some k'"
    using assms by (auto simp: agent_key_draw)
  then have "draw_key E (draws gen seed (max m n)) = Some k" and "draw_key E (draws gen seed (max m n)) = Some k'"
    using draw_key_more [of E gen seed] by (blast intro: max.cobounded1 max.cobounded2)+
  then show ?thesis by simp
qed

lemma agent_keys_few: "card {k. \<exists>seed. agent_key E gen seed k} \<le> 2 ^ 32"
proof -
  let ?key = "\<lambda>seed. SOME k. agent_key E gen seed k"
  have "{k. \<exists>seed. agent_key E gen seed k} \<subseteq> range ?key"
    using agent_key_unique by (blast intro: someI2)
  then have "card {k. \<exists>seed. agent_key E gen seed k} \<le> card (range ?key)"
    by (simp add: card_mono)
  also have "\<dots> \<le> 2 ^ 32"
    using card_image_le [of "UNIV :: u32 set" ?key] by (simp add: card_word)
  finally show ?thesis .
qed

text \<open>
  C25: A generated agent key can be used: it is the text of 32 bytes that libsecp256k1 accepts, and the address to
  approve can be derived from it. But the generator is seeded with one 32-bit number, so whatever the generator,
  the keys that the SDK can ever hand out are at most $2^{32}$, of the nearly $2^{256}$ there are.
\<close>

theorem generated_keys:
  assumes "agent_key E gen seed k" and "\<forall>key. seckey_verify E key \<longrightarrow> pubkey_create E key \<noteq> None"
  shows "(\<exists>key address. k = toHexPadded key \<and> length key = 32 \<and> seckey_verify E key \<and>
      privateKeyToAddress_keys E k = Inr address) \<and>
    card {k. \<exists>seed. agent_key E gen seed k} \<le> 2 ^ 32"
proof -
  obtain n where created: "context_create E" and "draw_key E (draws gen seed n) = Some k"
    using assms(1) by (auto simp: agent_key_draw)
  then obtain key where key: "k = toHexPadded key" "length key = 32" "seckey_verify E key"
    using draw_key_text by blast
  moreover obtain pub where "pubkey_create E key = Some pub"
    using key(3) assms(2) by blast
  ultimately show ?thesis
    using created agent_keys_few by (auto simp: privateKeyToAddress_keys_def privateKeyToAddress_def hexToBytes_toHexPadded)
qed

theorem generated_keys_witness:
  "(\<exists>address. privateKeyToAddress_keys demo_secp (toHexPadded (be64 0 @ be64 1 @ be64 2 @ be64 3)) = Inr address) \<and>
   card {k. \<exists>seed. agent_key demo_secp (\<lambda>seed i. of_nat i) seed k} \<le> 2 ^ 32"
proof -
  have "draw_key demo_secp (draws (\<lambda>seed i. of_nat i) 0 4) = Some (toHexPadded (be64 0 @ be64 1 @ be64 2 @ be64 3))"
    by (simp add: draws_def upt_rec demo_secp_def)
  then have "agent_key demo_secp (\<lambda>seed i. of_nat i) 0 (toHexPadded (be64 0 @ be64 1 @ be64 2 @ be64 3))"
    unfolding agent_key_draw by (auto simp: demo_secp_def)
  then show ?thesis
    using generated_keys [of demo_secp "\<lambda>seed i. of_nat i" 0] by (fastforce simp: demo_secp_def)
qed

section \<open>The logger\<close>

datatype LogLevel = LogLevel_Trace | LogLevel_Debug | LogLevel_Info | LogLevel_Warn | LogLevel_Error
  | LogLevel_Critical | LogLevel_Off

datatype level_enum = level_trace | level_debug | level_info | level_warn | level_err | level_critical | level_off

primrec toSpdlogLevel :: "LogLevel \<Rightarrow> level_enum" where
  "toSpdlogLevel LogLevel_Trace = level_trace"
| "toSpdlogLevel LogLevel_Debug = level_debug"
| "toSpdlogLevel LogLevel_Info = level_info"
| "toSpdlogLevel LogLevel_Warn = level_warn"
| "toSpdlogLevel LogLevel_Error = level_err"
| "toSpdlogLevel LogLevel_Critical = level_critical"
| "toSpdlogLevel LogLevel_Off = level_off"

text \<open>
  The registry of spdlog, by the names of its loggers. \<open>stdout_color_mt\<close> registers a logger, at level \<open>info\<close>, and
  throws when another thread was faster; either way the registry then has one.
\<close>

definition getLogger :: "(string \<rightharpoonup> level_enum) \<Rightarrow> (string \<rightharpoonup> level_enum)" where
  "getLogger registry =
     (case registry ''hyperliquid'' of Some _ \<Rightarrow> registry | None \<Rightarrow> registry(''hyperliquid'' \<mapsto> level_info))"

definition setLogLevel :: "LogLevel \<Rightarrow> (string \<rightharpoonup> level_enum) \<Rightarrow> (string \<rightharpoonup> level_enum)" where
  "setLogLevel level registry = (getLogger registry)(''hyperliquid'' \<mapsto> toSpdlogLevel level)"

text \<open>The last level set is the level logged at, whatever was logged in between.\<close>

lemma setLogLevel_last:
  "setLogLevel l (getLogger (setLogLevel l' registry)) = setLogLevel l registry"
  "getLogger (setLogLevel l registry) = setLogLevel l registry"
  by (auto simp: setLogLevel_def getLogger_def split: option.splits)

end
