(* ===== verification/Enum_Texts.thy ===== *)
theory Enum_Texts
  imports Stream_Types Info_Types Account_Types Reply_Types Order_Types
begin

text \<open>
  The names of the enumerations: what \<open>toString\<close> prints and \<open>stringTo...\<close> reads.
\<close>

section \<open>Names\<close>

text \<open>
  \<open>printed\<close> and \<open>parsed\<close> agree on the names of an enumeration: a value that is printed is read back, and a text is
  either no name at all, read as \<open>unknown\<close>, or the very text that its value prints.
\<close>

definition names :: "('e \<Rightarrow> string) \<Rightarrow> (string \<Rightarrow> 'e) \<Rightarrow> 'e \<Rightarrow> bool" where
  "names printed parsed unknown \<longleftrightarrow>
     (\<forall>x. parsed (printed x) = x) \<and> (\<forall>s. parsed s = unknown \<or> printed (parsed s) = s)"

lemma namesI:
  "(\<And>x. parsed (printed x) = x) \<Longrightarrow> (\<And>s. parsed s = unknown \<or> printed (parsed s) = s) \<Longrightarrow> names printed parsed unknown"
  by (simp add: names_def)

text \<open>No two values share a name, and no name is read as two values.\<close>

lemma names_inj:
  assumes "names printed parsed unknown"
  shows "printed x = printed y \<longleftrightarrow> x = y" and "parsed s = x \<Longrightarrow> x \<noteq> unknown \<Longrightarrow> s = printed x"
  using assms unfolding names_def by metis+

lemma names_LedgerUpdateType: "names toString_LedgerUpdateType stringToLedgerUpdateType LedgerUpdateType_Unknown"
  by (rule namesI, case_tac x) (simp_all add: stringToLedgerUpdateType_def)

lemma names_OutcomeMetaUpdateType: "names toString_OutcomeMetaUpdateType stringToOutcomeMetaUpdateType OutcomeMetaUpdateType_Unknown"
  by (rule namesI, case_tac x) (simp_all add: stringToOutcomeMetaUpdateType_def)

lemma names_LedgerUpdateDeltaType: "names toString_LedgerUpdateDeltaType stringToLedgerUpdateDeltaType LedgerUpdateDeltaType_Unknown"
  by (rule namesI, case_tac x) (simp_all add: stringToLedgerUpdateDeltaType_def)

lemma names_FrontendOrderType: "names toString_FrontendOrderType stringToFrontendOrderType FrontendOrderType_Unknown"
  by (rule namesI, case_tac x) (simp_all add: stringToFrontendOrderType_def)

lemma names_OrderTif: "names toString_OrderTif stringToOrderTif OrderTif_Unknown"
  by (rule namesI, case_tac x) (simp_all add: stringToOrderTif_def)

lemma names_PortfolioPeriodType: "names toString_PortfolioPeriodType stringToPortfolioPeriodType PortfolioPeriodType_Unknown"
  by (rule namesI, case_tac x) (simp_all add: stringToPortfolioPeriodType_def)

lemma names_UserRoleType: "names toString_UserRoleType stringToUserRoleType UserRoleType_Unknown"
  by (rule namesI, case_tac x) (simp_all add: stringToUserRoleType_def)

lemma names_UserAbstractionState: "names toString_UserAbstractionState stringToUserAbstractionState UserAbstractionState_Unknown"
  by (rule namesI, case_tac x) (simp_all add: stringToUserAbstractionState_def)

lemma names_DelegatorHistoryDeltaType: "names toString_DelegatorHistoryDeltaType stringToDelegatorHistoryDeltaType DelegatorHistoryDeltaType_Unknown"
  by (rule namesI, case_tac x) (simp_all add: stringToDelegatorHistoryDeltaType_def)

lemma names_WithdrawalPhase: "names toString_WithdrawalPhase stringToWithdrawalPhase WithdrawalPhase_Unknown"
  by (rule namesI, case_tac x) (simp_all add: stringToWithdrawalPhase_def)

lemma names_DelegatorRewardSource: "names toString_DelegatorRewardSource stringToDelegatorRewardSource DelegatorRewardSource_Unknown"
  by (rule namesI, case_tac x) (simp_all add: stringToDelegatorRewardSource_def)

lemma names_OrderStatus: "names toString_OrderStatus stringToOrderStatus OrderStatus_Unknown"
  by (rule namesI, case_tac x) (simp_all add: stringToOrderStatus_def)

lemma names_LiquidationMethod: "names toString_LiquidationMethod stringToLiquidationMethod LiquidationMethod_Unknown"
  by (rule namesI, case_tac x) (simp_all add: stringToLiquidationMethod_def)

lemma names_TwapHistoryStatus: "names toString_TwapHistoryStatus stringToTwapHistoryStatus TwapHistoryStatus_Unknown"
  by (rule namesI, case_tac x) (simp_all add: stringToTwapHistoryStatus_def)

text \<open>Two enumerations accept more than they print, or throw on a text they do not know.\<close>

lemma leverage_names:
  "stringToLeverageType (toString_LeverageType x) = x"
  "stringToLeverageType s = LeverageType_Unknown \<or> s \<in> {''cross'', ''Cross'', ''isolated'', ''Isolated''}"
  by (cases x) (simp_all add: stringToLeverageType_def)

lemma subscription_parsed:
  "stringToSubscriptionType s = Sub_Unknown \<or> toString_Subscription (stringToSubscriptionType s) = Inr s"
  unfolding stringToSubscriptionType_def by (simp only: if_distrib [of toString_Subscription] toString_Subscription.simps) simp

lemma subscription_names:
  "toString_Subscription t = Inr s \<longleftrightarrow> stringToSubscriptionType s = t \<and> t \<noteq> Sub_Unknown"
  using stringToSubscriptionType_cases [of t] subscription_parsed [of s] by (auto split: sum.splits)

lemma request_names:
  "stringToUserAbstractionMode s = Inr a \<longleftrightarrow> toString_UserAbstractionMode a = s"
  "stringToAddressEncoding s = Inr b \<longleftrightarrow> toString_AddressEncoding b = s"
  by (cases a; auto simp: stringToUserAbstractionMode_def)
    (cases b; auto simp: stringToAddressEncoding_def)

section \<open>Every enumeration of the responses\<close>

text \<open>
  The names of the enumerations survive the wire. For each of the fourteen enumerations of the answers, and for
  subscriptions, user abstraction modes and address encodings, reading what \<open>toString\<close> prints gives the value back,
  and a text that is recognised is the text printed for it, so that no name is altered and no two values share one;
  a text that is not recognised is the \<open>Unknown\<close> value, or the error the source throws.
\<close>

lemma enum_names_round_trip:
  "names toString_LedgerUpdateType stringToLedgerUpdateType LedgerUpdateType_Unknown \<and>
   names toString_OutcomeMetaUpdateType stringToOutcomeMetaUpdateType OutcomeMetaUpdateType_Unknown \<and>
   names toString_LedgerUpdateDeltaType stringToLedgerUpdateDeltaType LedgerUpdateDeltaType_Unknown \<and>
   names toString_FrontendOrderType stringToFrontendOrderType FrontendOrderType_Unknown \<and>
   names toString_OrderTif stringToOrderTif OrderTif_Unknown \<and>
   names toString_PortfolioPeriodType stringToPortfolioPeriodType PortfolioPeriodType_Unknown \<and>
   names toString_UserRoleType stringToUserRoleType UserRoleType_Unknown \<and>
   names toString_UserAbstractionState stringToUserAbstractionState UserAbstractionState_Unknown \<and>
   names toString_DelegatorHistoryDeltaType stringToDelegatorHistoryDeltaType DelegatorHistoryDeltaType_Unknown \<and>
   names toString_WithdrawalPhase stringToWithdrawalPhase WithdrawalPhase_Unknown \<and>
   names toString_DelegatorRewardSource stringToDelegatorRewardSource DelegatorRewardSource_Unknown \<and>
   names toString_OrderStatus stringToOrderStatus OrderStatus_Unknown \<and>
   names toString_LiquidationMethod stringToLiquidationMethod LiquidationMethod_Unknown \<and>
   names toString_TwapHistoryStatus stringToTwapHistoryStatus TwapHistoryStatus_Unknown \<and>
   (\<forall>t s. toString_Subscription t = Inr s \<longleftrightarrow> stringToSubscriptionType s = t \<and> t \<noteq> Sub_Unknown) \<and>
   (\<forall>a s. stringToUserAbstractionMode s = Inr a \<longleftrightarrow> toString_UserAbstractionMode a = s) \<and>
   (\<forall>b s. stringToAddressEncoding s = Inr b \<longleftrightarrow> toString_AddressEncoding b = s)"
  by (intro conjI allI;
    (rule names_LedgerUpdateType
      names_OutcomeMetaUpdateType
      names_LedgerUpdateDeltaType
      names_FrontendOrderType
      names_OrderTif
      names_PortfolioPeriodType
      names_UserRoleType
      names_UserAbstractionState
      names_DelegatorHistoryDeltaType
      names_WithdrawalPhase
      names_DelegatorRewardSource
      names_OrderStatus
      names_LiquidationMethod
      names_TwapHistoryStatus
    | rule subscription_names request_names))

end
