(* ===== verification/Ws_System.thy ===== *)
theory Ws_System
  imports Ws_Runner_Spec Post_Dispatch "HOL-Library.Sublist"
begin

text \<open>
  \<open>WebsocketApi\<close> on top of its \<open>WebsocketRunner\<close>: what the API sends goes into the queue of the connection, what the
  connection observes comes back through \<open>WSListener\<close>. The user's thread and the thread that runs \<open>io_context\<close> take
  turns in any order.
\<close>

section \<open>The two components together\<close>

record ws_system =
  sys_api :: ws_api
  sys_runner :: runner
  sys_thrown :: "cpp_error option"

text \<open>What a call of the API does to the connection: \<open>ws.send\<close> and \<open>ws.onPongReceived\<close>, in the order of the log.\<close>

fun forward :: "api_event \<Rightarrow> runner \<Rightarrow> runner" where
  "forward (Ws_Send m) r = send_message m r"
| "forward Pong_Received r = onPongReceived r"
| "forward _ r = r"

definition forward_new :: "ws_api \<Rightarrow> ws_api \<Rightarrow> runner \<Rightarrow> runner" where
  "forward_new api api' r = fold forward (drop (length (wa_log api)) (wa_log api')) r"

text \<open>The callbacks of \<open>WSListener\<close> that \<open>WebsocketApi::Impl\<close> overrides. An exception ends the handler.\<close>

fun ws_callback :: "'v sj_reader \<Rightarrow> obs \<Rightarrow> ws_api \<Rightarrow> ws_api \<times> unit outcome" where
  "ws_callback S (L_Message m) api = onWsMessage S m api"
| "ws_callback S L_Connected api = (onWsConnected api, Inr ())"
| "ws_callback S (L_Disconnected hasError reason) api = (onWsDisconnected hasError reason api, Inr ())"
| "ws_callback S _ api = (api, Inr ())"

fun ws_callbacks :: "'v sj_reader \<Rightarrow> obs list \<Rightarrow> ws_api \<Rightarrow> ws_api \<times> unit outcome" where
  "ws_callbacks S [] api = (api, Inr ())"
| "ws_callbacks S (e # es) api =
     (case ws_callback S e api of
        (api', Inl x) \<Rightarrow> (api', Inl x)
      | (api', Inr _) \<Rightarrow> ws_callbacks S es api')"

text \<open>
  A step of the thread of the connection: one event of the runner, with the callbacks of what it observes. An
  exception that leaves a callback leaves \<open>run()\<close> as well.
\<close>

definition io_event :: "event \<Rightarrow> bool" where
  "io_event e \<longleftrightarrow> (case e of Ev_Send _ \<Rightarrow> False | Ev_Stop \<Rightarrow> False | _ \<Rightarrow> True)"

definition io_step :: "'v sj_reader \<Rightarrow> event \<Rightarrow> ws_system \<Rightarrow> ws_system" where
  "io_step S e s =
     (let r = exec_event e (sys_runner s);
          (api, res) = ws_callbacks S (drop (length (trace (sys_runner s))) (trace r)) (sys_api s)
      in s\<lparr>sys_api := api, sys_runner := forward_new (sys_api s) api r,
           sys_thrown := (case res of Inl e \<Rightarrow> Some e | Inr _ \<Rightarrow> None)\<rparr>)"

text \<open>A step of the user's thread, an API method that ran to \<open>api\<close>.\<close>

definition user_step :: "ws_api \<Rightarrow> ws_system \<Rightarrow> ws_system" where
  "user_step api s = s\<lparr>sys_api := api, sys_runner := forward_new (sys_api s) api (sys_runner s)\<rparr>"

inductive ws_system_step :: "'j json_ops \<Rightarrow> secp256k1 \<Rightarrow> 'v sj_reader \<Rightarrow> ws_system \<Rightarrow> ws_system \<Rightarrow> bool"
  for J E S where
  sys_call: "sys_thrown s = None \<Longrightarrow> call_method J E call correlationId clock (sys_api s) = (api, res) \<Longrightarrow>
    ws_system_step J E S s (user_step api s)"
| sys_subscribe: "sys_thrown s = None \<Longrightarrow> subscribe J type filters (sys_api s) = (api, res) \<Longrightarrow> ws_system_step J E S s (user_step api s)"
| sys_unsubscribe: "sys_thrown s = None \<Longrightarrow> unsubscribe J type filters (sys_api s) = (api, res) \<Longrightarrow> ws_system_step J E S s (user_step api s)"
| sys_stop: "sys_thrown s = None \<Longrightarrow> ws_system_step J E S s (s\<lparr>sys_api := stop_api (sys_api s), sys_runner := stop_runner (sys_runner s)\<rparr>)"
| sys_io: "sys_thrown s = None \<Longrightarrow> io_event e \<Longrightarrow> enabled e (sys_runner s) \<Longrightarrow>
    ws_system_step J E S s (io_step S e s)"

inductive ws_system_reachable ::
  "'j json_ops \<Rightarrow> secp256k1 \<Rightarrow> 'v sj_reader \<Rightarrow> ApiConfig \<Rightarrow> rest_metadata \<Rightarrow> ws_system \<Rightarrow> bool"
  for J E S config metadata where
  sys_start: "WebsocketApi_init config metadata nonce = Inr api \<Longrightarrow>
    ws_system_reachable J E S config metadata \<lparr>sys_api = api, sys_runner = start_runner t, sys_thrown = None\<rparr>"
| sys_step: "ws_system_reachable J E S config metadata s \<Longrightarrow> ws_system_step J E S s s' \<Longrightarrow>
    ws_system_reachable J E S config metadata s'"

section \<open>Messages on their way\<close>

text \<open>
  Those the connection has taken: put into its queue, or still in a handler that will. The heartbeat uses the same
  queue and is left out.
\<close>

fun posted :: "task list \<Rightarrow> string list" where
  "posted [] = []"
| "posted (P_Send m # ts) = m # posted ts"
| "posted (_ # ts) = posted ts"

definition user_message :: "string \<Rightarrow> bool" where
  "user_message m \<longleftrightarrow> m \<noteq> ping_message"

definition flow :: "runner \<Rightarrow> string list" where
  "flow r = filter user_message (sent (trace r)) @ filter user_message (posted (ready r))"

text \<open>Those the API has sent.\<close>

fun ws_sends :: "api_event list \<Rightarrow> string list" where
  "ws_sends [] = []"
| "ws_sends (Ws_Send m # es) = m # ws_sends es"
| "ws_sends (_ # es) = ws_sends es"

lemma posted_append [simp]: "posted (ts @ us) = posted ts @ posted us"
  by (induction ts rule: posted.induct) simp_all

lemma posted_done [simp]: "posted (map (\<lambda>h. Done h r) hs) = []"
  by (induction hs) simp_all

lemma sent_append [simp]: "sent (tr @ us) = sent tr @ sent us"
  by (induction tr rule: sent.induct) simp_all

lemma written_append [simp]: "written (tr @ us) = written tr @ written us"
  by (induction tr rule: written.induct) simp_all

lemma ws_sends_append [simp]: "ws_sends (es @ fs) = ws_sends es @ ws_sends fs"
  by (induction es rule: ws_sends.induct) simp_all

lemma flow_simps [simp]:
  "flow (cancel_ops P r) = flow r" "flow (start_op h r) = flow r"
  "flow (post_task t r) = flow r @ filter user_message (posted [t])"
  "sent [e] = [] \<Longrightarrow> flow (observe e r) = flow r"
  "flow (r\<lparr>connected := b\<rparr>) = flow r" "flow (r\<lparr>stopping := b\<rparr>) = flow r" "flow (r\<lparr>writing := b\<rparr>) = flow r"
  "flow (r\<lparr>writeQueue := q\<rparr>) = flow r" "flow (r\<lparr>reconnectAttempts := n\<rparr>) = flow r"
  "flow (r\<lparr>pendingPong := b\<rparr>) = flow r" "flow (r\<lparr>lastPongTime := t'\<rparr>) = flow r" "flow (r\<lparr>now := t'\<rparr>) = flow r"
  "flow (r\<lparr>inflight := hs\<rparr>) = flow r"
  by (simp_all add: flow_def cancel_ops_def)

lemma flow_writing [simp]: "flow (doWrite r) = flow r"
  by (simp add: doWrite_def split: list.split)

lemma flow_reconnect [simp]: "flow (scheduleReconnect r) = flow r" "flow (doReconnect r) = flow r"
  by (simp_all add: scheduleReconnect_def doReconnect_def doResolve_def Let_def)

lemma flow_ping [simp]: "flow (startPingTimer r) = flow r" "flow (doPing r) = flow r"
  by (simp_all add: startPingTimer_def doPing_def)

lemma flow_enqueue:
  "flow (enqueue m r) = filter user_message (sent (trace r)) @ filter user_message (m # posted (ready r))"
  by (simp add: enqueue_def flow_def)

lemma flow_run_task:
  "flow (run_task t r) = filter user_message (sent (trace r)) @ filter user_message (posted (t # ready r))"
proof (cases t)
  case (Done h x)
  have "flow (run_task (Done h x) r) = flow r"
    by (cases h) (simp_all add: onResolve_def onConnect_def onSslHandshake_def onWsHandshake_def onRead_def
        onWrite_def onClosed_def onReconnectTimer_def onPingTimer_def doRead_def Let_def split: list.split)
  then show ?thesis by (simp add: Done flow_def)
next
  case P_Ping
  then show ?thesis by (simp add: onPingTask_def Let_def flow_enqueue user_message_def)
next
  case P_DoClose
  then show ?thesis by (simp add: doClose_def flow_def [symmetric])
qed (simp add: onSendTask_def Let_def flow_enqueue)

lemma flow_event: "flow (exec_event e r) = flow r @ (case e of Ev_Send m \<Rightarrow> filter user_message [m] | _ \<Rightarrow> [])"
proof (cases e)
  case Ev_Run
  then show ?thesis
  proof (cases "ready r")
    case (Cons t ts)
    with Ev_Run flow_run_task [of t "r\<lparr>ready := ts\<rparr>"] show ?thesis by (simp add: flow_def [of r])
  qed simp
qed (simp_all add: send_message_def stop_runner_def onPongReceived_def Let_def)

lemma flow_forward: "flow (fold forward es r) = flow r @ filter user_message (ws_sends es)"
proof (induction es arbitrary: r)
  case (Cons e es)
  then show ?case by (cases e) (simp_all add: send_message_def onPongReceived_def)
qed simp

text \<open>The log of the API only grows.\<close>

definition log_grows :: "ws_api \<Rightarrow> ws_api \<Rightarrow> bool" where
  "log_grows api api' \<longleftrightarrow> (\<exists>es. wa_log api' = wa_log api @ es)"


lemma log_grows_refl [simp]: "log_grows api api"
  by (simp add: log_grows_def)

lemma log_grows_trans: "log_grows a b \<Longrightarrow> log_grows b c \<Longrightarrow> log_grows a c"
  by (auto simp: log_grows_def)

lemma log_grows_emit [simp]: "log_grows api (wa_emit e api)" "log_grows api (emit_all es api)"
  by (simp_all add: log_grows_def wa_emit_def)

lemma log_grows_call: "call_method J E call correlationId clock api = (api', res) \<Longrightarrow> log_grows api api'"
  by (auto simp: call_method_def signAndSend_def log_grows_def wa_emit_def Let_def split: prod.splits sum.splits)

lemma log_grows_subscription:
  "subscribe J type filters api = (api', res) \<Longrightarrow> log_grows api api'"
  "unsubscribe J type filters api = (api', res) \<Longrightarrow> log_grows api api'"
  by (auto simp: subscribe_def unsubscribe_def split: sum.splits)

lemma log_grows_answer:
  "answer_post S key type correlationId payloadText api = (api', res) \<Longrightarrow> log_grows api api'"
  by (auto simp: answer_post_def log_grows_def Let_def split: sum.splits)

lemma log_grows_message: "ws_message S m api (api', res) \<Longrightarrow> log_grows api api'"
  by (cases rule: ws_message.cases [of S m api "(api', res)"]) (auto simp: log_grows_def dest!: log_grows_answer [OF sym])

lemma log_grows_callback:
  assumes "simdjson S" and "ws_callback S e api = (api', res)"
  shows "log_grows api api'"
proof (cases e)
  case (L_Message m)
  with assms simdjson.onWsMessage_step [of S m api] log_grows_message show ?thesis by fastforce
qed (use assms(2) in \<open>auto simp: onWsConnected_def onWsDisconnected_def\<close>)

lemma log_grows_callbacks: "simdjson S \<Longrightarrow> ws_callbacks S es api = (api', res) \<Longrightarrow> log_grows api api'"
proof (induction es arbitrary: api)
  case (Cons e es)
  obtain mid r where "ws_callback S e api = (mid, r)" by fastforce
  with Cons log_grows_callback [of S e api mid r] show ?case
    by (cases r) (auto intro: log_grows_trans)
qed simp

text \<open>The connection has taken what the API has sent, in its order.\<close>

definition taken_over :: "ws_system \<Rightarrow> bool" where
  "taken_over s \<longleftrightarrow> flow (sys_runner s) = filter user_message (ws_sends (wa_log (sys_api s)))"

lemma forward_taken:
  assumes "log_grows api api'" and "flow r = filter user_message (ws_sends (wa_log api))"
  shows "flow (forward_new api api' r) = filter user_message (ws_sends (wa_log api'))"
  using assms by (auto simp: log_grows_def forward_new_def flow_forward)

lemma reachable_exec: "runner_reachable r \<Longrightarrow> enabled e r \<Longrightarrow> runner_reachable (exec_event e r)"
  by (auto intro: runner_reachable.next_step runner_step.step)

lemma forward_reachable: "runner_reachable r \<Longrightarrow> runner_reachable (fold forward es r)"
proof (induction es arbitrary: r)
  case (Cons e es)
  have "runner_reachable (forward e r)"
    using Cons.prems reachable_exec [of r "Ev_Send m" for m] reachable_exec [of r Ev_Pong] by (cases e) simp_all
  then show ?case using Cons.IH by simp
qed simp

lemma user_step_taken:
  "log_grows (sys_api s) api \<Longrightarrow> taken_over s \<Longrightarrow> taken_over (user_step api s)"
  by (simp add: taken_over_def user_step_def forward_taken)

lemma io_step_runner: "\<exists>es. sys_runner (io_step S e s) = fold forward es (exec_event e (sys_runner s))"
  by (auto simp: io_step_def forward_new_def Let_def split: prod.split)

lemma io_step_taken:
  assumes "simdjson S" and "io_event e" and "taken_over s"
  shows "taken_over (io_step S e s)"
proof -
  obtain api res where c: "ws_callbacks S (drop (length (trace (sys_runner s))) (trace (exec_event e (sys_runner s)))) (sys_api s) = (api, res)"
    by fastforce
  have "flow (exec_event e (sys_runner s)) = flow (sys_runner s)"
    using assms(2) by (simp add: flow_event io_event_def split: event.splits)
  with assms(3) log_grows_callbacks [OF assms(1) c] show ?thesis
    by (simp add: taken_over_def io_step_def c Let_def forward_taken)
qed

lemma system_step_inv:
  assumes "simdjson S" and "ws_system_step J E S s s'" and "taken_over s \<and> runner_reachable (sys_runner s)"
  shows "taken_over s' \<and> runner_reachable (sys_runner s')"
  using assms(2)
proof cases
  case (sys_call call correlationId clock api res)
  with assms(3) log_grows_call show ?thesis
    by (fastforce intro: user_step_taken forward_reachable simp: user_step_def forward_new_def)
next
  case (sys_subscribe type filters api res)
  with assms(3) log_grows_subscription(1) show ?thesis
    by (fastforce intro: user_step_taken forward_reachable simp: user_step_def forward_new_def)
next
  case (sys_unsubscribe type filters api res)
  with assms(3) log_grows_subscription(2) show ?thesis
    by (fastforce intro: user_step_taken forward_reachable simp: user_step_def forward_new_def)
next
  case sys_stop
  have "flow (exec_event Ev_Stop (sys_runner s)) = flow (sys_runner s)"
    by (simp only: flow_event) simp
  moreover have "runner_reachable (exec_event Ev_Stop (sys_runner s))"
    using assms(3) by (intro reachable_exec) simp_all
  ultimately show ?thesis
    using assms(3) by (simp add: sys_stop taken_over_def stop_api_def)
next
  case (sys_io e)
  have "runner_reachable (exec_event e (sys_runner s))"
    using assms(3) sys_io by (intro reachable_exec) simp_all
  then have "runner_reachable (sys_runner (io_step S e s))"
    using io_step_runner [of S e s] forward_reachable by metis
  moreover have "taken_over (io_step S e s)"
    using assms(1,3) sys_io by (intro io_step_taken) simp_all
  ultimately show ?thesis using sys_io by simp
qed

lemma system_inv:
  "ws_system_reachable J E S config metadata s \<Longrightarrow> simdjson S \<Longrightarrow> taken_over s \<and> runner_reachable (sys_runner s)"
proof (induction rule: ws_system_reachable.induct)
  case (sys_start nonce api t)
  then have "wa_log api = []"
    by (auto simp: WebsocketApi_init_def)
  then show ?case
    by (simp add: taken_over_def flow_def start_runner_def doResolve_def runner_reachable.init [unfolded start_runner_def doResolve_def])
qed (use system_step_inv in blast)

section \<open>Order of the messages from the API to the wire\<close>

lemma link_in_order: "link_from (Some (up0, q0, n0)) tr = Some (up, q, n) \<Longrightarrow> subseq (written tr @ q) (q0 @ sent tr)"
proof (induction tr arbitrary: up q n rule: rev_induct)
  case (snoc e tr)
  then obtain up' q' n' where l: "link_from (Some (up0, q0, n0)) tr = Some (up', q', n')"
    and e: "link_step (up', q', n') e = Some (up, q, n)"
    by (cases "link_from (Some (up0, q0, n0)) tr") (auto simp: link_from_def)
  have IH: "subseq (written tr @ q') (q0 @ sent tr)" by (rule snoc.IH [OF l])
  show ?case
  proof (cases e)
    case (Enqueued m)
    with e list_emb_append_mono [OF IH, of "[m]" "[m]"] show ?thesis by auto
  next
    case (Write_Done m)
    with e have "written (tr @ [e]) @ q = written tr @ q'" by (cases q') (auto split: if_splits)
    then show ?thesis using Write_Done IH by simp
  next
    case Queue_Cleared
    with e have "q = []" by (simp split: if_splits)
    moreover have "subseq (written tr) (q0 @ sent tr)"
      by (rule subseq_order.trans [OF prefix_imp_subseq IH]) simp
    ultimately show ?thesis using Queue_Cleared by simp
  qed (use e IH in \<open>auto split: if_splits\<close>)
qed simp

text \<open>
  C8: A message reaches the wire at most once and in its place. However the calls of the API, the handlers of the
  connection, failures and reconnections interleave: the messages completely written, then those waiting in the
  queue, then those still on their way to it, are a subsequence of the messages the API has sent, and all of them as
  long as no reconnection has cleared the queue.
\<close>

theorem messages_in_order:
  assumes "simdjson S" and "ws_system_reachable J E S config metadata s"
  shows "let r = sys_runner s;
             out = filter user_message (written (trace r) @ writeQueue r @ posted (ready r));
             sends = filter user_message (ws_sends (wa_log (sys_api s)))
         in subseq out sends \<and> (Queue_Cleared \<in> set (trace r) \<or> out = sends)"
proof -
  let ?r = "sys_runner s"
  have inv: "taken_over s" "runner_reachable ?r"
    using system_inv [OF assms(2,1)] by simp_all
  have "link_from (Some (False, [], 0)) (trace ?r) = Some (connected ?r, writeQueue ?r, reconnectAttempts ?r)"
    using reachable_refines [OF inv(2)] by (simp add: refines_def abs_link_def link_run_def link_from_def)
  from link_in_order [OF this] have "subseq (written (trace ?r) @ writeQueue ?r) (sent (trace ?r))" by simp
  then have "subseq (filter user_message (written (trace ?r) @ writeQueue ?r)) (filter user_message (sent (trace ?r)))"
    by (rule subseq_filter)
  moreover have "sent (trace ?r) = written (trace ?r) @ writeQueue ?r" if "Queue_Cleared \<notin> set (trace ?r)"
    using link_from_fifo [of False "[]" 0 "trace ?r"] that reachable_refines [OF inv(2)]
    by (simp add: refines_def abs_link_def link_run_def link_from_def)
  moreover have "filter user_message (ws_sends (wa_log (sys_api s))) =
      filter user_message (sent (trace ?r)) @ filter user_message (posted (ready ?r))"
    using inv(1) by (simp add: taken_over_def flow_def)
  ultimately show ?thesis
    by (cases "Queue_Cleared \<in> set (trace ?r)") (simp_all add: Let_def list_emb_append_mono flip: append_assoc)
qed

text \<open>The heartbeat of a connection, and a message of the user that is written.\<close>

theorem messages_in_order_witness:
  "\<forall>E. \<exists>s. ws_system_reachable json_model E post_reader default_config no_metadata s \<and>
     subseq (filter user_message (written (trace (sys_runner s)) @ writeQueue (sys_runner s) @ posted (ready (sys_runner s))))
       (filter user_message (ws_sends (wa_log (sys_api s))))"
proof
  fix E
  obtain api0 where init: "WebsocketApi_init default_config no_metadata 0 = Inr api0"
    by (simp add: WebsocketApi_init_def initializeMapping_def default_config_def)
  from one_request [OF this] obtain api where
    call: "call_method json_model E (MarketApi (C_AllMids None)) (Some 7) 5 api0 = (api, Inr ())" by blast
  let ?s = "user_step api \<lparr>sys_api = api0, sys_runner = start_runner 0, sys_thrown = None\<rparr>"
  have "ws_system_reachable json_model E post_reader default_config no_metadata ?s"
    by (rule sys_step [OF sys_start [OF init, of _ _ _ 0]]) (rule sys_call, use call in simp_all)
  with messages_in_order [OF post_reader_simdjson this] show "\<exists>s. ws_system_reachable json_model E post_reader default_config no_metadata s \<and>
     subseq (filter user_message (written (trace (sys_runner s)) @ writeQueue (sys_runner s) @ posted (ready (sys_runner s))))
       (filter user_message (ws_sends (wa_log (sys_api s))))"
    by (auto simp: Let_def)
qed

section \<open>A request that is lost\<close>

subsection \<open>What a step adds\<close>

text \<open>The trace of the connection only grows.\<close>

lemma trace_scheduleReconnect: "prefix (trace s) (trace (scheduleReconnect s))"
  by (cases "stopping s") (simp_all add: scheduleReconnect_def)

lemma trace_doWrite: "prefix (trace s) (trace (doWrite s))"
  by (auto simp: doWrite_def split: list.split)

lemmas trace_ops = trace_scheduleReconnect trace_doWrite prefix_order.trans [OF _ trace_scheduleReconnect]
  prefix_order.trans [OF _ trace_doWrite]

lemma trace_run_task: "prefix (trace s) (trace (run_task t s))"
  by (induction t s rule: run_task.induct)
    (auto simp: onResolve_def onConnect_def onSslHandshake_def onWsHandshake_def onRead_def onClosed_def onWrite_def
      onReconnectTimer_def doReconnect_def doResolve_def onPingTimer_def doPing_def onSendTask_def onPingTask_def
      doClose_def Let_def split: list.split intro!: trace_ops)

lemma trace_event: "prefix (trace r) (trace (exec_event e r))"
proof (cases e)
  case Ev_Run
  then show ?thesis using trace_run_task [of "r\<lparr>ready := tl (ready r)\<rparr>" "hd (ready r)"]
    by (cases "ready r") simp_all
qed (auto simp: send_message_def stop_runner_def onPongReceived_def Let_def)

lemma trace_forward: "trace (fold forward es r) = trace r"
proof (induction es arbitrary: r)
  case (Cons e es)
  then show ?case by (cases e) (simp_all add: send_message_def onPongReceived_def)
qed simp

text \<open>
  An entry of the table of outstanding requests stays as it is, unless a message is received that reads as a response
  with its id, or a later request takes the same id. \<open>obs\<close> is what the connection has observed, \<open>n\<close> the number of
  requests sent.
\<close>

definition still_waiting :: "'v sj_reader \<Rightarrow> obs list \<Rightarrow> nat \<Rightarrow> ws_api \<Rightarrow> ws_api \<Rightarrow> bool" where
  "still_waiting S obs n api api' \<longleftrightarrow>
     postRequestCounter api' = postRequestCounter api + of_nat n \<and>
     (\<forall>k q. postRequestInfo api k = Some q \<longrightarrow>
        postRequestInfo api' k = Some q \<or>
        (\<exists>m payload. L_Message m \<in> set obs \<and> read_post S m = Inr (k, payload)) \<or>
        (\<exists>i<n. k = post_key (postRequestCounter api + of_nat i)))"

lemma still_waiting_refl: "postRequestInfo api' = postRequestInfo api \<Longrightarrow> postRequestCounter api' = postRequestCounter api \<Longrightarrow>
    still_waiting S obs 0 api api'"
  by (simp add: still_waiting_def)

lemma still_waiting_trans:
  assumes "still_waiting S obs n a b" and "still_waiting S obs' n' b c"
  shows "still_waiting S (obs @ obs') (n + n') a c"
  unfolding still_waiting_def
proof (intro conjI allI impI)
  show "postRequestCounter c = postRequestCounter a + of_nat (n + n')"
    using assms by (simp add: still_waiting_def)
  fix k q assume "postRequestInfo a k = Some q"
  with assms(1) consider "postRequestInfo b k = Some q"
    | m payload where "L_Message m \<in> set obs" "read_post S m = Inr (k, payload)"
    | i where "i < n" "k = post_key (postRequestCounter a + of_nat i)"
    unfolding still_waiting_def by blast
  then show "postRequestInfo c k = Some q \<or>
      (\<exists>m payload. L_Message m \<in> set (obs @ obs') \<and> read_post S m = Inr (k, payload)) \<or>
      (\<exists>i<n + n'. k = post_key (postRequestCounter a + of_nat i))"
  proof cases
    case 1
    with assms(2) consider "postRequestInfo c k = Some q"
      | m payload where "L_Message m \<in> set obs'" "read_post S m = Inr (k, payload)"
      | i where "i < n'" "k = post_key (postRequestCounter b + of_nat i)"
      unfolding still_waiting_def by blast
    then show ?thesis
    proof cases
      case (3 i)
      have "k = post_key (postRequestCounter a + of_nat (n + i))"
        using 3(2) assms(1) by (simp add: still_waiting_def add.assoc)
      with 3(1) have "\<exists>i<n + n'. k = post_key (postRequestCounter a + of_nat i)" by (intro exI [of _ "n + i"]) simp
      then show ?thesis by blast
    qed auto
  next
    case (3 i)
    then have "\<exists>i<n + n'. k = post_key (postRequestCounter a + of_nat i)" by (intro exI [of _ i]) simp
    then show ?thesis by blast
  qed auto
qed


lemma answer_frame:
  "answer_post S key type correlationId payloadText api = (api', res) \<Longrightarrow>
   postRequestInfo api' = (postRequestInfo api)(key := None) \<and> postRequestCounter api' = postRequestCounter api"
  by (auto simp: answer_post_def emit_all_def Let_def split: sum.splits)

lemma message_waiting:
  assumes "simdjson S" and "onWsMessage S m api = (api', res)"
  shows "still_waiting S [L_Message m] 0 api api'"
  using simdjson.onWsMessage_step [OF assms(1), of m api] unfolding assms(2)
proof (cases rule: ws_message.cases)
  case (answered key payloadText type correlationId)
  with answer_frame [OF answered(1) [symmetric]] show ?thesis by (auto simp: still_waiting_def)
qed (auto simp: still_waiting_def emit_all_def)

lemma callback_waiting:
  assumes "simdjson S" and "ws_callback S e api = (api', res)"
  shows "still_waiting S [e] 0 api api'"
proof (cases e)
  case (L_Message m)
  then show ?thesis using message_waiting [OF assms(1), of m] assms(2) by simp
qed (use assms(2) in \<open>auto simp: onWsConnected_def onWsDisconnected_def wa_emit_def intro!: still_waiting_refl\<close>)

lemma still_waiting_more: "still_waiting S obs n a b \<Longrightarrow> still_waiting S (obs @ obs') n a b"
  using still_waiting_trans [of S obs n a b obs' 0 b] by (simp add: still_waiting_refl)

lemma callbacks_waiting:
  "simdjson S \<Longrightarrow> ws_callbacks S obs api = (api', res) \<Longrightarrow> still_waiting S obs 0 api api'"
proof (induction obs arbitrary: api)
  case (Cons e obs)
  obtain mid r where c: "ws_callback S e api = (mid, r)" by fastforce
  note first = callback_waiting [OF Cons.prems(1) c]
  show ?case
  proof (cases r)
    case (Inl x)
    then show ?thesis using Cons.prems(2) c still_waiting_more [OF first, of obs] by simp
  next
    case (Inr u)
    then have "ws_callbacks S obs mid = (api', res)" using Cons.prems(2) c by simp
    from still_waiting_trans [OF first Cons.IH [OF Cons.prems(1) this]] show ?thesis by simp
  qed
qed (simp add: still_waiting_refl)

lemma call_waiting:
  assumes "call_method J E call correlationId clock api = (api', res)"
  shows "\<exists>n es. wa_log api' = wa_log api @ es \<and> n \<le> length (ws_sends es) \<and> still_waiting S [] n api api'"
proof (cases res)
  case (Inl e)
  then have "api' = api \<or> (\<exists>nonce. api' = api\<lparr>wa_nonce := nonce\<rparr>)"
    using assms by (auto simp: call_method_def Let_def split: sum.splits dest: signAndSend_failed)
  then show ?thesis by (intro exI [of _ 0] exI [of _ "[]"]) (auto intro!: still_waiting_refl)
next
  case (Inr u)
  then have "\<exists>nonce m type c. api' = emit_all [Ws_Send m] (api\<lparr>wa_nonce := nonce, postRequestCounter := postRequestCounter api + 1,
      postRequestInfo := (postRequestInfo api)(post_key (postRequestCounter api) \<mapsto> (type, c))\<rparr>)"
    using assms by (fastforce simp: call_method_def Let_def split: sum.splits dest: signAndSend_table)
  then obtain nonce m type c where api': "api' = emit_all [Ws_Send m] (api\<lparr>wa_nonce := nonce,
      postRequestCounter := postRequestCounter api + 1,
      postRequestInfo := (postRequestInfo api)(post_key (postRequestCounter api) \<mapsto> (type, c))\<rparr>)" by blast
  have "still_waiting S [] 1 api api'" by (auto simp: still_waiting_def api' emit_all_def)
  then show ?thesis by (intro exI [of _ 1] exI [of _ "[Ws_Send m]"]) (simp add: api' emit_all_def)
qed

lemma log_grows_waiting:
  assumes "log_grows api api'" and "still_waiting S obs 0 api api'"
  shows "\<exists>n es. wa_log api' = wa_log api @ es \<and> n \<le> length (ws_sends es) \<and> still_waiting S obs n api api'"
  using assms by (auto simp: log_grows_def intro: exI [of _ 0])

lemma subscription_waiting:
  "subscribe J type filters api = (api', res) \<Longrightarrow> still_waiting S [] 0 api api'"
  "unsubscribe J type filters api = (api', res) \<Longrightarrow> still_waiting S [] 0 api api'"
  by (rule still_waiting_refl; auto simp: subscribe_def unsubscribe_def wa_emit_def split: sum.splits)+

lemma step_waiting:
  assumes "simdjson S" and "ws_system_step J E S s s'"
  shows "\<exists>obs n es. trace (sys_runner s') = trace (sys_runner s) @ obs \<and> wa_log (sys_api s') = wa_log (sys_api s) @ es \<and>
    n \<le> length (ws_sends es) \<and> still_waiting S obs n (sys_api s) (sys_api s')"
  using assms(2)
proof cases
  case (sys_call call correlationId clock api res)
  then show ?thesis using call_waiting [OF sys_call(3), of S]
    by (intro exI [of _ "[]"]) (simp add: user_step_def forward_new_def trace_forward)
next
  case (sys_subscribe type filters api res)
  with log_grows_waiting [OF log_grows_subscription(1) subscription_waiting(1)] show ?thesis
    by (intro exI [of _ "[]"]) (simp add: user_step_def forward_new_def trace_forward)
next
  case (sys_unsubscribe type filters api res)
  with log_grows_waiting [OF log_grows_subscription(2) subscription_waiting(2)] show ?thesis
    by (intro exI [of _ "[]"]) (simp add: user_step_def forward_new_def trace_forward)
next
  case sys_stop
  then show ?thesis
    by (intro exI [of _ "[Stop_Called]"] exI [of _ 0] exI [of _ "[]"])
      (simp add: stop_api_def stop_runner_def Let_def still_waiting_refl)
next
  case (sys_io e)
  obtain obs where t: "trace (exec_event e (sys_runner s)) = trace (sys_runner s) @ obs"
    using trace_event [of "sys_runner s" e] by (auto simp: prefix_def)
  obtain api res where c: "ws_callbacks S obs (sys_api s) = (api, res)" by fastforce
  have "sys_api s' = api" "trace (sys_runner s') = trace (sys_runner s) @ obs"
    using sys_io c t by (simp_all add: io_step_def Let_def forward_new_def trace_forward)
  then show ?thesis
    using log_grows_waiting [OF log_grows_callbacks [OF assms(1) c] callbacks_waiting [OF assms(1) c]] by auto
qed

lemma steps_waiting:
  "(ws_system_step J E S)\<^sup>*\<^sup>* s s' \<Longrightarrow> simdjson S \<Longrightarrow>
   \<exists>obs n es. trace (sys_runner s') = trace (sys_runner s) @ obs \<and> wa_log (sys_api s') = wa_log (sys_api s) @ es \<and>
     n \<le> length (ws_sends es) \<and> still_waiting S obs n (sys_api s) (sys_api s')"
proof (induction rule: rtranclp_induct)
  case base
  show ?case by (intro exI [of _ "[]"] exI [of _ 0]) (simp add: still_waiting_refl)
next
  case (step s' s'')
  then obtain obs n es where 1: "trace (sys_runner s') = trace (sys_runner s) @ obs"
    "wa_log (sys_api s') = wa_log (sys_api s) @ es" "n \<le> length (ws_sends es)" "still_waiting S obs n (sys_api s) (sys_api s')"
    by blast
  from step_waiting [OF step.prems step.hyps(2)] obtain obs' n' es' where 2:
    "trace (sys_runner s'') = trace (sys_runner s') @ obs'"
    "wa_log (sys_api s'') = wa_log (sys_api s') @ es'" "n' \<le> length (ws_sends es')"
    "still_waiting S obs' n' (sys_api s') (sys_api s'')" by blast
  from still_waiting_trans [OF 1(4) 2(4)] 1 2 show ?case
    by (intro exI [of _ "obs @ obs'"] exI [of _ "n + n'"] exI [of _ "es @ es'"]) simp
qed

lemma steps_reachable:
  "(ws_system_step J E S)\<^sup>*\<^sup>* s s' \<Longrightarrow> ws_system_reachable J E S config metadata s \<Longrightarrow>
   ws_system_reachable J E S config metadata s'"
  by (induction rule: rtranclp_induct) (auto intro: sys_step)

subsection \<open>The attempt that clears the queue\<close>

lemma reconnection_clears:
  assumes "runner_inv r" and "ready r = Done H_ReconnectTimer x # ts" and "\<not> is_error x"
  shows "trace (exec_event Ev_Run r) = trace r @ [Queue_Cleared]"
proof -
  have "0 < live r H_ReconnectTimer" using assms(2,3) by (simp add: live_def)
  then have "\<not> connected r" "\<not> stopping r"
    using assms(1) by (auto simp: runner_inv_def phase_inv_def stop_inv_def split: if_splits)
  then show ?thesis
    using assms(2,3) by (simp add: onReconnectTimer_def doReconnect_def doResolve_def Let_def)
qed

text \<open>
  C34: Requests that wait while the connection is down are lost when the next attempt starts. Whenever the handler of
  the reconnect timer runs, it clears the queue without a callback or a change to the API. In every continuation,
  however the system goes on: what is completely written afterwards, and what waits then, is a subsequence of what has
  been put into the queue since, so that nothing that was in it is ever written; and every request that was outstanding
  is still outstanding, unless a message is received that reads as a response with its id (and the server has never seen
  the ids of the requests that were lost), or one of the \<open>n\<close> requests sent since has taken the same id.
\<close>

theorem request_lost_on_reconnection:
  assumes "simdjson S" and "ws_system_reachable J E S config metadata s"
    and "sys_thrown s = None"
    and "ready (sys_runner s) = Done H_ReconnectTimer x # ts" and "\<not> is_error x"
    and "(ws_system_step J E S)\<^sup>*\<^sup>* (io_step S Ev_Run s) s'"
  shows "sys_api (io_step S Ev_Run s) = sys_api s \<and>
    (\<exists>obs n es. trace (sys_runner s') = trace (sys_runner s) @ Queue_Cleared # obs \<and>
       subseq (written obs @ writeQueue (sys_runner s')) (sent obs) \<and>
       wa_log (sys_api s') = wa_log (sys_api s) @ es \<and> n \<le> length (ws_sends es) \<and>
       (\<forall>k q. postRequestInfo (sys_api s) k = Some q \<longrightarrow>
          postRequestInfo (sys_api s') k = Some q \<or>
          (\<exists>m payload. L_Message m \<in> set obs \<and> read_post S m = Inr (k, payload)) \<or>
          (\<exists>i<n. k = post_key (postRequestCounter (sys_api s) + of_nat i))))"
proof -
  let ?s1 = "io_step S Ev_Run s"
  have i: "runner_inv (sys_runner s)" using system_inv [OF assms(2,1)] reachable_inv by blast
  note cleared = reconnection_clears [OF i assms(4,5)]
  have same: "sys_api ?s1 = sys_api s" "trace (sys_runner ?s1) = trace (sys_runner s) @ [Queue_Cleared]"
    using cleared by (simp_all add: io_step_def Let_def forward_new_def)
  have "ws_system_reachable J E S config metadata ?s1"
    by (rule sys_step [OF assms(2)], rule sys_io) (use assms(3,4) in \<open>simp_all add: io_event_def\<close>)
  from steps_reachable [OF assms(6) this] have "runner_reachable (sys_runner s')"
    using system_inv assms(1) by blast
  from reachable_refines [OF this]
  have run: "link_run (trace (sys_runner s')) = Some (connected (sys_runner s'), writeQueue (sys_runner s'), reconnectAttempts (sys_runner s'))"
    by (simp add: refines_def abs_link_def)
  obtain obs n es where w: "trace (sys_runner s') = trace (sys_runner ?s1) @ obs"
    "wa_log (sys_api s') = wa_log (sys_api ?s1) @ es" "n \<le> length (ws_sends es)"
    "still_waiting S obs n (sys_api ?s1) (sys_api s')"
    using steps_waiting [OF assms(6,1)] by blast
  obtain l where "link_from (Some l) (Queue_Cleared # obs) =
      Some (connected (sys_runner s'), writeQueue (sys_runner s'), reconnectAttempts (sys_runner s'))"
    using run w(1) same(2) link_run_from [of "trace (sys_runner s)" "Queue_Cleared # obs"]
    by (cases "link_run (trace (sys_runner s))") auto
  from link_from_clear [OF this] obtain up a where "link_from (Some (up, [], a)) obs =
      Some (connected (sys_runner s'), writeQueue (sys_runner s'), reconnectAttempts (sys_runner s'))" by blast
  from link_in_order [OF this] have "subseq (written obs @ writeQueue (sys_runner s')) (sent obs)" by simp
  with w same show ?thesis
    by (intro conjI exI [of _ obs] exI [of _ n] exI [of _ es]) (simp_all add: still_waiting_def)
qed

text \<open>The first attempt fails while a request waits; the next one, two seconds later, succeeds.\<close>

fun io_run :: "'v sj_reader \<Rightarrow> event list \<Rightarrow> ws_system \<Rightarrow> ws_system option" where
  "io_run S [] s = Some s"
| "io_run S (e # es) s =
     (if sys_thrown s = None \<and> io_event e \<and> enabled e (sys_runner s) then io_run S es (io_step S e s) else None)"

lemma io_run_steps: "io_run S es s = Some s' \<Longrightarrow> (ws_system_step J E S)\<^sup>*\<^sup>* s s'"
  by (induction es arbitrary: s) (auto intro: converse_rtranclp_into_rtranclp sys_io split: if_splits)

definition failed_attempt :: "event list" where
  "failed_attempt =
     [Ev_Run, Ev_Complete H_Resolve (R_Error ''down''), Ev_Run, Ev_Complete H_ReconnectTimer (R_Ok [])]"

definition next_attempt :: "event list" where
  "next_attempt =
     [Ev_Complete H_Resolve (R_Ok []), Ev_Run, Ev_Complete H_Connect (R_Ok []), Ev_Run,
      Ev_Complete H_Ssl (R_Ok []), Ev_Run, Ev_Complete H_Ws (R_Ok []), Ev_Run]"

lemma second_attempt_run:
  "\<exists>s s'. io_run S failed_attempt \<lparr>sys_api = api, sys_runner = send_message m (start_runner t), sys_thrown = None\<rparr> = Some s \<and>
     sys_thrown s = None \<and> sys_api s = api \<and> writeQueue (sys_runner s) = [m] \<and>
     ready (sys_runner s) = [Done H_ReconnectTimer (R_Ok [])] \<and> written (trace (sys_runner s)) = [] \<and>
     io_run S next_attempt (io_step S Ev_Run s) = Some s' \<and> sys_api s' = onWsConnected api \<and>
     connected (sys_runner s') \<and> trace (sys_runner s') = trace (sys_runner s) @ [Queue_Cleared, L_Connected]"
  by (simp add: failed_attempt_def next_attempt_def io_step_def io_event_def runner_eval scheduleReconnect_def
      doReconnect_def onReconnectTimer_def forward_new_def onWsConnected_def wa_emit_def backoff_secs_def
      MAX_BACKOFF_SECS_def)

lemma first_call:
  assumes "WebsocketApi_init config metadata nonce = Inr api0"
    and "call_method J E call correlationId clock api0 = (api, Inr ())"
  shows "\<exists>m. wa_log api = [Ws_Send m] \<and>
    postRequestInfo api (post_key 0) = Some (rq_type (api_request_of J (wa_syms api0) call), correlationId) \<and>
    ws_system_reachable J E S config metadata
      \<lparr>sys_api = api, sys_runner = send_message m (start_runner 0), sys_thrown = None\<rparr>"
proof -
  have new: "wa_log api0 = []" "postRequestCounter api0 = 0"
    using assms(1) by (auto simp: WebsocketApi_init_def)
  then obtain m where api: "wa_log api = [Ws_Send m]"
    "postRequestInfo api (post_key 0) = Some (rq_type (api_request_of J (wa_syms api0) call), correlationId)"
    using assms(2) by (auto simp: call_method_def signAndSend_def wa_emit_def Let_def split: sum.splits prod.splits)
  let ?s0 = "\<lparr>sys_api = api0, sys_runner = start_runner 0, sys_thrown = None\<rparr>"
  have "user_step api ?s0 = \<lparr>sys_api = api, sys_runner = send_message m (start_runner 0), sys_thrown = None\<rparr>"
    by (simp add: user_step_def forward_new_def new api)
  moreover have "ws_system_reachable J E S config metadata (user_step api ?s0)"
    by (rule sys_step [OF sys_start [OF assms(1), of _ _ _ 0]]) (rule sys_call, use assms(2) in simp_all)
  ultimately show ?thesis using api by auto
qed

theorem request_lost_on_reconnection_witness:
  "\<forall>E. \<exists>s s' m. ws_system_reachable json_model E post_reader default_config no_metadata s \<and>
     (ws_system_step json_model E post_reader)\<^sup>*\<^sup>* (io_step post_reader Ev_Run s) s' \<and>
     writeQueue (sys_runner s) = [m] \<and> connected (sys_runner s') \<and> writeQueue (sys_runner s') = [] \<and>
     written (trace (sys_runner s')) = [] \<and>
     postRequestInfo (sys_api s') (post_key 0) = Some (Ep_AllMids, Some 7)"
proof
  fix E
  let ?step = "ws_system_step json_model E post_reader"
    and ?reach = "ws_system_reachable json_model E post_reader default_config no_metadata"
  obtain api0 where init: "WebsocketApi_init default_config no_metadata 0 = Inr api0"
    by (simp add: WebsocketApi_init_def initializeMapping_def default_config_def)
  from one_request [OF this] obtain api where
    "call_method json_model E (MarketApi (C_AllMids None)) (Some 7) 5 api0 = (api, Inr ())" by blast
  from first_call [OF init this, of post_reader] obtain m where m: "wa_log api = [Ws_Send m]"
    "postRequestInfo api (post_key 0) = Some (Ep_AllMids, Some 7)"
    "ws_system_reachable json_model E post_reader default_config no_metadata
       \<lparr>sys_api = api, sys_runner = send_message m (start_runner 0), sys_thrown = None\<rparr>"
    by (auto simp: api_call_def)
  obtain s s' where run: "io_run post_reader failed_attempt
      \<lparr>sys_api = api, sys_runner = send_message m (start_runner 0), sys_thrown = None\<rparr> = Some s" "sys_thrown s = None" "sys_api s = api"
    "writeQueue (sys_runner s) = [m]" "ready (sys_runner s) = Done H_ReconnectTimer (R_Ok []) # []"
    "written (trace (sys_runner s)) = []"
    "io_run post_reader next_attempt (io_step post_reader Ev_Run s) = Some s'" "sys_api s' = onWsConnected api"
    "connected (sys_runner s')" "trace (sys_runner s') = trace (sys_runner s) @ [Queue_Cleared, L_Connected]"
    using second_attempt_run [of post_reader api m 0] by blast
  have reach: "?reach s" using steps_reachable io_run_steps [OF run(1)] m(3) by blast
  have steps: "?step\<^sup>*\<^sup>* (io_step post_reader Ev_Run s) s'" by (rule io_run_steps [OF run(7)])
  from request_lost_on_reconnection [OF post_reader_simdjson reach run(2,5) _ steps] run(3,8,10) m(1)
  obtain es n where "subseq (written [L_Connected] @ writeQueue (sys_runner s')) (sent [L_Connected])"
    "wa_log (onWsConnected api) = wa_log api @ es" "n \<le> length (ws_sends es)"
    "postRequestInfo (sys_api s') (post_key 0) = Some (Ep_AllMids, Some 7) \<or> (\<exists>i<n. post_key 0 = post_key (postRequestCounter api + of_nat i))"
    using m(2) by auto
  then have "writeQueue (sys_runner s') = []" "postRequestInfo (sys_api s') (post_key 0) = Some (Ep_AllMids, Some 7)"
    by (auto simp: onWsConnected_def wa_emit_def)
  with reach steps run show "\<exists>s s' m. ?reach s \<and> ?step\<^sup>*\<^sup>* (io_step post_reader Ev_Run s) s' \<and>
     writeQueue (sys_runner s) = [m] \<and> connected (sys_runner s') \<and> writeQueue (sys_runner s') = [] \<and>
     written (trace (sys_runner s')) = [] \<and>
     postRequestInfo (sys_api s') (post_key 0) = Some (Ep_AllMids, Some 7)"
    by (intro exI [of _ s] exI [of _ s'] exI [of _ m]) simp
qed
end
