(* ===== verification/Spec2Isabelle.thy ===== *)
theory Spec2Isabelle
  imports Ws_Runner_Spec Signing_Proofs Nonce Keccak_Sponge Rest_Session Mapping_Proofs Post_Dispatch Stream_Typing
    Stream_Reads Wire_Format Reply_Round_Trip Inflate Config_Keys Enum_Texts Ws_System
begin

text \<open>
  Verification of the Hyperliquid C++ SDK, the client library of the Hyperliquid exchange: requests built and signed,
  sent over HTTPS or a WebSocket, and the answers and the market stream parsed into typed structures.

  \<^bold>\<open>How the program is put together.\<close> A method of \<open>RestApi\<close> or \<open>WebsocketApi\<close> builds a JSON body with
  \<open>InfoRequestBuilder\<close> or \<open>ExchangeRequestBuilder\<close> (which resolves symbols in the \<open>SymbolMap\<close> filled on
  construction), \<open>Signing::prepareBodyForType\<close> adds nonce, vault, expiry and signature (an EIP-712 signature over a
  Keccak hash, by libsecp256k1), and the body goes out in an \<open>HttpSession\<close> or in the write queue of the
  \<open>WebsocketRunner\<close>. REST answers and post responses are read by \<open>RestApiMessageParser\<close>, stream messages by
  \<open>WebsocketMessageParser\<close>, which call the listener of the user.

  \<^bold>\<open>The theories.\<close> The C++ name of a function is kept; a suffix tells namesakes apart
  (\<open>onRead_http\<close> and \<open>onRead\<close>, \<open>meta_sync\<close> and \<open>metaAsync\<close>).
  \<^item> \<open>Prelude\<close>: errors (\<open>cpp_error\<close>, \<open>outcome\<close>: \<open>Inl\<close> a thrown exception), \<open>bindE\<close>, loops over results,
    decimal text. \<open>Doubles\<close>: binary64 values as exact fractions, \<open>stod\<close>, \<open>from_chars\<close>, rounding, \<open>printf\<close>-style text.
  \<^item> \<open>Request_Types\<close>: \<open>types/RequestTypes.h\<close>, \<open>config/Config.h\<close>. \<open>Symbol_Map\<close>: \<open>rest/SymbolMap.cpp\<close>.
    \<open>Json_Lib\<close>: the interface of the JSON values the builders use, and a model of it.
    \<open>Exchange_Builder\<close>, \<open>Info_Builder\<close>: \<open>messages/*.cpp\<close>. \<open>Mapping_Proofs\<close>: which name resolves to what.
    \<open>Wire_Format\<close>: the decimal text of prices and sizes, read back.
  \<^item> \<open>Keccak\<close>: \<open>signing/sha3.c\<close>; \<open>Keccak_Spec\<close>, \<open>Keccak_Sponge\<close>: Keccak-f[1600] and Keccak-256 as specified, and the
    proofs that the C code computes them. \<open>Byte_Codec\<close>, \<open>Signing_Helpers\<close>: \<open>signing/SigningHelpers.cpp\<close>. \<open>Nonce\<close>:
    the compare-and-exchange loop of \<open>nextNonce\<close>, as interleaved steps of several callers. \<open>Signing\<close>:
    \<open>signing/Signing.cpp\<close>. \<open>Signing_Proofs\<close>: what the signature covers. \<open>Config_Keys\<close>: \<open>signing/Keys.cpp\<close>,
    \<open>config/Config.cpp\<close> and \<open>config/Logger.h\<close>; how many keys the generator can give.
  \<^item> \<open>Ws_Runner\<close>: \<open>websocket/WebsocketRunner.cpp\<close>, a state record, one function per handler and a step relation in
    which outstanding operations complete in any order and completed handlers run one at a time from one FIFO;
    \<open>Ws_Runner_Inv\<close>: the invariant; \<open>Ws_Runner_Spec\<close>: the abstract link it refines, and the properties, among them
    when \<open>stop\<close> ends the loop (on a quiet connection) and when it does not (during the connection set-up, or overtaken
    by a message). \<open>Websocket_Api\<close>, \<open>Api_Proofs\<close>: \<open>websocket/WebsocketApi.cpp\<close> and
    \<open>websocket/PostResponseDispatch.cpp\<close>; \<open>Post_Dispatch\<close>: requests and their responses over a whole session;
    \<open>Ws_System\<close>: the API on top of its connection, messages from a call to the wire and back, and the requests that a
    reconnection loses.
  \<^item> \<open>Http_Session\<close>: \<open>rest/HttpSession.cpp\<close>, and what a session comes to for every script of errors. \<open>Rest_Api_Sync\<close>, \<open>Rest_Api_Async\<close>, \<open>Rest_Api\<close>: \<open>rest/RestApi.cpp\<close>, its
    hundred methods on both paths; \<open>Rest_Api_Proofs\<close>: the transports agree, the errors of a call;
    \<open>Rest_Session\<close>: a call and its HTTP session together, down to the result the caller gets.
  \<^item> \<open>Market_Types\<close>, \<open>Order_Types\<close>, \<open>Stream_Types\<close>, \<open>Info_Types\<close>, \<open>Account_Types\<close>, \<open>Reply_Types\<close>, \<open>Outcome_Text\<close>:
    \<open>types/ResponseTypes.h\<close>. A structure is a record; \<open>X_init\<close> is default construction in a declaration, where a
    number without an initialiser is an argument (an indeterminate value), \<open>X_zero\<close> value initialisation.
  \<^item> \<open>Json_Reader\<close>: the reader interface of simdjson as a record of functions with its laws (locale \<open>simdjson\<close>,
    interpreted on JSON trees), and the way a parser uses it: \<open>exit\<close> separates an exception from the partial result a
    \<open>catch\<close> returns. \<open>Rest_Fields\<close>, \<open>Rest_Exchange_Parser\<close>, \<open>Rest_Market_Parser\<close>, \<open>Rest_Order_Parser\<close>,
    \<open>Rest_Staking_Parser\<close>, \<open>Rest_Account_Parser\<close>, \<open>Rest_Message_Parser\<close>: \<open>rest/RestApiMessageParser.cpp\<close>.
    \<open>Stream_Events\<close>, \<open>Ws_Market_Cracker\<close>, \<open>Ws_User_Cracker\<close>, \<open>Ws_Message_Parser\<close>:
    \<open>websocket/WebsocketMessageParser.cpp\<close>; \<open>Base64\<close>, \<open>Inflate\<close>: \<open>websocket/WebsocketParsingUtils.cpp\<close>.
    \<open>Parser_Safety\<close>: which exceptions leave the parsers. \<open>Stream_Typing\<close>: which callbacks a channel can make.
    \<open>Stream_Reads\<close>: the order book, trades, candles and order updates against a reading of each entry on its own.
    \<open>Reply_Round_Trip\<close>: the answer to an order, printed and read back. \<open>Enum_Texts\<close>: the names of the enumerations.

  \<^bold>\<open>Parameters.\<close> Code that is not in the repository is an argument: libsecp256k1 (\<open>secp256k1\<close>), nlohmann JSON
  (\<open>json_ops\<close>; \<open>dump\<close> is taken as total), MessagePack through it, simdjson (\<open>sj_reader\<close>), zlib (\<open>zlib\<close>; the
  \<open>inflate\<close> argument of the parser is \<open>inflate_text\<close> of it), the random number generator, the clock, and the
  network (which completion a session gets). Their documented laws are the assumptions of locales, each interpreted
  on a concrete model, so that no hypothesis of a property is empty.

  \<^bold>\<open>Bounds.\<close> Loops are structural recursions or \<open>function\<close>s with a measure; nothing runs on fuel; the loop over
  zlib, whose end is up to zlib, is a \<open>partial_function\<close> proved to return. Keccak is proved
  for inputs below $2^{32}$ bytes, far above any request. The nonce is a 64-bit word and the clock is assumed to stay
  away from its end. JSON integers are read at their width (\<open>uint64\<close>, \<open>int64\<close>, cast to 32 bits where the source does).

  \<^bold>\<open>Not modelled.\<close> The internals of the libraries above, in particular the one-pass iteration of simdjson's
  on-demand documents (a field can be read twice in the model, and an array is a whole list, so that no iteration error
  occurs in its middle); the callbacks \<open>crack\<close> has made before an exception leaves it (the model returns the exception
  alone); a listener that throws out of the handlers of \<open>Ws_Runner\<close>, which always go on (\<open>Ws_System\<close> ends the run
  there); handlers of the event loop that run in another order than that in which their operations completed or
  were posted; the overflow of asset ids, which \<open>initializeMapping\<close> computes as unbounded integers; what is written to the log; thread start and join
  beyond the runner's event loop; the empty default callbacks of the listener classes; examples, tests and fuzzers.
\<close>

end
